(* ===== verification/Prelude.thy ===== *)
theory Prelude
  imports Complex_Main "HOL-Library.Word" "HOL-Library.AList" "HOL-Library.Multiset"
    "HOL-Library.Log_Nat"
begin

text \<open>
  Shared ground of the development: the reading of Go's scalar types, the clock, Go maps as
  association lists, and the generic lemmas that the component theories use.

  \<^item> A Go \<^verbatim>\<open>int64\<close> or \<^verbatim>\<open>int\<close> is an \<open>int\<close> that is wrapped by \<open>wrap64\<close> wherever the code can overflow;
    counters that are \<^verbatim>\<open>uint64\<close> are \<open>64 word\<close>.
  \<^item> An instant is the number of nanoseconds on the process clock; the zero \<^verbatim>\<open>time.Time\<close> is \<open>0\<close>.
  \<^item> A Go map is an association list with distinct keys; its order stands for the iteration order
    that the runtime picked, so a theorem about every such list covers every order.
\<close>

section \<open>Named collections\<close>

named_theorems gomap_simps "rewriting of lookups in Go maps"
named_theorems wf_intros "preservation of well-formedness"

section \<open>Integers\<close>

type_synonym gotime = int

definition second :: int where
  "second = 1000000000"

definition minute :: int where
  "minute = 60 * second"

definition wrap64 :: "int \<Rightarrow> int" where
  "wrap64 x = (x + 2 ^ 63) mod 2 ^ 64 - 2 ^ 63"

definition max_int64 :: int where
  "max_int64 = 2 ^ 63 - 1"

definition min_int64 :: int where
  "min_int64 = - (2 ^ 63)"

lemma wrap64_range: "min_int64 \<le> wrap64 x" "wrap64 x \<le> max_int64"
proof -
  have "0 \<le> (x + 2 ^ 63) mod 2 ^ 64" "(x + 2 ^ 63) mod 2 ^ 64 < 2 ^ 64"
    by simp_all
  then show "min_int64 \<le> wrap64 x" "wrap64 x \<le> max_int64"
    by (simp_all add: wrap64_def min_int64_def max_int64_def)
qed

lemma wrap64_id: "min_int64 \<le> x \<Longrightarrow> x \<le> max_int64 \<Longrightarrow> wrap64 x = x"
  by (simp add: wrap64_def min_int64_def max_int64_def)

lemma wrap64_sint: "wrap64 x = sint (word_of_int x :: 64 word)"
  by (simp add: wrap64_def sint_uint signed_take_bit_eq_take_bit_shift take_bit_eq_mod
      uint_word_of_int mod_simps)

section \<open>Go maps\<close>

text \<open>Lookup, store and delete; \<open>gm_get_list\<close> reads the nil slice for a missing key.\<close>

type_synonym ('k, 'v) gomap = "('k \<times> 'v) list"

definition gm_ok :: "('k, 'v) gomap \<Rightarrow> bool" where
  "gm_ok m \<longleftrightarrow> distinct (map fst m)"

definition gm_set :: "'k \<Rightarrow> 'v \<Rightarrow> ('k, 'v) gomap \<Rightarrow> ('k, 'v) gomap" where
  "gm_set k v m = AList.update k v m"

definition gm_del :: "'k \<Rightarrow> ('k, 'v) gomap \<Rightarrow> ('k, 'v) gomap" where
  "gm_del k m = filter (\<lambda>p. fst p \<noteq> k) m"

definition gm_get_list :: "('k, 'v list) gomap \<Rightarrow> 'k \<Rightarrow> 'v list" where
  "gm_get_list m k = (case map_of m k of None \<Rightarrow> [] | Some v \<Rightarrow> v)"

definition gm_filter :: "('k \<Rightarrow> 'v \<Rightarrow> bool) \<Rightarrow> ('k, 'v) gomap \<Rightarrow> ('k, 'v) gomap" where
  "gm_filter P m = filter (\<lambda>(k, v). P k v) m"

lemma gm_set_get [gomap_simps, simp]: "map_of (gm_set k v m) = (map_of m)(k \<mapsto> v)"
  by (simp add: gm_set_def update_conv')

lemma gm_del_get [gomap_simps, simp]: "map_of (gm_del k m) = (map_of m)(k := None)"
  by (induction m) (auto simp: gm_del_def fun_eq_iff)

lemma gm_filter_get:
  assumes "gm_ok m"
  shows "map_of (gm_filter P m) k
    = (case map_of m k of None \<Rightarrow> None | Some v \<Rightarrow> if P k v then Some v else None)"
  using assms
proof (induction m)
  case Nil
  then show ?case by (simp add: gm_filter_def)
next
  case (Cons p m)
  obtain a b where p: "p = (a, b)" by (cases p)
  have nm: "map_of m a = None" using Cons.prems by (simp add: gm_ok_def p map_of_eq_None_iff)
  then show ?case using Cons by (auto simp: gm_filter_def gm_ok_def p split: option.splits)
qed

lemma gm_ok_set [wf_intros, simp]: "gm_ok m \<Longrightarrow> gm_ok (gm_set k v m)"
  by (simp add: gm_ok_def gm_set_def distinct_update)

lemma gm_ok_del [wf_intros, simp]: "gm_ok m \<Longrightarrow> gm_ok (gm_del k m)"
  by (induction m) (auto simp: gm_ok_def gm_del_def)

lemma gm_ok_filter [wf_intros, simp]: "gm_ok m \<Longrightarrow> gm_ok (gm_filter P m)"
  by (induction m) (auto simp: gm_ok_def gm_filter_def)

lemma gm_ok_Nil [wf_intros, simp]: "gm_ok []"
  by (simp add: gm_ok_def)

lemma gm_set_length_in: "map_of m k \<noteq> None \<Longrightarrow> length (gm_set k v m) = length m"
  by (induction m) (auto simp: gm_set_def split: if_splits)

lemma gm_set_length_notin: "map_of m k = None \<Longrightarrow> length (gm_set k v m) = Suc (length m)"
  by (induction m) (auto simp: gm_set_def split: if_splits)

lemma gm_set_length_le: "length (gm_set k v m) \<le> Suc (length m)"
  by (cases "map_of m k") (simp_all add: gm_set_length_in gm_set_length_notin)

lemma gm_del_length_le: "length (gm_del k m) \<le> length m"
  by (simp add: gm_del_def)

lemma gm_mem_get: "gm_ok m \<Longrightarrow> (k, v) \<in> set m \<longleftrightarrow> map_of m k = Some v"
  by (simp add: gm_ok_def)

lemma gm_get_list_set [gomap_simps, simp]:
  "gm_get_list (gm_set k v m) k' = (if k' = k then v else gm_get_list m k')"
  by (simp add: gm_get_list_def)

section \<open>Lists\<close>

lemma dropWhile_sorted_filter:
  fixes xs :: "int list"
  assumes "sorted xs"
  shows "dropWhile (\<lambda>t. t < c) xs = filter (\<lambda>t. c \<le> t) xs"
  using assms
proof (induction xs)
  case Nil
  then show ?case by simp
next
  case (Cons x xs)
  then have "c \<le> x \<Longrightarrow> filter (\<lambda>t. c \<le> t) xs = xs"
    by (auto intro!: filter_True)
  with Cons show ?case by auto
qed

lemma sorted_le_last: "sorted xs \<Longrightarrow> t \<in> set xs \<Longrightarrow> t \<le> last (xs :: int list)"
  by (induction xs) auto

lemma sorted_snoc: "sorted (xs @ [t]) \<longleftrightarrow> sorted xs \<and> (\<forall>x\<in>set xs. x \<le> (t :: int))"
  by (auto simp: sorted_append)

lemma dropWhile_twice:
  assumes "\<And>t. P t \<Longrightarrow> Q t"
  shows "dropWhile Q (dropWhile P xs) = dropWhile Q xs"
  by (induction xs) (auto simp: assms)

lemma length_filter_mono:
  assumes "\<And>x. x \<in> set xs \<Longrightarrow> P x \<Longrightarrow> Q x"
  shows "length (filter P xs) \<le> length (filter Q xs)"
  using assms by (induction xs) auto

text \<open>Invariants of Go's range loops, without and with the membership of the element.\<close>

lemma fold_preserves: "(\<And>x s. P s \<Longrightarrow> P (f x s)) \<Longrightarrow> P s \<Longrightarrow> P (fold f xs s)"
  by (induction xs arbitrary: s) auto

lemma fold_invariant_from:
  "P g \<Longrightarrow> (\<And>x g. x \<in> set xs \<Longrightarrow> P g \<Longrightarrow> P (f x g)) \<Longrightarrow> P (fold f xs g)"
  by (induction xs arbitrary: g) auto

section \<open>Errors in sequence\<close>

definition try_bind :: "'e + 'a \<Rightarrow> ('a \<Rightarrow> 'e + 'b) \<Rightarrow> 'e + 'b" where
  "try_bind r f = (case r of Inl e \<Rightarrow> Inl e | Inr a \<Rightarrow> f a)"

definition check :: "bool \<Rightarrow> 'e \<Rightarrow> 'e + unit" where
  "check b e = (if b then Inr () else Inl e)"

definition map_error :: "('e \<Rightarrow> 'f) \<Rightarrow> 'e + 'a \<Rightarrow> 'f + 'a" where
  "map_error f r = (case r of Inl e \<Rightarrow> Inl (f e) | Inr a \<Rightarrow> Inr a)"

named_theorems error_simps "results that are not errors"

lemma try_bind_Inr [error_simps]: "try_bind r f = Inr x \<longleftrightarrow> (\<exists>a. r = Inr a \<and> f a = Inr x)"
  by (cases r) (auto simp: try_bind_def)

lemma check_Inr [error_simps]: "check b e = Inr u \<longleftrightarrow> b"
  by (simp add: check_def)

lemma guard_Inr [error_simps]: "(if b then Inl e else Inr x) = Inr y \<longleftrightarrow> \<not> b \<and> x = y"
  by simp

lemma map_error_Inr [error_simps]: "map_error f r = Inr x \<longleftrightarrow> r = Inr x"
  by (cases r) (auto simp: map_error_def)

lemma try_bind_simps [simp]: "try_bind (Inr a) f = f a" "try_bind (Inl e) f = Inl e"
  by (simp_all add: try_bind_def)

lemma map_error_simps [simp]: "map_error g (Inr a) = Inr a" "map_error g (Inl e) = Inl (g e)"
  by (simp_all add: map_error_def)

end
