(* ===== verification/GoLib.thy ===== *)
theory GoLib
  imports Prelude
begin

text \<open>
  The functions of Go's \<^verbatim>\<open>strings\<close> and \<^verbatim>\<open>net\<close> packages that the program calls, on strings as lists
  of bytes. Case folding and white space are those of ASCII.
\<close>

section \<open>Characters\<close>

definition byte_of :: "char \<Rightarrow> nat" where
  "byte_of c = of_char c"

definition is_digit :: "char \<Rightarrow> bool" where
  "is_digit c \<longleftrightarrow> 48 \<le> byte_of c \<and> byte_of c \<le> 57"

definition hex_val :: "char \<Rightarrow> nat option" where
  "hex_val c =
    (if is_digit c then Some (byte_of c - 48)
     else if 97 \<le> byte_of c \<and> byte_of c \<le> 102 then Some (byte_of c - 87)
     else if 65 \<le> byte_of c \<and> byte_of c \<le> 70 then Some (byte_of c - 55) else None)"

definition is_hex :: "char \<Rightarrow> bool" where
  "is_hex c \<longleftrightarrow> hex_val c \<noteq> None"

definition is_space :: "char \<Rightarrow> bool" where
  "is_space c \<longleftrightarrow> byte_of c = 32 \<or> 9 \<le> byte_of c \<and> byte_of c \<le> 13"

definition lower_char :: "char \<Rightarrow> char" where
  "lower_char c = (if 65 \<le> byte_of c \<and> byte_of c \<le> 90 then char_of (byte_of c + 32) else c)"

section \<open>Strings\<close>

definition ToLower :: "string \<Rightarrow> string" where
  "ToLower s = map lower_char s"

definition TrimSpace :: "string \<Rightarrow> string" where
  "TrimSpace s = rev (dropWhile is_space (rev (dropWhile is_space s)))"

definition HasPrefix :: "string \<Rightarrow> string \<Rightarrow> bool" where
  "HasPrefix s p \<longleftrightarrow> take (length p) s = p"

definition HasSuffix :: "string \<Rightarrow> string \<Rightarrow> bool" where
  "HasSuffix s p \<longleftrightarrow> HasPrefix (rev s) (rev p)"

definition TrimPrefix :: "string \<Rightarrow> string \<Rightarrow> string" where
  "TrimPrefix s p = (if HasPrefix s p then drop (length p) s else s)"

definition TrimSuffix :: "string \<Rightarrow> string \<Rightarrow> string" where
  "TrimSuffix s p = (if HasSuffix s p then take (length s - length p) s else s)"

definition TrimRight :: "string \<Rightarrow> char \<Rightarrow> string" where
  "TrimRight s c = rev (dropWhile (\<lambda>x. x = c) (rev s))"

text \<open>\<open>IndexOf\<close> is \<^verbatim>\<open>strings.Index\<close>: the first offset at which the substring starts.\<close>

fun IndexOf :: "string \<Rightarrow> string \<Rightarrow> nat option" where
  "IndexOf [] p = (if p = [] then Some 0 else None)"
| "IndexOf (c # s) p = (if HasPrefix (c # s) p then Some 0 else map_option Suc (IndexOf s p))"

definition Contains :: "string \<Rightarrow> string \<Rightarrow> bool" where
  "Contains s p \<longleftrightarrow> IndexOf s p \<noteq> None"

fun Split :: "char \<Rightarrow> string \<Rightarrow> string list" where
  "Split c [] = [[]]"
| "Split c (x # xs) =
    (if x = c then [] # Split c xs
     else case Split c xs of [] \<Rightarrow> [[x]] | w # ws \<Rightarrow> (x # w) # ws)"

fun Join :: "string \<Rightarrow> string list \<Rightarrow> string" where
  "Join sep [] = []"
| "Join sep [w] = w"
| "Join sep (w # v # ws) = w @ sep @ Join sep (v # ws)"

definition dec_value :: "string \<Rightarrow> nat" where
  "dec_value s = foldl (\<lambda>n c. 10 * n + (byte_of c - 48)) 0 s"

definition hex_value :: "string \<Rightarrow> nat" where
  "hex_value s = foldl (\<lambda>n c. 16 * n + (case hex_val c of Some d \<Rightarrow> d | None \<Rightarrow> 0)) 0 s"

text \<open>\<open>itoa\<close> is \<^verbatim>\<open>strconv.Itoa\<close>.\<close>

fun nat_digits :: "nat \<Rightarrow> string" where
  "nat_digits n = (if n < 10 then [char_of (48 + n)] else nat_digits (n div 10) @ [char_of (48 + n mod 10)])"

declare nat_digits.simps [simp del]

definition itoa :: "int \<Rightarrow> string" where
  "itoa i = (if i < 0 then CHR ''-'' # nat_digits (nat (- i)) else nat_digits (nat i))"

lemma Split_nonempty [simp]: "Split c s \<noteq> []"
  by (induction c s rule: Split.induct) (auto split: list.splits)

lemma Split_append: "Split c (s @ c # t) = Split c s @ Split c t"
  by (induction c s rule: Split.induct) (auto split: list.splits)

lemma Split_no_sep: "c \<notin> set s \<Longrightarrow> Split c s = [s]"
  by (induction s) auto

lemma Split_Join:
  "ws \<noteq> [] \<Longrightarrow> \<forall>w\<in>set ws. c \<notin> set w \<Longrightarrow> Split c (Join [c] ws) = ws"
proof (induction "[c]" ws rule: Join.induct)
  case (3 w v ws)
  then show ?case by (simp add: Split_append Split_no_sep)
qed (auto simp: Split_no_sep)

lemma Join_Split: "Join [c] (Split c s) = s"
proof (induction s)
  case (Cons x s)
  obtain w ws where w: "Split c s = w # ws" by (cases "Split c s") auto
  with Cons show ?case by (cases ws) auto
qed simp

lemma HasPrefix_append [simp]: "HasPrefix (p @ s) p"
  by (simp add: HasPrefix_def)

lemma HasPrefix_iff: "HasPrefix s p \<longleftrightarrow> (\<exists>t. s = p @ t)"
  by (metis HasPrefix_append HasPrefix_def append_take_drop_id)

section \<open>Addresses\<close>

text \<open>
  \<^verbatim>\<open>net.IP\<close> as \<^verbatim>\<open>net.ParseIP\<close> returns it: sixteen bytes, an IPv4 address in its mapped form.
\<close>

type_synonym ip_addr = "nat list"

definition parse_octet :: "string \<Rightarrow> nat option" where
  "parse_octet s =
    (if s \<noteq> [] \<and> list_all is_digit s \<and> (length s > 1 \<longrightarrow> hd s \<noteq> CHR ''0'') \<and> dec_value s \<le> 255
     then Some (dec_value s) else None)"

definition parseIPv4 :: "string \<Rightarrow> nat list option" where
  "parseIPv4 s =
    (case map parse_octet (Split CHR ''.'' s) of
       [Some a, Some b, Some c, Some d] \<Rightarrow> Some [a, b, c, d]
     | _ \<Rightarrow> None)"

text \<open>
  The loop of \<^verbatim>\<open>netip.parseIPv6\<close>: \<open>i\<close> bytes are read into \<open>acc\<close>, \<open>ell\<close> is where the double colon was.
\<close>

function v6_groups :: "nat \<Rightarrow> nat list \<Rightarrow> nat option \<Rightarrow> string \<Rightarrow> (nat list \<times> nat option \<times> string) option"
where
  "v6_groups i acc ell s =
    (if 16 \<le> i then Some (acc, ell, s) else
     let hex = takeWhile is_hex s; rest = dropWhile is_hex s;
         acc1 = acc @ [hex_value hex div 256, hex_value hex mod 256]
     in if hex = [] \<or> 4 < length hex then None
        else if rest = [] then Some (acc1, ell, [])
        else if hd rest = CHR ''.'' then
          (if ell = None \<and> i \<noteq> 12 \<or> 16 < i + 4 then None
           else map_option (\<lambda>b. (acc @ b, ell, [])) (parseIPv4 s))
        else if hd rest \<noteq> CHR '':'' \<or> tl rest = [] then None
        else if hd (tl rest) = CHR '':'' then
          (if ell \<noteq> None then None
           else if tl (tl rest) = [] then Some (acc1, Some (i + 2), [])
           else v6_groups (i + 2) acc1 (Some (i + 2)) (tl (tl rest)))
        else v6_groups (i + 2) acc1 ell (tl rest))"
  by pat_completeness auto
termination
proof (relation "measure (\<lambda>(i, acc, ell, s). 16 - i)", goal_cases)
  case 1
  then show ?case by simp
qed auto

declare v6_groups.simps [simp del]

definition parseIPv6 :: "string \<Rightarrow> ip_addr option" where
  "parseIPv6 s =
    (let dbl = HasPrefix s ''::'';
         s1 = (if dbl then drop 2 s else s)
     in if dbl \<and> s1 = [] then Some (replicate 16 0)
        else case v6_groups 0 [] (if dbl then Some 0 else None) s1 of
          None \<Rightarrow> None
        | Some (acc, ell, rest) \<Rightarrow>
            if rest \<noteq> [] then None
            else case ell of
              None \<Rightarrow> if length acc < 16 then None else Some acc
            | Some e \<Rightarrow>
                if length acc < 16 then Some (take e acc @ replicate (16 - length acc) 0 @ drop e acc)
                else None)"

definition ParseIP :: "string \<Rightarrow> ip_addr option" where
  "ParseIP s =
    (case dropWhile (\<lambda>c. c \<noteq> CHR ''.'' \<and> c \<noteq> CHR '':'' \<and> c \<noteq> CHR ''%'') s of
       [] \<Rightarrow> None
     | c # _ \<Rightarrow>
         if c = CHR ''.'' then map_option (\<lambda>b. replicate 10 0 @ [255, 255] @ b) (parseIPv4 s)
         else if c = CHR '':'' \<and> CHR ''%'' \<notin> set s then parseIPv6 s
         else None)"

definition To4 :: "ip_addr \<Rightarrow> nat list option" where
  "To4 ip =
    (if length ip = 4 then Some ip
     else if length ip = 16 \<and> take 12 ip = replicate 10 0 @ [255, 255] then Some (drop 12 ip)
     else None)"

definition IsLoopback :: "ip_addr \<Rightarrow> bool" where
  "IsLoopback ip = (case To4 ip of Some b \<Rightarrow> hd b = 127 | None \<Rightarrow> ip = replicate 15 0 @ [1])"

text \<open>A network as \<^verbatim>\<open>net.ParseCIDR\<close> returns it: address and mask, both of four or sixteen bytes.\<close>

record ip_net =
  net_ip :: "nat list"
  net_mask :: "nat list"

definition and_bytes :: "nat list \<Rightarrow> nat list \<Rightarrow> nat list" where
  "and_bytes xs ys = map2 (\<lambda>x y. Bit_Operations.and x y) xs ys"

definition net_contains :: "ip_net \<Rightarrow> ip_addr \<Rightarrow> bool" where
  "net_contains n ip =
    (let nn = (case To4 (net_ip n) of Some b \<Rightarrow> b | None \<Rightarrow> net_ip n);
         m = (if length (net_mask n) = 16 \<and> length nn = 4 then drop 12 (net_mask n) else net_mask n);
         x = (case To4 ip of Some b \<Rightarrow> b | None \<Rightarrow> ip)
     in length m = length nn \<and> length x = length nn \<and> and_bytes nn m = and_bytes x m)"

text \<open>\<^verbatim>\<open>net.SplitHostPort\<close>: \<open>None\<close> is its error.\<close>

definition SplitHostPort :: "string \<Rightarrow> (string \<times> string) option" where
  "SplitHostPort s =
    (if CHR '':'' \<notin> set s then None
     else
       let port = rev (takeWhile (\<lambda>c. c \<noteq> CHR '':'') (rev s));
           i = length s - length port - 1
       in if hd s = CHR ''['' then
            (if CHR '']'' \<notin> set s then None
             else let host = takeWhile (\<lambda>c. c \<noteq> CHR '']'') (tl s);
                      e = length host + 1
                  in if e + 1 \<noteq> i then None
                     else if CHR ''['' \<in> set (tl s) \<or> CHR '']'' \<in> set (drop (e + 1) s) then None
                     else Some (host, port))
          else
            let host = take i s
            in if CHR '':'' \<in> set host \<or> CHR ''['' \<in> set s \<or> CHR '']'' \<in> set s then None
               else Some (host, port))"

section \<open>Bytes\<close>

text \<open>\<^verbatim>\<open>utf8.Valid\<close>, and unpadded URL base64.\<close>

definition cont_byte :: "nat \<Rightarrow> bool" where
  "cont_byte b \<longleftrightarrow> 128 \<le> b \<and> b \<le> 191"

fun utf8_valid :: "nat list \<Rightarrow> bool" where
  "utf8_valid [] = True"
| "utf8_valid (a # bs) =
    (if a < 128 then utf8_valid bs
     else case bs of
       [] \<Rightarrow> False
     | b # cs \<Rightarrow>
       if 194 \<le> a \<and> a \<le> 223 then cont_byte b \<and> utf8_valid cs
       else case cs of
         [] \<Rightarrow> False
       | c # ds \<Rightarrow>
         if a = 224 then 160 \<le> b \<and> b \<le> 191 \<and> cont_byte c \<and> utf8_valid ds
         else if a = 237 then 128 \<le> b \<and> b \<le> 159 \<and> cont_byte c \<and> utf8_valid ds
         else if 225 \<le> a \<and> a \<le> 239 then cont_byte b \<and> cont_byte c \<and> utf8_valid ds
         else case ds of
           [] \<Rightarrow> False
         | d # es \<Rightarrow>
           if a = 240 then 144 \<le> b \<and> b \<le> 191 \<and> cont_byte c \<and> cont_byte d \<and> utf8_valid es
           else if 241 \<le> a \<and> a \<le> 243 then cont_byte b \<and> cont_byte c \<and> cont_byte d \<and> utf8_valid es
           else if a = 244 then 128 \<le> b \<and> b \<le> 143 \<and> cont_byte c \<and> cont_byte d \<and> utf8_valid es
           else False)"

definition b64_char :: "nat \<Rightarrow> char" where
  "b64_char n = (''ABCDEFGHIJKLMNOPQRSTUVWXYZabcdefghijklmnopqrstuvwxyz0123456789-_'' ! n)"

fun RawURLEncoding :: "nat list \<Rightarrow> string" where
  "RawURLEncoding [] = []"
| "RawURLEncoding [a] = [b64_char (a div 4), b64_char (a mod 4 * 16)]"
| "RawURLEncoding [a, b] = [b64_char (a div 4), b64_char (a mod 4 * 16 + b div 16), b64_char (b mod 16 * 4)]"
| "RawURLEncoding (a # b # c # ds) =
    [b64_char (a div 4), b64_char (a mod 4 * 16 + b div 16), b64_char (b mod 16 * 4 + c div 64),
     b64_char (c mod 64)] @ RawURLEncoding ds"

text \<open>\<^verbatim>\<open>strconv.ParseInt\<close> to base ten and 64 bits; \<open>None\<close> is a syntax or range error.\<close>

definition ParseInt :: "string \<Rightarrow> int option" where
  "ParseInt s =
    (let neg = (s \<noteq> [] \<and> hd s = CHR ''-'');
         ds = (if s \<noteq> [] \<and> (hd s = CHR ''-'' \<or> hd s = CHR ''+'') then tl s else s);
         v = (if neg then - int (dec_value ds) else int (dec_value ds))
     in if ds = [] \<or> \<not> list_all is_digit ds \<or> v < min_int64 \<or> max_int64 < v then None else Some v)"

text \<open>\<^verbatim>\<open>strings.ReplaceAll\<close> for a non-empty pattern.\<close>

function ReplaceAll :: "string \<Rightarrow> string \<Rightarrow> string \<Rightarrow> string" where
  "ReplaceAll [] old new = []"
| "ReplaceAll (c # s) old new =
    (if old \<noteq> [] \<and> HasPrefix (c # s) old then new @ ReplaceAll (drop (length old) (c # s)) old new
     else c # ReplaceAll s old new)"
  by pat_completeness auto
termination by (relation "measure (\<lambda>(s, _, _). length s)") auto

end
