(* ===== verification/LogBuf.thy ===== *)
theory LogBuf
  imports GoLib
begin

text \<open>
  The log capture of \<^verbatim>\<open>internal/logbuf/logbuf.go\<close>: a ring buffer shared by all handlers that are
  derived from one, and the handlers' accumulated attributes and group prefix. The wrapped
  handler is represented by the calls made to it.
\<close>

section \<open>The ring\<close>

record 'v entry =
  Time :: gotime
  Level :: string
  Message :: string
  Attrs :: "(string, 'v) gomap"

record 'v ring =
  buf :: "'v entry option list"
  pos :: nat
  size_of :: nat
  count :: nat

definition DefaultSize :: int where
  "DefaultSize = 500"

definition new_ring :: "nat \<Rightarrow> 'v ring" where
  "new_ring n = \<lparr>buf = replicate n None, pos = 0, size_of = n, count = 0\<rparr>"

definition put :: "'v entry \<Rightarrow> 'v ring \<Rightarrow> 'v ring" where
  "put e c = c\<lparr>buf := (buf c)[pos c := Some e],
               pos := (pos c + 1) mod size_of c,
               count := (if count c < size_of c then count c + 1 else count c)\<rparr>"

definition entries :: "'v ring \<Rightarrow> 'v entry list" where
  "entries c =
    (if count c < size_of c then map the (take (count c) (buf c))
     else map the (drop (pos c) (buf c) @ take (pos c) (buf c)))"

definition ring_inv :: "'v ring \<Rightarrow> bool" where
  "ring_inv c \<longleftrightarrow> 0 < size_of c \<and> length (buf c) = size_of c \<and> pos c < size_of c
    \<and> count c \<le> size_of c \<and> (count c < size_of c \<longrightarrow> pos c = count c)"

section \<open>Records and handlers\<close>

text \<open>\<open>level_string\<close> is \<^verbatim>\<open>slog.Level.String\<close>.\<close>

definition level_offset :: "string \<Rightarrow> int \<Rightarrow> string" where
  "level_offset base v = (if v = 0 then base else base @ (if v < 0 then itoa v else CHR ''+'' # itoa v))"

definition level_string :: "int \<Rightarrow> string" where
  "level_string l =
    (if l < 0 then level_offset ''DEBUG'' (l + 4)
     else if l < 4 then level_offset ''INFO'' l
     else if l < 8 then level_offset ''WARN'' (l - 4)
     else level_offset ''ERROR'' (l - 8))"

record 'v log_record =
  rec_time :: gotime
  rec_level :: int
  rec_message :: string
  rec_attrs :: "(string \<times> 'v) list"

datatype 'v inner_call = InnerAttrs "(string \<times> 'v) list" | InnerGroup string

record 'v handler =
  inner :: "'v inner_call list"
  hattrs :: "(string, 'v) gomap"
  group :: string

definition put_attrs :: "string \<Rightarrow> (string \<times> 'v) list \<Rightarrow> (string, 'v) gomap \<Rightarrow> (string, 'v) gomap" where
  "put_attrs prefix as m = foldl (\<lambda>m (k, v). gm_set (prefix @ k) v m) m as"

definition core_add :: "'v log_record \<Rightarrow> (string, 'v) gomap \<Rightarrow> string \<Rightarrow> 'v ring \<Rightarrow> 'v ring" where
  "core_add r base groupPath c =
    put \<lparr>Time = rec_time r, Level = level_string (rec_level r), Message = rec_message r,
         Attrs = put_attrs groupPath (rec_attrs r) base\<rparr> c"

definition New :: "int \<Rightarrow> 'v handler \<times> 'v ring" where
  "New n = (let n = (if n \<le> 0 then DefaultSize else n)
            in (\<lparr>inner = [], hattrs = [], group = []\<rparr>, new_ring (nat n)))"

text \<open>\<open>Handle\<close> returns the ring and what it forwards: the inner handler and the record.\<close>

definition Handle :: "'v handler \<Rightarrow> 'v log_record \<Rightarrow> 'v ring \<Rightarrow> 'v ring \<times> 'v inner_call list \<times> 'v log_record" where
  "Handle h r c = (core_add r (hattrs h) (group h) c, inner h, r)"

definition WithAttrs :: "(string \<times> 'v) list \<Rightarrow> 'v handler \<Rightarrow> 'v handler" where
  "WithAttrs as h = h\<lparr>inner := inner h @ [InnerAttrs as], hattrs := put_attrs (group h) as (hattrs h)\<rparr>"

definition WithGroup :: "string \<Rightarrow> 'v handler \<Rightarrow> 'v handler" where
  "WithGroup name h = (if name = [] then h
     else h\<lparr>inner := inner h @ [InnerGroup name], group := group h @ name @ ''.''\<rparr>)"

section \<open>The ring holds the last entries\<close>

lemma new_ring_inv: "0 < n \<Longrightarrow> ring_inv (new_ring n)"
  by (simp add: ring_inv_def new_ring_def)

lemma put_inv: "ring_inv c \<Longrightarrow> ring_inv (put e c)"
  by (auto simp: ring_inv_def put_def mod_Suc)

lemma put_size [simp]: "size_of (put e c) = size_of c"
  by (simp add: put_def)

lemma length_entries: "ring_inv c \<Longrightarrow> length (entries c) = count c"
  by (auto simp: ring_inv_def entries_def)

lemma entries_put_room:
  assumes "ring_inv c" "count c < size_of c"
  shows "entries (put e c) = entries c @ [e]"
proof (cases "Suc (count c) < size_of c")
  case True
  with assms show ?thesis
    by (simp add: entries_def put_def ring_inv_def take_Suc_conv_app_nth)
next
  case False
  with assms have "size_of c = Suc (count c)" "pos c = count c" "length (buf c) = Suc (count c)"
    by (auto simp: ring_inv_def)
  then show ?thesis
    by (simp add: entries_def put_def take_Suc_conv_app_nth[symmetric] list_update_append
        take_update_cancel upd_conv_take_nth_drop)
qed

lemma entries_put_full:
  assumes "ring_inv c" "\<not> count c < size_of c"
  shows "entries (put e c) = tl (entries c) @ [e]"
proof -
  have b: "length (buf c) = size_of c" "pos c < size_of c" using assms by (auto simp: ring_inv_def)
  then obtain x where x: "drop (pos c) (buf c) = x # drop (Suc (pos c)) (buf c)"
    by (metis Cons_nth_drop_Suc)
  have t: "take (Suc (pos c)) ((buf c)[pos c := Some e]) = take (pos c) (buf c) @ [Some e]"
    using b by (simp add: take_Suc_conv_app_nth)
  show ?thesis
  proof (cases "Suc (pos c) = size_of c")
    case True
    with b x t assms(2) show ?thesis
      by (simp add: entries_def put_def upd_conv_take_nth_drop)
  next
    case False
    with b x t assms(2) show ?thesis
      by (simp add: entries_def put_def)
  qed
qed

lemma entries_run:
  assumes "ring_inv c"
  shows "entries (fold put es c) = drop (length (entries c @ es) - size_of c) (entries c @ es)"
  using assms
proof (induction es arbitrary: c)
  case Nil
  then show ?case using length_entries[OF Nil] by (simp add: ring_inv_def)
next
  case (Cons e es)
  have L: "length (entries c) = count c" "count c \<le> size_of c" "0 < size_of c"
    using Cons.prems length_entries by (auto simp: ring_inv_def)
  show ?case
  proof (cases "count c < size_of c")
    case True
    then show ?thesis using Cons.IH[OF put_inv[OF Cons.prems]] entries_put_room[OF Cons.prems] by simp
  next
    case False
    then obtain x xs where xs: "entries c = x # xs" "length xs + 1 = size_of c"
      using L by (cases "entries c") auto
    then show ?thesis
      using Cons.IH[OF put_inv[OF Cons.prems]] entries_put_full[OF Cons.prems False] L
      by (simp add: Suc_diff_le)
  qed
qed

text \<open>
  The log view is exactly the most recent records, oldest first: after any records, the
  buffer of a handler made with any size holds the last of them, as many as its size (500 when
  the size is not positive).
\<close>

theorem log_buffer_keeps_last:
  "entries (fold put es (snd (New n)))
    = drop (length es - nat (if n \<le> 0 then DefaultSize else n)) es"
proof -
  have "ring_inv (snd (New n))" by (auto simp: New_def Let_def DefaultSize_def intro!: new_ring_inv)
  from entries_run[OF this, of es] show ?thesis
    by (simp add: New_def Let_def new_ring_def entries_def DefaultSize_def)
qed

section \<open>Context of derived handlers\<close>

lemma put_attrs_get:
  "map_of (put_attrs p as m) k
    = (case map_of (rev (map (\<lambda>(a, v). (p @ a, v)) as)) k of Some v \<Rightarrow> Some v | None \<Rightarrow> map_of m k)"
  by (induction as arbitrary: m) (auto simp: put_attrs_def map_add_def split: option.splits)

definition group_path :: "'v handler \<Rightarrow> string list \<Rightarrow> string" where
  "group_path h gs = group h @ concat (map (\<lambda>g. g @ ''.'') (filter (\<lambda>g. g \<noteq> []) gs))"

definition open_groups :: "'v handler \<Rightarrow> string list \<Rightarrow> 'v handler" where
  "open_groups h gs = foldl (\<lambda>h g. WithGroup g h) h gs"

lemma open_groups_group: "group (open_groups h gs) = group_path h gs"
  by (induction gs arbitrary: h) (auto simp: open_groups_def group_path_def WithGroup_def)

lemma open_groups_attrs: "hattrs (open_groups h gs) = hattrs h"
  by (induction gs arbitrary: h) (auto simp: open_groups_def WithGroup_def)

text \<open>
  A buffered record keeps the context of its handler: with groups \<open>gs\<close> opened and then
  attributes \<open>as\<close> added to a handler, the entry of a record maps a dotted, group-qualified key
  to the record's own last value for it, else to the last added attribute's, else to what the
  outer handler carried.
\<close>

theorem buffered_entry_keeps_context:
  "\<exists>e. fst (Handle (WithAttrs as (open_groups h gs)) r c) = put e c \<and> Message e = rec_message r
    \<and> map_of (Attrs e) k =
      (case map_of (rev (map (\<lambda>(a, v). (group_path h gs @ a, v)) (rec_attrs r))) k of
         Some v \<Rightarrow> Some v
       | None \<Rightarrow> (case map_of (rev (map (\<lambda>(a, v). (group_path h gs @ a, v)) as)) k of
            Some v \<Rightarrow> Some v | None \<Rightarrow> map_of (hattrs h) k))"
  unfolding Handle_def core_add_def WithAttrs_def fst_conv
  by (intro exI conjI, rule refl) (simp_all add: put_attrs_get open_groups_group open_groups_attrs split: option.split)

end
