(* ===== verification/UserStore.thy ===== *)
theory UserStore
  imports Prelude
begin

text \<open>
  The user table of \<^verbatim>\<open>internal/store/store.go\<close>: its rows with the constraints that the migrations
  create, and one function per method, each SQL statement as the update it makes. Ids come from
  an AUTOINCREMENT counter. The database may be unreachable (\<open>db_up = False\<close>), which every
  method reports. Bcrypt is a parameter: \<open>gen\<close> hashes (it may fail) and \<open>cmp\<close> compares.
\<close>

section \<open>Rows, users, errors\<close>

definition RoleAdmin :: string where "RoleAdmin = ''admin''"
definition RoleViewer :: string where "RoleViewer = ''viewer''"
definition ProviderLocal :: string where "ProviderLocal = ''local''"

record user_row =
  r_id :: int
  r_username :: string
  r_password_hash :: "string option"
  r_role :: string
  r_auth_provider :: string
  r_external_subject :: "string option"
  r_display_name :: string
  r_email :: string
  r_created_at :: gotime
  r_last_login :: "gotime option"
  r_failed_attempts :: int
  r_last_failed_at :: "gotime option"
  r_must_change_password :: bool
  r_token_version :: int

record user =
  ID :: int
  Username :: string
  Role :: string
  AuthProvider :: string
  ExternalSubject :: string
  DisplayName :: string
  Email :: string
  CreatedAt :: gotime
  LastLogin :: "gotime option"
  FailedAttempts :: int
  LastFailedAt :: "gotime option"
  MustChangePassword :: bool
  SessionVersion :: int

record store =
  users :: "user_row list"
  next_id :: int
  db_up :: bool

datatype store_error =
    CredentialsRequired | InvalidRole | HashFailed | InsertFailed | InvalidCredentials
  | AccountLocked | DbFailed | NoRows | InvalidProvider | SubjectRequired | NewPasswordRequired
  | UserNotFound | InvalidOldPassword | LastLocalAdmin | BootstrapTooShort

definition MinPasswordLength :: nat where "MinPasswordLength = 8"
definition maxFailedAttempts :: int where "maxFailedAttempts = 10"
definition lockoutWindow :: int where "lockoutWindow = 15 * minute"

definition row_user :: "user_row \<Rightarrow> user" where
  "row_user r = \<lparr>ID = r_id r, Username = r_username r, Role = r_role r,
     AuthProvider = r_auth_provider r,
     ExternalSubject = (case r_external_subject r of None \<Rightarrow> [] | Some s \<Rightarrow> s),
     DisplayName = r_display_name r, Email = r_email r, CreatedAt = r_created_at r,
     LastLogin = r_last_login r, FailedAttempts = r_failed_attempts r,
     LastFailedAt = r_last_failed_at r, MustChangePassword = r_must_change_password r,
     SessionVersion = r_token_version r\<rparr>"

definition local_admin :: "user_row \<Rightarrow> bool" where
  "local_admin r \<longleftrightarrow> r_auth_provider r = ProviderLocal \<and> r_role r = RoleAdmin"

definition update_id :: "int \<Rightarrow> (user_row \<Rightarrow> user_row) \<Rightarrow> store \<Rightarrow> store" where
  "update_id i f st = st\<lparr>users := map (\<lambda>r. if r_id r = i then f r else r) (users st)\<rparr>"

section \<open>Creating and reading users\<close>

definition UserCount :: "store \<Rightarrow> store_error + nat" where
  "UserCount st = (if db_up st then Inr (length (users st)) else Inl DbFailed)"

definition insert_row :: "user_row \<Rightarrow> store \<Rightarrow> store" where
  "insert_row r st = st\<lparr>users := users st @ [r\<lparr>r_id := next_id st\<rparr>], next_id := next_id st + 1\<rparr>"

definition local_row :: "gotime \<Rightarrow> string \<Rightarrow> string \<Rightarrow> string \<Rightarrow> user_row" where
  "local_row now username hash role = \<lparr>r_id = 0, r_username = username, r_password_hash = Some hash,
     r_role = role, r_auth_provider = ProviderLocal, r_external_subject = None,
     r_display_name = [], r_email = [], r_created_at = now, r_last_login = None,
     r_failed_attempts = 0, r_last_failed_at = None, r_must_change_password = False,
     r_token_version = 0\<rparr>"

definition find_local :: "string \<Rightarrow> store \<Rightarrow> user_row option" where
  "find_local username st =
    find (\<lambda>r. r_auth_provider r = ProviderLocal \<and> r_username r = username) (users st)"

definition find_external :: "string \<Rightarrow> string \<Rightarrow> store \<Rightarrow> user_row option" where
  "find_external provider subject st =
    find (\<lambda>r. r_auth_provider r = provider \<and> r_external_subject r = Some subject) (users st)"

definition CreateUser :: "(string \<Rightarrow> string option) \<Rightarrow> gotime \<Rightarrow> string \<Rightarrow> string \<Rightarrow> string
    \<Rightarrow> store \<Rightarrow> (store_error + user) \<times> store" where
  "CreateUser gen now username password role st =
    (if username = [] \<or> password = [] then (Inl CredentialsRequired, st)
     else if role \<noteq> RoleAdmin \<and> role \<noteq> RoleViewer then (Inl InvalidRole, st)
     else case gen password of
       None \<Rightarrow> (Inl HashFailed, st)
     | Some hash \<Rightarrow>
         if \<not> db_up st \<or> find_local username st \<noteq> None then (Inl InsertFailed, st)
         else (Inr (row_user (local_row now username hash role\<lparr>r_id := next_id st\<rparr>)),
               insert_row (local_row now username hash role) st))"

definition GetUser :: "int \<Rightarrow> store \<Rightarrow> store_error + user" where
  "GetUser i st =
    (if \<not> db_up st then Inl DbFailed
     else case find (\<lambda>r. r_id r = i) (users st) of
       None \<Rightarrow> Inl NoRows
     | Some r \<Rightarrow> Inr (row_user r))"

record session_state =
  ss_Role :: string
  ss_SessionVersion :: int
  ss_MustChangePassword :: bool

definition GetSessionState :: "int \<Rightarrow> store \<Rightarrow> store_error + session_state" where
  "GetSessionState i st =
    (if \<not> db_up st then Inl DbFailed
     else case find (\<lambda>r. r_id r = i) (users st) of
       None \<Rightarrow> Inl NoRows
     | Some r \<Rightarrow> Inr \<lparr>ss_Role = r_role r, ss_SessionVersion = r_token_version r,
                    ss_MustChangePassword = r_must_change_password r\<rparr>)"

definition ListUsers :: "store \<Rightarrow> store_error + user list" where
  "ListUsers st = (if db_up st then Inr (map row_user (sort_key r_id (users st))) else Inl DbFailed)"

section \<open>Signing in\<close>

definition Authenticate :: "(string \<Rightarrow> string \<Rightarrow> bool) \<Rightarrow> gotime \<Rightarrow> string \<Rightarrow> string
    \<Rightarrow> store \<Rightarrow> (store_error + user) \<times> store" where
  "Authenticate cmp now username password st =
    (if \<not> db_up st then (Inl DbFailed, st)
     else case find_local username st of
       None \<Rightarrow> (Inl InvalidCredentials, st)
     | Some r \<Rightarrow> (case r_password_hash r of
         None \<Rightarrow> (Inl DbFailed, st)
       | Some hash \<Rightarrow>
           if r_failed_attempts r \<ge> maxFailedAttempts
              \<and> (case r_last_failed_at r of None \<Rightarrow> False | Some t \<Rightarrow> now - t < lockoutWindow)
           then (Inl AccountLocked, st)
           else if \<not> cmp hash password then
             (Inl InvalidCredentials,
              update_id (r_id r) (\<lambda>r. r\<lparr>r_failed_attempts := r_failed_attempts r + 1,
                                      r_last_failed_at := Some now\<rparr>) st)
           else
             (Inr ((row_user r)\<lparr>FailedAttempts := 0, LastFailedAt := None\<rparr>),
              update_id (r_id r) (\<lambda>r. r\<lparr>r_last_login := Some now, r_failed_attempts := 0\<rparr>) st)))"

definition external_row :: "gotime \<Rightarrow> string \<Rightarrow> string \<Rightarrow> string \<Rightarrow> string \<Rightarrow> string \<Rightarrow> string \<Rightarrow> user_row" where
  "external_row now provider subject username displayName email role =
    \<lparr>r_id = 0, r_username = username, r_password_hash = None, r_role = role,
     r_auth_provider = provider, r_external_subject = Some subject, r_display_name = displayName,
     r_email = email, r_created_at = now, r_last_login = Some now, r_failed_attempts = 0,
     r_last_failed_at = None, r_must_change_password = False, r_token_version = 0\<rparr>"

definition UpsertExternalUser :: "gotime \<Rightarrow> string \<Rightarrow> string \<Rightarrow> string \<Rightarrow> string \<Rightarrow> string \<Rightarrow> string
    \<Rightarrow> store \<Rightarrow> (store_error + user) \<times> store" where
  "UpsertExternalUser now provider subject username displayName email role st =
    (if provider = [] \<or> provider = ProviderLocal then (Inl InvalidProvider, st)
     else if subject = [] \<or> username = [] then (Inl SubjectRequired, st)
     else if role \<noteq> RoleAdmin \<and> role \<noteq> RoleViewer then (Inl InvalidRole, st)
     else if \<not> db_up st then (Inl DbFailed, st)
     else
       let st1 = (case find_external provider subject st of
             None \<Rightarrow> insert_row (external_row now provider subject username displayName email role) st
           | Some r \<Rightarrow> update_id (r_id r) (\<lambda>r. r\<lparr>r_username := username, r_role := role,
               r_display_name := displayName, r_email := email, r_last_login := Some now,
               r_failed_attempts := 0,
               r_token_version := r_token_version r + (if r_role r \<noteq> role then 1 else 0)\<rparr>) st)
       in (case find_external provider subject st1 of
             None \<Rightarrow> (Inl NoRows, st1)
           | Some r \<Rightarrow> (Inr (row_user r), st1)))"

section \<open>Changing and removing users\<close>

definition ChangePassword :: "(string \<Rightarrow> string option) \<Rightarrow> (string \<Rightarrow> string \<Rightarrow> bool) \<Rightarrow> int \<Rightarrow> string
    \<Rightarrow> string \<Rightarrow> store \<Rightarrow> store_error option \<times> store" where
  "ChangePassword gen cmp userID oldPassword newPassword st =
    (if newPassword = [] then (Some NewPasswordRequired, st)
     else if \<not> db_up st then (Some UserNotFound, st)
     else case find (\<lambda>r. r_id r = userID \<and> r_auth_provider r = ProviderLocal) (users st) of
       None \<Rightarrow> (Some UserNotFound, st)
     | Some r \<Rightarrow> (case r_password_hash r of
         None \<Rightarrow> (Some UserNotFound, st)
       | Some hash \<Rightarrow>
           if \<not> cmp hash oldPassword then (Some InvalidOldPassword, st)
           else case gen newPassword of
             None \<Rightarrow> (Some HashFailed, st)
           | Some newHash \<Rightarrow>
               (None, update_id userID (\<lambda>r. r\<lparr>r_password_hash := Some newHash,
                   r_must_change_password := False, r_token_version := r_token_version r + 1\<rparr>) st)))"

definition BumpTokenVersion :: "int \<Rightarrow> store \<Rightarrow> store_error option \<times> store" where
  "BumpTokenVersion userID st =
    (if \<not> db_up st then (Some DbFailed, st)
     else (None, update_id userID (\<lambda>r. r\<lparr>r_token_version := r_token_version r + 1\<rparr>) st))"

definition DeleteUser :: "int \<Rightarrow> store \<Rightarrow> store_error option \<times> store" where
  "DeleteUser i st =
    (if \<not> db_up st then (Some DbFailed, st)
     else
       let admins = length (filter local_admin (users st));
           gone = (\<lambda>r. r_id r = i \<and> \<not> (local_admin r \<and> admins \<le> 1));
           st1 = st\<lparr>users := filter (\<lambda>r. \<not> gone r) (users st)\<rparr>
       in if length (users st1) = length (users st) then
            (if list_ex (\<lambda>r. r_id r = i) (users st) then (Some LastLocalAdmin, st1)
             else (Some UserNotFound, st1))
          else (None, st1))"

definition EnsureBreakGlassAdmin :: "(string \<Rightarrow> string option) \<Rightarrow> gotime \<Rightarrow> string
    \<Rightarrow> store \<Rightarrow> (store_error + user option) \<times> store" where
  "EnsureBreakGlassAdmin gen now bootstrap st =
    (if \<not> db_up st then (Inl DbFailed, st)
     else if filter local_admin (users st) \<noteq> [] then (Inr None, st)
     else if length bootstrap < 12 then (Inl BootstrapTooShort, st)
     else case find_local ''admin'' st of
       Some r \<Rightarrow>
         let st1 = update_id (r_id r) (\<lambda>r. r\<lparr>r_role := RoleAdmin, r_must_change_password := True,
               r_token_version := r_token_version r + 1\<rparr>) st
         in (map_sum id Some (GetUser (r_id r) st1), st1)
     | None \<Rightarrow>
         (case CreateUser gen now ''admin'' bootstrap RoleAdmin st of
            (Inl e, st1) \<Rightarrow> (Inl e, st1)
          | (Inr u, st1) \<Rightarrow>
              (Inr (Some (u\<lparr>MustChangePassword := True\<rparr>)),
               update_id (ID u) (\<lambda>r. r\<lparr>r_must_change_password := True\<rparr>) st1)))"

section \<open>The table's invariant\<close>

text \<open>
  The constraints of the schema: ids are unique and below the counter, a local user has no
  external subject and an external one has, local names are unique, and so are pairs of
  provider and subject.
\<close>

definition row_key :: "user_row \<Rightarrow> string + string \<times> string option" where
  "row_key r = (if r_auth_provider r = ProviderLocal then Inl (r_username r)
     else Inr (r_auth_provider r, r_external_subject r))"

definition store_inv :: "store \<Rightarrow> bool" where
  "store_inv st \<longleftrightarrow> distinct (map r_id (users st)) \<and> distinct (map row_key (users st))
    \<and> (\<forall>r\<in>set (users st). r_id r < next_id st
         \<and> (r_auth_provider r = ProviderLocal \<longleftrightarrow> r_external_subject r = None))"

definition has_local_admin :: "store \<Rightarrow> bool" where
  "has_local_admin st \<longleftrightarrow> (\<exists>r\<in>set (users st). local_admin r)"

text \<open>\<open>revoked i v\<close>: no session of user \<open>i\<close> at version \<open>v\<close> or below can be valid again.\<close>

definition revoked :: "int \<Rightarrow> int \<Rightarrow> store \<Rightarrow> bool" where
  "revoked i v st \<longleftrightarrow> i < next_id st \<and> (\<forall>r\<in>set (users st). r_id r = i \<longrightarrow> v < r_token_version r)"

datatype store_op =
    OpCreateUser gotime string string string
  | OpAuthenticate gotime string string
  | OpUpsertExternalUser gotime string string string string string string
  | OpChangePassword int string string
  | OpBumpTokenVersion int
  | OpDeleteUser int
  | OpEnsureBreakGlassAdmin gotime string
  | OpConnectivity bool

fun store_step :: "(string \<Rightarrow> string option) \<Rightarrow> (string \<Rightarrow> string \<Rightarrow> bool) \<Rightarrow> store_op \<Rightarrow> store \<Rightarrow> store" where
  "store_step gen cmp (OpCreateUser now u p r) st = snd (CreateUser gen now u p r st)"
| "store_step gen cmp (OpAuthenticate now u p) st = snd (Authenticate cmp now u p st)"
| "store_step gen cmp (OpUpsertExternalUser now p s u d e r) st = snd (UpsertExternalUser now p s u d e r st)"
| "store_step gen cmp (OpChangePassword i old new) st = snd (ChangePassword gen cmp i old new st)"
| "store_step gen cmp (OpBumpTokenVersion i) st = snd (BumpTokenVersion i st)"
| "store_step gen cmp (OpDeleteUser i) st = snd (DeleteUser i st)"
| "store_step gen cmp (OpEnsureBreakGlassAdmin now b) st = snd (EnsureBreakGlassAdmin gen now b st)"
| "store_step gen cmp (OpConnectivity b) st = st\<lparr>db_up := b\<rparr>"

definition store_run :: "(string \<Rightarrow> string option) \<Rightarrow> (string \<Rightarrow> string \<Rightarrow> bool) \<Rightarrow> store_op list \<Rightarrow> store \<Rightarrow> store" where
  "store_run gen cmp ops st = fold (store_step gen cmp) ops st"

text \<open>
  Every operation is a sequence of three kinds of table update, and what a table property needs
  is that each kind keeps it: \<open>safe_update\<close> says what the row updates have in common.
\<close>

definition safe_update :: "(user_row \<Rightarrow> user_row) \<Rightarrow> user_row \<Rightarrow> bool" where
  "safe_update f r \<longleftrightarrow> r_id (f r) = r_id r \<and> r_auth_provider (f r) = r_auth_provider r
    \<and> r_external_subject (f r) = r_external_subject r
    \<and> (r_auth_provider r = ProviderLocal \<longrightarrow> r_username (f r) = r_username r)
    \<and> (local_admin r \<longrightarrow> local_admin (f r))
    \<and> r_token_version r \<le> r_token_version (f r)"

definition fresh_row :: "user_row \<Rightarrow> store \<Rightarrow> bool" where
  "fresh_row r st \<longleftrightarrow> r_token_version r = 0 \<and> row_key r \<notin> row_key ` set (users st)
    \<and> (r_auth_provider r = ProviderLocal \<longleftrightarrow> r_external_subject r = None)"

inductive table_update :: "store \<Rightarrow> store \<Rightarrow> bool" where
  tu_none: "table_update st st"
| tu_insert: "fresh_row r st \<Longrightarrow> table_update st (insert_row r st)"
| tu_update: "(\<And>r. r \<in> set (users st) \<Longrightarrow> r_id r = i \<Longrightarrow> safe_update f r) \<Longrightarrow> table_update st (update_id i f st)"
| tu_delete: "table_update st (snd (DeleteUser i st))"
| tu_conn: "table_update st (st\<lparr>db_up := b\<rparr>)"
| tu_trans: "table_update st st1 \<Longrightarrow> table_update st1 st2 \<Longrightarrow> table_update st st2"

lemma update_id_sel [simp]:
  "next_id (update_id i f st) = next_id st" "db_up (update_id i f st) = db_up st"
  "users (update_id i f st) = map (\<lambda>r. if r_id r = i then f r else r) (users st)"
  by (simp_all add: update_id_def)

lemma insert_row_sel [simp]:
  "users (insert_row r st) = users st @ [r\<lparr>r_id := next_id st\<rparr>]"
  "next_id (insert_row r st) = next_id st + 1" "db_up (insert_row r st) = db_up st"
  by (simp_all add: insert_row_def)

lemma row_key_id [simp]: "row_key (r\<lparr>r_id := i\<rparr>) = row_key r"
  by (simp add: row_key_def)

lemma safe_update_key: "safe_update f r \<Longrightarrow> row_key (f r) = row_key r"
  by (simp add: safe_update_def row_key_def)

lemma update_id_inv:
  assumes "store_inv st" "\<And>r. r \<in> set (users st) \<Longrightarrow> r_id r = i \<Longrightarrow> safe_update f r"
  shows "store_inv (update_id i f st)"
proof -
  have ids: "map r_id (users (update_id i f st)) = map r_id (users st)"
    using assms(2) by (auto simp: safe_update_def)
  have keys: "map row_key (users (update_id i f st)) = map row_key (users st)"
    using assms(2) by (auto simp: safe_update_key)
  have "\<forall>r\<in>set (users (update_id i f st)). r_id r < next_id st
      \<and> (r_auth_provider r = ProviderLocal \<longleftrightarrow> r_external_subject r = None)"
    using assms by (auto simp: store_inv_def safe_update_def)
  then show ?thesis
    using assms(1) unfolding store_inv_def ids keys by simp
qed

lemma update_id_admin:
  assumes "has_local_admin st" "\<And>r. r \<in> set (users st) \<Longrightarrow> r_id r = i \<Longrightarrow> safe_update f r"
  shows "has_local_admin (update_id i f st)"
proof -
  obtain r where "r \<in> set (users st)" "local_admin r" using assms(1) by (auto simp: has_local_admin_def)
  then have "(if r_id r = i then f r else r) \<in> set (users (update_id i f st))"
    "local_admin (if r_id r = i then f r else r)"
    using assms(2)[of r] by (auto simp: safe_update_def)
  then show ?thesis unfolding has_local_admin_def by blast
qed

lemma update_id_revoked:
  assumes "revoked j v st" "\<And>r. r \<in> set (users st) \<Longrightarrow> r_id r = i \<Longrightarrow> safe_update f r"
  shows "revoked j v (update_id i f st)"
  unfolding revoked_def
proof (intro conjI ballI impI)
  show "j < next_id (update_id i f st)" using assms(1) by (simp add: revoked_def)
next
  fix r' assume r': "r' \<in> set (users (update_id i f st))" "r_id r' = j"
  then obtain r where r: "r \<in> set (users st)" "r' = (if r_id r = i then f r else r)" by auto
  have same: "r_id r' = r_id r \<and> r_token_version r \<le> r_token_version r'"
    using assms(2)[OF r(1)] r(2) by (simp add: safe_update_def)
  then have "v < r_token_version r" using assms(1) r(1) r'(2) by (simp add: revoked_def)
  with same show "v < r_token_version r'" by simp
qed

lemma insert_row_inv:
  assumes "store_inv st" "fresh_row r st"
  shows "store_inv (insert_row r st)"
  using assms by (auto simp: store_inv_def fresh_row_def)

lemma DeleteUser_users:
  "\<exists>P. users (snd (DeleteUser i st)) = filter P (users st) \<and> next_id (snd (DeleteUser i st)) = next_id st"
  by (auto simp: DeleteUser_def Let_def intro: exI[of _ "\<lambda>_. True"])

lemma distinct_map_filter': "distinct (map f xs) \<Longrightarrow> distinct (map f (filter P xs))"
  by (simp add: distinct_map_filter)

lemma filter_inv:
  assumes "store_inv st" "users st' = filter P (users st)" "next_id st' = next_id st"
  shows "store_inv st'"
  using assms by (auto simp: store_inv_def distinct_map_filter')

lemma DeleteUser_admin:
  assumes "store_inv st" "has_local_admin st"
  shows "has_local_admin (snd (DeleteUser i st))"
proof (cases "length (filter local_admin (users st)) \<le> 1")
  case True
  with assms(2) show ?thesis by (auto simp: has_local_admin_def DeleteUser_def Let_def)
next
  case False
  have "distinct (filter local_admin (users st))"
    using assms(1) by (auto simp: store_inv_def distinct_map)
  moreover from False obtain a b rest where eq: "filter local_admin (users st) = a # b # rest"
    by (cases "filter local_admin (users st)"; cases "tl (filter local_admin (users st))") auto
  ultimately have "a \<noteq> b" by simp
  have "a \<in> set (filter local_admin (users st))" "b \<in> set (filter local_admin (users st))"
    unfolding eq by simp_all
  with \<open>a \<noteq> b\<close> have ab: "a \<in> set (users st)" "b \<in> set (users st)" "a \<noteq> b"
    "local_admin a" "local_admin b" by simp_all
  then have "r_id a \<noteq> r_id b"
    using assms(1) by (auto simp: store_inv_def distinct_map inj_on_def)
  with ab show ?thesis
    by (cases "r_id a = i") (auto simp: has_local_admin_def DeleteUser_def Let_def)
qed

lemma table_update_keeps:
  assumes "table_update st st'"
  shows "store_inv st \<Longrightarrow> store_inv st'"
    and "store_inv st \<Longrightarrow> has_local_admin st \<Longrightarrow> has_local_admin st'"
    and "revoked i v st \<Longrightarrow> revoked i v st'"
proof -
  have "(store_inv st \<longrightarrow> store_inv st') \<and> (store_inv st \<longrightarrow> has_local_admin st \<longrightarrow> has_local_admin st')
      \<and> (revoked i v st \<longrightarrow> revoked i v st')"
    using assms
  proof (induction rule: table_update.induct)
    case (tu_insert r st)
    then show ?case
      by (auto simp: insert_row_inv has_local_admin_def revoked_def)
  next
    case (tu_update st j f)
    then show ?case
      by (intro conjI impI update_id_inv update_id_admin update_id_revoked) auto
  next
    case (tu_delete st j)
    obtain P where P: "users (snd (DeleteUser j st)) = filter P (users st)"
      "next_id (snd (DeleteUser j st)) = next_id st" using DeleteUser_users by blast
    have "store_inv st \<Longrightarrow> store_inv (snd (DeleteUser j st))" using filter_inv[OF _ P] .
    moreover have "revoked i v st \<longrightarrow> revoked i v (snd (DeleteUser j st))"
      by (auto simp: revoked_def P)
    ultimately show ?case using DeleteUser_admin by blast
  next
    case (tu_conn st b)
    then show ?case by (auto simp: store_inv_def has_local_admin_def revoked_def)
  qed auto
  then show "store_inv st \<Longrightarrow> store_inv st'"
    "store_inv st \<Longrightarrow> has_local_admin st \<Longrightarrow> has_local_admin st'"
    "revoked i v st \<Longrightarrow> revoked i v st'" by auto
qed

section \<open>Every operation keeps the table\<close>

lemma find_SomeD: "find P xs = Some x \<Longrightarrow> x \<in> set xs \<and> P x"
  by (auto simp: find_Some_iff)

lemma find_NoneD: "find P xs = None \<Longrightarrow> x \<in> set xs \<Longrightarrow> \<not> P x"
  by (auto simp: find_None_iff)

lemma same_id_same_row:
  "store_inv st \<Longrightarrow> r \<in> set (users st) \<Longrightarrow> r' \<in> set (users st) \<Longrightarrow> r_id r = r_id r' \<Longrightarrow> r = r'"
  by (auto simp: store_inv_def distinct_map inj_on_def)

lemma CreateUser_fresh:
  assumes "find_local u st = None"
  shows "fresh_row (local_row now u h role) st"
  using find_NoneD[OF assms[unfolded find_local_def]]
  by (auto simp: fresh_row_def local_row_def row_key_def ProviderLocal_def split: if_splits)

lemma external_fresh:
  assumes "find_external p sub st = None" "p \<noteq> ProviderLocal"
  shows "fresh_row (external_row now p sub u d e role) st"
  using find_NoneD[OF assms(1)[unfolded find_external_def]] assms(2)
  by (fastforce simp: fresh_row_def external_row_def row_key_def split: if_splits)

lemma CreateUser_update: "table_update st (snd (CreateUser gen now u p r st))"
  by (auto simp: CreateUser_def intro!: tu_none tu_insert CreateUser_fresh split: option.split)

lemma Authenticate_update: "table_update st (snd (Authenticate cmp now u p st))"
  by (auto simp: Authenticate_def safe_update_def local_admin_def intro!: tu_none tu_update
      split: option.split)

lemma ChangePassword_update: "table_update st (snd (ChangePassword gen cmp i old new st))"
  by (auto simp: ChangePassword_def safe_update_def local_admin_def intro!: tu_none tu_update
      split: option.split)

lemma BumpTokenVersion_update: "table_update st (snd (BumpTokenVersion i st))"
  by (auto simp: BumpTokenVersion_def safe_update_def local_admin_def intro!: tu_none tu_update)

lemma Upsert_table:
  "\<exists>st1. snd (UpsertExternalUser now p sub u d e role st) = st1 \<and> (st1 = st
    \<or> p \<noteq> ProviderLocal \<and> (find_external p sub st = None
          \<and> st1 = insert_row (external_row now p sub u d e role) st
        \<or> (\<exists>r. find_external p sub st = Some r \<and> st1 = update_id (r_id r) (\<lambda>r. r\<lparr>r_username := u,
             r_role := role, r_display_name := d, r_email := e, r_last_login := Some now,
             r_failed_attempts := 0,
             r_token_version := r_token_version r + (if r_role r \<noteq> role then 1 else 0)\<rparr>) st)))"
  by (cases "find_external p sub st") (auto simp: UpsertExternalUser_def Let_def split: option.split)

lemma Upsert_update:
  assumes "store_inv st"
  shows "table_update st (snd (UpsertExternalUser now p sub u d e role st))"
proof -
  have safe: "safe_update (\<lambda>r. r\<lparr>r_username := u, r_role := role, r_display_name := d, r_email := e,
        r_last_login := Some now, r_failed_attempts := 0,
        r_token_version := r_token_version r + (if r_role r \<noteq> role then 1 else 0)\<rparr>) r'"
    if "p \<noteq> ProviderLocal" "find_external p sub st = Some r" "r' \<in> set (users st)" "r_id r' = r_id r" for r r'
  proof -
    have "r' = r" "r_auth_provider r = p"
      using find_SomeD[OF that(2)[unfolded find_external_def]] same_id_same_row[OF assms] that by auto
    with that(1) show ?thesis by (simp add: safe_update_def local_admin_def)
  qed
  from Upsert_table[of now p sub u d e role st] show ?thesis
    using external_fresh safe by (auto intro!: tu_none tu_insert tu_update)
qed

lemma Ensure_update: "table_update st (snd (EnsureBreakGlassAdmin gen now b st))"
proof -
  have "table_update st (update_id i (\<lambda>r. r\<lparr>r_must_change_password := True\<rparr>) st1)"
    if "CreateUser gen now ''admin'' b RoleAdmin st = (Inr u, st1)" for u st1 i
    by (rule tu_trans[OF CreateUser_update[of st gen now "''admin''" b RoleAdmin, unfolded that]])
      (auto simp: safe_update_def local_admin_def intro!: tu_update)
  moreover have "table_update st st1"
    if "CreateUser gen now ''admin'' b RoleAdmin st = (x, st1)" for x st1
    using CreateUser_update[of st gen now "''admin''" b RoleAdmin, unfolded that] by simp
  ultimately show ?thesis
    by (auto simp: EnsureBreakGlassAdmin_def Let_def safe_update_def local_admin_def
        intro!: tu_none tu_update split: option.split prod.split sum.split)
qed

lemmas store_op_updates = CreateUser_update Authenticate_update Upsert_update ChangePassword_update
  BumpTokenVersion_update tu_delete Ensure_update tu_conn

lemma store_step_update: "store_inv st \<Longrightarrow> table_update st (store_step gen cmp op st)"
  by (cases op) (simp_all add: store_op_updates)

lemma store_run_update: "store_inv st \<Longrightarrow> table_update st (store_run gen cmp ops st)"
proof (induction ops arbitrary: st)
  case (Cons op ops)
  have "table_update st (store_step gen cmp op st)" by (rule store_step_update[OF Cons.prems])
  moreover from this Cons have "table_update (store_step gen cmp op st) (store_run gen cmp (op # ops) st)"
    by (simp add: store_run_def table_update_keeps(1))
  ultimately show ?case by (rule tu_trans)
qed (simp add: store_run_def tu_none)

text \<open>
  The schema's promises hold through any history of user operations: ids stay unique and
  below the counter, local names stay unique, and an external identity has one row.
\<close>

theorem store_invariant_preserved:
  assumes "store_inv st"
  shows "store_inv (store_run gen cmp ops st)"
  using table_update_keeps(1)[OF store_run_update[OF assms]] assms by blast

text \<open>
  Once there is a local administrator there always is one: no history of operations, deletions
  and single sign-on updates included, leaves the dashboard without a break-glass login.
\<close>

theorem local_admin_never_lost:
  assumes "store_inv st" "has_local_admin st"
  shows "has_local_admin (store_run gen cmp ops st)"
  using table_update_keeps(2)[OF store_run_update[OF assms(1)]] assms by blast

definition store_example :: store where
  "store_example = \<lparr>users = [(local_row 0 ''admin'' ''h:secret'' RoleAdmin)\<lparr>r_id := 1\<rparr>,
     (local_row 0 ''eve'' ''h:password'' RoleViewer)\<lparr>r_id := 2\<rparr>], next_id = 3, db_up = True\<rparr>"

lemma store_example_inv: "store_inv store_example"
  by (auto simp: store_inv_def store_example_def local_row_def row_key_def ProviderLocal_def)

lemma store_invariant_preserved_witness:
  "store_inv (store_run Some (=) [OpCreateUser 5 ''bob'' ''longpassword'' ''viewer'', OpDeleteUser 2] store_example)"
  by (rule store_invariant_preserved[OF store_example_inv])

lemma local_admin_never_lost_witness:
  "has_local_admin (store_run Some (=) [OpDeleteUser 1, OpDeleteUser 2] store_example)"
  by (rule local_admin_never_lost[OF store_example_inv])
    (simp add: has_local_admin_def store_example_def local_row_def local_admin_def ProviderLocal_def)

section \<open>External identities and local accounts\<close>

definition local_rows :: "store \<Rightarrow> user_row list" where
  "local_rows st = filter (\<lambda>r. r_auth_provider r = ProviderLocal) (users st)"

lemma find_map_cong:
  "(\<And>x. P (g x) = P x) \<Longrightarrow> find P (map g xs) = map_option g (find P xs)"
  by (induction xs) auto

lemma upsert_keeps_local:
  assumes "store_inv st"
  shows "local_rows (snd (UpsertExternalUser now provider subject username d e role st)) = local_rows st"
proof -
  have upd: "filter (\<lambda>r. r_auth_provider r = ProviderLocal) (map (\<lambda>r. if r_id r = i then f r else r) rs)
      = filter (\<lambda>r. r_auth_provider r = ProviderLocal) rs"
    if "\<And>r. r \<in> set rs \<Longrightarrow> r_id r = i \<Longrightarrow> r_auth_provider r \<noteq> ProviderLocal"
      "\<And>r. r_auth_provider (f r) = r_auth_provider r" for i f rs
    using that by (induction rs) auto
  have own: "r_auth_provider r' \<noteq> ProviderLocal"
    if "find_external provider subject st = Some r" "provider \<noteq> ProviderLocal"
      "r' \<in> set (users st)" "r_id r' = r_id r" for r r'
    using find_SomeD[OF that(1)[unfolded find_external_def]] same_id_same_row[OF assms] that by auto
  show ?thesis
    using Upsert_table[of now provider subject username d e role st]
    by (auto simp: local_rows_def external_row_def upd own)
qed

lemma find_update_same:
  assumes "find P xs = Some r" "\<And>x. P (f x) = P x"
  shows "find P (map (\<lambda>x. if r_id x = r_id r then f x else x) xs) = Some (f r)"
  using assms(1) by (subst find_map_cong) (auto simp: assms(2))

lemma find_append_new: "find P xs = None \<Longrightarrow> find P (xs @ [x]) = (if P x then Some x else None)"
  by (induction xs) (auto split: if_splits)

lemma upsert_user:
  assumes "fst (UpsertExternalUser now provider subject username d e role st) = Inr u"
  shows "AuthProvider u = provider \<and> provider \<noteq> ProviderLocal \<and> ExternalSubject u = subject
    \<and> Role u = role \<and> (role = RoleAdmin \<or> role = RoleViewer)"
proof (cases "find_external provider subject st")
  case None
  then show ?thesis using assms
    by (auto simp: UpsertExternalUser_def Let_def row_user_def external_row_def find_external_def
        find_append_new split: if_splits)
next
  case (Some r)
  then have f: "find (\<lambda>r. r_auth_provider r = provider \<and> r_external_subject r = Some subject) (users st) = Some r"
    by (simp add: find_external_def)
  have r: "r_auth_provider r = provider" "r_external_subject r = Some subject"
    using find_SomeD[OF f] by auto
  have ext: "find_external provider subject (update_id (r_id r) g st) = Some (g r)"
    if "\<And>x. r_auth_provider (g x) = r_auth_provider x" "\<And>x. r_external_subject (g x) = r_external_subject x" for g
    using find_update_same[OF f, of g] that by (simp add: find_external_def)
  show ?thesis using assms r
    by (simp add: UpsertExternalUser_def Let_def Some ext row_user_def split: if_splits) auto
qed

text \<open>
  Signing in through an external provider never changes a local account, even one of the same
  name, and the user it yields is of that provider and has the role that was asked for.
\<close>

theorem external_login_leaves_local_accounts:
  assumes "store_inv st"
  shows "local_rows (snd (UpsertExternalUser now provider subject username d e role st)) = local_rows st
    \<and> (\<forall>u. fst (UpsertExternalUser now provider subject username d e role st) = Inr u
          \<longrightarrow> AuthProvider u = provider \<and> provider \<noteq> ProviderLocal \<and> ExternalSubject u = subject
              \<and> Role u = role)"
  using upsert_keeps_local[OF assms] upsert_user by blast

lemma external_login_leaves_local_accounts_witness:
  "local_rows (snd (UpsertExternalUser 9 ''corp'' ''uid-1'' ''admin'' [] [] ''viewer'' store_example))
     = local_rows store_example"
  using external_login_leaves_local_accounts[OF store_example_inv] by blast

section \<open>Lockout\<close>

lemma find_local_update:
  assumes "find_local u st = Some r" "\<And>r. r_username (f r) = r_username r"
    "\<And>r. r_auth_provider (f r) = r_auth_provider r"
  shows "find_local u (update_id (r_id r) f st) = Some (f r)"
  using assms by (auto simp: find_local_def find_map_cong)

definition failed_logins :: "(string \<Rightarrow> string \<Rightarrow> bool) \<Rightarrow> string \<Rightarrow> (gotime \<times> string) list \<Rightarrow> store \<Rightarrow> store" where
  "failed_logins cmp u tries st = fold (\<lambda>(t, p) st. snd (Authenticate cmp t u p st)) tries st"

lemma failed_logins_row:
  assumes "db_up st" "find_local u st = Some r" "r_password_hash r = Some h" "r_failed_attempts r = 0"
    "\<forall>(t, p)\<in>set tries. \<not> cmp h p" "length tries \<le> 10" "tries \<noteq> []"
  shows "db_up (failed_logins cmp u tries st)
    \<and> find_local u (failed_logins cmp u tries st) = Some (r\<lparr>r_failed_attempts := int (length tries),
        r_last_failed_at := Some (fst (last tries))\<rparr>)"
  using assms
proof (induction tries rule: rev_induct)
  case (snoc x tries)
  obtain t p where x: "x = (t, p)" by (cases x)
  show ?case
  proof (cases "tries = []")
    case True
    then show ?thesis using snoc.prems
      by (auto simp: failed_logins_def x Authenticate_def maxFailedAttempts_def
          find_local_update[of u st r "\<lambda>r. r\<lparr>r_failed_attempts := r_failed_attempts r + 1,
            r_last_failed_at := Some t\<rparr>"] split: option.split)
  next
    case False
    let ?st = "failed_logins cmp u tries st"
    let ?r = "r\<lparr>r_failed_attempts := int (length tries), r_last_failed_at := Some (fst (last tries))\<rparr>"
    have IH: "db_up ?st" "find_local u ?st = Some ?r"
      using snoc.IH snoc.prems False by auto
    have "failed_logins cmp u (tries @ [x]) st = snd (Authenticate cmp t u p ?st)"
      by (simp add: failed_logins_def x)
    moreover have "\<not> r_failed_attempts ?r \<ge> maxFailedAttempts"
      using snoc.prems(6) by (simp add: maxFailedAttempts_def)
    moreover have "r_password_hash ?r = Some h" "\<not> cmp h p" using snoc.prems(3,5) by (auto simp: x)
    ultimately show ?thesis
      using IH find_local_update[OF IH(2), of "\<lambda>r. r\<lparr>r_failed_attempts := r_failed_attempts r + 1,
            r_last_failed_at := Some t\<rparr>"]
      by (simp add: Authenticate_def x)
  qed
qed simp

text \<open>
  Ten wrong passwords, however far apart, lock a local account: within fifteen minutes of the
  last one even the right password is refused and nothing changes, and after that it signs in and
  clears the count.
\<close>

theorem lockout_after_ten_failures:
  assumes "db_up st" "find_local u st = Some r" "r_password_hash r = Some h" "r_failed_attempts r = 0"
    "\<forall>(t, p)\<in>set tries. \<not> cmp h p" "length tries = 10" "cmp h right"
  defines "st1 \<equiv> failed_logins cmp u tries st" and "end_time \<equiv> fst (last tries) + 15 * 60 * 1000000000"
  shows "(now < end_time \<longrightarrow> Authenticate cmp now u right st1 = (Inl AccountLocked, st1))
    \<and> (end_time \<le> now \<longrightarrow> (\<exists>usr. fst (Authenticate cmp now u right st1) = Inr usr \<and> ID usr = r_id r
          \<and> map_option r_failed_attempts (find_local u (snd (Authenticate cmp now u right st1))) = Some 0))"
proof -
  have "tries \<noteq> []" "length tries \<le> 10" using assms(6) by auto
  from failed_logins_row[where cmp = cmp, OF assms(1-5) this(2,1)]
  have row: "db_up st1" "find_local u st1 = Some (r\<lparr>r_failed_attempts := 10,
        r_last_failed_at := Some (fst (last tries))\<rparr>)"
    using assms(6) by (auto simp: st1_def)
  have ok: "find_local u (update_id (r_id r) (\<lambda>r. r\<lparr>r_last_login := Some now, r_failed_attempts := 0\<rparr>) st1)
      = Some (r\<lparr>r_failed_attempts := 0, r_last_failed_at := Some (fst (last tries)), r_last_login := Some now\<rparr>)"
    using find_local_update[OF row(2), of "\<lambda>r. r\<lparr>r_last_login := Some now, r_failed_attempts := 0\<rparr>"] by simp
  have locked: "now < end_time \<longleftrightarrow> now - fst (last tries) < lockoutWindow"
    by (auto simp: end_time_def lockoutWindow_def minute_def second_def)
  have unlocked: "end_time \<le> now \<longleftrightarrow> \<not> now - fst (last tries) < lockoutWindow"
    using locked by linarith
  show ?thesis
    unfolding locked unlocked
    using row ok assms(3,7) by (auto simp: Authenticate_def maxFailedAttempts_def row_user_def)
qed

lemma lockout_after_ten_failures_witness:
  "fst (Authenticate (\<lambda>h p. h = ''h:'' @ p) 700 ''eve'' ''password''
     (failed_logins (\<lambda>h p. h = ''h:'' @ p) ''eve'' (replicate 10 (600, ''guess'')) store_example))
   = Inl AccountLocked"
proof -
  let ?r = "(local_row 0 ''eve'' ''h:password'' RoleViewer)\<lparr>r_id := 2\<rparr>"
  have "Authenticate (\<lambda>h p. h = ''h:'' @ p) 700 ''eve'' ''password''
     (failed_logins (\<lambda>h p. h = ''h:'' @ p) ''eve'' (replicate 10 (600, ''guess'')) store_example)
    = (Inl AccountLocked, failed_logins (\<lambda>h p. h = ''h:'' @ p) ''eve'' (replicate 10 (600, ''guess'')) store_example)"
    by (rule lockout_after_ten_failures[where r = ?r and h = "''h:password''", THEN conjunct1, rule_format])
      (auto simp: store_example_def find_local_def local_row_def ProviderLocal_def)
  then show ?thesis by simp
qed

end
