(* ===== verification/Providers.thy ===== *)
theory Providers
  imports UserStore GoLib
begin

text \<open>
  Password sign-in: the contract of an external provider, the ordered chain of providers with the
  local store as the last resort (\<^verbatim>\<open>internal/auth/providers.go\<close>), and the counters of
  \<^verbatim>\<open>internal/auth/auth.go\<close>.
\<close>

section \<open>Providers\<close>

datatype provider_result = ProviderNoMatch | ProviderAuthenticated | ProviderRejected | ProviderOther int

datatype auth_error = ErrInvalidCredentials | ErrProviderUnavailable string

text \<open>A call of a provider yields an error (\<open>None\<close>) or a user and a result, and the store.\<close>

type_synonym auth_fun =
  "gotime \<Rightarrow> string \<Rightarrow> string \<Rightarrow> store \<Rightarrow> (user option \<times> provider_result) option \<times> store"

record provider =
  p_name :: string
  p_type :: string
  p_auth :: auth_fun

record counters =
  authEvents :: "(string, 64 word) gomap"
  providerNanos :: "(string, 64 word) gomap"

definition add_count :: "string \<Rightarrow> 64 word \<Rightarrow> (string, 64 word) gomap \<Rightarrow> (string, 64 word) gomap" where
  "add_count k n m = gm_set k ((case map_of m k of None \<Rightarrow> 0 | Some v \<Rightarrow> v) + n) m"

definition recordAuthEvent :: "string \<Rightarrow> string \<Rightarrow> counters \<Rightarrow> counters" where
  "recordAuthEvent provider result c =
    c\<lparr>authEvents := add_count (provider @ char_of (0 :: nat) # result) 1 (authEvents c)\<rparr>"

definition recordProviderDuration :: "string \<Rightarrow> int \<Rightarrow> counters \<Rightarrow> counters" where
  "recordProviderDuration provider d c =
    c\<lparr>providerNanos := add_count provider (of_int d) (providerNanos c)\<rparr>"

section \<open>The chain\<close>

text \<open>
  \<open>elapsed\<close> is the running time of a call, by provider name. Bcrypt's comparison is \<open>cmp\<close>.
\<close>

definition AuthenticateLocal :: "(string \<Rightarrow> string \<Rightarrow> bool) \<Rightarrow> (string \<Rightarrow> int) \<Rightarrow> gotime \<Rightarrow> string \<Rightarrow> string
    \<Rightarrow> store \<times> counters \<Rightarrow> (auth_error + user) \<times> store \<times> counters" where
  "AuthenticateLocal cmp elapsed now username password sc =
    (let (res, st) = Authenticate cmp now username password (fst sc);
         c = recordProviderDuration ''local'' (elapsed ''local'') (snd sc)
     in case res of
          Inl _ \<Rightarrow> (Inl ErrInvalidCredentials, st, c)
        | Inr u \<Rightarrow> (Inr u, st, c))"

fun AuthenticatePassword :: "provider list \<Rightarrow> (string \<Rightarrow> string \<Rightarrow> bool) \<Rightarrow> (string \<Rightarrow> int) \<Rightarrow> gotime
    \<Rightarrow> string \<Rightarrow> string \<Rightarrow> store \<times> counters \<Rightarrow> (auth_error + user) \<times> store \<times> counters" where
  "AuthenticatePassword [] cmp elapsed now username password sc =
    AuthenticateLocal cmp elapsed now username password sc"
| "AuthenticatePassword (p # ps) cmp elapsed now username password sc =
    (let (res, st) = p_auth p now username password (fst sc);
         c = recordProviderDuration (p_name p) (elapsed (p_name p)) (snd sc)
     in case res of
          None \<Rightarrow> (Inl (ErrProviderUnavailable (p_name p)), st, recordAuthEvent (p_name p) ''unavailable'' c)
        | Some (user, result) \<Rightarrow> (case result of
            ProviderNoMatch \<Rightarrow>
              AuthenticatePassword ps cmp elapsed now username password
                (st, recordAuthEvent (p_name p) ''no_match'' c)
          | ProviderAuthenticated \<Rightarrow> (case user of
              None \<Rightarrow> (Inl (ErrProviderUnavailable (p_name p)), st, c)
            | Some u \<Rightarrow> (Inr u, st, recordAuthEvent (p_name p) ''success'' c))
          | ProviderRejected \<Rightarrow> (Inl ErrInvalidCredentials, st, recordAuthEvent (p_name p) ''rejected'' c)
          | ProviderOther _ \<Rightarrow> (Inl (ErrProviderUnavailable (p_name p)), st, c)))"

section \<open>The contract of an external provider\<close>

text \<open>
  Whatever it answers, a provider keeps the table's invariant, the local accounts and the
  revocation of sessions, and a user that it vouches for is one of its own.
\<close>

locale password_provider =
  fixes auth :: auth_fun
  assumes keeps_inv: "store_inv st \<Longrightarrow> store_inv (snd (auth now u p st))"
    and keeps_local: "store_inv st \<Longrightarrow> local_rows (snd (auth now u p st)) = local_rows st"
    and keeps_revoked: "store_inv st \<Longrightarrow> revoked i v st \<Longrightarrow> revoked i v (snd (auth now u p st))"
    and vouches: "store_inv st \<Longrightarrow> fst (auth now u p st) = Some (Some usr, ProviderAuthenticated)
      \<Longrightarrow> AuthProvider usr \<noteq> ProviderLocal"
begin

lemma keeps_admin:
  assumes "store_inv st" "has_local_admin st"
  shows "has_local_admin (snd (auth now u p st))"
proof -
  have "has_local_admin st' \<longleftrightarrow> filter local_admin (local_rows st') \<noteq> []" for st'
    by (auto simp: has_local_admin_def local_rows_def local_admin_def filter_empty_conv)
  then show ?thesis using assms keeps_local by simp
qed

end

definition owns_nobody :: "auth_fun \<Rightarrow> gotime \<Rightarrow> string \<Rightarrow> string \<Rightarrow> store \<Rightarrow> bool" where
  "owns_nobody a now u p st \<longleftrightarrow> (\<exists>usr. fst (a now u p st) = Some (usr, ProviderNoMatch))"

lemma chain_local_only_if_unowned:
  assumes "\<forall>p\<in>set ps. password_provider (p_auth p)" "store_inv (fst sc)"
    "fst (AuthenticatePassword ps cmp elapsed now u pw sc) = Inr usr" "AuthProvider usr = ProviderLocal"
  shows "\<exists>st c. store_inv st \<and> local_rows st = local_rows (fst sc)
    \<and> fst (AuthenticateLocal cmp elapsed now u pw (st, c)) = Inr usr
    \<and> (\<forall>p\<in>set ps. \<exists>st'. owns_nobody (p_auth p) now u pw st')"
  using assms
proof (induction ps arbitrary: sc)
  case Nil
  then show ?case by (cases sc) auto
next
  case (Cons p ps)
  have pp: "password_provider (p_auth p)" using Cons.prems(1) by simp
  obtain res st where a: "p_auth p now u pw (fst sc) = (res, st)" by (cases "p_auth p now u pw (fst sc)")
  have st: "store_inv st" "local_rows st = local_rows (fst sc)"
    using password_provider.keeps_inv[OF pp Cons.prems(2), of now u pw]
      password_provider.keeps_local[OF pp Cons.prems(2), of now u pw] by (simp_all add: a)
  have nv: "res \<noteq> Some (Some usr, ProviderAuthenticated)"
    using password_provider.vouches[OF pp Cons.prems(2), of now u pw usr] Cons.prems(4) by (auto simp: a)
  with Cons.prems(3) obtain usr' where r: "res = Some (usr', ProviderNoMatch)"
    by (auto simp: a Let_def split: option.splits prod.splits provider_result.splits)
  have "owns_nobody (p_auth p) now u pw (fst sc)" by (simp add: owns_nobody_def a r)
  with Cons.IH[of "(st, recordAuthEvent (p_name p) ''no_match''
      (recordProviderDuration (p_name p) (elapsed (p_name p)) (snd sc)))"] Cons.prems st r
  show ?case by (fastforce simp: a)
qed

end
