(* ===== verification/Ldap.thy ===== *)
theory Ldap
  imports Providers
begin

text \<open>
  The LDAP and Active Directory provider of \<^verbatim>\<open>internal/auth/ldap.go\<close>. The directory and the LDAP
  library are a parameter: dialling, binds and searches with their outcome, filter escaping and
  the first component of a distinguished name.
\<close>

section \<open>Directory and configuration\<close>

datatype bind_outcome = BindOk | BindInvalidCredentials | BindError

record ldap_entry =
  DN :: string
  attribute_values :: "string \<Rightarrow> string list"

record directory =
  dial :: bool
  ldap_bind :: "string \<Rightarrow> string \<Rightarrow> bind_outcome"
  search_users :: "string \<Rightarrow> string \<Rightarrow> ldap_entry list option"
  search_groups :: "string \<Rightarrow> string \<Rightarrow> ldap_entry list option"
  EscapeFilter :: "string \<Rightarrow> string"
  first_rdn :: "string \<Rightarrow> string option"

record ldap_config =
  BindDN :: string
  BindPassword :: string
  UserBaseDN :: string
  UserFilter :: string
  UsernameAttribute :: string
  SubjectAttribute :: string
  DisplayNameAttribute :: string
  EmailAttribute :: string
  GroupAttribute :: string
  GroupBaseDN :: string
  NestedActiveDirectory :: bool
  AdminGroups :: "string list"
  ViewerGroups :: "string list"
  DefaultRole :: string
  MatchDomains :: "string list"

definition GetAttributeValue :: "ldap_entry \<Rightarrow> string \<Rightarrow> string" where
  "GetAttributeValue e a = (case attribute_values e a of [] \<Rightarrow> [] | v # _ \<Rightarrow> v)"

section \<open>Steps of a sign-in\<close>

definition ldap_matches :: "ldap_config \<Rightarrow> string \<Rightarrow> bool" where
  "ldap_matches cfg username =
    (if MatchDomains cfg = [] then True
     else if CHR ''@'' \<notin> set username then True
     else
       let domain = ToLower (TrimSpace (rev (takeWhile (\<lambda>c. c \<noteq> CHR ''@'') (rev username))))
       in domain \<in> set (MatchDomains cfg))"

definition findUser :: "directory \<Rightarrow> ldap_config \<Rightarrow> string \<Rightarrow> ldap_entry option option" where
  "findUser dir cfg username =
    (case search_users dir (UserBaseDN cfg)
            (ReplaceAll (UserFilter cfg) ''{username}'' (EscapeFilter dir username)) of
       None \<Rightarrow> None
     | Some [] \<Rightarrow> Some None
     | Some [e] \<Rightarrow> Some (Some e)
     | Some _ \<Rightarrow> None)"

definition groupsForUser :: "directory \<Rightarrow> ldap_config \<Rightarrow> ldap_entry \<Rightarrow> string list option" where
  "groupsForUser dir cfg e =
    (let groups = attribute_values e (GroupAttribute cfg)
     in if \<not> NestedActiveDirectory cfg then Some groups
        else case search_groups dir (GroupBaseDN cfg)
               (''(&(objectClass=group)(member:1.2.840.113556.1.4.1941:='' @ EscapeFilter dir (DN e) @ ''))'') of
          None \<Rightarrow> None
        | Some gs \<Rightarrow> Some (groups @ concat (map (\<lambda>g. [DN g, GetAttributeValue g ''cn'']) gs)))"

definition groupMatch :: "(string \<Rightarrow> string option) \<Rightarrow> string list \<Rightarrow> string list \<Rightarrow> bool" where
  "groupMatch rdn actual configured =
    (let wanted = map (\<lambda>g. ToLower (TrimSpace g)) configured
     in list_ex (\<lambda>g. list_ex (\<lambda>v. v \<in> set wanted)
          (ToLower (TrimSpace g) # (case rdn g of None \<Rightarrow> [] | Some v \<Rightarrow> [ToLower v]))) actual)"

definition roleForGroups :: "(string \<Rightarrow> string option) \<Rightarrow> ldap_config \<Rightarrow> string list \<Rightarrow> string" where
  "roleForGroups rdn cfg groups =
    (if groupMatch rdn groups (AdminGroups cfg) then RoleAdmin
     else if groupMatch rdn groups (ViewerGroups cfg) then RoleViewer
     else DefaultRole cfg)"

definition ldapSubject :: "ldap_entry \<Rightarrow> string \<Rightarrow> string" where
  "ldapSubject e a =
    (let raw = GetAttributeValue e a; bytes = map byte_of raw
     in if raw = [] then []
        else if utf8_valid bytes \<and> list_all (\<lambda>b. \<not> (b < 32 \<or> b = 127)) bytes then raw
        else RawURLEncoding bytes)"

definition vouch_for :: "(store_error + user) \<times> store \<Rightarrow> (user option \<times> provider_result) option \<times> store" where
  "vouch_for r = (case r of
      (Inl _, st1) \<Rightarrow> (None, st1)
    | (Inr u, st1) \<Rightarrow> (Some (Some u, ProviderAuthenticated), st1))"

text \<open>\<open>cancelled\<close> is the state of the request's context, read before dialling and after the bind.\<close>

definition ldap_Authenticate :: "directory \<Rightarrow> ldap_config \<Rightarrow> string \<Rightarrow> bool \<times> bool \<Rightarrow> auth_fun" where
  "ldap_Authenticate dir cfg name cancelled now username password st =
    (if \<not> ldap_matches cfg username then (Some (None, ProviderNoMatch), st)
     else if password = [] then (Some (None, ProviderRejected), st)
     else if fst cancelled then (None, st)
     else if \<not> dial dir then (None, st)
     else if BindDN cfg \<noteq> [] \<and> ldap_bind dir (BindDN cfg) (BindPassword cfg) \<noteq> BindOk then (None, st)
     else case findUser dir cfg username of
       None \<Rightarrow> (None, st)
     | Some None \<Rightarrow> (Some (None, ProviderNoMatch), st)
     | Some (Some e) \<Rightarrow> (case groupsForUser dir cfg e of
         None \<Rightarrow> (None, st)
       | Some groups \<Rightarrow> (case ldap_bind dir (DN e) password of
           BindInvalidCredentials \<Rightarrow> (Some (None, ProviderRejected), st)
         | BindError \<Rightarrow> (None, st)
         | BindOk \<Rightarrow>
             if snd cancelled then (None, st)
             else
               let role = roleForGroups (first_rdn dir) cfg groups;
                   subject = ldapSubject e (SubjectAttribute cfg);
                   canonical = GetAttributeValue e (UsernameAttribute cfg);
                   uname = (if canonical = [] then username else canonical)
               in if role = [] then (Some (None, ProviderRejected), st)
                  else if subject = [] then (None, st)
                  else vouch_for (UpsertExternalUser now name subject uname
                         (GetAttributeValue e (DisplayNameAttribute cfg))
                         (GetAttributeValue e (EmailAttribute cfg)) role st))))"

section \<open>The provider meets the contract\<close>

text \<open>
  A sign-in ends without a user and without a change, or with the user that the upsert of the
  found entry returns, and then every check before it has passed.
\<close>

definition ldap_accepts :: "directory \<Rightarrow> ldap_config \<Rightarrow> string \<Rightarrow> string \<Rightarrow> ldap_entry \<Rightarrow> string list \<Rightarrow> bool" where
  "ldap_accepts dir cfg u p e groups \<longleftrightarrow> ldap_matches cfg u \<and> p \<noteq> [] \<and> findUser dir cfg u = Some (Some e)
    \<and> groupsForUser dir cfg e = Some groups \<and> ldap_bind dir (DN e) p = BindOk
    \<and> roleForGroups (first_rdn dir) cfg groups \<noteq> [] \<and> ldapSubject e (SubjectAttribute cfg) \<noteq> []"

lemma ldap_cases:
  obtains (refused) r where "ldap_Authenticate dir cfg name cancelled now u p st = (r, st)"
      "\<And>usr. r \<noteq> Some (usr, ProviderAuthenticated)"
  | (accepted) e groups un d em where "ldap_accepts dir cfg u p e groups"
      "ldap_Authenticate dir cfg name cancelled now u p st
        = vouch_for (UpsertExternalUser now name (ldapSubject e (SubjectAttribute cfg)) un d em
            (roleForGroups (first_rdn dir) cfg groups) st)"
proof -
  have "(\<exists>r. ldap_Authenticate dir cfg name cancelled now u p st = (r, st)
        \<and> (\<forall>usr. r \<noteq> Some (usr, ProviderAuthenticated)))
    \<or> (\<exists>e groups un d em. ldap_accepts dir cfg u p e groups
        \<and> ldap_Authenticate dir cfg name cancelled now u p st
          = vouch_for (UpsertExternalUser now name (ldapSubject e (SubjectAttribute cfg)) un d em
            (roleForGroups (first_rdn dir) cfg groups) st))"
    unfolding ldap_Authenticate_def ldap_accepts_def Let_def
    by (simp split: option.split bind_outcome.split) blast
  with that show thesis by blast
qed

lemma vouch_for_simps:
  "snd (vouch_for r) = snd r"
  "fst (vouch_for r) = Some (Some usr, ProviderAuthenticated) \<longleftrightarrow> fst r = Inr usr"
  by (auto simp: vouch_for_def split: prod.split sum.split)

interpretation ldap: password_provider "ldap_Authenticate dir cfg name cancelled"
  for dir :: directory and cfg :: ldap_config and name :: string and cancelled :: "bool \<times> bool"
proof
  fix st now u p i v usr
  assume inv: "store_inv st"
  show "store_inv (snd (ldap_Authenticate dir cfg name cancelled now u p st))"
    by (cases rule: ldap_cases[of dir cfg name cancelled now u p st])
      (use inv table_update_keeps(1)[OF Upsert_update[OF inv]] in \<open>auto simp: vouch_for_simps\<close>)
  show "local_rows (snd (ldap_Authenticate dir cfg name cancelled now u p st)) = local_rows st"
    by (cases rule: ldap_cases[of dir cfg name cancelled now u p st])
      (use upsert_keeps_local[OF inv] in \<open>auto simp: vouch_for_simps\<close>)
  show "revoked i v st \<Longrightarrow> revoked i v (snd (ldap_Authenticate dir cfg name cancelled now u p st))"
    by (cases rule: ldap_cases[of dir cfg name cancelled now u p st])
      (use table_update_keeps(3)[OF Upsert_update[OF inv]] in \<open>auto simp: vouch_for_simps\<close>)
  show "fst (ldap_Authenticate dir cfg name cancelled now u p st) = Some (Some usr, ProviderAuthenticated)
      \<Longrightarrow> AuthProvider usr \<noteq> ProviderLocal"
    by (cases rule: ldap_cases[of dir cfg name cancelled now u p st])
      (auto simp: vouch_for_simps dest: upsert_user)
qed

text \<open>
  C23. The directory decides: an LDAP sign-in yields a user only after exactly one entry was found
  for the name and that entry's own bind took the given, non-empty password; the user's role is
  the one its groups give, and it is an administrator only through a configured admin group or a
  default role that says so.
\<close>

theorem ldap_login_needs_bind:
  assumes "fst (ldap_Authenticate dir cfg name cancelled now u p st) = Some (Some usr, ProviderAuthenticated)"
  shows "p \<noteq> [] \<and> (\<exists>e groups. findUser dir cfg u = Some (Some e) \<and> ldap_bind dir (DN e) p = BindOk
    \<and> groupsForUser dir cfg e = Some groups \<and> AuthProvider usr = name \<and> name \<noteq> ProviderLocal
    \<and> ExternalSubject usr = ldapSubject e (SubjectAttribute cfg)
    \<and> Role usr = roleForGroups (first_rdn dir) cfg groups
    \<and> (Role usr = RoleAdmin \<longrightarrow> groupMatch (first_rdn dir) groups (AdminGroups cfg) \<or> DefaultRole cfg = RoleAdmin))"
proof (cases rule: ldap_cases[of dir cfg name cancelled now u p st])
  case (refused r)
  then show ?thesis using assms by auto
next
  case (accepted e groups un d em)
  have ok: "fst (UpsertExternalUser now name (ldapSubject e (SubjectAttribute cfg)) un d em
      (roleForGroups (first_rdn dir) cfg groups) st) = Inr usr"
    using assms accepted(2) by (simp add: vouch_for_simps)
  have "Role usr = RoleAdmin \<longrightarrow> groupMatch (first_rdn dir) groups (AdminGroups cfg) \<or> DefaultRole cfg = RoleAdmin"
    using upsert_user[OF ok] by (auto simp: roleForGroups_def RoleAdmin_def RoleViewer_def split: if_splits)
  then show ?thesis using upsert_user[OF ok] accepted(1) by (auto simp: ldap_accepts_def)
qed

definition directory_example :: directory where
  "directory_example = \<lparr>dial = True,
     ldap_bind = (\<lambda>dn p. if dn = ''cn=ann'' \<and> p = ''pw'' then BindOk else BindInvalidCredentials),
     search_users = (\<lambda>_ f. if f = ''(uid=ann)'' then Some [\<lparr>DN = ''cn=ann'',
        attribute_values = (\<lambda>a. if a = ''uid'' then [''ann''] else if a = ''memberOf'' then [''Ops''] else [])\<rparr>] else Some []),
     search_groups = (\<lambda>_ _. Some []), EscapeFilter = (\<lambda>s. s), first_rdn = (\<lambda>_. None)\<rparr>"

definition ldap_config_example :: ldap_config where
  "ldap_config_example = \<lparr>BindDN = [], BindPassword = [], UserBaseDN = ''dc=x'', UserFilter = ''(uid={username})'',
     UsernameAttribute = ''uid'', SubjectAttribute = ''uid'', DisplayNameAttribute = ''cn'', EmailAttribute = ''mail'',
     GroupAttribute = ''memberOf'', GroupBaseDN = [], NestedActiveDirectory = False, AdminGroups = ['' ops ''],
     ViewerGroups = [], DefaultRole = [], MatchDomains = []\<rparr>"

lemma ldap_login_needs_bind_witness:
  "groupMatch (first_rdn directory_example) [''Ops''] (AdminGroups ldap_config_example)"
proof -
  let ?r = "ldap_Authenticate directory_example ldap_config_example ''corp'' (False, False) 5 ''ann'' ''pw''
      \<lparr>users = [], next_id = 1, db_up = True\<rparr>"
  have "map_option (\<lambda>(u, r). (map_option Role u, r)) (fst ?r) = Some (Some RoleAdmin, ProviderAuthenticated)"
    by code_simp
  then obtain usr where u: "fst ?r = Some (Some usr, ProviderAuthenticated)" "Role usr = RoleAdmin"
    by auto
  have "case findUser directory_example ldap_config_example ''ann'' of
      Some (Some e) \<Rightarrow> groupsForUser directory_example ldap_config_example e = Some [''Ops''] | _ \<Rightarrow> False"
    by code_simp
  then have g: "\<forall>e. findUser directory_example ldap_config_example ''ann'' = Some (Some e)
      \<longrightarrow> groupsForUser directory_example ldap_config_example e = Some [''Ops'']"
    by (auto split: option.splits)
  show ?thesis using ldap_login_needs_bind[OF u(1)] u(2) g
    by (auto simp: ldap_config_example_def RoleAdmin_def)
qed

end
