(* ===== verification/Oidc.thy ===== *)
theory Oidc
  imports Ldap
begin

text \<open>
  Single sign-on: the OIDC provider of \<^verbatim>\<open>internal/auth/oidc.go\<close>. Random values, the clock and the
  answers of the identity provider (discovery, code exchange, token verification) are given to
  the steps; the table of pending flows is the state.
\<close>

section \<open>State\<close>

record oidc_flow =
  fl_nonce :: string
  fl_verifier :: string
  fl_binding :: string
  fl_created :: gotime

record oidc_config =
  GroupsClaim :: string
  UsernameClaim :: string
  EmailClaim :: string
  DisplayNameClaim :: string
  oAdminGroups :: "string list"
  oViewerGroups :: "string list"
  oDefaultRole :: string
  oScopes :: "string list"

record oidc_provider =
  o_name :: string
  publicURL :: string
  o_config :: oidc_config
  o_runtime :: bool
  flows :: "(string, oidc_flow) gomap"
  flowEvictions :: "64 word"
  lastSweep :: gotime

definition oidcFlowTTL :: int where "oidcFlowTTL = 10 * minute"
definition oidcMaxFlows :: nat where "oidcMaxFlows = 10000"

definition NewOIDCProvider :: "string \<Rightarrow> string \<Rightarrow> oidc_config \<Rightarrow> oidc_provider" where
  "NewOIDCProvider name url cfg = \<lparr>o_name = name, publicURL = TrimRight url CHR ''/'', o_config = cfg,
     o_runtime = False, flows = [], flowEvictions = 0, lastSweep = 0\<rparr>"

section \<open>Pending flows\<close>

text \<open>The scan for the oldest flow, in the map's iteration order.\<close>

fun oldest_flow :: "string \<times> gotime \<Rightarrow> (string, oidc_flow) gomap \<Rightarrow> string" where
  "oldest_flow (k, t) [] = k"
| "oldest_flow (k, t) ((k', f) # m) =
    (if k = [] \<or> fl_created f < t then oldest_flow (k', fl_created f) m else oldest_flow (k, t) m)"

definition storeFlow :: "gotime \<Rightarrow> string \<Rightarrow> oidc_flow \<Rightarrow> oidc_provider \<Rightarrow> oidc_provider" where
  "storeFlow now state flow p =
    (let sweep = now - lastSweep p \<ge> minute \<or> length (flows p) \<ge> oidcMaxFlows;
         kept = filter (\<lambda>(k, f). \<not> fl_created f < now - oidcFlowTTL) (flows p);
         p1 = (if sweep then p\<lparr>flows := kept,
                  flowEvictions := flowEvictions p + of_nat (length (flows p) - length kept),
                  lastSweep := now\<rparr> else p);
         p2 = (if length (flows p1) \<ge> oidcMaxFlows
               then p1\<lparr>flows := gm_del (oldest_flow ([], 0) (flows p1)) (flows p1),
                       flowEvictions := flowEvictions p1 + 1\<rparr>
               else p1)
     in p2\<lparr>flows := gm_set state flow (flows p2)\<rparr>)"

definition consumeFlow :: "gotime \<Rightarrow> string \<Rightarrow> oidc_provider \<Rightarrow> oidc_flow option \<times> oidc_provider" where
  "consumeFlow now state p =
    (let p1 = p\<lparr>flows := gm_del state (flows p)\<rparr>
     in case map_of (flows p) state of
          None \<Rightarrow> (None, p1)
        | Some f \<Rightarrow> if fl_created f < now - oidcFlowTTL then (None, p1) else (Some f, p1))"

record flow_stats =
  fs_Active :: nat
  fs_Evictions :: "64 word"

definition FlowStats :: "oidc_provider \<Rightarrow> flow_stats" where
  "FlowStats p = \<lparr>fs_Active = length (flows p), fs_Evictions = flowEvictions p\<rparr>"

definition secureCookie :: "oidc_provider \<Rightarrow> bool" where
  "secureCookie p \<longleftrightarrow> \<not> HasPrefix (publicURL p) ''http://''"

definition callbackPath :: "oidc_provider \<Rightarrow> string" where
  "callbackPath p = ''/api/auth/oidc/'' @ o_name p @ ''/callback''"

definition flowCookieName :: "oidc_provider \<Rightarrow> string" where
  "flowCookieName p = ''oidc_flow_'' @ o_name p"

section \<open>Claims\<close>

datatype claim_value =
    ClaimString string
  | ClaimStrings "string list"
  | ClaimAny "string option list"
  | ClaimRaw "string list"
  | ClaimOther

definition stringClaim :: "claim_value \<Rightarrow> string" where
  "stringClaim v = (case v of ClaimString s \<Rightarrow> s | _ \<Rightarrow> [])"

definition stringSliceClaim :: "claim_value \<Rightarrow> string list" where
  "stringSliceClaim v = (case v of
      ClaimString s \<Rightarrow> [s]
    | ClaimStrings ss \<Rightarrow> ss
    | ClaimAny vs \<Rightarrow> map the (filter (\<lambda>x. x \<noteq> None) vs)
    | ClaimRaw ss \<Rightarrow> ss
    | ClaimOther \<Rightarrow> [])"

definition roleForExternalGroups :: "(string \<Rightarrow> string option) \<Rightarrow> string list \<Rightarrow> string list \<Rightarrow> string list \<Rightarrow> string \<Rightarrow> string" where
  "roleForExternalGroups rdn actual admins viewers defaultRole =
    (if groupMatch rdn actual admins then RoleAdmin
     else if groupMatch rdn actual viewers then RoleViewer
     else defaultRole)"

fun unique_acc :: "string list \<Rightarrow> string list \<Rightarrow> string list" where
  "unique_acc seen [] = []"
| "unique_acc seen (v # vs) = (if v \<in> set seen then unique_acc seen vs else v # unique_acc (v # seen) vs)"

definition uniqueStrings :: "string list \<Rightarrow> string list" where
  "uniqueStrings vs = unique_acc [] vs"

definition oidc_scopes :: "oidc_config \<Rightarrow> string list" where
  "oidc_scopes cfg = uniqueStrings ([''openid'', ''profile'', ''email''] @ oScopes cfg)"

section \<open>Beginning and completing a login\<close>

record id_token =
  tok_nonce :: string
  tok_subject :: string
  tok_claims :: "(string \<Rightarrow> claim_value) option"

record oidc_issuer =
  discover :: bool
  exchange :: "string \<Rightarrow> string \<Rightarrow> string option option"
  verify :: "string \<Rightarrow> id_token option"
  dn_rdn :: "string \<Rightarrow> string option"

datatype oidc_error = ErrOIDCInvalidResponse | ErrOIDCForbidden | ErrOIDCUnavailable

definition ensureRuntime :: "oidc_issuer \<Rightarrow> oidc_provider \<Rightarrow> bool \<times> oidc_provider" where
  "ensureRuntime iss p =
    (if o_runtime p then (True, p)
     else if discover iss then (True, p\<lparr>o_runtime := True\<rparr>) else (False, p))"

text \<open>
  \<open>rnd\<close> holds the state, nonce, verifier and binding drawn for the login, \<open>None\<close> when the source
  of randomness fails. The result is the state and nonce of the redirect and the flow cookie.
\<close>

record flow_cookie =
  fc_name :: string
  fc_value :: string
  fc_path :: string
  fc_secure :: bool

definition BeginLogin :: "oidc_issuer \<Rightarrow> gotime \<Rightarrow> (string \<times> string \<times> string \<times> string) option
    \<Rightarrow> oidc_provider \<Rightarrow> (string \<times> string \<times> flow_cookie) option \<times> oidc_provider" where
  "BeginLogin iss now rnd p =
    (let (ok, p1) = ensureRuntime iss p
     in if \<not> ok then (None, p1)
        else case rnd of
          None \<Rightarrow> (None, p1)
        | Some (state, nonce, ver, binding) \<Rightarrow>
            (Some (state, nonce, \<lparr>fc_name = flowCookieName p1, fc_value = binding,
                fc_path = callbackPath p1, fc_secure = secureCookie p1\<rparr>),
             storeFlow now state \<lparr>fl_nonce = nonce, fl_verifier = ver, fl_binding = binding,
                fl_created = now\<rparr> p1))"

definition upsert_result :: "(store_error + user) \<times> store \<Rightarrow> (oidc_error + user) \<times> store" where
  "upsert_result r = (map_sum (\<lambda>_. ErrOIDCUnavailable) id (fst r), snd r)"

lemma upsert_result_simps [simp]:
  "snd (upsert_result r) = snd r" "fst (upsert_result r) = Inr u \<longleftrightarrow> fst r = Inr u"
  by (cases "fst r"; simp add: upsert_result_def)+

definition oidc_user :: "oidc_issuer \<Rightarrow> gotime \<Rightarrow> oidc_flow \<Rightarrow> string \<Rightarrow> oidc_provider \<Rightarrow> store
    \<Rightarrow> (oidc_error + user) \<times> store" where
  "oidc_user iss now flow code p st =
    (case exchange iss code (fl_verifier flow) of
       None \<Rightarrow> (Inl ErrOIDCUnavailable, st)
     | Some raw \<Rightarrow> (case raw of
         None \<Rightarrow> (Inl ErrOIDCInvalidResponse, st)
       | Some idt \<Rightarrow>
         if idt = [] then (Inl ErrOIDCInvalidResponse, st)
         else case verify iss idt of
           None \<Rightarrow> (Inl ErrOIDCUnavailable, st)
         | Some tok \<Rightarrow>
           if tok_nonce tok \<noteq> fl_nonce flow then (Inl ErrOIDCInvalidResponse, st)
           else case tok_claims tok of
             None \<Rightarrow> (Inl ErrOIDCUnavailable, st)
           | Some claims \<Rightarrow>
             let cfg = o_config p;
                 groups = stringSliceClaim (claims (GroupsClaim cfg));
                 role = roleForExternalGroups (dn_rdn iss) groups (oAdminGroups cfg) (oViewerGroups cfg)
                          (oDefaultRole cfg);
                 name0 = stringClaim (claims (UsernameClaim cfg));
                 email = stringClaim (claims (EmailClaim cfg));
                 name1 = (if name0 = [] then email else name0);
                 username = (if name1 = [] then tok_subject tok else name1)
             in if role = [] then (Inl ErrOIDCForbidden, st)
                else upsert_result (UpsertExternalUser now (o_name p) (tok_subject tok) username
                        (stringClaim (claims (DisplayNameClaim cfg))) email role st)))"

definition CompleteLogin :: "oidc_issuer \<Rightarrow> gotime \<Rightarrow> string \<Rightarrow> string \<Rightarrow> string \<Rightarrow> oidc_provider \<times> store
    \<Rightarrow> (oidc_error + user) \<times> oidc_provider \<times> store" where
  "CompleteLogin iss now state code binding ps =
    (let (flow, p1) = consumeFlow now state (fst ps)
     in case flow of
          None \<Rightarrow> (Inl ErrOIDCInvalidResponse, p1, snd ps)
        | Some f \<Rightarrow>
            if code = [] \<or> binding = [] \<or> binding \<noteq> fl_binding f then (Inl ErrOIDCInvalidResponse, p1, snd ps)
            else
              let (ok, p2) = ensureRuntime iss p1
              in if \<not> ok then (Inl ErrOIDCUnavailable, p2, snd ps)
                 else (let (r, st) = oidc_user iss now f code p2 (snd ps) in (r, p2, st)))"

section \<open>Flows are bounded, bound to the browser and single use\<close>

datatype flow_op = StoreFlow gotime string oidc_flow | ConsumeFlow gotime string

primrec flow_step :: "flow_op \<Rightarrow> oidc_provider \<Rightarrow> oidc_provider" where
  "flow_step (StoreFlow now s f) p = storeFlow now s f p"
| "flow_step (ConsumeFlow now s) p = snd (consumeFlow now s p)"

lemma oldest_flow_insert: "oldest_flow (k, t) m \<in> insert k (fst ` set m)"
proof (induction m arbitrary: k t)
  case (Cons p m)
  obtain k' f where "p = (k', f)" by (cases p)
  with Cons[of k' "fl_created f"] Cons[of k t] show ?case by auto
qed simp

lemma oldest_flow_mem:
  assumes "m \<noteq> []"
  shows "oldest_flow ([], t) m \<in> fst ` set m"
proof -
  obtain k f m' where m: "m = (k, f) # m'" using assms by (cases m) auto
  show ?thesis using oldest_flow_insert[of k "fl_created f" m'] by (simp add: m)
qed

lemma gm_del_length_mem:
  assumes "k \<in> fst ` set m"
  shows "length (gm_del k m) < length m"
  using assms length_filter_less[of _ m "\<lambda>p. fst p \<noteq> k"] by (auto simp: gm_del_def)

lemma storeFlow_bound:
  assumes "length (flows p) \<le> oidcMaxFlows"
  shows "length (flows (storeFlow now s f p)) \<le> oidcMaxFlows"
proof -
  define p1 where "p1 = (if now - lastSweep p \<ge> minute \<or> length (flows p) \<ge> oidcMaxFlows
     then p\<lparr>flows := filter (\<lambda>(k, f). \<not> fl_created f < now - oidcFlowTTL) (flows p),
       flowEvictions := flowEvictions p + of_nat (length (flows p) - length (filter (\<lambda>(k, f). \<not> fl_created f < now - oidcFlowTTL) (flows p))),
       lastSweep := now\<rparr> else p)"
  define fs where "fs = (if length (flows p1) \<ge> oidcMaxFlows then gm_del (oldest_flow ([], 0) (flows p1)) (flows p1)
      else flows p1)"
  have fl: "flows (storeFlow now s f p) = gm_set s f fs"
    by (simp add: storeFlow_def Let_def fs_def p1_def)
  have "length (flows p1) \<le> oidcMaxFlows"
    using assms le_trans[OF length_filter_le] by (auto simp: p1_def)
  moreover have "length (gm_del (oldest_flow ([], 0) (flows p1)) (flows p1)) < length (flows p1)"
    if "length (flows p1) \<ge> oidcMaxFlows"
    using that by (intro gm_del_length_mem oldest_flow_mem) (auto simp: oidcMaxFlows_def)
  ultimately have "length fs < oidcMaxFlows" by (auto simp: fs_def)
  then show ?thesis unfolding fl using gm_set_length_le[of s f fs] by linarith
qed

text \<open>
  An unauthenticated caller cannot grow the table of pending sign-ons: over any sequence of
  begun and finished logins it holds at most ten thousand.
\<close>

theorem oidc_flows_bounded:
  "length (flows (fold flow_step ops (NewOIDCProvider name url cfg))) \<le> 10000"
proof -
  have "length (flows p) \<le> oidcMaxFlows \<Longrightarrow> length (flows (fold flow_step ops p)) \<le> oidcMaxFlows" for p
  proof (induction ops arbitrary: p)
    case (Cons op ops)
    have "length (flows (flow_step op p)) \<le> oidcMaxFlows"
      using Cons.prems storeFlow_bound le_trans[OF gm_del_length_le]
      by (cases op) (auto simp: consumeFlow_def Let_def split: option.split)
    then show ?case using Cons.IH by simp
  qed simp
  then show ?thesis by (simp add: NewOIDCProvider_def oidcMaxFlows_def)
qed

text \<open>
  C14. A single sign-on completes only for the browser that began it, within ten minutes, with the
  nonce it was given, and once: afterwards the same state is refused whatever else is presented.
\<close>

theorem oidc_login_bound_and_single_use:
  assumes "CompleteLogin iss now state code binding (p, st) = (Inr u, p', st')"
  shows "(\<exists>f. map_of (flows p) state = Some f \<and> now - 10 * 60 * 1000000000 \<le> fl_created f
      \<and> binding = fl_binding f \<and> binding \<noteq> []
      \<and> (\<exists>idt tok. exchange iss code (fl_verifier f) = Some (Some idt) \<and> verify iss idt = Some tok
            \<and> tok_nonce tok = fl_nonce f \<and> ExternalSubject u = tok_subject tok))
    \<and> AuthProvider u = o_name p \<and> AuthProvider u \<noteq> ProviderLocal
    \<and> fst (CompleteLogin iss' now' state code' binding' (p', st'')) = Inl ErrOIDCInvalidResponse"
proof -
  obtain f where f: "map_of (flows p) state = Some f" "\<not> fl_created f < now - oidcFlowTTL"
    "binding = fl_binding f" "binding \<noteq> []" "code \<noteq> []"
    and u: "fst (oidc_user iss now f code (snd (ensureRuntime iss (p\<lparr>flows := gm_del state (flows p)\<rparr>))) st) = Inr u"
    and p': "p' = snd (ensureRuntime iss (p\<lparr>flows := gm_del state (flows p)\<rparr>))"
    using assms by (auto simp: CompleteLogin_def consumeFlow_def Let_def split: option.splits if_splits prod.splits)
  have q: "o_name p' = o_name p" "map_of (flows p') state = None"
    by (auto simp: p' ensureRuntime_def)
  have "\<exists>idt tok. exchange iss code (fl_verifier f) = Some (Some idt) \<and> verify iss idt = Some tok
            \<and> tok_nonce tok = fl_nonce f \<and> ExternalSubject u = tok_subject tok
            \<and> AuthProvider u = o_name p' \<and> AuthProvider u \<noteq> ProviderLocal"
    using u[folded p'] upsert_user unfolding oidc_user_def Let_def
    by (auto split: option.splits if_splits)
  moreover have "fst (CompleteLogin iss' now' state code' binding' (p', st'')) = Inl ErrOIDCInvalidResponse"
    by (simp add: CompleteLogin_def consumeFlow_def Let_def q)
  ultimately show ?thesis
    using f q(1) by (auto simp: oidcFlowTTL_def minute_def second_def)
qed

definition issuer_example :: oidc_issuer where
  "issuer_example = \<lparr>discover = True, exchange = (\<lambda>c v. Some (Some ''idt'')),
     verify = (\<lambda>t. Some \<lparr>tok_nonce = ''n'', tok_subject = ''sub-1'',
        tok_claims = Some (\<lambda>c. if c = ''groups'' then ClaimAny [Some ''Ops'', None] else ClaimOther)\<rparr>),
     dn_rdn = (\<lambda>_. None)\<rparr>"

definition oidc_example :: oidc_provider where
  "oidc_example = (NewOIDCProvider ''sso'' ''https://dash/'' \<lparr>GroupsClaim = ''groups'', UsernameClaim = ''u'',
      EmailClaim = ''e'', DisplayNameClaim = ''d'', oAdminGroups = [''ops''], oViewerGroups = [],
      oDefaultRole = [], oScopes = []\<rparr>)\<lparr>flows := [(''st'', \<lparr>fl_nonce = ''n'', fl_verifier = ''v'',
      fl_binding = ''b'', fl_created = 5\<rparr>)]\<rparr>"

lemma oidc_login_bound_and_single_use_witness:
  "fst (CompleteLogin issuer_example 20 ''st'' ''c2'' ''b''
      (fst (snd (CompleteLogin issuer_example 10 ''st'' ''c'' ''b'' (oidc_example, \<lparr>users = [], next_id = 1, db_up = True\<rparr>))),
       \<lparr>users = [], next_id = 1, db_up = True\<rparr>)) = Inl ErrOIDCInvalidResponse"
proof -
  let ?r = "CompleteLogin issuer_example 10 ''st'' ''c'' ''b'' (oidc_example, \<lparr>users = [], next_id = 1, db_up = True\<rparr>)"
  have "\<not> isl (fst ?r)" by code_simp
  then obtain u p' st' where r: "?r = (Inr u, p', st')"
    by (metis isl_def prod.collapse sum.exhaust)
  show ?thesis
    using oidc_login_bound_and_single_use[OF r] by (simp add: r)
qed

end
