(* ===== verification/RateLimiter.thy ===== *)
theory RateLimiter
  imports Prelude
begin

text \<open>
  The login rate limiter of \<^verbatim>\<open>internal/auth/ratelimit.go\<close>: the attempt table, admission,
  eviction under capacity pressure and periodic pruning. The mutex makes every operation a step;
  the clock reading of a step is its first argument.
\<close>

section \<open>State\<close>

record rate_limiter =
  attempts :: "(string, gotime list) gomap"
  window :: int
  max_attempts :: int
  maxKeys :: int
  rejected :: "64 word"
  evicted :: "64 word"

definition NewLoginRateLimiter :: "int \<Rightarrow> int \<Rightarrow> rate_limiter" where
  "NewLoginRateLimiter mx win =
    \<lparr> attempts = [], window = win, max_attempts = mx, maxKeys = 10000, rejected = 0, evicted = 0 \<rparr>"

section \<open>Eviction\<close>

text \<open>\<open>expired\<close> is the first loop's test; a key with attempts is stale when its last one is.\<close>

definition expired :: "gotime \<Rightarrow> gotime list \<Rightarrow> bool" where
  "expired cutoff ats \<longleftrightarrow> ats = [] \<or> last ats < cutoff"

definition live :: "gotime \<Rightarrow> gotime list \<Rightarrow> int" where
  "live cutoff ats = int (length (filter (\<lambda>t. \<not> t < cutoff) ats))"

definition evictable :: "int \<Rightarrow> gotime \<Rightarrow> (string, gotime list) gomap \<Rightarrow> (string \<times> gotime) list" where
  "evictable mx cutoff m =
    map (\<lambda>(k, ats). (k, last ats)) (filter (\<lambda>(k, ats). \<not> live cutoff ats \<ge> mx) m)"

definition evictStaleLocked :: "gotime \<Rightarrow> rate_limiter \<Rightarrow> rate_limiter" where
  "evictStaleLocked cutoff rl =
    (let m1 = filter (\<lambda>(k, ats). \<not> expired cutoff ats) (attempts rl);
         gone = length (attempts rl) - length m1;
         rl1 = rl\<lparr>attempts := m1, evicted := evicted rl + of_nat gone\<rparr>
     in if int (length m1) < maxKeys rl then rl1
        else
          let ev = sort_key snd (evictable (max_attempts rl) cutoff m1);
              drp = int (length m1) - maxKeys rl + maxKeys rl div 10 + 1;
              victims = map fst (take (nat drp) ev)
          in rl1\<lparr>attempts := filter (\<lambda>(k, ats). k \<notin> set victims) m1,
                 evicted := evicted rl1 + of_nat (length victims)\<rparr>)"

section \<open>Admission and pruning\<close>

definition Allow :: "gotime \<Rightarrow> string \<Rightarrow> rate_limiter \<Rightarrow> bool \<times> rate_limiter" where
  "Allow now ip rl =
    (let cutoff = now - window rl;
         recent0 = gm_get_list (attempts rl) ip;
         rl1 = (if recent0 = [] \<and> int (length (attempts rl)) \<ge> maxKeys rl
                then evictStaleLocked cutoff rl else rl);
         recent = dropWhile (\<lambda>t. t < cutoff) recent0
     in if int (length recent) \<ge> max_attempts rl
        then (False, rl1\<lparr>rejected := rejected rl1 + 1, attempts := gm_set ip recent (attempts rl1)\<rparr>)
        else (True, rl1\<lparr>attempts := gm_set ip (recent @ [now]) (attempts rl1)\<rparr>))"

definition prune :: "gotime \<Rightarrow> rate_limiter \<Rightarrow> rate_limiter" where
  "prune now rl =
    (let cutoff = now - window rl
     in rl\<lparr>attempts := filter (\<lambda>(k, ats). ats \<noteq> [])
              (map (\<lambda>(k, ats). (k, dropWhile (\<lambda>t. t < cutoff) ats)) (attempts rl))\<rparr>)"

record rate_limiter_stats =
  Keys :: int
  Rejected :: "64 word"
  Evicted :: "64 word"

definition Size :: "rate_limiter \<Rightarrow> int" where
  "Size rl = int (length (attempts rl))"

definition rl_Stats :: "rate_limiter \<Rightarrow> rate_limiter_stats" where
  "rl_Stats rl = \<lparr>Keys = Size rl, Rejected = rejected rl, Evicted = evicted rl\<rparr>"

section \<open>Runs\<close>

datatype rl_event = LoginAttempt string | Cleanup

definition rl_step :: "gotime \<times> rl_event \<Rightarrow> rate_limiter \<Rightarrow> bool \<times> rate_limiter" where
  "rl_step te rl = (case snd te of
      LoginAttempt ip \<Rightarrow> Allow (fst te) ip rl
    | Cleanup \<Rightarrow> (True, prune (fst te) rl))"

primrec rl_run :: "(gotime \<times> rl_event) list \<Rightarrow> rate_limiter \<Rightarrow> bool list \<times> rate_limiter" where
  "rl_run [] rl = ([], rl)"
| "rl_run (e # es) rl =
    (let (b, rl1) = rl_step e rl; (bs, rl2) = rl_run es rl1 in (b # bs, rl2))"

text \<open>
  The specification: a log of admitted attempts, and admission when fewer than \<open>mx\<close> of
  the source's admitted attempts lie in the window that ends now.
\<close>

primrec sliding_window :: "int \<Rightarrow> int \<Rightarrow> (string \<times> gotime) list \<Rightarrow> (gotime \<times> rl_event) list \<Rightarrow> bool list"
where
  "sliding_window mx win lg [] = []"
| "sliding_window mx win lg (e # es) = (case snd e of
      Cleanup \<Rightarrow> True # sliding_window mx win lg es
    | LoginAttempt ip \<Rightarrow>
        if int (length (filter (\<lambda>(k, t). k = ip \<and> fst e - win \<le> t) lg)) < mx
        then True # sliding_window mx win (lg @ [(ip, fst e)]) es
        else False # sliding_window mx win lg es)"

definition event_ips :: "(gotime \<times> rl_event) list \<Rightarrow> string set" where
  "event_ips es = {ip. \<exists>t. (t, LoginAttempt ip) \<in> set es}"

definition rl_inv :: "gotime \<Rightarrow> rate_limiter \<Rightarrow> bool" where
  "rl_inv T rl \<longleftrightarrow> gm_ok (attempts rl)
    \<and> (\<forall>k ats. map_of (attempts rl) k = Some ats \<longrightarrow> sorted ats \<and> (\<forall>t\<in>set ats. t \<le> T))"

section \<open>Lookups after each operation\<close>

lemma evict_params [simp]:
  "window (evictStaleLocked c rl) = window rl"
  "max_attempts (evictStaleLocked c rl) = max_attempts rl"
  "maxKeys (evictStaleLocked c rl) = maxKeys rl"
  "rejected (evictStaleLocked c rl) = rejected rl"
  by (simp_all add: evictStaleLocked_def Let_def)

lemma evict_filter:
  "\<exists>P. attempts (evictStaleLocked c rl) = gm_filter P (attempts rl)
     \<and> (\<forall>k ats. ats \<noteq> [] \<and> c \<le> last ats \<and> live c ats \<ge> max_attempts rl
           \<and> map_of (attempts rl) k = Some ats \<longrightarrow> gm_ok (attempts rl) \<longrightarrow> P k ats)"
proof -
  define m1 where "m1 = filter (\<lambda>(k, ats). \<not> expired c ats) (attempts rl)"
  define ev where "ev = sort_key snd (evictable (max_attempts rl) c m1)"
  define drp where "drp = int (length m1) - maxKeys rl + maxKeys rl div 10 + 1"
  define vs where "vs = set (map fst (take (nat drp) ev))"
  show ?thesis
  proof (cases "int (length m1) < maxKeys rl")
    case True
    then have "attempts (evictStaleLocked c rl) = gm_filter (\<lambda>k ats. \<not> expired c ats) (attempts rl)"
      by (simp add: evictStaleLocked_def Let_def m1_def gm_filter_def)
    then show ?thesis by (intro exI[of _ "\<lambda>k ats. \<not> expired c ats"]) (auto simp: expired_def)
  next
    case False
    have "attempts (evictStaleLocked c rl) = filter (\<lambda>(k, ats). k \<notin> vs) m1"
      using False unfolding evictStaleLocked_def Let_def m1_def[symmetric] ev_def[symmetric]
        drp_def[symmetric] vs_def[symmetric] if_not_P[OF False] by simp
    then have eq: "attempts (evictStaleLocked c rl)
        = gm_filter (\<lambda>k ats. \<not> expired c ats \<and> k \<notin> vs) (attempts rl)"
      unfolding m1_def gm_filter_def filter_filter
      by (simp only:) (rule filter_cong, auto)
    have sub: "vs \<subseteq> fst ` set (evictable (max_attempts rl) c m1)"
      unfolding vs_def ev_def by (auto dest!: in_set_takeD)
    have "k \<notin> vs" if "live c ats \<ge> max_attempts rl" "map_of (attempts rl) k = Some ats"
      "gm_ok (attempts rl)" for k ats
    proof
      assume "k \<in> vs"
      with sub obtain ats' where "(k, ats') \<in> set m1" "\<not> live c ats' \<ge> max_attempts rl"
        by (auto simp: evictable_def)
      moreover from this have "ats' = ats"
        using that by (auto simp: m1_def gm_mem_get)
      ultimately show False using that by simp
    qed
    then show ?thesis unfolding eq
      by (intro exI[of _ "\<lambda>k ats. \<not> expired c ats \<and> k \<notin> vs"]) (auto simp: expired_def)
  qed
qed

lemma evict_get_sub:
  assumes "gm_ok (attempts rl)" "map_of (attempts (evictStaleLocked c rl)) k = Some ats"
  shows "map_of (attempts rl) k = Some ats"
proof -
  obtain P where "attempts (evictStaleLocked c rl) = gm_filter P (attempts rl)"
    using evict_filter by blast
  with assms show ?thesis by (auto simp: gm_filter_get split: option.splits if_splits)
qed

lemma evict_keeps_blocked:
  assumes "rl_inv T rl" "live c ats \<ge> max_attempts rl" "0 < max_attempts rl"
    "map_of (attempts rl) k = Some ats"
  shows "map_of (attempts (evictStaleLocked c rl)) k = Some ats"
proof -
  obtain P where P: "attempts (evictStaleLocked c rl) = gm_filter P (attempts rl)"
    "\<And>k ats. ats \<noteq> [] \<Longrightarrow> c \<le> last ats \<Longrightarrow> live c ats \<ge> max_attempts rl \<Longrightarrow>
      map_of (attempts rl) k = Some ats \<Longrightarrow> gm_ok (attempts rl) \<Longrightarrow> P k ats"
    using evict_filter by blast
  have ok: "gm_ok (attempts rl)" and srt: "sorted ats"
    using assms by (auto simp: rl_inv_def)
  from assms(2,3) have "filter (\<lambda>t. \<not> t < c) ats \<noteq> []" by (auto simp: live_def)
  then obtain t where t: "t \<in> set ats" "c \<le> t" by (auto simp: filter_empty_conv)
  then have ne: "ats \<noteq> []" by auto
  from srt t(1) have "t \<le> last ats" by (rule sorted_le_last)
  with t have "c \<le> last ats" by simp
  with P(2)[OF ne this assms(2,4) ok] show ?thesis
    using ok assms(4) by (simp add: P(1) gm_filter_get)
qed

lemma evict_ok: "gm_ok (attempts rl) \<Longrightarrow> gm_ok (attempts (evictStaleLocked c rl))"
proof -
  assume "gm_ok (attempts rl)"
  moreover obtain P where "attempts (evictStaleLocked c rl) = gm_filter P (attempts rl)"
    using evict_filter by blast
  ultimately show ?thesis by simp
qed

lemma evict_inv [wf_intros]: "rl_inv T rl \<Longrightarrow> rl_inv T (evictStaleLocked c rl)"
  using evict_ok evict_get_sub unfolding rl_inv_def by blast

lemma prune_get:
  assumes "gm_ok (attempts rl)"
  shows "map_of (attempts (prune now rl)) k = (case map_of (attempts rl) k of None \<Rightarrow> None
    | Some ats \<Rightarrow> (let r = dropWhile (\<lambda>t. t < now - window rl) ats in if r = [] then None else Some r))"
proof -
  have "map_of (filter (\<lambda>(k, ats). ats \<noteq> []) (map (\<lambda>(k, ats). (k, f ats)) m)) k
      = (case map_of m k of None \<Rightarrow> None | Some ats \<Rightarrow> if f ats = [] then None else Some (f ats))"
    if "gm_ok m" for f :: "gotime list \<Rightarrow> gotime list" and m :: "(string, gotime list) gomap"
    using that
  proof (induction m)
    case (Cons p m)
    then have "map_of m (fst p) = None" by (simp add: gm_ok_def map_of_eq_None_iff)
    with Cons show ?case by (cases p) (auto simp: gm_ok_def split: option.splits)
  qed simp
  from this[OF assms] show ?thesis by (simp add: prune_def Let_def split: option.splits)
qed

lemma prune_get_list:
  "gm_ok (attempts rl) \<Longrightarrow> gm_get_list (attempts (prune now rl)) k
     = dropWhile (\<lambda>t. t < now - window rl) (gm_get_list (attempts rl) k)"
  by (cases "map_of (attempts rl) k")
    (auto simp: gm_get_list_def prune_get Let_def simp del: dropWhile_eq_Nil_conv)

lemma prune_ok: "gm_ok (attempts rl) \<Longrightarrow> gm_ok (attempts (prune now rl))"
proof -
  have "gm_ok m \<Longrightarrow> gm_ok (filter (\<lambda>(k, ats). ats \<noteq> []) (map (\<lambda>(k, ats). (k, f ats)) m))"
    for f :: "gotime list \<Rightarrow> gotime list" and m :: "(string, gotime list) gomap"
    by (induction m) (auto simp: gm_ok_def image_iff)
  then show "gm_ok (attempts rl) \<Longrightarrow> gm_ok (attempts (prune now rl))"
    by (simp add: prune_def Let_def)
qed

lemma prune_params [simp]:
  "window (prune now rl) = window rl" "max_attempts (prune now rl) = max_attempts rl"
  "maxKeys (prune now rl) = maxKeys rl"
  by (simp_all add: prune_def Let_def)

lemma Allow_params [simp]:
  "window (snd (Allow now ip rl)) = window rl"
  "max_attempts (snd (Allow now ip rl)) = max_attempts rl"
  "maxKeys (snd (Allow now ip rl)) = maxKeys rl"
  by (simp_all add: Allow_def Let_def)

lemma rl_step_params [simp]:
  "window (snd (rl_step e rl)) = window rl" "max_attempts (snd (rl_step e rl)) = max_attempts rl"
  "maxKeys (snd (rl_step e rl)) = maxKeys rl"
  by (simp_all add: rl_step_def split: rl_event.splits)

lemma sorted_dropWhile_set:
  "sorted (ats :: int list) \<Longrightarrow> sorted (dropWhile P ats)"
  "t \<in> set (dropWhile P ats) \<Longrightarrow> t \<in> set ats"
  by (auto simp: sorted_dropWhile dest: set_dropWhileD)

lemma Allow_inv [wf_intros]:
  assumes "rl_inv T rl" "T \<le> now"
  shows "rl_inv now (snd (Allow now ip rl))"
proof -
  define recent where "recent = dropWhile (\<lambda>t. t < now - window rl) (gm_get_list (attempts rl) ip)"
  have "sorted (gm_get_list (attempts rl) ip)" "\<forall>t\<in>set (gm_get_list (attempts rl) ip). t \<le> now"
    using assms by (cases "map_of (attempts rl) ip"; force simp: gm_get_list_def rl_inv_def)+
  then have r: "sorted recent" "\<forall>t\<in>set recent. t \<le> now"
    by (auto simp: recent_def sorted_dropWhile dest!: set_dropWhileD)
  have inv: "rl_inv T (evictStaleLocked (now - window rl) rl)" by (rule evict_inv[OF assms(1)])
  have w: "rl_inv now rl'" if "rl_inv T rl'" for rl'
    using that assms(2) unfolding rl_inv_def by fastforce
  have upd: "rl_inv now (rl'\<lparr>attempts := gm_set ip ats (attempts rl')\<rparr>)"
    if "rl_inv now rl'" "sorted ats" "\<forall>t\<in>set ats. t \<le> now" for rl' ats
    using that by (auto simp: rl_inv_def)
  have rej: "rl_inv now (rl'\<lparr>rejected := x, attempts := gm_set ip ats (attempts rl')\<rparr>)"
    if "rl_inv now rl'" "sorted ats" "\<forall>t\<in>set ats. t \<le> now" for rl' ats x
    using that by (auto simp: rl_inv_def)
  show ?thesis
    using upd[OF w[OF inv]] upd[OF w[OF assms(1)]] rej[OF w[OF inv]] rej[OF w[OF assms(1)]] r
    unfolding Allow_def Let_def recent_def[symmetric] by (auto simp: sorted_snoc)
qed

lemma prune_inv [wf_intros]:
  assumes "rl_inv T rl" "T \<le> now"
  shows "rl_inv now (prune now rl)"
  using assms prune_ok[of rl now] unfolding rl_inv_def
  by (fastforce simp: prune_get Let_def sorted_dropWhile split: option.splits if_splits
      dest: set_dropWhileD)

lemma rl_step_inv [wf_intros]:
  "rl_inv T rl \<Longrightarrow> T \<le> fst e \<Longrightarrow> rl_inv (fst e) (snd (rl_step e rl))"
  by (auto simp: rl_step_def Allow_inv prune_inv split: rl_event.splits)

section \<open>A blocked source stays blocked\<close>

lemma live_dropWhile:
  assumes "cutoff \<le> c"
  shows "live c (dropWhile (\<lambda>t. t < cutoff) ats) = live c ats"
  using assms by (induction ats) (auto simp: live_def)

lemma rl_step_blocked:
  assumes "rl_inv T rl" "0 < max_attempts rl" "fst e \<le> T'"
    "live (T' - window rl) (gm_get_list (attempts rl) k) \<ge> max_attempts rl"
  shows "live (T' - window rl) (gm_get_list (attempts (snd (rl_step e rl))) k) \<ge> max_attempts rl"
proof -
  define c where "c = fst e - window rl"
  have cT: "c \<le> T' - window rl" using assms(3) by (simp add: c_def)
  obtain ats where ats: "map_of (attempts rl) k = Some ats"
    using assms(2,4) by (auto simp: gm_get_list_def live_def split: option.splits)
  then have L: "live (T' - window rl) ats \<ge> max_attempts rl"
    using assms(4) by (simp add: gm_get_list_def)
  have "live c ats \<ge> live (T' - window rl) ats"
    using cT unfolding live_def by (auto intro!: length_filter_mono)
  then have Lc: "live c ats \<ge> max_attempts rl" using L by simp
  have ok: "gm_ok (attempts rl)" using assms(1) by (simp add: rl_inv_def)
  have ev: "map_of (attempts (evictStaleLocked c rl)) k = Some ats"
    by (rule evict_keeps_blocked[OF assms(1) Lc assms(2) ats])
  have g: "gm_get_list (attempts rl) k = ats" using ats by (simp add: gm_get_list_def)
  have dl: "live (T' - window rl) (dropWhile (\<lambda>t. t < c) ats) = live (T' - window rl) ats"
    by (rule live_dropWhile[OF cT])
  show ?thesis
  proof (cases "snd e")
    case Cleanup
    then show ?thesis using L dl ok g
      by (simp add: rl_step_def prune_get_list c_def)
  next
    case (LoginAttempt ip)
    then show ?thesis using L dl ats ev
      unfolding rl_step_def Allow_def Let_def c_def
      by (auto simp: gm_get_list_def live_def)
  qed
qed

text \<open>
  A source that has used its budget stays refused until its window has passed, whatever
  other attempts, evictions and prunings happen in between: capacity pressure is no way round
  the limit.
\<close>

theorem blocked_source_stays_blocked:
  assumes "rl_inv t0 rl" "0 < max_attempts rl"
    "sorted (t0 # map fst es)" "\<forall>e\<in>set es. fst e \<le> now"
    "live (now - window rl) (gm_get_list (attempts rl) k) \<ge> max_attempts rl"
  shows "fst (Allow now k (snd (rl_run es rl))) = False"
  using assms
proof (induction es arbitrary: rl t0)
  case Nil
  have "int (length (dropWhile (\<lambda>t. t < now - window rl) (gm_get_list (attempts rl) k)))
      \<ge> live (now - window rl) (dropWhile (\<lambda>t. t < now - window rl) (gm_get_list (attempts rl) k))"
    by (simp add: live_def)
  then show ?case using Nil.prems(5) by (simp add: Allow_def Let_def live_dropWhile)
next
  case (Cons e es)
  let ?rl = "snd (rl_step e rl)"
  have "rl_inv (fst e) ?rl" using Cons.prems(1,3) by (intro rl_step_inv) auto
  moreover have "live (now - window rl) (gm_get_list (attempts ?rl) k) \<ge> max_attempts rl"
    using Cons.prems by (intro rl_step_blocked) auto
  ultimately have "fst (Allow now k (snd (rl_run es ?rl))) = False"
    using Cons.prems by (intro Cons.IH[of "fst e"]) auto
  then show ?case by (simp add: split_beta)
qed

text \<open>A limiter with one address at its limit, and a flood that fills the table around it.\<close>

definition rl_example :: rate_limiter where
  "rl_example = (NewLoginRateLimiter 2 60)\<lparr>attempts := [(''a'', [100, 110]), (''b'', [105])], maxKeys := 2\<rparr>"

lemma blocked_source_stays_blocked_witness:
  "fst (Allow 150 ''a'' (snd (rl_run [(120, LoginAttempt ''c''), (130, Cleanup)] rl_example))) = False"
  by (rule blocked_source_stays_blocked[of 110 rl_example])
    (auto simp: rl_example_def NewLoginRateLimiter_def rl_inv_def gm_ok_def live_def
      gm_get_list_def split: if_splits)

section \<open>Exactness without pressure\<close>

text \<open>
  What the induction carries: the admitted attempts of each source are a forgotten part, all of
  it outside the window, followed by the stored list.
\<close>

definition tracks :: "gotime \<Rightarrow> (string \<times> gotime) list \<Rightarrow> rate_limiter \<Rightarrow> bool" where
  "tracks T lg rl \<longleftrightarrow> (\<forall>k. \<exists>old. map snd (filter (\<lambda>(a, t). a = k) lg)
      = old @ gm_get_list (attempts rl) k \<and> (\<forall>t\<in>set old. t < T - window rl))"

definition nonempty_lists :: "rate_limiter \<Rightarrow> bool" where
  "nonempty_lists rl \<longleftrightarrow> (\<forall>k ats. map_of (attempts rl) k = Some ats \<longrightarrow> ats \<noteq> [])"

lemma gm_length_card: "gm_ok m \<Longrightarrow> length m = card (dom (map_of m))"
  by (metis distinct_card dom_map_of_conv_image_fst gm_ok_def length_map set_map)

lemma count_recent:
  fixes ats :: "gotime list"
  assumes "map snd (filter (\<lambda>(a, t). a = k) lg) = old @ ats" "sorted ats" "\<forall>t\<in>set old. t < c"
  shows "length (filter (\<lambda>(a, t). a = k \<and> c \<le> t) lg) = length (dropWhile (\<lambda>t. t < c) ats)"
proof -
  have "length (filter (\<lambda>(a, t). a = k \<and> c \<le> t) lg)
      = length (filter (\<lambda>t. c \<le> t) (map snd (filter (\<lambda>(a, t). a = k) lg)))"
    by (simp add: filter_map comp_def case_prod_unfold conj_commute)
  also have "\<dots> = length (filter (\<lambda>t. c \<le> t) ats)"
    using assms(3) by (simp add: assms(1) filter_empty_conv not_le)
  finally show ?thesis using assms(2) by (simp add: dropWhile_sorted_filter)
qed

lemma dropWhile_split:
  "\<exists>gone. ats = gone @ dropWhile (\<lambda>t. t < c) ats \<and> (\<forall>t\<in>set gone. t < (c :: int))"
  by (intro exI[of _ "takeWhile (\<lambda>t. t < c) ats"]) (auto dest: set_takeWhileD)

lemma prune_tracks:
  assumes "tracks T lg rl" "rl_inv T rl" "T \<le> now"
  shows "tracks now lg (prune now rl)" "nonempty_lists (prune now rl)"
proof -
  have ok: "gm_ok (attempts rl)" using assms(2) by (simp add: rl_inv_def)
  show "tracks now lg (prune now rl)" unfolding tracks_def
  proof
    fix k
    obtain old where old: "map snd (filter (\<lambda>(a, t). a = k) lg) = old @ gm_get_list (attempts rl) k"
      "\<forall>t\<in>set old. t < T - window rl" using assms(1) by (auto simp: tracks_def)
    obtain gone where gone: "gm_get_list (attempts rl) k
        = gone @ dropWhile (\<lambda>t. t < now - window rl) (gm_get_list (attempts rl) k)"
      "\<forall>t\<in>set gone. t < now - window rl" using dropWhile_split by blast
    show "\<exists>old. map snd (filter (\<lambda>(a, t). a = k) lg) = old @ gm_get_list (attempts (prune now rl)) k
        \<and> (\<forall>t\<in>set old. t < now - window (prune now rl))"
      using old gone assms(3) by (intro exI[of _ "old @ gone"]) (auto simp: prune_get_list ok)
  qed
  show "nonempty_lists (prune now rl)"
    using ok by (auto simp: nonempty_lists_def prune_get Let_def split: option.splits if_splits)
qed

lemma Allow_no_pressure:
  assumes "\<not> (gm_get_list (attempts rl) ip = [] \<and> int (length (attempts rl)) \<ge> maxKeys rl)"
    "recent = dropWhile (\<lambda>t. t < now - window rl) (gm_get_list (attempts rl) ip)"
  shows "Allow now ip rl = (if int (length recent) \<ge> max_attempts rl
    then (False, rl\<lparr>rejected := rejected rl + 1, attempts := gm_set ip recent (attempts rl)\<rparr>)
    else (True, rl\<lparr>attempts := gm_set ip (recent @ [now]) (attempts rl)\<rparr>))"
  using assms by (auto simp: Allow_def Let_def)

lemma Allow_tracks:
  assumes "tracks T lg rl" "rl_inv T rl" "T \<le> now" "0 < max_attempts rl" "nonempty_lists rl"
    "\<not> (gm_get_list (attempts rl) ip = [] \<and> int (length (attempts rl)) \<ge> maxKeys rl)"
  defines "b \<equiv> int (length (filter (\<lambda>(k, t). k = ip \<and> now - window rl \<le> t) lg)) < max_attempts rl"
  shows "fst (Allow now ip rl) = b"
    "tracks now (if b then lg @ [(ip, now)] else lg) (snd (Allow now ip rl))"
    "nonempty_lists (snd (Allow now ip rl))"
    "dom (map_of (attempts (snd (Allow now ip rl)))) = insert ip (dom (map_of (attempts rl)))"
proof -
  define c where "c = now - window rl"
  define recent where "recent = dropWhile (\<lambda>t. t < c) (gm_get_list (attempts rl) ip)"
  have ex: "\<exists>old. map snd (filter (\<lambda>(a, t). a = k) lg) = old @ gm_get_list (attempts rl) k
      \<and> (\<forall>t\<in>set old. t < c)" for k
    using assms(1,3) unfolding tracks_def c_def by (meson diff_right_mono order_less_le_trans)
  obtain old where old: "map snd (filter (\<lambda>(a, t). a = ip) lg) = old @ gm_get_list (attempts rl) ip"
    "\<forall>t\<in>set old. t < c" using ex by blast
  have srt: "sorted (gm_get_list (attempts rl) ip)"
    using assms(2) by (cases "map_of (attempts rl) ip") (auto simp: gm_get_list_def rl_inv_def)
  have cnt: "b = (int (length recent) < max_attempts rl)"
    unfolding b_def recent_def c_def[symmetric] using count_recent[OF old(1) srt old(2)] by simp
  note A = Allow_no_pressure[OF assms(6), of recent now, unfolded c_def[symmetric], OF recent_def]
  show "fst (Allow now ip rl) = b" by (simp add: A cnt)
  obtain gone where gone: "gm_get_list (attempts rl) ip = gone @ recent" "\<forall>t\<in>set gone. t < c"
    unfolding recent_def using dropWhile_split by blast
  have old': "map snd (filter (\<lambda>(a, t). a = ip) lg) = (old @ gone) @ recent"
    "\<forall>t\<in>set (old @ gone). t < c" using old gone by auto
  show "tracks now (if b then lg @ [(ip, now)] else lg) (snd (Allow now ip rl))"
    unfolding tracks_def
  proof
    fix k
    show "\<exists>old. map snd (filter (\<lambda>(a, t). a = k) (if b then lg @ [(ip, now)] else lg))
        = old @ gm_get_list (attempts (snd (Allow now ip rl))) k
        \<and> (\<forall>t\<in>set old. t < now - window (snd (Allow now ip rl)))"
      using ex[of k] old' by (cases "k = ip") (auto simp: A cnt c_def)
  qed
  have "recent \<noteq> []" if "\<not> b" using that assms(4) by (auto simp: cnt)
  then show "nonempty_lists (snd (Allow now ip rl))"
    using assms(5) by (auto simp: A cnt nonempty_lists_def)
  show "dom (map_of (attempts (snd (Allow now ip rl)))) = insert ip (dom (map_of (attempts rl)))"
    by (auto simp: A)
qed

lemma finite_event_ips [simp]: "finite (event_ips es)"
proof -
  have "event_ips es \<subseteq> (\<lambda>e. case snd e of LoginAttempt ip \<Rightarrow> ip | Cleanup \<Rightarrow> []) ` set es"
    unfolding event_ips_def by force
  then show ?thesis using finite_subset by blast
qed

lemma event_ips_Cons:
  "event_ips (e # es) = (case snd e of LoginAttempt ip \<Rightarrow> insert ip (event_ips es) | Cleanup \<Rightarrow> event_ips es)"
  by (cases e) (auto simp: event_ips_def split: rl_event.splits)

lemma dom_prune: "gm_ok (attempts rl) \<Longrightarrow> dom (map_of (attempts (prune now rl))) \<subseteq> dom (map_of (attempts rl))"
  by (auto simp: prune_get Let_def split: option.splits if_splits)

lemma run_refines_sliding_window:
  assumes "tracks T lg rl" "rl_inv T rl" "nonempty_lists rl" "0 < max_attempts rl"
    "sorted (T # map fst es)"
    "int (card (dom (map_of (attempts rl)) \<union> event_ips es)) \<le> maxKeys rl"
  shows "fst (rl_run es rl) = sliding_window (max_attempts rl) (window rl) lg es"
  using assms
proof (induction es arbitrary: T lg rl)
  case Nil
  then show ?case by simp
next
  case (Cons e es)
  let ?rl = "snd (rl_step e rl)"
  have T: "T \<le> fst e" "sorted (fst e # map fst es)" using Cons.prems(5) by auto
  have inv: "rl_inv (fst e) ?rl" using Cons.prems(2) T(1) by (rule rl_step_inv)
  have ok: "gm_ok (attempts rl)" using Cons.prems(2) by (simp add: rl_inv_def)
  show ?case
  proof (cases "snd e")
    case Cleanup
    then have st: "rl_step e rl = (True, prune (fst e) rl)" by (simp add: rl_step_def)
    have "int (card (dom (map_of (attempts ?rl)) \<union> event_ips es))
        \<le> int (card (dom (map_of (attempts rl)) \<union> event_ips (e # es)))"
      using dom_prune[OF ok] Cleanup by (auto intro!: card_mono simp: st event_ips_Cons finite_dom_map_of)
    with Cons.IH[of "fst e" lg ?rl] show ?thesis
      using Cons.prems inv T prune_tracks[OF Cons.prems(1,2) T(1)] Cleanup
      by (simp add: st split_beta)
  next
    case (LoginAttempt ip)
    then have st: "rl_step e rl = Allow (fst e) ip rl" by (simp add: rl_step_def)
    have np: "\<not> (gm_get_list (attempts rl) ip = [] \<and> int (length (attempts rl)) \<ge> maxKeys rl)"
    proof
      assume a: "gm_get_list (attempts rl) ip = [] \<and> int (length (attempts rl)) \<ge> maxKeys rl"
      then have "ip \<notin> dom (map_of (attempts rl))"
        using Cons.prems(3) by (auto simp: nonempty_lists_def gm_get_list_def)
      then have "card (dom (map_of (attempts rl))) < card (dom (map_of (attempts rl)) \<union> event_ips (e # es))"
        using LoginAttempt by (intro psubset_card_mono) (auto simp: event_ips_Cons finite_dom_map_of)
      then show False using a Cons.prems(6) gm_length_card[OF ok] by simp
    qed
    note A = Allow_tracks[OF Cons.prems(1,2) T(1) Cons.prems(4,3) np]
    have "dom (map_of (attempts ?rl)) \<union> event_ips es = dom (map_of (attempts rl)) \<union> event_ips (e # es)"
      using A(4) LoginAttempt by (auto simp: st event_ips_Cons)
    then show ?thesis
      using Cons.IH[OF A(2), folded st] A(1,3) Cons.prems(4,6) inv T(2) LoginAttempt
      by (auto simp: st split_beta)
  qed
qed

text \<open>
  C6. While no more than the table's ten thousand sources occur, the limiter is exactly a
  sliding window: over any run of attempts and prunings, with the clock not going back, every
  decision is the one the specification makes from the log of admitted attempts.
\<close>

theorem limiter_is_sliding_window:
  assumes "0 < mx" "sorted (map fst es)" "card (event_ips es) \<le> 10000"
  shows "fst (rl_run es (NewLoginRateLimiter mx win)) = sliding_window mx win [] es"
proof (cases es)
  case (Cons e es')
  have "fst (rl_run es (NewLoginRateLimiter mx win))
      = sliding_window (max_attempts (NewLoginRateLimiter mx win)) (window (NewLoginRateLimiter mx win)) [] es"
    by (rule run_refines_sliding_window[of "fst e"])
      (use assms Cons in \<open>auto simp: NewLoginRateLimiter_def tracks_def rl_inv_def nonempty_lists_def
        gm_get_list_def\<close>)
  then show ?thesis by (simp add: NewLoginRateLimiter_def)
qed simp

lemma limiter_is_sliding_window_witness:
  "fst (rl_run [(10, LoginAttempt ''a''), (20, LoginAttempt ''a''), (25, Cleanup), (30, LoginAttempt ''a'')]
     (NewLoginRateLimiter 2 15)) = [True, True, True, True]"
proof -
  have ips: "event_ips [(10, LoginAttempt ''a''), (20, LoginAttempt ''a''), (25, Cleanup), (30, LoginAttempt ''a'')]
    = {''a''}" by (auto simp: event_ips_def)
  have "fst (rl_run [(10, LoginAttempt ''a''), (20, LoginAttempt ''a''), (25, Cleanup), (30, LoginAttempt ''a'')]
     (NewLoginRateLimiter 2 15))
    = sliding_window 2 15 [] [(10, LoginAttempt ''a''), (20, LoginAttempt ''a''), (25, Cleanup), (30, LoginAttempt ''a'')]"
    by (rule limiter_is_sliding_window) (simp_all add: ips)
  then show ?thesis by simp
qed

section \<open>The table is bounded\<close>

definition all_blocked :: "gotime \<Rightarrow> rate_limiter \<Rightarrow> bool" where
  "all_blocked c rl \<longleftrightarrow> (\<forall>(k, ats)\<in>set (attempts rl). live c ats \<ge> max_attempts rl)"

lemma all_blocked_get:
  "all_blocked c rl \<Longrightarrow> map_of (attempts rl) k = Some ats \<Longrightarrow> live c ats \<ge> max_attempts rl"
  by (auto simp: all_blocked_def dest: map_of_SomeD)

lemma length_filter_keys:
  assumes "gm_ok m" "distinct ks" "set ks \<subseteq> fst ` set m"
  shows "length (filter (\<lambda>(k, v). k \<notin> set ks) m) + length ks = length m"
proof -
  have "length (filter (\<lambda>(k, v). k \<in> set ks) m) = card (set (map fst (filter (\<lambda>(k, v). k \<in> set ks) m)))"
    using assms(1) by (subst distinct_card) (auto simp: gm_ok_def distinct_map_filter)
  also have "set (map fst (filter (\<lambda>(k, v). k \<in> set ks) m)) = set ks"
    using assms(3) by (force simp: image_iff)
  also have "card (set ks) = length ks" using assms(2) by (rule distinct_card)
  finally show ?thesis
    using sum_length_filter_compl[of "\<lambda>(k, v). k \<in> set ks" m] by (simp add: case_prod_unfold)
qed

lemma evict_makes_room:
  assumes "gm_ok (attempts rl)" "0 < maxKeys rl"
  shows "int (length (attempts (evictStaleLocked c rl))) < maxKeys rl
    \<or> all_blocked c (evictStaleLocked c rl)"
proof -
  define m1 where "m1 = filter (\<lambda>(k, ats). \<not> expired c ats) (attempts rl)"
  define ev where "ev = sort_key snd (evictable (max_attempts rl) c m1)"
  define drp where "drp = int (length m1) - maxKeys rl + maxKeys rl div 10 + 1"
  define vs where "vs = map fst (take (nat drp) ev)"
  have ok: "gm_ok m1" using gm_ok_filter[OF assms(1)] by (simp add: m1_def gm_filter_def)
  show ?thesis
  proof (cases "int (length m1) < maxKeys rl")
    case True
    then show ?thesis by (simp add: evictStaleLocked_def Let_def m1_def)
  next
    case False
    have eq: "attempts (evictStaleLocked c rl) = filter (\<lambda>(k, ats). k \<notin> set vs) m1"
      using False unfolding evictStaleLocked_def Let_def m1_def[symmetric] ev_def[symmetric]
        drp_def[symmetric] vs_def[symmetric] if_not_P[OF False] by simp
    have mset_ev: "mset (map fst ev) = mset (map fst (evictable (max_attempts rl) c m1))"
      by (simp add: ev_def)
    have "map fst (evictable (max_attempts rl) c m1)
        = map fst (filter (\<lambda>(k, ats). \<not> live c ats \<ge> max_attempts rl) m1)"
      by (simp add: evictable_def)
    then have dev: "distinct (map fst ev)"
      using ok mset_ev by (metis distinct_map_filter gm_ok_def mset_eq_imp_distinct_iff)
    have sev: "fst ` set ev = fst ` set (filter (\<lambda>(k, ats). \<not> live c ats \<ge> max_attempts rl) m1)"
      by (force simp: ev_def evictable_def)
    show ?thesis
    proof (cases "length ev \<le> nat drp")
      case True
      then have "set vs = fst ` set ev" by (simp add: vs_def)
      then show ?thesis
        by (auto simp: all_blocked_def eq sev image_iff)
    next
      case F: False
      have "length (filter (\<lambda>(k, v). k \<notin> set vs) m1) + length vs = length m1"
        using ok dev sev by (intro length_filter_keys)
          (auto simp: vs_def distinct_take take_map[symmetric] dest!: in_set_takeD)
      moreover have "0 \<le> maxKeys rl div 10" using assms(2) by simp
      moreover from this have "int (length vs) = drp" using F False by (simp add: vs_def drp_def)
      ultimately have "int (length (filter (\<lambda>(k, v). k \<notin> set vs) m1)) < maxKeys rl"
        unfolding drp_def by linarith
      then show ?thesis unfolding eq by simp
    qed
  qed
qed

text \<open>
  The table is a memory guard: an attempt leaves it within its capacity, unless every other
  source in it is at its limit right now, and such a source is never dropped.
\<close>

theorem attempt_table_bounded:
  assumes "rl_inv T rl" "0 < maxKeys rl" "Size rl \<le> maxKeys rl"
  shows "Size (snd (Allow now ip rl)) \<le> maxKeys rl
    \<or> (\<forall>k. k \<noteq> ip \<and> k \<in> dom (map_of (attempts (snd (Allow now ip rl))))
          \<longrightarrow> live (now - window rl) (gm_get_list (attempts (snd (Allow now ip rl))) k) \<ge> max_attempts rl)"
proof -
  have ok: "gm_ok (attempts rl)" using assms(1) by (simp add: rl_inv_def)
  define c where "c = now - window rl"
  define rl1 where "rl1 = (if gm_get_list (attempts rl) ip = [] \<and> int (length (attempts rl)) \<ge> maxKeys rl
                then evictStaleLocked c rl else rl)"
  have "\<exists>r. attempts (snd (Allow now ip rl)) = gm_set ip r (attempts rl1)"
    unfolding Allow_def Let_def c_def[symmetric] rl1_def[symmetric] by (auto split: if_split)
  then obtain r where A: "attempts (snd (Allow now ip rl)) = gm_set ip r (attempts rl1)" by blast
  show ?thesis
  proof (cases "gm_get_list (attempts rl) ip = [] \<and> int (length (attempts rl)) \<ge> maxKeys rl")
    case True
    then have rl1: "rl1 = evictStaleLocked c rl" by (simp add: rl1_def)
    from evict_makes_room[OF ok assms(2), of c] show ?thesis
    proof
      assume "int (length (attempts (evictStaleLocked c rl))) < maxKeys rl"
      then have "Size (snd (Allow now ip rl)) \<le> maxKeys rl"
        using gm_set_length_le[of ip r "attempts rl1"] by (simp add: Size_def A rl1)
      then show ?thesis by simp
    next
      assume "all_blocked c (evictStaleLocked c rl)"
      note this[THEN all_blocked_get]
      then show ?thesis by (auto simp: A rl1 c_def gm_get_list_def)
    qed
  next
    case False
    then have rl1: "rl1 = rl" by (auto simp: rl1_def)
    from False consider "int (length (attempts rl)) < maxKeys rl" | "map_of (attempts rl) ip \<noteq> None"
      by (fastforce simp: gm_get_list_def)
    then have "Size (snd (Allow now ip rl)) \<le> maxKeys rl"
      using gm_set_length_le[of ip r "attempts rl"] gm_set_length_in[of "attempts rl" ip r] assms(3)
      by cases (auto simp: Size_def A rl1)
    then show ?thesis by simp
  qed
qed

lemma attempt_table_bounded_witness:
  "Size (snd (Allow 150 ''c'' rl_example)) \<le> maxKeys rl_example
    \<or> (\<forall>k. k \<noteq> ''c'' \<and> k \<in> dom (map_of (attempts (snd (Allow 150 ''c'' rl_example))))
          \<longrightarrow> live (150 - window rl_example) (gm_get_list (attempts (snd (Allow 150 ''c'' rl_example))) k)
              \<ge> max_attempts rl_example)"
  by (rule attempt_table_bounded[of 110])
    (auto simp: rl_example_def NewLoginRateLimiter_def rl_inv_def gm_ok_def Size_def split: if_splits)

end
