(* ===== verification/ClientIP.thy ===== *)
theory ClientIP
  imports GoLib
begin

text \<open>
  Which address the login rate limiter counts: \<^verbatim>\<open>clientIP\<close>, \<^verbatim>\<open>remoteIP\<close> and \<^verbatim>\<open>ipInNetworks\<close> of
  \<^verbatim>\<open>internal/auth/ratelimit.go\<close>. A request is its peer address and its
  \<^verbatim>\<open>X-Forwarded-For\<close> value, empty when the header is absent.
\<close>

definition remoteIP :: "string \<Rightarrow> string" where
  "remoteIP address = (case SplitHostPort address of Some (host, _) \<Rightarrow> host | None \<Rightarrow> address)"

definition ipInNetworks :: "string \<Rightarrow> ip_net list \<Rightarrow> bool" where
  "ipInNetworks v networks =
    (case ParseIP v of None \<Rightarrow> False | Some ip \<Rightarrow> list_ex (\<lambda>n. net_contains n ip) networks)"

text \<open>The loop over the forwarded chain, from its last entry to its first.\<close>

fun walk_forwarded :: "string \<Rightarrow> ip_net list \<Rightarrow> string list \<Rightarrow> string" where
  "walk_forwarded remote trusted [] = remote"
| "walk_forwarded remote trusted (f # fs) =
    (let candidate = TrimSpace f
     in if ParseIP candidate = None then walk_forwarded remote trusted fs
        else if \<not> ipInNetworks candidate trusted then candidate
        else walk_forwarded remote trusted fs)"

definition clientIP :: "string \<Rightarrow> string \<Rightarrow> ip_net list \<Rightarrow> string" where
  "clientIP remoteAddr xff trusted =
    (let remote = remoteIP remoteAddr
     in if \<not> ipInNetworks remote trusted then remote
        else walk_forwarded remote trusted (rev (Split CHR '','' xff)))"

definition outside_entry :: "ip_net list \<Rightarrow> string \<Rightarrow> bool" where
  "outside_entry trusted f \<longleftrightarrow>
    ParseIP (TrimSpace f) \<noteq> None \<and> \<not> ipInNetworks (TrimSpace f) trusted"

lemma walk_forwarded_find:
  "walk_forwarded remote trusted fs
    = (case find (outside_entry trusted) fs of None \<Rightarrow> remote | Some f \<Rightarrow> TrimSpace f)"
  by (induction remote trusted fs rule: walk_forwarded.induct)
    (auto simp: outside_entry_def Let_def)

lemma find_append:
  "find P (xs @ ys) = (case find P xs of None \<Rightarrow> find P ys | Some x \<Rightarrow> Some x)"
  by (induction xs) auto

text \<open>
  A client cannot choose the address it is counted under: once the part of the chain that the
  proxies wrote names an address outside the trusted networks, nothing put in front of it
  changes the answer.
\<close>

theorem clientIP_ignores_spoofed_prefix:
  assumes "\<exists>f\<in>set (Split CHR '','' written). outside_entry trusted f"
  shows "clientIP peer (spoofed @ '','' @ written) trusted = clientIP peer written trusted"
proof -
  have "find (outside_entry trusted) (rev (Split CHR '','' written)) \<noteq> None"
    using assms by (auto simp: find_None_iff)
  then show ?thesis
    by (auto simp: clientIP_def Let_def walk_forwarded_find Split_append find_append
        split: option.splits)
qed

lemma clientIP_ignores_spoofed_prefix_witness:
  "clientIP ''10.0.0.1:4000'' (''1.1.1.1'' @ '','' @ ''9.9.9.9, 10.0.0.7'')
      [\<lparr>net_ip = [10, 0, 0, 0], net_mask = [255, 0, 0, 0]\<rparr>]
    = clientIP ''10.0.0.1:4000'' ''9.9.9.9, 10.0.0.7''
      [\<lparr>net_ip = [10, 0, 0, 0], net_mask = [255, 0, 0, 0]\<rparr>]
    \<and> clientIP ''10.0.0.1:4000'' ''9.9.9.9, 10.0.0.7''
      [\<lparr>net_ip = [10, 0, 0, 0], net_mask = [255, 0, 0, 0]\<rparr>] = ''9.9.9.9''"
proof
  show "clientIP ''10.0.0.1:4000'' (''1.1.1.1'' @ '','' @ ''9.9.9.9, 10.0.0.7'')
      [\<lparr>net_ip = [10, 0, 0, 0], net_mask = [255, 0, 0, 0]\<rparr>]
    = clientIP ''10.0.0.1:4000'' ''9.9.9.9, 10.0.0.7''
      [\<lparr>net_ip = [10, 0, 0, 0], net_mask = [255, 0, 0, 0]\<rparr>]"
    by (rule clientIP_ignores_spoofed_prefix) code_simp
  show "clientIP ''10.0.0.1:4000'' ''9.9.9.9, 10.0.0.7''
      [\<lparr>net_ip = [10, 0, 0, 0], net_mask = [255, 0, 0, 0]\<rparr>] = ''9.9.9.9''"
    by code_simp
qed

end
