(* ===== verification/Auth.thy ===== *)
theory Auth
  imports Oidc RateLimiter ClientIP
begin

text \<open>
  Sessions and the authentication handlers: \<^verbatim>\<open>internal/auth/auth.go\<close> and
  \<^verbatim>\<open>internal/auth/handlers.go\<close>. The JWT library is a parameter; what the program passes to it
  (the key, the method, issuer and audience it insists on) is not. A request carries its decoded
  body, \<open>None\<close> when decoding fails.
\<close>

section \<open>State and tokens\<close>

definition sessionIssuer :: string where "sessionIssuer = ''machmqtt-dashboard''"

record claims =
  c_Issuer :: string
  c_Subject :: string
  c_Audience :: "string list"
  c_ID :: string
  c_IssuedAt :: gotime
  c_NotBefore :: gotime
  c_ExpiresAt :: gotime
  c_UserID :: int
  c_Username :: string
  c_Role :: string
  c_AuthProvider :: string
  c_SessionVersion :: int

record jwt_options =
  opt_methods :: "string list"
  opt_issuer :: string
  opt_audience :: string
  opt_expiration_required :: bool

record jwt_lib =
  jwt_sign :: "string \<Rightarrow> string \<Rightarrow> claims \<Rightarrow> string option"
  jwt_parse :: "string \<Rightarrow> jwt_options \<Rightarrow> gotime \<Rightarrow> string \<Rightarrow> claims option"

record auth =
  a_store :: store
  a_secret :: string
  cookieTTL :: int
  secureCookies :: bool
  loginLimiter :: rate_limiter
  localLoginLimiter :: rate_limiter
  a_providers :: "provider list"
  oidcProviders :: "(string, oidc_provider) gomap"
  trustedProxies :: "ip_net list"
  a_counters :: counters

definition NewWithProviderSet :: "store \<Rightarrow> string \<Rightarrow> bool \<Rightarrow> provider list \<Rightarrow> oidc_provider list \<Rightarrow> auth" where
  "NewWithProviderSet st secret secure ps oidcs =
    \<lparr>a_store = st, a_secret = secret, cookieTTL = 24 * 60 * minute, secureCookies = secure,
     loginLimiter = NewLoginRateLimiter 10 (5 * minute),
     localLoginLimiter = NewLoginRateLimiter 10 (5 * minute),
     a_providers = ps, oidcProviders = fold (\<lambda>p m. gm_set (o_name p) p m) oidcs [],
     trustedProxies = [], a_counters = \<lparr>authEvents = [], providerNanos = []\<rparr>\<rparr>"

definition token_claims :: "gotime \<Rightarrow> string \<Rightarrow> user \<Rightarrow> auth \<Rightarrow> claims" where
  "token_claims now tokenID u a =
    \<lparr>c_Issuer = sessionIssuer, c_Subject = ''user:'' @ itoa (ID u), c_Audience = [sessionIssuer],
     c_ID = tokenID, c_IssuedAt = now, c_NotBefore = now, c_ExpiresAt = now + cookieTTL a,
     c_UserID = ID u, c_Username = Username u, c_Role = Role u, c_AuthProvider = AuthProvider u,
     c_SessionVersion = SessionVersion u\<rparr>"

definition IssueToken :: "jwt_lib \<Rightarrow> gotime \<Rightarrow> string option \<Rightarrow> user \<Rightarrow> auth \<Rightarrow> string option" where
  "IssueToken jwt now tokenID u a =
    (case tokenID of
       None \<Rightarrow> None
     | Some tid \<Rightarrow> jwt_sign jwt ''HS256'' (a_secret a) (token_claims now tid u a))"

definition session_options :: jwt_options where
  "session_options = \<lparr>opt_methods = [''HS256''], opt_issuer = sessionIssuer,
     opt_audience = sessionIssuer, opt_expiration_required = True\<rparr>"

definition ValidateToken :: "jwt_lib \<Rightarrow> gotime \<Rightarrow> string \<Rightarrow> auth \<Rightarrow> claims option" where
  "ValidateToken jwt now tok a = jwt_parse jwt (a_secret a) session_options now tok"

section \<open>Middleware\<close>

record request =
  r_method :: string
  r_path :: string
  r_cookie :: "string option"
  r_remote :: string
  r_forwarded :: string

datatype verdict = Deny nat string | Serve claims

definition passwordRotationAllowed :: "request \<Rightarrow> int \<Rightarrow> bool" where
  "passwordRotationAllowed r userID \<longleftrightarrow>
    r_method r = ''GET'' \<and> r_path r = ''/api/me''
    \<or> r_method r = ''POST'' \<and> r_path r = ''/api/logout''
    \<or> r_method r = ''PUT'' \<and> r_path r = ''/api/users/'' @ itoa userID @ ''/password''"

definition Middleware :: "jwt_lib \<Rightarrow> gotime \<Rightarrow> request \<Rightarrow> auth \<Rightarrow> verdict" where
  "Middleware jwt now r a =
    (case r_cookie r of
       None \<Rightarrow> Deny 401 ''unauthorized''
     | Some tok \<Rightarrow> (case ValidateToken jwt now tok a of
         None \<Rightarrow> Deny 401 ''unauthorized''
       | Some c \<Rightarrow> (case GetUser (c_UserID c) (a_store a) of
           Inl e \<Rightarrow> if e = NoRows then Deny 401 ''unauthorized'' else Deny 500 ''internal error''
         | Inr u \<Rightarrow>
             if c_SessionVersion c \<noteq> SessionVersion u then Deny 401 ''unauthorized''
             else if AuthProvider u = ProviderLocal \<and> MustChangePassword u
                     \<and> \<not> passwordRotationAllowed r (ID u) then Deny 403 ''password change required''
             else Serve (c\<lparr>c_Username := Username u, c_Role := Role u,
                          c_AuthProvider := AuthProvider u, c_SessionVersion := SessionVersion u\<rparr>))))"

definition AdminMiddleware :: "claims option \<Rightarrow> verdict" where
  "AdminMiddleware c = (case c of
      None \<Rightarrow> Deny 403 ''forbidden: admin role required''
    | Some c \<Rightarrow> if c_Role c \<noteq> RoleAdmin then Deny 403 ''forbidden: admin role required'' else Serve c)"

text \<open>The composition that the admin routes use.\<close>

definition admin_route :: "jwt_lib \<Rightarrow> gotime \<Rightarrow> request \<Rightarrow> auth \<Rightarrow> verdict" where
  "admin_route jwt now r a = (case Middleware jwt now r a of
      Deny s m \<Rightarrow> Deny s m
    | Serve c \<Rightarrow> AdminMiddleware (Some c))"

section \<open>Handlers\<close>

datatype cookie_action = KeepCookie | SetSession string | ClearSession

record response =
  status :: nat
  message :: string
  session :: cookie_action

definition err :: "nat \<Rightarrow> string \<Rightarrow> response" where
  "err s m = \<lparr>status = s, message = m, session = KeepCookie\<rparr>"

definition ok :: "cookie_action \<Rightarrow> response" where
  "ok c = \<lparr>status = 200, message = [], session = c\<rparr>"

definition count_event :: "string \<Rightarrow> string \<Rightarrow> auth \<Rightarrow> auth" where
  "count_event p r a = a\<lparr>a_counters := recordAuthEvent p r (a_counters a)\<rparr>"

record env =
  e_jwt :: jwt_lib
  e_gen :: "string \<Rightarrow> string option"
  e_cmp :: "string \<Rightarrow> string \<Rightarrow> bool"
  e_elapsed :: "string \<Rightarrow> int"
  e_tokenID :: "string option"

definition handlePasswordLogin :: "env \<Rightarrow> gotime \<Rightarrow> bool \<Rightarrow> request \<Rightarrow> (string \<times> string) option
    \<Rightarrow> auth \<Rightarrow> response \<times> auth" where
  "handlePasswordLogin e now localOnly r body a =
    (let ip = clientIP (r_remote r) (r_forwarded r) (trustedProxies a);
         provider = (if localOnly then ''local'' else ''ordered'');
         (allowed, lim) = Allow now ip (if localOnly then localLoginLimiter a else loginLimiter a);
         a1 = (if localOnly then a\<lparr>localLoginLimiter := lim\<rparr> else a\<lparr>loginLimiter := lim\<rparr>)
     in if \<not> allowed then
          (err 429 ''too many login attempts, try again later'', count_event provider ''rate_limited'' a1)
        else case body of
          None \<Rightarrow> (err 400 ''invalid request'', a1)
        | Some (username, password) \<Rightarrow>
            let (res, st, c) =
                  (if localOnly
                   then AuthenticateLocal (e_cmp e) (e_elapsed e) now username password (a_store a1, a_counters a1)
                   else AuthenticatePassword (a_providers a1) (e_cmp e) (e_elapsed e) now username password
                          (a_store a1, a_counters a1));
                a2 = a1\<lparr>a_store := st, a_counters := c\<rparr>
            in (case res of
                 Inl (ErrProviderUnavailable _) \<Rightarrow>
                   (err 503 ''authentication provider unavailable'', count_event ''ordered'' ''unavailable'' a2)
               | Inl ErrInvalidCredentials \<Rightarrow>
                   (err 401 ''invalid credentials'', count_event provider ''failure'' a2)
               | Inr u \<Rightarrow> (case IssueToken (e_jwt e) now (e_tokenID e) u a2 of
                   None \<Rightarrow> (err 500 ''internal error'', a2)
                 | Some tok \<Rightarrow> (ok (SetSession tok), count_event (AuthProvider u) ''success'' a2))))"

definition HandleLogin :: "env \<Rightarrow> gotime \<Rightarrow> request \<Rightarrow> (string \<times> string) option \<Rightarrow> auth \<Rightarrow> response \<times> auth" where
  "HandleLogin e now r body a = handlePasswordLogin e now False r body a"

definition HandleLocalLogin :: "env \<Rightarrow> gotime \<Rightarrow> request \<Rightarrow> (string \<times> string) option \<Rightarrow> auth \<Rightarrow> response \<times> auth" where
  "HandleLocalLogin e now r body a = handlePasswordLogin e now True r body a"

definition HandleLogout :: "claims option \<Rightarrow> auth \<Rightarrow> response \<times> auth" where
  "HandleLogout c a =
    (ok ClearSession, case c of
       None \<Rightarrow> a
     | Some c \<Rightarrow> a\<lparr>a_store := snd (BumpTokenVersion (c_UserID c) (a_store a))\<rparr>)"

definition HandleMe :: "claims option \<Rightarrow> auth \<Rightarrow> response \<times> user option" where
  "HandleMe c a = (case c of
      None \<Rightarrow> (err 401 ''unauthorized'', None)
    | Some c \<Rightarrow> (case GetUser (c_UserID c) (a_store a) of
        Inl _ \<Rightarrow> (err 404 ''user not found'', None)
      | Inr u \<Rightarrow> (ok KeepCookie, Some u)))"

definition HandleChangePassword :: "env \<Rightarrow> gotime \<Rightarrow> claims option \<Rightarrow> string \<Rightarrow> (string \<times> string) option
    \<Rightarrow> auth \<Rightarrow> response \<times> auth" where
  "HandleChangePassword e now c idStr body a = (case ParseInt idStr of
      None \<Rightarrow> (err 400 ''invalid user id'', a)
    | Some i \<Rightarrow>
        if (case c of None \<Rightarrow> True | Some c \<Rightarrow> c_UserID c \<noteq> i) then (err 403 ''forbidden'', a)
        else case body of
          None \<Rightarrow> (err 400 ''invalid request'', a)
        | Some (old, new) \<Rightarrow>
            if length new < MinPasswordLength then
              (err 400 ''password must be at least 8 characters'', a)
            else case ChangePassword (e_gen e) (e_cmp e) i old new (a_store a) of
              (Some _, st) \<Rightarrow> (err 400 ''failed to change password'', a\<lparr>a_store := st\<rparr>)
            | (None, st) \<Rightarrow>
                let a1 = a\<lparr>a_store := st\<rparr>
                in (case GetUser i st of
                     Inl _ \<Rightarrow> (err 500 ''internal error'', a1)
                   | Inr u \<Rightarrow> (case IssueToken (e_jwt e) now (e_tokenID e) u a1 of
                       None \<Rightarrow> (err 500 ''internal error'', a1)
                     | Some tok \<Rightarrow> (ok (SetSession tok), a1))))"

definition HandleListUsers :: "auth \<Rightarrow> response \<times> user list" where
  "HandleListUsers a = (case ListUsers (a_store a) of
      Inl _ \<Rightarrow> (err 500 ''internal error'', [])
    | Inr us \<Rightarrow> (ok KeepCookie, us))"

definition HandleCreateUser :: "env \<Rightarrow> gotime \<Rightarrow> (string \<times> string \<times> string) option \<Rightarrow> auth \<Rightarrow> response \<times> auth" where
  "HandleCreateUser e now body a = (case body of
      None \<Rightarrow> (err 400 ''invalid request'', a)
    | Some (username, password, role) \<Rightarrow>
        if username = [] \<or> password = [] then (err 400 ''username and password are required'', a)
        else if length password < MinPasswordLength then
          (err 400 ''password must be at least 8 characters'', a)
        else
          let role = (if role = [] then RoleViewer else role)
          in (case CreateUser (e_gen e) now username password role (a_store a) of
               (Inl _, st) \<Rightarrow> (err 400 ''failed to create user'', a\<lparr>a_store := st\<rparr>)
             | (Inr _, st) \<Rightarrow> (\<lparr>status = 201, message = [], session = KeepCookie\<rparr>, a\<lparr>a_store := st\<rparr>)))"

definition HandleDeleteUser :: "claims option \<Rightarrow> string \<Rightarrow> auth \<Rightarrow> response \<times> auth" where
  "HandleDeleteUser c idStr a = (case ParseInt idStr of
      None \<Rightarrow> (err 400 ''invalid user id'', a)
    | Some i \<Rightarrow>
        if (case c of None \<Rightarrow> False | Some c \<Rightarrow> c_UserID c = i) then
          (err 400 ''cannot delete your own account'', a)
        else case DeleteUser i (a_store a) of
          (Some _, st) \<Rightarrow> (err 400 ''failed to delete user'', a\<lparr>a_store := st\<rparr>)
        | (None, st) \<Rightarrow> (ok KeepCookie, a\<lparr>a_store := st\<rparr>))"

section \<open>Single sign-on handlers\<close>

text \<open>
  The flow cookie that the callback clears is part of its answer, next to the response.
\<close>

definition HandleOIDCLogin :: "env \<Rightarrow> oidc_issuer \<Rightarrow> gotime \<Rightarrow> request \<Rightarrow> string
    \<Rightarrow> (string \<times> string \<times> string \<times> string) option \<Rightarrow> auth \<Rightarrow> response \<times> flow_cookie option \<times> auth" where
  "HandleOIDCLogin e iss now r name rnd a =
    (let (allowed, lim) = Allow now (clientIP (r_remote r) (r_forwarded r) (trustedProxies a)) (loginLimiter a);
         a1 = a\<lparr>loginLimiter := lim\<rparr>
     in if \<not> allowed then
          (err 429 ''too many login attempts, try again later'', None, count_event ''oidc'' ''rate_limited'' a1)
        else case map_of (oidcProviders a1) name of
          None \<Rightarrow> (err 404 ''authentication provider not found'', None, a1)
        | Some p \<Rightarrow>
            let (res, p1) = BeginLogin iss now rnd p;
                a2 = a1\<lparr>oidcProviders := gm_set name p1 (oidcProviders a1),
                       a_counters := recordProviderDuration (o_name p) (e_elapsed e (o_name p)) (a_counters a1)\<rparr>
            in (case res of
                 None \<Rightarrow> (err 503 ''authentication provider unavailable'', None,
                          count_event (o_name p) ''unavailable'' a2)
               | Some (state, nonce, cookie) \<Rightarrow>
                   (\<lparr>status = 302, message = [], session = KeepCookie\<rparr>, Some cookie, a2)))"

definition HandleOIDCCallback :: "env \<Rightarrow> oidc_issuer \<Rightarrow> gotime \<Rightarrow> string \<Rightarrow> string \<Rightarrow> string \<Rightarrow> string option
    \<Rightarrow> auth \<Rightarrow> response \<times> flow_cookie option \<times> auth" where
  "HandleOIDCCallback e iss now name state authcode flowCookie a =
    (case map_of (oidcProviders a) name of
       None \<Rightarrow> (err 404 ''authentication provider not found'', None, a)
     | Some p \<Rightarrow>
         let binding = (case flowCookie of None \<Rightarrow> [] | Some v \<Rightarrow> v);
             cleared = Some \<lparr>fc_name = flowCookieName p, fc_value = [], fc_path = callbackPath p, fc_secure = True\<rparr>;
             (res, p1, st) = CompleteLogin iss now state authcode binding (p, a_store a);
             a1 = a\<lparr>oidcProviders := gm_set name p1 (oidcProviders a), a_store := st,
                    a_counters := recordProviderDuration (o_name p) (e_elapsed e (o_name p)) (a_counters a)\<rparr>
         in (case res of
              Inl x \<Rightarrow> (err (if x = ErrOIDCForbidden then 403 else 401) ''single sign-on failed'', cleared,
                       count_event (o_name p) ''failure'' a1)
            | Inr u \<Rightarrow> (case IssueToken (e_jwt e) now (e_tokenID e) u a1 of
                None \<Rightarrow> (err 500 ''internal error'', cleared, a1)
              | Some tok \<Rightarrow> (\<lparr>status = 303, message = [], session = SetSession tok\<rparr>, cleared,
                            count_event (AuthProvider u) ''success'' a1))))"

section \<open>Histories of requests\<close>

datatype auth_op =
    ALogin bool env gotime request "(string \<times> string) option"
  | ALogout "claims option"
  | AChangePassword env gotime "claims option" string "(string \<times> string) option"
  | ACreateUser env gotime "(string \<times> string \<times> string) option"
  | ADeleteUser "claims option" string
  | AOIDCLogin env oidc_issuer gotime request string "(string \<times> string \<times> string \<times> string) option"
  | AOIDCCallback env oidc_issuer gotime string string string "string option"
  | ADatabase bool

fun auth_step :: "auth_op \<Rightarrow> auth \<Rightarrow> auth" where
  "auth_step (ALogin l e now r b) a = snd (handlePasswordLogin e now l r b a)"
| "auth_step (ALogout c) a = snd (HandleLogout c a)"
| "auth_step (AChangePassword e now c i b) a = snd (HandleChangePassword e now c i b a)"
| "auth_step (ACreateUser e now b) a = snd (HandleCreateUser e now b a)"
| "auth_step (ADeleteUser c i) a = snd (HandleDeleteUser c i a)"
| "auth_step (AOIDCLogin e iss now r n rnd) a = snd (snd (HandleOIDCLogin e iss now r n rnd a))"
| "auth_step (AOIDCCallback e iss now n s c f) a = snd (snd (HandleOIDCCallback e iss now n s c f a))"
| "auth_step (ADatabase b) a = a\<lparr>a_store := (a_store a)\<lparr>db_up := b\<rparr>\<rparr>"

definition auth_run :: "auth_op list \<Rightarrow> auth \<Rightarrow> auth" where
  "auth_run ops a = fold auth_step ops a"

definition providers_ok :: "auth \<Rightarrow> bool" where
  "providers_ok a \<longleftrightarrow> (\<forall>p\<in>set (a_providers a). password_provider (p_auth p))"

text \<open>What the store keeps through a step, and that the provider list is fixed.\<close>

definition store_kept :: "store \<Rightarrow> store \<Rightarrow> bool" where
  "store_kept st st' \<longleftrightarrow> store_inv st \<longrightarrow> store_inv st' \<and> (has_local_admin st \<longrightarrow> has_local_admin st')
    \<and> (\<forall>i v. revoked i v st \<longrightarrow> revoked i v st')"

lemma store_kept_refl [simp]: "store_kept st st"
  by (simp add: store_kept_def)

lemma store_kept_trans: "store_kept st st1 \<Longrightarrow> store_kept st1 st2 \<Longrightarrow> store_kept st st2"
  by (auto simp: store_kept_def)

lemma store_kept_table: "(store_inv st \<Longrightarrow> table_update st st') \<Longrightarrow> store_kept st st'"
  unfolding store_kept_def using table_update_keeps by blast

lemma Local_kept: "store_kept (fst sc) (fst (snd (AuthenticateLocal cmp el now u p sc)))"
proof -
  have "fst (snd (AuthenticateLocal cmp el now u p sc)) = snd (Authenticate cmp now u p (fst sc))"
    by (simp add: AuthenticateLocal_def Let_def split: prod.split sum.split)
  then show ?thesis by (simp add: store_kept_table Authenticate_update)
qed

lemma provider_kept:
  assumes "password_provider f"
  shows "store_kept st (snd (f now u p st))"
  unfolding store_kept_def
  using password_provider.keeps_inv[OF assms] password_provider.keeps_admin[OF assms]
    password_provider.keeps_revoked[OF assms] by blast

lemma Chain_kept:
  "\<forall>p\<in>set ps. password_provider (p_auth p)
    \<Longrightarrow> store_kept (fst sc) (fst (snd (AuthenticatePassword ps cmp el now u pw sc)))"
proof (induction ps arbitrary: sc)
  case Nil
  then show ?case by (simp add: Local_kept)
next
  case (Cons p ps)
  obtain res st where a: "p_auth p now u pw (fst sc) = (res, st)" by (cases "p_auth p now u pw (fst sc)")
  have k: "store_kept (fst sc) st"
    using provider_kept[of "p_auth p" "fst sc" now u pw] Cons.prems by (simp add: a)
  have rec: "store_kept (fst sc) (fst (snd (AuthenticatePassword ps cmp el now u pw (st, c))))" for c
    using store_kept_trans[OF k] Cons.IH[of "(st, c)"] Cons.prems by simp
  show ?case using k rec
    by (simp add: a Let_def split: option.split prod.split provider_result.split)
qed

lemma Upsert_kept: "store_kept st (snd (UpsertExternalUser now p sub u d em role st))"
  by (simp add: store_kept_table Upsert_update)

lemma oidc_user_kept: "store_kept st (snd (oidc_user iss now f c p st))"
  unfolding oidc_user_def Let_def by (simp add: Upsert_kept split: option.split)

lemma CompleteLogin_kept: "store_kept (snd ps) (snd (snd (CompleteLogin iss now s c b ps)))"
  using oidc_user_kept[of "snd ps" iss now] unfolding CompleteLogin_def Let_def
  by (simp split: option.split prod.split) (metis snd_conv)

lemma Local_eq: "AuthenticateLocal cmp el now u p (st, c0) = (res, st', c) \<Longrightarrow> store_kept st st'"
  using Local_kept[of "(st, c0)" cmp el now u p] by simp

lemma Chain_eq:
  "\<forall>p\<in>set ps. password_provider (p_auth p)
    \<Longrightarrow> AuthenticatePassword ps cmp el now u pw (st, c0) = (res, st', c) \<Longrightarrow> store_kept st st'"
  using Chain_kept[of ps "(st, c0)" cmp el now u pw] by simp

lemma Complete_eq: "CompleteLogin iss now s c b (p, st) = (res, p1, st') \<Longrightarrow> store_kept st st'"
  using CompleteLogin_kept[of "(p, st)" iss now s c b] by simp

lemma ChangePassword_eq: "ChangePassword gen cmp i old new st = (res, st') \<Longrightarrow> store_kept st st'"
  using store_kept_table[OF ChangePassword_update, of st gen cmp i old new] by simp

lemma CreateUser_eq: "CreateUser gen now u pw r st = (res, st') \<Longrightarrow> store_kept st st'"
  using store_kept_table[OF CreateUser_update, of st gen now u pw r] by simp

lemma DeleteUser_eq: "DeleteUser i st = (res, st') \<Longrightarrow> store_kept st st'"
  using store_kept_table[OF tu_delete, of st i] by simp

lemmas kept_eqs = Local_eq Chain_eq Complete_eq ChangePassword_eq CreateUser_eq DeleteUser_eq

definition kept :: "auth \<Rightarrow> auth \<Rightarrow> bool" where
  "kept a a' \<longleftrightarrow> store_kept (a_store a) (a_store a') \<and> a_providers a' = a_providers a
    \<and> a_secret a' = a_secret a"

lemma login_kept: "providers_ok a \<Longrightarrow> kept a (snd (handlePasswordLogin e now l r b a))"
  unfolding handlePasswordLogin_def Let_def count_event_def providers_ok_def kept_def
  by (auto split: prod.split option.split sum.split auth_error.split intro: kept_eqs)

lemma logout_kept: "kept a (snd (HandleLogout c a))"
  using store_kept_table[OF BumpTokenVersion_update]
  by (simp add: HandleLogout_def kept_def split: option.split)

lemma change_kept: "kept a (snd (HandleChangePassword e now c i b a))"
  unfolding HandleChangePassword_def Let_def kept_def
  by (auto split: prod.split option.split sum.split intro: kept_eqs)

lemma create_kept: "kept a (snd (HandleCreateUser e now b a))"
  unfolding HandleCreateUser_def Let_def kept_def
  by (auto split: prod.split option.split sum.split intro: kept_eqs)

lemma delete_kept: "kept a (snd (HandleDeleteUser c i a))"
  unfolding HandleDeleteUser_def Let_def kept_def
  by (auto split: prod.split option.split intro: kept_eqs)

lemma oidc_login_kept: "kept a (snd (snd (HandleOIDCLogin e iss now r n rnd a)))"
  unfolding HandleOIDCLogin_def Let_def count_event_def kept_def
  by (auto split: prod.split option.split)

lemma oidc_callback_kept: "kept a (snd (snd (HandleOIDCCallback e iss now n s c f a)))"
  unfolding HandleOIDCCallback_def Let_def count_event_def kept_def
  by (auto split: prod.split option.split sum.split intro: kept_eqs)

lemma database_kept: "kept a (a\<lparr>a_store := (a_store a)\<lparr>db_up := b\<rparr>\<rparr>)"
  by (simp add: kept_def store_kept_table tu_conn)

lemmas handler_kept = login_kept logout_kept change_kept create_kept delete_kept oidc_login_kept
  oidc_callback_kept database_kept

lemma auth_step_kept: "providers_ok a \<Longrightarrow> kept a (auth_step op a)"
  by (cases op) (simp_all add: handler_kept)

lemma auth_run_kept: "providers_ok a \<Longrightarrow> kept a (auth_run ops a)"
proof (induction ops arbitrary: a)
  case (Cons op ops)
  have "kept a (auth_step op a)" by (rule auth_step_kept[OF Cons.prems])
  moreover from this have "kept (auth_step op a) (auth_run ops (auth_step op a))"
    using Cons by (simp add: kept_def providers_ok_def)
  ultimately show ?case using store_kept_trans by (auto simp: kept_def auth_run_def)
qed (simp add: auth_run_def kept_def)

text \<open>
  C17. No history of requests (sign-ins of every kind, logouts, password changes, user creation and
  deletion, database outages) breaks the user table or leaves the dashboard without a local
  administrator, when the external providers meet their contract.
\<close>

theorem requests_keep_users_and_admin:
  assumes "providers_ok a" "store_inv (a_store a)" "has_local_admin (a_store a)"
  shows "store_inv (a_store (auth_run ops a)) \<and> has_local_admin (a_store (auth_run ops a))"
  using auth_run_kept[OF assms(1), of ops] assms(2,3) by (auto simp: kept_def store_kept_def)

section \<open>The end of a session\<close>

lemma bump_revokes:
  assumes "store_inv st" "r \<in> set (users st)" "r_id r = i"
    "users st' = map (\<lambda>r. if r_id r = i then f r else r) (users st)" "next_id st' = next_id st"
    "\<And>r. r_id (f r) = r_id r" "\<And>r. r_token_version (f r) = r_token_version r + 1"
  shows "revoked i (r_token_version r) st'"
  unfolding revoked_def
proof (intro conjI ballI impI)
  show "i < next_id st'" using assms(1,2,3,5) by (auto simp: store_inv_def)
next
  fix x assume "x \<in> set (users st')" "r_id x = i"
  then obtain y where "y \<in> set (users st)" "x = (if r_id y = i then f y else y)" "r_id y = i"
    using assms(4,6) by (auto split: if_splits)
  moreover from this have "y = r" using same_id_same_row[OF assms(1)] assms(2,3) by auto
  ultimately show "r_token_version r < r_token_version x" by (simp add: assms(7))
qed

lemma logout_revokes:
  assumes "store_inv st" "db_up st" "r \<in> set (users st)"
  shows "revoked (r_id r) (r_token_version r) (snd (BumpTokenVersion (r_id r) st))"
  by (rule bump_revokes[OF assms(1,3) refl, where f = "\<lambda>r. r\<lparr>r_token_version := r_token_version r + 1\<rparr>"])
    (simp_all add: BumpTokenVersion_def assms(2))

lemma change_revokes:
  assumes "store_inv st" "r \<in> set (users st)" "ChangePassword gen cmp (r_id r) old new st = (None, st')"
  shows "revoked (r_id r) (r_token_version r) st'"
proof -
  obtain h where "st' = update_id (r_id r) (\<lambda>r. r\<lparr>r_password_hash := Some h,
      r_must_change_password := False, r_token_version := r_token_version r + 1\<rparr>) st"
    using assms(3) by (auto simp: ChangePassword_def split: option.splits if_splits)
  then show ?thesis
    by (intro bump_revokes[OF assms(1,2) refl, where f = "\<lambda>r. r\<lparr>r_password_hash := Some h,
      r_must_change_password := False, r_token_version := r_token_version r + 1\<rparr>"]) simp_all
qed

lemma delete_revokes:
  assumes "store_inv st" "r \<in> set (users st)" "DeleteUser (r_id r) st = (None, st')"
  shows "revoked (r_id r) v st'"
proof -
  define gone where "gone = (\<lambda>x. r_id x = r_id r \<and> \<not> (local_admin x \<and> length (filter local_admin (users st)) \<le> 1))"
  have st': "st' = st\<lparr>users := filter (\<lambda>x. \<not> gone x) (users st)\<rparr>"
    "length (filter (\<lambda>x. \<not> gone x) (users st)) \<noteq> length (users st)"
    using assms(3) by (auto simp: DeleteUser_def Let_def gone_def split: if_splits)
  then obtain x where "x \<in> set (users st)" "gone x"
    by (metis (mono_tags, lifting) filter_True)
  moreover from this have "x = r" using same_id_same_row[OF assms(1)] assms(2) by (auto simp: gone_def)
  ultimately have "\<forall>y\<in>set (users st'). r_id y \<noteq> r_id r"
    using same_id_same_row[OF assms(1)] assms(2) by (auto simp: st'(1))
  then show ?thesis using assms(1,2) by (auto simp: revoked_def store_inv_def st'(1))
qed

lemma revoked_denied:
  assumes "revoked i v (a_store a)" "r_cookie r = Some tok" "ValidateToken jwt now tok a = Some c"
    "c_UserID c = i" "c_SessionVersion c \<le> v"
  shows "\<exists>s m. Middleware jwt now r a = Deny s m"
proof (cases "GetUser i (a_store a)")
  case (Inl e)
  then show ?thesis using assms by (simp add: Middleware_def)
next
  case (Inr u)
  then obtain row where "row \<in> set (users (a_store a))" "r_id row = i" "u = row_user row"
    by (auto simp: GetUser_def split: if_splits option.splits dest!: find_SomeD)
  then have "c_SessionVersion c \<noteq> SessionVersion u"
    using assms(1,5) by (auto simp: revoked_def row_user_def)
  then show ?thesis using assms Inr by (simp add: Middleware_def)
qed

lemma served_row:
  assumes "Middleware jwt now r a = Serve c"
  shows "\<exists>tok c0 row. r_cookie r = Some tok \<and> ValidateToken jwt now tok a = Some c0
    \<and> row \<in> set (users (a_store a)) \<and> r_id row = c_UserID c0 \<and> r_token_version row = c_SessionVersion c0
    \<and> c_UserID c = r_id row \<and> c_SessionVersion c = r_token_version row \<and> c_Role c = r_role row
    \<and> c_AuthProvider c = r_auth_provider row \<and> c_Username c = r_username row
    \<and> (r_auth_provider row = ProviderLocal \<and> r_must_change_password row
        \<longrightarrow> passwordRotationAllowed r (r_id row)) \<and> db_up (a_store a)"
  using assms
  by (auto simp: Middleware_def GetUser_def row_user_def split: option.splits sum.splits if_splits
      dest!: find_SomeD)

text \<open>What a JWT library promises about contents: a token has one content, whenever it is read.\<close>

definition token_contents_fixed :: "jwt_lib \<Rightarrow> bool" where
  "token_contents_fixed jwt \<longleftrightarrow> (\<forall>k t t' tok c c'. jwt_parse jwt k session_options t tok = Some c
    \<longrightarrow> jwt_parse jwt k session_options t' tok = Some c' \<longrightarrow> c = c')"

definition ends_session :: "claims \<Rightarrow> auth \<Rightarrow> auth \<Rightarrow> bool" where
  "ends_session c a a1 \<longleftrightarrow> a1 = snd (HandleLogout (Some c) a)
    \<or> (\<exists>e t s b resp. HandleChangePassword e t (Some c) s b a = (resp, a1) \<and> status resp = 200)
    \<or> (\<exists>d s resp. ParseInt s = Some (c_UserID c) \<and> HandleDeleteUser d s a = (resp, a1) \<and> status resp = 200)"

lemma ends_session_revokes:
  assumes "ends_session c a a1" "store_inv (a_store a)" "db_up (a_store a)" "row \<in> set (users (a_store a))"
    "c_UserID c = r_id row" "c_SessionVersion c = r_token_version row"
  shows "revoked (r_id row) (r_token_version row) (a_store a1) \<and> kept a a1"
  using assms(1) unfolding ends_session_def
proof (elim disjE exE conjE)
  assume "a1 = snd (HandleLogout (Some c) a)"
  then show ?thesis using logout_revokes[OF assms(2-4)] assms(5) logout_kept[of a "Some c"]
    by (simp add: HandleLogout_def)
next
  fix e t s b resp
  assume h: "HandleChangePassword e t (Some c) s b a = (resp, a1)" "status resp = 200"
  then obtain old new st where "ChangePassword (e_gen e) (e_cmp e) (r_id row) old new (a_store a) = (None, st)"
    "a_store a1 = st"
    using assms(5) unfolding HandleChangePassword_def Let_def
    by (auto simp: err_def split: option.splits if_splits prod.splits sum.splits)
  then show ?thesis using change_revokes[OF assms(2,4)] change_kept[of a e t "Some c" s b] h by auto
next
  fix d s resp
  assume h: "ParseInt s = Some (c_UserID c)" "HandleDeleteUser d s a = (resp, a1)" "status resp = 200"
  then obtain st where "DeleteUser (r_id row) (a_store a) = (None, st)" "a_store a1 = st"
    using assms(5) unfolding HandleDeleteUser_def
    by (auto simp: err_def split: option.splits if_splits prod.splits)
  then show ?thesis using delete_revokes[OF assms(2,4)] delete_kept[of a d s] h by auto
qed

text \<open>
  C1. A session that ended stays ended: after a logout, a password change or the deletion of its
  user, the same cookie is refused at any later time and after any further requests (the
  database being reachable when the session is ended).
\<close>

theorem ended_session_never_served:
  assumes "token_contents_fixed jwt" "providers_ok a" "store_inv (a_store a)"
    "Middleware jwt now r a = Serve c" "ends_session c a a1" "r_cookie r' = r_cookie r"
  shows "\<exists>s m. Middleware jwt now' r' (auth_run ops a1) = Deny s m"
proof -
  obtain tok c0 row where s: "r_cookie r = Some tok" "ValidateToken jwt now tok a = Some c0"
    "row \<in> set (users (a_store a))" "r_id row = c_UserID c0" "r_token_version row = c_SessionVersion c0"
    "c_UserID c = r_id row" "c_SessionVersion c = r_token_version row" "db_up (a_store a)"
    using served_row[OF assms(4)] by blast
  have rv: "revoked (r_id row) (r_token_version row) (a_store a1)" "kept a a1"
    using ends_session_revokes[OF assms(5,3) s(8,3,6,7)] by auto
  then have "kept a1 (auth_run ops a1)"
    using assms(2) by (intro auth_run_kept) (auto simp: kept_def providers_ok_def)
  with rv have rv': "revoked (r_id row) (r_token_version row) (a_store (auth_run ops a1))"
    and sec: "a_secret (auth_run ops a1) = a_secret a"
    using assms(3) by (auto simp: kept_def store_kept_def)
  show ?thesis
  proof (cases "ValidateToken jwt now' tok (auth_run ops a1)")
    case None
    then show ?thesis using s(1) assms(6) by (simp add: Middleware_def)
  next
    case (Some c1)
    then have "c1 = c0" using assms(1) s(2) sec unfolding token_contents_fixed_def ValidateToken_def by metis
    then show ?thesis using revoked_denied[OF rv', of r' tok jwt now' c1] Some s assms(6) by simp
  qed
qed

section \<open>What a served request may rely on\<close>

text \<open>
  Authorization is read from the database at every request: an admin route runs only for a user
  whose row says administrator at that moment, whatever the token says, and a user who must
  change the password reaches nothing but the three routes that serve that.
\<close>

theorem admin_route_needs_current_admin:
  assumes "admin_route jwt now r a = Serve c"
  shows "\<exists>row\<in>set (users (a_store a)). r_id row = c_UserID c \<and> r_role row = RoleAdmin
    \<and> r_token_version row = c_SessionVersion c
    \<and> (r_auth_provider row = ProviderLocal \<and> r_must_change_password row
        \<longrightarrow> passwordRotationAllowed r (r_id row))"
proof -
  have m: "Middleware jwt now r a = Serve c" "c_Role c = RoleAdmin"
    using assms by (auto simp: admin_route_def AdminMiddleware_def split: verdict.splits if_splits)
  from served_row[OF m(1)] m(2) show ?thesis by auto
qed

text \<open>A JWT library reads back what it signed while the claims are acceptable.\<close>

definition jwt_round_trip :: "jwt_lib \<Rightarrow> bool" where
  "jwt_round_trip jwt \<longleftrightarrow> (\<forall>k c tok t opt. jwt_sign jwt ''HS256'' k c = Some tok
    \<and> ''HS256'' \<in> set (opt_methods opt) \<and> c_Issuer c = opt_issuer opt \<and> opt_audience opt \<in> set (c_Audience c)
    \<and> c_NotBefore c \<le> t \<and> t < c_ExpiresAt c \<longrightarrow> jwt_parse jwt k opt t tok = Some c)"

lemma GetUser_find:
  "GetUser i st = Inr u \<Longrightarrow> \<exists>row. find (\<lambda>r. r_id r = i) (users st) = Some row \<and> u = row_user row \<and> db_up st"
  by (auto simp: GetUser_def split: if_splits option.splits)


section \<open>What a login proves\<close>

lemma find_local_rows: "find_local u st = find (\<lambda>r. r_username r = u) (local_rows st)"
proof -
  have "find (\<lambda>r. r_auth_provider r = ProviderLocal \<and> r_username r = u) rs
      = find (\<lambda>r. r_username r = u) (filter (\<lambda>r. r_auth_provider r = ProviderLocal) rs)" for rs
    by (induction rs) auto
  then show ?thesis by (simp add: find_local_def local_rows_def)
qed

lemma local_login_row:
  assumes "fst (AuthenticateLocal cmp el now u pw sc) = Inr usr"
  shows "\<exists>row h. find_local u (fst sc) = Some row \<and> r_password_hash row = Some h \<and> cmp h pw
    \<and> ID usr = r_id row \<and> AuthProvider usr = ProviderLocal
    \<and> \<not> (r_failed_attempts row \<ge> 10 \<and> (\<exists>t. r_last_failed_at row = Some t \<and> now - t < lockoutWindow))"
  using assms
  by (auto simp: AuthenticateLocal_def Authenticate_def Let_def row_user_def maxFailedAttempts_def
      find_local_def split: if_splits option.splits prod.splits sum.splits dest!: find_SomeD)


section \<open>Witnesses\<close>

definition jwt_example :: jwt_lib where
  "jwt_example = \<lparr>jwt_sign = (\<lambda>m k c. if c_UserID c = 2 \<and> c_SessionVersion c = 0 \<and> k = ''k''
       \<and> c = token_claims 100 ''t'' (row_user ((local_row 0 ''eve'' ''h:password'' RoleViewer)\<lparr>r_id := 2\<rparr>))
              (NewWithProviderSet store_example ''k'' True [] []) then Some ''tok'' else None),
     jwt_parse = (\<lambda>k opt t tok. if tok = ''tok'' \<and> k = ''k''
       then Some (token_claims 100 ''t'' (row_user ((local_row 0 ''eve'' ''h:password'' RoleViewer)\<lparr>r_id := 2\<rparr>))
              (NewWithProviderSet store_example ''k'' True [] [])) else None)\<rparr>"

definition auth_example :: auth where
  "auth_example = NewWithProviderSet store_example ''k'' True
     [\<lparr>p_name = ''corp'', p_type = ''ldap'',
       p_auth = ldap_Authenticate directory_example ldap_config_example ''corp'' (False, False)\<rparr>] []"

definition request_example :: request where
  "request_example = \<lparr>r_method = ''GET'', r_path = ''/api/me'', r_cookie = Some ''tok'',
     r_remote = ''192.0.2.1:99'', r_forwarded = []\<rparr>"

definition env_example :: env where
  "env_example = \<lparr>e_jwt = jwt_example, e_gen = (\<lambda>p. Some (''h:'' @ p)), e_cmp = (\<lambda>h p. h = ''h:'' @ p),
     e_elapsed = (\<lambda>_. 1), e_tokenID = Some ''t''\<rparr>"

lemma auth_example_ok:
  "providers_ok auth_example" "store_inv (a_store auth_example)" "has_local_admin (a_store auth_example)"
  using store_example_inv ldap.password_provider_axioms
  by (simp_all add: auth_example_def NewWithProviderSet_def providers_ok_def has_local_admin_def
      store_example_def local_row_def local_admin_def ProviderLocal_def)

lemma jwt_example_laws: "jwt_round_trip jwt_example" "token_contents_fixed jwt_example"
  by (auto simp: jwt_round_trip_def token_contents_fixed_def jwt_example_def split: if_splits)

lemma auth_example_served:
  "\<exists>c. Middleware jwt_example 200 request_example auth_example = Serve c \<and> c_UserID c = 2"
  by (auto simp: Middleware_def ValidateToken_def jwt_example_def auth_example_def request_example_def
      NewWithProviderSet_def token_claims_def GetUser_def store_example_def row_user_def local_row_def)

lemma requests_keep_users_and_admin_witness:
  "has_local_admin (a_store (auth_run [ADeleteUser None ''1'', ALogin False env_example 5 request_example (Some (''ann'', ''pw''))] auth_example))"
  using requests_keep_users_and_admin[OF auth_example_ok] by blast

lemma ended_session_never_served_witness:
  "\<exists>c. Middleware jwt_example 200 request_example auth_example = Serve c
    \<and> (\<exists>s m. Middleware jwt_example 300 request_example
          (auth_run [ADatabase False, ADatabase True] (snd (HandleLogout (Some c) auth_example))) = Deny s m)"
proof -
  obtain c where c: "Middleware jwt_example 200 request_example auth_example = Serve c"
    using auth_example_served by blast
  have "ends_session c auth_example (snd (HandleLogout (Some c) auth_example))" by (simp add: ends_session_def)
  from ended_session_never_served[OF jwt_example_laws(2) auth_example_ok(1,2) c this refl] c
  show ?thesis by blast
qed



lemma admin_route_needs_current_admin_witness:
  "\<exists>row\<in>set (users store_example). r_role row = RoleAdmin"
proof -
  let ?jwt = "jwt_example\<lparr>jwt_parse := \<lambda>k opt t tok. Some (token_claims 100 ''t''
      (row_user ((local_row 0 ''admin'' ''h:secret'' RoleAdmin)\<lparr>r_id := 1\<rparr>)) auth_example)\<rparr>"
  have "\<exists>c. admin_route ?jwt 200 request_example auth_example = Serve c"
    by (simp add: admin_route_def AdminMiddleware_def Middleware_def ValidateToken_def auth_example_def
      request_example_def NewWithProviderSet_def token_claims_def GetUser_def store_example_def
      row_user_def local_row_def RoleAdmin_def)
  then obtain c where "admin_route ?jwt 200 request_example auth_example = Serve c" by blast
  from admin_route_needs_current_admin[OF this] show ?thesis
    by (auto simp: auth_example_def NewWithProviderSet_def)
qed

end
