(* ===== verification/Float64.thy ===== *)
theory Float64
  imports Prelude
begin

text \<open>
  Go's \<^verbatim>\<open>float64\<close> as rationals that are rounded to nearest, ties to even, after every operation.
  The sign of zero is not represented, which the program never looks at.
\<close>

datatype f64 = Fin rat | PInf | NInf | NaN

section \<open>Rounding\<close>

definition pow2 :: "int \<Rightarrow> rat" where
  "pow2 e = (if 0 \<le> e then 2 ^ nat e else 1 / 2 ^ nat (- e))"

definition round_even :: "rat \<Rightarrow> int" where
  "round_even m = (let f = \<lfloor>m\<rfloor>; r = m - of_int f
     in if r < 1 / 2 then f else if 1 / 2 < r then f + 1 else if even f then f else f + 1)"

text \<open>The exponent at which a positive rational has a significand of 53 bits, or the least one.\<close>

definition exponent_of :: "rat \<Rightarrow> int" where
  "exponent_of q = (let (n, d) = quotient_of q; e = bitlen n - bitlen d - 53
     in max (-1074) (if 2 ^ 53 \<le> q / pow2 e then e + 1 else e))"

definition round_pos :: "rat \<Rightarrow> rat" where
  "round_pos q = of_int (round_even (q / pow2 (exponent_of q))) * pow2 (exponent_of q)"

definition f_round :: "rat \<Rightarrow> f64" where
  "f_round q = (if q = 0 then Fin 0
     else let r = round_pos \<bar>q\<bar>
          in if 2 ^ 1024 \<le> r then (if q < 0 then NInf else PInf) else Fin (if q < 0 then - r else r))"

section \<open>Operations\<close>

definition f_of_int :: "int \<Rightarrow> f64" where
  "f_of_int i = f_round (of_int i)"

fun f_neg :: "f64 \<Rightarrow> f64" where
  "f_neg (Fin a) = Fin (- a)" | "f_neg PInf = NInf" | "f_neg NInf = PInf" | "f_neg NaN = NaN"

fun f_add :: "f64 \<Rightarrow> f64 \<Rightarrow> f64" where
  "f_add (Fin a) (Fin b) = f_round (a + b)"
| "f_add NaN _ = NaN"
| "f_add _ NaN = NaN"
| "f_add PInf NInf = NaN"
| "f_add NInf PInf = NaN"
| "f_add PInf _ = PInf"
| "f_add _ PInf = PInf"
| "f_add NInf _ = NInf"
| "f_add _ NInf = NInf"

definition f_sub :: "f64 \<Rightarrow> f64 \<Rightarrow> f64" where
  "f_sub a b = f_add a (f_neg b)"

fun f_div :: "f64 \<Rightarrow> f64 \<Rightarrow> f64" where
  "f_div (Fin a) (Fin b) = (if b = 0 then (if a = 0 then NaN else if 0 < a then PInf else NInf) else f_round (a / b))"
| "f_div NaN _ = NaN"
| "f_div _ NaN = NaN"
| "f_div (Fin _) _ = Fin 0"
| "f_div PInf (Fin b) = (if b < 0 then NInf else PInf)"
| "f_div NInf (Fin b) = (if b < 0 then PInf else NInf)"
| "f_div _ _ = NaN"

fun f_less :: "f64 \<Rightarrow> f64 \<Rightarrow> bool" where
  "f_less (Fin a) (Fin b) = (a < b)"
| "f_less NaN _ = False"
| "f_less _ NaN = False"
| "f_less NInf b = (b \<noteq> NInf)"
| "f_less _ NInf = False"
| "f_less PInf _ = False"
| "f_less (Fin _) PInf = True"

fun f_le :: "f64 \<Rightarrow> f64 \<Rightarrow> bool" where
  "f_le NaN _ = False"
| "f_le a b = (f_less a b \<or> a = b)"

text \<open>\<^verbatim>\<open>time.Duration.Seconds\<close>: whole seconds plus the rest over a billion.\<close>

definition Seconds :: "int \<Rightarrow> f64" where
  "Seconds d = (let s = (if d < 0 then - ((- d) div second) else d div second);
                    ns = d - s * second
                in f_add (f_of_int s) (f_div (f_of_int ns) (Fin 1000000000)))"

fun f_finite :: "f64 \<Rightarrow> bool" where
  "f_finite (Fin _) = True" | "f_finite _ = False"

fun f_nonneg :: "f64 \<Rightarrow> bool" where
  "f_nonneg (Fin a) = (0 \<le> a)" | "f_nonneg PInf = True" | "f_nonneg _ = False"

section \<open>Facts\<close>

lemma pow2_pos [simp]: "0 < pow2 e"
  by (simp add: pow2_def)

lemma pow2_nonzero [simp]: "pow2 e \<noteq> 0"
  using pow2_pos[of e] by linarith

lemma round_even_bounds: "\<lfloor>m\<rfloor> \<le> round_even m" "round_even m \<le> \<lfloor>m\<rfloor> + 1"
  by (auto simp: round_even_def Let_def)

lemma round_even_nonneg: "0 \<le> m \<Longrightarrow> 0 \<le> round_even m"
  using round_even_bounds(1)[of m] by (meson order_trans zero_le_floor)

lemma round_pos_nonneg: "0 \<le> q \<Longrightarrow> 0 \<le> round_pos q"
  by (simp add: round_pos_def round_even_nonneg less_imp_le)

lemma f_round_zero [simp]: "f_round 0 = Fin 0"
  by (simp add: f_round_def)

lemma f_round_nonneg: "0 \<le> q \<Longrightarrow> f_nonneg (f_round q)"
  using round_pos_nonneg[of q] by (simp add: f_round_def Let_def)

lemma pow2_add: "pow2 (a + b) = pow2 a * pow2 b"
proof -
  have p: "pow2 e = 2 powi e" for e
    by (simp add: pow2_def power_int_def inverse_eq_divide power_one_over)
  show ?thesis by (simp add: p power_int_add)
qed

lemma pow2_mono: "a \<le> b \<Longrightarrow> pow2 a \<le> pow2 b"
proof -
  assume "a \<le> b"
  then have "pow2 b = pow2 a * 2 ^ nat (b - a)"
    using pow2_add[of a "b - a"] by (simp add: pow2_def)
  moreover have "pow2 a * 1 \<le> pow2 a * 2 ^ nat (b - a)"
    by (intro mult_left_mono) (simp_all add: less_imp_le)
  ultimately show ?thesis by simp
qed

lemma bitlen_rat: "0 < n \<Longrightarrow> pow2 (bitlen n - 1) \<le> of_int n \<and> of_int n < pow2 (bitlen n)"
proof -
  assume n: "0 < n"
  then have b: "2 ^ nat (bitlen n - 1) \<le> n" "n < 2 ^ nat (bitlen n)" and p: "0 < bitlen n"
    using bitlen_bounds[of n] bitlen_nonneg[of n] bitlen_eq_zero_iff[of n] by auto
  have "(of_int (2 ^ nat (bitlen n - 1)) :: rat) \<le> of_int n" "(of_int n :: rat) < of_int (2 ^ nat (bitlen n))"
    using b by (simp_all only: of_int_le_iff of_int_less_iff)
  then show ?thesis using p by (simp add: pow2_def)
qed

lemma exponent_lower:
  assumes "0 < q" "-1074 < exponent_of q"
  shows "pow2 (exponent_of q) * 2 ^ 52 \<le> q"
proof -
  obtain n d where nd: "quotient_of q = (n, d)" by (cases "quotient_of q")
  have d: "0 < d" and q: "q = of_int n / of_int d"
    using quotient_of_denom_pos[OF nd] quotient_of_div[OF nd] by auto
  then have n: "0 < n" using assms(1) by (simp add: zero_less_divide_iff)
  define e where "e = bitlen n - bitlen d - 53"
  have "pow2 e * 2 ^ 52 * of_int d < pow2 e * 2 ^ 52 * pow2 (bitlen d)"
    using bitlen_rat[OF d] by simp
  also have "\<dots> = pow2 (bitlen n - 1)"
  proof -
    have "pow2 (bitlen n - 1) = pow2 (e + 52 + bitlen d)" by (simp add: e_def)
    also have "\<dots> = pow2 e * pow2 52 * pow2 (bitlen d)" by (simp only: pow2_add)
    finally show ?thesis by (simp add: pow2_def)
  qed
  also have "\<dots> \<le> of_int n" using bitlen_rat[OF n] by simp
  finally have low: "pow2 e * 2 ^ 52 < q" using d by (simp add: q field_simps)
  have "exponent_of q = e + 1 \<and> 2 ^ 53 \<le> q / pow2 e \<or> exponent_of q = e"
    using assms(2) by (auto simp: exponent_of_def nd Let_def e_def max_def split: if_splits)
  then show ?thesis
  proof
    assume a: "exponent_of q = e + 1 \<and> 2 ^ 53 \<le> q / pow2 e"
    then have "2 ^ 53 * pow2 e \<le> q" by (simp add: le_divide_eq)
    moreover have "pow2 (e + 1) = pow2 e * 2" using pow2_add[of e 1] by (simp add: pow2_def)
    ultimately show ?thesis using a by simp
  qed (use low in simp)
qed

lemma exponent_ge: "-1074 \<le> exponent_of q"
  by (simp add: exponent_of_def Let_def split: prod.split)

lemma round_pos_le: "0 < q \<Longrightarrow> round_pos q \<le> 2 * q + 1"
proof -
  assume q: "0 < q"
  have "of_int (round_even (q / pow2 (exponent_of q))) \<le> q / pow2 (exponent_of q) + 1"
    using round_even_bounds(2)[of "q / pow2 (exponent_of q)"] by linarith
  then have "round_pos q \<le> (q / pow2 (exponent_of q) + 1) * pow2 (exponent_of q)"
    unfolding round_pos_def using mult_right_mono[OF _ less_imp_le[OF pow2_pos]] by blast
  then have *: "round_pos q \<le> q + pow2 (exponent_of q)" by (simp add: distrib_right)
  show ?thesis
  proof (cases "-1074 < exponent_of q")
    case True
    have "pow2 (exponent_of q) * 1 \<le> pow2 (exponent_of q) * 2 ^ 52"
      by (intro mult_left_mono) (simp_all add: less_imp_le)
    with * exponent_lower[OF q True] q show ?thesis by linarith
  next
    case False
    then have "exponent_of q = -1074" using exponent_ge[of q] by linarith
    then have "pow2 (exponent_of q) \<le> 1" using pow2_mono[of "-1074" 0] by (simp add: pow2_def[of 0])
    with * q show ?thesis by linarith
  qed
qed

lemma f_round_finite:
  assumes "\<bar>q\<bar> \<le> 2 ^ 1000"
  shows "f_finite (f_round q)"
proof (cases "q = 0")
  case False
  have "round_pos \<bar>q\<bar> \<le> 2 * \<bar>q\<bar> + 1" using round_pos_le[of "\<bar>q\<bar>"] False by simp
  moreover have "2 * 2 ^ 1000 + 1 < (2 ^ 1024 :: rat)" by simp
  ultimately have "round_pos \<bar>q\<bar> < 2 ^ 1024" using assms by linarith
  then show ?thesis using False by (simp add: f_round_def Let_def)
qed simp

lemma round_even_int [simp]: "round_even (of_int i) = i"
  by (simp add: round_even_def Let_def)

lemma exponent_of_int:
  assumes "0 < i" "i < 2 ^ 53"
  shows "exponent_of (of_int i) \<le> 0"
proof -
  have "bitlen i \<le> 53" using assms bitlen_le_iff_power[of i 53] by simp
  moreover have "quotient_of (of_int i) = (i, 1)" by (rule quotient_of_int[unfolded Rat.of_int_def])
  moreover have "bitlen 1 = 1" by (simp add: bitlen_alt_def)
  ultimately show ?thesis by (simp add: exponent_of_def Let_def)
qed

lemma round_pos_int:
  assumes "0 < i" "i < 2 ^ 53"
  shows "round_pos (of_int i) = of_int i"
proof -
  define e where "e = exponent_of (of_int i)"
  have "e \<le> 0" using exponent_of_int[OF assms] by (simp add: e_def)
  then have "(of_int i :: rat) / pow2 e = of_int (i * 2 ^ nat (- e))"
    by (auto simp: pow2_def)
  then have "round_even (of_int i / pow2 e) = i * 2 ^ nat (- e)" by (simp only: round_even_int)
  moreover have "(2 ^ nat (- e) :: rat) * pow2 e = 1"
    using \<open>e \<le> 0\<close> by (cases "e = 0") (simp_all add: pow2_def)
  ultimately show ?thesis
    unfolding round_pos_def e_def[symmetric] by (simp add: mult.assoc)
qed

lemma f_round_int:
  assumes "\<bar>i\<bar> < 2 ^ 53"
  shows "f_round (of_int i) = Fin (of_int i)"
proof (cases "i = 0")
  case False
  then have r: "round_pos (of_int \<bar>i\<bar>) = of_int \<bar>i\<bar>" using round_pos_int[of "\<bar>i\<bar>"] assms by simp
  have "(of_int \<bar>i\<bar> :: rat) < of_int (2 ^ 53)" using assms by (simp only: of_int_less_iff)
  then have "\<not> 2 ^ 1024 \<le> (of_int \<bar>i\<bar> :: rat)"
    using power_increasing[of 53 1024 "2 :: rat"] by simp
  then show ?thesis using False r by (auto simp: f_round_def Let_def)
qed simp

lemma f_of_int_exact: "\<bar>i\<bar> < 2 ^ 53 \<Longrightarrow> f_of_int i = Fin (of_int i)"
  by (simp add: f_of_int_def f_round_int)

lemma f_of_int_bound: "0 \<le> i \<Longrightarrow> i \<le> max_int64 \<Longrightarrow> \<exists>r. f_of_int i = Fin r \<and> 0 \<le> r \<and> r \<le> 2 ^ 65"
proof -
  assume i: "0 \<le> i" "i \<le> max_int64"
  then have "(of_int i :: rat) \<le> of_int max_int64" by (simp only: of_int_le_iff)
  then have b: "(of_int i :: rat) \<le> 2 ^ 63" by (simp add: max_int64_def)
  show ?thesis
  proof (cases "i = 0")
    case True
    then show ?thesis by (simp add: f_of_int_def)
  next
    case False
    have le: "round_pos (of_int i) \<le> 2 * of_int i + 1" using round_pos_le[of "of_int i"] False i by simp
    then have r: "round_pos (of_int i) \<le> 2 ^ 65" using b by simp
    then have "\<not> 2 ^ 1024 \<le> round_pos (of_int i)"
      using power_strict_increasing[of 65 1024 "2 :: rat"] by simp
    then have "f_of_int i = Fin (round_pos (of_int i))"
      using False i by (simp add: f_of_int_def f_round_def Let_def)
    then show ?thesis using r round_pos_nonneg[of "of_int i"] i by simp
  qed
qed

text \<open>A count over a positive interval that is at least a nanosecond is a finite, non-negative rate.\<close>

lemma f_rate_ok:
  assumes "0 \<le> i" "i \<le> max_int64" "1 / 2 ^ 40 \<le> t"
  shows "f_nonneg (f_div (f_of_int i) (Fin t)) \<and> f_finite (f_div (f_of_int i) (Fin t))"
proof -
  obtain r where r: "f_of_int i = Fin r" "0 \<le> r" "r \<le> 2 ^ 65" using f_of_int_bound[OF assms(1,2)] by blast
  have t: "0 < t" using assms(3) by (rule less_le_trans[rotated]) simp
  have "1 \<le> t * 2 ^ 40" using assms(3) by (simp add: field_simps)
  then have "r * 1 \<le> r * (t * 2 ^ 40)" using r(2) by (rule mult_left_mono)
  then have "r / t \<le> r * 2 ^ 40" using t by (simp add: divide_le_eq mult.commute mult.left_commute)
  also have "\<dots> \<le> 2 ^ 65 * 2 ^ 40" using r(3) by (intro mult_right_mono) simp_all
  also have "\<dots> = 2 ^ 105" by (simp flip: power_add)
  also have "(2 :: rat) ^ 105 \<le> 2 ^ 1000" by (rule power_increasing) simp_all
  finally have "\<bar>r / t\<bar> \<le> 2 ^ 1000" using r t by (simp only: abs_of_nonneg divide_nonneg_pos)
  then show ?thesis using r t f_round_finite[of "r / t"] f_round_nonneg[of "r / t"] by simp
qed

section \<open>Durations\<close>

lemma round_pos_ge:
  assumes "1 / 2 ^ 100 \<le> q"
  shows "q / 2 \<le> round_pos q"
proof -
  have q: "0 < q" using assms by (rule less_le_trans[rotated]) simp
  have le: "pow2 (exponent_of q) \<le> q / 2"
  proof (cases "-1074 < exponent_of q")
    case True
    have "pow2 (exponent_of q) * 2 \<le> pow2 (exponent_of q) * 2 ^ 52"
      by (intro mult_left_mono) (simp_all add: less_imp_le)
    with exponent_lower[OF q True] show ?thesis by linarith
  next
    case False
    then have "exponent_of q = -1074" using exponent_ge[of q] by linarith
    then have "pow2 (exponent_of q) \<le> pow2 (-101)" using pow2_mono[of "-1074" "-101"] by simp
    also have "\<dots> = (1 / 2 ^ 100) / 2" by (simp add: pow2_def)
    also have "\<dots> \<le> q / 2" using assms by (rule divide_right_mono) simp
    finally show ?thesis .
  qed
  have "q / pow2 (exponent_of q) - 1 \<le> of_int (round_even (q / pow2 (exponent_of q)))"
    using round_even_bounds(1)[of "q / pow2 (exponent_of q)"] by linarith
  then have "(q / pow2 (exponent_of q) - 1) * pow2 (exponent_of q) \<le> round_pos q"
    unfolding round_pos_def using mult_right_mono[OF _ less_imp_le[OF pow2_pos]] by blast
  then have "q - pow2 (exponent_of q) \<le> round_pos q" by (simp add: left_diff_distrib)
  with le show ?thesis by linarith
qed

lemma f_round_pos:
  assumes "1 / 2 ^ 100 \<le> q" "q \<le> 2 ^ 100"
  shows "\<exists>r. f_round q = Fin r \<and> q / 2 \<le> r \<and> r \<le> 2 * q + 1"
proof -
  have q: "0 < q" using assms(1) by (rule less_le_trans[rotated]) simp
  have "q \<le> 2 ^ 1000" using assms(2) power_increasing[of 100 1000 "2 :: rat"] by (simp only: order_trans)
  then have "f_finite (f_round q)" using q by (intro f_round_finite) simp
  then have "f_round q = Fin (round_pos q)" using q by (auto simp: f_round_def Let_def split: if_splits)
  then show ?thesis using round_pos_ge[OF assms(1)] round_pos_le[OF q] by simp
qed

lemma round_pos_close:
  assumes "1 / 2 ^ 100 \<le> q"
  shows "\<bar>round_pos q - q\<bar> \<le> q / 100"
proof -
  let ?u = "pow2 (exponent_of q)"
  have q: "0 < q" using assms by (rule less_le_trans[rotated]) simp
  have le: "?u * 128 \<le> q"
  proof (cases "-1074 < exponent_of q")
    case True
    have "?u * 128 \<le> ?u * 2 ^ 52" by (intro mult_left_mono) (simp_all add: less_imp_le)
    with exponent_lower[OF q True] show ?thesis by linarith
  next
    case False
    then have "exponent_of q = -1074" using exponent_ge[of q] by linarith
    then have "?u \<le> pow2 (-107)" using pow2_mono[of "-1074" "-107"] by simp
    also have "pow2 (-107) = (1 / 2 ^ 100) / 128" by (simp add: pow2_def)
    also have "\<dots> \<le> q / 128" using assms by (rule divide_right_mono) simp
    finally show ?thesis by simp
  qed
  have "\<bar>of_int (round_even (q / ?u)) - q / ?u\<bar> \<le> 1"
    using round_even_bounds[of "q / ?u"] by (simp add: abs_le_iff) linarith
  then have "\<bar>of_int (round_even (q / ?u)) - q / ?u\<bar> * ?u \<le> 1 * ?u"
    by (intro mult_right_mono) (simp_all add: less_imp_le)
  then have "\<bar>(of_int (round_even (q / ?u)) - q / ?u) * ?u\<bar> \<le> ?u" by (simp add: abs_mult less_imp_le)
  then have "\<bar>round_pos q - q\<bar> \<le> ?u" by (simp add: round_pos_def left_diff_distrib)
  with le q show ?thesis by linarith
qed

lemma f_round_far:
  assumes "1 / 2 ^ 100 \<le> a" "3 / 2 * a \<le> b" "b \<le> 2 ^ 100"
  shows "f_round a \<noteq> f_round b"
proof -
  have a: "0 < a" using assms(1) by (rule less_le_trans[rotated]) simp
  have b: "1 / 2 ^ 100 \<le> b" using assms(1,2) a by linarith
  have "\<exists>r. f_round q = Fin r \<and> r = round_pos q" if "1 / 2 ^ 100 \<le> q" "q \<le> 2 ^ 100" for q
  proof -
    have "0 < q" using that(1) by (rule less_le_trans[rotated]) simp
    then show ?thesis using f_round_pos[OF that] by (auto simp: f_round_def Let_def split: if_splits)
  qed
  moreover have "a \<le> 2 ^ 100" using assms(2,3) a by linarith
  moreover have "round_pos a \<noteq> round_pos b"
    using round_pos_close[OF assms(1)] round_pos_close[OF b] assms(2) a unfolding abs_le_iff by linarith
  ultimately show ?thesis using assms(1,3) b by fastforce
qed

lemma Seconds_pos:
  assumes "0 < d" "d \<le> max_int64"
  shows "\<exists>t. Seconds d = Fin t \<and> 1 / 2 ^ 40 \<le> t"
proof -
  define s where "s = d div second"
  define ns where "ns = d mod second"
  have sn: "0 \<le> s" "0 \<le> ns" "ns < 1000000000" "d = s * second + ns" "s \<le> max_int64"
    using assms by (auto simp: s_def ns_def second_def pos_imp_zdiv_nonneg_iff intro: order_trans[OF zdiv_mono2[of d 1]])
  have S: "Seconds d = f_add (f_of_int s) (f_div (f_of_int ns) (Fin 1000000000))"
  proof -
    have "d - d div second * second = ns" by (simp add: ns_def minus_div_mult_eq_mod)
    then show ?thesis using assms(1) by (simp add: Seconds_def Let_def s_def)
  qed
  obtain a where a: "f_of_int s = Fin a" "0 \<le> a" "a \<le> 2 ^ 65" using f_of_int_bound[OF sn(1,5)] by blast
  have a1: "1 / 2 \<le> a" if "1 \<le> s"
  proof -
    have "(1 :: rat) \<le> of_int s" using that by simp
    moreover have "(of_int s :: rat) \<le> 2 ^ 100"
    proof -
      have "(of_int s :: rat) \<le> of_int max_int64" using sn(5) by (simp only: of_int_le_iff)
      also have "\<dots> \<le> 2 ^ 100" by (simp add: max_int64_def)
      finally show ?thesis .
    qed
    moreover have "(1 / 2 ^ 100 :: rat) \<le> 1" by simp
    ultimately show ?thesis using f_round_pos[of "of_int s"] a(1) by (auto simp: f_of_int_def)
  qed
  have n: "f_of_int ns = Fin (of_int ns)" using sn(2,3) by (intro f_of_int_exact) simp
  obtain b where b: "f_div (f_of_int ns) (Fin 1000000000) = Fin b" "0 \<le> b" "b \<le> 3"
    "1 \<le> ns \<Longrightarrow> 1 / 2000000000 \<le> b"
  proof (cases "ns = 0")
    case True
    then show thesis using that[of 0] n by simp
  next
    case False
    then have ge: "(1 :: rat) / 1000000000 \<le> of_int ns / 1000000000" using sn(2) by (intro divide_right_mono) simp_all
    have "(of_int ns :: rat) < of_int 1000000000" using sn(3) by (simp only: of_int_less_iff)
    then have le: "of_int ns / 1000000000 < (1 :: rat)" by simp
    obtain r where "f_round (of_int ns / 1000000000) = Fin r" "of_int ns / 1000000000 / 2 \<le> r"
      "r \<le> 2 * (of_int ns / 1000000000) + 1"
      using f_round_pos[of "of_int ns / 1000000000"] ge le order_trans[OF _ ge, of "1 / 2 ^ 100"]
      by (auto simp: order_trans[OF less_imp_le[OF le], of "2 ^ 100"])
    then show thesis using that[of r] n ge le by simp
  qed
  have sum: "1 / 2000000000 \<le> a + b"
  proof (cases "1 \<le> s")
    case True
    then show ?thesis using a1 b(2) by linarith
  next
    case False
    then have "1 \<le> ns" using sn assms(1) by (auto simp: second_def)
    then show ?thesis using a(2) b(4) by linarith
  qed
  have ub: "a + b \<le> 2 ^ 100" using a(3) b(3) by simp
  have "(1 / 2 ^ 100 :: rat) \<le> 1 / 2000000000" by simp
  then obtain r where "f_round (a + b) = Fin r" "(a + b) / 2 \<le> r"
    using f_round_pos[of "a + b"] sum ub order_trans by blast
  moreover have "(1 / 2 ^ 40 :: rat) \<le> (1 / 2000000000) / 2" by simp
  moreover have "(1 / 2000000000) / 2 \<le> (a + b) / 2" using sum by (rule divide_right_mono) simp
  ultimately show ?thesis by (auto simp: S a(1) b(1))
qed

lemma f_round_nonpos: "q \<le> 0 \<Longrightarrow> f_le (f_round q) (Fin 0)"
  using round_pos_nonneg[of "\<bar>q\<bar>"] by (auto simp: f_round_def Let_def)

lemma f_add_nonpos: "f_le a (Fin 0) \<Longrightarrow> f_le b (Fin 0) \<Longrightarrow> f_le (f_add a b) (Fin 0)"
  by (cases a; cases b) (auto intro!: f_round_nonpos)

lemma f_add_nonneg: "f_nonneg a \<Longrightarrow> f_nonneg b \<Longrightarrow> f_nonneg (f_add a b)"
  by (cases a; cases b) (auto intro: f_round_nonneg)

lemma Seconds_nonpos:
  assumes "d \<le> 0"
  shows "f_le (Seconds d) (Fin 0)"
proof -
  define s where "s = (if d < 0 then - ((- d) div second) else d div second)"
  have s: "s \<le> 0" using assms by (auto simp: s_def second_def pos_imp_zdiv_nonneg_iff)
  have "d - s * second = - ((- d) mod second)"
    using assms by (auto simp: s_def minus_div_mult_eq_mod[symmetric])
  then have ns: "d - s * second \<le> 0" by (simp add: second_def)
  have a: "f_le (f_of_int s) (Fin 0)" using s by (simp add: f_of_int_def f_round_nonpos)
  have "f_le (f_of_int (d - s * second)) (Fin 0)"
    unfolding f_of_int_def by (rule f_round_nonpos) (use ns in \<open>simp only: of_int_le_0_iff\<close>)
  then have "f_le (f_div (f_of_int (d - s * second)) (Fin 1000000000)) (Fin 0)"
    by (cases "f_of_int (d - s * second)") (auto intro!: f_round_nonpos divide_nonpos_pos)
  then show ?thesis using f_add_nonpos[OF a] by (simp add: Seconds_def Let_def s_def)
qed

text \<open>An interval as the program uses it: not positive, or long enough to divide by.\<close>

definition good_interval :: "f64 \<Rightarrow> bool" where
  "good_interval dt \<longleftrightarrow> (\<exists>t. dt = Fin t \<and> 1 / 2 ^ 40 \<le> t)"

lemma Seconds_cases: "d \<le> max_int64 \<Longrightarrow> f_le (Seconds d) (Fin 0) \<or> good_interval (Seconds d)"
  using Seconds_pos[of d] Seconds_nonpos[of d] by (cases "0 < d") (auto simp: good_interval_def)

lemma good_interval_cases:
  assumes "good_interval dt"
  obtains t where "dt = Fin t" "1 / 2 ^ 40 \<le> t" "0 < t"
proof -
  obtain t where t: "dt = Fin t" "1 / 2 ^ 40 \<le> t" using assms by (auto simp: good_interval_def)
  moreover from t(2) have "0 < t" by (rule less_le_trans[rotated]) simp
  ultimately show thesis by (rule that)
qed

lemma rate_value_ok:
  assumes "prev \<le> cur" "0 \<le> prev" "cur \<le> max_int64" "good_interval dt"
  shows "f_nonneg (f_div (f_of_int (wrap64 (cur - prev))) dt) \<and> f_finite (f_div (f_of_int (wrap64 (cur - prev))) dt)"
proof -
  have "wrap64 (cur - prev) = cur - prev" using assms(1-3) by (intro wrap64_id) (auto simp: min_int64_def)
  moreover obtain t where "dt = Fin t" "1 / 2 ^ 40 \<le> t" using good_interval_cases[OF assms(4)] by blast
  ultimately show ?thesis using f_rate_ok[of "cur - prev" t] assms(1-3) by simp
qed

end
