(* ===== verification/Types.thy ===== *)
theory Types
  imports GoLib Float64
begin

text \<open>
  Every struct of \<^verbatim>\<open>internal/collector/types.go\<close>, field by field, and the snapshot of
  \<^verbatim>\<open>internal/collector/snapshot.go\<close>. A Go map is a \<open>gomap\<close>, a nil map reads as empty, a pointer is an
  option. Field names carry a prefix for their struct.
\<close>

record cluster_opts_varz =
  co_Name :: string
  co_URLs :: "string list"

record gateway_opts_varz =
  go_Name :: string

record jetstream_config =
  jc_MaxMemory :: int
  jc_MaxStore :: int
  jc_Domain :: string

record jetstream_api_stats =
  ja_Total :: "64 word"
  ja_Errors :: "64 word"

record jetstream_stats =
  jst_Memory :: "64 word"
  jst_Store :: "64 word"
  jst_Accounts :: int
  jst_API :: jetstream_api_stats

record jetstream_varz =
  jv_Config :: jetstream_config
  jv_Stats :: jetstream_stats

record varz =
  v_ServerID :: string
  v_ServerName :: string
  v_Version :: string
  v_Host :: string
  v_Port :: int
  v_MaxConn :: int
  v_Connections :: int
  v_TotalConnections :: "64 word"
  v_Routes :: int
  v_Leafs :: int
  v_InMsgs :: int
  v_OutMsgs :: int
  v_InBytes :: int
  v_OutBytes :: int
  v_Mem :: int
  v_CPU :: f64
  v_Cores :: int
  v_Subscriptions :: "32 word"
  v_SlowConsumers :: int
  v_Start :: gotime
  v_Now :: gotime
  v_Uptime :: string
  v_Cluster :: cluster_opts_varz
  v_Gateway :: gateway_opts_varz
  v_JetStream :: jetstream_varz
  v_GoVersion :: string

record sub_detail =
  sd_Account :: string
  sd_Subject :: string
  sd_Queue :: string
  sd_Sid :: string
  sd_Msgs :: int
  sd_Max :: int
  sd_Cid :: "64 word"

record conn_info =
  c_ServerID :: string
  c_Cid :: "64 word"
  c_Kind :: string
  c_IP :: string
  c_Port :: int
  c_Start :: gotime
  c_LastActivity :: gotime
  c_RTT :: string
  c_Uptime :: string
  c_Idle :: string
  c_Pending :: int
  c_InMsgs :: int
  c_OutMsgs :: int
  c_InBytes :: int
  c_OutBytes :: int
  c_NumSubs :: "32 word"
  c_Name :: string
  c_Lang :: string
  c_Version :: string
  c_TLSVersion :: string
  c_TLSCipher :: string
  c_AuthorizedUser :: string
  c_Account :: string
  c_Subs :: "string list"
  c_SubsDetail :: "sub_detail list"
  c_MQTTClient :: string

record connz =
  cz_ServerID :: string
  cz_NumConns :: int
  cz_Total :: int
  cz_Offset :: int
  cz_Limit :: int
  cz_Conns :: "conn_info list"

record route_info =
  ri_Rid :: "64 word"
  ri_RemoteID :: string
  ri_RemoteName :: string
  ri_DidSolicit :: bool
  ri_IP :: string
  ri_Port :: int
  ri_Start :: gotime
  ri_LastActivity :: gotime
  ri_RTT :: string
  ri_Uptime :: string
  ri_InMsgs :: int
  ri_OutMsgs :: int
  ri_InBytes :: int
  ri_OutBytes :: int
  ri_NumSubs :: "32 word"

record routez =
  rz_ServerID :: string
  rz_ServerName :: string
  rz_NumRoutes :: int
  rz_Routes :: "route_info list"

record remote_gatewayz =
  rg_IsConfigured :: bool
  rg_Connection :: "conn_info option"

record gatewayz =
  gw_ServerID :: string
  gw_Name :: string
  gw_Host :: string
  gw_Port :: int
  gw_OutboundGateways :: "(string, remote_gatewayz option) gomap"
  gw_InboundGateways :: "(string, remote_gatewayz option list) gomap"

record leaf_info =
  li_ID :: "64 word"
  li_Name :: string
  li_IsSpoke :: bool
  li_Account :: string
  li_IP :: string
  li_Port :: int
  li_RTT :: string
  li_InMsgs :: int
  li_OutMsgs :: int
  li_InBytes :: int
  li_OutBytes :: int
  li_NumSubs :: "32 word"

record leafz =
  lz_ServerID :: string
  lz_NumLeafs :: int
  lz_Leafs :: "leaf_info list"

record subsz =
  sz_ServerID :: string
  sz_NumSubs :: "32 word"
  sz_NumCache :: "32 word"
  sz_NumInsert :: "64 word"
  sz_NumRemove :: "64 word"
  sz_NumMatch :: "64 word"
  sz_CacheHit :: f64
  sz_MaxFanout :: "32 word"
  sz_AvgFanout :: f64

record peer_info =
  pi_Name :: string
  pi_Current :: bool
  pi_Active :: int
  pi_Offline :: bool
  pi_Lag :: "64 word"

record meta_cluster_info =
  mc_Name :: string
  mc_Leader :: string
  mc_Replicas :: "peer_info list"
  mc_Size :: int

record stream_config =
  sc_Name :: string
  sc_Subjects :: "string list"
  sc_Retention :: string
  sc_MaxMsgs :: int
  sc_MaxBytes :: int
  sc_MaxAge :: int
  sc_Storage :: string
  sc_Replicas :: int
  sc_Discard :: string

record stream_state =
  sst_Msgs :: "64 word"
  sst_Bytes :: "64 word"
  sst_FirstSeq :: "64 word"
  sst_LastSeq :: "64 word"
  sst_Consumers :: int
  sst_FirstTS :: gotime
  sst_LastTS :: gotime

record cluster_info =
  ci_Name :: string
  ci_Leader :: string
  ci_Replicas :: "peer_info list"

record consumer_config =
  cc_Name :: string
  cc_DurableName :: string
  cc_FilterSubject :: string
  cc_DeliverPolicy :: string
  cc_AckPolicy :: string

record sequence_info =
  sq_Consumer :: "64 word"
  sq_Stream :: "64 word"
  sq_Last :: gotime

record consumer_info =
  cn_StreamName :: string
  cn_Name :: string
  cn_Created :: gotime
  cn_Config :: consumer_config
  cn_Delivered :: sequence_info
  cn_AckFloor :: sequence_info
  cn_NumAckPending :: int
  cn_NumRedelivered :: int
  cn_NumWaiting :: int
  cn_NumPending :: "64 word"
  cn_Cluster :: "cluster_info option"

record stream_detail =
  st_Name :: string
  st_Created :: gotime
  st_Config :: stream_config
  st_State :: stream_state
  st_Cluster :: "cluster_info option"
  st_Consumers :: "consumer_info list"

record account_detail =
  ad_Name :: string
  ad_ID :: string
  ad_Memory :: "64 word"
  ad_Store :: "64 word"
  ad_Streams :: "stream_detail list"

record js_info =
  js_ServerID :: string
  js_Disabled :: bool
  js_Config :: jetstream_config
  js_Memory :: "64 word"
  js_Store :: "64 word"
  js_ReservedMemory :: "64 word"
  js_ReservedStore :: "64 word"
  js_Accounts :: int
  js_API :: jetstream_api_stats
  js_Streams :: int
  js_Consumers :: int
  js_Messages :: "64 word"
  js_Bytes :: "64 word"
  js_Meta :: "meta_cluster_info option"
  js_AccountDetails :: "account_detail list"

record account_info =
  ai_AccountName :: string
  ai_IsSystem :: bool
  ai_Expired :: bool
  ai_JetStream :: bool
  ai_LeafCnt :: int
  ai_ClientCnt :: int
  ai_SubCnt :: "32 word"

record accountz =
  az_ServerID :: string
  az_SystemAccount :: string
  az_Accounts :: "string list"
  az_Account :: "account_info option"

record health_status =
  hs_Status :: string
  hs_Error :: string

record server_rates =
  sr_InMsgsRate :: f64
  sr_OutMsgsRate :: f64
  sr_InBytesRate :: f64
  sr_OutBytesRate :: f64

record snapshot =
  Timestamp :: gotime
  Varz :: "(string, varz) gomap"
  Routez :: "(string, routez) gomap"
  Gatewayz :: "(string, gatewayz) gomap"
  Leafz :: "(string, leafz) gomap"
  Health :: "(string, health_status) gomap"
  Connz :: "(string, connz) gomap"
  Subsz :: "(string, subsz) gomap"
  JSInfo :: "(string, js_info) gomap"
  Accountz :: "(string, accountz) gomap"
  Rates :: "(string, server_rates) gomap"
  ServerURLs :: "(string, string) gomap"

text \<open>The zero values of the documents, as a composite literal starts from them.\<close>

definition zero_varz :: varz where
  "zero_varz =
     \<lparr>v_ServerID = [], v_ServerName = [], v_Version = [], v_Host = [], v_Port = 0, v_MaxConn
     = 0, v_Connections = 0, v_TotalConnections = 0, v_Routes = 0, v_Leafs = 0, v_InMsgs = 0,
     v_OutMsgs = 0, v_InBytes = 0, v_OutBytes = 0, v_Mem = 0, v_CPU = Fin 0, v_Cores = 0,
     v_Subscriptions = 0, v_SlowConsumers = 0, v_Start = 0, v_Now = 0, v_Uptime = [], v_Cluster =
     \<lparr>co_Name = [], co_URLs = []\<rparr>, v_Gateway = \<lparr>go_Name = []\<rparr>,
     v_JetStream = \<lparr>jv_Config = \<lparr>jc_MaxMemory = 0, jc_MaxStore = 0, jc_Domain =
     []\<rparr>, jv_Stats = \<lparr>jst_Memory = 0, jst_Store = 0, jst_Accounts = 0, jst_API =
     \<lparr>ja_Total = 0, ja_Errors = 0\<rparr>\<rparr>\<rparr>, v_GoVersion = []\<rparr>"

definition zero_conn_info :: conn_info where
  "zero_conn_info =
     \<lparr>c_ServerID = [], c_Cid = 0, c_Kind = [], c_IP = [], c_Port = 0, c_Start = 0,
     c_LastActivity = 0, c_RTT = [], c_Uptime = [], c_Idle = [], c_Pending = 0, c_InMsgs = 0,
     c_OutMsgs = 0, c_InBytes = 0, c_OutBytes = 0, c_NumSubs = 0, c_Name = [], c_Lang = [],
     c_Version = [], c_TLSVersion = [], c_TLSCipher = [], c_AuthorizedUser = [], c_Account = [],
     c_Subs = [], c_SubsDetail = [], c_MQTTClient = []\<rparr>"

definition empty_snapshot :: snapshot where
  "empty_snapshot = \<lparr>Timestamp = 0, Varz = [], Routez = [], Gatewayz = [], Leafz = [], Health = [],
     Connz = [], Subsz = [], JSInfo = [], Accountz = [], Rates = [], ServerURLs = []\<rparr>"

end
