(* ===== verification/Snapshot.thy ===== *)
theory Snapshot
  imports Types "HOL-Library.List_Lexorder" "HOL-Library.Char_ord"
begin

text \<open>
  Rates and the overview of \<^verbatim>\<open>internal/collector/snapshot.go\<close>, and the contract that every rate of the
  program meets.
\<close>

section \<open>Rates\<close>

text \<open>
  A rate over an interval from two readings of a cumulative counter: never negative, always a
  finite number, and zero when the counter went back (a restart) or stood still.
\<close>

locale counter_rate =
  fixes rate :: "f64 \<Rightarrow> int \<Rightarrow> int \<Rightarrow> f64"
  assumes rate_ok: "f_le dt (Fin 0) \<or> good_interval dt \<Longrightarrow> 0 \<le> prev \<Longrightarrow> cur \<le> max_int64
      \<Longrightarrow> f_nonneg (rate dt cur prev) \<and> f_finite (rate dt cur prev)"
    and rate_reset: "cur < prev \<Longrightarrow> rate dt cur prev = Fin 0"
    and rate_still: "f_le dt (Fin 0) \<or> good_interval dt \<Longrightarrow> rate dt cur cur = Fin 0"
begin

text \<open>Over the time between two instants.\<close>

lemma rate_between:
  assumes "t1 - t0 \<le> max_int64" "0 \<le> prev" "cur \<le> max_int64"
  shows "f_nonneg (rate (Seconds (t1 - t0)) cur prev) \<and> f_finite (rate (Seconds (t1 - t0)) cur prev)"
  using Seconds_cases[OF assms(1)] assms(2,3) by (rule rate_ok)

end

text \<open>\<open>nonNegRate\<close> is in \<^verbatim>\<open>mqtt_subscriber.go\<close>; the interval is in seconds.\<close>

definition nonNegRate :: "int \<Rightarrow> int \<Rightarrow> f64 \<Rightarrow> f64" where
  "nonNegRate cur prev dt =
    (if f_le dt (Fin 0) \<or> cur < prev then Fin 0 else f_div (f_of_int (wrap64 (cur - prev))) dt)"

interpretation clamped: counter_rate "\<lambda>dt cur prev. nonNegRate cur prev dt"
proof
  fix dt and prev cur :: int
  show "f_nonneg (nonNegRate cur prev dt) \<and> f_finite (nonNegRate cur prev dt)"
    if "f_le dt (Fin 0) \<or> good_interval dt" "0 \<le> prev" "cur \<le> max_int64"
    using rate_value_ok[OF _ that(2,3)] that(1) by (auto simp: nonNegRate_def not_less)
  show "cur < prev \<Longrightarrow> nonNegRate cur prev dt = Fin 0" by (simp add: nonNegRate_def)
  show "nonNegRate cur cur dt = Fin 0" if "f_le dt (Fin 0) \<or> good_interval dt"
    using that by (auto simp: nonNegRate_def wrap64_def f_of_int_def elim!: good_interval_cases)
qed

definition server_rates_of :: "varz \<Rightarrow> varz \<Rightarrow> f64 \<Rightarrow> server_rates" where
  "server_rates_of cv pv dt =
    \<lparr>sr_InMsgsRate = nonNegRate (v_InMsgs cv) (v_InMsgs pv) dt,
     sr_OutMsgsRate = nonNegRate (v_OutMsgs cv) (v_OutMsgs pv) dt,
     sr_InBytesRate = nonNegRate (v_InBytes cv) (v_InBytes pv) dt,
     sr_OutBytesRate = nonNegRate (v_OutBytes cv) (v_OutBytes pv) dt\<rparr>"

definition computeRates :: "snapshot option \<Rightarrow> snapshot \<Rightarrow> (string, server_rates) gomap" where
  "computeRates prev cur = (case prev of
      None \<Rightarrow> []
    | Some p \<Rightarrow> concat (map (\<lambda>(i, cv). case map_of (Varz p) i of
          None \<Rightarrow> []
        | Some pv \<Rightarrow>
            (let dt = Seconds (v_Now cv - v_Now pv)
             in if f_le dt (Fin 0) then [] else [(i, server_rates_of cv pv dt)])) (Varz cur)))"

section \<open>Overview\<close>

record server_summary =
  ss_ID :: string
  ss_Name :: string
  ss_Version :: string
  ss_Connections :: int
  ss_CPU :: f64
  ss_Mem :: int
  ss_InMsgsRate :: f64
  ss_OutMsgsRate :: f64
  ss_Healthy :: bool
  ss_Uptime :: string

record overview =
  ServerCount :: int
  HealthyCount :: int
  ConnectionCount :: int
  InMsgsRate :: f64
  OutMsgsRate :: f64
  InBytesRate :: f64
  OutBytesRate :: f64
  Subscriptions :: "32 word"
  JSStreams :: int
  JSConsumers :: int
  JSMessages :: "64 word"
  JSBytes :: "64 word"
  Servers :: "server_summary list"

definition is_healthy :: "snapshot \<Rightarrow> string \<Rightarrow> bool" where
  "is_healthy s i = (case map_of (Health s) i of None \<Rightarrow> True | Some h \<Rightarrow> hs_Status h = ''ok'')"

definition zero_rates :: server_rates where
  "zero_rates = \<lparr>sr_InMsgsRate = Fin 0, sr_OutMsgsRate = Fin 0, sr_InBytesRate = Fin 0, sr_OutBytesRate = Fin 0\<rparr>"

definition add_server :: "snapshot \<Rightarrow> string \<times> varz \<Rightarrow> overview \<Rightarrow> overview" where
  "add_server s iv acc =
    (let (i, v) = iv;
         r = map_of (Rates s) i;
         rr = (case r of None \<Rightarrow> zero_rates | Some r \<Rightarrow> r);
         ss = \<lparr>ss_ID = i, ss_Name = v_ServerName v, ss_Version = v_Version v,
               ss_Connections = v_Connections v, ss_CPU = v_CPU v, ss_Mem = v_Mem v,
               ss_InMsgsRate = sr_InMsgsRate rr, ss_OutMsgsRate = sr_OutMsgsRate rr,
               ss_Healthy = is_healthy s i, ss_Uptime = v_Uptime v\<rparr>;
         acc1 = acc\<lparr>ServerCount := ServerCount acc + 1,
                   ConnectionCount := wrap64 (ConnectionCount acc + v_Connections v),
                   Subscriptions := Subscriptions acc + v_Subscriptions v,
                   HealthyCount := HealthyCount acc + (if ss_Healthy ss then 1 else 0),
                   Servers := Servers acc @ [ss]\<rparr>
     in if r = None then acc1
        else acc1\<lparr>InMsgsRate := f_add (InMsgsRate acc) (sr_InMsgsRate rr),
                 OutMsgsRate := f_add (OutMsgsRate acc) (sr_OutMsgsRate rr),
                 InBytesRate := f_add (InBytesRate acc) (sr_InBytesRate rr),
                 OutBytesRate := f_add (OutBytesRate acc) (sr_OutBytesRate rr)\<rparr>)"

definition add_js :: "string \<times> js_info \<Rightarrow> overview \<Rightarrow> overview" where
  "add_js ij acc = (let js = snd ij in
    acc\<lparr>JSStreams := wrap64 (JSStreams acc + js_Streams js),
        JSConsumers := wrap64 (JSConsumers acc + js_Consumers js),
        JSMessages := JSMessages acc + js_Messages js, JSBytes := JSBytes acc + js_Bytes js\<rparr>)"

definition empty_overview :: overview where
  "empty_overview = \<lparr>ServerCount = 0, HealthyCount = 0, ConnectionCount = 0, InMsgsRate = Fin 0,
     OutMsgsRate = Fin 0, InBytesRate = Fin 0, OutBytesRate = Fin 0, Subscriptions = 0,
     JSStreams = 0, JSConsumers = 0, JSMessages = 0, JSBytes = 0, Servers = []\<rparr>"

definition buildOverview :: "snapshot \<Rightarrow> overview" where
  "buildOverview s =
    (let o1 = fold (add_server s) (Varz s) empty_overview;
         o2 = fold add_js (JSInfo s) o1
     in o2\<lparr>Servers := sort_key ss_Name (Servers o2)\<rparr>)"

section \<open>Correctness\<close>

lemma computeRates_mem:
  assumes "(i, r) \<in> set (computeRates (Some p) cur)"
  shows "\<exists>cv pv. (i, cv) \<in> set (Varz cur) \<and> map_of (Varz p) i = Some pv
    \<and> \<not> f_le (Seconds (v_Now cv - v_Now pv)) (Fin 0) \<and> r = server_rates_of cv pv (Seconds (v_Now cv - v_Now pv))"
proof -
  obtain y where y: "y \<in> set (Varz cur)" "(i, r) \<in> set (case y of (i, cv) \<Rightarrow> (case map_of (Varz p) i of
          None \<Rightarrow> []
        | Some pv \<Rightarrow>
            (let dt = Seconds (v_Now cv - v_Now pv)
             in if f_le dt (Fin 0) then [] else [(i, server_rates_of cv pv dt)])))"
    using assms by (simp only: computeRates_def option.case set_concat set_map) blast
  obtain j cv where "y = (j, cv)" by (cases y)
  with y obtain pv where "map_of (Varz p) j = Some pv"
    by (cases "map_of (Varz p) j") auto
  with y \<open>y = (j, cv)\<close> show ?thesis
    by (intro exI[of _ cv] exI[of _ pv]) (auto simp: Let_def split: if_splits)
qed

definition varz_in_range :: "varz \<Rightarrow> bool" where
  "varz_in_range v \<longleftrightarrow> (\<forall>x\<in>{v_InMsgs v, v_OutMsgs v, v_InBytes v, v_OutBytes v}. 0 \<le> x \<and> x \<le> max_int64)
    \<and> 0 \<le> v_Now v \<and> v_Now v \<le> max_int64"

definition rates_ok :: "server_rates \<Rightarrow> bool" where
  "rates_ok r \<longleftrightarrow> (\<forall>x\<in>{sr_InMsgsRate r, sr_OutMsgsRate r, sr_InBytesRate r, sr_OutBytesRate r}.
     f_nonneg x \<and> f_finite x)"

text \<open>
  C24. Every rate of a snapshot is a finite number that is not negative, even when a server
  restarted between the polls, and a server has rates only if both polls saw it, with its own
  clock going forward.
\<close>

theorem snapshot_rates_finite_nonneg:
  assumes "\<forall>(i, v)\<in>set (Varz p) \<union> set (Varz cur). varz_in_range v" "(i, r) \<in> set (computeRates (Some p) cur)"
  shows "rates_ok r \<and> i \<in> fst ` set (Varz cur) \<and> i \<in> fst ` set (Varz p)"
proof -
  obtain cv pv where m: "(i, cv) \<in> set (Varz cur)" "map_of (Varz p) i = Some pv"
    "r = server_rates_of cv pv (Seconds (v_Now cv - v_Now pv))"
    using computeRates_mem[OF assms(2)] by blast
  have pv: "(i, pv) \<in> set (Varz p)" using m(2) by (rule map_of_SomeD)
  have rg: "varz_in_range cv" "varz_in_range pv" using assms(1) m(1) pv by auto
  then have "v_Now cv - v_Now pv \<le> max_int64" by (auto simp: varz_in_range_def)
  note R = clamped.rate_between[OF this]
  show ?thesis using rg R m(1) pv
    by (force simp: rates_ok_def m(3) server_rates_of_def varz_in_range_def)
qed

lemma fold_servers:
  "ServerCount (fold (add_server s) vs acc) = ServerCount acc + int (length vs)
    \<and> HealthyCount (fold (add_server s) vs acc) = HealthyCount acc + int (length (filter (\<lambda>(i, v). is_healthy s i) vs))
    \<and> map (\<lambda>x. (ss_ID x, ss_Name x)) (Servers (fold (add_server s) vs acc))
        = map (\<lambda>x. (ss_ID x, ss_Name x)) (Servers acc) @ map (\<lambda>(i, v). (i, v_ServerName v)) vs"
  by (induction vs arbitrary: acc) (auto simp: add_server_def Let_def)

lemma fold_js_same:
  "ServerCount (fold add_js js acc) = ServerCount acc \<and> HealthyCount (fold add_js js acc) = HealthyCount acc
    \<and> Servers (fold add_js js acc) = Servers acc \<and> InMsgsRate (fold add_js js acc) = InMsgsRate acc
    \<and> OutMsgsRate (fold add_js js acc) = OutMsgsRate acc"
  by (induction js arbitrary: acc) (auto simp: add_js_def Let_def)

lemma fold_js_sums:
  "JSMessages (fold add_js js acc) = JSMessages acc + sum_list (map (\<lambda>(i, j). js_Messages j) js)
    \<and> JSBytes (fold add_js js acc) = JSBytes acc + sum_list (map (\<lambda>(i, j). js_Bytes j) js)"
  by (induction js arbitrary: acc) (auto simp: add_js_def Let_def)

lemma fold_servers_js: "JSMessages (fold (add_server s) vs acc) = JSMessages acc
    \<and> JSBytes (fold (add_server s) vs acc) = JSBytes acc"
  by (induction vs arbitrary: acc) (auto simp: add_server_def Let_def)

lemma fold_servers_rate:
  "\<forall>(i, r)\<in>set (Rates s). rates_ok r \<Longrightarrow> f_nonneg (InMsgsRate acc) \<and> f_nonneg (OutMsgsRate acc)
    \<Longrightarrow> f_nonneg (InMsgsRate (fold (add_server s) vs acc)) \<and> f_nonneg (OutMsgsRate (fold (add_server s) vs acc))"
proof (induction vs arbitrary: acc)
  case (Cons v vs)
  obtain k u where v: "v = (k, u)" by (cases v)
  have "f_nonneg (InMsgsRate (add_server s v acc)) \<and> f_nonneg (OutMsgsRate (add_server s v acc))"
  proof (cases "map_of (Rates s) k")
    case None
    then show ?thesis using Cons.prems(2) by (simp add: v add_server_def Let_def)
  next
    case (Some r)
    then have "rates_ok r" using Cons.prems(1) map_of_SomeD[OF Some] by auto
    then show ?thesis using Cons.prems(2) Some
      by (simp add: v add_server_def Let_def rates_ok_def f_add_nonneg)
  qed
  then show ?case using Cons.IH[OF Cons.prems(1)] by simp
qed simp

text \<open>
  The overview counts each server once and those healthy whose health check did not say
  otherwise, lists the servers by name, sums the JetStream figures of all servers, and its
  message rates are not negative.
\<close>

theorem overview_sums_servers:
  assumes "\<forall>(i, r)\<in>set (Rates s). rates_ok r"
  shows "ServerCount (buildOverview s) = int (length (Varz s))
    \<and> HealthyCount (buildOverview s) = int (length (filter (\<lambda>(i, v). is_healthy s i) (Varz s)))
    \<and> sorted (map ss_Name (Servers (buildOverview s)))
    \<and> mset (map (\<lambda>x. (ss_ID x, ss_Name x)) (Servers (buildOverview s))) = mset (map (\<lambda>(i, v). (i, v_ServerName v)) (Varz s))
    \<and> JSMessages (buildOverview s) = sum_list (map (\<lambda>(i, j). js_Messages j) (JSInfo s))
    \<and> JSBytes (buildOverview s) = sum_list (map (\<lambda>(i, j). js_Bytes j) (JSInfo s))
    \<and> f_nonneg (InMsgsRate (buildOverview s)) \<and> f_nonneg (OutMsgsRate (buildOverview s))"
proof -
  let ?o1 = "fold (add_server s) (Varz s) empty_overview"
  have "mset (map (\<lambda>x. (ss_ID x, ss_Name x)) (sort_key ss_Name (Servers ?o1)))
      = mset (map (\<lambda>x. (ss_ID x, ss_Name x)) (Servers ?o1))" by simp
  also have "\<dots> = mset (map (\<lambda>(i, v). (i, v_ServerName v)) (Varz s))"
    using fold_servers[of s "Varz s" empty_overview] by (simp only: empty_overview_def overview.simps append_Nil list.map)
  finally have m: "mset (map (\<lambda>x. (ss_ID x, ss_Name x)) (sort_key ss_Name (Servers ?o1)))
      = mset (map (\<lambda>(i, v). (i, v_ServerName v)) (Varz s))" .
  have js: "ServerCount (fold add_js js acc) = ServerCount acc" "HealthyCount (fold add_js js acc) = HealthyCount acc"
    "Servers (fold add_js js acc) = Servers acc" "InMsgsRate (fold add_js js acc) = InMsgsRate acc"
    "OutMsgsRate (fold add_js js acc) = OutMsgsRate acc"
    "JSMessages (fold add_js js acc) = JSMessages acc + sum_list (map (\<lambda>(i, j). js_Messages j) js)"
    "JSBytes (fold add_js js acc) = JSBytes acc + sum_list (map (\<lambda>(i, j). js_Bytes j) js)" for js acc
    using fold_js_same[of js acc] fold_js_sums[of js acc] by auto
  have e: "ServerCount empty_overview = 0" "HealthyCount empty_overview = 0" "JSMessages empty_overview = 0"
    "JSBytes empty_overview = 0" "InMsgsRate empty_overview = Fin 0" "OutMsgsRate empty_overview = Fin 0"
    by (simp_all add: empty_overview_def)
  show ?thesis
    using fold_servers[of s "Varz s" empty_overview] fold_servers_js[of s "Varz s" empty_overview]
      fold_servers_rate[OF assms, of empty_overview "Varz s"] m
    unfolding buildOverview_def Let_def
    by (simp add: js e sorted_sort_key)
qed

definition varz_example :: "int \<Rightarrow> gotime \<Rightarrow> varz" where
  "varz_example n t = zero_varz\<lparr>v_ServerID := ''A'', v_ServerName := ''edge'', v_Connections := 3, v_InMsgs := n,
     v_Now := t\<rparr>"

lemma snapshot_rates_finite_nonneg_witness:
  "rates_ok (server_rates_of (varz_example 300 31000000000) (varz_example 0 1000000000) (Seconds 30000000000))"
proof -
  let ?p = "empty_snapshot\<lparr>Varz := [(''A'', varz_example 0 1000000000)]\<rparr>"
  let ?c = "empty_snapshot\<lparr>Varz := [(''A'', varz_example 300 31000000000)]\<rparr>"
  have "\<not> f_le (Seconds 30000000000) (Fin 0)"
  proof -
    obtain t where "Seconds 30000000000 = Fin t" "1 / 2 ^ 40 \<le> t"
      using Seconds_pos[of 30000000000] by (auto simp: max_int64_def)
    moreover from this(2) have "0 < t" by (rule less_le_trans[rotated]) simp
    ultimately show ?thesis by simp
  qed
  then have "(''A'', server_rates_of (varz_example 300 31000000000) (varz_example 0 1000000000) (Seconds 30000000000))
      \<in> set (computeRates (Some ?p) ?c)"
    by (simp add: computeRates_def Let_def varz_example_def zero_varz_def)
  from snapshot_rates_finite_nonneg[OF _ this] show ?thesis
    by (simp add: empty_snapshot_def varz_in_range_def varz_example_def zero_varz_def max_int64_def)
qed

lemma overview_sums_servers_witness:
  "ServerCount (buildOverview (empty_snapshot\<lparr>Varz := [(''A'', varz_example 5 9)], Rates := [(''A'', zero_rates)]\<rparr>)) = 1"
  by (subst overview_sums_servers) (simp_all add: rates_ok_def zero_rates_def)

end
