(* ===== verification/Discovery.thy ===== *)
theory Discovery
  imports Snapshot
begin

text \<open>
  Finding MQTT bridges in the connection lists: \<^verbatim>\<open>internal/collector/mqtt_discovery.go\<close>. The probe of a
  bridge's admin API is a parameter \<open>fetch\<close> of the URL and the token, \<open>None\<close> when it reports an
  error; the requests that were made are part of the result.
\<close>

section \<open>Bridge connections\<close>

definition isMQTTBridgeConn :: "string \<Rightarrow> bool" where
  "isMQTTBridgeConn name \<longleftrightarrow> name = ''machmqtt-bridge'' \<or> HasPrefix name ''machmqtt-pool-''"

definition resolveBridgeIP :: "string \<Rightarrow> string \<Rightarrow> snapshot \<Rightarrow> string" where
  "resolveBridgeIP srvID ip s =
    (if ip = ''127.0.0.1'' \<or> ip = ''::1'' then
       (case map_of (ServerURLs s) srvID of
          Some host \<Rightarrow> if host \<noteq> [] then host else
            (case map_of (Varz s) srvID of
               Some v \<Rightarrow> if v_Host v \<noteq> [] \<and> v_Host v \<noteq> ''0.0.0.0'' then v_Host v else ip
             | None \<Rightarrow> ip)
        | None \<Rightarrow>
            (case map_of (Varz s) srvID of
               Some v \<Rightarrow> if v_Host v \<noteq> [] \<and> v_Host v \<noteq> ''0.0.0.0'' then v_Host v else ip
             | None \<Rightarrow> ip))
     else ip)"

record bridge_accum =
  ba_poolConns :: int
  ba_totalSubs :: int
  ba_inMsgs :: int
  ba_outMsgs :: int
  ba_inBytes :: int
  ba_outBytes :: int

definition empty_accum :: bridge_accum where
  "empty_accum = \<lparr>ba_poolConns = 0, ba_totalSubs = 0, ba_inMsgs = 0, ba_outMsgs = 0, ba_inBytes = 0, ba_outBytes = 0\<rparr>"

definition accum_conn :: "conn_info \<Rightarrow> bridge_accum \<Rightarrow> bridge_accum" where
  "accum_conn c g = \<lparr>ba_poolConns = wrap64 (ba_poolConns g + 1),
     ba_totalSubs = wrap64 (ba_totalSubs g + uint (c_NumSubs c)),
     ba_inMsgs = wrap64 (ba_inMsgs g + c_InMsgs c), ba_outMsgs = wrap64 (ba_outMsgs g + c_OutMsgs c),
     ba_inBytes = wrap64 (ba_inBytes g + c_InBytes c), ba_outBytes = wrap64 (ba_outBytes g + c_OutBytes c)\<rparr>"

type_synonym bridge_key = "string \<times> string"

definition bridge_conns :: "snapshot \<Rightarrow> (bridge_key \<times> conn_info) list" where
  "bridge_conns s = concat (map (\<lambda>(srv, cz). map (\<lambda>c. ((srv, resolveBridgeIP srv (c_IP c) s), c))
     (filter (\<lambda>c. isMQTTBridgeConn (c_Name c)) (cz_Conns cz))) (Connz s))"

definition add_to_group :: "bridge_key \<times> conn_info \<Rightarrow> (bridge_key, bridge_accum) gomap \<Rightarrow> (bridge_key, bridge_accum) gomap" where
  "add_to_group kc m = gm_set (fst kc)
     (accum_conn (snd kc) (case map_of m (fst kc) of None \<Rightarrow> empty_accum | Some g \<Rightarrow> g)) m"

definition bridge_groups :: "snapshot \<Rightarrow> (bridge_key, bridge_accum) gomap" where
  "bridge_groups s = fold add_to_group (bridge_conns s) []"

text \<open>The interval and the rate, which the topology computes in the same way.\<close>

definition snapshot_interval :: "snapshot \<Rightarrow> snapshot option \<Rightarrow> f64" where
  "snapshot_interval s prev = (case prev of
      None \<Rightarrow> Fin 0
    | Some p \<Rightarrow> if Timestamp p \<noteq> 0 \<and> Timestamp s \<noteq> 0 then Seconds (Timestamp s - Timestamp p) else Fin 0)"

definition delta_rate :: "f64 \<Rightarrow> int \<Rightarrow> int \<Rightarrow> f64" where
  "delta_rate dt cur prev =
    (if f_le dt (Fin 0) \<or> cur \<le> prev then Fin 0 else f_div (f_of_int (wrap64 (cur - prev))) dt)"

interpretation link: counter_rate delta_rate
proof
  fix dt and prev cur :: int
  show "f_nonneg (delta_rate dt cur prev) \<and> f_finite (delta_rate dt cur prev)"
    if "f_le dt (Fin 0) \<or> good_interval dt" "0 \<le> prev" "cur \<le> max_int64"
    using rate_value_ok[OF _ that(2,3)] that(1) by (auto simp: delta_rate_def not_le)
qed (simp_all add: delta_rate_def)

section \<open>Probing\<close>

record 'st bridge_instance =
  bi_IP :: string
  bi_ServerID :: string
  bi_ServerName :: string
  bi_PoolConns :: int
  bi_TotalSubs :: int
  bi_TotalInMsgs :: int
  bi_TotalOutMsgs :: int
  bi_TotalInBytes :: int
  bi_TotalOutBytes :: int
  bi_InMsgsRate :: f64
  bi_OutMsgsRate :: f64
  bi_InBytesRate :: f64
  bi_OutBytesRate :: f64
  bi_ConfiguredName :: string
  bi_AdminURL :: string
  bi_Status :: "'st option"
  bi_Reachable :: bool
  bi_LastSeen :: gotime

definition discoveryHostTrusted :: "string \<Rightarrow> string list \<Rightarrow> bool" where
  "discoveryHostTrusted host trusted \<longleftrightarrow>
    (case ParseIP host of Some ip \<Rightarrow> IsLoopback ip | None \<Rightarrow> False)
    \<or> ToLower host = ''localhost'' \<or> ToLower host \<in> set trusted"

definition probe_url :: "string \<Rightarrow> int \<Rightarrow> string" where
  "probe_url host port =
    (let h = (if ParseIP host \<noteq> None \<and> Contains host '':'' then ''['' @ host @ '']'' else host)
     in ''http://'' @ h @ '':'' @ itoa port)"

fun probe_ports :: "(string \<Rightarrow> string \<Rightarrow> 'st option) \<Rightarrow> string \<Rightarrow> int list \<Rightarrow> 'st bridge_instance
    \<Rightarrow> 'st bridge_instance \<times> (string \<times> string \<times> string) list" where
  "probe_ports fetch token [] inst = (inst, [])"
| "probe_ports fetch token (port # ports) inst =
    (let url = probe_url (bi_IP inst) port
     in case fetch url token of
          Some st \<Rightarrow> (inst\<lparr>bi_AdminURL := url, bi_Status := Some st, bi_Reachable := True\<rparr>,
                     [(bi_IP inst, url, token)])
        | None \<Rightarrow> (let (i, reqs) = probe_ports fetch token ports inst in (i, (bi_IP inst, url, token) # reqs)))"

definition server_name :: "snapshot \<Rightarrow> string \<Rightarrow> string" where
  "server_name s i = (case map_of (Varz s) i of
      Some v \<Rightarrow> if v_ServerName v \<noteq> [] then v_ServerName v else i
    | None \<Rightarrow> i)"

definition group_instance :: "snapshot \<Rightarrow> snapshot option \<Rightarrow> bridge_key \<times> bridge_accum \<Rightarrow> 'st bridge_instance" where
  "group_instance s prev kg =
    (let (k, g) = kg;
         dt = snapshot_interval s prev;
         pg = (case prev of None \<Rightarrow> None | Some p \<Rightarrow> map_of (bridge_groups p) k);
         pv = (case pg of None \<Rightarrow> empty_accum | Some x \<Rightarrow> x)
     in \<lparr>bi_IP = snd k, bi_ServerID = fst k, bi_ServerName = server_name s (fst k),
         bi_PoolConns = ba_poolConns g, bi_TotalSubs = ba_totalSubs g,
         bi_TotalInMsgs = ba_inMsgs g, bi_TotalOutMsgs = ba_outMsgs g,
         bi_TotalInBytes = ba_inBytes g, bi_TotalOutBytes = ba_outBytes g,
         bi_InMsgsRate = delta_rate dt (ba_inMsgs g) (ba_inMsgs pv),
         bi_OutMsgsRate = delta_rate dt (ba_outMsgs g) (ba_outMsgs pv),
         bi_InBytesRate = delta_rate dt (ba_inBytes g) (ba_inBytes pv),
         bi_OutBytesRate = delta_rate dt (ba_outBytes g) (ba_outBytes pv),
         bi_ConfiguredName = [], bi_AdminURL = [], bi_Status = None, bi_Reachable = False,
         bi_LastSeen = Timestamp s\<rparr>)"

text \<open>\<open>cancelled\<close> says which probes the context ended before they began: those yield nothing.\<close>

definition DiscoverMQTTBridges :: "(string \<Rightarrow> string \<Rightarrow> 'st option) \<Rightarrow> (bridge_key \<Rightarrow> bool) \<Rightarrow> snapshot option
    \<Rightarrow> snapshot option \<Rightarrow> int list \<Rightarrow> string \<Rightarrow> string list
    \<Rightarrow> 'st bridge_instance list \<times> (string \<times> string \<times> string) list" where
  "DiscoverMQTTBridges fetch cancelled snap prev ports adminToken trusted = (case snap of
      None \<Rightarrow> ([], [])
    | Some s \<Rightarrow>
        let ports = (if ports = [] then [8080] else ports);
            results = map (\<lambda>kg.
              let inst = group_instance s prev kg;
                  token = (if adminToken \<noteq> [] \<and> \<not> discoveryHostTrusted (bi_IP inst) trusted then [] else adminToken)
              in probe_ports fetch token ports inst)
              (filter (\<lambda>kg. \<not> cancelled (fst kg)) (bridge_groups s))
        in (map fst results, concat (map snd results)))"

section \<open>The admin token stays with trusted hosts\<close>

lemma group_instance_IP: "bi_IP (group_instance s prev kg) = snd (fst kg)"
  by (simp add: group_instance_def Let_def split: prod.split)

lemma probe_ports_requests:
  "(h, u, t) \<in> set (snd (probe_ports fetch token ports inst)) \<Longrightarrow> h = bi_IP inst \<and> t = token
    \<and> (\<exists>p\<in>set ports. u = probe_url (bi_IP inst) p)"
  by (induction fetch token ports inst rule: probe_ports.induct)
    (auto simp: Let_def split: option.splits prod.splits)

text \<open>
  The environment's admin token is sent to no discovered address but a loopback or a configured
  host, whatever names and addresses a NATS client presents: every other probe is made without it.
\<close>

theorem admin_token_only_to_trusted_hosts:
  assumes "(host, url, token) \<in> set (snd (DiscoverMQTTBridges fetch cancelled snap prev ports adminToken trusted))"
    "token \<noteq> []"
  shows "token = adminToken \<and> discoveryHostTrusted host trusted \<and> (\<exists>p. url = probe_url host p)"
  using assms by (auto simp: DiscoverMQTTBridges_def Let_def split: option.splits if_splits
      dest!: probe_ports_requests)

definition conn_example :: "string \<Rightarrow> conn_info" where
  "conn_example ip = zero_conn_info\<lparr>c_ServerID := ''A'', c_Cid := 1, c_IP := ip, c_InMsgs := 5, c_NumSubs := 2,
     c_Name := ''machmqtt-bridge''\<rparr>"

definition bridge_snapshot_example :: snapshot where
  "bridge_snapshot_example = empty_snapshot\<lparr>Timestamp := 7, Connz := [(''A'', \<lparr>cz_ServerID = ''A'', cz_NumConns = 2,
     cz_Total = 2, cz_Offset = 0, cz_Limit = 9, cz_Conns = [conn_example ''10.0.0.9'', conn_example ''127.0.0.1'']\<rparr>)]\<rparr>"

lemma admin_token_only_to_trusted_hosts_witness:
  "discoveryHostTrusted ''127.0.0.1'' []"
proof -
  have t: "discoveryHostTrusted ''127.0.0.1'' []" by code_simp
  have "(''127.0.0.1'', probe_url ''127.0.0.1'' 8080, ''s3cret'') \<in> set (snd (DiscoverMQTTBridges (\<lambda>u t. Some ())
      (\<lambda>_. False) (Some bridge_snapshot_example) None [] ''s3cret'' []))"
    by (simp add: DiscoverMQTTBridges_def Let_def bridge_groups_def bridge_conns_def bridge_snapshot_example_def
        add_to_group_def gm_set_def conn_example_def isMQTTBridgeConn_def resolveBridgeIP_def
        empty_snapshot_def t group_instance_IP)
  from admin_token_only_to_trusted_hosts[OF this] show ?thesis by simp
qed

section \<open>Grouping loses nothing\<close>

lemma add_to_group_ok: "gm_ok m \<Longrightarrow> gm_ok (add_to_group kc m)"
  by (simp add: add_to_group_def)

lemma bridge_groups_get:
  "map_of (fold add_to_group cs m) k =
    (let mine = map snd (filter (\<lambda>kc. fst kc = k) cs)
     in if mine = [] then map_of m k
        else Some (fold accum_conn mine (case map_of m k of None \<Rightarrow> empty_accum | Some g \<Rightarrow> g)))"
  by (induction cs arbitrary: m) (auto simp: Let_def add_to_group_def split: option.splits)

lemma bridge_groups_ok: "gm_ok m \<Longrightarrow> gm_ok (fold add_to_group cs m)"
  by (induction cs arbitrary: m) (auto simp: add_to_group_ok)

lemma accum_in: "ba_inMsgs (fold accum_conn cs g) = (if cs = [] then ba_inMsgs g
    else wrap64 (ba_inMsgs g + sum_list (map c_InMsgs cs)))"
proof (induction cs arbitrary: g)
  case (Cons c cs)
  have "wrap64 (wrap64 a + b) = wrap64 (a + b)" for a b
    by (simp add: wrap64_sint wi_hom_add[symmetric])
  then show ?case using Cons by (auto simp: accum_conn_def add.assoc)
qed simp

lemma accum_conns: "length cs < 2 ^ 62 \<Longrightarrow> ba_poolConns g + int (length cs) \<le> 2 ^ 62 \<Longrightarrow> 0 \<le> ba_poolConns g
    \<Longrightarrow> ba_poolConns (fold accum_conn cs g) = ba_poolConns g + int (length cs)"
proof (induction cs arbitrary: g)
  case (Cons c cs)
  have "ba_poolConns (accum_conn c g) = ba_poolConns g + 1"
    using Cons.prems by (simp add: accum_conn_def wrap64_id min_int64_def max_int64_def)
  then show ?case using Cons by simp
qed simp

lemma probe_ports_fields:
  "bi_ServerID (fst (probe_ports fetch t ports inst)) = bi_ServerID inst"
  "bi_IP (fst (probe_ports fetch t ports inst)) = bi_IP inst"
  "bi_PoolConns (fst (probe_ports fetch t ports inst)) = bi_PoolConns inst"
  "bi_TotalInMsgs (fst (probe_ports fetch t ports inst)) = bi_TotalInMsgs inst"
  by (induction fetch t ports inst rule: probe_ports.induct) (auto simp: Let_def split: option.split prod.split)

lemma group_instance_fields:
  "bi_ServerID (group_instance s prev kg) = fst (fst kg)" "bi_IP (group_instance s prev kg) = snd (fst kg)"
  "bi_PoolConns (group_instance s prev kg) = ba_poolConns (snd kg)"
  "bi_TotalInMsgs (group_instance s prev kg) = ba_inMsgs (snd kg)"
  by (simp_all add: group_instance_def Let_def split: prod.split)

lemma keys_of_groups: "fst ` set (bridge_groups s) = fst ` set (bridge_conns s)"
proof -
  have "k \<in> dom (map_of (bridge_groups s)) \<longleftrightarrow> k \<in> fst ` set (bridge_conns s)" for k
    by (auto simp: bridge_groups_def bridge_groups_get Let_def dom_def filter_empty_conv image_iff split: if_splits)
  then show ?thesis by (intro set_eqI) (simp only: dom_map_of_conv_image_fst)
qed

text \<open>
  Discovery makes one instance per server and address and no more, and each instance carries the
  totals of exactly the bridge connections of its server that resolve to its address.
\<close>

theorem discovered_bridges_partition_connections:
  assumes "length (bridge_conns s) < 2 ^ 62"
    "DiscoverMQTTBridges fetch (\<lambda>_. False) (Some s) prev ports tok trusted = (insts, reqs)"
  shows "distinct (map (\<lambda>b. (bi_ServerID b, bi_IP b)) insts)
    \<and> set (map (\<lambda>b. (bi_ServerID b, bi_IP b)) insts) = fst ` set (bridge_conns s)
    \<and> (\<forall>b\<in>set insts. let mine = map snd (filter (\<lambda>kc. fst kc = (bi_ServerID b, bi_IP b)) (bridge_conns s))
          in bi_PoolConns b = int (length mine) \<and> bi_TotalInMsgs b = wrap64 (sum_list (map c_InMsgs mine)))"
proof -
  obtain g where insts: "insts = map g (bridge_groups s)"
    and g: "\<And>kg. bi_ServerID (g kg) = fst (fst kg)" "\<And>kg. bi_IP (g kg) = snd (fst kg)"
      "\<And>kg. bi_PoolConns (g kg) = ba_poolConns (snd kg)" "\<And>kg. bi_TotalInMsgs (g kg) = ba_inMsgs (snd kg)"
  proof -
    show thesis using assms(2)
      by (intro that[of "\<lambda>kg. fst (probe_ports fetch (if tok \<noteq> [] \<and> \<not> discoveryHostTrusted (bi_IP (group_instance s prev kg)) trusted then [] else tok)
          (if ports = [] then [8080] else ports) (group_instance s prev kg))"])
        (auto simp: DiscoverMQTTBridges_def Let_def probe_ports_fields group_instance_fields)
  qed
  have keys: "map (\<lambda>b. (bi_ServerID b, bi_IP b)) insts = map fst (bridge_groups s)"
    by (simp add: insts g comp_def)
  have ok: "gm_ok (bridge_groups s)" by (simp add: bridge_groups_def bridge_groups_ok)
  have "bi_PoolConns b = int (length mine) \<and> bi_TotalInMsgs b = wrap64 (sum_list (map c_InMsgs mine))"
    if b: "b \<in> set insts" and mine: "mine = map snd (filter (\<lambda>kc. fst kc = (bi_ServerID b, bi_IP b)) (bridge_conns s))"
    for b mine
  proof -
    obtain k a where ka: "(k, a) \<in> set (bridge_groups s)" "b = g (k, a)" using b by (auto simp: insts)
    then have k: "(bi_ServerID b, bi_IP b) = k" by (simp add: g)
    have "map_of (bridge_groups s) k = Some a" using gm_mem_get[OF ok] ka(1) by simp
    then have a: "mine \<noteq> []" "a = fold accum_conn mine empty_accum"
      by (auto simp: bridge_groups_def bridge_groups_get Let_def mine k split: if_splits)
    have "length mine \<le> length (bridge_conns s)" by (simp add: mine)
    then have "ba_poolConns a = int (length mine)"
      using accum_conns[of mine empty_accum] assms(1) by (simp add: a(2) empty_accum_def)
    then show ?thesis using ka(2) g a accum_in[of mine empty_accum] by (simp add: empty_accum_def)
  qed
  then show ?thesis using ok keys keys_of_groups[of s] by (simp add: gm_ok_def Let_def)
qed

lemma discovered_bridges_partition_connections_witness:
  "set (map (\<lambda>b. (bi_ServerID b, bi_IP b)) (fst (DiscoverMQTTBridges (\<lambda>u t. Some ()) (\<lambda>_. False)
      (Some bridge_snapshot_example) None [] [] []))) = {(''A'', ''10.0.0.9''), (''A'', ''127.0.0.1'')}"
proof -
  have c: "bridge_conns bridge_snapshot_example = [((''A'', ''10.0.0.9''), conn_example ''10.0.0.9''),
      ((''A'', ''127.0.0.1''), conn_example ''127.0.0.1'')]"
    by (simp add: bridge_conns_def bridge_snapshot_example_def conn_example_def isMQTTBridgeConn_def
        resolveBridgeIP_def empty_snapshot_def)
  show ?thesis
    using discovered_bridges_partition_connections[of bridge_snapshot_example "\<lambda>u t. Some ()" None "[]" "[]" "[]",
      OF _ prod.collapse[symmetric]] by (simp add: c)
qed

end
