(* ===== verification/Topology.thy ===== *)
theory Topology
  imports Discovery
begin

text \<open>
  The topology graph of \<^verbatim>\<open>internal/collector/topology.go\<close>, built by the code's loops over a snapshot:
  servers, routes, gateways, leaf nodes and MQTT bridges.
\<close>

section \<open>Graph\<close>

record node =
  n_ID :: string
  n_Name :: string
  n_Type :: string
  n_Connections :: int
  n_Healthy :: bool
  n_InMsgsRate :: f64
  n_OutMsgsRate :: f64
  n_Cluster :: string

record link =
  l_Source :: string
  l_Target :: string
  l_Type :: string
  l_InMsgsRate :: f64
  l_OutMsgsRate :: f64

record graph =
  Nodes :: "node list"
  Links :: "link list"
  seenNodes :: "string list"
  seenLinks :: "string list"

definition routeLinkKey :: "string \<Rightarrow> string \<Rightarrow> string" where
  "routeLinkKey a b = (if a < b then a @ ''<->'' @ b else b @ ''<->'' @ a)"

definition nameToID :: "snapshot \<Rightarrow> (string, string) gomap" where
  "nameToID s = fold (\<lambda>(i, v) m. if v_ServerName v \<noteq> [] then gm_set (v_ServerName v) i m else m) (Varz s) []"

definition server_node :: "snapshot \<Rightarrow> string \<times> varz \<Rightarrow> node" where
  "server_node s iv =
    (let (i, v) = iv; rr = (case map_of (Rates s) i of None \<Rightarrow> zero_rates | Some r \<Rightarrow> r)
     in \<lparr>n_ID = i, n_Name = v_ServerName v, n_Type = ''server'', n_Connections = v_Connections v,
         n_Healthy = is_healthy s i, n_InMsgsRate = sr_InMsgsRate rr, n_OutMsgsRate = sr_OutMsgsRate rr,
         n_Cluster = co_Name (v_Cluster v)\<rparr>)"

definition add_server_node :: "snapshot \<Rightarrow> string \<times> varz \<Rightarrow> graph \<Rightarrow> graph" where
  "add_server_node s iv g = g\<lparr>Nodes := Nodes g @ [server_node s iv], seenNodes := fst iv # seenNodes g\<rparr>"

definition put_node :: "node \<Rightarrow> graph \<Rightarrow> graph" where
  "put_node n g = (if n_ID n \<in> set (seenNodes g) then g
     else g\<lparr>seenNodes := n_ID n # seenNodes g, Nodes := Nodes g @ [n]\<rparr>)"

definition addNode :: "string \<Rightarrow> string \<Rightarrow> string \<Rightarrow> graph \<Rightarrow> graph" where
  "addNode i name typ g = put_node \<lparr>n_ID = i, n_Name = name, n_Type = typ, n_Connections = 0,
     n_Healthy = True, n_InMsgsRate = Fin 0, n_OutMsgsRate = Fin 0, n_Cluster = []\<rparr> g"

definition put_link :: "string \<Rightarrow> link \<Rightarrow> graph \<Rightarrow> graph" where
  "put_link key l g = (if key \<in> set (seenLinks g) then g
     else g\<lparr>seenLinks := key # seenLinks g, Links := Links g @ [l]\<rparr>)"

section \<open>Previous counters\<close>

definition prevRouteMsg :: "snapshot option \<Rightarrow> string \<Rightarrow> string \<Rightarrow> int \<times> int" where
  "prevRouteMsg prev serverID remoteID = (case prev of
      None \<Rightarrow> (0, 0)
    | Some p \<Rightarrow> (case map_of (Routez p) serverID of
        None \<Rightarrow> (0, 0)
      | Some r \<Rightarrow> (case find (\<lambda>x. ri_RemoteID x = remoteID) (rz_Routes r) of
          None \<Rightarrow> (0, 0)
        | Some x \<Rightarrow> (ri_InMsgs x, ri_OutMsgs x))))"

definition leaf_name :: "leaf_info \<Rightarrow> string" where
  "leaf_name l = (if li_Name l = [] then li_IP l else li_Name l)"

definition prevLeafMsg :: "snapshot option \<Rightarrow> string \<Rightarrow> string \<Rightarrow> int \<times> int" where
  "prevLeafMsg prev serverID name = (case prev of
      None \<Rightarrow> (0, 0)
    | Some p \<Rightarrow> (case map_of (Leafz p) serverID of
        None \<Rightarrow> (0, 0)
      | Some lz \<Rightarrow> (case find (\<lambda>l. leaf_name l = name) (lz_Leafs lz) of
          None \<Rightarrow> (0, 0)
        | Some l \<Rightarrow> (li_InMsgs l, li_OutMsgs l))))"

text \<open>The interval, clamped at zero.\<close>

definition topology_interval :: "snapshot \<Rightarrow> snapshot option \<Rightarrow> f64" where
  "topology_interval s prev =
    (let dt = snapshot_interval s prev in if f_le dt (Fin 0) then Fin 0 else dt)"

section \<open>The loops\<close>

definition route_edge :: "snapshot \<Rightarrow> snapshot option \<Rightarrow> string \<Rightarrow> route_info \<Rightarrow> graph \<Rightarrow> graph" where
  "route_edge s prev src r g =
    (let g1 = addNode (ri_RemoteID r) (ri_RemoteName r) ''server'' g;
         (pin, pout) = prevRouteMsg prev src (ri_RemoteID r);
         dt = topology_interval s prev
     in put_link (routeLinkKey src (ri_RemoteID r))
          \<lparr>l_Source = src, l_Target = ri_RemoteID r, l_Type = ''route'',
           l_InMsgsRate = delta_rate dt (ri_InMsgs r) pin,
           l_OutMsgsRate = delta_rate dt (ri_OutMsgs r) pout\<rparr> g1)"

definition gateway_edge :: "string \<Rightarrow> string \<Rightarrow> graph \<Rightarrow> graph" where
  "gateway_edge src gwName g =
    (let target = ''gw:'' @ gwName
     in put_link (src @ ''->'' @ target)
          \<lparr>l_Source = src, l_Target = target, l_Type = ''gateway'', l_InMsgsRate = Fin 0, l_OutMsgsRate = Fin 0\<rparr>
          (addNode target gwName ''gateway'' g))"

definition leaf_edge :: "snapshot \<Rightarrow> snapshot option \<Rightarrow> string \<Rightarrow> leaf_info \<Rightarrow> graph \<Rightarrow> graph" where
  "leaf_edge s prev src l g =
    (let name = leaf_name l;
         (target, g1) = (case map_of (nameToID s) name of
             Some i \<Rightarrow> (i, g)
           | None \<Rightarrow> (''leaf:'' @ name, addNode (''leaf:'' @ name) name ''leaf'' g));
         (pin, pout) = prevLeafMsg prev src name;
         dt = topology_interval s prev
     in put_link (routeLinkKey src target)
          \<lparr>l_Source = src, l_Target = target, l_Type = ''leaf'',
           l_InMsgsRate = delta_rate dt (li_InMsgs l) pin,
           l_OutMsgsRate = delta_rate dt (li_OutMsgs l) pout\<rparr> g1)"

text \<open>The bridge groups are those of discovery; here a previous group counts only for a current one.\<close>

definition bridge_edge :: "snapshot \<Rightarrow> snapshot option \<Rightarrow> bridge_key \<times> bridge_accum \<Rightarrow> graph \<Rightarrow> graph" where
  "bridge_edge s prev kb g =
    (let (k, b) = kb;
         pv = (case prev of None \<Rightarrow> empty_accum | Some p \<Rightarrow>
                (case map_of (bridge_groups p) k of None \<Rightarrow> empty_accum | Some x \<Rightarrow> x));
         nodeID = ''mqtt:'' @ fst k @ '':'' @ snd k;
         name = (case map_of (Varz s) (fst k) of
                   Some v \<Rightarrow> if v_ServerName v \<noteq> [] then ''mqtt@'' @ v_ServerName v else ''mqtt@'' @ snd k
                 | None \<Rightarrow> ''mqtt@'' @ snd k);
         dt = topology_interval s prev;
         inr = delta_rate dt (ba_inMsgs b) (ba_inMsgs pv);
         outr = delta_rate dt (ba_outMsgs b) (ba_outMsgs pv)
     in put_link (routeLinkKey (fst k) nodeID)
          \<lparr>l_Source = fst k, l_Target = nodeID, l_Type = ''mqtt'', l_InMsgsRate = inr, l_OutMsgsRate = outr\<rparr>
          (put_node \<lparr>n_ID = nodeID, n_Name = name, n_Type = ''mqtt'', n_Connections = ba_poolConns b,
             n_Healthy = True, n_InMsgsRate = inr, n_OutMsgsRate = outr, n_Cluster = []\<rparr> g))"

definition buildTopology :: "snapshot \<Rightarrow> snapshot option \<Rightarrow> graph" where
  "buildTopology s prev =
    (let g0 = \<lparr>Nodes = [], Links = [], seenNodes = [], seenLinks = []\<rparr>;
         g1 = fold (add_server_node s) (Varz s) g0;
         g2 = fold (\<lambda>(src, r) g. fold (route_edge s prev src) (rz_Routes r) g) (Routez s) g1;
         g3 = fold (\<lambda>(src, gw) g. fold (gateway_edge src) (map fst (gw_OutboundGateways gw)) g) (Gatewayz s) g2;
         g4 = fold (\<lambda>(src, lz) g. fold (leaf_edge s prev src) (lz_Leafs lz) g) (Leafz s) g3
     in fold (bridge_edge s prev) (bridge_groups s) g4)"

section \<open>The graph is well formed\<close>

definition link_key :: "link \<Rightarrow> string" where
  "link_key l = (if l_Type l = ''gateway'' then l_Source l @ ''->'' @ l_Target l
     else routeLinkKey (l_Source l) (l_Target l))"

definition graph_inv :: "string set \<Rightarrow> graph \<Rightarrow> bool" where
  "graph_inv ids g \<longleftrightarrow> set (seenNodes g) = n_ID ` set (Nodes g) \<and> distinct (map n_ID (Nodes g))
    \<and> ids \<subseteq> n_ID ` set (Nodes g)
    \<and> (\<forall>l\<in>set (Links g). l_Source l \<in> n_ID ` set (Nodes g) \<and> l_Target l \<in> n_ID ` set (Nodes g))
    \<and> distinct (map link_key (Links g)) \<and> set (seenLinks g) = link_key ` set (Links g)"

lemma put_node_inv [wf_intros]: "graph_inv ids g \<Longrightarrow> graph_inv ids (put_node n g)"
  by (auto simp: graph_inv_def put_node_def)

lemma put_node_mem: "graph_inv ids g \<Longrightarrow> n_ID n \<in> n_ID ` set (Nodes (put_node n g))"
  by (auto simp: graph_inv_def put_node_def)

lemma put_link_inv:
  "graph_inv ids g \<Longrightarrow> l_Source l \<in> n_ID ` set (Nodes g) \<Longrightarrow> l_Target l \<in> n_ID ` set (Nodes g)
    \<Longrightarrow> k = link_key l \<Longrightarrow> graph_inv ids (put_link k l g)"
  by (auto simp: graph_inv_def put_link_def)

lemma addNode_inv [wf_intros]: "graph_inv ids g \<Longrightarrow> graph_inv ids (addNode i nm t g)"
  by (simp add: addNode_def put_node_inv)

lemma addNode_mem: "graph_inv ids g \<Longrightarrow> i \<in> n_ID ` set (Nodes (addNode i nm t g))"
  using put_node_mem[of ids g "\<lparr>n_ID = i, n_Name = nm, n_Type = t, n_Connections = 0,
     n_Healthy = True, n_InMsgsRate = Fin 0, n_OutMsgsRate = Fin 0, n_Cluster = []\<rparr>"]
  by (simp add: addNode_def)

lemma graph_ids: "graph_inv ids g \<Longrightarrow> i \<in> ids \<Longrightarrow> i \<in> n_ID ` set (Nodes g)"
  by (auto simp: graph_inv_def)

lemma route_edge_inv [wf_intros]:
  assumes "graph_inv ids g" "src \<in> ids"
  shows "graph_inv ids (route_edge s prev src r g)"
proof -
  have g1: "graph_inv ids (addNode (ri_RemoteID r) (ri_RemoteName r) ''server'' g)"
    using assms(1) by (rule addNode_inv)
  show ?thesis unfolding route_edge_def Let_def
    by (simp only: split: prod.split)
      (intro allI impI put_link_inv[OF g1], simp_all add: graph_ids[OF g1 assms(2)] addNode_mem[OF assms(1)] link_key_def)
qed

lemma gateway_edge_inv [wf_intros]:
  assumes "graph_inv ids g" "src \<in> ids"
  shows "graph_inv ids (gateway_edge src gw g)"
proof -
  have g1: "graph_inv ids (addNode (''gw:'' @ gw) gw ''gateway'' g)" using assms(1) by (rule addNode_inv)
  show ?thesis unfolding gateway_edge_def Let_def
    using graph_ids[OF g1 assms(2)] addNode_mem[OF assms(1), of "''gw:'' @ gw" gw "''gateway''"]
    by (intro put_link_inv[OF g1]) (simp_all add: link_key_def)
qed

lemma nameToID_ids: "map_of (nameToID s) nm = Some i \<Longrightarrow> i \<in> fst ` set (Varz s)"
proof -
  have "map_of (fold (\<lambda>(i, v) m. if v_ServerName v \<noteq> [] then gm_set (v_ServerName v) i m else m) vs m) nm = Some i
    \<Longrightarrow> i \<in> fst ` set vs \<or> map_of m nm = Some i" for vs m
    by (induction vs arbitrary: m) (force split: if_splits prod.splits)+
  then show "map_of (nameToID s) nm = Some i \<Longrightarrow> i \<in> fst ` set (Varz s)"
    by (fastforce simp: nameToID_def)
qed

lemma leaf_edge_inv [wf_intros]:
  assumes "graph_inv ids g" "src \<in> ids" "fst ` set (Varz s) \<subseteq> ids"
  shows "graph_inv ids (leaf_edge s prev src l g)"
proof -
  obtain target g1 where t: "(case map_of (nameToID s) (leaf_name l) of
             Some i \<Rightarrow> (i, g)
           | None \<Rightarrow> (''leaf:'' @ leaf_name l, addNode (''leaf:'' @ leaf_name l) (leaf_name l) ''leaf'' g)) = (target, g1)"
    by (cases "case map_of (nameToID s) (leaf_name l) of
             Some i \<Rightarrow> (i, g)
           | None \<Rightarrow> (''leaf:'' @ leaf_name l, addNode (''leaf:'' @ leaf_name l) (leaf_name l) ''leaf'' g)") simp
  have g1: "graph_inv ids g1 \<and> target \<in> n_ID ` set (Nodes g1)"
  proof (cases "map_of (nameToID s) (leaf_name l)")
    case None
    then show ?thesis using t addNode_inv[OF assms(1)] addNode_mem[OF assms(1)] by (auto simp del: image_iff)
  next
    case (Some i)
    then show ?thesis using t nameToID_ids[OF Some] assms graph_ids[OF assms(1), of i] by auto
  qed
  have src: "src \<in> n_ID ` set (Nodes g1)" using g1 assms(2) graph_ids by blast
  show ?thesis unfolding leaf_edge_def Let_def t
    by (simp only: prod.case split: prod.split)
      (intro allI impI put_link_inv, use g1 src in \<open>simp_all add: link_key_def\<close>)
qed

lemma put_node_mem': "graph_inv ids g \<Longrightarrow> n_ID n = i \<Longrightarrow> i \<in> n_ID ` set (Nodes (put_node n g))"
  using put_node_mem by blast

lemma bridge_edge_inv [wf_intros]:
  assumes "graph_inv ids g" "fst (fst kb) \<in> ids"
  shows "graph_inv ids (bridge_edge s prev kb g)"
proof -
  obtain k b where kb: "kb = (k, b)" by (cases kb)
  show ?thesis using assms(2) unfolding bridge_edge_def Let_def kb prod.case
    by (intro put_link_inv put_node_inv[OF assms(1)])
      (simp_all only: link.select_convs link_key_def fst_conv graph_ids[OF put_node_inv[OF assms(1)]]
        put_node_mem'[OF assms(1)] node.select_convs, simp)
qed

lemma in_set_fst: "(i, x) \<in> set xs \<Longrightarrow> i \<in> fst ` set xs"
  by (rule image_eqI[of _ fst "(i, x)"]) simp_all

lemma edges_inv:
  assumes "graph_inv ids g" "\<And>src z. (src, z) \<in> set zs \<Longrightarrow> src \<in> ids"
    "\<And>src r g. graph_inv ids g \<Longrightarrow> src \<in> ids \<Longrightarrow> graph_inv ids (E src r g)"
  shows "graph_inv ids (fold (\<lambda>(src, z) g. fold (E src) (items z) g) zs g)"
proof (rule fold_invariant_from[where P = "graph_inv ids"])
  show "graph_inv ids ((case x of (src, z) \<Rightarrow> fold (E src) (items z)) h)"
    if x: "x \<in> set zs" and h: "graph_inv ids h" for x h
  proof -
    obtain src z where "x = (src, z)" by (cases x)
    then have "src \<in> ids" using assms(2) x by simp
    then have "graph_inv ids (fold (E src) (items z) h)"
      by (intro fold_invariant_from[where P = "graph_inv ids"] h assms(3))
    then show ?thesis by (simp add: \<open>x = (src, z)\<close>)
  qed
qed (rule assms(1))

lemma servers_inv:
  assumes "distinct (map fst vs)" "graph_inv {} g" "seenNodes g = rev pre" "distinct pre" "set pre \<inter> fst ` set vs = {}"
  shows "graph_inv (set pre \<union> fst ` set vs) (fold (add_server_node s) vs g)"
  using assms
proof (induction vs arbitrary: g pre)
  case Nil
  then show ?case by (simp add: graph_inv_def)
next
  case (Cons v vs)
  have "graph_inv {} (add_server_node s v g)"
    using Cons.prems by (auto simp: graph_inv_def add_server_node_def server_node_def Let_def split: prod.splits)
  moreover have "seenNodes (add_server_node s v g) = rev (pre @ [fst v])"
    using Cons.prems by (simp add: add_server_node_def)
  ultimately have "graph_inv (set (pre @ [fst v]) \<union> fst ` set vs) (fold (add_server_node s) vs (add_server_node s v g))"
    using Cons.prems by (intro Cons.IH) auto
  then show ?case by (simp add: insert_commute)
qed

text \<open>
  The topology has no dangling link: when every document of the snapshot belongs to a server
  whose general document is there too, the nodes have distinct identities, every known server is a
  node, both ends of every link are nodes, and no two links have the same key, so two servers that
  both report a route to each other are joined by one link.
\<close>

theorem topology_well_formed:
  assumes "distinct (map fst (Varz s))"
    "fst ` set (Routez s) \<union> fst ` set (Gatewayz s) \<union> fst ` set (Leafz s) \<union> fst ` set (Connz s) \<subseteq> fst ` set (Varz s)"
  shows "distinct (map n_ID (Nodes (buildTopology s prev)))
    \<and> fst ` set (Varz s) \<subseteq> n_ID ` set (Nodes (buildTopology s prev))
    \<and> (\<forall>l\<in>set (Links (buildTopology s prev)). l_Source l \<in> n_ID ` set (Nodes (buildTopology s prev))
         \<and> l_Target l \<in> n_ID ` set (Nodes (buildTopology s prev)))
    \<and> distinct (map link_key (Links (buildTopology s prev)))"
proof -
  let ?ids = "fst ` set (Varz s)"
  have 1: "graph_inv ?ids (fold (add_server_node s) (Varz s) \<lparr>Nodes = [], Links = [], seenNodes = [], seenLinks = []\<rparr>)"
    using servers_inv[OF assms(1), of _ "[]" s] by (simp add: graph_inv_def)
  have b: "fst (fst kb) \<in> ?ids" if "kb \<in> set (bridge_groups s)" for kb
  proof -
    have "fst kb \<in> fst ` set (bridge_conns s)" using that keys_of_groups[of s] by blast
    then have "fst (fst kb) \<in> fst ` set (Connz s)" by (force simp: bridge_conns_def)
    with assms(2) show ?thesis by blast
  qed
  have srv: "(i, x) \<in> set (Routez s) \<Longrightarrow> i \<in> ?ids" "(i, y) \<in> set (Gatewayz s) \<Longrightarrow> i \<in> ?ids"
    "(i, z) \<in> set (Leafz s) \<Longrightarrow> i \<in> ?ids" for i x y z
    using assms(2) by (meson UnI1 UnI2 in_set_fst subsetD)+
  let ?g1 = "fold (add_server_node s) (Varz s) \<lparr>Nodes = [], Links = [], seenNodes = [], seenLinks = []\<rparr>"
  let ?g2 = "fold (\<lambda>(src, r) g. fold (route_edge s prev src) (rz_Routes r) g) (Routez s) ?g1"
  let ?g3 = "fold (\<lambda>(src, gw) g. fold (gateway_edge src) (map fst (gw_OutboundGateways gw)) g) (Gatewayz s) ?g2"
  let ?g4 = "fold (\<lambda>(src, lz) g. fold (leaf_edge s prev src) (lz_Leafs lz) g) (Leafz s) ?g3"
  have 2: "graph_inv ?ids ?g2"
    using 1 srv(1) by (rule edges_inv) (assumption, rule route_edge_inv)
  have 3: "graph_inv ?ids ?g3"
    using 2 srv(2) by (rule edges_inv) (assumption, rule gateway_edge_inv)
  have 4: "graph_inv ?ids ?g4"
    using 3 srv(3) by (rule edges_inv) (assumption, rule leaf_edge_inv, assumption+, rule subset_refl)
  have "graph_inv ?ids (buildTopology s prev)"
    unfolding buildTopology_def Let_def
    using 4 by (rule fold_invariant_from) (rule bridge_edge_inv, assumption, rule b)
  then show ?thesis by (simp add: graph_inv_def)
qed

definition two_servers :: snapshot where
  "two_servers = (let r = (\<lambda>i nm. \<lparr>ri_Rid = 1, ri_RemoteID = i, ri_RemoteName = nm, ri_DidSolicit = False, ri_IP = [], ri_Port = 0,
       ri_Start = 0, ri_LastActivity = 0, ri_RTT = [], ri_Uptime = [], ri_InMsgs = 0, ri_OutMsgs = 0,
       ri_InBytes = 0, ri_OutBytes = 0, ri_NumSubs = 0\<rparr>);
     z = (\<lambda>i rs. (i, \<lparr>rz_ServerID = i, rz_ServerName = [], rz_NumRoutes = 1, rz_Routes = rs\<rparr>))
   in empty_snapshot\<lparr>Varz := [(''A'', varz_example 0 0), (''B'', varz_example 0 0)],
        Routez := [z ''A'' [r ''B'' ''b''], z ''B'' [r ''A'' ''a'']]\<rparr>)"

lemma topology_well_formed_witness:
  "distinct (map n_ID (Nodes (buildTopology two_servers None)))
    \<and> distinct (map link_key (Links (buildTopology two_servers None)))"
  using topology_well_formed[of two_servers None]
  by (simp add: two_servers_def empty_snapshot_def Let_def)

end
