(* ===== verification/MqttTypes.thy ===== *)
theory MqttTypes
  imports Types
begin

text \<open>
  The bridge documents of \<^verbatim>\<open>internal/collector/mqtt_types.go\<close>. The counter set \<^verbatim>\<open>MQTTMetrics\<close> has some
  three hundred fields of a few types, so its fields are named by strings: \<open>metric_fields\<close> lists
  every field with its type and its JSON tag, in the order of the struct, and the record holds one
  map per type, which reads zero at a field that was not set.
\<close>

section \<open>The fields of the counter set\<close>

datatype field_kind = IntField | FloatField | BucketsField | ReasonsField | StringField | GateField
  | ObjectField | UncuratedField | HelpField

definition connection_fields :: "(string \<times> field_kind \<times> string) list" where
  "connection_fields = [
     (''ConnectionsActive'', IntField, ''connections_active''), (''ConnectionsTotal'', IntField, ''connections_total''),
     (''ConnectionsMax'', IntField, ''connections_max''), (''ConnectionsRejected'', IntField, ''connections_rejected''),
     (''WSConnectionsActive'', IntField, ''ws_connections_active''), (''WSConnectionsTotal'', IntField, ''ws_connections_total''),
     (''SocketsOpen'', IntField, ''sockets_open''), (''SocketsAccepted'', IntField, ''sockets_accepted''),
     (''WSSocketsOpen'', IntField, ''ws_sockets_open''), (''WSSocketsAccepted'', IntField, ''ws_sockets_accepted''),
     (''MaxConnections'', IntField, ''max_connections''), (''RejectedMaxConns'', IntField, ''rejected_max_conns''),
     (''RejectedMemBudget'', IntField, ''rejected_mem_budget''), (''RejectedLicense'', IntField, ''rejected_license''),
     (''RejectedPerIPConns'', IntField, ''rejected_per_ip_conns''), (''RejectedPerIPAccept'', IntField, ''rejected_per_ip_accept''),
     (''RejectedPoolFull'', IntField, ''rejected_pool_full''), (''RejectedConnectTimeout'', IntField, ''rejected_connect_timeout''),
     (''RejectedAuthTimeout'', IntField, ''rejected_auth_timeout''), (''RejectedWorkerPool'', IntField, ''rejected_worker_pool''),
     (''DispatchSlotsTLS'', IntField, ''dispatch_slots_tls''), (''DispatchSlotsWS'', IntField, ''dispatch_slots_ws''),
     (''AuthSuccess'', IntField, ''auth_success''), (''AuthFailure'', IntField, ''auth_failure''),
     (''AuthFailBadCreds'', IntField, ''auth_fail_bad_credentials''), (''AuthFailEnhanced'', IntField, ''auth_fail_enhanced''),
     (''AuthFailLocked'', IntField, ''auth_fail_locked''), (''AuthFailOther'', IntField, ''auth_fail_other''),
     (''AuthFailLicense'', IntField, ''auth_fail_license''), (''AuthFailTokenExpired'', IntField, ''auth_fail_token_expired''),
     (''AuthFailBadSignature'', IntField, ''auth_fail_bad_signature''), (''AuthFailClaimMismatch'', IntField, ''auth_fail_claim_mismatch''),
     (''AuthFailJWKSUnavailable'', IntField, ''auth_fail_jwks_unavailable''), (''AuthFailWebhookDenied'', IntField, ''auth_fail_webhook_denied''),
     (''AuthFailWebhookUnavailable'', IntField, ''auth_fail_webhook_unavailable''), (''ScramSessionsActive'', IntField, ''scram_sessions_active''),
     (''AuthFailureTrackerEntries'', IntField, ''auth_failure_tracker_entries''), (''AuthWebhookRequests'', IntField, ''auth_webhook_requests''),
     (''AuthWebhookTransportFailures'', IntField, ''auth_webhook_transport_failures''), (''AuthWebhookInflightRejected'', IntField, ''auth_webhook_inflight_rejected''),
     (''NATSEnforcementFallback'', IntField, ''nats_enforcement_fallback''), (''NATSEnforcementDenied'', IntField, ''nats_enforcement_denied''),
     (''LicenseRejectedAuthMethod'', IntField, ''license_rejected_auth_method''), (''LicenseRejectedRetain'', IntField, ''license_rejected_retain''),
     (''LicenseRejectedProxyProtocol'', IntField, ''license_rejected_proxy_protocol''), (''MsgsRecvQoS0'', IntField, ''msgs_recv_qos0''),
     (''MsgsRecvQoS1'', IntField, ''msgs_recv_qos1''), (''MsgsRecvQoS2'', IntField, ''msgs_recv_qos2''),
     (''MsgsSentQoS0'', IntField, ''msgs_sent_qos0''), (''MsgsSentQoS1'', IntField, ''msgs_sent_qos1''),
     (''MsgsSentQoS2'', IntField, ''msgs_sent_qos2''), (''MsgsRedelivered'', IntField, ''msgs_redelivered''),
     (''MsgsRedeliverySuppressed'', IntField, ''msgs_redelivery_suppressed''), (''RetainedDeliveryTruncated'', IntField, ''retained_delivery_truncated'')]"

definition message_fields :: "(string \<times> field_kind \<times> string) list" where
  "message_fields = [
     (''ServerPublishedQoS0'', IntField, ''server_published_qos0''), (''ServerPublishedQoS1'', IntField, ''server_published_qos1''),
     (''ServerPublishedQoS2'', IntField, ''server_published_qos2''), (''ServerConsumedQoS0'', IntField, ''server_consumed_qos0''),
     (''ServerConsumedQoS1'', IntField, ''server_consumed_qos1''), (''ServerConsumedQoS2'', IntField, ''server_consumed_qos2''),
     (''WillPublished'', IntField, ''will_published''), (''WillDroppedQueueFull'', IntField, ''will_dropped_queue_full''),
     (''WillDroppedPublishError'', IntField, ''will_dropped_publish_error''), (''WillDroppedInvalidTopic'', IntField, ''will_dropped_invalid_topic''),
     (''WillDroppedShutdown'', IntField, ''will_dropped_shutdown''), (''WillSuppressedReconnect'', IntField, ''will_suppressed_reconnected''),
     (''WillSuppressedShutdown'', IntField, ''will_suppressed_shutdown''), (''WillPending'', IntField, ''will_pending''),
     (''WillRetryPending'', IntField, ''will_retry_pending''), (''WillPersistFailedWrite'', IntField, ''will_persist_failed_write''),
     (''WillPersistFailedQueueFull'', IntField, ''will_persist_failed_queue_full''), (''RetainPersistFailedPut'', IntField, ''retain_persist_failed_put''),
     (''RetainPersistFailedDelete'', IntField, ''retain_persist_failed_delete''), (''WillStaleClearAttempted'', IntField, ''will_stale_clear_attempted''),
     (''WillStaleClearSkipped'', IntField, ''will_stale_clear_skipped''), (''Subscribes'', IntField, ''subscribes''),
     (''Unsubscribes'', IntField, ''unsubscribes''), (''KeepaliveTimeouts'', IntField, ''keepalive_timeouts''),
     (''PingreqRateLimited'', IntField, ''pingreq_rate_limited''), (''NATSDisconnects'', IntField, ''nats_disconnects''),
     (''NATSReconnects'', IntField, ''nats_reconnects''), (''NATSSlowConsumer'', IntField, ''nats_slow_consumer''),
     (''PanicsRecovered'', IntField, ''panics_recovered''), (''HookPanics'', IntField, ''hook_panics''),
     (''SharedConsumerRecreated'', IntField, ''shared_consumer_recreated''), (''ConsumerDeletedUnderConsume'', IntField, ''consumer_deleted_under_consume''),
     (''HookVetoes'', IntField, ''hook_vetoes''), (''SysTreePublished'', IntField, ''sys_tree_published''),
     (''SysPublishBlocked'', IntField, ''sys_publish_blocked''), (''PublishRefusedTopic'', IntField, ''publish_refused_topic''),
     (''TopicLevelsExceeded'', IntField, ''topic_levels_exceeded''), (''PublishRejectedState'', IntField, ''publish_rejected_state''),
     (''PublishRejectedStateConnecting'', IntField, ''publish_rejected_state_connecting''), (''PublishRejectedStateAuthenticating'', IntField, ''publish_rejected_state_authenticating''),
     (''PublishRejectedStateDisconnecting'', IntField, ''publish_rejected_state_disconnecting''), (''PublishRejectedStateClosed'', IntField, ''publish_rejected_state_closed''),
     (''PublishRejectedStateOther'', IntField, ''publish_rejected_state_other''), (''PublishRejectedQoS0'', IntField, ''publish_rejected_qos0''),
     (''PublishRejectedQoS1'', IntField, ''publish_rejected_qos1''), (''PublishRejectedQoS2'', IntField, ''publish_rejected_qos2''),
     (''PublishRejectedQoS3'', IntField, ''publish_rejected_qos3''), (''TLSHandshakeFailures'', IntField, ''tls_handshake_failures''),
     (''ProxyProtocolErrors'', IntField, ''proxy_protocol_errors''), (''WSUpgradeFailures'', IntField, ''ws_upgrade_failures''),
     (''WSProtocolViolations'', IntField, ''ws_protocol_violations''), (''FlowcontrolOverflow'', IntField, ''flowcontrol_overflow'')]"

definition durability_fields :: "(string \<times> field_kind \<times> string) list" where
  "durability_fields = [
     (''QoS2ServerPublishFailed'', IntField, ''qos2_server_publish_failed''), (''QoS1ClientSendFailed'', IntField, ''qos1_client_send_failed''),
     (''QoS2ClientSendFailed'', IntField, ''qos2_client_send_failed''), (''QoS2SyncPersistFailed'', IntField, ''qos2_sync_persist_failed''),
     (''QoS2AwaitRelExpired'', IntField, ''qos2_await_rel_expired''), (''ServerPublishDropped'', IntField, ''server_publish_dropped''),
     (''ServerPublishFailedQoS0'', IntField, ''server_publish_failed_qos0''), (''ServerPublishFailedQoS1'', IntField, ''server_publish_failed_qos1''),
     (''ServerPublishFailedQoS2'', IntField, ''server_publish_failed_qos2''), (''QoS0MessagesShed'', IntField, ''qos0_messages_shed''),
     (''OversizedDropped'', IntField, ''oversized_dropped''), (''PublishOutageDisconnects'', IntField, ''publish_outage_disconnects''),
     (''MessagesDeadLettered'', IntField, ''messages_dead_lettered''), (''PoisonMessagesTerminated'', IntField, ''poison_messages_terminated''),
     (''DeadLetterWriteFailed'', IntField, ''dead_letter_write_failed''), (''OutboundQueueDropped'', IntField, ''outbound_queue_dropped''),
     (''OutboundEvictions'', IntField, ''outbound_evictions''), (''OutboundStallEvictions'', IntField, ''outbound_stall_evictions''),
     (''OutboundStalledConns'', IntField, ''outbound_stalled_conns''), (''OutboundOverCeilingSweeps'', IntField, ''outbound_over_ceiling_sweeps''),
     (''OutboundEvictNoCandidateSweeps'', IntField, ''outbound_evict_no_candidate_sweeps''), (''RetainVerifyFailures'', IntField, ''retained_verify_failures''),
     (''WillVerifyFailures'', IntField, ''will_verify_failures''), (''SessionVerifyFailures'', IntField, ''session_verify_failures''),
     (''SessionUnsignedAccepted'', IntField, ''session_unsigned_accepted''), (''SessionSigningKeyPresent'', IntField, ''session_signing_key_present''),
     (''SessionSigningRequired'', IntField, ''session_signing_required''), (''SubscribeFlushFailures'', IntField, ''subscribe_flush_failures''),
     (''RetainedMessages'', IntField, ''retained_messages''), (''InflightOutMessages'', IntField, ''inflight_out_messages''),
     (''SubscriptionsActive'', IntField, ''subscriptions_active''), (''OutboundBytes'', IntField, ''outbound_bytes''),
     (''InboundBytes'', IntField, ''inbound_bytes''), (''BytesSent'', IntField, ''bytes_sent''),
     (''PoolSlotConnected'', IntField, ''pool_slot_connected''), (''PoolSlotRebuilds'', IntField, ''pool_slot_rebuilds''),
     (''BridgePrimaryRebuilds'', IntField, ''bridge_primary_rebuilds''), (''BridgeRebuildsDegraded'', IntField, ''bridge_rebuilds_degraded''),
     (''BridgeConsumerReattached'', IntField, ''bridge_consumer_reattached''), (''BridgeConsumerForceDisconnected'', IntField, ''bridge_consumer_force_disconnected''),
     (''BridgeConsumerPushForceDisconnected'', IntField, ''bridge_consumer_push_force_disconnected'')]"

definition cluster_fields :: "(string \<times> field_kind \<times> string) list" where
  "cluster_fields = [
     (''AggregatePublishLimit'', IntField, ''aggregate_publish_limit_msgs_per_sec''), (''PublishThrottledPerClient'', IntField, ''publish_throttled_per_client''),
     (''PublishThrottledAggregate'', IntField, ''publish_throttled_aggregate''), (''ACLDeniedPublish'', IntField, ''acl_denied_publish''),
     (''ACLDeniedSubscribe'', IntField, ''acl_denied_subscribe''), (''ClusterInspectTimeouts'', IntField, ''cluster_inspect_timeouts''),
     (''ClusterTakeoverDropped'', IntField, ''cluster_takeover_dropped''), (''ClusterTakeoverOrderSkew'', IntField, ''cluster_takeover_order_skew''),
     (''ClusterHeartbeatPublishFailures'', IntField, ''cluster_heartbeat_publish_failures''), (''ClusterLeaseAcquired'', IntField, ''cluster_lease_acquired''),
     (''ClusterLeaseTransferred'', IntField, ''cluster_lease_transferred''), (''ClusterLeaseReclaimed'', IntField, ''cluster_lease_reclaimed''),
     (''ClusterLeaseConflicts'', IntField, ''cluster_lease_conflicts''), (''ClusterLeaseWatcherKicks'', IntField, ''cluster_lease_watcher_kicks''),
     (''ClusterLeaseRevisionRegressions'', IntField, ''cluster_lease_revision_regressions''), (''ClusterLeaseReleaseFailed'', IntField, ''cluster_lease_release_failed''),
     (''ClusterOwnedLeases'', IntField, ''cluster_owned_leases''), (''SessionFencingRejected'', IntField, ''session_fencing_rejected''),
     (''WorkerPoolQueueDepth'', IntField, ''worker_pool_queue_depth''), (''OpQueueDepth'', IntField, ''op_queue_depth''),
     (''OpQueueBytes'', IntField, ''op_queue_bytes''), (''OpSuspendedConns'', IntField, ''op_suspended_conns''),
     (''OpShedQoS0PerConnBytes'', IntField, ''op_shed_qos0_per_conn_bytes''), (''OpShedQoS0TotalBytes'', IntField, ''op_shed_qos0_total_bytes''),
     (''OpShedQoS0Depth'', IntField, ''op_shed_qos0_depth''), (''OpDispatchBatches'', IntField, ''op_dispatch_batches''),
     (''OpDispatchMessages'', IntField, ''op_dispatch_messages''), (''OpSuspendEvents'', IntField, ''op_suspend_events''),
     (''OpPoolQueueDepth'', IntField, ''op_pool_queue_depth''), (''OpPoolRejected'', IntField, ''op_pool_rejected''),
     (''OpQueueDropped'', IntField, ''op_queue_dropped''), (''OpQueueDroppedPoolFull'', IntField, ''op_queue_dropped_pool_full''),
     (''OpQueueDroppedHandlerError'', IntField, ''op_queue_dropped_handler_error''), (''OpQueueDroppedSlotClosed'', IntField, ''op_queue_dropped_slot_closed''),
     (''OpQueueDroppedCloseRace'', IntField, ''op_queue_dropped_close_race''), (''OpQueueDroppedWorkerAbort'', IntField, ''op_queue_dropped_worker_abort''),
     (''DrainAckUnwritable'', IntField, ''drain_ack_unwritable''), (''OpQueueDroppedOther'', IntField, ''op_queue_dropped_other''),
     (''ConsumerSeqMapEntries'', IntField, ''consumer_seq_map_entries''), (''ConsumerDeletesDropped'', IntField, ''consumer_deletes_dropped''),
     (''ConsumerDeleteRaces'', IntField, ''consumer_delete_races''), (''LegacyNamedConsumers'', IntField, ''legacy_named_consumers''),
     (''JetStreamAPIErrors'', IntField, ''jetstream_api_errors''), (''JetStreamAPIRequests'', IntField, ''jetstream_api_requests''),
     (''JetStreamHealthProbeFailures'', IntField, ''jetstream_health_probe_failures''), (''SessionDeletesDropped'', IntField, ''session_deletes_dropped''),
     (''SessionPersistFailedWriteFailed'', IntField, ''session_persist_failed_write_failed''), (''SessionPersistFailedQueueFull'', IntField, ''session_persist_failed_queue_full''),
     (''SessionPersistPanics'', IntField, ''session_persist_panics''), (''SessionQoS2PurgeFailuresSyncConnect'', IntField, ''session_qos2_purge_failures_sync_connect''),
     (''SessionQoS2PurgeFailuresAsyncDeath'', IntField, ''session_qos2_purge_failures_async_death'')]"

definition reliability_fields :: "(string \<times> field_kind \<times> string) list" where
  "reliability_fields = [
     (''CredentialExpiryDisconnects'', IntField, ''credential_expiry_disconnects''), (''MTLSIdentityFallbackLicense'', IntField, ''mtls_identity_fallback_license''),
     (''MTLSIdentityFallbackNoMatch'', IntField, ''mtls_identity_fallback_no_match''), (''MTLSIdentityFallbackNoCert'', IntField, ''mtls_identity_fallback_no_cert''),
     (''OTelHistogramSkewClamped'', IntField, ''otel_histogram_skew_clamped''), (''TLSCertReloadFailures'', IntField, ''tls_cert_reload_failures''),
     (''OAuth2JWKSFetchFailures'', IntField, ''oauth2_jwks_fetch_failures''), (''OAuth2TokenCacheEvictions'', IntField, ''oauth2_token_cache_evictions''),
     (''AuditWriteFailures'', IntField, ''audit_write_failures''), (''ConnackRejectedByReason'', ReasonsField, ''connack_rejected_by_reason''),
     (''SubackRejectedByReason'', ReasonsField, ''suback_rejected_by_reason''), (''DisconnectsSentByReason'', ReasonsField, ''disconnects_sent_by_reason''),
     (''SubscribeConsumerFailures'', IntField, ''subscribe_consumer_failures''), (''SubscribeConsumerRetries'', IntField, ''subscribe_consumer_retries''),
     (''SessionWriteBehindDepth'', IntField, ''session_write_behind_depth''), (''ConsumerPendingMessages'', IntField, ''consumer_pending_messages''),
     (''StalledConsumers'', IntField, ''stalled_consumers''), (''PublishLatencyCount'', IntField, ''publish_latency_count''),
     (''PublishLatencySumSeconds'', FloatField, ''publish_latency_sum_seconds''), (''AuthDurationCount'', IntField, ''auth_duration_count''),
     (''AuthDurationSumSeconds'', FloatField, ''auth_duration_sum_seconds''), (''AuthWebhookDurationCount'', IntField, ''auth_webhook_duration_count''),
     (''AuthWebhookDurationSumSeconds'', FloatField, ''auth_webhook_duration_sum_seconds''), (''JSPublishDurationCount'', IntField, ''jetstream_publish_duration_count''),
     (''JSPublishDurationSumSeconds'', FloatField, ''jetstream_publish_duration_sum_seconds''), (''QoS2SyncPersistDurationCount'', IntField, ''qos2_sync_persist_duration_count''),
     (''QoS2SyncPersistDurationSumSeconds'', FloatField, ''qos2_sync_persist_duration_sum_seconds''), (''SubscribeDurationCount'', IntField, ''subscribe_duration_count''),
     (''SubscribeDurationSumSeconds'', FloatField, ''subscribe_duration_sum_seconds''), (''DispatchWaitCount'', IntField, ''dispatch_wait_count''),
     (''DispatchWaitSumSeconds'', FloatField, ''dispatch_wait_sum_seconds''), (''TLSHandshakeDurationCount'', IntField, ''tls_handshake_duration_count''),
     (''TLSHandshakeDurationSumSeconds'', FloatField, ''tls_handshake_duration_sum_seconds''), (''PublishLatencyBuckets'', BucketsField, ''publish_latency_buckets''),
     (''AuthDurationBuckets'', BucketsField, ''auth_duration_buckets''), (''AuthWebhookDurationBuckets'', BucketsField, ''auth_webhook_duration_buckets''),
     (''JSPublishDurationBuckets'', BucketsField, ''jetstream_publish_duration_buckets''), (''QoS2SyncPersistDurationBuckets'', BucketsField, ''qos2_sync_persist_duration_buckets''),
     (''SubscribeDurationBuckets'', BucketsField, ''subscribe_duration_buckets''), (''DispatchWaitBuckets'', BucketsField, ''dispatch_wait_buckets''),
     (''TLSHandshakeDurationBuckets'', BucketsField, ''tls_handshake_duration_buckets'')]"

definition state_fields :: "(string \<times> field_kind \<times> string) list" where
  "state_fields = [
     (''ProcessOpenFDs'', IntField, ''process_open_fds''), (''ProcessMaxFDs'', IntField, ''process_max_fds''),
     (''GoGoroutines'', IntField, ''go_goroutines''), (''GoHeapInuseBytes'', IntField, ''go_heap_inuse_bytes''),
     (''GoAllocBytesTotal'', IntField, ''go_alloc_bytes_total''), (''GoGCCycles'', IntField, ''go_gc_cycles''),
     (''GoGCPauseNsTotal'', IntField, ''go_gc_pause_ns_total''), (''InstanceID'', StringField, ''instance_id''),
     (''Drained'', IntField, ''drained''), (''License'', ObjectField, ''license''),
     (''Reactor'', ObjectField, ''reactor''), (''Pool'', ObjectField, ''pool''),
     (''ClusterHMACFailures'', ObjectField, ''cluster_hmac_failures''), (''AuthWebhookActive'', GateField, ''auth_webhook_active''),
     (''StreamEnsureRetries'', IntField, ''stream_ensure_retries''), (''StreamEnsureStalls'', IntField, ''stream_ensure_stalls''),
     (''NATSConnected'', IntField, ''nats_connected''), (''JetStreamDegraded'', IntField, ''jetstream_degraded''),
     (''JetStreamAvailable'', IntField, ''jetstream_available''), (''JetStreamTransitions'', IntField, ''jetstream_transitions''),
     (''ConsumersAwaitingReattach'', IntField, ''consumers_awaiting_reattach''), (''ReattachSweepDurationMs'', IntField, ''reattach_sweep_duration_ms''),
     (''ClusterEnabled'', GateField, ''cluster_enabled''), (''BridgeUp'', GateField, ''bridge_up''),
     (''SessionsUp'', GateField, ''sessions_up''), (''Uncurated'', UncuratedField, ''uncurated''),
     (''UncuratedHelp'', HelpField, ''uncurated_help'')]"

definition metric_fields :: "(string \<times> field_kind \<times> string) list" where
  "metric_fields = connection_fields @ message_fields @ durability_fields @ cluster_fields @ reliability_fields @ state_fields"

text \<open>The sub-objects of the license manager and the reactor, by the names of their integer fields.\<close>

definition license_fields :: "string list" where
  "license_fields = [''Valid'', ''Status'', ''ExpiresTimestamp'', ''ConnectionsLimit'',
     ''ConnectionsGlobal'', ''MaxQoS'', ''Instances'', ''Degraded'',
     ''BlockConfirmed'', ''CapacityClamped'', ''ClampFloor'', ''PeerDiscrepancy'',
     ''PermissionViolations'', ''HeartbeatPublishFailures'']"

definition reactor_fields :: "string list" where
  "reactor_fields = [''TaskQueueDepth'', ''TaskQueueDepthMax'', ''LoopPanics'', ''ReadContinuations'',
     ''WriteBackpressure'', ''FeedWriteOverflows'', ''FeedReadOverflows'', ''LoopDeaths'',
     ''RegisteredSlots'', ''StaleEvents'']"

section \<open>The counter set\<close>

record metrics_pool_slot =
  sl_Slot :: int
  sl_BufferedBytes :: int
  sl_OutMsgs :: int
  sl_InMsgs :: int

record metrics_pool =
  mp_Size :: int
  mp_BufferedBytes :: int
  mp_BufferedBytesMax :: int
  mp_Slots :: "metrics_pool_slot list"

record hmac_failure =
  hf_SourceInstanceID :: string
  hf_Count :: int

record license_metrics =
  lm_HasExpiry :: bool
  lm_int :: "string \<Rightarrow> int"

record mqtt_metrics =
  m_int :: "string \<Rightarrow> int"
  m_float :: "string \<Rightarrow> f64"
  m_buckets :: "string \<Rightarrow> int list"
  m_reasons :: "string \<Rightarrow> (string, int) gomap"
  m_gate :: "string \<Rightarrow> bool"
  m_InstanceID :: string
  m_License :: "license_metrics option"
  m_Reactor :: "(string \<Rightarrow> int) option"
  m_Pool :: "metrics_pool option"
  m_ClusterHMACFailures :: "hmac_failure list"
  m_Uncurated :: "(string, f64) gomap"
  m_UncuratedHelp :: "(string, string) gomap"

definition MQTTHistogramBucketCount :: nat where
  "MQTTHistogramBucketCount = 10"

definition zero_metrics :: mqtt_metrics where
  "zero_metrics = \<lparr>m_int = (\<lambda>_. 0), m_float = (\<lambda>_. Fin 0), m_buckets = (\<lambda>_. replicate MQTTHistogramBucketCount 0),
     m_reasons = (\<lambda>_. []), m_gate = (\<lambda>_. False), m_InstanceID = [], m_License = None, m_Reactor = None,
     m_Pool = None, m_ClusterHMACFailures = [], m_Uncurated = [], m_UncuratedHelp = []\<rparr>"

text \<open>The upper bounds of the histogram buckets in seconds, now and before the 25 ms bound existed.\<close>

definition MQTTHistogramBounds :: "f64 list" where
  "MQTTHistogramBounds = map f_round [5 / 10000, 1 / 1000, 5 / 1000, 1 / 100, 25 / 1000, 5 / 100, 1 / 10, 5 / 10, 1, 5]"

definition legacyHistogramBounds :: "f64 list" where
  "legacyHistogramBounds = map f_round [5 / 10000, 1 / 1000, 5 / 1000, 1 / 100, 5 / 100, 1 / 10, 5 / 10, 1, 5]"

section \<open>The bridge documents\<close>

record mqtt_pool_slot =
  ps_Index :: int
  ps_Connected :: bool
  ps_SubCount :: int
  ps_PubCount :: int
  ps_FlushCount :: int
  ps_BufferedBytes :: int
  ps_OutMsgs :: int
  ps_InMsgs :: int
  ps_OutBytes :: int
  ps_InBytes :: int
  ps_Reconnects :: int

record mqtt_pool =
  pl_Size :: int
  pl_Slots :: "mqtt_pool_slot list"

record nats_connection =
  nc_Connected :: bool
  nc_Reconnecting :: bool
  nc_Draining :: bool
  nc_URL :: string
  nc_ServerID :: string
  nc_ServerName :: string
  nc_ServerVersion :: string
  nc_ClusterName :: string
  nc_Servers :: "string list"
  nc_MaxPayload :: int
  nc_Subscriptions :: int
  nc_RTT :: string
  nc_InMsgs :: "64 word"
  nc_OutMsgs :: "64 word"
  nc_InBytes :: "64 word"
  nc_OutBytes :: "64 word"
  nc_Reconnects :: "64 word"

record nats_account =
  na_Domain :: string
  na_Memory :: "64 word"
  na_Store :: "64 word"
  na_Streams :: int
  na_Consumers :: int

record nats_stream =
  ns_Name :: string
  ns_Messages :: "64 word"
  ns_Bytes :: "64 word"
  ns_Consumers :: int
  ns_FirstSeq :: "64 word"
  ns_LastSeq :: "64 word"
  ns_NumSubjects :: "64 word"
  ns_Created :: gotime
  ns_Error :: string

record nats_kv_bucket =
  kv_Bucket :: string
  kv_Values :: "64 word"
  kv_Bytes :: "64 word"
  kv_TTL :: string
  kv_Error :: string

record nats_diag =
  nd_Connection :: nats_connection
  nd_Account :: "nats_account option"
  nd_Streams :: "nats_stream list"
  nd_KVBuckets :: "nats_kv_bucket list"

record mqtt_client_info =
  mi_CID :: "64 word"
  mi_MQTTClient :: string
  mi_Kind :: string
  mi_Type :: string
  mi_IP :: string
  mi_Port :: int
  mi_Start :: gotime
  mi_LastActivity :: gotime
  mi_Uptime :: string
  mi_Idle :: string
  mi_PendingBytes :: int
  mi_InMsgs :: int
  mi_OutMsgs :: int
  mi_InBytes :: int
  mi_OutBytes :: int
  mi_Subscriptions :: int
  mi_Lang :: string
  mi_IsWebSocket :: bool
  mi_CleanStart :: bool
  mi_KeepAlive :: int
  mi_SessionExpiry :: "32 word"
  mi_ReceiveMaximum :: int
  mi_InflightOut :: int
  mi_Username :: string
  mi_State :: string
  mi_SlowConsumer :: bool

record mqtt_connz =
  mz_ServerID :: string
  mz_Now :: gotime
  mz_NumConnections :: int
  mz_Total :: int
  mz_Offset :: int
  mz_Limit :: int
  mz_Connections :: "mqtt_client_info list"

record mqtt_readyz =
  rd_Status :: string
  rd_NATSConnected :: bool
  rd_JetStreamReady :: bool

record bridge_status =
  bs_Name :: string
  bs_URL :: string
  bs_Ready :: bool
  bs_Draining :: bool
  bs_JetStreamDegraded :: bool
  bs_Connections :: int
  bs_NATSConnected :: bool
  bs_ConnzAvailable :: bool
  bs_TotalConnections :: int
  bs_NATS :: "nats_diag option"
  bs_Connz :: "mqtt_connz option"
  bs_Pool :: "mqtt_pool option"
  bs_Metrics :: "mqtt_metrics option"
  bs_Error :: string

end
