(* ===== verification/MetricTables.thy ===== *)
theory MetricTables
  imports MqttTypes
begin

text \<open>
  The cases of the scraper's switch in \<^verbatim>\<open>internal/collector/mqtt_metrics_parser.go\<close>, one row per family in
  the order of the code: the family's name, where its samples go, and the group that its presence
  switches on.

  \<^item> \<open>ToInt f\<close>: the value as an integer into the field \<open>f\<close>; \<open>ToFloat\<close>, \<open>ToLicense\<close>, \<open>ToReactor\<close>, \<open>ToPool\<close> and
    \<open>ToSlot\<close> likewise, \<open>ToExpiry\<close> the license's expiry, \<open>ToInstanceID\<close> the label of the identity.
  \<^item> \<open>SwitchBy l arms\<close>: the label \<open>l\<close> says into which field; a value without an arm is kept uncurated.
  \<^item> \<open>SumBy f l arms\<close>: the same, and every sample is added to the total \<open>f\<close>.
  \<^item> \<open>ToReasons f\<close>: into the map \<open>f\<close> under the reason label; \<open>ToHMAC\<close> the failures by source.
\<close>

datatype metric_rule =
    ToInt string
  | ToFloat string
  | ToLicense string
  | ToExpiry
  | ToReactor string
  | ToPool string
  | ToSlot string
  | ToInstanceID
  | SwitchBy string "(string \<times> string) list"
  | SumBy string string "(string \<times> string) list"
  | ToReasons string
  | ToHMAC

datatype metric_gate = NoGate | AuthWebhookGate | ClusterGate | BridgeGate | SessionsGate
  | LicenseGate | ReactorGate | PoolGate

type_synonym family = "string \<times> metric_rule \<times> metric_gate"

section \<open>The families before the bucket case\<close>

definition connection_families :: "family list" where
  "connection_families = [
     (''machmqtt_connections_active'', ToInt ''ConnectionsActive'', NoGate),
     (''machmqtt_connections_total'', ToInt ''ConnectionsTotal'', NoGate),
     (''machmqtt_connections_max'', ToInt ''ConnectionsMax'', NoGate),
     (''machmqtt_connections_rejected_total'', ToInt ''ConnectionsRejected'', NoGate),
     (''machmqtt_ws_connections_active'', ToInt ''WSConnectionsActive'', NoGate),
     (''machmqtt_ws_connections_total'', ToInt ''WSConnectionsTotal'', NoGate),
     (''machmqtt_sockets_open'', ToInt ''SocketsOpen'', NoGate),
     (''machmqtt_sockets_accepted_total'', ToInt ''SocketsAccepted'', NoGate),
     (''machmqtt_ws_sockets_open'', ToInt ''WSSocketsOpen'', NoGate),
     (''machmqtt_ws_sockets_accepted_total'', ToInt ''WSSocketsAccepted'', NoGate),
     (''machmqtt_connections_rejected_by_reason_total'', SwitchBy ''reason'' [(''max_conns'', ''RejectedMaxConns''), (''mem_budget'', ''RejectedMemBudget''), (''license'', ''RejectedLicense''), (''per_ip_conns'', ''RejectedPerIPConns''), (''per_ip_accept'', ''RejectedPerIPAccept''), (''pool_full'', ''RejectedPoolFull''), (''connect_timeout'', ''RejectedConnectTimeout''), (''auth_timeout'', ''RejectedAuthTimeout''), (''worker_pool'', ''RejectedWorkerPool'')], NoGate),
     (''machmqtt_connack_rejected_by_reason_total'', ToReasons ''ConnackRejectedByReason'', NoGate),
     (''machmqtt_suback_rejected_by_reason_total'', ToReasons ''SubackRejectedByReason'', NoGate),
     (''machmqtt_disconnects_sent_by_reason_total'', ToReasons ''DisconnectsSentByReason'', NoGate),
     (''machmqtt_dispatch_slots_active'', SwitchBy ''pool'' [(''tls'', ''DispatchSlotsTLS''), (''websocket'', ''DispatchSlotsWS'')], NoGate),
     (''machmqtt_auth_success_total'', ToInt ''AuthSuccess'', NoGate),
     (''machmqtt_auth_failure_total'', SumBy ''AuthFailure'' ''reason'' [(''bad_credentials'', ''AuthFailBadCreds''), (''enhanced'', ''AuthFailEnhanced''), (''locked'', ''AuthFailLocked''), (''other'', ''AuthFailOther''), (''license'', ''AuthFailLicense''), (''token_expired'', ''AuthFailTokenExpired''), (''bad_signature'', ''AuthFailBadSignature''), (''claim_mismatch'', ''AuthFailClaimMismatch''), (''jwks_unavailable'', ''AuthFailJWKSUnavailable''), (''webhook_denied'', ''AuthFailWebhookDenied''), (''webhook_unavailable'', ''AuthFailWebhookUnavailable'')], NoGate),
     (''machmqtt_scram_sessions_active'', ToInt ''ScramSessionsActive'', NoGate),
     (''machmqtt_auth_failure_tracker_entries'', ToInt ''AuthFailureTrackerEntries'', NoGate)]"

definition message_families :: "family list" where
  "message_families = [
     (''machmqtt_auth_webhook_requests_total'', ToInt ''AuthWebhookRequests'', AuthWebhookGate),
     (''machmqtt_auth_webhook_transport_failures_total'', ToInt ''AuthWebhookTransportFailures'', AuthWebhookGate),
     (''machmqtt_auth_webhook_inflight_rejected_total'', ToInt ''AuthWebhookInflightRejected'', AuthWebhookGate),
     (''machmqtt_nats_enforcement_fallback_total'', ToInt ''NATSEnforcementFallback'', NoGate),
     (''machmqtt_nats_enforcement_denied_total'', ToInt ''NATSEnforcementDenied'', NoGate),
     (''machmqtt_license_feature_rejected_total'', SwitchBy ''feature'' [(''auth_method'', ''LicenseRejectedAuthMethod''), (''retain'', ''LicenseRejectedRetain''), (''proxy_protocol'', ''LicenseRejectedProxyProtocol'')], NoGate),
     (''machmqtt_client_messages_received_total'', SwitchBy ''qos'' [(''0'', ''MsgsRecvQoS0''), (''1'', ''MsgsRecvQoS1''), (''2'', ''MsgsRecvQoS2'')], NoGate),
     (''machmqtt_client_messages_sent_total'', SwitchBy ''qos'' [(''0'', ''MsgsSentQoS0''), (''1'', ''MsgsSentQoS1''), (''2'', ''MsgsSentQoS2'')], NoGate),
     (''machmqtt_client_messages_redelivered_total'', ToInt ''MsgsRedelivered'', NoGate),
     (''machmqtt_server_messages_published_total'', SwitchBy ''qos'' [(''0'', ''ServerPublishedQoS0''), (''1'', ''ServerPublishedQoS1''), (''2'', ''ServerPublishedQoS2'')], NoGate),
     (''machmqtt_server_messages_consumed_total'', SwitchBy ''qos'' [(''0'', ''ServerConsumedQoS0''), (''1'', ''ServerConsumedQoS1''), (''2'', ''ServerConsumedQoS2'')], NoGate),
     (''machmqtt_will_published_total'', ToInt ''WillPublished'', NoGate),
     (''machmqtt_will_dropped_total'', SwitchBy ''reason'' [(''queue_full'', ''WillDroppedQueueFull''), (''publish_error'', ''WillDroppedPublishError''), (''invalid_topic'', ''WillDroppedInvalidTopic''), (''shutdown'', ''WillDroppedShutdown'')], NoGate),
     (''machmqtt_will_suppressed_total'', SwitchBy ''reason'' [(''reconnected'', ''WillSuppressedReconnect''), (''shutdown'', ''WillSuppressedShutdown'')], NoGate),
     (''machmqtt_will_pending'', ToInt ''WillPending'', NoGate),
     (''machmqtt_will_retry_pending'', ToInt ''WillRetryPending'', NoGate),
     (''machmqtt_client_messages_redelivery_suppressed_total'', ToInt ''MsgsRedeliverySuppressed'', NoGate),
     (''machmqtt_retained_delivery_truncated_total'', ToInt ''RetainedDeliveryTruncated'', NoGate),
     (''machmqtt_max_connections'', ToInt ''MaxConnections'', NoGate),
     (''machmqtt_will_persist_failed_total'', SwitchBy ''reason'' [(''write_failed'', ''WillPersistFailedWrite''), (''queue_full'', ''WillPersistFailedQueueFull'')], NoGate),
     (''machmqtt_retain_persist_failed_total'', SwitchBy ''op'' [(''put'', ''RetainPersistFailedPut''), (''delete'', ''RetainPersistFailedDelete'')], NoGate)]"

definition protocol_families :: "family list" where
  "protocol_families = [
     (''machmqtt_subscriptions_total'', ToInt ''Subscribes'', NoGate),
     (''machmqtt_unsubscriptions_total'', ToInt ''Unsubscribes'', NoGate),
     (''machmqtt_keepalive_timeouts_total'', ToInt ''KeepaliveTimeouts'', NoGate),
     (''machmqtt_pingreq_rate_limited_total'', ToInt ''PingreqRateLimited'', NoGate),
     (''machmqtt_nats_disconnects_total'', ToInt ''NATSDisconnects'', NoGate),
     (''machmqtt_nats_reconnects_total'', ToInt ''NATSReconnects'', NoGate),
     (''machmqtt_nats_slow_consumer_total'', ToInt ''NATSSlowConsumer'', NoGate),
     (''machmqtt_panics_recovered_total'', ToInt ''PanicsRecovered'', NoGate),
     (''machmqtt_hook_panics_total'', ToInt ''HookPanics'', NoGate),
     (''machmqtt_subscribe_consumer_failures_total'', ToInt ''SubscribeConsumerFailures'', NoGate),
     (''machmqtt_subscribe_consumer_retries_total'', ToInt ''SubscribeConsumerRetries'', NoGate),
     (''machmqtt_consumers_awaiting_reattach'', ToInt ''ConsumersAwaitingReattach'', NoGate),
     (''machmqtt_reattach_sweep_duration_ms'', ToInt ''ReattachSweepDurationMs'', NoGate),
     (''machmqtt_nats_connected'', ToInt ''NATSConnected'', NoGate),
     (''machmqtt_jetstream_degraded'', ToInt ''JetStreamDegraded'', NoGate),
     (''machmqtt_jetstream_available'', ToInt ''JetStreamAvailable'', NoGate),
     (''machmqtt_jetstream_transitions_total'', ToInt ''JetStreamTransitions'', NoGate),
     (''machmqtt_will_stale_clear_total'', SwitchBy ''outcome'' [(''issued'', ''WillStaleClearAttempted''), (''skipped'', ''WillStaleClearSkipped'')], NoGate),
     (''machmqtt_shared_consumer_recreated_total'', ToInt ''SharedConsumerRecreated'', NoGate),
     (''machmqtt_consumer_deleted_under_consume_total'', ToInt ''ConsumerDeletedUnderConsume'', NoGate),
     (''machmqtt_hook_vetoes_total'', ToInt ''HookVetoes'', NoGate),
     (''machmqtt_sys_tree_published_total'', ToInt ''SysTreePublished'', NoGate),
     (''machmqtt_sys_publish_blocked_total'', ToInt ''SysPublishBlocked'', NoGate),
     (''machmqtt_publish_refused_topic_total'', ToInt ''PublishRefusedTopic'', NoGate),
     (''machmqtt_topic_levels_exceeded_total'', ToInt ''TopicLevelsExceeded'', NoGate),
     (''machmqtt_publish_rejected_state_total'', SumBy ''PublishRejectedState'' ''state'' [(''connecting'', ''PublishRejectedStateConnecting''), (''authenticating'', ''PublishRejectedStateAuthenticating''), (''disconnecting'', ''PublishRejectedStateDisconnecting''), (''closed'', ''PublishRejectedStateClosed''), (''other'', ''PublishRejectedStateOther'')], NoGate),
     (''machmqtt_publish_rejected_qos_total'', SwitchBy ''qos'' [(''0'', ''PublishRejectedQoS0''), (''1'', ''PublishRejectedQoS1''), (''2'', ''PublishRejectedQoS2''), (''3'', ''PublishRejectedQoS3'')], NoGate),
     (''machmqtt_tls_handshake_failures_total'', ToInt ''TLSHandshakeFailures'', NoGate),
     (''machmqtt_proxy_protocol_errors_total'', ToInt ''ProxyProtocolErrors'', NoGate),
     (''machmqtt_ws_upgrade_failures_total'', ToInt ''WSUpgradeFailures'', NoGate),
     (''machmqtt_ws_protocol_violations_total'', ToInt ''WSProtocolViolations'', NoGate),
     (''machmqtt_flowcontrol_overflow_total'', ToInt ''FlowcontrolOverflow'', NoGate),
     (''machmqtt_credential_expiry_disconnects_total'', ToInt ''CredentialExpiryDisconnects'', NoGate),
     (''machmqtt_mtls_identity_fallback_total'', SwitchBy ''reason'' [(''license'', ''MTLSIdentityFallbackLicense''), (''no_match'', ''MTLSIdentityFallbackNoMatch''), (''no_cert'', ''MTLSIdentityFallbackNoCert'')], NoGate),
     (''machmqtt_otel_histogram_skew_clamped_total'', ToInt ''OTelHistogramSkewClamped'', NoGate)]"

definition durability_families :: "family list" where
  "durability_families = [
     (''machmqtt_qos2_server_publish_failed_total'', ToInt ''QoS2ServerPublishFailed'', NoGate),
     (''machmqtt_qos1_client_send_failed_total'', ToInt ''QoS1ClientSendFailed'', NoGate),
     (''machmqtt_qos2_client_send_failed_total'', ToInt ''QoS2ClientSendFailed'', NoGate),
     (''machmqtt_qos2_sync_persist_failed_total'', ToInt ''QoS2SyncPersistFailed'', NoGate),
     (''machmqtt_qos2_await_rel_expired_total'', ToInt ''QoS2AwaitRelExpired'', NoGate),
     (''machmqtt_server_publish_failed_total'', SwitchBy ''qos'' [(''0'', ''ServerPublishFailedQoS0''), (''1'', ''ServerPublishFailedQoS1''), (''2'', ''ServerPublishFailedQoS2'')], NoGate),
     (''machmqtt_qos0_messages_shed_total'', ToInt ''QoS0MessagesShed'', NoGate),
     (''machmqtt_oversized_dropped_total'', ToInt ''OversizedDropped'', NoGate),
     (''machmqtt_publish_outage_disconnects_total'', ToInt ''PublishOutageDisconnects'', NoGate),
     (''machmqtt_server_publish_dropped_total'', ToInt ''ServerPublishDropped'', NoGate),
     (''machmqtt_messages_dead_lettered_total'', ToInt ''MessagesDeadLettered'', NoGate),
     (''machmqtt_poison_messages_terminated_total'', ToInt ''PoisonMessagesTerminated'', NoGate),
     (''machmqtt_dead_letter_write_failed_total'', ToInt ''DeadLetterWriteFailed'', NoGate),
     (''machmqtt_outbound_queue_dropped_total'', ToInt ''OutboundQueueDropped'', NoGate),
     (''machmqtt_outbound_evictions_total'', ToInt ''OutboundEvictions'', NoGate),
     (''machmqtt_outbound_stall_evictions_total'', ToInt ''OutboundStallEvictions'', NoGate),
     (''machmqtt_outbound_over_ceiling_sweeps_total'', ToInt ''OutboundOverCeilingSweeps'', NoGate),
     (''machmqtt_outbound_evict_no_candidate_sweeps_total'', ToInt ''OutboundEvictNoCandidateSweeps'', NoGate),
     (''machmqtt_outbound_stalled_connections'', ToInt ''OutboundStalledConns'', NoGate),
     (''machmqtt_outbound_bytes'', ToInt ''OutboundBytes'', NoGate),
     (''machmqtt_bytes_received_total'', ToInt ''InboundBytes'', NoGate),
     (''machmqtt_bytes_sent_total'', ToInt ''BytesSent'', NoGate),
     (''machmqtt_retained_verify_failures_total'', ToInt ''RetainVerifyFailures'', BridgeGate),
     (''machmqtt_will_verify_failures_total'', ToInt ''WillVerifyFailures'', BridgeGate),
     (''machmqtt_session_verify_failures_total'', ToInt ''SessionVerifyFailures'', BridgeGate),
     (''machmqtt_session_unsigned_accepted_total'', ToInt ''SessionUnsignedAccepted'', BridgeGate),
     (''machmqtt_session_signing_key_present'', ToInt ''SessionSigningKeyPresent'', BridgeGate),
     (''machmqtt_session_signing_required'', ToInt ''SessionSigningRequired'', BridgeGate),
     (''machmqtt_subscribe_flush_failures_total'', ToInt ''SubscribeFlushFailures'', BridgeGate),
     (''machmqtt_retained_messages'', ToInt ''RetainedMessages'', NoGate),
     (''machmqtt_inflight_out_messages'', ToInt ''InflightOutMessages'', NoGate),
     (''machmqtt_subscriptions_active'', ToInt ''SubscriptionsActive'', NoGate),
     (''machmqtt_pool_slot_connected'', ToInt ''PoolSlotConnected'', NoGate),
     (''machmqtt_pool_slot_rebuilds_total'', ToInt ''PoolSlotRebuilds'', NoGate)]"

definition pool_families :: "family list" where
  "pool_families = [
     (''machmqtt_pool_size'', ToPool ''Size'', PoolGate),
     (''machmqtt_pool_buffered_bytes'', ToPool ''BufferedBytes'', PoolGate),
     (''machmqtt_pool_buffered_bytes_max'', ToPool ''BufferedBytesMax'', PoolGate),
     (''machmqtt_pool_slot_buffered_bytes'', ToSlot ''BufferedBytes'', PoolGate),
     (''machmqtt_pool_slot_out_msgs_total'', ToSlot ''OutMsgs'', PoolGate),
     (''machmqtt_pool_slot_in_msgs_total'', ToSlot ''InMsgs'', PoolGate),
     (''machmqtt_reactor_task_queue_depth'', ToReactor ''TaskQueueDepth'', ReactorGate),
     (''machmqtt_reactor_task_queue_depth_max'', ToReactor ''TaskQueueDepthMax'', ReactorGate),
     (''machmqtt_reactor_loop_panics_total'', ToReactor ''LoopPanics'', ReactorGate),
     (''machmqtt_reactor_read_continuations_total'', ToReactor ''ReadContinuations'', ReactorGate),
     (''machmqtt_reactor_write_backpressure_total'', ToReactor ''WriteBackpressure'', ReactorGate),
     (''machmqtt_reactor_feed_write_overflows_total'', ToReactor ''FeedWriteOverflows'', ReactorGate),
     (''machmqtt_reactor_feed_read_overflows_total'', ToReactor ''FeedReadOverflows'', ReactorGate),
     (''machmqtt_reactor_loop_deaths_total'', ToReactor ''LoopDeaths'', ReactorGate),
     (''machmqtt_reactor_registered_slots'', ToReactor ''RegisteredSlots'', ReactorGate),
     (''machmqtt_reactor_stale_events_total'', ToReactor ''StaleEvents'', ReactorGate),
     (''machmqtt_bridge_primary_rebuilds_total'', ToInt ''BridgePrimaryRebuilds'', NoGate),
     (''machmqtt_bridge_rebuilds_degraded_total'', ToInt ''BridgeRebuildsDegraded'', NoGate),
     (''machmqtt_bridge_consumer_reattach_total'', SwitchBy ''result'' [(''reattached'', ''BridgeConsumerReattached''), (''force_disconnected'', ''BridgeConsumerForceDisconnected''), (''push_force_disconnected'', ''BridgeConsumerPushForceDisconnected'')], NoGate),
     (''machmqtt_aggregate_publish_limit_msgs_per_sec'', ToInt ''AggregatePublishLimit'', NoGate),
     (''machmqtt_publish_throttled_total'', SwitchBy ''scope'' [(''per_client'', ''PublishThrottledPerClient''), (''aggregate'', ''PublishThrottledAggregate'')], NoGate),
     (''machmqtt_acl_denied_total'', SwitchBy ''action'' [(''publish'', ''ACLDeniedPublish''), (''subscribe'', ''ACLDeniedSubscribe'')], NoGate),
     (''machmqtt_cluster_inspect_timeouts_total'', ToInt ''ClusterInspectTimeouts'', ClusterGate),
     (''machmqtt_cluster_takeover_dropped_total'', ToInt ''ClusterTakeoverDropped'', ClusterGate),
     (''machmqtt_cluster_takeover_order_skew_total'', ToInt ''ClusterTakeoverOrderSkew'', ClusterGate),
     (''machmqtt_cluster_heartbeat_publish_failures_total'', ToInt ''ClusterHeartbeatPublishFailures'', ClusterGate),
     (''machmqtt_cluster_hmac_failures_total'', ToHMAC, NoGate)]"

definition cluster_families :: "family list" where
  "cluster_families = [
     (''machmqtt_cluster_lease_acquired_total'', ToInt ''ClusterLeaseAcquired'', ClusterGate),
     (''machmqtt_cluster_lease_transferred_total'', ToInt ''ClusterLeaseTransferred'', ClusterGate),
     (''machmqtt_cluster_lease_reclaimed_total'', ToInt ''ClusterLeaseReclaimed'', ClusterGate),
     (''machmqtt_cluster_lease_conflicts_total'', ToInt ''ClusterLeaseConflicts'', ClusterGate),
     (''machmqtt_cluster_lease_watcher_kicks_total'', ToInt ''ClusterLeaseWatcherKicks'', ClusterGate),
     (''machmqtt_cluster_lease_revision_regressions_total'', ToInt ''ClusterLeaseRevisionRegressions'', ClusterGate),
     (''machmqtt_cluster_lease_release_failed_total'', ToInt ''ClusterLeaseReleaseFailed'', ClusterGate),
     (''machmqtt_cluster_owned_leases'', ToInt ''ClusterOwnedLeases'', ClusterGate),
     (''machmqtt_session_fencing_rejected_total'', ToInt ''SessionFencingRejected'', SessionsGate),
     (''machmqtt_worker_pool_queue_depth'', ToInt ''WorkerPoolQueueDepth'', NoGate),
     (''machmqtt_op_queue_depth'', ToInt ''OpQueueDepth'', NoGate),
     (''machmqtt_op_queue_bytes'', ToInt ''OpQueueBytes'', NoGate),
     (''machmqtt_op_suspended_conns'', ToInt ''OpSuspendedConns'', NoGate),
     (''machmqtt_op_shed_qos0_per_conn_bytes_total'', ToInt ''OpShedQoS0PerConnBytes'', NoGate),
     (''machmqtt_op_shed_qos0_total_bytes_total'', ToInt ''OpShedQoS0TotalBytes'', NoGate),
     (''machmqtt_op_shed_qos0_depth_total'', ToInt ''OpShedQoS0Depth'', NoGate),
     (''machmqtt_op_dispatch_batches_total'', ToInt ''OpDispatchBatches'', NoGate),
     (''machmqtt_op_dispatch_messages_total'', ToInt ''OpDispatchMessages'', NoGate),
     (''machmqtt_op_suspend_events_total'', ToInt ''OpSuspendEvents'', NoGate),
     (''machmqtt_op_pool_queue_depth'', ToInt ''OpPoolQueueDepth'', NoGate),
     (''machmqtt_op_pool_rejected_total'', ToInt ''OpPoolRejected'', NoGate),
     (''machmqtt_op_queue_dropped_total'', SumBy ''OpQueueDropped'' ''reason'' [(''pool_full'', ''OpQueueDroppedPoolFull''), (''handler_error'', ''OpQueueDroppedHandlerError''), (''slot_closed'', ''OpQueueDroppedSlotClosed''), (''close_race'', ''OpQueueDroppedCloseRace''), (''worker_abort'', ''OpQueueDroppedWorkerAbort''), (''other'', ''OpQueueDroppedOther'')], NoGate),
     (''machmqtt_drain_ack_unwritable_total'', ToInt ''DrainAckUnwritable'', NoGate),
     (''machmqtt_consumer_seq_map_entries'', ToInt ''ConsumerSeqMapEntries'', BridgeGate),
     (''machmqtt_consumer_deletes_dropped_total'', ToInt ''ConsumerDeletesDropped'', BridgeGate),
     (''machmqtt_consumer_delete_races_total'', ToInt ''ConsumerDeleteRaces'', BridgeGate),
     (''machmqtt_legacy_named_consumers'', ToInt ''LegacyNamedConsumers'', BridgeGate),
     (''machmqtt_jetstream_api_errors'', ToInt ''JetStreamAPIErrors'', BridgeGate),
     (''machmqtt_jetstream_api_requests'', ToInt ''JetStreamAPIRequests'', BridgeGate),
     (''machmqtt_jetstream_health_probe_failures_total'', ToInt ''JetStreamHealthProbeFailures'', BridgeGate),
     (''machmqtt_stream_ensure_retries_total'', ToInt ''StreamEnsureRetries'', BridgeGate),
     (''machmqtt_stream_ensure_stalls_total'', ToInt ''StreamEnsureStalls'', BridgeGate),
     (''machmqtt_session_qos2_purge_failures_total'', SwitchBy ''path'' [(''sync_connect'', ''SessionQoS2PurgeFailuresSyncConnect''), (''async_death'', ''SessionQoS2PurgeFailuresAsyncDeath'')], BridgeGate),
     (''machmqtt_session_deletes_dropped_total'', ToInt ''SessionDeletesDropped'', BridgeGate),
     (''machmqtt_session_persist_failed_total'', SwitchBy ''reason'' [(''write_failed'', ''SessionPersistFailedWriteFailed''), (''queue_full'', ''SessionPersistFailedQueueFull''), (''panic'', ''SessionPersistPanics'')], SessionsGate),
     (''machmqtt_tls_cert_reload_failures_total'', ToInt ''TLSCertReloadFailures'', NoGate),
     (''machmqtt_oauth2_jwks_fetch_failures_total'', ToInt ''OAuth2JWKSFetchFailures'', NoGate),
     (''machmqtt_oauth2_token_cache_evictions_total'', ToInt ''OAuth2TokenCacheEvictions'', NoGate),
     (''machmqtt_audit_write_failures_total'', ToInt ''AuditWriteFailures'', NoGate)]"

definition license_families :: "family list" where
  "license_families = [
     (''machmqtt_license_valid'', ToLicense ''Valid'', LicenseGate),
     (''machmqtt_license_status'', ToLicense ''Status'', LicenseGate),
     (''machmqtt_license_expires_timestamp'', ToExpiry, LicenseGate),
     (''machmqtt_license_connections_limit'', ToLicense ''ConnectionsLimit'', LicenseGate),
     (''machmqtt_license_connections_global'', ToLicense ''ConnectionsGlobal'', LicenseGate),
     (''machmqtt_license_max_qos'', ToLicense ''MaxQoS'', LicenseGate),
     (''machmqtt_license_instances'', ToLicense ''Instances'', LicenseGate),
     (''machmqtt_license_degraded'', ToLicense ''Degraded'', LicenseGate),
     (''machmqtt_license_block_confirmed'', ToLicense ''BlockConfirmed'', LicenseGate),
     (''machmqtt_license_capacity_clamped'', ToLicense ''CapacityClamped'', LicenseGate),
     (''machmqtt_license_clamp_floor'', ToLicense ''ClampFloor'', LicenseGate),
     (''machmqtt_license_peer_discrepancy'', ToLicense ''PeerDiscrepancy'', LicenseGate),
     (''machmqtt_license_permission_violations_total'', ToLicense ''PermissionViolations'', LicenseGate),
     (''machmqtt_license_heartbeat_publish_failures_total'', ToLicense ''HeartbeatPublishFailures'', LicenseGate),
     (''machmqtt_session_write_behind_depth'', ToInt ''SessionWriteBehindDepth'', NoGate),
     (''machmqtt_consumer_pending_messages'', ToInt ''ConsumerPendingMessages'', NoGate),
     (''machmqtt_stalled_consumers'', ToInt ''StalledConsumers'', NoGate),
     (''machmqtt_publish_latency_seconds_count'', ToInt ''PublishLatencyCount'', NoGate),
     (''machmqtt_publish_latency_seconds_sum'', ToFloat ''PublishLatencySumSeconds'', NoGate),
     (''machmqtt_auth_duration_seconds_count'', ToInt ''AuthDurationCount'', NoGate),
     (''machmqtt_auth_duration_seconds_sum'', ToFloat ''AuthDurationSumSeconds'', NoGate),
     (''machmqtt_auth_webhook_duration_seconds_count'', ToInt ''AuthWebhookDurationCount'', NoGate),
     (''machmqtt_auth_webhook_duration_seconds_sum'', ToFloat ''AuthWebhookDurationSumSeconds'', NoGate),
     (''machmqtt_jetstream_publish_duration_seconds_count'', ToInt ''JSPublishDurationCount'', NoGate),
     (''machmqtt_jetstream_publish_duration_seconds_sum'', ToFloat ''JSPublishDurationSumSeconds'', NoGate),
     (''machmqtt_qos2_sync_persist_duration_seconds_count'', ToInt ''QoS2SyncPersistDurationCount'', NoGate),
     (''machmqtt_qos2_sync_persist_duration_seconds_sum'', ToFloat ''QoS2SyncPersistDurationSumSeconds'', NoGate),
     (''machmqtt_subscribe_duration_seconds_count'', ToInt ''SubscribeDurationCount'', NoGate),
     (''machmqtt_subscribe_duration_seconds_sum'', ToFloat ''SubscribeDurationSumSeconds'', NoGate),
     (''machmqtt_dispatch_wait_seconds_count'', ToInt ''DispatchWaitCount'', NoGate),
     (''machmqtt_dispatch_wait_seconds_sum'', ToFloat ''DispatchWaitSumSeconds'', NoGate),
     (''machmqtt_tls_handshake_duration_seconds_count'', ToInt ''TLSHandshakeDurationCount'', NoGate),
     (''machmqtt_tls_handshake_duration_seconds_sum'', ToFloat ''TLSHandshakeDurationSumSeconds'', NoGate)]"

definition families_before :: "family list" where
  "families_before = connection_families @ message_families @ protocol_families @ durability_families @ pool_families @ cluster_families @ license_families"

section \<open>The families after it\<close>

definition families_after :: "family list" where
  "families_after = [
     (''machmqtt_process_open_fds'', ToInt ''ProcessOpenFDs'', NoGate),
     (''machmqtt_process_max_fds'', ToInt ''ProcessMaxFDs'', NoGate),
     (''machmqtt_go_goroutines'', ToInt ''GoGoroutines'', NoGate),
     (''machmqtt_go_heap_inuse_bytes'', ToInt ''GoHeapInuseBytes'', NoGate),
     (''machmqtt_go_alloc_bytes_total'', ToInt ''GoAllocBytesTotal'', NoGate),
     (''machmqtt_go_gc_cycles_total'', ToInt ''GoGCCycles'', NoGate),
     (''machmqtt_go_gc_pause_ns_total'', ToInt ''GoGCPauseNsTotal'', NoGate),
     (''machmqtt_instance_info'', ToInstanceID, NoGate),
     (''machmqtt_drained'', ToInt ''Drained'', NoGate)]"

section \<open>The histogram families and the fields of their buckets\<close>

definition histogramFamilies :: "string list" where
  "histogramFamilies = [''machmqtt_publish_latency_seconds'', ''machmqtt_auth_duration_seconds'',
     ''machmqtt_auth_webhook_duration_seconds'', ''machmqtt_jetstream_publish_duration_seconds'',
     ''machmqtt_qos2_sync_persist_duration_seconds'', ''machmqtt_subscribe_duration_seconds'',
     ''machmqtt_dispatch_wait_seconds'', ''machmqtt_tls_handshake_duration_seconds'']"

definition histBuckets :: "(string \<times> string) list" where
  "histBuckets = [(''machmqtt_publish_latency_seconds'', ''PublishLatencyBuckets''),
     (''machmqtt_auth_duration_seconds'', ''AuthDurationBuckets''),
     (''machmqtt_auth_webhook_duration_seconds'', ''AuthWebhookDurationBuckets''),
     (''machmqtt_jetstream_publish_duration_seconds'', ''JSPublishDurationBuckets''),
     (''machmqtt_qos2_sync_persist_duration_seconds'', ''QoS2SyncPersistDurationBuckets''),
     (''machmqtt_subscribe_duration_seconds'', ''SubscribeDurationBuckets''),
     (''machmqtt_dispatch_wait_seconds'', ''DispatchWaitBuckets''),
     (''machmqtt_tls_handshake_duration_seconds'', ''TLSHandshakeDurationBuckets'')]"

end
