(* ===== verification/GoFloat.thy ===== *)
theory GoFloat
  imports GoLib Float64
begin

text \<open>
  \<^verbatim>\<open>strconv.ParseFloat\<close> at 64 bits: Go's decimal and hexadecimal floating-point literals with an
  optional sign, digit separators, infinities and not-a-number, rounded to nearest. The result is a
  value and whether the error is nil: a number out of range gives an infinity and an error.
\<close>

section \<open>Syntax\<close>

definition mant_char :: "bool \<Rightarrow> char \<Rightarrow> bool" where
  "mant_char hex c \<longleftrightarrow> c = CHR ''_'' \<or> c = CHR ''.'' \<or> is_digit c \<or> hex \<and> is_hex c"

definition take_sign :: "string \<Rightarrow> bool \<times> string" where
  "take_sign s = (case s of
      [] \<Rightarrow> (False, [])
    | c # cs \<Rightarrow> if c = CHR ''+'' then (False, cs) else if c = CHR ''-'' then (True, cs) else (False, s))"

text \<open>Where a digit separator may stand: between digits, or after the prefix of a hexadecimal literal.\<close>

fun separators_ok :: "bool \<Rightarrow> char \<Rightarrow> string \<Rightarrow> bool" where
  "separators_ok hex p [] = (p \<noteq> CHR ''_'')"
| "separators_ok hex p (c # cs) =
    (if is_digit c \<or> hex \<and> is_hex c then separators_ok hex CHR ''0'' cs
     else if c = CHR ''_'' then p = CHR ''0'' \<and> separators_ok hex CHR ''_'' cs
     else p \<noteq> CHR ''_'' \<and> separators_ok hex CHR ''!'' cs)"

definition underscoreOK :: "bool \<Rightarrow> string \<Rightarrow> bool" where
  "underscoreOK hex body = (if hex then separators_ok True CHR ''0'' body else separators_ok False CHR ''^'' body)"

text \<open>An exponent stops growing once it has passed ten thousand.\<close>

definition exp_value :: "string \<Rightarrow> nat" where
  "exp_value s = foldl (\<lambda>e c. if e < 10000 then 10 * e + (byte_of c - 48) else e) 0 s"

definition parse_exp :: "char \<Rightarrow> string \<Rightarrow> int option option" where
  "parse_exp mark rest = (case rest of
      [] \<Rightarrow> Some None
    | c # cs \<Rightarrow>
        if lower_char c \<noteq> mark then None
        else let (neg, ds) = take_sign cs
             in if ds = [] \<or> \<not> is_digit (hd ds) \<or> \<not> list_all (\<lambda>d. is_digit d \<or> d = CHR ''_'') ds then None
                else let e = int (exp_value (filter is_digit ds)) in Some (Some (if neg then - e else e)))"

text \<open>Sign and exact value of a literal.\<close>

definition read_float :: "string \<Rightarrow> rat option" where
  "read_float s =
    (let (neg, s1) = take_sign s;
         hex = (HasPrefix (ToLower s1) ''0x'' \<and> 3 \<le> length s1);
         body = (if hex then drop 2 s1 else s1);
         m = takeWhile (mant_char hex) body;
         rest = dropWhile (mant_char hex) body;
         frac = dropWhile (\<lambda>c. c \<noteq> CHR ''.'') m;
         digits = filter (\<lambda>c. c \<noteq> CHR ''.'' \<and> c \<noteq> CHR ''_'') m;
         after = length (filter (\<lambda>c. c \<noteq> CHR ''.'' \<and> c \<noteq> CHR ''_'') frac);
         num = (if hex then hex_value digits else dec_value digits);
         val = (\<lambda>e. (if neg then - 1 else 1) * (if hex then of_nat num * pow2 (e - 4 * int after)
                    else of_nat num * (if 0 \<le> e - int after then 10 ^ nat (e - int after) else 1 / 10 ^ nat (int after - e))))
     in if digits = [] \<or> 1 < length (filter (\<lambda>c. c = CHR ''.'') m)
           \<or> CHR ''_'' \<in> set body \<and> \<not> underscoreOK hex body then None
        else case parse_exp (if hex then CHR ''p'' else CHR ''e'') rest of
            None \<Rightarrow> None
          | Some None \<Rightarrow> if hex then None else Some (val 0)
          | Some (Some e) \<Rightarrow> Some (val e))"

definition read_special :: "string \<Rightarrow> f64 option" where
  "read_special s =
    (let (neg, s1) = take_sign s; l = ToLower s1
     in if l = ''inf'' \<or> l = ''infinity'' then Some (if neg then NInf else PInf)
        else if ToLower s = ''nan'' then Some NaN else None)"

definition ParseFloat :: "string \<Rightarrow> f64 \<times> bool" where
  "ParseFloat s = (case read_special s of
      Some f \<Rightarrow> (f, True)
    | None \<Rightarrow> (case read_float s of
        None \<Rightarrow> (Fin 0, False)
      | Some q \<Rightarrow> (f_round q, case f_round q of Fin _ \<Rightarrow> True | _ \<Rightarrow> False)))"

section \<open>Decimal integers\<close>

lemma byte_of_digit: "d < 10 \<Longrightarrow> byte_of (char_of (48 + d)) = 48 + d"
  by (simp add: byte_of_def of_char_mod_256)

lemma nat_digits_digit: "c \<in> set (nat_digits n) \<Longrightarrow> is_digit c"
proof (induction n rule: nat_digits.induct)
  case (1 n)
  then show ?case by (subst (asm) nat_digits.simps) (auto simp: is_digit_def byte_of_digit split: if_splits)
qed

lemma nat_digits_nonempty [simp]: "nat_digits n \<noteq> []"
  by (subst nat_digits.simps) simp

lemma dec_value_append: "dec_value (a @ [c]) = 10 * dec_value a + (byte_of c - 48)"
  by (simp add: dec_value_def)

lemma dec_value_nat_digits: "dec_value (nat_digits n) = n"
proof (induction n rule: nat_digits.induct)
  case (1 n)
  then show ?case
    by (subst nat_digits.simps) (simp add: dec_value_append byte_of_digit, simp add: dec_value_def byte_of_digit)
qed

lemma is_digit_mant: "is_digit c \<Longrightarrow> mant_char hex c"
  by (simp add: mant_char_def)

lemma is_digit_space: "is_digit c \<Longrightarrow> \<not> is_space c"
  by (simp add: is_digit_def is_space_def)

lemma is_digit_lower: "is_digit c \<Longrightarrow> lower_char c = c"
  by (simp add: is_digit_def lower_char_def)

lemma is_digit_other:
  assumes "is_digit c"
  shows "c \<noteq> CHR ''.''" "c \<noteq> CHR ''_''" "c \<noteq> CHR ''+''" "c \<noteq> CHR ''-''" "c \<noteq> CHR ''x''" "c \<noteq> CHR ''i''" "c \<noteq> CHR ''n''"
proof -
  have "\<not> is_digit (CHR ''.'')" "\<not> is_digit (CHR ''_'')" "\<not> is_digit (CHR ''+'')" "\<not> is_digit (CHR ''-'')"
    "\<not> is_digit (CHR ''x'')" "\<not> is_digit (CHR ''i'')" "\<not> is_digit (CHR ''n'')"
    by (simp_all add: is_digit_def byte_of_def)
  with assms show "c \<noteq> CHR ''.''" "c \<noteq> CHR ''_''" "c \<noteq> CHR ''+''" "c \<noteq> CHR ''-''" "c \<noteq> CHR ''x''"
    "c \<noteq> CHR ''i''" "c \<noteq> CHR ''n''"
    by blast+
qed

lemmas is_digit_facts = is_digit_mant is_digit_space is_digit_lower is_digit_other

text \<open>A counter as the exposition format prints it is read back exactly, up to rounding beyond 53 bits.\<close>

lemma read_special_digit:
  assumes "is_digit c"
  shows "read_special (c # s) = None"
  using is_digit_other[OF assms] by (simp add: read_special_def take_sign_def ToLower_def Let_def is_digit_lower[OF assms])

lemma read_float_digits:
  assumes "ds \<noteq> []" "\<forall>c\<in>set ds. is_digit c"
  shows "read_float ds = Some (of_nat (dec_value ds))"
proof -
  have f: "\<And>c. c \<in> set ds \<Longrightarrow> mant_char False c \<and> c \<noteq> CHR ''.'' \<and> c \<noteq> CHR ''_'' \<and> c \<noteq> CHR ''x''
      \<and> lower_char c = c \<and> c \<noteq> CHR ''+'' \<and> c \<noteq> CHR ''-''"
    using assms(2) is_digit_facts by simp
  have s: "take_sign ds = (False, ds)" using f assms(1) by (cases ds) (auto simp: take_sign_def)
  have l: "ToLower ds = ds" using f by (simp add: ToLower_def map_idI)
  have h: "\<not> HasPrefix ds ''0x''" using f[of "CHR ''x''"] by (auto simp: HasPrefix_iff)
  have t: "takeWhile (mant_char False) ds = ds" "dropWhile (mant_char False) ds = []"
    "dropWhile (\<lambda>c. c \<noteq> CHR ''.'') ds = []" "filter (\<lambda>c. c \<noteq> CHR ''.'' \<and> c \<noteq> CHR ''_'') ds = ds"
    "filter (\<lambda>c. c = CHR ''.'') ds = []" "CHR ''_'' \<notin> set ds"
    using f by (auto simp: filter_empty_conv intro!: filter_True)
  show ?thesis using assms(1) by (simp add: read_float_def s l h t parse_exp_def Let_def)
qed

lemma ParseFloat_nat:
  "ParseFloat (nat_digits n) = (f_of_int (int n), case f_of_int (int n) of Fin _ \<Rightarrow> True | _ \<Rightarrow> False)"
proof -
  obtain c cs where c: "nat_digits n = c # cs" by (cases "nat_digits n") simp_all
  have d: "\<forall>x\<in>set (nat_digits n). is_digit x" using nat_digits_digit by blast
  then have "is_digit c" by (simp add: c)
  with read_float_digits[OF _ d] show ?thesis
    by (simp add: ParseFloat_def c read_special_digit flip: c) (simp add: c read_special_digit dec_value_nat_digits[of n, unfolded c] f_of_int_def)
qed

end
