(* ===== verification/PromLexer.thy ===== *)
theory PromLexer
  imports GoFloat
begin

text \<open>
  The lexer of the Prometheus exposition format in \<^verbatim>\<open>internal/collector/mqtt_metrics_parser.go\<close>: sample
  values, metric names, label blocks and escaped label values.
\<close>

section \<open>Numbers\<close>

definition trunc_rat :: "rat \<Rightarrow> int" where
  "trunc_rat q = (if q < 0 then - \<lfloor>- q\<rfloor> else \<lfloor>q\<rfloor>)"

definition parse_int_value :: "f64 \<Rightarrow> int" where
  "parse_int_value f = (case f of
      NaN \<Rightarrow> 0
    | PInf \<Rightarrow> max_int64
    | NInf \<Rightarrow> min_int64
    | Fin q \<Rightarrow> if 2 ^ 63 \<le> q then max_int64 else if q \<le> - (2 ^ 63) then min_int64 else trunc_rat q)"

definition parseInt :: "string \<Rightarrow> int" where
  "parseInt s = (let (f, ok) = ParseFloat s in if ok then parse_int_value f else 0)"

definition parseFloat :: "string \<Rightarrow> f64" where
  "parseFloat s = fst (ParseFloat s)"

section \<open>Lexer\<close>

text \<open>White space separated tokens, as \<^verbatim>\<open>strings.Fields\<close>.\<close>

function Fields :: "string \<Rightarrow> string list" where
  "Fields s = (let t = dropWhile is_space s
     in if t = [] then [] else takeWhile (\<lambda>c. \<not> is_space c) t # Fields (dropWhile (\<lambda>c. \<not> is_space c) t))"
  by pat_completeness auto
termination
proof (relation "measure length")
  show "(dropWhile (\<lambda>c. \<not> is_space c) t, s) \<in> measure length" if a: "t = dropWhile is_space s" and b: "t \<noteq> []" for s t
  proof -
    obtain c cs where t: "t = c # cs" using b by (cases t) auto
    have "\<not> is_space c" using hd_dropWhile[of is_space s] b unfolding a[symmetric] by (simp add: t)
    then have "dropWhile (\<lambda>c. \<not> is_space c) t = dropWhile (\<lambda>c. \<not> is_space c) cs" by (simp add: t)
    moreover have "length (dropWhile (\<lambda>c. \<not> is_space c) cs) \<le> length cs" by (rule length_dropWhile_le)
    moreover have "length t \<le> length s" unfolding a by (rule length_dropWhile_le)
    ultimately show ?thesis by (simp add: t)
  qed
qed simp

declare Fields.simps [simp del]

abbreviation quote :: char where "quote \<equiv> CHR 0x22"
abbreviation backslash :: char where "backslash \<equiv> CHR 0x5C"
abbreviation lbrace :: char where "lbrace \<equiv> CHR ''{''"
abbreviation rbrace :: char where "rbrace \<equiv> CHR ''}''"
abbreviation newline :: char where "newline \<equiv> CHR 0x0A"

text \<open>\<open>block_end\<close> walks the text behind the opening brace; \<open>i\<close> is the offset it has reached.\<close>

fun block_end :: "bool \<Rightarrow> nat \<Rightarrow> string \<Rightarrow> nat option" where
  "block_end inQuote i [] = None"
| "block_end inQuote i (c # cs) =
    (if c = backslash then
       (if inQuote then (case cs of [] \<Rightarrow> None | _ # ds \<Rightarrow> block_end inQuote (i + 2) ds)
        else block_end inQuote (i + 1) cs)
     else if c = quote then block_end (\<not> inQuote) (i + 1) cs
     else if c = rbrace \<and> \<not> inQuote then Some i
     else block_end inQuote (i + 1) cs)"

definition labelBlockEnd :: "string \<Rightarrow> nat \<Rightarrow> nat option" where
  "labelBlockEnd line i = block_end False (i + 1) (drop (i + 1) line)"

definition parseMetricLine :: "string \<Rightarrow> string \<times> string" where
  "parseMetricLine line = (case IndexOf line [lbrace] of
      Some idx \<Rightarrow> (take idx line,
        (case labelBlockEnd line idx of
           None \<Rightarrow> []
         | Some e \<Rightarrow> (case Fields (drop (e + 1) line) of [] \<Rightarrow> [] | f # _ \<Rightarrow> f)))
    | None \<Rightarrow> (case Fields line of n # v # _ \<Rightarrow> (n, v) | _ \<Rightarrow> ([], [])))"

text \<open>The value of a quoted label and the text behind its closing quote.\<close>

fun scanLabelValue :: "string \<Rightarrow> (string \<times> string) option" where
  "scanLabelValue [] = None"
| "scanLabelValue (c # cs) =
    (if c = quote then Some ([], cs)
     else if c = backslash then
       (case cs of
          [] \<Rightarrow> None
        | d # ds \<Rightarrow> map_option (\<lambda>(v, rest).
            ((if d = CHR ''n'' then [newline] else if d = backslash then [backslash]
              else if d = quote then [quote] else [backslash, d]) @ v, rest)) (scanLabelValue ds))
     else map_option (\<lambda>(v, rest). (c # v, rest)) (scanLabelValue cs))"

lemma scanLabelValue_shorter: "scanLabelValue s = Some (v, rest) \<Longrightarrow> length rest < length s"
  by (induction s arbitrary: v rest rule: scanLabelValue.induct) (fastforce split: if_splits list.splits)+

function find_label :: "string \<Rightarrow> string \<Rightarrow> string" where
  "find_label key s =
    (if s = [] \<or> hd s = rbrace then []
     else case IndexOf s ''='' of
         None \<Rightarrow> []
       | Some eq \<Rightarrow>
           (case drop (eq + 1) s of
              [] \<Rightarrow> []
            | c # t \<Rightarrow>
                if c \<noteq> quote then []
                else (case scanLabelValue t of
                        None \<Rightarrow> []
                      | Some (val, rest) \<Rightarrow>
                          if TrimSpace (take eq s) = key then val
                          else find_label key (dropWhile (\<lambda>c. c = CHR '','' \<or> c = CHR '' '') rest))))"
  by pat_completeness auto
termination
proof (relation "measure (\<lambda>(key, s). length s)")
  show "((key, dropWhile (\<lambda>c. c = CHR '','' \<or> c = CHR '' '') rest), key, s) \<in> measure (\<lambda>(key, s). length s)"
    if "drop (eq + 1) s = c # t" "scanLabelValue t = Some y" "(val, rest) = y" for key s eq c t y val rest
  proof -
    have "length (dropWhile (\<lambda>c. c = CHR '','' \<or> c = CHR '' '') rest) \<le> length rest" by (rule length_dropWhile_le)
    also have "length rest < length t" using that(2) by (simp add: scanLabelValue_shorter flip: that(3))
    also have "length t \<le> length s" using arg_cong[OF that(1), of length] by simp
    finally show ?thesis by simp
  qed
qed simp

declare find_label.simps [simp del]

definition extractLabel :: "string \<Rightarrow> string \<Rightarrow> string" where
  "extractLabel line key = (case IndexOf line [lbrace] of
      None \<Rightarrow> []
    | Some i \<Rightarrow> find_label key (drop (i + 1) line))"

section \<open>Rendering, as the exposition format defines it\<close>

definition escape :: "string \<Rightarrow> string" where
  "escape v = concat (map (\<lambda>c. if c = newline then [backslash, CHR ''n''] else if c = backslash then [backslash, backslash]
     else if c = quote then [backslash, quote] else [c]) v)"

fun render_labels :: "(string \<times> string) list \<Rightarrow> string" where
  "render_labels [] = [rbrace]"
| "render_labels [(k, v)] = k @ CHR ''='' # quote # escape v @ [quote, rbrace]"
| "render_labels ((k, v) # ls) = k @ CHR ''='' # quote # escape v @ quote # CHR '','' # render_labels ls"

definition render_sample :: "string \<Rightarrow> (string \<times> string) list \<Rightarrow> string \<Rightarrow> string" where
  "render_sample name labels value = name @ lbrace # render_labels labels @ CHR '' '' # value"

definition plain_char :: "char \<Rightarrow> bool" where
  "plain_char c \<longleftrightarrow> \<not> is_space c \<and> c \<noteq> lbrace \<and> c \<noteq> rbrace \<and> c \<noteq> quote \<and> c \<noteq> backslash
     \<and> c \<noteq> CHR ''='' \<and> c \<noteq> CHR '',''"

definition plain_name :: "string \<Rightarrow> bool" where
  "plain_name s \<longleftrightarrow> s \<noteq> [] \<and> (\<forall>c\<in>set s. plain_char c)"

lemma escape_simps [simp]: "escape [] = []"
  "escape (c # cs) = (if c = newline then [backslash, CHR ''n''] else if c = backslash then [backslash, backslash]
     else if c = quote then [backslash, quote] else [c]) @ escape cs"
  by (simp_all add: escape_def)

lemma scan_escape: "scanLabelValue (escape v @ quote # rest) = Some (v, rest)"
  by (induction v) auto

lemma block_end_escape:
  "block_end True i (escape v @ quote # rest) = block_end False (i + length (escape v) + 1) rest"
  by (induction v arbitrary: i) (auto simp: add.commute add.left_commute)

lemma block_end_plain:
  "\<forall>c\<in>set k. plain_char c \<Longrightarrow> block_end False i (k @ rest) = block_end False (i + length k) rest"
  by (induction k arbitrary: i) (auto simp: plain_char_def)

lemma block_end_labels:
  "\<forall>l\<in>set ls. plain_name (fst l)
    \<Longrightarrow> block_end False i (render_labels ls @ rest) = Some (i + length (render_labels ls) - 1)"
proof (induction ls arbitrary: i rule: render_labels.induct)
  case (2 k v)
  then show ?case by (simp add: plain_name_def block_end_plain block_end_escape)
next
  case (3 k v l ls)
  then have "render_labels (l # ls) \<noteq> []" by (cases l; cases ls) auto
  then have "length (render_labels (l # ls)) > 0" by simp
  with 3 show ?case by (simp add: plain_name_def block_end_plain block_end_escape add.commute add.left_commute)
qed simp

lemma IndexOf_char:
  "c \<notin> set s \<Longrightarrow> IndexOf (s @ c # t) [c] = Some (length s)"
  by (induction s) (auto simp: HasPrefix_def)

lemma dropWhile_none: "\<forall>c\<in>set s. \<not> P c \<Longrightarrow> dropWhile P s = s"
  by (cases s) auto

lemma TrimSpace_plain: "\<forall>c\<in>set s. \<not> is_space c \<Longrightarrow> TrimSpace s = s"
  by (simp add: TrimSpace_def dropWhile_none)

lemma is_space_blank: "is_space (CHR '' '')"
  by (simp add: is_space_def byte_of_def)

text \<open>One step of the label search over a rendered label.\<close>

lemma find_label_step:
  assumes "plain_name k"
  shows "find_label key (k @ CHR ''='' # quote # escape v @ quote # rest)
    = (if k = key then v else find_label key (dropWhile (\<lambda>c. c = CHR '','' \<or> c = CHR '' '') rest))"
proof -
  let ?s = "k @ CHR ''='' # quote # escape v @ quote # rest"
  have k: "k \<noteq> []" "\<forall>c\<in>set k. plain_char c" using assms by (simp_all add: plain_name_def)
  then have "hd ?s \<noteq> rbrace" "?s \<noteq> []" by (cases k; auto simp: plain_char_def)+
  moreover have "IndexOf ?s ''=''= Some (length k)" using k by (intro IndexOf_char) (auto simp: plain_char_def)
  moreover have "TrimSpace k = k" using k by (intro TrimSpace_plain) (auto simp: plain_char_def)
  ultimately show ?thesis by (subst find_label.simps) (simp add: scan_escape)
qed

lemma render_labels_hd:
  assumes "plain_name (fst l)"
  shows "\<exists>c cs. render_labels (l # ls) = c # cs \<and> plain_char c"
proof -
  obtain k v where l: "l = (k, v)" by (cases l)
  obtain c cs where "k = c # cs" "plain_char c" using assms by (cases k) (auto simp: l plain_name_def)
  then show ?thesis by (cases ls) (simp_all add: l)
qed

lemma find_label_rendered:
  "\<forall>l\<in>set ls. plain_name (fst l)
    \<Longrightarrow> find_label key (render_labels ls @ rest) = (case map_of ls key of Some v \<Rightarrow> v | None \<Rightarrow> [])"
proof (induction ls rule: render_labels.induct)
  case 1
  then show ?case by (subst find_label.simps) simp
next
  case (2 k v)
  have "find_label key (rbrace # rest) = []" by (subst find_label.simps) simp
  then show ?case using 2 find_label_step[of k key v "rbrace # rest"] by simp
next
  case (3 k v l ls)
  obtain c cs where c: "render_labels (l # ls) = c # cs" "plain_char c" using 3(2) render_labels_hd[of l ls] by auto
  then have "c \<noteq> CHR '',''" "c \<noteq> CHR '' ''" using is_space_blank by (auto simp: plain_char_def)
  then have d: "dropWhile (\<lambda>c. c = CHR '','' \<or> c = CHR '' '') (render_labels (l # ls) @ rest) = render_labels (l # ls) @ rest"
    by (simp add: c(1))
  show ?case using 3 find_label_step[of k key v "CHR '','' # render_labels (l # ls) @ rest"] by (simp add: d)
qed

lemma Fields_one:
  assumes "v \<noteq> []" "\<forall>c\<in>set v. \<not> is_space c"
  shows "Fields (CHR '' '' # v) = [v]"
proof -
  have d: "dropWhile is_space (CHR '' '' # v) = v"
    using assms by (simp add: is_space_blank dropWhile_none)
  have t: "takeWhile (\<lambda>c. \<not> is_space c) v = v" "dropWhile (\<lambda>c. \<not> is_space c) v = []" using assms by auto
  have "Fields [] = []" by (subst Fields.simps) simp
  then show ?thesis using assms(1) by (subst Fields.simps) (simp only: d t Let_def if_False)
qed

text \<open>
  C25. A sample line as the exposition format renders it is read back exactly: the name, the value and
  every label, whatever bytes the label values hold. Braces, quotes, backslashes and newlines in a
  value neither end the block early nor change the value, and a label name is never found inside
  another one.
\<close>

theorem rendered_sample_is_read_back:
  assumes "plain_name name" "\<forall>l\<in>set labels. plain_name (fst l)" "value \<noteq> []" "\<forall>c\<in>set value. \<not> is_space c"
  shows "parseMetricLine (render_sample name labels value) = (name, value)
    \<and> extractLabel (render_sample name labels value) key = (case map_of labels key of Some v \<Rightarrow> v | None \<Rightarrow> [])"
proof -
  let ?line = "render_sample name labels value"
  have n: "lbrace \<notin> set name" using assms(1) by (auto simp: plain_name_def plain_char_def)
  have i: "IndexOf ?line [lbrace] = Some (length name)"
    unfolding render_sample_def by (rule IndexOf_char[OF n])
  have pos: "0 < length (render_labels labels)" by (cases labels rule: render_labels.cases) auto
  have "labelBlockEnd ?line (length name) = Some (length name + length (render_labels labels))"
    using block_end_labels[OF assms(2), of "length name + 1" "CHR '' '' # value"] pos
    by (simp add: labelBlockEnd_def render_sample_def)
  then have "parseMetricLine ?line = (name, value)"
    using Fields_one[OF assms(3,4)] by (simp add: parseMetricLine_def i) (simp add: render_sample_def)
  moreover have "extractLabel ?line key = (case map_of labels key of Some v \<Rightarrow> v | None \<Rightarrow> [])"
    using find_label_rendered[OF assms(2), of key "CHR '' '' # value"]
    by (simp add: extractLabel_def i) (simp add: render_sample_def)
  ultimately show ?thesis by simp
qed

lemma rendered_sample_is_read_back_witness:
  "extractLabel (render_sample ''m'' [(''source_instance_id'', [quote, rbrace, backslash, CHR ''n'', newline]), (''le'', ''1'')] ''7'')
      ''source_instance_id'' = [quote, rbrace, backslash, CHR ''n'', newline]"
  by (subst conjunct2[OF rendered_sample_is_read_back]) (simp_all add: plain_name_def plain_char_def is_space_def byte_of_def)

end
