(* ===== verification/MetricsParser.thy ===== *)
theory MetricsParser
  imports MetricTables PromLexer
begin

text \<open>
  The Prometheus scraper of \<^verbatim>\<open>internal/collector/mqtt_metrics_parser.go\<close>: the loop over the lines with
  the families of \<open>MetricTables\<close>, the histogram conversion, and the decoding of a pushed counter set.
\<close>

section \<open>Histograms\<close>

definition index_of :: "'a \<Rightarrow> 'a list \<Rightarrow> nat option" where
  "index_of x xs = (let n = length (takeWhile (\<lambda>y. y \<noteq> x) xs) in if n < length xs then Some n else None)"

definition histBucketIndex :: "string \<Rightarrow> nat option" where
  "histBucketIndex le = (case ParseFloat le of
      (Fin q, True) \<Rightarrow> index_of (Fin q) MQTTHistogramBounds
    | _ \<Rightarrow> None)"

fun running_max :: "int \<Rightarrow> int list \<Rightarrow> int list" where
  "running_max m [] = []"
| "running_max m (x # xs) = max x m # running_max (max x m) xs"

definition bucketsCumulativeToRaw :: "int list \<Rightarrow> int list" where
  "bucketsCumulativeToRaw cum = (case cum of
      [] \<Rightarrow> []
    | x # xs \<Rightarrow> let c = x # running_max x xs in x # map2 (\<lambda>a b. wrap64 (a - b)) (tl c) (butlast c))"

text \<open>The placement of a pushed bucket array, by its length.\<close>

definition place_buckets :: "int list \<Rightarrow> int list" where
  "place_buckets raw =
    (let zero = replicate MQTTHistogramBucketCount 0
     in if length raw = MQTTHistogramBucketCount then raw
        else if length raw = length legacyHistogramBounds then
          fold (\<lambda>(bound, v) h. case index_of bound MQTTHistogramBounds of Some i \<Rightarrow> h[i := v] | None \<Rightarrow> h)
            (zip legacyHistogramBounds raw) zero
        else zero)"

section \<open>Scraping\<close>

text \<open>
  The locals of the loop. \<open>lic\<close>, \<open>reactor\<close> and \<open>pool\<close> are reached through pointers, so what they hold at
  the end is what the result shows; the booleans say whether the pointer was set.
\<close>

record scrape =
  x_m :: mqtt_metrics
  x_lic :: license_metrics
  x_licSeen :: bool
  x_reactor :: "string \<Rightarrow> int"
  x_reactorSeen :: bool
  x_pool :: metrics_pool
  x_poolSeen :: bool
  x_help :: "(string, string) gomap"

definition start_scrape :: scrape where
  "start_scrape = \<lparr>x_m = zero_metrics\<lparr>m_int := (\<lambda>_. 0)(''ConsumerPendingMessages'' := - 1)\<rparr>,
     x_lic = \<lparr>lm_HasExpiry = False, lm_int = (\<lambda>_. 0)\<rparr>, x_licSeen = False, x_reactor = (\<lambda>_. 0), x_reactorSeen = False,
     x_pool = \<lparr>mp_Size = 0, mp_BufferedBytes = 0, mp_BufferedBytesMax = 0, mp_Slots = []\<rparr>, x_poolSeen = False,
     x_help = []\<rparr>"

definition set_int :: "string \<Rightarrow> int \<Rightarrow> mqtt_metrics \<Rightarrow> mqtt_metrics" where
  "set_int f v m = m\<lparr>m_int := (m_int m)(f := v)\<rparr>"

definition capture_key :: "string \<Rightarrow> string \<Rightarrow> string" where
  "capture_key name line = (case IndexOf line [lbrace] of
      None \<Rightarrow> name
    | Some i \<Rightarrow> (case labelBlockEnd line i of
        Some e \<Rightarrow> if i < e then name @ take (e + 1 - i) (drop i line) else name
      | None \<Rightarrow> name))"

definition captureUncurated :: "string \<Rightarrow> string \<Rightarrow> string \<Rightarrow> scrape \<Rightarrow> scrape" where
  "captureUncurated name line value x = x\<lparr>x_m := (x_m x)
     \<lparr>m_Uncurated := gm_set (capture_key name line) (parseFloat value) (m_Uncurated (x_m x)),
      m_UncuratedHelp := (case map_of (x_help x) name of
          Some h \<Rightarrow> gm_set name h (m_UncuratedHelp (x_m x))
        | None \<Rightarrow> m_UncuratedHelp (x_m x))\<rparr>\<rparr>"

definition set_slot_field :: "string \<Rightarrow> int \<Rightarrow> metrics_pool_slot \<Rightarrow> metrics_pool_slot" where
  "set_slot_field f v s = (if f = ''BufferedBytes'' then s\<lparr>sl_BufferedBytes := v\<rparr>
     else if f = ''OutMsgs'' then s\<lparr>sl_OutMsgs := v\<rparr> else s\<lparr>sl_InMsgs := v\<rparr>)"

definition pool_slot :: "int \<Rightarrow> (metrics_pool_slot \<Rightarrow> metrics_pool_slot) \<Rightarrow> metrics_pool_slot list \<Rightarrow> metrics_pool_slot list" where
  "pool_slot slot upd slots =
    (if slot \<in> set (map sl_Slot slots) then map (\<lambda>s. if sl_Slot s = slot then upd s else s) slots
     else slots @ [upd \<lparr>sl_Slot = slot, sl_BufferedBytes = 0, sl_OutMsgs = 0, sl_InMsgs = 0\<rparr>])"

definition set_pool_field :: "string \<Rightarrow> int \<Rightarrow> metrics_pool \<Rightarrow> metrics_pool" where
  "set_pool_field f v p = (if f = ''Size'' then p\<lparr>mp_Size := v\<rparr>
     else if f = ''BufferedBytes'' then p\<lparr>mp_BufferedBytes := v\<rparr> else p\<lparr>mp_BufferedBytesMax := v\<rparr>)"

fun apply_gate :: "metric_gate \<Rightarrow> scrape \<Rightarrow> scrape" where
  "apply_gate NoGate x = x"
| "apply_gate AuthWebhookGate x = x\<lparr>x_m := (x_m x)\<lparr>m_gate := (m_gate (x_m x))(''AuthWebhookActive'' := True)\<rparr>\<rparr>"
| "apply_gate ClusterGate x = x\<lparr>x_m := (x_m x)\<lparr>m_gate := (m_gate (x_m x))(''ClusterEnabled'' := True)\<rparr>\<rparr>"
| "apply_gate BridgeGate x = x\<lparr>x_m := (x_m x)\<lparr>m_gate := (m_gate (x_m x))(''BridgeUp'' := True)\<rparr>\<rparr>"
| "apply_gate SessionsGate x = x\<lparr>x_m := (x_m x)\<lparr>m_gate := (m_gate (x_m x))(''SessionsUp'' := True)\<rparr>\<rparr>"
| "apply_gate LicenseGate x = x\<lparr>x_licSeen := True\<rparr>"
| "apply_gate ReactorGate x = x\<lparr>x_reactorSeen := True\<rparr>"
| "apply_gate PoolGate x = x\<lparr>x_poolSeen := True\<rparr>"

fun apply_rule :: "metric_rule \<Rightarrow> string \<Rightarrow> string \<Rightarrow> string \<Rightarrow> scrape \<Rightarrow> scrape" where
  "apply_rule (ToInt f) name line value x = x\<lparr>x_m := set_int f (parseInt value) (x_m x)\<rparr>"
| "apply_rule (ToFloat f) name line value x =
    x\<lparr>x_m := (x_m x)\<lparr>m_float := (m_float (x_m x))(f := parseFloat value)\<rparr>\<rparr>"
| "apply_rule (ToLicense f) name line value x =
    x\<lparr>x_lic := (x_lic x)\<lparr>lm_int := (lm_int (x_lic x))(f := parseInt value)\<rparr>\<rparr>"
| "apply_rule ToExpiry name line value x =
    x\<lparr>x_lic := (x_lic x)\<lparr>lm_int := (lm_int (x_lic x))(''ExpiresTimestamp'' := parseInt value), lm_HasExpiry := True\<rparr>\<rparr>"
| "apply_rule (ToReactor f) name line value x = x\<lparr>x_reactor := (x_reactor x)(f := parseInt value)\<rparr>"
| "apply_rule (ToPool f) name line value x = x\<lparr>x_pool := set_pool_field f (parseInt value) (x_pool x)\<rparr>"
| "apply_rule (ToSlot f) name line value x =
    x\<lparr>x_pool := (x_pool x)\<lparr>mp_Slots := pool_slot (parseInt (extractLabel line ''slot''))
        (set_slot_field f (parseInt value)) (mp_Slots (x_pool x))\<rparr>\<rparr>"
| "apply_rule ToInstanceID name line value x = x\<lparr>x_m := (x_m x)\<lparr>m_InstanceID := extractLabel line ''instance_id''\<rparr>\<rparr>"
| "apply_rule (SwitchBy l arms) name line value x = (case map_of arms (extractLabel line l) of
      Some f \<Rightarrow> x\<lparr>x_m := set_int f (parseInt value) (x_m x)\<rparr>
    | None \<Rightarrow> captureUncurated name line value x)"
| "apply_rule (SumBy t l arms) name line value x =
    (let x1 = x\<lparr>x_m := set_int t (wrap64 (m_int (x_m x) t + parseInt value)) (x_m x)\<rparr>
     in case map_of arms (extractLabel line l) of
          Some f \<Rightarrow> x1\<lparr>x_m := set_int f (parseInt value) (x_m x1)\<rparr>
        | None \<Rightarrow> captureUncurated name line value x1)"
| "apply_rule (ToReasons f) name line value x =
    (let r = extractLabel line ''reason''
     in if r = [] then x
        else x\<lparr>x_m := (x_m x)\<lparr>m_reasons := (m_reasons (x_m x))(f := gm_set r (parseInt value) (m_reasons (x_m x) f))\<rparr>\<rparr>)"
| "apply_rule ToHMAC name line value x =
    (let src = extractLabel line ''source_instance_id''
     in if src = [] then x
        else apply_gate ClusterGate (x\<lparr>x_m := (x_m x)\<lparr>m_ClusterHMACFailures := m_ClusterHMACFailures (x_m x) @
          [\<lparr>hf_SourceInstanceID = src, hf_Count = parseInt value\<rparr>]\<rparr>\<rparr>))"

definition apply_bucket :: "string \<Rightarrow> string \<Rightarrow> string \<Rightarrow> scrape \<Rightarrow> scrape" where
  "apply_bucket name line value x =
    (case map_of histBuckets (TrimSuffix name ''_bucket'') of
       None \<Rightarrow> x
     | Some f \<Rightarrow> (case histBucketIndex (extractLabel line ''le'') of
         None \<Rightarrow> x
       | Some i \<Rightarrow> x\<lparr>x_m := (x_m x)\<lparr>m_buckets := (m_buckets (x_m x))(f := (m_buckets (x_m x) f)[i := parseInt value])\<rparr>\<rparr>))"

definition scrape_sample :: "string \<Rightarrow> scrape \<Rightarrow> scrape" where
  "scrape_sample line x =
    (let (name, value) = parseMetricLine line
     in case map_of families_before name of
          Some (rule, gate) \<Rightarrow> apply_gate gate (apply_rule rule name line value x)
        | None \<Rightarrow>
            if HasSuffix name ''_bucket'' then apply_bucket name line value x
            else (case map_of families_after name of
                Some (rule, gate) \<Rightarrow> apply_gate gate (apply_rule rule name line value x)
              | None \<Rightarrow> if HasPrefix name ''machmqtt_'' then captureUncurated name line value x else x))"

definition scrape_help :: "string \<Rightarrow> scrape \<Rightarrow> scrape" where
  "scrape_help h x = (case IndexOf h '' '' of
      Some i \<Rightarrow> x\<lparr>x_help := gm_set (take i h) (drop (i + 1) h) (x_help x)\<rparr>
    | None \<Rightarrow> x)"

definition scrape_line :: "string \<Rightarrow> scrape \<Rightarrow> scrape" where
  "scrape_line raw x =
    (let line = TrimSpace raw
     in if HasPrefix line ''# HELP '' then scrape_help (drop 7 line) x
        else if line = [] \<or> HasPrefix line ''#'' then x
        else scrape_sample line x)"

definition finish_scrape :: "scrape \<Rightarrow> mqtt_metrics" where
  "finish_scrape x =
    (let m = fold (\<lambda>fam m. case map_of histBuckets fam of
             Some f \<Rightarrow> m\<lparr>m_buckets := (m_buckets m)(f := bucketsCumulativeToRaw (m_buckets m f))\<rparr>
           | None \<Rightarrow> m) histogramFamilies (x_m x)
     in m\<lparr>m_License := (if x_licSeen x then Some (x_lic x) else None),
          m_Reactor := (if x_reactorSeen x then Some (x_reactor x) else None),
          m_Pool := (if x_poolSeen x then Some ((x_pool x)\<lparr>mp_Slots := sort_key sl_Slot (mp_Slots (x_pool x))\<rparr>) else None)\<rparr>)"

definition parsePrometheusMetrics :: "string \<Rightarrow> mqtt_metrics" where
  "parsePrometheusMetrics body = finish_scrape (fold scrape_line (Split newline body) start_scrape)"

section \<open>Pushed counter sets\<close>

text \<open>
  A JSON value as far as the decoder looks at it. Decoding the typed fields is the standard
  library's; what follows it here is the capture of the keys that no field has. A \<^verbatim>\<open>null\<close> decodes
  into a \<^verbatim>\<open>float64\<close> without an error and leaves it zero.
\<close>

datatype json_value = JNull | JNumber f64 | JOther

definition knownMetricTags :: "string list" where
  "knownMetricTags = map (snd \<circ> snd) metric_fields"

definition decode_float :: "json_value \<Rightarrow> f64 option" where
  "decode_float v = (case v of JNull \<Rightarrow> Some (Fin 0) | JNumber f \<Rightarrow> if f_finite f then Some f else None | JOther \<Rightarrow> None)"

definition capture_unknown :: "(string \<times> json_value) list \<Rightarrow> mqtt_metrics \<Rightarrow> mqtt_metrics" where
  "capture_unknown raw m = fold (\<lambda>(k, v) m.
      if k \<in> set knownMetricTags then m
      else case decode_float v of
          Some f \<Rightarrow> m\<lparr>m_Uncurated := gm_set k f (m_Uncurated m)\<rparr>
        | None \<Rightarrow> m) raw m"

end
