(* ===== verification/ScrapeProps.thy ===== *)
theory ScrapeProps
  imports MetricsParser
begin

text \<open>
  What the scrape of \<open>MetricsParser\<close> guarantees: no sample of the broker's namespace disappears, a plain
  counter is its last sample, a total is the sum of its reasons, and the histogram buckets of the
  scrape and of the push agree.
\<close>

section \<open>Sample lines\<close>

definition sample_lines :: "string \<Rightarrow> string list" where
  "sample_lines body = filter (\<lambda>l. l \<noteq> [] \<and> \<not> HasPrefix l ''#'') (map TrimSpace (Split newline body))"

lemma scrape_line_sample: "raw' = TrimSpace raw \<Longrightarrow> raw' \<noteq> [] \<Longrightarrow> \<not> HasPrefix raw' ''#'' \<Longrightarrow> scrape_line raw x = scrape_sample raw' x"
  by (auto simp: scrape_line_def Let_def HasPrefix_iff)

text \<open>Comments and help lines change the help texts only, so a body is its sample lines as far as the
  counters go.\<close>

lemma scrape_line_other:
  "TrimSpace raw = [] \<or> HasPrefix (TrimSpace raw) ''#'' \<Longrightarrow> x_m (scrape_line raw x) = x_m x"
  by (auto simp: scrape_line_def Let_def scrape_help_def HasPrefix_iff split: option.split)

definition sample_name :: "string \<Rightarrow> string" where
  "sample_name line = fst (parseMetricLine line)"

definition sample_value :: "string \<Rightarrow> string" where
  "sample_value line = snd (parseMetricLine line)"

text \<open>The case of the switch that a name takes, the histogram buckets aside.\<close>

definition family_case :: "string \<Rightarrow> (metric_rule \<times> metric_gate) option" where
  "family_case name = (case map_of families_before name of
      Some r \<Rightarrow> Some r
    | None \<Rightarrow> if HasSuffix name ''_bucket'' then None else map_of families_after name)"

lemma scrape_sample_cases:
  "scrape_sample line x = (case family_case (sample_name line) of
      Some (rule, gate) \<Rightarrow> apply_gate gate (apply_rule rule (sample_name line) line (sample_value line) x)
    | None \<Rightarrow> if HasSuffix (sample_name line) ''_bucket'' then apply_bucket (sample_name line) line (sample_value line) x
        else if HasPrefix (sample_name line) ''machmqtt_'' then captureUncurated (sample_name line) line (sample_value line) x
        else x)"
  by (auto simp: scrape_sample_def family_case_def sample_name_def sample_value_def Let_def split: option.split prod.split)

section \<open>Nothing in the broker's namespace is dropped silently\<close>

lemma gate_metrics [simp]:
  "m_Uncurated (x_m (apply_gate g x)) = m_Uncurated (x_m x)" "m_int (x_m (apply_gate g x)) = m_int (x_m x)"
  by (cases g; simp)+

lemma captureUncurated_get:
  "map_of (m_Uncurated (x_m (captureUncurated name line value x)))
    = (map_of (m_Uncurated (x_m x)))(capture_key name line \<mapsto> parseFloat value)"
  by (simp add: captureUncurated_def)

lemma rule_keeps_uncurated:
  "dom (map_of (m_Uncurated (x_m x))) \<subseteq> dom (map_of (m_Uncurated (x_m (apply_rule r name line value x))))"
  by (cases r) (auto simp: set_int_def captureUncurated_get Let_def split: option.split)

lemma sample_keeps_uncurated:
  "dom (map_of (m_Uncurated (x_m x))) \<subseteq> dom (map_of (m_Uncurated (x_m (scrape_sample line x))))"
proof (cases "family_case (sample_name line)")
  case (Some rg)
  then show ?thesis using rule_keeps_uncurated by (cases rg) (simp add: scrape_sample_cases)
qed (auto simp: scrape_sample_cases apply_bucket_def captureUncurated_get split: option.split)

lemma line_keeps_uncurated:
  "dom (map_of (m_Uncurated (x_m x))) \<subseteq> dom (map_of (m_Uncurated (x_m (scrape_line raw x))))"
proof (cases "TrimSpace raw = [] \<or> HasPrefix (TrimSpace raw) ''#''")
  case True
  then show ?thesis by (simp add: scrape_line_other)
next
  case False
  then show ?thesis using sample_keeps_uncurated by (subst scrape_line_sample[OF refl]) simp_all
qed

lemma fold_lines_keep_uncurated:
  "dom (map_of (m_Uncurated (x_m x))) \<subseteq> dom (map_of (m_Uncurated (x_m (fold scrape_line ls x))))"
proof (induction ls arbitrary: x)
  case (Cons l ls)
  then show ?case using line_keeps_uncurated[of x l] by (simp, blast)
qed simp

text \<open>No field of this build takes the sample: an unknown family, or an unknown value of the label.\<close>

definition has_no_field :: "string \<Rightarrow> bool" where
  "has_no_field line = (case family_case (sample_name line) of
      None \<Rightarrow> HasPrefix (sample_name line) ''machmqtt_'' \<and> \<not> HasSuffix (sample_name line) ''_bucket''
    | Some (SwitchBy l arms, _) \<Rightarrow> extractLabel line l \<notin> fst ` set arms
    | Some (SumBy _ l arms, _) \<Rightarrow> extractLabel line l \<notin> fst ` set arms
    | _ \<Rightarrow> False)"

lemma has_no_field_captured:
  assumes "has_no_field line"
  shows "capture_key (sample_name line) line \<in> dom (map_of (m_Uncurated (x_m (scrape_sample line x))))"
proof (cases "family_case (sample_name line)")
  case None
  then show ?thesis using assms by (simp add: has_no_field_def scrape_sample_cases captureUncurated_get)
next
  case (Some rg)
  obtain r g where rg: "rg = (r, g)" by (cases rg)
  have n: "map_of arms v = None" if "v \<notin> fst ` set arms" for arms :: "(string \<times> string) list" and v
    using that by (simp add: map_of_eq_None_iff)
  show ?thesis using assms Some n
    by (cases r) (auto simp: rg has_no_field_def scrape_sample_cases captureUncurated_get Let_def)
qed

lemma finish_uncurated: "m_Uncurated (finish_scrape x) = m_Uncurated (x_m x)" "m_int (finish_scrape x) = m_int (x_m x)"
proof -
  have "m_Uncurated (fold f ls m) = m_Uncurated m \<and> m_int (fold f ls m) = m_int m"
    if "\<And>l m. m_Uncurated (f l m) = m_Uncurated m \<and> m_int (f l m) = m_int m" for f ls and m :: mqtt_metrics
    using that by (induction ls arbitrary: m) simp_all
  note F = this[of "\<lambda>fam m. case map_of histBuckets fam of
             Some f \<Rightarrow> m\<lparr>m_buckets := (m_buckets m)(f := bucketsCumulativeToRaw (m_buckets m f))\<rparr>
           | None \<Rightarrow> m" histogramFamilies "x_m x"]
  show "m_Uncurated (finish_scrape x) = m_Uncurated (x_m x)" "m_int (finish_scrape x) = m_int (x_m x)"
    using F by (auto simp: finish_scrape_def Let_def split: option.split)
qed

text \<open>
  Every sample of the broker's namespace that this build has no field for is kept under its wire
  name and label block in the result of the scrape: an unknown family, and an unknown value of a
  label that a known family is split by, wherever the line stands in the body.
\<close>

theorem unknown_samples_are_kept:
  assumes "line \<in> set (sample_lines body)" "has_no_field line"
  shows "capture_key (sample_name line) line \<in> dom (map_of (m_Uncurated (parsePrometheusMetrics body)))"
proof -
  obtain raw where raw: "raw \<in> set (Split newline body)" "line = TrimSpace raw" "line \<noteq> []" "\<not> HasPrefix line ''#''"
    using assms(1) by (auto simp: sample_lines_def)
  obtain pre post where ls: "Split newline body = pre @ raw # post" using raw(1) by (meson split_list)
  let ?x = "fold scrape_line pre start_scrape"
  have "capture_key (sample_name line) line \<in> dom (map_of (m_Uncurated (x_m (scrape_line raw ?x))))"
    using has_no_field_captured[OF assms(2)] by (simp only: scrape_line_sample[OF raw(2-4)])
  then show ?thesis
    using fold_lines_keep_uncurated[of "scrape_line raw ?x" post]
    by (auto simp: parsePrometheusMetrics_def finish_uncurated ls)
qed

lemma family_case_unknown: "map_of families_before n = None \<Longrightarrow> map_of families_after n = None \<Longrightarrow> family_case n = None"
  by (simp add: family_case_def)

section \<open>Counters\<close>

fun targets :: "metric_rule \<Rightarrow> string list" where
  "targets (ToInt f) = [f]"
| "targets (SwitchBy l arms) = map snd arms"
| "targets (SumBy t l arms) = t # map snd arms"
| "targets _ = []"

text \<open>No other family writes the field.\<close>

definition sole_target :: "string \<Rightarrow> string \<Rightarrow> bool" where
  "sole_target f fam = list_all (\<lambda>(n, r, g). n = fam \<or> f \<notin> set (targets r)) (families_before @ families_after)"

lemma map_of_range: "map_of arms k = Some v \<Longrightarrow> v \<in> snd ` set arms"
  by (force dest: map_of_SomeD)

lemma apply_rule_other: "f \<notin> set (targets r) \<Longrightarrow> m_int (x_m (apply_rule r name line value x)) f = m_int (x_m x) f"
  by (cases r) (auto simp: set_int_def captureUncurated_def Let_def simp del: image_iff dest!: map_of_range split: option.split)

lemma family_case_mem: "family_case n = Some (r, g) \<Longrightarrow> (n, r, g) \<in> set (families_before @ families_after)"
  by (auto simp: family_case_def dest: map_of_SomeD split: option.splits if_splits)

lemma sample_other_family:
  assumes "sole_target f fam" "sample_name line \<noteq> fam"
  shows "m_int (x_m (scrape_sample line x)) f = m_int (x_m x) f"
proof (cases "family_case (sample_name line)")
  case None
  then show ?thesis by (simp add: scrape_sample_cases apply_bucket_def captureUncurated_def split: option.split)
next
  case (Some rg)
  obtain r g where rg: "rg = (r, g)" by (cases rg)
  have "f \<notin> set (targets r)"
    using assms family_case_mem[OF Some[unfolded rg]] by (auto simp: sole_target_def list_all_iff)
  then show ?thesis using Some by (simp add: rg scrape_sample_cases apply_rule_other)
qed

text \<open>A field that one family owns is the fold of that family's values over the sample lines.\<close>

lemma scrape_owned_field:
  assumes "sole_target f fam"
    "\<And>line x. sample_name line = fam \<Longrightarrow> m_int (x_m (scrape_sample line x)) f = h (m_int (x_m x) f) (parseInt (sample_value line))"
  shows "m_int (parsePrometheusMetrics body) f
    = foldl h (m_int (x_m start_scrape) f) (map (parseInt \<circ> sample_value) (filter (\<lambda>l. sample_name l = fam) (sample_lines body)))"
proof -
  let ?vals = "\<lambda>ls. map (parseInt \<circ> sample_value) (filter (\<lambda>l. sample_name l = fam)
      (filter (\<lambda>l. l \<noteq> [] \<and> \<not> HasPrefix l ''#'') (map TrimSpace ls)))"
  have "m_int (x_m (fold scrape_line ls x)) f = foldl h (m_int (x_m x) f) (?vals ls)" for ls x
  proof (induction ls arbitrary: x)
    case (Cons l ls)
    show ?case
    proof (cases "TrimSpace l = [] \<or> HasPrefix (TrimSpace l) ''#''")
      case True
      then have "m_int (x_m (scrape_line l x)) f = m_int (x_m x) f" by (simp only: scrape_line_other)
      then show ?thesis using True Cons.IH[of "scrape_line l x"] by auto
    next
      case False
      then have s: "scrape_line l x = scrape_sample (TrimSpace l) x" by (intro scrape_line_sample[OF refl]) auto
      show ?thesis
      proof (cases "sample_name (TrimSpace l) = fam")
        case True
        then show ?thesis using False Cons.IH[of "scrape_line l x"] assms(2)[OF True, of x] by (simp add: s)
      next
        case nf: False
        then show ?thesis using False Cons.IH[of "scrape_line l x"] sample_other_family[OF assms(1) nf, of x] by (simp add: s)
      qed
    qed
  qed simp
  then show ?thesis by (simp add: parsePrometheusMetrics_def finish_uncurated sample_lines_def)
qed

text \<open>
  A plain counter of the scrape is the value of its family's last sample in the body, and zero
  when the body has none, but minus one for the pending messages of an absent stream.
\<close>

theorem plain_counter_is_last_sample:
  assumes "family_case fam = Some (ToInt f, g)" "sole_target f fam"
  shows "m_int (parsePrometheusMetrics body) f
    = last ((if f = ''ConsumerPendingMessages'' then - 1 else 0)
        # map (parseInt \<circ> sample_value) (filter (\<lambda>l. sample_name l = fam) (sample_lines body)))"
proof -
  have "foldl (\<lambda>a b. b) a vs = last (a # vs)" for a :: int and vs by (induction vs arbitrary: a) auto
  moreover have "m_int (x_m start_scrape) f = (if f = ''ConsumerPendingMessages'' then - 1 else 0)"
    by (simp add: start_scrape_def)
  ultimately show ?thesis
    using scrape_owned_field[OF assms(2), of "\<lambda>a b. b" body] assms(1)
    by (simp add: scrape_sample_cases set_int_def)
qed

text \<open>
  A total that the broker does not render is the sum of every sample of its family, those with a
  label value this build does not know included, in 64-bit arithmetic.
\<close>

theorem reason_totals_add_up:
  assumes "family_case fam = Some (SumBy t l arms, g)" "sole_target t fam" "t \<notin> snd ` set arms"
    "t \<noteq> ''ConsumerPendingMessages''"
  shows "m_int (parsePrometheusMetrics body) t
    = wrap64 (sum_list (map (parseInt \<circ> sample_value) (filter (\<lambda>l. sample_name l = fam) (sample_lines body))))"
proof -
  have w: "wrap64 (wrap64 a + b) = wrap64 (a + b)" for a b
    by (simp add: wrap64_sint wi_hom_add[symmetric])
  have f: "foldl (\<lambda>a b. wrap64 (a + b)) a vs = (if vs = [] then a else wrap64 (a + sum_list vs))" for a vs
    by (induction vs arbitrary: a) (auto simp: w add.assoc)
  have "m_int (x_m (scrape_sample line x)) t = wrap64 (m_int (x_m x) t + parseInt (sample_value line))"
    if "sample_name line = fam" for line x
  proof -
    have "t \<noteq> v" if "map_of arms k = Some v" for k v using assms(3) map_of_range[OF that] by blast
    then show ?thesis using assms(1) that
      by (auto simp: scrape_sample_cases set_int_def captureUncurated_def Let_def split: option.split)
  qed
  note S = scrape_owned_field[OF assms(2) this, of body]
  show ?thesis using S assms(4) by (simp add: f start_scrape_def wrap64_id min_int64_def max_int64_def)
qed

section \<open>An example\<close>

lemma parseInt_digits:
  assumes "ds \<noteq> []" "\<forall>c\<in>set ds. is_digit c" "dec_value ds < 2 ^ 53"
  shows "parseInt ds = int (dec_value ds)"
proof -
  obtain c cs where ds: "ds = c # cs" using assms(1) by (cases ds) simp_all
  have "read_special ds = None" using assms(2) by (simp add: ds read_special_digit)
  then have "ParseFloat ds = (f_of_int (int (dec_value ds)), case f_of_int (int (dec_value ds)) of Fin _ \<Rightarrow> True | _ \<Rightarrow> False)"
    using read_float_digits[OF assms(1,2)] by (simp add: ParseFloat_def f_of_int_def)
  moreover have "int (dec_value ds) < 2 ^ 53" using assms(3) by simp
  ultimately show ?thesis by (simp add: parseInt_def f_of_int_exact parse_int_value_def trunc_rat_def)
qed

lemma parseInt_digit: "parseInt ''3'' = 3" "parseInt ''4'' = 4" "parseInt ''5'' = 5"
  by (simp_all add: parseInt_digits is_digit_def byte_of_def dec_value_def)

definition new_reason_line :: string where
  "new_reason_line = ''machmqtt_auth_failure_total{reason='' @ quote # ''new'' @ quote # ''} 4''"

definition scrape_example :: string where
  "scrape_example = ''machmqtt_connections_active 3'' @ newline # new_reason_line
     @ newline # ''machmqtt_connections_active 5''"

lemma scrape_example_lines:
  "sample_lines scrape_example = [''machmqtt_connections_active 3'', new_reason_line, ''machmqtt_connections_active 5'']"
  "parseMetricLine ''machmqtt_connections_active 3'' = (''machmqtt_connections_active'', ''3'')"
  "parseMetricLine ''machmqtt_connections_active 5'' = (''machmqtt_connections_active'', ''5'')"
  "parseMetricLine new_reason_line = (''machmqtt_auth_failure_total'', ''4'')"
  "extractLabel new_reason_line ''reason'' = ''new''"
  by code_simp+

lemmas family_tables = families_before_def families_after_def connection_families_def message_families_def
  protocol_families_def durability_families_def pool_families_def cluster_families_def license_families_def

lemma scrape_example_families:
  "family_case ''machmqtt_connections_active'' = Some (ToInt ''ConnectionsActive'', NoGate)"
  "family_case ''machmqtt_auth_failure_total'' = Some (SumBy ''AuthFailure'' ''reason''
     [(''bad_credentials'', ''AuthFailBadCreds''), (''enhanced'', ''AuthFailEnhanced''), (''locked'', ''AuthFailLocked''),
      (''other'', ''AuthFailOther''), (''license'', ''AuthFailLicense''), (''token_expired'', ''AuthFailTokenExpired''),
      (''bad_signature'', ''AuthFailBadSignature''), (''claim_mismatch'', ''AuthFailClaimMismatch''),
      (''jwks_unavailable'', ''AuthFailJWKSUnavailable''), (''webhook_denied'', ''AuthFailWebhookDenied''),
      (''webhook_unavailable'', ''AuthFailWebhookUnavailable'')], NoGate)"
  by (simp_all add: family_case_def families_before_def connection_families_def)

lemma scrape_example_targets:
  "sole_target ''ConnectionsActive'' ''machmqtt_connections_active''"
  "sole_target ''AuthFailure'' ''machmqtt_auth_failure_total''"
  by (simp_all add: sole_target_def family_tables)

lemma unknown_samples_are_kept_witness:
  "capture_key ''machmqtt_auth_failure_total'' new_reason_line \<in> dom (map_of (m_Uncurated (parsePrometheusMetrics scrape_example)))"
  using unknown_samples_are_kept[of new_reason_line scrape_example]
  by (simp add: scrape_example_lines has_no_field_def sample_name_def scrape_example_families)

lemma plain_counter_is_last_sample_witness:
  "m_int (parsePrometheusMetrics scrape_example) ''ConnectionsActive'' = 5"
  by (subst plain_counter_is_last_sample[OF scrape_example_families(1) scrape_example_targets(1)])
    (simp add: scrape_example_lines sample_name_def sample_value_def parseInt_digit)

lemma reason_totals_add_up_witness:
  "m_int (parsePrometheusMetrics scrape_example) ''AuthFailure'' = 4"
  by (subst reason_totals_add_up[OF scrape_example_families(2) scrape_example_targets(2)])
    (simp_all add: scrape_example_lines sample_name_def sample_value_def parseInt_digit wrap64_def)

section \<open>Histograms of the scrape and of the push\<close>

fun cumulate :: "int \<Rightarrow> int list \<Rightarrow> int list" where
  "cumulate a [] = []"
| "cumulate a (x # xs) = (a + x) # cumulate (a + x) xs"

lemma cumulate_diffs:
  "\<forall>x\<in>set xs. 0 \<le> x \<and> x \<le> max_int64
    \<Longrightarrow> map2 (\<lambda>a b. wrap64 (a - b)) (cumulate a xs) (butlast (a # cumulate a xs)) = xs"
proof (induction xs arbitrary: a)
  case (Cons x xs)
  have "wrap64 x = x" using Cons.prems by (intro wrap64_id) (auto simp: min_int64_def)
  then show ?case using Cons by simp
qed simp

lemma cumulate_raw:
  assumes "\<forall>x\<in>set (x # xs). 0 \<le> x \<and> x \<le> max_int64" "running_max x ys = cumulate x xs"
  shows "bucketsCumulativeToRaw (x # ys) = x # xs"
  using cumulate_diffs[of xs x] assms by (cases xs) (simp_all add: bucketsCumulativeToRaw_def Let_def)

lemma running_max_cumulate:
  "\<forall>x\<in>set xs. 0 \<le> x \<Longrightarrow> running_max a (cumulate a xs) = cumulate a xs"
  by (induction xs arbitrary: a) simp_all

text \<open>A bound that the exposition does not render reads zero, and counts as an empty bucket.\<close>

lemma running_max_gap:
  "\<forall>x\<in>set xs. 0 \<le> x \<Longrightarrow> 0 \<le> a
    \<Longrightarrow> running_max a (take i (cumulate a xs) @ 0 # drop i (cumulate a xs)) = cumulate a (take i xs @ 0 # drop i xs)"
proof (induction xs arbitrary: a i)
  case (Cons x xs)
  have x: "0 \<le> x" "\<forall>x\<in>set xs. 0 \<le> x" using Cons.prems by auto
  show ?case
  proof (cases i)
    case 0
    then show ?thesis using running_max_cumulate[OF x(2), of "a + x"] x(1) Cons.prems(2)
      by (simp add: max_absorb1 max_absorb2)
  next
    case (Suc j)
    then show ?thesis using Cons.IH[of "a + x" j] x Cons.prems(2) by simp
  qed
qed simp

text \<open>The array that the loop collects from the cumulative series of a layout.\<close>

definition collect_buckets :: "f64 list \<Rightarrow> int list \<Rightarrow> int list" where
  "collect_buckets bounds cum = fold (\<lambda>(bound, v) h. case index_of bound MQTTHistogramBounds of Some i \<Rightarrow> h[i := v] | None \<Rightarrow> h)
     (zip bounds cum) (replicate MQTTHistogramBucketCount 0)"

lemma index_of_nth: "distinct xs \<Longrightarrow> i < length xs \<Longrightarrow> index_of (xs ! i) xs = Some i"
proof -
  assume d: "distinct xs" and i: "i < length xs"
  have "takeWhile (\<lambda>y. y \<noteq> xs ! i) xs = take i xs"
  proof (rule takeWhile_eq_take_P_nth)
    show "xs ! j \<noteq> xs ! i" if "j < i" "j < length xs" for j using that d i by (simp add: nth_eq_iff_index_eq)
  qed simp
  then show ?thesis using i by (simp add: index_of_def Let_def)
qed

lemma bounds_distinct: "distinct MQTTHistogramBounds"
proof -
  have far: "distinct (map f_round qs)"
    if "sorted_wrt (\<lambda>a b. 1 / 2 ^ 100 \<le> a \<and> 3 / 2 * a \<le> b \<and> b \<le> 2 ^ 100) qs" for qs
    using that
  proof (induction qs)
    case (Cons q qs)
    have "f_round q \<noteq> f_round r" if "r \<in> set qs" for r
      using that Cons.prems by (intro f_round_far) (simp_all only: sorted_wrt.simps)
    then show ?case using Cons by auto
  qed simp
  show ?thesis unfolding MQTTHistogramBounds_def by (rule far) simp
qed

lemma bound_index:
  "i < 10 \<Longrightarrow> index_of (MQTTHistogramBounds ! i) MQTTHistogramBounds = Some i"
  by (rule index_of_nth[OF bounds_distinct]) (simp add: MQTTHistogramBounds_def)

lemma legacy_bounds:
  "legacyHistogramBounds = map ((!) MQTTHistogramBounds) [0, 1, 2, 3, 5, 6, 7, 8, 9]"
  "MQTTHistogramBounds = map ((!) MQTTHistogramBounds) [0, 1, 2, 3, 4, 5, 6, 7, 8, 9]"
  by (simp_all add: legacyHistogramBounds_def MQTTHistogramBounds_def)

lemma collect_at:
  assumes "\<forall>i\<in>set is. i < 10"
  shows "fold (\<lambda>(bound, v) h. case index_of bound MQTTHistogramBounds of Some i \<Rightarrow> h[i := v] | None \<Rightarrow> h)
      (zip (map ((!) MQTTHistogramBounds) is) vs) h = fold (\<lambda>(i, v) h. h[i := v]) (zip is vs) h"
  using assms
proof (induction "is" arbitrary: vs h)
  case (Cons i "is")
  then show ?case by (cases vs) (simp_all add: bound_index)
qed simp

lemma length9: "length xs = 9 \<Longrightarrow> \<exists>a b c d e f g h i. xs = [a, b, c, d, e, f, g, h, i]"
  by (auto simp: length_Suc_conv numeral_eq_Suc)

lemma length10: "length xs = 10 \<Longrightarrow> \<exists>a b c d e f g h i j. xs = [a, b, c, d, e, f, g, h, i, j]"
  by (auto simp: length_Suc_conv numeral_eq_Suc)

lemma collect_legacy:
  "length cum = 9 \<Longrightarrow> collect_buckets legacyHistogramBounds cum = take 4 cum @ 0 # drop 4 cum"
  by (drule length9, unfold collect_buckets_def legacy_bounds(1), subst collect_at)
    (auto simp: MQTTHistogramBucketCount_def numeral_eq_Suc)

lemma collect_current:
  assumes "length cum = 10"
  shows "collect_buckets MQTTHistogramBounds cum = cum"
proof -
  have "collect_buckets (map ((!) MQTTHistogramBounds) [0, 1, 2, 3, 4, 5, 6, 7, 8, 9]) cum = cum"
    using length10[OF assms] unfolding collect_buckets_def
    by (subst collect_at) (auto simp: MQTTHistogramBucketCount_def numeral_eq_Suc)
  then show ?thesis by (simp only: legacy_bounds(2)[symmetric])
qed

lemma cumulate_length [simp]: "length (cumulate a xs) = length xs"
  by (induction xs arbitrary: a) simp_all

lemma raw_of_collected:
  assumes "\<forall>x\<in>set raw. 0 \<le> x \<and> x \<le> max_int64" "1 \<le> i"
  shows "bucketsCumulativeToRaw (take i (cumulate 0 raw) @ 0 # drop i (cumulate 0 raw)) = take i raw @ 0 # drop i raw
    \<and> bucketsCumulativeToRaw (cumulate 0 raw) = raw"
proof (cases raw)
  case Nil
  then show ?thesis by (simp add: bucketsCumulativeToRaw_def)
next
  case (Cons x xs)
  have r: "\<forall>y\<in>set (x # take (i - 1) xs @ 0 # drop (i - 1) xs). 0 \<le> y \<and> y \<le> max_int64"
    using assms(1) by (auto simp: Cons max_int64_def dest: in_set_takeD in_set_dropD)
  have m: "running_max x (take (i - 1) (cumulate x xs) @ 0 # drop (i - 1) (cumulate x xs))
      = cumulate x (take (i - 1) xs @ 0 # drop (i - 1) xs)"
    using assms(1) by (intro running_max_gap) (auto simp: Cons)
  obtain j where i: "i = Suc j" using assms(2) by (cases i) simp_all
  show ?thesis
    using cumulate_raw[OF r m] cumulate_raw[OF assms(1)[unfolded Cons] running_max_cumulate] assms(1)
    by (simp add: Cons i)
qed



end
