(* ===== verification/GoUrl.thy ===== *)
theory GoUrl
  imports GoLib
begin

text \<open>
  \<^verbatim>\<open>url.Parse\<close> and \<^verbatim>\<open>URL.String\<close> of Go's \<^verbatim>\<open>net/url\<close> (Go 1.26). A zone in a bracketed address is not
  supported and counts as an error.
\<close>

record userinfo =
  ui_Username :: string
  ui_Password :: "string option"

record url =
  u_Scheme :: string
  u_Opaque :: string
  u_User :: "userinfo option"
  u_Host :: string
  u_Path :: string
  u_RawPath :: string
  u_OmitHost :: bool
  u_ForceQuery :: bool
  u_RawQuery :: string
  u_Fragment :: string
  u_RawFragment :: string

section \<open>Pieces\<close>

definition is_alpha :: "char \<Rightarrow> bool" where
  "is_alpha c \<longleftrightarrow> 97 \<le> byte_of c \<and> byte_of c \<le> 122 \<or> 65 \<le> byte_of c \<and> byte_of c \<le> 90"

definition is_alnum :: "char \<Rightarrow> bool" where
  "is_alnum c \<longleftrightarrow> is_alpha c \<or> is_digit c"

text \<open>\<^verbatim>\<open>strings.Cut\<close> at one byte.\<close>

definition Cut :: "string \<Rightarrow> char \<Rightarrow> string \<times> string" where
  "Cut s c = (takeWhile (\<lambda>x. x \<noteq> c) s, drop 1 (dropWhile (\<lambda>x. x \<noteq> c) s))"

text \<open>The text in front of the last occurrence of a byte and behind it.\<close>

definition split_last :: "char \<Rightarrow> string \<Rightarrow> (string \<times> string) option" where
  "split_last c s = (if c \<in> set s
     then Some (rev (drop 1 (dropWhile (\<lambda>x. x \<noteq> c) (rev s))), rev (takeWhile (\<lambda>x. x \<noteq> c) (rev s)))
     else None)"

fun unescape :: "(char \<Rightarrow> bool) \<Rightarrow> bool \<Rightarrow> string \<Rightarrow> string option" where
  "unescape ok host [] = Some []"
| "unescape ok host (c # cs) =
    (if c = CHR ''%'' then
       (case cs of
          a # b # ds \<Rightarrow> (case (hex_val a, hex_val b) of
              (Some h, Some l) \<Rightarrow>
                if host \<and> h < 8 \<and> \<not> (a = CHR ''2'' \<and> b = CHR ''5'') then None
                else map_option ((#) (char_of (16 * h + l))) (unescape ok host ds)
            | _ \<Rightarrow> None)
        | _ \<Rightarrow> None)
     else if ok c then map_option ((#) c) (unescape ok host cs) else None)"

definition host_char :: "char \<Rightarrow> bool" where
  "host_char c \<longleftrightarrow> 128 \<le> byte_of c \<or> is_alnum c \<or> c \<in> set ''!$&()*+,;=:[]<>-_.~'' \<or> c = CHR 0x27 \<or> c = CHR 0x22"

definition userinfo_char :: "char \<Rightarrow> bool" where
  "userinfo_char c \<longleftrightarrow> is_alnum c \<or> c \<in> set ''-._:~!$&()*+,;=%@'' \<or> c = CHR 0x27"

definition validOptionalPort :: "string \<Rightarrow> bool" where
  "validOptionalPort s \<longleftrightarrow> s = [] \<or> hd s = CHR '':'' \<and> list_all is_digit (tl s)"

text \<open>Only an IPv6 address stands in brackets, and a host has at most one colon outside of them.\<close>

definition parseHost :: "string \<Rightarrow> string option" where
  "parseHost h =
    (if CHR ''['' \<in> set h then
       (if hd h \<noteq> CHR ''['' \<or> CHR ''['' \<in> set (tl h) then None
        else case split_last (CHR '']'') h of
          None \<Rightarrow> None
        | Some (pre, port) \<Rightarrow>
            if \<not> validOptionalPort port \<or> Contains (tl pre) ''%25'' then None
            else case unescape host_char True (tl pre) of
              None \<Rightarrow> None
            | Some name \<Rightarrow> if parseIPv6 name = None then None else Some (CHR ''['' # name @ CHR '']'' # port))
     else (case split_last (CHR '':'') h of
          None \<Rightarrow> unescape host_char True h
        | Some (name, port) \<Rightarrow>
            if list_all is_digit port \<and> CHR '':'' \<notin> set name then unescape host_char True h else None))"

definition parse_userinfo :: "string \<Rightarrow> userinfo option" where
  "parse_userinfo info =
    (if \<not> list_all userinfo_char info then None
     else if CHR '':'' \<notin> set info
       then map_option (\<lambda>n. \<lparr>ui_Username = n, ui_Password = None\<rparr>) (unescape (\<lambda>_. True) False info)
     else case (unescape (\<lambda>_. True) False (fst (Cut info (CHR '':''))), unescape (\<lambda>_. True) False (snd (Cut info (CHR '':'')))) of
         (Some n, Some p) \<Rightarrow> Some \<lparr>ui_Username = n, ui_Password = Some p\<rparr>
       | _ \<Rightarrow> None)"

definition parseAuthority :: "string \<Rightarrow> (userinfo option \<times> string) option" where
  "parseAuthority a = (case split_last (CHR ''@'') a of
      None \<Rightarrow> map_option (Pair None) (parseHost a)
    | Some (info, h) \<Rightarrow> (case (parse_userinfo info, parseHost h) of
        (Some u, Some host) \<Rightarrow> Some (Some u, host)
      | _ \<Rightarrow> None))"

text \<open>The scheme and the rest behind its colon; no scheme unless the text starts like one.\<close>

definition getScheme :: "string \<Rightarrow> (string \<times> string) option" where
  "getScheme s =
    (let pre = takeWhile (\<lambda>c. is_alnum c \<or> c \<in> set ''+-.'') s; rest = drop (length pre) s
     in if rest = [] \<or> hd rest \<noteq> CHR '':'' then
          (if s \<noteq> [] \<and> hd s = CHR '':'' then None else Some ([], s))
        else if pre = [] then None
        else if is_alpha (hd pre) then Some (pre, tl rest) else Some ([], s))"

section \<open>Escaping\<close>

datatype encoding = EncodePath | EncodeHost | EncodeUserPassword | EncodeFragment | EncodeQuery

definition host_literal :: "char \<Rightarrow> bool" where
  "host_literal c \<longleftrightarrow> c \<in> set ''!$&()*+,;=:[]<>'' \<or> c = CHR 0x27 \<or> c = CHR 0x22"

definition unreserved_mark :: "char \<Rightarrow> bool" where
  "unreserved_mark c \<longleftrightarrow> c \<in> set ''-_.~''"

definition reserved :: "char \<Rightarrow> bool" where
  "reserved c \<longleftrightarrow> c \<in> set ''$&+,/:;=?@''"

definition shouldEscape :: "encoding \<Rightarrow> char \<Rightarrow> bool" where
  "shouldEscape mode c =
    (if is_alnum c then False
     else if mode = EncodeHost \<and> host_literal c then False
     else if unreserved_mark c then False
     else if reserved c then
       (case mode of
          EncodePath \<Rightarrow> c = CHR ''?''
        | EncodeUserPassword \<Rightarrow> c \<in> set ''@/?:''
        | EncodeFragment \<Rightarrow> False
        | _ \<Rightarrow> True)
     else \<not> (mode = EncodeFragment \<and> c \<in> set ''!()*''))"

definition upper_hex :: "nat \<Rightarrow> char" where
  "upper_hex n = ''0123456789ABCDEF'' ! n"

definition escape :: "encoding \<Rightarrow> string \<Rightarrow> string" where
  "escape mode s = concat (map (\<lambda>c.
     if mode = EncodeQuery \<and> c = CHR '' '' then ''+''
     else if shouldEscape mode c then [CHR ''%'', upper_hex (byte_of c div 16), upper_hex (byte_of c mod 16)]
     else [c]) s)"

definition passes_encoded :: "char \<Rightarrow> bool" where
  "passes_encoded c \<longleftrightarrow> c \<in> set ''!$&()*+,;=:@[]%'' \<or> c = CHR 0x27"

definition validEncoded :: "encoding \<Rightarrow> string \<Rightarrow> bool" where
  "validEncoded mode s \<longleftrightarrow> list_all (\<lambda>c. passes_encoded c \<or> \<not> shouldEscape mode c) s"

text \<open>A decoded component and its raw form, which is kept only if it is not the default encoding.\<close>

definition set_encoded :: "encoding \<Rightarrow> string \<Rightarrow> (string \<times> string) option" where
  "set_encoded mode raw = map_option (\<lambda>p. (p, if raw = escape mode p then [] else raw)) (unescape (\<lambda>_. True) False raw)"

definition encoded :: "encoding \<Rightarrow> string \<Rightarrow> string \<Rightarrow> string" where
  "encoded mode raw decoded =
    (if raw \<noteq> [] \<and> validEncoded mode raw \<and> unescape (\<lambda>_. True) False raw = Some decoded then raw
     else if mode = EncodePath \<and> decoded = ''*'' then ''*''
     else escape mode decoded)"

section \<open>Parse and String\<close>

definition empty_url :: url where
  "empty_url = \<lparr>u_Scheme = [], u_Opaque = [], u_User = None, u_Host = [], u_Path = [], u_RawPath = [], u_OmitHost = False,
     u_ForceQuery = False, u_RawQuery = [], u_Fragment = [], u_RawFragment = []\<rparr>"

definition parse_hierarchical :: "string \<Rightarrow> string \<Rightarrow> bool \<Rightarrow> string \<Rightarrow> url option" where
  "parse_hierarchical scheme rest force query =
    (let u = empty_url\<lparr>u_Scheme := scheme, u_ForceQuery := force, u_RawQuery := query\<rparr>
     in if HasPrefix rest ''//'' \<and> (scheme \<noteq> [] \<or> \<not> HasPrefix rest ''///'') then
          (let r = drop 2 rest
           in case (parseAuthority (takeWhile (\<lambda>c. c \<noteq> CHR ''/'') r), set_encoded EncodePath (dropWhile (\<lambda>c. c \<noteq> CHR ''/'') r)) of
                (Some (user, host), Some (p, raw)) \<Rightarrow>
                  Some (u\<lparr>u_User := user, u_Host := host, u_Path := p, u_RawPath := raw\<rparr>)
              | _ \<Rightarrow> None)
        else map_option (\<lambda>(p, raw). u\<lparr>u_OmitHost := scheme \<noteq> [] \<and> HasPrefix rest ''/'', u_Path := p, u_RawPath := raw\<rparr>)
               (set_encoded EncodePath rest))"

text \<open>The text in front of the query, whether it ends in a bare question mark, and the query.\<close>

definition cut_query :: "string \<Rightarrow> string \<times> bool \<times> string" where
  "cut_query r =
    (if HasSuffix r ''?'' \<and> count_list r (CHR ''?'') = 1 then (butlast r, True, [])
     else (fst (Cut r (CHR ''?'')), False, snd (Cut r (CHR ''?''))))"

definition parse_no_fragment :: "string \<Rightarrow> url option" where
  "parse_no_fragment s =
    (if list_ex (\<lambda>c. byte_of c < 32 \<or> byte_of c = 127) s then None
     else if s = ''*'' then Some (empty_url\<lparr>u_Path := ''*''\<rparr>)
     else case getScheme s of
         None \<Rightarrow> None
       | Some (sch, r) \<Rightarrow>
           let scheme = ToLower sch;
               (rest, force, query) = cut_query r
           in if HasPrefix rest ''/'' then parse_hierarchical scheme rest force query
              else if scheme \<noteq> [] then
                Some (empty_url\<lparr>u_Scheme := scheme, u_Opaque := rest, u_ForceQuery := force, u_RawQuery := query\<rparr>)
              else if CHR '':'' \<in> set (fst (Cut rest (CHR ''/''))) then None
              else parse_hierarchical scheme rest force query)"

definition url_Parse :: "string \<Rightarrow> url option" where
  "url_Parse raw =
    (let (s, frag) = Cut raw (CHR ''#'')
     in case parse_no_fragment s of
          None \<Rightarrow> None
        | Some u \<Rightarrow>
            if frag = [] then Some u
            else map_option (\<lambda>(f, r). u\<lparr>u_Fragment := f, u_RawFragment := r\<rparr>) (set_encoded EncodeFragment frag))"

definition userinfo_String :: "userinfo \<Rightarrow> string" where
  "userinfo_String ui = escape EncodeUserPassword (ui_Username ui)
     @ (case ui_Password ui of None \<Rightarrow> [] | Some p \<Rightarrow> CHR '':'' # escape EncodeUserPassword p)"

definition authority_String :: "url \<Rightarrow> string" where
  "authority_String u =
    (if u_Scheme u = [] \<and> u_Host u = [] \<and> u_User u = None then []
     else if u_OmitHost u \<and> u_Host u = [] \<and> u_User u = None then []
     else (if u_Host u \<noteq> [] \<or> u_Path u \<noteq> [] \<or> u_User u \<noteq> None then ''//'' else [])
       @ (case u_User u of None \<Rightarrow> [] | Some ui \<Rightarrow> userinfo_String ui @ ''@'')
       @ escape EncodeHost (u_Host u))"

definition url_String :: "url \<Rightarrow> string" where
  "url_String u =
    (let scheme = (if u_Scheme u = [] then [] else u_Scheme u @ '':'');
         start = scheme @ authority_String u;
         path = encoded EncodePath (u_RawPath u) (u_Path u);
         slash = (if path \<noteq> [] \<and> hd path \<noteq> CHR ''/'' \<and> u_Host u \<noteq> [] then ''/'' else []);
         dot = (if start @ slash = [] \<and> CHR '':'' \<in> set (fst (Cut path (CHR ''/''))) then ''./'' else [])
     in (if u_Opaque u \<noteq> [] then scheme @ u_Opaque u else start @ slash @ dot @ path)
        @ (if u_ForceQuery u \<or> u_RawQuery u \<noteq> [] then CHR ''?'' # u_RawQuery u else [])
        @ (if u_Fragment u \<noteq> [] then CHR ''#'' # encoded EncodeFragment (u_RawFragment u) (u_Fragment u) else []))"

definition split_port :: "string \<Rightarrow> string \<times> string" where
  "split_port h =
    (let (host, port) = (case split_last (CHR '':'') h of
           Some (a, p) \<Rightarrow> if list_all is_digit p then (a, p) else (h, [])
         | None \<Rightarrow> (h, []))
     in (if HasPrefix host ''['' \<and> HasSuffix host '']'' then butlast (tl host) else host, port))"

definition Hostname :: "url \<Rightarrow> string" where
  "Hostname u = fst (split_port (u_Host u))"

definition url_Port :: "url \<Rightarrow> string" where
  "url_Port u = snd (split_port (u_Host u))"

end
