(* ===== verification/ConfigModel.thy ===== *)
theory ConfigModel
  imports GoUrl
begin

text \<open>
  The configuration file, \<^verbatim>\<open>internal/config/config.go\<close>: its structs, the checks and defaults that
  \<^verbatim>\<open>Load\<close> applies to what the YAML decoder produced, and the helpers the collectors ask for ports,
  tokens and trusted hosts. The files, the environment variables, the YAML decoder and the PEM parser
  are parameters.
\<close>

section \<open>The structs\<close>

definition hour :: int where
  "hour = 60 * minute"

record local_auth_config =
  la_Enabled :: bool
  la_BreakGlassLogin :: bool
  la_BootstrapPassword :: string
  la_BootstrapPasswordFile :: string

record ldap_auth_config =
  ld_URL :: string
  ld_StartTLS :: bool
  ld_AllowPlaintext :: bool
  ld_CAFile :: string
  ld_InsecureSkipVerify :: bool
  ld_BindDN :: string
  ld_BindPassword :: string
  ld_BindPasswordFile :: string
  ld_UserBaseDN :: string
  ld_UserFilter :: string
  ld_UsernameAttribute :: string
  ld_SubjectAttribute :: string
  ld_DisplayNameAttribute :: string
  ld_EmailAttribute :: string
  ld_GroupAttribute :: string
  ld_GroupBaseDN :: string
  ld_NestedActiveDirectory :: bool
  ld_AdminGroups :: "string list"
  ld_ViewerGroups :: "string list"
  ld_DefaultRole :: string
  ld_Timeout :: int

record oidc_auth_config =
  oa_IssuerURL :: string
  oa_ClientID :: string
  oa_ClientSecret :: string
  oa_ClientSecretFile :: string
  oa_Scopes :: "string list"
  oa_UsernameClaim :: string
  oa_DisplayNameClaim :: string
  oa_EmailClaim :: string
  oa_GroupsClaim :: string
  oa_AdminGroups :: "string list"
  oa_ViewerGroups :: "string list"
  oa_DefaultRole :: string

record auth_provider_config =
  ap_Name :: string
  ap_Type :: string
  ap_Domains :: "string list"
  ap_LDAP :: "ldap_auth_config option"
  ap_OIDC :: "oidc_auth_config option"

record authentication_config =
  au_PublicURL :: string
  au_TrustedProxyCIDRs :: "string list"
  au_Local :: local_auth_config
  au_Providers :: "auth_provider_config list"

record tls_config =
  t_CAFile :: string
  t_CAPem :: string
  t_Insecure :: bool

record nats_conn_config =
  nn_URLs :: "string list"
  nn_Username :: string
  nn_Password :: string
  nn_Token :: string
  nn_NKey :: string
  nn_CredsFile :: string
  nn_SubjectPrefix :: string
  nn_SYSCollection :: bool
  nn_TLS :: "tls_config option"

record mqtt_bridge =
  mb_Name :: string
  mb_URL :: string
  mb_BearerToken :: string

record mqtt_discovery_config =
  md_Enabled :: "bool option"
  md_AdminPorts :: "int list"
  md_TrustedHosts :: "string list"

text \<open>A \<^verbatim>\<open>Server\<close> is its URL.\<close>

record environment =
  e_Name :: string
  e_Servers :: "string list"
  e_MQTTBridges :: "mqtt_bridge list"
  e_MQTTDiscovery :: "mqtt_discovery_config option"
  e_AdminToken :: string
  e_TLS :: "tls_config option"
  e_NATSConn :: "nats_conn_config option"

record config =
  cf_Listen :: string
  cf_PollInterval :: int
  cf_SessionSecret :: string
  cf_SecureCookies :: bool
  cf_DataDir :: string
  cf_MetricsRetention :: int
  cf_TrustProxyHeaders :: bool
  cf_Authentication :: authentication_config
  cf_MetricsToken :: string
  cf_MetricsTokenFile :: string
  cf_Environments :: "environment list"

section \<open>What the collectors read\<close>

definition SubjectPrefixOrDefault :: "nats_conn_config option \<Rightarrow> string" where
  "SubjectPrefixOrDefault n = (case n of None \<Rightarrow> ''$MQTT5''
     | Some c \<Rightarrow> if nn_SubjectPrefix c = [] then ''$MQTT5'' else nn_SubjectPrefix c)"

definition MQTTDiscoveryEnabled :: "environment \<Rightarrow> bool" where
  "MQTTDiscoveryEnabled e = (case e_MQTTDiscovery e of None \<Rightarrow> True
     | Some d \<Rightarrow> (case md_Enabled d of None \<Rightarrow> True | Some b \<Rightarrow> b))"

definition MQTTDiscoveryPorts :: "environment \<Rightarrow> int list" where
  "MQTTDiscoveryPorts e = (case e_MQTTDiscovery e of
       Some d \<Rightarrow> if md_AdminPorts d \<noteq> [] then md_AdminPorts d else [8080]
     | None \<Rightarrow> [8080])"

definition ResolveBridgeToken :: "environment \<Rightarrow> string \<Rightarrow> string" where
  "ResolveBridgeToken e perBridge = (if perBridge \<noteq> [] then perBridge else e_AdminToken e)"

definition hostFromURL :: "string \<Rightarrow> string" where
  "hostFromURL raw =
    (let s = (case IndexOf raw ''://'' of Some i \<Rightarrow> drop (i + 3) raw | None \<Rightarrow> raw);
         s = takeWhile (\<lambda>c. c \<notin> set ''/?'') s
     in case SplitHostPort s of Some (h, _) \<Rightarrow> h | None \<Rightarrow> s)"

text \<open>The set is a Go map to \<^verbatim>\<open>true\<close>; here it is the list of its keys, perhaps with repetitions.\<close>

definition DiscoveryTrustedHosts :: "environment \<Rightarrow> string list" where
  "DiscoveryTrustedHosts e = map ToLower (filter (\<lambda>h. h \<noteq> [])
     (map hostFromURL (e_Servers e)
      @ map (\<lambda>b. hostFromURL (mb_URL b)) (e_MQTTBridges e)
      @ (case e_NATSConn e of None \<Rightarrow> [] | Some n \<Rightarrow> map hostFromURL (nn_URLs n))
      @ (case e_MQTTDiscovery e of None \<Rightarrow> [] | Some d \<Rightarrow> md_TrustedHosts d)))"

section \<open>Files\<close>

text \<open>
  \<open>read_file\<close> is \<^verbatim>\<open>os.ReadFile\<close>. \<open>open_file\<close> opens and stats a path: whether it is a regular file,
  and its content unless reading fails. \<open>pem_certs\<close> is \<^verbatim>\<open>AppendCertsFromPEM\<close>: whether a usable
  certificate was found. \<open>yaml_decode\<close> decodes the first document over a start value and says what
  follows it.
\<close>

datatype second_document = EndOfFile | AnotherDocument | BadDocument

record host =
  read_file :: "string \<Rightarrow> string option"
  open_file :: "string \<Rightarrow> (bool \<times> string option) option"
  pem_certs :: "string \<Rightarrow> bool"
  getenv :: "string \<Rightarrow> string"
  yaml_decode :: "string \<Rightarrow> config \<Rightarrow> (config \<times> second_document) option"

definition maxCertFileBytes :: nat where
  "maxCertFileBytes = 1048576"

datatype file_error = OpenFailed | NotRegular | ReadFailed | TooLarge | NoCertificates | NotLoaded

definition readCertFile :: "host \<Rightarrow> string \<Rightarrow> file_error + string" where
  "readCertFile h path = (case open_file h path of
      None \<Rightarrow> Inl OpenFailed
    | Some (regular, content) \<Rightarrow>
        if \<not> regular then Inl NotRegular
        else case content of
          None \<Rightarrow> Inl ReadFailed
        | Some c \<Rightarrow>
            let data = take (maxCertFileBytes + 1) c
            in if maxCertFileBytes < length data then Inl TooLarge else Inr data)"

definition ResolveCAFile :: "host \<Rightarrow> tls_config option \<Rightarrow> file_error + tls_config option" where
  "ResolveCAFile h t = (case t of
      None \<Rightarrow> Inr None
    | Some c \<Rightarrow>
        if t_CAFile c = [] \<or> t_CAPem c \<noteq> [] then Inr (Some c)
        else try_bind (readCertFile h (t_CAFile c)) (\<lambda>pem. Inr (Some (c\<lparr>t_CAPem := pem\<rparr>))))"

text \<open>The pool is the PEM text it was made from; \<open>None\<close> stands for the system roots.\<close>

definition CertPool :: "host \<Rightarrow> tls_config option \<Rightarrow> file_error + string option" where
  "CertPool h t = (case t of
      None \<Rightarrow> Inr None
    | Some c \<Rightarrow>
        if t_CAPem c = [] then (if t_CAFile c \<noteq> [] then Inl NotLoaded else Inr None)
        else if pem_certs h (t_CAPem c) then Inr (Some (t_CAPem c)) else Inl NoCertificates)"

definition validateCAFile :: "host \<Rightarrow> string \<Rightarrow> file_error + unit" where
  "validateCAFile h path = try_bind (readCertFile h path) (\<lambda>pem. check (pem_certs h pem) NoCertificates)"

datatype secret_error = BothGiven | SecretUnreadable

definition trim_newlines :: "string \<Rightarrow> string" where
  "trim_newlines s = rev (dropWhile (\<lambda>c. c = CHR 0x0D \<or> c = CHR 0x0A) (rev s))"

definition resolveSecret :: "host \<Rightarrow> string \<Rightarrow> string \<Rightarrow> secret_error + string" where
  "resolveSecret h inline path =
    (if inline \<noteq> [] \<and> path \<noteq> [] then Inl BothGiven
     else if path = [] then Inr inline
     else case read_file h path of None \<Rightarrow> Inl SecretUnreadable | Some v \<Rightarrow> Inr (trim_newlines v))"

section \<open>Providers\<close>

datatype provider_error =
    LdapURLMissing | LdapURLBad | LdapPlaintext | LdapStartTLSTwice | LdapCA file_error
  | LdapBindPassword secret_error | LdapBindPair | LdapUserBase | LdapSubject | LdapNestedBase
  | LdapDefaultRole | LdapNoRole | LdapFilter
  | OidcIssuer | OidcSecret secret_error | OidcClient | OidcDefaultRole | OidcNoRole

definition or_default :: "string \<Rightarrow> string \<Rightarrow> string" where
  "or_default s d = (if s = [] then d else s)"

definition default_role_ok :: "string \<Rightarrow> bool" where
  "default_role_ok r \<longleftrightarrow> r = [] \<or> r = ''admin'' \<or> r = ''viewer''"

definition default_user_filter :: string where
  "default_user_filter = ''(|(sAMAccountName={username})(userPrincipalName={username}))''"

definition validateLDAPProvider :: "host \<Rightarrow> ldap_auth_config \<Rightarrow> provider_error + ldap_auth_config" where
  "validateLDAPProvider h c =
    try_bind (check (ld_URL c \<noteq> []) LdapURLMissing) (\<lambda>_.
    try_bind (case url_Parse (ld_URL c) of
        None \<Rightarrow> Inl LdapURLBad
      | Some u \<Rightarrow> if u_Host u = [] \<or> u_Scheme u \<noteq> ''ldap'' \<and> u_Scheme u \<noteq> ''ldaps'' then Inl LdapURLBad
                  else Inr (u_Scheme u)) (\<lambda>scheme.
    try_bind (check (\<not> (scheme = ''ldap'' \<and> \<not> ld_StartTLS c \<and> \<not> ld_AllowPlaintext c)) LdapPlaintext) (\<lambda>_.
    try_bind (check (\<not> (scheme = ''ldaps'' \<and> ld_StartTLS c)) LdapStartTLSTwice) (\<lambda>_.
    try_bind (if ld_CAFile c \<noteq> [] then map_error LdapCA (validateCAFile h (ld_CAFile c)) else Inr ()) (\<lambda>_.
    try_bind (map_error LdapBindPassword (resolveSecret h (ld_BindPassword c) (ld_BindPasswordFile c))) (\<lambda>pw.
    let c = c\<lparr>ld_BindPassword := pw\<rparr> in
    try_bind (check ((ld_BindDN c = []) = (ld_BindPassword c = [])) LdapBindPair) (\<lambda>_.
    try_bind (check (ld_UserBaseDN c \<noteq> []) LdapUserBase) (\<lambda>_.
    try_bind (check (ld_SubjectAttribute c \<noteq> []) LdapSubject) (\<lambda>_.
    try_bind (check (\<not> (ld_NestedActiveDirectory c \<and> ld_GroupBaseDN c = [])) LdapNestedBase) (\<lambda>_.
    try_bind (check (default_role_ok (ld_DefaultRole c)) LdapDefaultRole) (\<lambda>_.
    try_bind (check (\<not> (ld_AdminGroups c = [] \<and> ld_ViewerGroups c = [] \<and> ld_DefaultRole c = [])) LdapNoRole) (\<lambda>_.
    let c = c\<lparr>ld_UserFilter := or_default (ld_UserFilter c) default_user_filter\<rparr> in
    try_bind (check (Contains (ld_UserFilter c) ''{username}'') LdapFilter) (\<lambda>_.
    Inr (c\<lparr>ld_UsernameAttribute := or_default (ld_UsernameAttribute c) ''sAMAccountName'',
           ld_DisplayNameAttribute := or_default (ld_DisplayNameAttribute c) ''displayName'',
           ld_EmailAttribute := or_default (ld_EmailAttribute c) ''mail'',
           ld_GroupAttribute := or_default (ld_GroupAttribute c) ''memberOf'',
           ld_Timeout := (if ld_Timeout c \<le> 0 then 5 * second else ld_Timeout c)\<rparr>))))))))))))))"

definition validateOIDCProvider :: "host \<Rightarrow> oidc_auth_config \<Rightarrow> provider_error + oidc_auth_config" where
  "validateOIDCProvider h c =
    try_bind (case url_Parse (oa_IssuerURL c) of
        None \<Rightarrow> Inl OidcIssuer
      | Some u \<Rightarrow> check (\<not> (u_Scheme u \<noteq> ''https'' \<or> u_Host u = [] \<or> u_User u \<noteq> None \<or> u_RawQuery u \<noteq> []
                            \<or> u_Fragment u \<noteq> [])) OidcIssuer) (\<lambda>_.
    try_bind (map_error OidcSecret (resolveSecret h (oa_ClientSecret c) (oa_ClientSecretFile c))) (\<lambda>secret.
    let c = c\<lparr>oa_ClientSecret := secret\<rparr> in
    try_bind (check (\<not> (oa_ClientID c = [] \<or> oa_ClientSecret c = [])) OidcClient) (\<lambda>_.
    try_bind (check (default_role_ok (oa_DefaultRole c)) OidcDefaultRole) (\<lambda>_.
    try_bind (check (\<not> (oa_AdminGroups c = [] \<and> oa_ViewerGroups c = [] \<and> oa_DefaultRole c = [])) OidcNoRole) (\<lambda>_.
    Inr (c\<lparr>oa_UsernameClaim := or_default (oa_UsernameClaim c) ''preferred_username'',
           oa_DisplayNameClaim := or_default (oa_DisplayNameClaim c) ''name'',
           oa_EmailClaim := or_default (oa_EmailClaim c) ''email'',
           oa_GroupsClaim := or_default (oa_GroupsClaim c) ''groups''\<rparr>))))))"

section \<open>Environments\<close>

datatype url_error = URLBad | URLPath | URLPort

text \<open>
  \<^verbatim>\<open>net.LookupPort\<close> of a port that \<^verbatim>\<open>url.Parse\<close> accepted, so of digits: the number, and an error
  above 65535.
\<close>

definition validateHTTPURL :: "string \<Rightarrow> url_error + unit" where
  "validateHTTPURL raw = (case url_Parse raw of
      None \<Rightarrow> Inl URLBad
    | Some u \<Rightarrow>
        try_bind (check (\<not> (u_Host u = [] \<or> u_Scheme u \<noteq> ''http'' \<and> u_Scheme u \<noteq> ''https'' \<or> u_User u \<noteq> None
                           \<or> u_RawQuery u \<noteq> [] \<or> u_Fragment u \<noteq> [])) URLBad) (\<lambda>_.
        try_bind (check (u_Path u = [] \<or> u_Path u = ''/'') URLPath) (\<lambda>_.
        check (url_Port u = [] \<or> 1 \<le> dec_value (url_Port u) \<and> dec_value (url_Port u) \<le> 65535) URLPort)))"

datatype environment_error =
    EnvNameMissing nat | EnvDuplicate nat string | EnvNoServer string
  | EnvServerURL string nat url_error | EnvServerDuplicate string nat string
  | EnvBridgeName string nat | EnvBridgeDuplicate string nat string | EnvBridgeURL string string url_error
  | EnvPort string int | EnvCA string string file_error

fun check_servers :: "string \<Rightarrow> nat \<Rightarrow> string list \<Rightarrow> string list \<Rightarrow> environment_error + unit" where
  "check_servers env j seen [] = Inr ()"
| "check_servers env j seen (u # us) =
    try_bind (map_error (EnvServerURL env j) (validateHTTPURL u)) (\<lambda>_.
    try_bind (check (u \<notin> set seen) (EnvServerDuplicate env j u)) (\<lambda>_.
    check_servers env (j + 1) (u # seen) us))"

fun check_bridges :: "string \<Rightarrow> nat \<Rightarrow> string list \<Rightarrow> mqtt_bridge list \<Rightarrow> environment_error + unit" where
  "check_bridges env j seen [] = Inr ()"
| "check_bridges env j seen (b # bs) =
    try_bind (check (mb_Name b \<noteq> []) (EnvBridgeName env j)) (\<lambda>_.
    try_bind (check (mb_Name b \<notin> set seen) (EnvBridgeDuplicate env j (mb_Name b))) (\<lambda>_.
    try_bind (map_error (EnvBridgeURL env (mb_Name b)) (validateHTTPURL (mb_URL b))) (\<lambda>_.
    check_bridges env (j + 1) (mb_Name b # seen) bs)))"

fun check_ports :: "string \<Rightarrow> int list \<Rightarrow> environment_error + unit" where
  "check_ports env [] = Inr ()"
| "check_ports env (p # ps) = try_bind (check (1 \<le> p \<and> p \<le> 65535) (EnvPort env p)) (\<lambda>_. check_ports env ps)"

definition natsConnTLS :: "nats_conn_config option \<Rightarrow> tls_config option" where
  "natsConnTLS n = (case n of None \<Rightarrow> None | Some c \<Rightarrow> nn_TLS c)"

definition load_ca :: "host \<Rightarrow> string \<Rightarrow> string \<Rightarrow> tls_config option \<Rightarrow> environment_error + tls_config option" where
  "load_ca h env label t =
    try_bind (map_error (EnvCA env label) (ResolveCAFile h t)) (\<lambda>t.
    try_bind (map_error (EnvCA env label) (CertPool h t)) (\<lambda>_. Inr t))"

text \<open>
  The two TLS blocks are visited in the order of a Go map: \<open>tls_first\<close> is the order of the \<open>i\<close>th
  environment. Both are pointers, so the loaded PEM text ends up in the environment.
\<close>

definition load_cas :: "host \<Rightarrow> bool \<Rightarrow> environment \<Rightarrow> environment_error + environment" where
  "load_cas h tls_first e =
    (let own = (\<lambda>e. try_bind (load_ca h (e_Name e) ''TLS CA'' (e_TLS e)) (\<lambda>t. Inr (e\<lparr>e_TLS := t\<rparr>)));
         nats = (\<lambda>e. try_bind (load_ca h (e_Name e) ''NATS conn CA'' (natsConnTLS (e_NATSConn e)))
                   (\<lambda>t. Inr (e\<lparr>e_NATSConn := map_option (\<lambda>n. n\<lparr>nn_TLS := t\<rparr>) (e_NATSConn e)\<rparr>)))
     in if tls_first then try_bind (own e) nats else try_bind (nats e) own)"

fun check_environments :: "host \<Rightarrow> (nat \<Rightarrow> bool) \<Rightarrow> nat \<Rightarrow> string list \<Rightarrow> environment list
    \<Rightarrow> environment_error + environment list" where
  "check_environments h order i seen [] = Inr []"
| "check_environments h order i seen (e # es) =
    try_bind (check (e_Name e \<noteq> []) (EnvNameMissing i)) (\<lambda>_.
    try_bind (check (e_Name e \<notin> set seen) (EnvDuplicate i (e_Name e))) (\<lambda>_.
    try_bind (check (e_Servers e \<noteq> []) (EnvNoServer (e_Name e))) (\<lambda>_.
    try_bind (check_servers (e_Name e) 0 [] (e_Servers e)) (\<lambda>_.
    try_bind (check_bridges (e_Name e) 0 [] (e_MQTTBridges e)) (\<lambda>_.
    try_bind (check_ports (e_Name e) (MQTTDiscoveryPorts e)) (\<lambda>_.
    try_bind (load_cas h (order i) e) (\<lambda>e'.
    try_bind (check_environments h order (i + 1) (e_Name e # seen) es) (\<lambda>es'.
    Inr (e' # es')))))))))"

definition validateEnvironments :: "host \<Rightarrow> (nat \<Rightarrow> bool) \<Rightarrow> environment list \<Rightarrow> environment_error + environment list"
where
  "validateEnvironments h order es = check_environments h order 0 [] es"

section \<open>Load\<close>

text \<open>\<^verbatim>\<open>net.ParseCIDR\<close>: the network with its host bits cleared, four bytes for an IPv4 text.\<close>

definition mask_byte :: "nat \<Rightarrow> nat \<Rightarrow> nat" where
  "mask_byte n i = (let b = min 8 (n - 8 * i) in 256 - 2 ^ (8 - b))"

definition CIDRMask :: "nat \<Rightarrow> nat \<Rightarrow> nat list" where
  "CIDRMask n bytes = map (mask_byte n) [0..<bytes]"

definition ParseCIDR :: "string \<Rightarrow> ip_net option" where
  "ParseCIDR s =
    (if CHR ''/'' \<notin> set s then None
     else let (addr, mask) = Cut s (CHR ''/'') in case ParseIP addr of
         None \<Rightarrow> None
       | Some ip \<Rightarrow>
           let v4 = hd (dropWhile (\<lambda>c. c \<noteq> CHR ''.'' \<and> c \<noteq> CHR '':'') addr) = CHR ''.'';
               bytes = (if v4 then drop 12 ip else ip); n = dec_value mask
           in if mask = [] \<or> \<not> list_all is_digit mask \<or> 8 * length bytes < n then None
              else let m = CIDRMask n (length bytes) in Some \<lparr>net_ip = and_bytes bytes m, net_mask = m\<rparr>)"

datatype config_error =
    ReadConfig | ParseConfig | MultipleDocuments | SecretRequired | SecretTooShort nat
  | PollIntervalRange | RetentionRange | ListenAddress | MetricsTokenSecret secret_error | MetricsTokenShort
  | LocalRequired | BreakGlassRequired | BootstrapSecret secret_error | BootstrapShort | InvalidCIDR string
  | ProviderNameMissing nat | ProviderNameChars nat | ProviderDuplicate nat string | EmptyDomain string
  | ExactlyOneLdap string | ExactlyOneOidc string | PublicURLRequired | SecureCookiesRequired | PublicURLBad
  | ProviderTypeBad string | ProviderInvalid string provider_error | EnvironmentInvalid environment_error

definition default_config :: config where
  "default_config = \<lparr>cf_Listen = '':8080'', cf_PollInterval = 30 * second, cf_SessionSecret = [],
     cf_SecureCookies = False, cf_DataDir = ''./data'', cf_MetricsRetention = 24 * hour,
     cf_TrustProxyHeaders = False,
     cf_Authentication = \<lparr>au_PublicURL = [], au_TrustedProxyCIDRs = [],
       au_Local = \<lparr>la_Enabled = True, la_BreakGlassLogin = True, la_BootstrapPassword = [],
         la_BootstrapPasswordFile = []\<rparr>, au_Providers = []\<rparr>,
     cf_MetricsToken = [], cf_MetricsTokenFile = [], cf_Environments = []\<rparr>"

text \<open>\<^verbatim>\<open>authProviderNamePattern\<close>.\<close>

definition provider_name_ok :: "string \<Rightarrow> bool" where
  "provider_name_ok s \<longleftrightarrow> s \<noteq> [] \<and> is_alnum (hd s) \<and> list_all (\<lambda>c. is_alnum c \<or> c \<in> set ''._-'') (tl s)"

text \<open>The public URL check of one OIDC provider; the result has its trailing slashes removed.\<close>

definition check_public_url :: "string \<Rightarrow> bool \<Rightarrow> config_error + string" where
  "check_public_url public secure =
    try_bind (check (public \<noteq> []) PublicURLRequired) (\<lambda>_.
    try_bind (check secure SecureCookiesRequired) (\<lambda>_.
    try_bind (case url_Parse public of
        None \<Rightarrow> Inl PublicURLBad
      | Some u \<Rightarrow> check (\<not> (u_Scheme u \<noteq> ''https'' \<or> u_Host u = [] \<or> u_Path u \<noteq> [] \<and> u_Path u \<noteq> ''/''
                            \<or> u_RawQuery u \<noteq> [] \<or> u_Fragment u \<noteq> [])) PublicURLBad) (\<lambda>_.
    Inr (TrimRight public CHR ''/''))))"

text \<open>The loop over the providers: the names seen and the public URL are carried along.\<close>

fun check_providers :: "host \<Rightarrow> bool \<Rightarrow> nat \<Rightarrow> string list \<Rightarrow> string \<Rightarrow> auth_provider_config list
    \<Rightarrow> config_error + string \<times> auth_provider_config list" where
  "check_providers h secure i seen public [] = Inr (public, [])"
| "check_providers h secure i seen public (p # ps) =
    try_bind (check (ap_Name p \<noteq> []) (ProviderNameMissing i)) (\<lambda>_.
    try_bind (check (provider_name_ok (ap_Name p)) (ProviderNameChars i)) (\<lambda>_.
    try_bind (check (ap_Name p \<notin> set seen) (ProviderDuplicate i (ap_Name p))) (\<lambda>_.
    let p = p\<lparr>ap_Domains := map (\<lambda>d. ToLower (TrimSpace d)) (ap_Domains p)\<rparr> in
    try_bind (check ([] \<notin> set (ap_Domains p)) (EmptyDomain (ap_Name p))) (\<lambda>_.
    try_bind
      (if ap_Type p = ''ldap'' then
         (case (ap_LDAP p, ap_OIDC p) of
            (Some c, None) \<Rightarrow>
              try_bind (map_error (ProviderInvalid (ap_Name p)) (validateLDAPProvider h c)) (\<lambda>c.
              Inr (public, p\<lparr>ap_LDAP := Some c\<rparr>))
          | _ \<Rightarrow> Inl (ExactlyOneLdap (ap_Name p)))
       else if ap_Type p = ''oidc'' then
         (case (ap_LDAP p, ap_OIDC p) of
            (None, Some c) \<Rightarrow>
              try_bind (check_public_url public secure) (\<lambda>public.
              try_bind (map_error (ProviderInvalid (ap_Name p)) (validateOIDCProvider h c)) (\<lambda>c.
              Inr (public, p\<lparr>ap_OIDC := Some c\<rparr>)))
          | _ \<Rightarrow> Inl (ExactlyOneOidc (ap_Name p)))
       else Inl (ProviderTypeBad (ap_Name p))) (\<lambda>(public, p).
    try_bind (check_providers h secure (i + 1) (ap_Name p # seen) public ps) (\<lambda>(public, ps).
    Inr (public, p # ps)))))))"

definition check_authentication :: "host \<Rightarrow> bool \<Rightarrow> authentication_config \<Rightarrow> config_error + authentication_config" where
  "check_authentication h secure a =
    try_bind (check (la_Enabled (au_Local a)) LocalRequired) (\<lambda>_.
    try_bind (check (la_BreakGlassLogin (au_Local a)) BreakGlassRequired) (\<lambda>_.
    try_bind (map_error BootstrapSecret (resolveSecret h (la_BootstrapPassword (au_Local a))
                (la_BootstrapPasswordFile (au_Local a)))) (\<lambda>pw.
    try_bind (check (\<not> (pw \<noteq> [] \<and> length pw < 12)) BootstrapShort) (\<lambda>_.
    try_bind (case find (\<lambda>c. ParseCIDR c = None) (au_TrustedProxyCIDRs a) of
                None \<Rightarrow> Inr () | Some c \<Rightarrow> Inl (InvalidCIDR c)) (\<lambda>_.
    try_bind (check_providers h secure 0 [] (au_PublicURL a) (au_Providers a)) (\<lambda>(public, ps).
    Inr (a\<lparr>au_PublicURL := public, au_Local := (au_Local a)\<lparr>la_BootstrapPassword := pw\<rparr>,
           au_Providers := ps\<rparr>)))))))"

text \<open>The retention default and the secret from the environment, before any check.\<close>

definition with_overrides :: "host \<Rightarrow> config \<Rightarrow> config" where
  "with_overrides h c = c\<lparr>
     cf_MetricsRetention := (if cf_MetricsRetention c \<le> 0 then 24 * hour else cf_MetricsRetention c),
     cf_SessionSecret := (if getenv h ''SESSION_SECRET'' \<noteq> [] then getenv h ''SESSION_SECRET'' else cf_SessionSecret c)\<rparr>"

definition check_config :: "host \<Rightarrow> (nat \<Rightarrow> bool) \<Rightarrow> config \<Rightarrow> config_error + config" where
  "check_config h order c =
    try_bind (check (cf_SessionSecret c \<noteq> []) SecretRequired) (\<lambda>_.
    try_bind (check (32 \<le> length (cf_SessionSecret c)) (SecretTooShort (length (cf_SessionSecret c)))) (\<lambda>_.
    try_bind (check (second \<le> cf_PollInterval c \<and> cf_PollInterval c \<le> 10 * minute) PollIntervalRange) (\<lambda>_.
    try_bind (check (hour \<le> cf_MetricsRetention c \<and> cf_MetricsRetention c \<le> 365 * 24 * hour) RetentionRange) (\<lambda>_.
    try_bind (check (case SplitHostPort (cf_Listen c) of None \<Rightarrow> False | Some (_, port) \<Rightarrow> port \<noteq> []) ListenAddress) (\<lambda>_.
    try_bind (map_error MetricsTokenSecret (resolveSecret h (cf_MetricsToken c) (cf_MetricsTokenFile c))) (\<lambda>token.
    try_bind (check (\<not> (token \<noteq> [] \<and> length token < 16)) MetricsTokenShort) (\<lambda>_.
    try_bind (check_authentication h (cf_SecureCookies c) (cf_Authentication c)) (\<lambda>auth.
    try_bind (map_error EnvironmentInvalid (validateEnvironments h order (cf_Environments c))) (\<lambda>envs.
    Inr (c\<lparr>cf_MetricsToken := token, cf_Authentication := auth, cf_Environments := envs\<rparr>))))))))))"

definition Load :: "host \<Rightarrow> (nat \<Rightarrow> bool) \<Rightarrow> string \<Rightarrow> config_error + config" where
  "Load h order path = (case read_file h path of
      None \<Rightarrow> Inl ReadConfig
    | Some data \<Rightarrow> (case yaml_decode h data default_config of
        None \<Rightarrow> Inl ParseConfig
      | Some (c, AnotherDocument) \<Rightarrow> Inl MultipleDocuments
      | Some (c, BadDocument) \<Rightarrow> Inl ParseConfig
      | Some (c, EndOfFile) \<Rightarrow> check_config h order (with_overrides h c)))"

section \<open>What an accepted configuration guarantees\<close>

definition safe_ldap :: "ldap_auth_config \<Rightarrow> bool" where
  "safe_ldap c \<longleftrightarrow>
    (case url_Parse (ld_URL c) of None \<Rightarrow> False
     | Some u \<Rightarrow> u_Host u \<noteq> [] \<and> (u_Scheme u = ''ldaps'' \<and> \<not> ld_StartTLS c
         \<or> u_Scheme u = ''ldap'' \<and> (ld_StartTLS c \<or> ld_AllowPlaintext c)))
    \<and> (ld_BindDN c = []) = (ld_BindPassword c = [])
    \<and> ld_UserBaseDN c \<noteq> [] \<and> ld_SubjectAttribute c \<noteq> [] \<and> Contains (ld_UserFilter c) ''{username}''
    \<and> (ld_NestedActiveDirectory c \<longrightarrow> ld_GroupBaseDN c \<noteq> [])
    \<and> default_role_ok (ld_DefaultRole c) \<and> 0 < ld_Timeout c
    \<and> [] \<notin> {ld_UsernameAttribute c, ld_DisplayNameAttribute c, ld_EmailAttribute c, ld_GroupAttribute c}"

definition safe_oidc :: "oidc_auth_config \<Rightarrow> bool" where
  "safe_oidc c \<longleftrightarrow>
    (case url_Parse (oa_IssuerURL c) of None \<Rightarrow> False
     | Some u \<Rightarrow> u_Scheme u = ''https'' \<and> u_Host u \<noteq> [] \<and> u_User u = None)
    \<and> oa_ClientID c \<noteq> [] \<and> oa_ClientSecret c \<noteq> [] \<and> default_role_ok (oa_DefaultRole c)
    \<and> [] \<notin> {oa_UsernameClaim c, oa_DisplayNameClaim c, oa_EmailClaim c, oa_GroupsClaim c}"

definition safe_provider :: "auth_provider_config \<Rightarrow> bool" where
  "safe_provider p \<longleftrightarrow> provider_name_ok (ap_Name p) \<and> [] \<notin> set (ap_Domains p)
    \<and> (case (ap_Type p, ap_LDAP p, ap_OIDC p) of
         (t, Some c, None) \<Rightarrow> t = ''ldap'' \<and> safe_ldap c
       | (t, None, Some c) \<Rightarrow> t = ''oidc'' \<and> safe_oidc c
       | _ \<Rightarrow> False)"

definition ca_loaded :: "host \<Rightarrow> tls_config option \<Rightarrow> bool" where
  "ca_loaded h t \<longleftrightarrow> (case t of None \<Rightarrow> True
     | Some c \<Rightarrow> (t_CAFile c \<noteq> [] \<longrightarrow> t_CAPem c \<noteq> []) \<and> (t_CAPem c \<noteq> [] \<longrightarrow> pem_certs h (t_CAPem c)))"

definition safe_environment :: "host \<Rightarrow> environment \<Rightarrow> bool" where
  "safe_environment h e \<longleftrightarrow> e_Name e \<noteq> [] \<and> e_Servers e \<noteq> [] \<and> distinct (e_Servers e)
    \<and> list_all (\<lambda>u. validateHTTPURL u = Inr ()) (e_Servers e @ map mb_URL (e_MQTTBridges e))
    \<and> distinct (map mb_Name (e_MQTTBridges e)) \<and> [] \<notin> set (map mb_Name (e_MQTTBridges e))
    \<and> list_all (\<lambda>p. 1 \<le> p \<and> p \<le> 65535) (MQTTDiscoveryPorts e)
    \<and> ca_loaded h (e_TLS e) \<and> ca_loaded h (natsConnTLS (e_NATSConn e))"

definition safe_authentication :: "bool \<Rightarrow> authentication_config \<Rightarrow> bool" where
  "safe_authentication secure a \<longleftrightarrow> la_Enabled (au_Local a) \<and> la_BreakGlassLogin (au_Local a)
    \<and> (la_BootstrapPassword (au_Local a) = [] \<or> 12 \<le> length (la_BootstrapPassword (au_Local a)))
    \<and> list_all (\<lambda>c. ParseCIDR c \<noteq> None) (au_TrustedProxyCIDRs a)
    \<and> distinct (map ap_Name (au_Providers a)) \<and> list_all safe_provider (au_Providers a)
    \<and> (list_ex (\<lambda>p. ap_Type p = ''oidc'') (au_Providers a) \<longrightarrow> secure \<and> \<not> HasSuffix (au_PublicURL a) ''/'')"

definition safe_config :: "host \<Rightarrow> config \<Rightarrow> bool" where
  "safe_config h c \<longleftrightarrow> 32 \<le> length (cf_SessionSecret c)
    \<and> second \<le> cf_PollInterval c \<and> cf_PollInterval c \<le> 10 * minute
    \<and> hour \<le> cf_MetricsRetention c \<and> cf_MetricsRetention c \<le> 365 * 24 * hour
    \<and> (cf_MetricsToken c = [] \<or> 16 \<le> length (cf_MetricsToken c))
    \<and> safe_authentication (cf_SecureCookies c) (cf_Authentication c)
    \<and> distinct (map e_Name (cf_Environments c)) \<and> list_all (safe_environment h) (cf_Environments c)"

lemma or_default_empty: "or_default s d = [] \<longleftrightarrow> s = [] \<and> d = []" "[] = or_default s d \<longleftrightarrow> s = [] \<and> d = []"
  by (auto simp: or_default_def)

lemma validated_ldap_safe: "validateLDAPProvider h c = Inr c' \<Longrightarrow> safe_ldap c'"
  unfolding validateLDAPProvider_def Let_def
  apply (simp only: error_simps)
  apply (elim exE conjE)
  subgoal premises p for _ scheme _ _ _ pw
  proof -
    obtain u where "url_Parse (ld_URL c) = Some u" "u_Host u \<noteq> []" "scheme = u_Scheme u"
        "scheme = ''ldap'' \<or> scheme = ''ldaps''"
      using p by (auto split: option.splits if_splits)
    then show ?thesis using p unfolding safe_ldap_def
      by (simp only: sum.inject, hypsubst, simp add: or_default_empty second_def) auto
  qed
  done

lemma validated_oidc_safe: "validateOIDCProvider h c = Inr c' \<Longrightarrow> safe_oidc c'"
  by (auto simp: validateOIDCProvider_def safe_oidc_def error_simps Let_def or_default_empty split: option.splits)

lemma check_servers_ok: "check_servers env j seen us = Inr () \<Longrightarrow>
    distinct us \<and> set us \<inter> set seen = {} \<and> list_all (\<lambda>u. validateHTTPURL u = Inr ()) us"
  by (induction env j seen us rule: check_servers.induct) (auto simp: error_simps)

lemma check_bridges_ok: "check_bridges env j seen bs = Inr () \<Longrightarrow>
    distinct (map mb_Name bs) \<and> mb_Name ` set bs \<inter> set seen = {} \<and> [] \<notin> set (map mb_Name bs)
    \<and> list_all (\<lambda>b. validateHTTPURL (mb_URL b) = Inr ()) bs"
  by (induction env j seen bs rule: check_bridges.induct) (auto simp: error_simps)

lemma check_ports_ok: "check_ports env ps = Inr () \<Longrightarrow> list_all (\<lambda>p. 1 \<le> p \<and> p \<le> 65535) ps"
  by (induction env ps rule: check_ports.induct) (auto simp: error_simps)

lemma loaded_ca: "load_ca h env label t = Inr t' \<Longrightarrow> ca_loaded h t'"
  by (auto simp: load_ca_def error_simps ca_loaded_def CertPool_def split: option.splits if_splits)

lemma natsConnTLS_set: "t = None \<or> n \<noteq> None \<Longrightarrow> natsConnTLS (map_option (nn_TLS_update (\<lambda>_. t)) n) = t"
  by (cases n) (auto simp: natsConnTLS_def)

lemma load_ca_None: "load_ca h env label None = Inr t \<longleftrightarrow> t = None"
  by (auto simp: load_ca_def ResolveCAFile_def CertPool_def)

lemma load_cas_ok:
  assumes "load_cas h b e = Inr e'"
  shows "\<exists>t n. e' = e\<lparr>e_TLS := t, e_NATSConn := n\<rparr> \<and> ca_loaded h t \<and> ca_loaded h (natsConnTLS n)"
proof -
  obtain t t2 where t: "load_ca h (e_Name e) ''TLS CA'' (e_TLS e) = Inr t"
      "load_ca h (e_Name e) ''NATS conn CA'' (natsConnTLS (e_NATSConn e)) = Inr t2"
      "e' = e\<lparr>e_TLS := t, e_NATSConn := map_option (nn_TLS_update (\<lambda>_. t2)) (e_NATSConn e)\<rparr>"
    using assms by (auto simp: load_cas_def error_simps Let_def split: if_splits)
  have "t2 = None \<or> e_NATSConn e \<noteq> None"
    using t(2) by (auto simp: natsConnTLS_def load_ca_None)
  then have "natsConnTLS (map_option (nn_TLS_update (\<lambda>_. t2)) (e_NATSConn e)) = t2"
    by (rule natsConnTLS_set)
  then show ?thesis using t loaded_ca by metis
qed

lemma check_environments_ok: "check_environments h order i seen es = Inr es' \<Longrightarrow>
    distinct (map e_Name es') \<and> e_Name ` set es' \<inter> set seen = {} \<and> list_all (safe_environment h) es'"
proof (induction h order i seen es arbitrary: es' rule: check_environments.induct)
  case (2 h order i seen e es)
  then obtain e' es2 where r: "load_cas h (order i) e = Inr e'"
      "check_environments h order (i + 1) (e_Name e # seen) es = Inr es2" "es' = e' # es2"
    by (auto simp: error_simps)
  obtain t n where e': "e' = e\<lparr>e_TLS := t, e_NATSConn := n\<rparr>" "ca_loaded h t" "ca_loaded h (natsConnTLS n)"
    using load_cas_ok[OF r(1)] by auto
  have "distinct (map e_Name es2) \<and> e_Name ` set es2 \<inter> set (e_Name e # seen) = {} \<and> list_all (safe_environment h) es2"
    using 2 r by (auto simp: error_simps)
  moreover have "safe_environment h e'"
    using "2.prems" e' check_servers_ok[of "e_Name e" 0 "[]"] check_bridges_ok[of "e_Name e" 0 "[]"] check_ports_ok
    by (auto simp: error_simps safe_environment_def list_all_iff MQTTDiscoveryPorts_def)
  moreover have "e_Name e \<notin> set seen" using "2.prems" by (auto simp: error_simps)
  ultimately show ?case using r e' by auto
qed auto

lemma TrimRight_no_suffix: "\<not> HasSuffix (TrimRight s c) [c]"
proof -
  have "take 1 (dropWhile (\<lambda>x. x = c) xs) \<noteq> [c]" for xs
    by (induction xs) auto
  then show ?thesis by (simp add: TrimRight_def HasSuffix_def HasPrefix_def)
qed

lemma check_public_url_ok: "check_public_url public secure = Inr p \<Longrightarrow> secure \<and> \<not> HasSuffix p ''/''"
  by (auto simp: check_public_url_def error_simps TrimRight_no_suffix split: option.splits)

lemma check_providers_ok: "check_providers h secure i seen public ps = Inr (public', ps') \<Longrightarrow>
    distinct (map ap_Name ps') \<and> ap_Name ` set ps' \<inter> set seen = {} \<and> list_all safe_provider ps'
    \<and> (public' = public \<or> secure \<and> \<not> HasSuffix public' ''/'')
    \<and> (list_ex (\<lambda>p. ap_Type p = ''oidc'') ps' \<longrightarrow> secure \<and> \<not> HasSuffix public' ''/'')"
proof (induction h secure i seen public ps arbitrary: public' ps' rule: check_providers.induct)
  case (2 h secure i seen public p ps)
  let ?p = "p\<lparr>ap_Domains := map (\<lambda>d. ToLower (TrimSpace d)) (ap_Domains p)\<rparr>"
  from "2.prems" obtain pub p2 ps2 where
    r: "check_providers h secure (i + 1) (ap_Name p # seen) pub ps = Inr (public', ps2)" "ps' = p2 # ps2"
    and n: "ap_Name p2 = ap_Name p" "safe_provider p2" "ap_Name p \<notin> set seen"
    and pub: "pub = public \<and> ap_Type p2 = ''ldap'' \<or> secure \<and> \<not> HasSuffix pub ''/''"
    apply (clarsimp simp: error_simps Let_def split: if_splits option.splits)
    subgoal by (auto simp: safe_provider_def dest!: validated_ldap_safe)
    subgoal by (auto simp: safe_provider_def dest!: validated_oidc_safe check_public_url_ok)
    done
  have IH: "distinct (map ap_Name ps2) \<and> ap_Name ` set ps2 \<inter> set (ap_Name p # seen) = {} \<and> list_all safe_provider ps2
    \<and> (public' = pub \<or> secure \<and> \<not> HasSuffix public' ''/'')
    \<and> (list_ex (\<lambda>p. ap_Type p = ''oidc'') ps2 \<longrightarrow> secure \<and> \<not> HasSuffix public' ''/'')"
    using "2.prems" r(1) by (intro "2.IH") (auto simp: error_simps)
  then show ?case using r(2) n pub by auto
qed auto

lemma checked_authentication_safe:
  assumes "check_authentication h secure a = Inr a'"
  shows "safe_authentication secure a'"
proof -
  obtain pw public ps where r: "check_providers h secure 0 [] (au_PublicURL a) (au_Providers a) = Inr (public, ps)"
      "a' = a\<lparr>au_PublicURL := public, au_Local := (au_Local a)\<lparr>la_BootstrapPassword := pw\<rparr>, au_Providers := ps\<rparr>"
    and s: "la_Enabled (au_Local a)" "la_BreakGlassLogin (au_Local a)" "pw = [] \<or> 12 \<le> length pw"
      "find (\<lambda>c. ParseCIDR c = None) (au_TrustedProxyCIDRs a) = None"
    using assms by (auto simp: check_authentication_def error_simps not_less split: option.splits)
  then show ?thesis using check_providers_ok[OF r(1)]
    by (auto simp: safe_authentication_def find_None_iff list_all_iff)
qed

lemma accepted_config_safe:
  assumes "Load h order path = Inr c"
  shows "safe_config h c"
proof -
  obtain c0 where c: "check_config h order c0 = Inr c"
    using assms by (auto simp: Load_def split: option.splits second_document.splits prod.splits)
  obtain token auth envs where r: "check_authentication h (cf_SecureCookies c0) (cf_Authentication c0) = Inr auth"
      "check_environments h order 0 [] (cf_Environments c0) = Inr envs"
      "c = c0\<lparr>cf_MetricsToken := token, cf_Authentication := auth, cf_Environments := envs\<rparr>"
    and s: "32 \<le> length (cf_SessionSecret c0)" "second \<le> cf_PollInterval c0" "cf_PollInterval c0 \<le> 10 * minute"
      "hour \<le> cf_MetricsRetention c0" "cf_MetricsRetention c0 \<le> 365 * 24 * hour" "token = [] \<or> 16 \<le> length token"
    using c by (auto simp: check_config_def validateEnvironments_def error_simps not_less)
  then show ?thesis using checked_authentication_safe[OF r(1)] check_environments_ok[OF r(2)]
    by (simp add: safe_config_def)
qed


definition example_tls :: tls_config where
  "example_tls = \<lparr>t_CAFile = [], t_CAPem = ''PEM'', t_Insecure = False\<rparr>"

definition example_environment :: environment where
  "example_environment = \<lparr>e_Name = ''prod'', e_Servers = [''http://nats1'', ''https://10.0.0.2''],
     e_MQTTBridges = [\<lparr>mb_Name = ''b1'', mb_URL = ''http://Bridge/'', mb_BearerToken = []\<rparr>],
     e_MQTTDiscovery = None, e_AdminToken = ''tok'', e_TLS = Some example_tls, e_NATSConn = None\<rparr>"

definition example_ldap :: ldap_auth_config where
  "example_ldap = \<lparr>ld_URL = ''ldap://dir:389'', ld_StartTLS = True, ld_AllowPlaintext = False, ld_CAFile = [],
     ld_InsecureSkipVerify = False, ld_BindDN = ''cn=x'', ld_BindPassword = [], ld_BindPasswordFile = ''/pw'',
     ld_UserBaseDN = ''dc=x'', ld_UserFilter = [], ld_UsernameAttribute = [], ld_SubjectAttribute = ''uid'',
     ld_DisplayNameAttribute = [], ld_EmailAttribute = [], ld_GroupAttribute = [], ld_GroupBaseDN = [],
     ld_NestedActiveDirectory = False, ld_AdminGroups = [''ops''], ld_ViewerGroups = [], ld_DefaultRole = [],
     ld_Timeout = 0\<rparr>"

definition example_config :: config where
  "example_config = default_config\<lparr>cf_MetricsRetention := 0,
     cf_Authentication := (cf_Authentication default_config)\<lparr>au_TrustedProxyCIDRs := [''10.0.0.0/8''],
       au_Providers := [\<lparr>ap_Name = ''corp'', ap_Type = ''ldap'', ap_Domains = ['' X.org''],
         ap_LDAP = Some example_ldap, ap_OIDC = None\<rparr>]\<rparr>,
     cf_Environments := [example_environment]\<rparr>"

definition example_host :: host where
  "example_host = \<lparr>read_file = (\<lambda>p. if p = ''/pw'' then Some (''secret'' @ [CHR 0x0A]) else Some ''yaml''),
     open_file = (\<lambda>p. Some (True, Some ''PEM'')), pem_certs = (\<lambda>t. t = ''PEM''),
     getenv = (\<lambda>_. ''0123456789abcdef0123456789abcdef''), yaml_decode = (\<lambda>_ _. Some (example_config, EndOfFile))\<rparr>"


end
