(* ===== verification/UrlText.thy ===== *)
theory UrlText
  imports GoUrl
begin

text \<open>
  \<^verbatim>\<open>URL.String\<close> against \<^verbatim>\<open>url.Parse\<close>: escaping is undone by unescaping, and a parsed URL with a host is read
  back from its text, also when its user part has been removed or replaced in between.
\<close>

section \<open>The pieces of a parsed URL\<close>

text \<open>The text in front of the query is the text in front of the first question mark.\<close>

lemma one_occurrence: "count_list xs c = 1 \<Longrightarrow> HasSuffix xs [c] \<Longrightarrow> takeWhile (\<lambda>x. x \<noteq> c) xs = butlast xs"
proof -
  assume n: "count_list xs c = 1" and s: "HasSuffix xs [c]"
  obtain ys where ys: "xs = ys @ [c]"
    using s by (metis HasPrefix_iff HasSuffix_def append_Cons append_Nil rev.simps(2) rev_rev_ident rev_singleton_conv)
  then have "c \<notin> set ys" using n by (simp add: count_list_0_iff)
  then show ?thesis by (auto simp: ys takeWhile_tail)
qed

lemma cut_query_fst: "fst (cut_query r) = takeWhile (\<lambda>c. c \<noteq> CHR ''?'') r"
  using one_occurrence[of r "CHR ''?''"] by (auto simp: cut_query_def Cut_def)

lemma takeWhile_takeWhile: "takeWhile P (takeWhile Q xs) = takeWhile (\<lambda>x. P x \<and> Q x) xs"
  by (induction xs) auto

lemma dropWhile_found: "c \<in> set xs \<Longrightarrow> dropWhile (\<lambda>x. x \<noteq> c) xs = c # drop 1 (dropWhile (\<lambda>x. x \<noteq> c) xs)"
  by (induction xs) auto

lemma split_last_Some: "split_last c s = Some (a, b) \<Longrightarrow> s = a @ c # b \<and> c \<notin> set b"
proof -
  assume "split_last c s = Some (a, b)"
  then have c: "c \<in> set (rev s)" and a: "a = rev (drop 1 (dropWhile (\<lambda>x. x \<noteq> c) (rev s)))"
    and b: "b = rev (takeWhile (\<lambda>x. x \<noteq> c) (rev s))"
    by (auto simp: split_last_def split: if_splits)
  have "rev s = rev b @ c # rev a"
    using takeWhile_dropWhile_id[of "\<lambda>x. x \<noteq> c" "rev s"] dropWhile_found[OF c] by (simp add: a b)
  then have "s = a @ c # b" by (metis append.assoc append_Cons append_Nil rev.simps(2) rev_append rev_rev_ident)
  moreover have "c \<notin> set b" using b by (auto dest: set_takeWhileD)
  ultimately show ?thesis by simp
qed

lemma unescape_plain: "CHR ''%'' \<notin> set s \<Longrightarrow> unescape ok host s = Some t \<Longrightarrow> t = s"
  by (induction s arbitrary: t) (auto split: if_splits)

lemma colon_not_alnum: "\<not> is_alnum (CHR '':'')"
  by code_simp

lemma getScheme_Some:
  assumes "getScheme s = Some (sch, r)" "sch \<noteq> []"
  shows "s = sch @ CHR '':'' # r \<and> CHR '':'' \<notin> set sch"
proof -
  let ?P = "\<lambda>c. is_alnum c \<or> c \<in> set ''+-.''"
  have sch: "sch = takeWhile ?P s"
    and rest: "drop (length sch) s \<noteq> []" "hd (drop (length sch) s) = CHR '':''" "r = tl (drop (length sch) s)"
    using assms by (auto simp: getScheme_def Let_def split: if_splits)
  have r: "drop (length sch) s = CHR '':'' # r"
    using rest by (metis list.collapse)
  have "s = sch @ drop (length sch) s" 
    using takeWhile_eq_take[of ?P s] by (metis append_take_drop_id sch)
  moreover have "CHR '':'' \<notin> set sch"
    unfolding sch by (auto simp: colon_not_alnum dest!: set_takeWhileD)
  ultimately show ?thesis using r by simp
qed


section \<open>Escaping is undone\<close>

lemma hex_val_upper: "n < 16 \<Longrightarrow> hex_val (upper_hex n) = Some n"
proof -
  have "list_all (\<lambda>n. hex_val (upper_hex n) = Some n) [0..<16]" by code_simp
  then show "n < 16 \<Longrightarrow> hex_val (upper_hex n) = Some n" by (simp add: list_all_iff)
qed

lemma upper_hex_alnum: "n < 16 \<Longrightarrow> is_alnum (upper_hex n)"
proof -
  have "list_all (\<lambda>n. is_alnum (upper_hex n)) [0..<16]" by code_simp
  then show "n < 16 \<Longrightarrow> is_alnum (upper_hex n)" by (simp add: list_all_iff)
qed

lemma byte_of_lt: "byte_of c < 256"
  by (simp add: byte_of_def)

lemma char_of_byte [simp]: "char_of (byte_of c) = c"
  by (simp add: byte_of_def)

lemma percent_escaped: "shouldEscape mode (CHR ''%'')"
proof -
  have "shouldEscape EncodePath (CHR ''%'')" "shouldEscape EncodeHost (CHR ''%'')"
    "shouldEscape EncodeUserPassword (CHR ''%'')" "shouldEscape EncodeFragment (CHR ''%'')"
    "shouldEscape EncodeQuery (CHR ''%'')" by code_simp+
  then show ?thesis by (cases mode) simp_all
qed

lemma escape_Nil [simp]: "escape mode [] = []"
  by (simp add: escape_def)

lemma escape_Cons: "mode \<noteq> EncodeQuery \<Longrightarrow> escape mode (c # s) =
    (if shouldEscape mode c then [CHR ''%'', upper_hex (byte_of c div 16), upper_hex (byte_of c mod 16)] else [c]) @ escape mode s"
  by (simp add: escape_def)

lemma unescape_escape: "mode \<noteq> EncodeQuery \<Longrightarrow> unescape (\<lambda>_. True) False (escape mode s) = Some s"
proof (induction s)
  case (Cons c s)
  have "byte_of c div 16 < 16" using byte_of_lt[of c] by simp
  then have h: "hex_val (upper_hex (byte_of c div 16)) = Some (byte_of c div 16)"
    "hex_val (upper_hex (byte_of c mod 16)) = Some (byte_of c mod 16)" by (auto intro: hex_val_upper)
  have "\<not> shouldEscape mode c \<Longrightarrow> c \<noteq> CHR ''%''" using percent_escaped by auto
  then show ?case using Cons h by (auto simp: escape_Cons)
qed simp

lemma escape_chars:
  assumes "mode \<noteq> EncodeQuery" "c \<in> set (escape mode s)"
  shows "c = CHR ''%'' \<or> \<not> shouldEscape mode c"
  using assms(2)
proof (induction s)
  case (Cons a s)
  have "byte_of a div 16 < 16" using byte_of_lt[of a] by simp
  then have "\<not> shouldEscape mode (upper_hex (byte_of a div 16))" "\<not> shouldEscape mode (upper_hex (byte_of a mod 16))"
    using upper_hex_alnum by (auto simp: shouldEscape_def)
  then show ?case using Cons assms(1) by (auto simp: escape_Cons split: if_splits)
qed simp

lemma escape_plain: "mode \<noteq> EncodeQuery \<Longrightarrow> list_all (\<lambda>c. \<not> shouldEscape mode c) s \<Longrightarrow> escape mode s = s"
  by (induction s) (auto simp: escape_Cons)

text \<open>A byte that no encoded component holds: not reserved in a way that \<open>validEncoded\<close> lets through.\<close>

definition delimits :: "encoding \<Rightarrow> char \<Rightarrow> bool" where
  "delimits mode c \<longleftrightarrow> shouldEscape mode c \<and> \<not> passes_encoded c \<and> c \<noteq> CHR ''*'' \<and> c \<noteq> CHR ''%''"

lemma encoded_chars:
  assumes "mode \<noteq> EncodeQuery" "delimits mode c"
  shows "c \<notin> set (encoded mode raw dec)"
proof -
  have "c \<notin> set raw" if "validEncoded mode raw"
    using that assms(2) by (auto simp: validEncoded_def list_all_iff delimits_def)
  then show ?thesis using escape_chars[OF assms(1), of c dec] assms(2)
    by (auto simp: encoded_def delimits_def)
qed

lemma set_encoded_encoded:
  assumes "mode \<noteq> EncodeQuery"
  obtains r where "set_encoded mode (encoded mode raw dec) = Some (dec, r)"
proof -
  have "unescape (\<lambda>_. True) False (encoded mode raw dec) = Some dec"
    using unescape_escape[OF assms] by (auto simp: encoded_def)
  then show thesis using that by (simp add: set_encoded_def)
qed

lemma encoded_Nil:
  assumes "mode \<noteq> EncodeQuery" "encoded mode raw dec = []"
  shows "dec = []"
proof -
  obtain r where "set_encoded mode (encoded mode raw dec) = Some (dec, r)" by (rule set_encoded_encoded[OF assms(1)])
  then show ?thesis by (simp add: assms(2) set_encoded_def)
qed

section \<open>What parsing a URL yields\<close>

definition scheme_char :: "char \<Rightarrow> bool" where
  "scheme_char c \<longleftrightarrow> is_alnum c \<or> c \<in> set ''+-.''"

definition scheme_ok :: "string \<Rightarrow> bool" where
  "scheme_ok s \<longleftrightarrow> s = [] \<or> is_alpha (hd s) \<and> list_all scheme_char s \<and> ToLower s = s"

lemma byte_lower: "65 \<le> byte_of c \<Longrightarrow> byte_of c \<le> 90 \<Longrightarrow> byte_of (lower_char c) = byte_of c + 32"
  by (simp add: lower_char_def byte_of_def)

lemma lower_char_same: "\<not> (65 \<le> byte_of c \<and> byte_of c \<le> 90) \<Longrightarrow> lower_char c = c"
  by (auto simp: lower_char_def)

lemma lower_char_twice: "lower_char (lower_char c) = lower_char c"
proof (cases "65 \<le> byte_of c \<and> byte_of c \<le> 90")
  case True
  then show ?thesis using byte_lower by (intro lower_char_same) simp
qed (simp add: lower_char_same)

lemma lower_char_alpha: "is_alpha c \<Longrightarrow> is_alpha (lower_char c)"
  by (cases "65 \<le> byte_of c \<and> byte_of c \<le> 90") (auto simp: is_alpha_def byte_lower lower_char_same)

lemma lower_char_scheme: "scheme_char c \<Longrightarrow> scheme_char (lower_char c)"
proof (cases "65 \<le> byte_of c \<and> byte_of c \<le> 90")
  case True
  then have "is_alpha (lower_char c)" by (intro lower_char_alpha) (auto simp: is_alpha_def)
  then show ?thesis by (simp add: scheme_char_def is_alnum_def)
qed (simp add: lower_char_same)

lemma getScheme_ok: 
  assumes "getScheme s = Some (sch, r)"
  shows "scheme_ok (ToLower sch)"
proof (cases sch)
  case (Cons c cs)
  have sc: "scheme_char = (\<lambda>c. is_alnum c \<or> c \<in> set ''+-.'')" by (rule ext) (simp add: scheme_char_def)
  have "sch = takeWhile scheme_char s" "is_alpha (hd sch)"
    using assms Cons by (auto simp: getScheme_def sc Let_def split: if_splits)
  then have "\<forall>c\<in>set sch. scheme_char c" "is_alpha (hd sch)" by (metis set_takeWhileD, simp)
  then have "\<forall>c\<in>set sch. scheme_char c" "is_alpha c" by (simp_all add: Cons)
  then show ?thesis
    by (simp add: scheme_ok_def ToLower_def list_all_iff lower_char_alpha lower_char_scheme lower_char_twice Cons)
qed (simp add: scheme_ok_def ToLower_def)

lemma getScheme_text:
  assumes "scheme_ok sch" "sch \<noteq> []"
  shows "getScheme (sch @ CHR '':'' # r) = Some (sch, r)"
proof -
  have c: "\<not> scheme_char (CHR '':'')" by code_simp
  have "takeWhile scheme_char (sch @ CHR '':'' # r) = sch"
    using assms c by (subst takeWhile_append2) (auto simp: scheme_ok_def list_all_iff)
  moreover have "scheme_char = (\<lambda>c. is_alnum c \<or> c \<in> set ''+-.'')" by (rule ext) (simp add: scheme_char_def)
  ultimately have t: "takeWhile (\<lambda>c. is_alnum c \<or> c \<in> set ''+-.'') (sch @ CHR '':'' # r) = sch" by metis
  show ?thesis unfolding getScheme_def t Let_def using assms by (simp add: scheme_ok_def)
qed

definition no_control :: "string \<Rightarrow> bool" where
  "no_control s \<longleftrightarrow> \<not> list_ex (\<lambda>c. byte_of c < 32 \<or> byte_of c = 127) s"

definition rooted :: "string \<Rightarrow> bool" where
  "rooted p \<longleftrightarrow> p = [] \<or> hd p = CHR ''/''"

definition url_ok :: "url \<Rightarrow> bool" where
  "url_ok u \<longleftrightarrow> scheme_ok (u_Scheme u) \<and> u_Opaque u = [] \<and> \<not> u_OmitHost u \<and> rooted (u_Path u) \<and> rooted (u_RawPath u)
    \<and> (u_ForceQuery u \<longrightarrow> u_RawQuery u = []) \<and> CHR ''#'' \<notin> set (u_RawQuery u) \<and> no_control (u_RawQuery u)
    \<and> (\<exists>h. parseHost h = Some (u_Host u))"

lemma unescape_rooted: "rooted raw \<Longrightarrow> unescape ok host raw = Some p \<Longrightarrow> rooted p"
  by (cases raw) (auto simp: rooted_def split: if_splits)

lemma rooted_path: "rooted (dropWhile (\<lambda>c. c \<noteq> CHR ''/'') r)"
  by (induction r) (auto simp: rooted_def)

lemma set_encoded_rooted: "set_encoded mode s = Some (p, raw) \<Longrightarrow> rooted s \<Longrightarrow> rooted p \<and> rooted raw"
  using unescape_rooted[of s] by (auto simp: set_encoded_def split: if_splits) (simp_all add: rooted_def)

lemma parse_hierarchical_ok:
  assumes "parse_hierarchical sch rest force query = Some u" "u_Host u \<noteq> []" "scheme_ok sch"
    "force \<longrightarrow> query = []" "CHR ''#'' \<notin> set query" "no_control query"
  shows "url_ok u \<and> u_Fragment u = []"
proof -
  obtain r user host p raw where r: "parseAuthority (takeWhile (\<lambda>c. c \<noteq> CHR ''/'') r) = Some (user, host)"
      "set_encoded EncodePath (dropWhile (\<lambda>c. c \<noteq> CHR ''/'') r) = Some (p, raw)"
    and u: "u = empty_url\<lparr>u_Scheme := sch, u_ForceQuery := force, u_RawQuery := query, u_User := user, u_Host := host,
      u_Path := p, u_RawPath := raw\<rparr>"
    using assms(1,2) by (auto simp: parse_hierarchical_def empty_url_def Let_def split: if_splits option.splits)
  have "rooted p \<and> rooted raw" using set_encoded_rooted[OF r(2) rooted_path] .
  moreover have "\<exists>h. parseHost h = Some host"
    using r(1) by (auto simp: parseAuthority_def split: option.splits)
  ultimately show ?thesis using assms by (auto simp: u url_ok_def empty_url_def)
qed

lemma Cut_subset: "set (fst (Cut s c)) \<subseteq> set s" "set (snd (Cut s c)) \<subseteq> set s"
  by (auto simp: Cut_def dest!: in_set_dropD set_dropWhileD set_takeWhileD)

lemma cut_query_subset: "set (snd (snd (cut_query r))) \<subseteq> set r"
  by (simp add: cut_query_def Cut_subset)

lemma cut_query_force: "fst (snd (cut_query r)) \<Longrightarrow> snd (snd (cut_query r)) = []"
  by (simp add: cut_query_def split: if_splits)

lemma no_control_subset: "set s \<subseteq> set t \<Longrightarrow> no_control t \<Longrightarrow> no_control s"
  by (auto simp: no_control_def list_ex_iff)

lemma getScheme_subset: "getScheme s = Some (sch, r) \<Longrightarrow> set r \<subseteq> set s"
proof (cases "sch = []")
  case True
  then show "getScheme s = Some (sch, r) \<Longrightarrow> set r \<subseteq> set s" by (auto simp: getScheme_def Let_def split: if_splits)
next
  case False
  then show "getScheme s = Some (sch, r) \<Longrightarrow> set r \<subseteq> set s" using getScheme_Some[of s sch r] by auto
qed

lemma parsed_hierarchy:
  assumes "parse_no_fragment s = Some v" "u_Host v \<noteq> []"
  obtains sch r where "getScheme s = Some (sch, r)" "no_control s"
    "parse_hierarchical (ToLower sch) (fst (cut_query r)) (fst (snd (cut_query r))) (snd (snd (cut_query r))) = Some v"
  using assms by (auto simp: parse_no_fragment_def no_control_def empty_url_def Let_def split: if_splits option.splits prod.splits)

lemma parsed_fragment:
  assumes "url_Parse raw = Some u"
  obtains v f r where "parse_no_fragment (fst (Cut raw (CHR ''#''))) = Some v" "u = v\<lparr>u_Fragment := f, u_RawFragment := r\<rparr>"
proof (cases "snd (Cut raw (CHR ''#'')) = []")
  case True
  then have "parse_no_fragment (fst (Cut raw (CHR ''#''))) = Some u"
    using assms by (simp add: url_Parse_def split: option.splits prod.splits)
  then show ?thesis by (rule that[of u "u_RawFragment u" "u_Fragment u"]) simp
next
  case False
  then show ?thesis using assms that by (auto simp: url_Parse_def split: option.splits prod.splits if_splits)
qed

lemma parsed_url_ok:
  assumes "url_Parse raw = Some u" "u_Host u \<noteq> []"
  shows "url_ok u"
proof -
  let ?s = "fst (Cut raw (CHR ''#''))"
  obtain v f d where v: "parse_no_fragment ?s = Some v" and u: "u = v\<lparr>u_Fragment := f, u_RawFragment := d\<rparr>"
    using parsed_fragment[OF assms(1)] .
  then have vh: "u_Host v \<noteq> []" using assms(2) by simp
  obtain sch r where p: "getScheme ?s = Some (sch, r)" "no_control ?s"
    "parse_hierarchical (ToLower sch) (fst (cut_query r)) (fst (snd (cut_query r))) (snd (snd (cut_query r))) = Some v"
    using parsed_hierarchy[OF v vh] .
  have q: "set (snd (snd (cut_query r))) \<subseteq> set ?s"
    using cut_query_subset getScheme_subset[OF p(1)] by blast
  moreover have "CHR ''#'' \<notin> set ?s" by (auto simp: Cut_def dest: set_takeWhileD)
  ultimately have "url_ok v"
    using parse_hierarchical_ok[OF p(3) vh getScheme_ok[OF p(1)]] cut_query_force no_control_subset[OF q p(2)] by blast
  then show ?thesis by (simp add: u url_ok_def)
qed

section \<open>A rendered URL is read back\<close>

lemma control_delimits:
  assumes "byte_of c < 32 \<or> byte_of c = 127"
  shows "delimits EncodePath c" "delimits EncodeHost c" "delimits EncodeUserPassword c"
proof -
  have "\<not> is_alnum c" "\<not> host_literal c" "\<not> unreserved_mark c" "\<not> reserved c" "\<not> passes_encoded c" "c \<noteq> CHR ''*''" "c \<noteq> CHR ''%''"
    using assms by (auto simp: is_alnum_def is_alpha_def is_digit_def host_literal_def unreserved_mark_def reserved_def passes_encoded_def byte_of_def)
  then show "delimits EncodePath c" "delimits EncodeHost c" "delimits EncodeUserPassword c"
    by (simp_all add: delimits_def shouldEscape_def)
qed

lemma no_control_iff: "no_control s \<longleftrightarrow> (\<forall>c\<in>set s. \<not> (byte_of c < 32 \<or> byte_of c = 127))"
  by (simp add: no_control_def list_ex_iff)

lemma no_control_append [simp]: "no_control (s @ t) \<longleftrightarrow> no_control s \<and> no_control t"
  by (auto simp: no_control_iff)

lemma path_separators: "delimits EncodePath (CHR ''#'')" "delimits EncodePath (CHR ''?'')"
  by code_simp+

lemma path_text:
  "CHR ''#'' \<notin> set (encoded EncodePath raw p)" "CHR ''?'' \<notin> set (encoded EncodePath raw p)"
  "no_control (encoded EncodePath raw p)"
  using encoded_chars path_separators control_delimits(1) by (auto simp: no_control_iff)

lemma rooted_encoded: "rooted raw \<Longrightarrow> rooted p \<Longrightarrow> rooted (encoded EncodePath raw p)"
proof -
  have "\<not> shouldEscape EncodePath (CHR ''/'')" by code_simp
  then have "rooted p \<Longrightarrow> rooted (escape EncodePath p)" by (cases p) (auto simp: rooted_def escape_Cons)
  then show "rooted raw \<Longrightarrow> rooted p \<Longrightarrow> rooted (encoded EncodePath raw p)" by (auto simp: encoded_def rooted_def)
qed

text \<open>The characters of an authority text.\<close>

definition authority_char :: "char \<Rightarrow> bool" where
  "authority_char c \<longleftrightarrow> c = CHR ''%'' \<or> c = CHR ''@'' \<or> c = CHR '':'' \<or> \<not> shouldEscape EncodeUserPassword c
     \<or> \<not> shouldEscape EncodeHost c"

lemma authority_separators: "\<not> authority_char (CHR ''/'')" "\<not> authority_char (CHR ''?'')" "\<not> authority_char (CHR ''#'')"
  by code_simp+

lemma authority_no_control: "byte_of c < 32 \<or> byte_of c = 127 \<Longrightarrow> \<not> authority_char c"
proof -
  have "\<not> (byte_of (CHR ''%'') < 32 \<or> byte_of (CHR ''%'') = 127)" "\<not> (byte_of (CHR ''@'') < 32 \<or> byte_of (CHR ''@'') = 127)"
    "\<not> (byte_of (CHR '':'') < 32 \<or> byte_of (CHR '':'') = 127)" by code_simp+
  then show "byte_of c < 32 \<or> byte_of c = 127 \<Longrightarrow> \<not> authority_char c"
    using control_delimits[of c] unfolding authority_char_def delimits_def by metis
qed

lemma userinfo_text: "c \<in> set (userinfo_String i) \<Longrightarrow> c = CHR ''%'' \<or> c = CHR '':'' \<or> \<not> shouldEscape EncodeUserPassword c"
  using escape_chars[of EncodeUserPassword c] by (auto simp: userinfo_String_def split: option.splits)

definition plain_host :: "string \<Rightarrow> bool" where
  "plain_host h \<longleftrightarrow> list_all (\<lambda>c. \<not> shouldEscape EncodeHost c) h"

definition authority_text :: "userinfo option \<Rightarrow> string \<Rightarrow> string" where
  "authority_text ui h = (case ui of None \<Rightarrow> [] | Some i \<Rightarrow> userinfo_String i @ ''@'') @ h"

lemma authority_text_chars: "plain_host h \<Longrightarrow> c \<in> set (authority_text ui h) \<Longrightarrow> authority_char c"
  using userinfo_text[of c] by (auto simp: authority_text_def authority_char_def plain_host_def list_all_iff split: option.splits)

lemma unescape_shows: "unescape ok True h0 = Some h \<Longrightarrow> CHR ''%'' \<in> set h0 \<Longrightarrow> \<exists>c\<in>set h. c = CHR ''%'' \<or> 128 \<le> byte_of c"
proof (induction h0 arbitrary: h rule: length_induct)
  case (1 h0)
  then obtain c cs where c: "h0 = c # cs" by (cases h0) auto
  show ?case
  proof (cases "c = CHR ''%''")
    case True
    then obtain a b ds x y t where p: "cs = a # b # ds" "hex_val a = Some x" "hex_val b = Some y"
        "\<not> (x < 8 \<and> \<not> (a = CHR ''2'' \<and> b = CHR ''5''))" "h = char_of (16 * x + y) # t"
      using 1(2) by (auto simp: c split: list.splits option.splits if_splits)
    show ?thesis
    proof (cases "x < 8")
      case True
      moreover have "hex_val (CHR ''2'') = Some 2" "hex_val (CHR ''5'') = Some 5" by code_simp+
      ultimately have "hex_val a = Some 2" "hex_val b = Some 5" using p(4) by auto
      then have "h = char_of (37 :: nat) # t" using p by simp
      moreover have "char_of (37 :: nat) = CHR ''%''" by code_simp
      ultimately show ?thesis by simp
    next
      case False
      have "hex_val a = Some x \<Longrightarrow> x < 16" "hex_val b = Some y \<Longrightarrow> y < 16" 
        by (auto simp: hex_val_def is_digit_def split: if_splits)
      then have "byte_of (char_of (16 * x + y)) = 16 * x + y" using p by (simp add: byte_of_def)
      then show ?thesis using False p by auto
    qed
  next
    case False
    then obtain t where t: "h = c # t" "unescape ok True cs = Some t" using 1(2) by (auto simp: c split: if_splits)
    have "CHR ''%'' \<in> set cs" using 1(3) False by (auto simp: c)
    then show ?thesis using 1(1) t by (auto simp: c)
  qed
qed

lemma plain_host_char: "\<not> shouldEscape EncodeHost c \<Longrightarrow> c \<noteq> CHR ''%'' \<and> byte_of c < 128"
proof -
  assume c: "\<not> shouldEscape EncodeHost c"
  have "host_literal x \<Longrightarrow> byte_of x < 128" "unreserved_mark x \<Longrightarrow> byte_of x < 128" "is_alnum x \<Longrightarrow> byte_of x < 128" for x
    by (auto simp: host_literal_def unreserved_mark_def is_alnum_def is_alpha_def is_digit_def byte_of_def)
  then have "byte_of c < 128" using c by (auto simp: shouldEscape_def split: if_splits)
  then show ?thesis using c percent_escaped by blast
qed

text \<open>A host in plain characters was written as it is.\<close>

lemma parseHost_plain:
  assumes "parseHost h0 = Some h" "plain_host h"
  shows "parseHost h = Some h"
proof -
  have "\<not> (\<exists>c\<in>set h. c = CHR ''%'' \<or> 128 \<le> byte_of c)"
    using assms(2) plain_host_char by (auto simp: plain_host_def list_all_iff not_le)
  then have plain: "unescape host_char True s = Some t \<Longrightarrow> set t \<subseteq> set h \<Longrightarrow> t = s" for s t
    using unescape_shows[of host_char s t] unescape_plain[of s host_char True t] by blast
  have "h = h0"
  proof (cases "CHR ''['' \<in> set h0")
    case True
    then obtain pre port name where p: "split_last (CHR '']'') h0 = Some (pre, port)" "hd h0 = CHR ''[''"
        "unescape host_char True (tl pre) = Some name" "h = CHR ''['' # name @ CHR '']'' # port"
      using assms(1) by (auto simp: parseHost_def split: if_splits option.splits)
    then have h0: "h0 = pre @ CHR '']'' # port" using split_last_Some by metis
    have "pre \<noteq> []" using p(2) h0 by auto
    then have "pre = CHR ''['' # tl pre" using p(2) h0 by (cases pre) auto
    moreover have "name = tl pre" using plain[OF p(3)] p(4) by auto
    ultimately show ?thesis using p(4) h0 by (metis append_Cons)
  next
    case False
    then have "unescape host_char True h0 = Some h"
      using assms(1) by (auto simp: parseHost_def split: if_splits option.splits)
    then show ?thesis using plain by blast
  qed
  then show ?thesis using assms(1) by simp
qed

lemma break_at: "c \<notin> set a \<Longrightarrow> takeWhile (\<lambda>x. x \<noteq> c) (a @ c # b) = a \<and> dropWhile (\<lambda>x. x \<noteq> c) (a @ c # b) = c # b"
  by (induction a) auto

lemma split_last_at: "c \<notin> set b \<Longrightarrow> split_last c (a @ c # b) = Some (a, b)"
  using break_at[of c "rev b" "rev a"] by (simp add: split_last_def)

lemma Cut_at: "c \<notin> set a \<Longrightarrow> Cut (a @ c # b) c = (a, b)"
  using break_at[of c a b] by (simp add: Cut_def)

lemma Cut_none: "c \<notin> set a \<Longrightarrow> Cut a c = (a, [])"
  by (induction a) (auto simp: Cut_def)

lemma userinfo_chars: "\<not> shouldEscape EncodeUserPassword c \<Longrightarrow> userinfo_char c"
  by (auto simp: shouldEscape_def userinfo_char_def reserved_def unreserved_mark_def split: if_splits)

lemma parse_userinfo_String: "parse_userinfo (userinfo_String i) = Some i"
proof -
  have all: "list_all userinfo_char (userinfo_String i)"
  proof -
    have "userinfo_char (CHR ''%'')" "userinfo_char (CHR '':'')" by code_simp+
    then show ?thesis using userinfo_text[of _ i] userinfo_chars by (auto simp: list_all_iff)
  qed
  have "shouldEscape EncodeUserPassword (CHR '':'')" by code_simp
  then have n: "CHR '':'' \<notin> set (escape EncodeUserPassword s)" for s
    using escape_chars[of EncodeUserPassword "CHR '':''" s] by auto
  show ?thesis
  proof (cases "ui_Password i")
    case None
    then show ?thesis using all n unescape_escape[of EncodeUserPassword] by (simp add: parse_userinfo_def userinfo_String_def)
  next
    case (Some p)
    then have "Cut (userinfo_String i) (CHR '':'') = (escape EncodeUserPassword (ui_Username i), escape EncodeUserPassword p)"
      using n by (simp add: userinfo_String_def Cut_at)
    then show ?thesis using all n Some unescape_escape[of EncodeUserPassword] by (simp add: parse_userinfo_def userinfo_String_def)
  qed
qed

lemma parseAuthority_text:
  assumes "parseHost h0 = Some h" "plain_host h"
  shows "parseAuthority (authority_text ui h) = Some (ui, h)"
proof -
  have "shouldEscape EncodeHost (CHR ''@'')" by code_simp
  then have at: "CHR ''@'' \<notin> set h" using assms(2) by (auto simp: plain_host_def list_all_iff)
  show ?thesis
  proof (cases ui)
    case None
    have "split_last (CHR ''@'') h = None" using at by (simp add: split_last_def)
    then show ?thesis using parseHost_plain[OF assms] None by (simp add: parseAuthority_def authority_text_def)
  next
    case (Some i)
    have "split_last (CHR ''@'') (userinfo_String i @ CHR ''@'' # h) = Some (userinfo_String i, h)" using split_last_at[OF at] .
    then show ?thesis using parseHost_plain[OF assms] parse_userinfo_String[of i] Some
      by (simp add: parseAuthority_def authority_text_def)
  qed
qed

lemma cut_query_text:
  assumes "CHR ''?'' \<notin> set x" "force \<Longrightarrow> q = []"
  shows "cut_query (x @ (if force \<or> q \<noteq> [] then CHR ''?'' # q else [])) = (x, force, q)"
proof -
  have n: "count_list x (CHR ''?'') = 0" using assms(1) by (simp add: count_list_0_iff)
  have last: "HasSuffix (x @ CHR ''?'' # q) ''?'' \<Longrightarrow> count_list (x @ CHR ''?'' # q) (CHR ''?'') = 1 \<Longrightarrow> q = []"
    using n by (cases q rule: rev_cases) (auto simp: HasSuffix_def HasPrefix_def)
  have none: "\<not> HasSuffix x ''?''" using assms(1) by (cases x rule: rev_cases) (auto simp: HasSuffix_def HasPrefix_def)
  show ?thesis
  proof (cases "q = []")
    case True
    then show ?thesis using assms(1) n none by (auto simp: cut_query_def Cut_none HasSuffix_def HasPrefix_def)
  next
    case False
    then have "\<not> force" using assms(2) by blast
    moreover have "\<not> (HasSuffix (x @ CHR ''?'' # q) ''?'' \<and> count_list (x @ CHR ''?'' # q) (CHR ''?'') = 1)"
      using last False by blast
    ultimately show ?thesis using False Cut_at[OF assms(1), of q] by (simp only: cut_query_def if_False if_True) simp
  qed
qed

definition same_url :: "url \<Rightarrow> url \<Rightarrow> bool" where
  "same_url a b \<longleftrightarrow> a\<lparr>u_RawPath := [], u_RawFragment := []\<rparr> = b\<lparr>u_RawPath := [], u_RawFragment := []\<rparr>"

lemma parse_hierarchical_text:
  assumes "url_ok u" "u_Host u \<noteq> []" "plain_host (u_Host u)"
    and P: "P = encoded EncodePath (u_RawPath u) (u_Path u)" and A: "A = authority_text (u_User u) (u_Host u)"
  obtains v where "parse_hierarchical (u_Scheme u) (''//'' @ A @ P) (u_ForceQuery u) (u_RawQuery u) = Some v"
    "same_url v (u\<lparr>u_Fragment := []\<rparr>)" "v\<lparr>u_RawPath := []\<rparr> = u\<lparr>u_RawPath := [], u_Fragment := [], u_RawFragment := []\<rparr>"
proof -
  obtain h0 where h0: "parseHost h0 = Some (u_Host u)" using assms(1) by (auto simp: url_ok_def)
  have P0: "rooted P" using assms(1) rooted_encoded by (simp add: P url_ok_def)
  have A0: "CHR ''/'' \<notin> set A" using authority_text_chars[OF assms(3)] authority_separators(1) by (auto simp: A)
  have "A \<noteq> []" using assms(2) by (simp add: A authority_text_def)
  then have np: "\<not> HasPrefix (''//'' @ A @ P) ''///''" using A0 by (cases A) (auto simp: HasPrefix_def)
  have tw: "takeWhile (\<lambda>c. c \<noteq> CHR ''/'') (A @ P) = A \<and> dropWhile (\<lambda>c. c \<noteq> CHR ''/'') (A @ P) = P"
    using break_at[OF A0, of "tl P"] Cut_none[OF A0] A0 P0
    by (cases P) (auto simp: rooted_def takeWhile_eq_all_conv dropWhile_eq_Nil_conv)
  obtain r where r: "set_encoded EncodePath P = Some (u_Path u, r)" using set_encoded_encoded[of EncodePath "u_RawPath u" "u_Path u"] P by auto
  have "parse_hierarchical (u_Scheme u) (''//'' @ A @ P) (u_ForceQuery u) (u_RawQuery u) = Some (empty_url\<lparr>u_Scheme := u_Scheme u,
      u_ForceQuery := u_ForceQuery u, u_RawQuery := u_RawQuery u, u_User := u_User u, u_Host := u_Host u, u_Path := u_Path u, u_RawPath := r\<rparr>)"
    using np tw r parseAuthority_text[OF h0 assms(3), of "u_User u"] by (simp add: parse_hierarchical_def A Let_def HasPrefix_def)
  then show thesis by (rule that) (use assms(1) in \<open>simp_all add: same_url_def empty_url_def url_ok_def\<close>)
qed

lemma parse_no_fragment_text:
  assumes "url_ok u" "u_Host u \<noteq> []" "plain_host (u_Host u)"
    and S: "S = (if u_Scheme u = [] then [] else u_Scheme u @ '':'') @ ''//'' @ authority_text (u_User u) (u_Host u)
      @ encoded EncodePath (u_RawPath u) (u_Path u) @ (if u_ForceQuery u \<or> u_RawQuery u \<noteq> [] then CHR ''?'' # u_RawQuery u else [])"
  shows "CHR ''#'' \<notin> set S \<and> (\<exists>v. parse_no_fragment S = Some v \<and> v\<lparr>u_RawPath := []\<rparr> = u\<lparr>u_RawPath := [], u_Fragment := [], u_RawFragment := []\<rparr>)"
proof -
  let ?A = "authority_text (u_User u) (u_Host u)" and ?P = "encoded EncodePath (u_RawPath u) (u_Path u)"
  let ?Q = "if u_ForceQuery u \<or> u_RawQuery u \<noteq> [] then CHR ''?'' # u_RawQuery u else []"
  have sch: "scheme_ok (u_Scheme u)" "CHR ''#'' \<notin> set (u_RawQuery u)" "no_control (u_RawQuery u)"
    "u_ForceQuery u \<Longrightarrow> u_RawQuery u = []" using assms(1) by (auto simp: url_ok_def)
  have A: "CHR ''?'' \<notin> set ?A" "CHR ''#'' \<notin> set ?A" "no_control ?A"
    using authority_text_chars[OF assms(3), of _ "u_User u"] authority_separators authority_no_control
    by (auto simp: no_control_iff)
  have lit: "\<not> scheme_char (CHR ''#'')" "no_control '':''" "no_control ''//''" "no_control ''?''"
    by code_simp+
  have sc: "scheme_char c \<Longrightarrow> \<not> (byte_of c < 32 \<or> byte_of c = 127)" for c
    by (auto simp: scheme_char_def is_alnum_def is_alpha_def is_digit_def byte_of_def)
  have sn: "CHR ''#'' \<notin> set (u_Scheme u)" "no_control (u_Scheme u)"
    using sch(1) lit(1) sc by (auto simp: scheme_ok_def list_all_iff no_control_iff)
  have nc: "no_control S" using sn A sch lit path_text
    by (simp add: S) (metis append_Cons append_Nil no_control_append)
  have hash: "CHR ''#'' \<notin> set S" using sn A sch path_text by (auto simp: S)
  have star: "S \<noteq> ''*''" by (auto simp: S)
  have q: "CHR ''?'' \<notin> set (''//'' @ ?A @ ?P)" using A path_text by auto
  have cq: "cut_query (''//'' @ ?A @ ?P @ ?Q) = (''//'' @ ?A @ ?P, u_ForceQuery u, u_RawQuery u)"
    using cut_query_text[OF q, of "u_ForceQuery u" "u_RawQuery u"] sch(4) by simp
  have gs: "getScheme S = Some (u_Scheme u, ''//'' @ ?A @ ?P @ ?Q)"
  proof (cases "u_Scheme u = []")
    case True
    have "\<not> (is_alnum (CHR ''/'') \<or> CHR ''/'' \<in> set ''+-.'')" by code_simp
    then show ?thesis using True by (simp add: S getScheme_def)
  next
    case False
    then show ?thesis using getScheme_text[OF sch(1) False] by (simp add: S)
  qed
  have low: "ToLower (u_Scheme u) = u_Scheme u" using sch(1) by (auto simp: scheme_ok_def ToLower_def)
  obtain v where v: "parse_hierarchical (u_Scheme u) (''//'' @ ?A @ ?P) (u_ForceQuery u) (u_RawQuery u) = Some v"
      "v\<lparr>u_RawPath := []\<rparr> = u\<lparr>u_RawPath := [], u_Fragment := [], u_RawFragment := []\<rparr>"
    using parse_hierarchical_text[OF assms(1-3) refl refl] by metis
  have "HasPrefix (''//'' @ ?A @ ?P) ''/''" by (simp add: HasPrefix_def)
  then have "parse_no_fragment S = Some v"
    using nc[unfolded no_control_def] star by (simp only: parse_no_fragment_def gs low cq v Let_def prod.case option.case if_False if_True not_not)
  then show ?thesis using hash v(2) by blast
qed

lemma url_String_text:
  assumes "url_ok u" "u_Host u \<noteq> []" "plain_host (u_Host u)"
  shows "url_String u = ((if u_Scheme u = [] then [] else u_Scheme u @ '':'') @ ''//'' @ authority_text (u_User u) (u_Host u)
      @ encoded EncodePath (u_RawPath u) (u_Path u) @ (if u_ForceQuery u \<or> u_RawQuery u \<noteq> [] then CHR ''?'' # u_RawQuery u else []))
      @ (if u_Fragment u \<noteq> [] then CHR ''#'' # encoded EncodeFragment (u_RawFragment u) (u_Fragment u) else [])"
proof -
  have h: "escape EncodeHost (u_Host u) = u_Host u" using assms(3) escape_plain by (simp add: plain_host_def)
  have a: "authority_String u = ''//'' @ authority_text (u_User u) (u_Host u)"
    using assms(2) by (simp add: authority_String_def authority_text_def h split: option.splits)
  have p: "\<not> (encoded EncodePath (u_RawPath u) (u_Path u) \<noteq> [] \<and> hd (encoded EncodePath (u_RawPath u) (u_Path u)) \<noteq> CHR ''/'' \<and> u_Host u \<noteq> [])"
    using assms(1) rooted_encoded[of "u_RawPath u" "u_Path u"] by (auto simp: url_ok_def rooted_def)
  have o: "u_Opaque u = []" using assms(1) by (simp add: url_ok_def)
  show ?thesis unfolding url_String_def Let_def a if_not_P[OF p] by (simp add: o)
qed

text \<open>
  A parsed URL with a host in plain characters is read back from its text, up to the raw spelling of
  the path and the fragment, whatever user part it has been given in between.
\<close>

lemma url_String_read_back:
  assumes "url_Parse raw = Some p" "u_Host p \<noteq> []" "plain_host (u_Host p)"
  obtains v where "url_Parse (url_String (p\<lparr>u_User := ui\<rparr>)) = Some v" "same_url v (p\<lparr>u_User := ui\<rparr>)"
proof -
  let ?u = "p\<lparr>u_User := ui\<rparr>"
  let ?f = "encoded EncodeFragment (u_RawFragment ?u) (u_Fragment ?u)"
  let ?Q = "if u_ForceQuery ?u \<or> u_RawQuery ?u \<noteq> [] then CHR ''?'' # u_RawQuery ?u else []"
  define S where "S = (if u_Scheme ?u = [] then [] else u_Scheme ?u @ '':'') @ ''//'' @ authority_text (u_User ?u) (u_Host ?u)
      @ encoded EncodePath (u_RawPath ?u) (u_Path ?u) @ ?Q"
  have u: "url_ok ?u" "u_Host ?u \<noteq> []" "plain_host (u_Host ?u)" using parsed_url_ok[OF assms(1,2)] assms by (simp_all add: url_ok_def)
  have shown: "url_String ?u = S @ (if u_Fragment ?u \<noteq> [] then CHR ''#'' # ?f else [])"
    unfolding S_def by (rule url_String_text[OF u])
  obtain v where S: "CHR ''#'' \<notin> set S" and v: "parse_no_fragment S = Some v"
      "v\<lparr>u_RawPath := []\<rparr> = ?u\<lparr>u_RawPath := [], u_Fragment := [], u_RawFragment := []\<rparr>"
    using parse_no_fragment_text[OF u S_def] by blast
  show thesis
  proof (cases "u_Fragment p = []")
    case True
    have "url_Parse (url_String ?u) = Some v" unfolding url_Parse_def shown using True v(1) Cut_none[OF S] by simp
    moreover have "same_url v ?u" using v(2) True by (cases v; cases p) (simp add: same_url_def)
    ultimately show ?thesis by (rule that)
  next
    case False
    obtain r where r: "set_encoded EncodeFragment ?f = Some (u_Fragment p, r)"
      using set_encoded_encoded[of EncodeFragment "u_RawFragment p" "u_Fragment p"] by auto
    have "?f \<noteq> []" using encoded_Nil[of EncodeFragment "u_RawFragment p" "u_Fragment p"] False by auto
    then have "url_Parse (url_String ?u) = Some (v\<lparr>u_Fragment := u_Fragment p, u_RawFragment := r\<rparr>)"
      unfolding url_Parse_def shown using False v(1) Cut_at[OF S, of ?f] r by simp
    moreover have "same_url (v\<lparr>u_Fragment := u_Fragment p, u_RawFragment := r\<rparr>) ?u"
      using v(2) by (cases v; cases p) (simp add: same_url_def)
    ultimately show ?thesis by (rule that)
  qed
qed

end
