(* ===== verification/TrustedHosts.thy ===== *)
theory TrustedHosts
  imports ConfigModel UrlText
begin

text \<open>
  Which hosts the configuration makes trustworthy: the ad-hoc host extraction of \<^verbatim>\<open>hostFromURL\<close> against
  \<^verbatim>\<open>url.Parse\<close>, for the URLs that the configuration checks accept.
\<close>

lemma IndexOf_scheme: "CHR '':'' \<notin> set pre \<Longrightarrow> IndexOf (pre @ ''://'' @ r) ''://'' = Some (length pre)"
  by (induction pre) (auto simp: HasPrefix_def)

lemma SplitHostPort_name:
  assumes "CHR '':'' \<notin> set host" "CHR ''['' \<notin> set (host @ port)" "CHR '']'' \<notin> set (host @ port)" "CHR '':'' \<notin> set port"
  shows "SplitHostPort (host @ CHR '':'' # port) = Some (host, port)"
proof -
  have "takeWhile (\<lambda>c. c \<noteq> CHR '':'') (rev port @ CHR '':'' # rev host) = rev port"
    using assms(4) by (subst takeWhile_append2) auto
  moreover have "hd (host @ CHR '':'' # port) \<noteq> CHR ''[''" using assms(2) by (cases host) auto
  ultimately show ?thesis using assms by (simp add: SplitHostPort_def Let_def)
qed

text \<open>An accepted URL whose host is a name or an IPv4 address: the collector's host is the parsed one.\<close>

lemma accepted_authority:
  assumes "validateHTTPURL u = Inr ()" "url_Parse u = Some p" "CHR ''#'' \<notin> set u"
  obtains pre where "u = pre @ ''://'' @ drop (length pre + 3) u" "CHR '':'' \<notin> set pre"
    "parseHost (takeWhile (\<lambda>c. c \<notin> set ''/?'') (drop (length pre + 3) u)) = Some (u_Host p)"
proof -
  have p: "u_Host p \<noteq> []" "u_Scheme p \<noteq> []" "u_User p = None"
    using assms(1,2) by (auto simp: validateHTTPURL_def error_simps)
  have "dropWhile (\<lambda>x. x \<noteq> CHR ''#'') u = []" "takeWhile (\<lambda>x. x \<noteq> CHR ''#'') u = u"
    using assms(3) by (auto simp: dropWhile_eq_Nil_conv takeWhile_eq_all_conv)
  then have c: "Cut u (CHR ''#'') = (u, [])" unfolding Cut_def by (simp only: drop_Nil)
  have q: "parse_no_fragment u = Some p"
    using assms(2) by (auto simp: url_Parse_def c split: option.splits prod.splits)
  have "u \<noteq> ''*''"
    using q p by (auto simp: parse_no_fragment_def empty_url_def split: if_splits)
  then obtain sch r where sch: "getScheme u = Some (sch, r)"
      and h0: "parse_hierarchical (ToLower sch) (fst (cut_query r)) (fst (snd (cut_query r))) (snd (snd (cut_query r))) = Some p"
    using q p by (auto simp: parse_no_fragment_def empty_url_def Let_def split: if_splits option.splits prod.splits)
  have h: "parse_hierarchical (ToLower sch) (takeWhile (\<lambda>c. c \<noteq> CHR ''?'') r) (fst (snd (cut_query r))) (snd (snd (cut_query r))) = Some p"
    using h0 by (simp only: cut_query_fst)
  let ?rest = "takeWhile (\<lambda>c. c \<noteq> CHR ''?'') r"
  let ?auth = "takeWhile (\<lambda>c. c \<noteq> CHR ''/'') (drop 2 ?rest)"
  have a: "sch \<noteq> [] \<and> HasPrefix ?rest ''//'' \<and> parseAuthority ?auth = Some (None, u_Host p)"
    using h p by (auto simp: parse_hierarchical_def Let_def ToLower_def empty_url_def split: if_splits option.splits)
  then obtain r2 where r2: "?rest = ''//'' @ r2" by (auto simp: HasPrefix_iff)
  then have r: "r = ''//'' @ drop 2 r" and r2': "r2 = takeWhile (\<lambda>c. c \<noteq> CHR ''?'') (drop 2 r)"
    by (cases r; cases "tl r"; auto split: if_splits)+
  have u: "u = sch @ ''://'' @ drop 2 r" "CHR '':'' \<notin> set sch"
    using getScheme_Some[OF sch] a r by (metis append_Cons append_Nil)+
  then have d: "drop (length sch + 3) u = drop 2 r" by (metis append.assoc append_eq_conv_conj length_append length_Cons list.size(3) numeral_3_eq_3)
  have "?auth = takeWhile (\<lambda>c. c \<notin> set ''/?'') (drop 2 r)"
    using r2 r2' by (simp add: takeWhile_takeWhile)
  moreover have "parseHost ?auth = Some (u_Host p)"
    using a by (auto simp: parseAuthority_def split: option.splits if_splits)
  ultimately show thesis using that[of sch] u d by simp
qed

lemma hostFromURL_accepted:
  assumes "validateHTTPURL u = Inr ()" "url_Parse u = Some p" "set u \<inter> set ''[]%#'' = {}" "CHR '':'' \<notin> set (Hostname p)"
  shows "hostFromURL u = Hostname p"
proof -
  from assms(3) have "CHR ''#'' \<notin> set u" by auto
  then obtain pre where u: "u = pre @ ''://'' @ drop (length pre + 3) u" "CHR '':'' \<notin> set pre"
    and h: "parseHost (takeWhile (\<lambda>c. c \<notin> set ''/?'') (drop (length pre + 3) u)) = Some (u_Host p)"
    using accepted_authority[OF assms(1,2)] by blast
  define A where "A = takeWhile (\<lambda>c. c \<notin> set ''/?'') (drop (length pre + 3) u)"
  have hA: "parseHost A = Some (u_Host p)" using h by (simp only: A_def)
  have "set A \<subseteq> set u" by (auto simp: A_def dest!: set_takeWhileD in_set_dropD)
  with assms(3) have A: "CHR ''['' \<notin> set A" "CHR '']'' \<notin> set A" "CHR ''%'' \<notin> set A" by auto
  have nb: "\<not> HasPrefix A ''[''" using A(1) by (cases A) (auto simp: HasPrefix_def)
  have host: "u_Host p = A" using hA unescape_plain[OF A(3)] A(1)
    by (auto simp: parseHost_def split: option.splits if_splits)
  have "IndexOf u ''://'' = Some (length pre)" using IndexOf_scheme[OF u(2)] u(1) by metis
  then have f: "hostFromURL u = (case SplitHostPort A of Some (h, _) \<Rightarrow> h | None \<Rightarrow> A)"
    by (simp only: hostFromURL_def A_def[symmetric] Let_def option.case)
  show ?thesis
  proof (cases "split_last (CHR '':'') A")
    case None
    then have "CHR '':'' \<notin> set A" by (simp add: split_last_def split: if_splits)
    then show ?thesis using nb None by (simp add: f SplitHostPort_def Hostname_def split_port_def host Let_def)
  next
    case (Some ap)
    obtain a port where ap: "ap = (a, port)" by (cases ap)
    have s: "A = a @ CHR '':'' # port" "CHR '':'' \<notin> set port" using split_last_Some Some ap by metis+
    have digits: "list_all is_digit port" using hA A(1) Some ap
      by (auto simp: parseHost_def split: if_splits)
    have "\<not> HasPrefix a ''[''" using A(1) s(1) by (cases a) (auto simp: HasPrefix_def)
    then have H: "Hostname p = a" using Some ap digits by (simp add: Hostname_def split_port_def host)
    then have "SplitHostPort A = Some (a, port)" unfolding s(1)
      using assms(4) A s by (intro SplitHostPort_name) auto
    then show ?thesis by (simp add: f H)
  qed
qed

text \<open>
  A server or bridge whose URL names its host by name or by an IPv4 address is among the hosts that
  discovery may send the admin token to, under the host that \<^verbatim>\<open>url.Parse\<close> reads from the URL.
\<close>

theorem configured_host_is_trusted:
  assumes "safe_environment h e" "u \<in> set (e_Servers e) \<union> mb_URL ` set (e_MQTTBridges e)" "url_Parse u = Some p"
    "set u \<inter> set ''[]%#'' = {}" "CHR '':'' \<notin> set (Hostname p)" "Hostname p \<noteq> []"
  shows "ToLower (Hostname p) \<in> set (DiscoveryTrustedHosts e)"
proof -
  have "validateHTTPURL u = Inr ()" using assms(1,2) by (auto simp: safe_environment_def list_all_iff)
  note host = hostFromURL_accepted[OF this assms(3-5)]
  have "hostFromURL u \<in> hostFromURL ` set (e_Servers e) \<union> (\<lambda>b. hostFromURL (mb_URL b)) ` set (e_MQTTBridges e)"
    using assms(2) by auto
  then show ?thesis
    using assms(6) unfolding host DiscoveryTrustedHosts_def by (simp add: image_iff) blast
qed

lemma configured_host_is_trusted_witness:
  "''bridge'' \<in> set (DiscoveryTrustedHosts example_environment)"
proof -
  let ?p = "the (url_Parse ''http://Bridge/'')"
  have "url_Parse ''http://Bridge/'' = Some ?p \<and> Hostname ?p = ''Bridge''" by code_simp
  moreover have "safe_environment example_host example_environment" by code_simp
  ultimately have "ToLower ''Bridge'' \<in> set (DiscoveryTrustedHosts example_environment)"
    using configured_host_is_trusted[of example_host example_environment "''http://Bridge/''" ?p]
    by (simp add: example_environment_def)
  moreover have "ToLower ''Bridge'' = ''bridge''" by code_simp
  ultimately show ?thesis by simp
qed

text \<open>An IPv6 server without a port keeps its brackets and is not trusted under its own address.\<close>

lemma bracketed_host_not_trusted:
  "map_option Hostname (url_Parse ''http://[2001:db8::1]'') = Some ''2001:db8::1''
   \<and> ''2001:db8::1'' \<notin> set (DiscoveryTrustedHosts (example_environment\<lparr>e_Servers := [''http://[2001:db8::1]'']\<rparr>))"
proof
  show "map_option Hostname (url_Parse ''http://[2001:db8::1]'') = Some ''2001:db8::1''" by code_simp
  have "hostFromURL ''http://[2001:db8::1]'' = ''[2001:db8::1]''" "hostFromURL ''http://Bridge/'' = ''Bridge''" by code_simp+
  then show "''2001:db8::1'' \<notin> set (DiscoveryTrustedHosts (example_environment\<lparr>e_Servers := [''http://[2001:db8::1]'']\<rparr>))"
    by (simp add: DiscoveryTrustedHosts_def example_environment_def ToLower_def lower_char_def byte_of_def)
qed

end
