(* ===== verification/TtlCache.thy ===== *)
theory TtlCache
  imports Prelude
begin

text \<open>
  The contract of the two push caches, the bridge cache of the metrics subscriber and the server cache
  of the $SYS collector: a map from a sender's key to what it sent last with the time of receipt,
  emptied of old entries by a sweeper. Proved once: after a sweep the cache lists exactly the
  senders whose last accepted message is not older than the time to live.
\<close>

datatype 'm cache_event = Receive gotime 'm | Sweep gotime

section \<open>What a run of events leaves behind\<close>

text \<open>The last accepted message of a key with its time; \<open>key_of\<close> is \<open>None\<close> on a message that is dropped.\<close>

definition heard :: "('m \<Rightarrow> string option) \<Rightarrow> string \<Rightarrow> 'm cache_event \<Rightarrow> (gotime \<times> 'm) option
    \<Rightarrow> (gotime \<times> 'm) option" where
  "heard key_of k ev acc = (case ev of
      Receive t m \<Rightarrow> if key_of m = Some k then Some (t, m) else acc
    | Sweep t \<Rightarrow> acc)"

definition last_heard :: "('m \<Rightarrow> string option) \<Rightarrow> string \<Rightarrow> 'm cache_event list \<Rightarrow> (gotime \<times> 'm) option" where
  "last_heard key_of k evs = fold (heard key_of k) evs None"

definition sweep_times :: "'m cache_event list \<Rightarrow> gotime list" where
  "sweep_times evs = concat (map (\<lambda>ev. case ev of Sweep t \<Rightarrow> [t] | Receive t m \<Rightarrow> []) evs)"

lemma last_heard_snoc: "last_heard key_of k (evs @ [ev]) = heard key_of k ev (last_heard key_of k evs)"
  by (simp add: last_heard_def)

lemma sweep_times_snoc: "sweep_times (evs @ [ev])
    = sweep_times evs @ (case ev of Sweep t \<Rightarrow> [t] | Receive t m \<Rightarrow> [])"
  by (simp add: sweep_times_def)

locale ttl_cache =
  fixes entries :: "'s \<Rightarrow> (string, 'e) gomap"
    and stamp :: "'e \<Rightarrow> gotime"
    and msg_of :: "'e \<Rightarrow> 'n"
    and keep :: "'m \<Rightarrow> 'n"
    and key_of :: "'m \<Rightarrow> string option"
    and ttl :: gotime
    and receive :: "gotime \<Rightarrow> 'm \<Rightarrow> 's \<Rightarrow> 's"
    and sweep :: "gotime \<Rightarrow> 's \<Rightarrow> 's"
  assumes receive_ok: "gm_ok (entries s) \<Longrightarrow> gm_ok (entries (receive t m s))"
    and sweep_ok: "gm_ok (entries s) \<Longrightarrow> gm_ok (entries (sweep t s))"
    and receive_own: "key_of m = Some k
        \<Longrightarrow> \<exists>e. map_of (entries (receive t m s)) k = Some e \<and> stamp e = t \<and> msg_of e = keep m"
    and receive_other: "key_of m \<noteq> Some k \<Longrightarrow> map_of (entries (receive t m s)) k = map_of (entries s) k"
    and sweep_get: "gm_ok (entries s) \<Longrightarrow> map_of (entries (sweep t s)) k
        = (case map_of (entries s) k of None \<Rightarrow> None | Some e \<Rightarrow> if stamp e < t - ttl then None else Some e)"
begin

definition cache_step :: "'m cache_event \<Rightarrow> 's \<Rightarrow> 's" where
  "cache_step ev s = (case ev of Receive t m \<Rightarrow> receive t m s | Sweep t \<Rightarrow> sweep t s)"

text \<open>What the lookup of a key must be, given the last message of the key and the sweeps so far.\<close>

definition tracked_key :: "gotime list \<Rightarrow> (gotime \<times> 'm) option \<Rightarrow> 'e option \<Rightarrow> bool" where
  "tracked_key sweeps was found \<longleftrightarrow> (case was of
      None \<Rightarrow> found = None
    | Some (t, m) \<Rightarrow> (case found of
        None \<Rightarrow> \<exists>u\<in>set sweeps. t < u - ttl
      | Some e \<Rightarrow> stamp e = t \<and> msg_of e = keep m))"

definition tracked :: "'m cache_event list \<Rightarrow> 's \<Rightarrow> bool" where
  "tracked evs s \<longleftrightarrow> gm_ok (entries s)
    \<and> (\<forall>k. tracked_key (sweep_times evs) (last_heard key_of k evs) (map_of (entries s) k))"

lemma tracked_step:
  assumes "tracked evs s"
  shows "tracked (evs @ [ev]) (cache_step ev s)"
proof -
  have ok: "gm_ok (entries s)" and tk: "tracked_key (sweep_times evs) (last_heard key_of k evs) (map_of (entries s) k)" for k
    using assms by (auto simp: tracked_def)
  show ?thesis
  proof (cases ev)
    case ev: (Receive t m)
    have "tracked_key (sweep_times evs) (heard key_of k ev (last_heard key_of k evs)) (map_of (entries (receive t m s)) k)" for k
    proof (cases "key_of m = Some k")
      case True
      then show ?thesis using receive_own[OF True, of t s] by (auto simp: heard_def ev tracked_key_def)
    next
      case False
      then show ?thesis using tk[of k] by (simp add: heard_def ev receive_other)
    qed
    then show ?thesis using receive_ok[OF ok] by (simp add: tracked_def cache_step_def ev last_heard_snoc sweep_times_snoc)
  next
    case ev: (Sweep t)
    have "tracked_key (sweep_times evs @ [t]) (last_heard key_of k evs) (map_of (entries (sweep t s)) k)" for k
      using tk[of k] by (auto simp: tracked_key_def sweep_get[OF ok] split: option.splits)
    then show ?thesis using sweep_ok[OF ok]
      by (simp add: tracked_def cache_step_def ev last_heard_snoc sweep_times_snoc heard_def)
  qed
qed

lemma tracked_run:
  assumes "tracked evs0 s"
  shows "tracked (evs0 @ evs) (fold cache_step evs s)"
  using assms
proof (induction evs arbitrary: evs0 s)
  case (Cons ev evs)
  from Cons.IH[OF tracked_step[OF Cons.prems, of ev]] show ?case by simp
qed simp

lemma tracked_start: "entries s = [] \<Longrightarrow> tracked [] s"
  by (simp add: tracked_def tracked_key_def last_heard_def)

text \<open>The contract: listed after a sweep if and only if heard within the time to live.\<close>

lemma listed_after_sweep:
  assumes "entries s = []" "\<forall>u\<in>set (sweep_times evs). u \<le> t"
  shows "map_of (entries (sweep t (fold cache_step evs s))) k \<noteq> None
    \<longleftrightarrow> (\<exists>t' m. last_heard key_of k evs = Some (t', m) \<and> t - ttl \<le> t')"
proof -
  let ?s = "fold cache_step evs s"
  have tr: "tracked evs ?s" using tracked_run[OF tracked_start[OF assms(1)], of evs] by simp
  then have ok: "gm_ok (entries ?s)" by (simp add: tracked_def)
  from tr have k: "tracked_key (sweep_times evs) (last_heard key_of k evs) (map_of (entries ?s) k)"
    by (simp add: tracked_def)
  show ?thesis
  proof (cases "last_heard key_of k evs")
    case None
    with k show ?thesis by (simp add: sweep_get[OF ok] tracked_key_def)
  next
    case (Some tm)
    obtain t' m where tm: "tm = (t', m)" by (cases tm)
    show ?thesis
    proof (cases "map_of (entries ?s) k")
      case None
      with k Some tm obtain u where "u \<in> set (sweep_times evs)" "t' < u - ttl" by (auto simp: tracked_key_def)
      with assms(2) have "t' < t - ttl" by fastforce
      with None Some tm show ?thesis by (simp add: sweep_get[OF ok])
    next
      case (Some e)
      with k \<open>last_heard key_of k evs = Some tm\<close> tm show ?thesis by (simp add: sweep_get[OF ok] not_less tracked_key_def)
    qed
  qed
qed

text \<open>What is listed is what was received last.\<close>

lemma listed_is_last:
  assumes "entries s = []" "map_of (entries (fold cache_step evs s)) k = Some e"
  shows "\<exists>m. last_heard key_of k evs = Some (stamp e, m) \<and> msg_of e = keep m"
proof -
  have "tracked evs (fold cache_step evs s)" using tracked_run[OF tracked_start[OF assms(1)], of evs] by simp
  then have "tracked_key (sweep_times evs) (last_heard key_of k evs) (Some e)"
    unfolding tracked_def assms(2)[symmetric] by simp
  then show ?thesis by (auto simp: tracked_key_def split: option.splits)
qed

end

end
