(* ===== verification/Subscriber.thy ===== *)
theory Subscriber
  imports TtlCache MqttTypes Discovery ConfigModel
begin

text \<open>
  The push side of bridge collection, \<^verbatim>\<open>internal/collector/mqtt_subscriber.go\<close>: the wire message, the
  handler that caches it under the bridge's stable name with rates against the message before, the sweep,
  and the conversion to the shape the rest of the program reads; with it the bounded retry of a
  subscription and the options of the NATS connection. Decoding the JSON payload and the NATS client
  are parameters; warn-once logging is left out.
\<close>

section \<open>The wire message\<close>

record bridge_msg_nats =
  mn_Connected :: bool
  mn_ServerID :: string
  mn_ServerName :: string
  mn_URL :: string
  mn_Servers :: "string list"
  mn_RTT :: string
  mn_Reconnects :: "64 word"
  mn_Disconnects :: int
  mn_SlowConsumer :: int

record bridge_msg_account =
  ma_Domain :: string
  ma_Memory :: "64 word"
  ma_Store :: "64 word"
  ma_Streams :: int
  ma_Consumers :: int

record bridge_pool_slot =
  bp_Index :: int
  bp_Connected :: bool
  bp_SubCount :: int
  bp_PubCount :: int
  bp_FlushCount :: int
  bp_BufferedBytes :: int
  bp_OutMsgs :: int
  bp_InMsgs :: int
  bp_OutBytes :: int
  bp_InBytes :: int
  bp_Reconnects :: int

record bridge_pool =
  bp_Size :: int
  bp_Slots :: "bridge_pool_slot list"

record bridge_msg =
  bm_V :: int
  bm_PublishedAt :: gotime
  bm_InstanceID :: string
  bm_InstanceName :: string
  bm_Version :: string
  bm_Drained :: bool
  bm_ReadyState :: string
  bm_Metrics :: "mqtt_metrics option"
  bm_NATS :: bridge_msg_nats
  bm_Pool :: bridge_pool
  bm_Account :: "bridge_msg_account option"

definition bridgeMetricsSchemaV :: int where
  "bridgeMetricsSchemaV = 1"

definition defaultBridgeTTL :: int where
  "defaultBridgeTTL = 45 * second"

definition boolToInt64 :: "bool \<Rightarrow> int" where
  "boolToInt64 b = (if b then 1 else 0)"

definition bridgeMetrics :: "bridge_msg \<Rightarrow> mqtt_metrics" where
  "bridgeMetrics m = (case bm_Metrics m of
      Some x \<Rightarrow> x
    | None \<Rightarrow> zero_metrics\<lparr>m_InstanceID := bm_InstanceID m,
        m_int := (m_int zero_metrics)(''ConsumerPendingMessages'' := -1, ''Drained'' := boolToInt64 (bm_Drained m))\<rparr>)"

definition normalizeBridgeMsg :: "bridge_msg \<Rightarrow> bridge_msg" where
  "normalizeBridgeMsg m = (case bm_Metrics m of
      None \<Rightarrow> m\<lparr>bm_Metrics := Some (bridgeMetrics m)\<rparr>
    | Some x \<Rightarrow>
        let x = (if m_InstanceID x = [] then x\<lparr>m_InstanceID := bm_InstanceID m\<rparr> else x);
            x = (if m_int x ''Drained'' = 0
                 then x\<lparr>m_int := (m_int x)(''Drained'' := boolToInt64 (bm_Drained m))\<rparr> else x)
        in m\<lparr>bm_Metrics := Some x\<rparr>)"

section \<open>The cache\<close>

definition natsInTotal :: "mqtt_metrics \<Rightarrow> int" where
  "natsInTotal m = wrap64 (m_int m ''ServerPublishedQoS0'' + m_int m ''ServerPublishedQoS1'' + m_int m ''ServerPublishedQoS2'')"

definition natsOutTotal :: "mqtt_metrics \<Rightarrow> int" where
  "natsOutTotal m = wrap64 (m_int m ''ServerConsumedQoS0'' + m_int m ''ServerConsumedQoS1'' + m_int m ''ServerConsumedQoS2'')"

definition natsByteTotals :: "bridge_msg \<Rightarrow> int \<times> int" where
  "natsByteTotals m = fold (\<lambda>sl (a, b). (wrap64 (a + bp_OutBytes sl), wrap64 (b + bp_InBytes sl)))
     (bp_Slots (bm_Pool m)) (0, 0)"

record cached_bridge =
  cb_msg :: bridge_msg
  cb_receivedAt :: gotime
  cb_inRate :: f64
  cb_outRate :: f64
  cb_inBytesRate :: f64
  cb_outBytesRate :: f64

text \<open>\<open>mq_conn\<close> is the connection: absent, or whether its link is up.\<close>

record subscriber =
  mq_bridges :: "(string, cached_bridge) gomap"
  mq_conn :: "bool option"

definition newMQTTSubscriber :: subscriber where
  "newMQTTSubscriber = \<lparr>mq_bridges = [], mq_conn = None\<rparr>"

definition mq_Connected :: "subscriber \<Rightarrow> bool" where
  "mq_Connected s \<longleftrightarrow> mq_conn s = Some True"

text \<open>The rates of a message against the cached one; an interval that is not positive keeps the old rates.\<close>

definition with_rates :: "cached_bridge \<Rightarrow> bridge_msg \<Rightarrow> gotime \<Rightarrow> cached_bridge \<Rightarrow> cached_bridge" where
  "with_rates prev m now cb =
    (let dt = Seconds (now - cb_receivedAt prev)
     in if \<not> f_le dt (Fin 0) then
          let cb = (case (bm_Metrics (cb_msg prev), bm_Metrics m) of
                 (Some pm, Some cm) \<Rightarrow> cb\<lparr>cb_inRate := nonNegRate (natsInTotal cm) (natsInTotal pm) dt,
                                        cb_outRate := nonNegRate (natsOutTotal cm) (natsOutTotal pm) dt\<rparr>
               | _ \<Rightarrow> cb);
              (curTo, curFrom) = natsByteTotals m;
              (prevTo, prevFrom) = natsByteTotals (cb_msg prev)
          in cb\<lparr>cb_inBytesRate := nonNegRate curTo prevTo dt, cb_outBytesRate := nonNegRate curFrom prevFrom dt\<rparr>
        else cb\<lparr>cb_inRate := cb_inRate prev, cb_outRate := cb_outRate prev,
                cb_inBytesRate := cb_inBytesRate prev, cb_outBytesRate := cb_outBytesRate prev\<rparr>)"

text \<open>
  The message handler; \<open>None\<close> is a payload that does not decode. The normalised message is cached,
  while the rates are taken from the message as it came.
\<close>

definition on_bridge_msg :: "gotime \<Rightarrow> bridge_msg option \<Rightarrow> subscriber \<Rightarrow> subscriber" where
  "on_bridge_msg now payload s = (case payload of
      None \<Rightarrow> s
    | Some m \<Rightarrow>
        if bm_InstanceName m = [] then s
        else if bridgeMetricsSchemaV < bm_V m then s
        else
          let cb = \<lparr>cb_msg = m, cb_receivedAt = now, cb_inRate = Fin 0, cb_outRate = Fin 0,
                    cb_inBytesRate = Fin 0, cb_outBytesRate = Fin 0\<rparr>;
              cb = (case map_of (mq_bridges s) (bm_InstanceName m) of
                  Some prev \<Rightarrow> with_rates prev m now cb
                | None \<Rightarrow> cb);
              cb = cb\<lparr>cb_msg := normalizeBridgeMsg m\<rparr>
          in s\<lparr>mq_bridges := gm_set (bm_InstanceName m) cb (mq_bridges s)\<rparr>)"

definition sweepBridges :: "gotime \<Rightarrow> gotime \<Rightarrow> subscriber \<Rightarrow> subscriber" where
  "sweepBridges ttl now s = s\<lparr>mq_bridges := gm_filter (\<lambda>_ cb. \<not> cb_receivedAt cb < now - ttl) (mq_bridges s)\<rparr>"

definition BridgeCount :: "subscriber \<Rightarrow> int" where
  "BridgeCount s = int (length (mq_bridges s))"

section \<open>What the dashboard reads\<close>

definition ReadyzState :: "string \<Rightarrow> bool \<times> bool \<times> bool" where
  "ReadyzState status = (status = ''ready'', status = ''draining'', status = ''jetstream-degraded'')"

definition pool_slot_of :: "bridge_pool_slot \<Rightarrow> mqtt_pool_slot" where
  "pool_slot_of sl = \<lparr>ps_Index = bp_Index sl, ps_Connected = bp_Connected sl, ps_SubCount = bp_SubCount sl,
     ps_PubCount = bp_PubCount sl, ps_FlushCount = bp_FlushCount sl, ps_BufferedBytes = bp_BufferedBytes sl,
     ps_OutMsgs = bp_OutMsgs sl, ps_InMsgs = bp_InMsgs sl, ps_OutBytes = bp_OutBytes sl, ps_InBytes = bp_InBytes sl,
     ps_Reconnects = bp_Reconnects sl\<rparr>"

definition nats_conn_of :: "bridge_msg_nats \<Rightarrow> nats_connection" where
  "nats_conn_of n = \<lparr>nc_Connected = mn_Connected n, nc_Reconnecting = False, nc_Draining = False, nc_URL = mn_URL n,
     nc_ServerID = mn_ServerID n, nc_ServerName = mn_ServerName n, nc_ServerVersion = [], nc_ClusterName = [],
     nc_Servers = mn_Servers n, nc_MaxPayload = 0, nc_Subscriptions = 0, nc_RTT = mn_RTT n, nc_InMsgs = 0,
     nc_OutMsgs = 0, nc_InBytes = 0, nc_OutBytes = 0, nc_Reconnects = mn_Reconnects n\<rparr>"

definition nats_account_of :: "bridge_msg_account \<Rightarrow> nats_account" where
  "nats_account_of a = \<lparr>na_Domain = ma_Domain a, na_Memory = ma_Memory a, na_Store = ma_Store a,
     na_Streams = ma_Streams a, na_Consumers = ma_Consumers a\<rparr>"

definition bridgeMsgToInstance :: "string \<Rightarrow> bridge_msg \<Rightarrow> bridge_status bridge_instance" where
  "bridgeMsgToInstance name m =
    (let pool = \<lparr>pl_Size = bp_Size (bm_Pool m), pl_Slots = map pool_slot_of (bp_Slots (bm_Pool m))\<rparr>;
         metrics = bridgeMetrics m;
         drained = (bm_Drained m \<or> m_int metrics ''Drained'' \<noteq> 0);
         diag = \<lparr>nd_Connection = nats_conn_of (bm_NATS m), nd_Account = map_option nats_account_of (bm_Account m),
                 nd_Streams = [], nd_KVBuckets = []\<rparr>;
         (ready, draining, degraded) =
           (if bm_ReadyState m = [] then (mn_Connected (bm_NATS m) \<and> \<not> drained, False, False)
            else ReadyzState (bm_ReadyState m));
         status = \<lparr>bs_Name = name, bs_URL = [], bs_Ready = ready, bs_Draining = (drained \<or> draining),
           bs_JetStreamDegraded = degraded, bs_Connections = m_int metrics ''ConnectionsActive'',
           bs_NATSConnected = mn_Connected (bm_NATS m), bs_ConnzAvailable = False, bs_TotalConnections = 0,
           bs_NATS = Some diag, bs_Connz = None, bs_Pool = Some pool, bs_Metrics = Some metrics, bs_Error = []\<rparr>
     in \<lparr>bi_IP = [], bi_ServerID = mn_ServerID (bm_NATS m), bi_ServerName = mn_ServerName (bm_NATS m),
         bi_PoolConns = 0, bi_TotalSubs = 0, bi_TotalInMsgs = 0, bi_TotalOutMsgs = 0, bi_TotalInBytes = 0,
         bi_TotalOutBytes = 0, bi_InMsgsRate = Fin 0, bi_OutMsgsRate = Fin 0, bi_InBytesRate = Fin 0,
         bi_OutBytesRate = Fin 0, bi_ConfiguredName = name, bi_AdminURL = [], bi_Status = Some status,
         bi_Reachable = True, bi_LastSeen = 0\<rparr>)"

definition Bridges :: "subscriber \<Rightarrow> bridge_status bridge_instance list" where
  "Bridges s = map (\<lambda>(name, cb). (bridgeMsgToInstance name (cb_msg cb))
     \<lparr>bi_InMsgsRate := cb_inRate cb, bi_OutMsgsRate := cb_outRate cb, bi_InBytesRate := cb_inBytesRate cb,
      bi_OutBytesRate := cb_outBytesRate cb, bi_LastSeen := cb_receivedAt cb\<rparr>) (mq_bridges s)"

section \<open>The cache is a cache with a time to live\<close>

text \<open>The stable name of a message that the handler takes.\<close>

definition accepted_name :: "bridge_msg option \<Rightarrow> string option" where
  "accepted_name payload = (case payload of
      None \<Rightarrow> None
    | Some m \<Rightarrow> if bm_InstanceName m = [] \<or> bridgeMetricsSchemaV < bm_V m then None else Some (bm_InstanceName m))"

definition cached_msg :: "bridge_msg option \<Rightarrow> bridge_msg" where
  "cached_msg payload = normalizeBridgeMsg (the payload)"

lemma with_rates_fields [simp]:
  "cb_msg (with_rates prev m now cb) = cb_msg cb" "cb_receivedAt (with_rates prev m now cb) = cb_receivedAt cb"
  by (simp_all add: with_rates_def Let_def split: option.split prod.split)

interpretation bridge_cache: ttl_cache mq_bridges cb_receivedAt cb_msg cached_msg accepted_name defaultBridgeTTL
  on_bridge_msg "sweepBridges defaultBridgeTTL"
proof
  show "map_of (mq_bridges (sweepBridges defaultBridgeTTL t s)) k
      = (case map_of (mq_bridges s) k of None \<Rightarrow> None
         | Some e \<Rightarrow> if cb_receivedAt e < t - defaultBridgeTTL then None else Some e)" if "gm_ok (mq_bridges s)" for s t k
    using gm_filter_get[OF that] by (simp add: sweepBridges_def split: option.split)
qed (auto simp: on_bridge_msg_def sweepBridges_def accepted_name_def cached_msg_def Let_def split: option.splits if_splits)

text \<open>A run of the subscriber from its start.\<close>

definition mq_step :: "bridge_msg option cache_event \<Rightarrow> subscriber \<Rightarrow> subscriber" where
  "mq_step ev s = (case ev of Receive t p \<Rightarrow> on_bridge_msg t p s | Sweep t \<Rightarrow> sweepBridges defaultBridgeTTL t s)"

lemma mq_step_cache: "mq_step = bridge_cache.cache_step"
  by (simp add: fun_eq_iff mq_step_def bridge_cache.cache_step_def split: cache_event.split)

section \<open>Who is listed, and with what\<close>

lemma bridgeMsgToInstance_name [simp]: "bi_ConfiguredName (bridgeMsgToInstance k m) = k"
  by (simp add: bridgeMsgToInstance_def Let_def split: prod.split)

lemma Bridges_names: "bi_ConfiguredName ` set (Bridges s) = fst ` set (mq_bridges s)"
  by (force simp: Bridges_def image_iff)

text \<open>
  After a sweep the fleet lists exactly the bridges whose last message that could be read, carried a
  name and was of a known schema arrived within the last 45 seconds, whatever messages and sweeps came
  before: no live bridge is dropped and no dead one is kept.
\<close>

theorem fleet_lists_recently_heard:
  assumes "\<forall>u\<in>set (sweep_times evs). u \<le> now"
  shows "name \<in> bi_ConfiguredName ` set (Bridges (sweepBridges defaultBridgeTTL now (fold mq_step evs newMQTTSubscriber)))
    \<longleftrightarrow> (\<exists>t p. last_heard accepted_name name evs = Some (t, p) \<and> now - defaultBridgeTTL \<le> t)"
  unfolding Bridges_names mq_step_cache
  using bridge_cache.listed_after_sweep[OF _ assms, of newMQTTSubscriber name]
  by (simp add: newMQTTSubscriber_def map_of_eq_None_iff)

definition msg_example :: bridge_msg where
  "msg_example = \<lparr>bm_V = 1, bm_PublishedAt = 0, bm_InstanceID = ''i1'', bm_InstanceName = ''edge'', bm_Version = [],
     bm_Drained = False, bm_ReadyState = ''ready'', bm_Metrics = Some zero_metrics,
     bm_NATS = \<lparr>mn_Connected = True, mn_ServerID = ''A'', mn_ServerName = ''n1'', mn_URL = [], mn_Servers = [],
       mn_RTT = [], mn_Reconnects = 0, mn_Disconnects = 0, mn_SlowConsumer = 0\<rparr>,
     bm_Pool = \<lparr>bp_Size = 0, bp_Slots = []\<rparr>, bm_Account = None\<rparr>"

lemma fleet_lists_recently_heard_witness:
  "''edge'' \<in> bi_ConfiguredName ` set (Bridges (sweepBridges defaultBridgeTTL (50 * second)
     (fold mq_step [Receive (5 * second) (Some msg_example), Receive (6 * second) None, Sweep (20 * second)] newMQTTSubscriber)))"
  by (subst fleet_lists_recently_heard)
    (simp_all add: sweep_times_def last_heard_def heard_def accepted_name_def msg_example_def
      bridgeMetricsSchemaV_def defaultBridgeTTL_def second_def)

text \<open>The counters of a message that rates are taken from are sums that did not overflow.\<close>

definition totals_ok :: "bridge_msg \<Rightarrow> bool" where
  "totals_ok m \<longleftrightarrow> 0 \<le> fst (natsByteTotals m) \<and> 0 \<le> snd (natsByteTotals m)
    \<and> (case bm_Metrics m of None \<Rightarrow> True | Some x \<Rightarrow> 0 \<le> natsInTotal x \<and> 0 \<le> natsOutTotal x)"

definition cached_ok :: "gotime \<Rightarrow> cached_bridge \<Rightarrow> bool" where
  "cached_ok t0 cb \<longleftrightarrow> totals_ok (cb_msg cb) \<and> t0 \<le> cb_receivedAt cb
    \<and> (\<forall>r\<in>{cb_inRate cb, cb_outRate cb, cb_inBytesRate cb, cb_outBytesRate cb}. f_nonneg r \<and> f_finite r)"

lemma byte_totals_max: "fst (natsByteTotals m) \<le> max_int64 \<and> snd (natsByteTotals m) \<le> max_int64"
proof -
  have "fst (fold (\<lambda>sl (a, b). (wrap64 (a + bp_OutBytes sl), wrap64 (b + bp_InBytes sl))) sls ab) \<le> max_int64
      \<and> snd (fold (\<lambda>sl (a, b). (wrap64 (a + bp_OutBytes sl), wrap64 (b + bp_InBytes sl))) sls ab) \<le> max_int64"
    if "fst ab \<le> max_int64" "snd ab \<le> max_int64" for sls ab
    using that by (induction sls arbitrary: ab) (auto simp: wrap64_range split: prod.split)
  from this[of "(0, 0)" "bp_Slots (bm_Pool m)"] show ?thesis
    by (simp add: natsByteTotals_def max_int64_def)
qed

lemma totals_ok_normalized: "totals_ok m \<Longrightarrow> totals_ok (normalizeBridgeMsg m)"
  by (auto simp: totals_ok_def normalizeBridgeMsg_def natsByteTotals_def natsInTotal_def natsOutTotal_def
      bridgeMetrics_def zero_metrics_def wrap64_def Let_def split: option.splits)

lemma with_rates_ok:
  assumes "cached_ok t0 prev" "totals_ok m" "now - t0 \<le> max_int64"
    "\<forall>r\<in>{cb_inRate cb, cb_outRate cb, cb_inBytesRate cb, cb_outBytesRate cb}. f_nonneg r \<and> f_finite r"
  shows "\<forall>r\<in>{cb_inRate (with_rates prev m now cb), cb_outRate (with_rates prev m now cb),
      cb_inBytesRate (with_rates prev m now cb), cb_outBytesRate (with_rates prev m now cb)}. f_nonneg r \<and> f_finite r"
proof -
  have "now - cb_receivedAt prev \<le> max_int64" using assms(1,3) by (simp add: cached_ok_def)
  note R = clamped.rate_between[OF this]
  show ?thesis using assms(1,2,4) byte_totals_max[of m] wrap64_range
    by (auto simp: with_rates_def Let_def cached_ok_def totals_ok_def R natsInTotal_def natsOutTotal_def
        split: option.split prod.split)
qed

lemma on_bridge_msg_ok:
  assumes "\<forall>(k, cb)\<in>set (mq_bridges s). cached_ok t0 cb" "t0 \<le> now" "now - t0 \<le> max_int64"
    "\<forall>m. p = Some m \<longrightarrow> totals_ok m"
  shows "\<forall>(k, cb)\<in>set (mq_bridges (on_bridge_msg now p s)). cached_ok t0 cb"
proof (cases "accepted_name p")
  case None
  then show ?thesis using assms(1) by (auto simp: on_bridge_msg_def accepted_name_def split: option.splits if_splits)
next
  case (Some k)
  then obtain m where m: "p = Some m" "k = bm_InstanceName m" "k \<noteq> []" "\<not> bridgeMetricsSchemaV < bm_V m"
    by (auto simp: accepted_name_def split: option.splits if_splits)
  let ?cb = "\<lparr>cb_msg = m, cb_receivedAt = now, cb_inRate = Fin 0, cb_outRate = Fin 0,
     cb_inBytesRate = Fin 0, cb_outBytesRate = Fin 0\<rparr>"
  let ?new = "(case map_of (mq_bridges s) k of Some prev \<Rightarrow> with_rates prev m now ?cb | None \<Rightarrow> ?cb)
     \<lparr>cb_msg := normalizeBridgeMsg m\<rparr>"
  have s: "mq_bridges (on_bridge_msg now p s) = gm_set k ?new (mq_bridges s)"
    using m by (simp add: on_bridge_msg_def Let_def)
  have t: "totals_ok m" using assms(4) m by simp
  have "cached_ok t0 ?new"
  proof (cases "map_of (mq_bridges s) k")
    case None
    then show ?thesis using totals_ok_normalized[OF t] assms(2) by (simp add: cached_ok_def)
  next
    case (Some prev)
    then have "cached_ok t0 prev" using assms(1) by (auto dest!: map_of_SomeD)
    from with_rates_ok[OF this t assms(3), of ?cb] show ?thesis
      using totals_ok_normalized[OF t] assms(2) Some by (simp add: cached_ok_def)
  qed
  moreover have "set (gm_set k v xs) \<subseteq> insert (k, v) (set xs)" for v and xs :: "(string, cached_bridge) gomap"
    by (induction xs) (auto simp: gm_set_def split: if_splits)
  ultimately show ?thesis using assms(1) unfolding s by fastforce
qed

definition good_event :: "gotime \<Rightarrow> bridge_msg option cache_event \<Rightarrow> bool" where
  "good_event t0 ev \<longleftrightarrow> (case ev of
      Receive t p \<Rightarrow> t0 \<le> t \<and> t - t0 \<le> max_int64 \<and> (case p of None \<Rightarrow> True | Some m \<Rightarrow> totals_ok m)
    | Sweep t \<Rightarrow> True)"

lemma mq_run_ok:
  assumes "\<forall>ev\<in>set evs. good_event t0 ev"
  shows "\<forall>(k, cb)\<in>set (mq_bridges (fold mq_step evs newMQTTSubscriber)). cached_ok t0 cb"
proof (rule fold_invariant_from)
  show "\<forall>(k, cb)\<in>set (mq_bridges newMQTTSubscriber). cached_ok t0 cb" by (simp add: newMQTTSubscriber_def)
  fix ev and s :: subscriber
  assume "ev \<in> set evs" and s: "\<forall>(k, cb)\<in>set (mq_bridges s). cached_ok t0 cb"
  then have "good_event t0 ev" using assms by blast
  then show "\<forall>(k, cb)\<in>set (mq_bridges (mq_step ev s)). cached_ok t0 cb"
  proof (cases ev)
    case (Receive t p)
    then show ?thesis using \<open>good_event t0 ev\<close> on_bridge_msg_ok[OF s, of t p]
      by (simp add: mq_step_def good_event_def split: option.splits)
  next
    case (Sweep t)
    then show ?thesis using s by (auto simp: mq_step_def sweepBridges_def gm_filter_def)
  qed
qed

text \<open>
  C19. Every bridge the fleet lists shows the state of the last message heard from it, at the time it was
  heard, and rates that are finite and not negative, also after a broker restart that resets its counters.
\<close>

theorem listed_bridge_is_last_message:
  assumes "\<forall>ev\<in>set evs. good_event t0 ev" "b \<in> set (Bridges (fold mq_step evs newMQTTSubscriber))"
  shows "\<exists>m. last_heard accepted_name (bi_ConfiguredName b) evs = Some (bi_LastSeen b, Some m)
    \<and> bi_Status b = bi_Status (bridgeMsgToInstance (bi_ConfiguredName b) (normalizeBridgeMsg m))
    \<and> (\<forall>r\<in>{bi_InMsgsRate b, bi_OutMsgsRate b, bi_InBytesRate b, bi_OutBytesRate b}. f_nonneg r \<and> f_finite r)"
proof -
  let ?s = "fold mq_step evs newMQTTSubscriber"
  obtain k cb where cb: "(k, cb) \<in> set (mq_bridges ?s)" and b: "b = (bridgeMsgToInstance k (cb_msg cb))
     \<lparr>bi_InMsgsRate := cb_inRate cb, bi_OutMsgsRate := cb_outRate cb, bi_InBytesRate := cb_inBytesRate cb,
      bi_OutBytesRate := cb_outBytesRate cb, bi_LastSeen := cb_receivedAt cb\<rparr>"
    using assms(2) by (auto simp: Bridges_def)
  have k: "bi_ConfiguredName b = k" by (simp add: b)
  have e: "mq_bridges newMQTTSubscriber = []" by (simp add: newMQTTSubscriber_def)
  have "gm_ok (mq_bridges ?s)"
    using bridge_cache.tracked_run[OF bridge_cache.tracked_start[OF e], of evs]
    by (simp add: mq_step_cache bridge_cache.tracked_def)
  then have "map_of (mq_bridges ?s) k = Some cb" using cb by (simp add: gm_mem_get)
  then obtain p where p: "last_heard accepted_name k evs = Some (cb_receivedAt cb, p)" "cb_msg cb = cached_msg p"
    using bridge_cache.listed_is_last[OF e] unfolding mq_step_cache by blast
  have "p \<noteq> None"
  proof -
    have "\<forall>t q. last_heard accepted_name k evs = Some (t, q) \<longrightarrow> accepted_name q = Some k"
      unfolding last_heard_def
      by (rule fold_preserves) (auto simp: heard_def split: cache_event.splits if_splits)
    then show ?thesis using p(1) by (auto simp: accepted_name_def split: option.splits)
  qed
  moreover have "cached_ok t0 cb" using mq_run_ok[OF assms(1)] cb by auto
  ultimately show ?thesis using p
    by (auto simp: k b cached_msg_def cached_ok_def)
qed

lemma listed_bridge_is_last_message_witness:
  "f_nonneg (bi_InMsgsRate (hd (Bridges (fold mq_step [Receive 5 (Some msg_example), Receive 9 (Some msg_example)] newMQTTSubscriber))))"
proof -
  let ?bs = "Bridges (fold mq_step [Receive 5 (Some msg_example), Receive 9 (Some msg_example)] newMQTTSubscriber)"
  have "?bs \<noteq> []"
    by (simp add: Bridges_def mq_step_def on_bridge_msg_def msg_example_def bridgeMetricsSchemaV_def Let_def
        newMQTTSubscriber_def gm_set_def)
  then have b: "hd ?bs \<in> set ?bs" by (rule hd_in_set)
  have "totals_ok msg_example"
    by (simp add: totals_ok_def msg_example_def natsByteTotals_def natsInTotal_def natsOutTotal_def
        zero_metrics_def wrap64_def)
  then have "\<forall>ev\<in>set [Receive 5 (Some msg_example), Receive 9 (Some msg_example)]. good_event 0 ev"
    by (simp add: good_event_def max_int64_def)
  from listed_bridge_is_last_message[OF this b] show ?thesis by blast
qed

section \<open>Subscribing with retries\<close>

text \<open>
  \<open>attempt_ok n\<close> says whether the \<open>n\<close>th subscribe succeeds, \<open>cancelled n\<close> whether the context ends
  during the wait after it. The result comes with the number of attempts made and the time waited.
\<close>

datatype subscribe_result = Subscribed | SubscribeFailed | SubscribeCancelled

function subscribe_from :: "(nat \<Rightarrow> bool) \<Rightarrow> (nat \<Rightarrow> bool) \<Rightarrow> int list \<Rightarrow> nat \<Rightarrow> int \<Rightarrow> subscribe_result \<times> nat \<times> int"
where
  "subscribe_from attempt_ok cancelled delays attempt waited =
    (if attempt_ok attempt then (Subscribed, attempt + 1, waited)
     else if length delays \<le> attempt then (SubscribeFailed, attempt + 1, waited)
     else if cancelled attempt then (SubscribeCancelled, attempt + 1, waited)
     else subscribe_from attempt_ok cancelled delays (attempt + 1) (waited + delays ! attempt))"
  by pat_completeness auto
termination
  by (relation "measure (\<lambda>(ok, c, delays, attempt, waited). length delays - attempt)") auto

declare subscribe_from.simps [simp del]

definition subscribeWithRetry :: "(nat \<Rightarrow> bool) \<Rightarrow> (nat \<Rightarrow> bool) \<Rightarrow> int list \<Rightarrow> subscribe_result \<times> nat \<times> int" where
  "subscribeWithRetry attempt_ok cancelled delays = subscribe_from attempt_ok cancelled delays 0 0"

definition defaultSubscribeRetries :: "int list" where
  "defaultSubscribeRetries = [500000000, 2 * second, 5 * second]"

lemma subscribe_from_steps:
  assumes "i \<le> n" "\<forall>j. i \<le> j \<and> j < n \<longrightarrow> \<not> attempt_ok j \<and> \<not> cancelled j" "n \<le> length delays"
  shows "subscribe_from attempt_ok cancelled delays i w
    = subscribe_from attempt_ok cancelled delays n (w + sum_list (take (n - i) (drop i delays)))"
  using assms
proof (induction "n - i" arbitrary: i w)
  case (Suc d)
  then have i: "i < n" "\<not> attempt_ok i" "\<not> cancelled i" "\<not> length delays \<le> i" by auto
  have "drop i delays = delays ! i # drop (Suc i) delays" using i by (simp add: Cons_nth_drop_Suc)
  moreover have "n - i = Suc (n - Suc i)" using i by simp
  ultimately have t: "sum_list (take (n - i) (drop i delays)) = delays ! i + sum_list (take (n - Suc i) (drop (Suc i) delays))"
    by simp
  have "subscribe_from attempt_ok cancelled delays i w
      = subscribe_from attempt_ok cancelled delays (Suc i) (w + delays ! i)"
    by (subst subscribe_from.simps) (use i in simp)
  also have "\<dots> = subscribe_from attempt_ok cancelled delays n
      (w + delays ! i + sum_list (take (n - Suc i) (drop (Suc i) delays)))"
    using Suc.hyps Suc.prems i by (intro Suc.hyps(1)) auto
  finally show ?case by (simp add: t add.assoc)
qed simp

text \<open>
  C26. The retry loop always ends: it makes at most one attempt more than there are waits, stops at the
  first attempt that succeeds, and waits for exactly the delays in front of its last attempt. With the
  default delays that is at most four attempts and 7.5 seconds.
\<close>

theorem subscribe_retry_ends:
  "\<exists>r n. subscribeWithRetry attempt_ok cancelled delays = (r, Suc n, sum_list (take n delays)) \<and> n \<le> length delays
    \<and> {j. j < n \<and> (attempt_ok j \<or> cancelled j)} = {}
    \<and> r = (if attempt_ok n then Subscribed else if n = length delays then SubscribeFailed else SubscribeCancelled)
    \<and> \<not> (r = SubscribeCancelled \<and> \<not> cancelled n)"
proof -
  let ?stop = "\<lambda>j. attempt_ok j \<or> cancelled j \<or> length delays \<le> j"
  define n where "n = (LEAST j. ?stop j)"
  have s: "?stop n" unfolding n_def by (rule LeastI[of ?stop "length delays"]) simp
  have b: "\<not> ?stop j" if "j < n" for j using that not_less_Least[of j ?stop] by (simp add: n_def)
  have n: "n \<le> length delays" unfolding n_def by (rule Least_le) simp
  have "subscribeWithRetry attempt_ok cancelled delays = subscribe_from attempt_ok cancelled delays n (sum_list (take n delays))"
    using subscribe_from_steps[of 0 n attempt_ok cancelled delays 0] b n by (simp add: subscribeWithRetry_def)
  then show ?thesis using s b n by (subst (asm) subscribe_from.simps) (auto intro!: exI[of _ n])
qed

section \<open>The connection options\<close>

datatype nats_auth = NoAuth | UserInfo string string | TokenAuth string | NkeyAuth string | CredentialsFile string

datatype nats_tls = DefaultTLS | InsecureTLS | PinnedTLS string

datatype nats_error = NoURLs | BadNkey | NatsTLS file_error

text \<open>What the connection is opened with: the server list, the credentials and the TLS setting.\<close>

record nats_options =
  no_servers :: string
  no_auth :: nats_auth
  no_tls :: nats_tls

definition nats_auth_of :: "(string \<Rightarrow> bool) \<Rightarrow> nats_conn_config \<Rightarrow> nats_error + nats_auth" where
  "nats_auth_of nkey_ok c =
    (if nn_Username c \<noteq> [] then Inr (UserInfo (nn_Username c) (nn_Password c))
     else if nn_Token c \<noteq> [] then Inr (TokenAuth (nn_Token c))
     else if nn_NKey c \<noteq> [] then (if nkey_ok (nn_NKey c) then Inr (NkeyAuth (nn_NKey c)) else Inl BadNkey)
     else if nn_CredsFile c \<noteq> [] then Inr (CredentialsFile (nn_CredsFile c))
     else Inr NoAuth)"

definition nats_tls_of :: "host \<Rightarrow> nats_conn_config \<Rightarrow> nats_error + nats_tls" where
  "nats_tls_of h c = (case nn_TLS c of
      None \<Rightarrow> Inr DefaultTLS
    | Some t \<Rightarrow>
        if t_Insecure t then Inr InsecureTLS
        else try_bind (map_error NatsTLS (CertPool h (Some t)))
          (\<lambda>pool. Inr (case pool of None \<Rightarrow> DefaultTLS | Some pem \<Rightarrow> PinnedTLS pem)))"

definition connectNATS :: "host \<Rightarrow> (string \<Rightarrow> bool) \<Rightarrow> nats_conn_config \<Rightarrow> nats_error + nats_options" where
  "connectNATS h nkey_ok c =
    (if nn_URLs c = [] then Inl NoURLs
     else try_bind (nats_auth_of nkey_ok c) (\<lambda>auth.
          try_bind (nats_tls_of h c) (\<lambda>tls.
          Inr \<lparr>no_servers = Join '','' (nn_URLs c), no_auth = auth, no_tls = tls\<rparr>)))"

text \<open>A configured CA is pinned, or TLS verification was switched off: it is never silently dropped.\<close>

lemma configured_ca_is_pinned:
  assumes "connectNATS h nkey_ok c = Inr opts" "nn_TLS c = Some t" "t_CAFile t \<noteq> [] \<or> t_CAPem t \<noteq> []"
  shows "no_tls opts = (if t_Insecure t then InsecureTLS else PinnedTLS (t_CAPem t))"
  using assms by (auto simp: connectNATS_def nats_tls_of_def CertPool_def error_simps split: if_splits)

end
