(* ===== verification/SysCollector.thy ===== *)
theory SysCollector
  imports TtlCache Snapshot
begin

text \<open>
  Server collection over $SYS events, \<^verbatim>\<open>internal/collector/sys_collector.go\<close>: the cache of STATSZ
  messages, the fan-in of PING replies, and the poll that builds a snapshot from either. The NATS client
  and the JSON decoding are parameters: a message is its decoded form, or a decoding error.
\<close>

section \<open>Wire types\<close>

record sys_server_info =
  yi_ID :: string
  yi_Name :: string
  yi_Host :: string
  yi_Cluster :: string
  yi_Version :: string
  yi_Time :: gotime

record sys_data_stats =
  yd_Msgs :: int
  yd_Bytes :: int

text \<open>\<^verbatim>\<open>sysJSVarz\<close> nests anonymous structs; the fields are those of the structs of \<^verbatim>\<open>types.go\<close>.\<close>

record sys_js_varz =
  yj_MaxMemory :: int
  yj_MaxStore :: int
  yj_Domain :: string
  yj_Memory :: "64 word"
  yj_Store :: "64 word"
  yj_Accounts :: int
  yj_APITotal :: "64 word"
  yj_APIErrors :: "64 word"

text \<open>Of the routes and gateways only the number is read.\<close>

record sys_server_stats =
  ys_Start :: gotime
  ys_Mem :: int
  ys_Cores :: int
  ys_CPU :: f64
  ys_Connections :: int
  ys_TotalConnections :: "64 word"
  ys_NumSubs :: "32 word"
  ys_Sent :: sys_data_stats
  ys_Received :: sys_data_stats
  ys_SlowConsumers :: int
  ys_Routes :: nat
  ys_Gateways :: nat
  ys_JetStream :: "sys_js_varz option"

record sys_stats_msg =
  ym_Server :: sys_server_info
  ym_Stats :: sys_server_stats

record statsz_entry =
  ye_server :: sys_server_info
  ye_stats :: sys_server_stats
  ye_when :: gotime

definition defaultStatszTTL :: int where
  "defaultStatszTTL = 30 * second"

section \<open>The STATSZ cache\<close>

text \<open>\<open>y_conn\<close> is the connection: absent, or whether its link is up.\<close>

record sys_collector =
  y_conn :: "bool option"
  y_statsz :: "(string, statsz_entry) gomap"

definition newSYSCollector :: sys_collector where
  "newSYSCollector = \<lparr>y_conn = None, y_statsz = []\<rparr>"

definition cacheLen :: "sys_collector \<Rightarrow> int" where
  "cacheLen s = int (length (y_statsz s))"

definition sys_Connected :: "sys_collector \<Rightarrow> bool" where
  "sys_Connected s \<longleftrightarrow> y_conn s = Some True"

definition on_statsz :: "gotime \<Rightarrow> sys_stats_msg option \<Rightarrow> sys_collector \<Rightarrow> sys_collector" where
  "on_statsz now payload s = (case payload of
      None \<Rightarrow> s
    | Some m \<Rightarrow>
        if yi_ID (ym_Server m) = [] then s
        else s\<lparr>y_statsz := gm_set (yi_ID (ym_Server m))
                 \<lparr>ye_server = ym_Server m, ye_stats = ym_Stats m, ye_when = now\<rparr> (y_statsz s)\<rparr>)"

definition sweepStatsz :: "gotime \<Rightarrow> gotime \<Rightarrow> sys_collector \<Rightarrow> sys_collector" where
  "sweepStatsz ttl now s = s\<lparr>y_statsz := gm_filter (\<lambda>_ e. \<not> ye_when e < now - ttl) (y_statsz s)\<rparr>"

definition statsz_id :: "sys_stats_msg option \<Rightarrow> string option" where
  "statsz_id payload = (case payload of
      None \<Rightarrow> None
    | Some m \<Rightarrow> if yi_ID (ym_Server m) = [] then None else Some (yi_ID (ym_Server m)))"

interpretation statsz_cache: ttl_cache y_statsz ye_when "\<lambda>e. (ye_server e, ye_stats e)"
  "\<lambda>p. (ym_Server (the p), ym_Stats (the p))" statsz_id defaultStatszTTL on_statsz "sweepStatsz defaultStatszTTL"
proof
  show "map_of (y_statsz (sweepStatsz defaultStatszTTL t s)) k
      = (case map_of (y_statsz s) k of None \<Rightarrow> None
         | Some e \<Rightarrow> if ye_when e < t - defaultStatszTTL then None else Some e)" if "gm_ok (y_statsz s)" for s t k
    using gm_filter_get[OF that] by (simp add: sweepStatsz_def split: option.split)
qed (auto simp: on_statsz_def sweepStatsz_def statsz_id_def split: option.splits if_splits)

definition sys_step :: "sys_stats_msg option cache_event \<Rightarrow> sys_collector \<Rightarrow> sys_collector" where
  "sys_step ev s = (case ev of Receive t p \<Rightarrow> on_statsz t p s | Sweep t \<Rightarrow> sweepStatsz defaultStatszTTL t s)"

lemma sys_step_cache: "sys_step = statsz_cache.cache_step"
  by (simp add: fun_eq_iff sys_step_def statsz_cache.cache_step_def split: cache_event.split)

section \<open>From a STATSZ message to a server document\<close>

text \<open>Whole seconds of a duration, toward zero, and the text of an uptime.\<close>

definition whole_seconds :: "int \<Rightarrow> int" where
  "whole_seconds d = (if d < 0 then - ((- d) div second) else d div second)"

definition formatUptime :: "int \<Rightarrow> string" where
  "formatUptime d =
    (let s = whole_seconds d; m = s div 60; h = s div 3600
     in if s < 60 then itoa s @ ''s''
        else if s < 3600 then itoa m @ ''m'' @ itoa (s mod 60) @ ''s''
        else if h < 24 then itoa h @ ''h'' @ itoa (m mod 60) @ ''m'' @ itoa (s mod 60) @ ''s''
        else itoa (h div 24) @ ''d'' @ itoa (h mod 24) @ ''h'' @ itoa (m mod 60) @ ''m'' @ itoa (s mod 60) @ ''s'')"

definition sys_jetstream :: "sys_js_varz \<Rightarrow> jetstream_varz" where
  "sys_jetstream js = \<lparr>jv_Config = \<lparr>jc_MaxMemory = yj_MaxMemory js, jc_MaxStore = yj_MaxStore js, jc_Domain = yj_Domain js\<rparr>,
     jv_Stats = \<lparr>jst_Memory = yj_Memory js, jst_Store = yj_Store js, jst_Accounts = yj_Accounts js,
                jst_API = \<lparr>ja_Total = yj_APITotal js, ja_Errors = yj_APIErrors js\<rparr>\<rparr>\<rparr>"

definition statszToVarz :: "statsz_entry \<Rightarrow> varz" where
  "statszToVarz e =
    (let i = ye_server e; s = ye_stats e;
         v = zero_varz\<lparr>v_ServerID := yi_ID i, v_ServerName := yi_Name i, v_Host := yi_Host i, v_Version := yi_Version i,
               v_Connections := ys_Connections s, v_TotalConnections := ys_TotalConnections s,
               v_Routes := int (ys_Routes s), v_Mem := ys_Mem s, v_CPU := ys_CPU s, v_Cores := ys_Cores s,
               v_Subscriptions := ys_NumSubs s, v_SlowConsumers := ys_SlowConsumers s,
               v_InMsgs := yd_Msgs (ys_Received s), v_OutMsgs := yd_Msgs (ys_Sent s),
               v_InBytes := yd_Bytes (ys_Received s), v_OutBytes := yd_Bytes (ys_Sent s),
               v_Start := ys_Start s, v_Now := yi_Time i, v_Cluster := \<lparr>co_Name = yi_Cluster i, co_URLs = []\<rparr>,
               v_Uptime := formatUptime (yi_Time i - ys_Start s)\<rparr>
     in case ys_JetStream s of None \<Rightarrow> v | Some js \<Rightarrow> v\<lparr>v_JetStream := sys_jetstream js\<rparr>)"

section \<open>PING fan-in\<close>

text \<open>
  The replies that arrive on the inbox, each with its time after the request: \<open>fanIn\<close> takes those in front
  of the deadline that decode, and nothing at all when subscribing or publishing fails. A reply is
  its server, an error, or data that decodes or not.
\<close>

datatype 'd ping_data = PingError | PingEmpty | PingBad | PingData 'd

fun fan_loop :: "gotime \<Rightarrow> (gotime \<times> 'r option) list \<Rightarrow> 'r list" where
  "fan_loop deadline [] = []"
| "fan_loop deadline ((t, m) # ms) =
    (if deadline \<le> t then [] else case m of None \<Rightarrow> fan_loop deadline ms | Some e \<Rightarrow> e # fan_loop deadline ms)"

definition fanIn :: "bool \<Rightarrow> gotime \<Rightarrow> (gotime \<times> 'r option) list \<Rightarrow> 'r list" where
  "fanIn sent timeout arrivals = (if sent then fan_loop timeout arrivals else [])"

definition fill :: "(string \<times> 'd ping_data) list \<Rightarrow> (string, 'd) gomap" where
  "fill replies = fold (\<lambda>(i, d) m. case d of PingData v \<Rightarrow> gm_set i v m | _ \<Rightarrow> m) replies []"

text \<open>What the servers answer to the nine endpoints, as the inboxes receive it.\<close>

type_synonym 'd ping_inbox = "bool \<times> (gotime \<times> (string \<times> 'd ping_data) option) list"

record ping_world =
  pg_Varz :: "varz ping_inbox"
  pg_Connz :: "connz ping_inbox"
  pg_Routez :: "routez ping_inbox"
  pg_Gatewayz :: "gatewayz ping_inbox"
  pg_Leafz :: "leafz ping_inbox"
  pg_Subsz :: "subsz ping_inbox"
  pg_JSInfo :: "js_info ping_inbox"
  pg_Accountz :: "accountz ping_inbox"
  pg_Health :: "health_status ping_inbox"

definition ping :: "'d ping_inbox \<Rightarrow> (string, 'd) gomap" where
  "ping inbox = fill (fanIn (fst inbox) (2 * second) (snd inbox))"

text \<open>The request body asks for detail on slow polls, so the answers depend on \<open>slow\<close>.\<close>

definition fillFromPing :: "ping_world \<Rightarrow> snapshot \<Rightarrow> snapshot" where
  "fillFromPing w s = s\<lparr>Varz := ping (pg_Varz w), Connz := ping (pg_Connz w), Routez := ping (pg_Routez w),
     Gatewayz := ping (pg_Gatewayz w), Leafz := ping (pg_Leafz w), Subsz := ping (pg_Subsz w),
     JSInfo := ping (pg_JSInfo w), Accountz := ping (pg_Accountz w), Health := ping (pg_Health w)\<rparr>"

section \<open>The poll\<close>

definition carry_varz :: "snapshot option \<Rightarrow> string \<Rightarrow> varz \<Rightarrow> varz" where
  "carry_varz carry i v = (case carry of
      None \<Rightarrow> v
    | Some c \<Rightarrow> (case map_of (Varz c) i of
        None \<Rightarrow> v
      | Some p \<Rightarrow> v\<lparr>v_Leafs := v_Leafs p, v_Port := v_Port p, v_MaxConn := v_MaxConn p,
                   v_GoVersion := v_GoVersion p, v_Gateway := v_Gateway p\<rparr>))"

definition carry_slow :: "snapshot option \<Rightarrow> snapshot \<Rightarrow> snapshot" where
  "carry_slow carry s = (case carry of
      None \<Rightarrow> s
    | Some c \<Rightarrow> s\<lparr>Routez := Routez c, Gatewayz := Gatewayz c, Leafz := Leafz c, Health := Health c, Connz := Connz c,
        Subsz := Subsz c, JSInfo := JSInfo c, Accountz := Accountz c, ServerURLs := ServerURLs c\<rparr>)"

definition sys_poll :: "gotime \<Rightarrow> (bool \<Rightarrow> ping_world) \<Rightarrow> snapshot option \<Rightarrow> bool \<Rightarrow> sys_collector \<Rightarrow> snapshot option" where
  "sys_poll now w carry slow sc = (case y_conn sc of
      None \<Rightarrow> None
    | Some up \<Rightarrow>
        let snap = empty_snapshot\<lparr>Timestamp := now\<rparr>;
            bootstrap = (cacheLen sc = 0 \<and> up)
        in if bootstrap \<or> slow then Some (fillFromPing (w slow) snap)
           else
             let snap = snap\<lparr>Varz := map (\<lambda>(i, e). (i, carry_varz carry i (statszToVarz e))) (y_statsz sc)\<rparr>
             in if Varz snap = [] then None else Some (carry_slow carry snap))"

section \<open>What a poll reports\<close>

lemma fill_ok: "gm_ok (fill replies)"
  unfolding fill_def by (rule fold_preserves) (auto split: ping_data.split)

lemma ping_ok [simp]: "gm_ok (ping inbox)"
  by (simp add: ping_def fill_ok)

lemma map_of_map_entries: "map_of (map (\<lambda>(i, e). (i, f i e)) m) k = map_option (f k) (map_of m k)"
  by (induction m) auto

lemma statszToVarz_cong:
  "ye_server e = ye_server e' \<Longrightarrow> ye_stats e = ye_stats e' \<Longrightarrow> statszToVarz e = statszToVarz e'"
  by (simp add: statszToVarz_def)

lemma last_heard_statsz_Some: "last_heard statsz_id k evs = Some (t, p) \<Longrightarrow> p \<noteq> None"
proof -
  have "\<forall>t p. last_heard statsz_id k evs = Some (t, p) \<longrightarrow> p \<noteq> None"
    unfolding last_heard_def
    by (rule fold_preserves) (auto simp: heard_def statsz_id_def split: cache_event.splits if_splits option.splits)
  then show "last_heard statsz_id k evs = Some (t, p) \<Longrightarrow> p \<noteq> None" by blast
qed

text \<open>
  A fast poll over $SYS reports exactly the servers whose last STATSZ message is at most 30 seconds
  old, with the counters of that message and the fields that STATSZ lacks taken from the snapshot before,
  and keeps the health answers of that snapshot, so that nothing flickers between slow polls.
\<close>

theorem fast_poll_reports_live_servers:
  assumes "\<forall>u\<in>set (sweep_times evs). u \<le> now"
    "sc = sweepStatsz defaultStatszTTL now (fold sys_step evs newSYSCollector)" "y_statsz sc \<noteq> []"
    "sys_poll t w (Some c) False (sc\<lparr>y_conn := conn\<rparr>) = Some snap"
  shows "map_of (Varz snap) i = (case last_heard statsz_id i evs of
        Some (h, Some m) \<Rightarrow>
          if now - defaultStatszTTL \<le> h
          then Some (carry_varz (Some c) i (statszToVarz \<lparr>ye_server = ym_Server m, ye_stats = ym_Stats m, ye_when = h\<rparr>))
          else None
      | _ \<Rightarrow> None) \<and> Health snap = Health c"
proof -
  have e: "y_statsz newSYSCollector = []" by (simp add: newSYSCollector_def)
  have sc: "sc = fold sys_step (evs @ [Sweep now]) newSYSCollector" by (simp add: assms(2) sys_step_def)
  have snap: "Varz snap = map (\<lambda>(i, e). (i, carry_varz (Some c) i (statszToVarz e))) (y_statsz sc) \<and> Health snap = Health c"
    using assms(3,4) by (auto simp: sys_poll_def cacheLen_def carry_slow_def Let_def split: option.splits if_splits)
  note listed = statsz_cache.listed_after_sweep[OF e assms(1), of i, folded sys_step_cache, folded assms(2)]
  show ?thesis
  proof (cases "map_of (y_statsz sc) i")
    case None
    then have "\<nexists>h p. last_heard statsz_id i evs = Some (h, p) \<and> now - defaultStatszTTL \<le> h" using listed by simp
    then have "(case last_heard statsz_id i evs of
        Some (h, Some m) \<Rightarrow>
          if now - defaultStatszTTL \<le> h
          then Some (carry_varz (Some c) i (statszToVarz \<lparr>ye_server = ym_Server m, ye_stats = ym_Stats m, ye_when = h\<rparr>))
          else None
      | _ \<Rightarrow> None) = None"
      by (auto split: option.splits)
    with None snap show ?thesis by (simp add: map_of_map_entries)
  next
    case (Some en)
    then obtain p where p: "last_heard statsz_id i (evs @ [Sweep now]) = Some (ye_when en, p)"
        "(ye_server en, ye_stats en) = (ym_Server (the p), ym_Stats (the p))"
      using statsz_cache.listed_is_last[OF e, folded sys_step_cache, of "evs @ [Sweep now]" i en, folded sc] by blast
    then have l: "last_heard statsz_id i evs = Some (ye_when en, p)" by (simp add: last_heard_snoc heard_def)
    then obtain m where m: "p = Some m" using last_heard_statsz_Some by blast
    have "now - defaultStatszTTL \<le> ye_when en" using listed Some l by auto
    moreover have "statszToVarz en = statszToVarz \<lparr>ye_server = ym_Server m, ye_stats = ym_Stats m, ye_when = ye_when en\<rparr>"
      using p(2) m by (intro statszToVarz_cong) auto
    ultimately show ?thesis using Some snap l m by (simp add: map_of_map_entries)
  qed
qed

definition statsz_example :: sys_stats_msg where
  "statsz_example = \<lparr>ym_Server = \<lparr>yi_ID = ''A'', yi_Name = ''n1'', yi_Host = [], yi_Cluster = [], yi_Version = [], yi_Time = 90 * second\<rparr>,
     ym_Stats = \<lparr>ys_Start = 0, ys_Mem = 7, ys_Cores = 1, ys_CPU = Fin 0, ys_Connections = 3, ys_TotalConnections = 3,
       ys_NumSubs = 2, ys_Sent = \<lparr>yd_Msgs = 1, yd_Bytes = 2\<rparr>, ys_Received = \<lparr>yd_Msgs = 3, yd_Bytes = 4\<rparr>,
       ys_SlowConsumers = 0, ys_Routes = 0, ys_Gateways = 0, ys_JetStream = None\<rparr>\<rparr>"

definition silent_world :: ping_world where
  "silent_world = \<lparr>pg_Varz = (False, []), pg_Connz = (False, []), pg_Routez = (False, []), pg_Gatewayz = (False, []),
     pg_Leafz = (False, []), pg_Subsz = (False, []), pg_JSInfo = (False, []), pg_Accountz = (False, []), pg_Health = (False, [])\<rparr>"

lemma fast_poll_reports_live_servers_witness:
  "\<exists>snap. sys_poll 9 (\<lambda>_. silent_world) (Some empty_snapshot) False
     ((sweepStatsz defaultStatszTTL 8 (fold sys_step [Receive 5 (Some statsz_example)] newSYSCollector))\<lparr>y_conn := Some True\<rparr>) = Some snap
   \<and> map_of (Varz snap) ''A'' = Some (statszToVarz \<lparr>ye_server = ym_Server statsz_example,
        ye_stats = ym_Stats statsz_example, ye_when = 5\<rparr>)"
proof -
  let ?sc = "sweepStatsz defaultStatszTTL 8 (fold sys_step [Receive 5 (Some statsz_example)] newSYSCollector)"
  have s: "y_statsz ?sc = [(''A'', \<lparr>ye_server = ym_Server statsz_example, ye_stats = ym_Stats statsz_example, ye_when = 5\<rparr>)]"
    by (simp add: sys_step_def on_statsz_def statsz_example_def newSYSCollector_def gm_set_def sweepStatsz_def
        gm_filter_def defaultStatszTTL_def second_def)
  then obtain snap where snap: "sys_poll 9 (\<lambda>_. silent_world) (Some empty_snapshot) False (?sc\<lparr>y_conn := Some True\<rparr>) = Some snap"
    by (simp add: sys_poll_def cacheLen_def Let_def)
  have "y_statsz ?sc \<noteq> []" unfolding s by simp
  note T = fast_poll_reports_live_servers[OF _ refl this snap, of "''A''"]
  show ?thesis using T snap
    by (simp add: sweep_times_def last_heard_def heard_def statsz_id_def statsz_example_def carry_varz_def
        empty_snapshot_def defaultStatszTTL_def second_def)
qed

end
