(* ===== verification/Collector.thy ===== *)
theory Collector
  imports Subscriber SysCollector
begin

text \<open>
  The collector of one cluster, \<^verbatim>\<open>internal/collector/collector.go\<close>: the poll with its $SYS path, the
  HTTP fallback behind its grace period, the HTTP fetches, the background bridge discovery and the
  health that it reports. What the servers and bridges answer and the instants at which the clock is
  read are inputs of a step. The workers of one poll run at once in the code and write distinct keys;
  the model runs them one after another in an arbitrary order. Logging and the persistence of
  discovered bridges are left out.
\<close>

section \<open>State\<close>

type_synonym fleet = "bridge_status bridge_instance list"

text \<open>
  \<open>k_inflight\<close> is what a running discovery read before it began to probe; \<^verbatim>\<open>sysFirstFail\<close> is \<open>0\<close> when it is
  the zero time.
\<close>

record collector =
  k_env :: environment
  k_interval :: int
  k_snapshot :: snapshot
  k_prev :: "snapshot option"
  k_tick :: "64 word"
  k_mqttBridges :: fleet
  k_discovering :: bool
  k_inflight :: "(snapshot \<times> snapshot option \<times> environment) option"
  k_polls :: "64 word"
  k_partialPolls :: "64 word"
  k_discoverySkips :: "64 word"
  k_lastPollNS :: int
  k_lastSuccess :: gotime
  k_endpointFailure :: "(string, 64 word) gomap"
  k_subscriber :: "subscriber option"
  k_sys :: "sys_collector option"
  k_sysFirstFail :: gotime
  k_sysFellBack :: bool
  k_sysEverHealthy :: bool

definition newCollector :: "environment \<Rightarrow> int \<Rightarrow> collector" where
  "newCollector env interval = \<lparr>k_env = env, k_interval = interval, k_snapshot = empty_snapshot, k_prev = None,
     k_tick = 0, k_mqttBridges = [], k_discovering = False, k_inflight = None, k_polls = 0, k_partialPolls = 0,
     k_discoverySkips = 0, k_lastPollNS = 0, k_lastSuccess = 0, k_endpointFailure = [], k_subscriber = None,
     k_sys = None, k_sysFirstFail = 0, k_sysFellBack = False, k_sysEverHealthy = False\<rparr>"

definition sysFallbackGrace :: int where
  "sysFallbackGrace = 60 * second"

text \<open>The instants a poll reads, in the order in which it reads them.\<close>

record poll_clock =
  ck_started :: gotime
  ck_sys :: gotime
  ck_fail :: gotime
  ck_since :: gotime
  ck_http :: gotime
  ck_done :: gotime

section \<open>Discovery in the background\<close>

definition shouldConnzScan :: "collector \<Rightarrow> bool" where
  "shouldConnzScan k \<longleftrightarrow> MQTTDiscoveryEnabled (k_env k)
    \<and> \<not> (case k_subscriber k of None \<Rightarrow> False | Some s \<Rightarrow> 0 < BridgeCount s)"

definition maybeDiscoverBridges :: "collector \<Rightarrow> collector" where
  "maybeDiscoverBridges k =
    (if shouldConnzScan k \<and> \<not> k_discovering k then k\<lparr>k_discovering := True\<rparr>
     else if shouldConnzScan k then k\<lparr>k_discoverySkips := k_discoverySkips k + 1\<rparr> else k)"

text \<open>
  The goroutine in two steps, with other steps of the collector between them: it reads the snapshots and
  the environment, then probes and stores. A request is the host, the URL and the token sent.
\<close>

definition begin_discovery :: "collector \<Rightarrow> collector" where
  "begin_discovery k = (if k_discovering k \<and> k_inflight k = None
     then k\<lparr>k_inflight := Some (k_snapshot k, k_prev k, k_env k)\<rparr> else k)"

definition finish_discovery :: "(string \<Rightarrow> string \<Rightarrow> bridge_status option) \<Rightarrow> (bridge_key \<Rightarrow> bool) \<Rightarrow> collector
    \<Rightarrow> collector \<times> (string \<times> string \<times> string) list" where
  "finish_discovery probe cancelled k = (case k_inflight k of
      None \<Rightarrow> (k, [])
    | Some (snap, prev, env) \<Rightarrow>
        let (bridges, requests) = DiscoverMQTTBridges probe cancelled (Some snap) prev (MQTTDiscoveryPorts env)
              (ResolveBridgeToken env []) (DiscoveryTrustedHosts env)
        in (k\<lparr>k_mqttBridges := bridges, k_discovering := False, k_inflight := None\<rparr>, requests))"

text \<open>A panic in the goroutine is contained and clears the flag.\<close>

definition discovery_panics :: "collector \<Rightarrow> collector" where
  "discovery_panics k = k\<lparr>k_discovering := False, k_inflight := None\<rparr>"

section \<open>One server over HTTP\<close>

text \<open>What the monitoring endpoints of one server answer; \<open>None\<close> is an error.\<close>

record server_replies =
  rf_varz :: "varz option"
  rf_routez :: "routez option"
  rf_gatewayz :: "gatewayz option"
  rf_leafz :: "leafz option"
  rf_healthz :: "health_status option"
  rf_connz :: "connz option"
  rf_subsz :: "subsz option"
  rf_jsz :: "js_info option"
  rf_accountz :: "accountz option"

record http_work =
  hw_snap :: snapshot
  hw_urls :: "(string, string) gomap"
  hw_failures :: "(string, 64 word) gomap"

definition recordEndpointFailure :: "string \<Rightarrow> (string, 64 word) gomap \<Rightarrow> (string, 64 word) gomap" where
  "recordEndpointFailure endpoint m =
    gm_set endpoint ((case map_of m endpoint of None \<Rightarrow> 0 | Some n \<Rightarrow> n) + 1) m"

definition logFetchErr :: "string \<Rightarrow> bool \<Rightarrow> (string, 64 word) gomap \<Rightarrow> (string, 64 word) gomap" where
  "logFetchErr endpoint failed m = (if failed then recordEndpointFailure endpoint m else m)"

definition keep_reply :: "string \<Rightarrow> 'd option \<Rightarrow> (string, 'd) gomap \<Rightarrow> (string, 'd) gomap" where
  "keep_reply i reply m = (case reply of None \<Rightarrow> m | Some d \<Rightarrow> gm_set i d m)"

definition fetchServer :: "(string \<Rightarrow> server_replies) \<Rightarrow> bool \<Rightarrow> string \<Rightarrow> http_work \<Rightarrow> http_work" where
  "fetchServer fetch slow url w =
    (let r = fetch url in case rf_varz r of
      None \<Rightarrow> w\<lparr>hw_failures := recordEndpointFailure ''varz'' (hw_failures w)\<rparr>
    | Some v \<Rightarrow>
        let i = v_ServerID v;
            urls = (case url_Parse url of None \<Rightarrow> hw_urls w | Some u \<Rightarrow> gm_set i (Hostname u) (hw_urls w));
            fails = logFetchErr ''connz'' (rf_connz r = None) (logFetchErr ''healthz'' (rf_healthz r = None)
              (logFetchErr ''leafz'' (rf_leafz r = None) (logFetchErr ''gatewayz'' (rf_gatewayz r = None)
              (logFetchErr ''routez'' (rf_routez r = None) (hw_failures w)))));
            s = hw_snap w;
            s = s\<lparr>Varz := gm_set i v (Varz s), Routez := keep_reply i (rf_routez r) (Routez s),
                  Gatewayz := keep_reply i (rf_gatewayz r) (Gatewayz s), Leafz := keep_reply i (rf_leafz r) (Leafz s),
                  Health := keep_reply i (rf_healthz r) (Health s), Connz := keep_reply i (rf_connz r) (Connz s)\<rparr>
        in if \<not> slow then w\<lparr>hw_snap := s, hw_urls := urls, hw_failures := fails\<rparr>
           else w\<lparr>hw_snap := s\<lparr>Subsz := keep_reply i (rf_subsz r) (Subsz s), JSInfo := keep_reply i (rf_jsz r) (JSInfo s),
                    Accountz := keep_reply i (rf_accountz r) (Accountz s)\<rparr>,
                  hw_urls := urls,
                  hw_failures := logFetchErr ''accountz'' (rf_accountz r = None)
                    (logFetchErr ''subsz'' (rf_subsz r = None) fails)\<rparr>)"

definition poll_http :: "poll_clock \<Rightarrow> (string \<Rightarrow> server_replies) \<Rightarrow> (string list \<Rightarrow> string list) \<Rightarrow> bool \<Rightarrow> collector
    \<Rightarrow> collector" where
  "poll_http ck fetch order slow k =
    (let servers = e_Servers (k_env k);
         w = fold (fetchServer fetch slow) (order servers)
               \<lparr>hw_snap = empty_snapshot\<lparr>Timestamp := ck_http ck\<rparr>, hw_urls = [], hw_failures = k_endpointFailure k\<rparr>;
         snap = (hw_snap w)\<lparr>ServerURLs := hw_urls w\<rparr>;
         old = k_snapshot k;
         snap = snap\<lparr>Rates := computeRates (Some old) snap\<rparr>;
         snap = (if slow then snap else snap\<lparr>Subsz := Subsz old, JSInfo := JSInfo old, Accountz := Accountz old,
                   ServerURLs := ServerURLs old\<rparr>)
     in maybeDiscoverBridges (k\<lparr>
          k_endpointFailure := hw_failures w,
          k_lastSuccess := (if Varz snap \<noteq> [] then ck_http ck else k_lastSuccess k),
          k_partialPolls := k_partialPolls k + (if length (Varz snap) < length servers then 1 else 0),
          k_prev := Some old, k_snapshot := snap\<rparr>))"

section \<open>The poll\<close>

definition pollSYS :: "poll_clock \<Rightarrow> (bool \<Rightarrow> ping_world) \<Rightarrow> bool \<Rightarrow> sys_collector \<Rightarrow> collector \<Rightarrow> collector option" where
  "pollSYS ck w slow sc k = (case sys_poll (ck_sys ck) w (Some (k_snapshot k)) slow sc of
      None \<Rightarrow> None
    | Some snap \<Rightarrow>
        if Varz snap = [] then None
        else Some (k\<lparr>k_prev := Some (k_snapshot k),
                     k_snapshot := snap\<lparr>Rates := computeRates (Some (k_snapshot k)) snap\<rparr>,
                     k_lastSuccess := ck_sys ck\<rparr>))"

definition try_sys :: "sys_collector \<Rightarrow> collector \<Rightarrow> bool" where
  "try_sys sc k \<longleftrightarrow> \<not> k_sysFellBack k \<or> 0 < cacheLen sc"

definition poll_body :: "poll_clock \<Rightarrow> (bool \<Rightarrow> ping_world) \<Rightarrow> (string \<Rightarrow> server_replies) \<Rightarrow> (string list \<Rightarrow> string list)
    \<Rightarrow> bool \<Rightarrow> collector \<Rightarrow> collector" where
  "poll_body ck w fetch order slow k = (case k_sys k of
      None \<Rightarrow> poll_http ck fetch order slow k
    | Some sc \<Rightarrow> (case if try_sys sc k then pollSYS ck w slow sc k else None of
        Some k1 \<Rightarrow>
          let k2 = (if k_sysFellBack k1 then k1\<lparr>k_sysFellBack := False, k_mqttBridges := []\<rparr> else k1)
          in maybeDiscoverBridges (k2\<lparr>k_sysEverHealthy := True, k_sysFirstFail := 0\<rparr>)
      | None \<Rightarrow>
          let k1 = (if try_sys sc k \<and> k_sysFirstFail k = 0 then k\<lparr>k_sysFirstFail := ck_fail ck\<rparr> else k)
          in if k_sysEverHealthy k1 \<and> \<not> k_sysFellBack k1 \<and> ck_since ck - k_sysFirstFail k1 < sysFallbackGrace
             then maybeDiscoverBridges k1
             else poll_http ck fetch order slow (k1\<lparr>k_sysFellBack := True\<rparr>)))"

definition poll :: "poll_clock \<Rightarrow> (bool \<Rightarrow> ping_world) \<Rightarrow> (string \<Rightarrow> server_replies) \<Rightarrow> (string list \<Rightarrow> string list)
    \<Rightarrow> bool \<Rightarrow> collector \<Rightarrow> collector" where
  "poll ck w fetch order slow k = (let k1 = poll_body ck w fetch order slow k
     in k1\<lparr>k_polls := k_polls k1 + 1, k_lastPollNS := ck_done ck - ck_started ck\<rparr>)"

text \<open>The loop of \<^verbatim>\<open>run\<close>: the first poll is slow, then every third.\<close>

definition tick_poll :: "poll_clock \<Rightarrow> (bool \<Rightarrow> ping_world) \<Rightarrow> (string \<Rightarrow> server_replies) \<Rightarrow> (string list \<Rightarrow> string list)
    \<Rightarrow> collector \<Rightarrow> collector" where
  "tick_poll ck w fetch order k = (let k1 = k\<lparr>k_tick := k_tick k + 1\<rparr>
     in poll ck w fetch order (k_tick k1 mod 3 = 0) k1)"

definition setEnv :: "environment \<Rightarrow> collector \<Rightarrow> collector" where
  "setEnv env k = k\<lparr>k_env := env\<rparr>"

section \<open>Everything that happens to a collector\<close>

datatype collector_event =
    FirstPoll poll_clock "bool \<Rightarrow> ping_world" "string \<Rightarrow> server_replies" "string list \<Rightarrow> string list"
  | TickPoll poll_clock "bool \<Rightarrow> ping_world" "string \<Rightarrow> server_replies" "string list \<Rightarrow> string list"
  | BridgeEvent "bridge_msg option cache_event"
  | SysEvent "sys_stats_msg option cache_event"
  | LinkChange "bool option" "bool option"
  | DiscoveryBegins
  | DiscoveryEnds "string \<Rightarrow> string \<Rightarrow> bridge_status option" "bridge_key \<Rightarrow> bool"
  | DiscoveryPanics
  | EnvChange environment

definition collector_step :: "collector_event \<Rightarrow> collector \<Rightarrow> collector" where
  "collector_step ev k = (case ev of
      FirstPoll ck w fetch order \<Rightarrow> poll ck w fetch order True k
    | TickPoll ck w fetch order \<Rightarrow> tick_poll ck w fetch order k
    | BridgeEvent e \<Rightarrow> k\<lparr>k_subscriber := map_option (mq_step e) (k_subscriber k)\<rparr>
    | SysEvent e \<Rightarrow> k\<lparr>k_sys := map_option (sys_step e) (k_sys k)\<rparr>
    | LinkChange mq y \<Rightarrow> k\<lparr>k_subscriber := map_option (mq_conn_update (\<lambda>_. mq)) (k_subscriber k),
                          k_sys := map_option (y_conn_update (\<lambda>_. y)) (k_sys k)\<rparr>
    | DiscoveryBegins \<Rightarrow> begin_discovery k
    | DiscoveryEnds probe cancelled \<Rightarrow> fst (finish_discovery probe cancelled k)
    | DiscoveryPanics \<Rightarrow> discovery_panics k
    | EnvChange env \<Rightarrow> setEnv env k)"

section \<open>Health and the fleet\<close>

record cluster_health =
  ch_Name :: string
  ch_LastPollAgeSeconds :: f64
  ch_Servers :: int
  ch_HealthyServers :: int
  ch_CollectionMode :: string
  ch_SysFallbackEngaged :: bool
  ch_NATSPushConfigured :: bool
  ch_NATSPushConnected :: bool
  ch_Stale :: bool

definition Degraded :: "cluster_health \<Rightarrow> bool" where
  "Degraded h \<longleftrightarrow> ch_Stale h \<or> ch_SysFallbackEngaged h \<or> (ch_NATSPushConfigured h \<and> \<not> ch_NATSPushConnected h)"

text \<open>\<open>format_age\<close> is the formatting of the age without decimals.\<close>

definition DegradedReason :: "(f64 \<Rightarrow> string) \<Rightarrow> cluster_health \<Rightarrow> string" where
  "DegradedReason format_age h =
    (if ch_Stale h then ''Data stale '' @ map char_of [226 :: nat, 128, 148] @ '' last poll '' @ format_age (ch_LastPollAgeSeconds h) @ ''s ago''
     else if ch_SysFallbackEngaged h then ''Using HTTP fallback ($SYS unavailable)''
     else if ch_NATSPushConfigured h \<and> \<not> ch_NATSPushConnected h then ''NATS push metrics connection is down''
     else [])"

definition collector_Health :: "gotime \<Rightarrow> collector \<Rightarrow> cluster_health" where
  "collector_Health now k =
    (let snap = k_snapshot k;
         age = now - Timestamp snap;
         interval = (if k_interval k \<le> 0 then 30 * second else k_interval k);
         fell = k_sysFellBack k
     in \<lparr>ch_Name = e_Name (k_env k),
         ch_LastPollAgeSeconds = (if Timestamp snap = 0 then Fin 0 else Seconds age),
         ch_Servers = int (length (Varz snap)),
         ch_HealthyServers = int (length (filter (\<lambda>(i, v). is_healthy snap i) (Varz snap))),
         ch_CollectionMode = (if k_sys k \<noteq> None \<and> \<not> fell then ''sys''
                              else if k_sys k \<noteq> None \<and> fell then ''sys-fallback'' else ''http''),
         ch_SysFallbackEngaged = fell,
         ch_NATSPushConfigured = (k_sys k \<noteq> None \<or> k_subscriber k \<noteq> None),
         ch_NATSPushConnected = ((case k_sys k of None \<Rightarrow> False | Some y \<Rightarrow> sys_Connected y)
                                 \<or> (case k_subscriber k of None \<Rightarrow> False | Some s \<Rightarrow> mq_Connected s)),
         ch_Stale = (Timestamp snap \<noteq> 0 \<and> wrap64 (3 * interval) < age)\<rparr>)"

definition MQTTBridges :: "collector \<Rightarrow> fleet" where
  "MQTTBridges k = (case k_subscriber k of
      Some s \<Rightarrow> if Bridges s \<noteq> [] then Bridges s else k_mqttBridges k
    | None \<Rightarrow> k_mqttBridges k)"

record operational_stats =
  op_Polls :: "64 word"
  op_PartialPolls :: "64 word"
  op_DiscoverySkips :: "64 word"
  op_Discovering :: bool
  op_LastPollNanos :: int
  op_LastSuccess :: gotime
  op_SnapshotAgeNanos :: int
  op_EndpointFailures :: "(string, 64 word) gomap"

definition operationalStats :: "gotime \<Rightarrow> collector \<Rightarrow> operational_stats" where
  "operationalStats now k = \<lparr>op_Polls = k_polls k, op_PartialPolls = k_partialPolls k,
     op_DiscoverySkips = k_discoverySkips k, op_Discovering = k_discovering k, op_LastPollNanos = k_lastPollNS k,
     op_LastSuccess = k_lastSuccess k,
     op_SnapshotAgeNanos = (if Timestamp (k_snapshot k) = 0 then 0 else now - Timestamp (k_snapshot k)),
     op_EndpointFailures = k_endpointFailure k\<rparr>"

end
