(* ===== verification/CollectorProps.thy ===== *)
theory CollectorProps
  imports Collector
begin

text \<open>
  What the collector guarantees: when it leaves $SYS for HTTP and when it returns, what an HTTP poll
  stores, and whom a discovery sends the admin token.
\<close>

section \<open>The fallback refines a rule about silence\<close>

text \<open>
  A poll of a collector with $SYS is either answered or silent; a silent one has the instant at which the
  silence is noted and the one at which it is measured.
\<close>

datatype sys_outcome = SysData | SysSilent gotime gotime

definition poll_outcome :: "poll_clock \<Rightarrow> (bool \<Rightarrow> ping_world) \<Rightarrow> bool \<Rightarrow> collector \<Rightarrow> sys_outcome option" where
  "poll_outcome ck w slow k = (case k_sys k of
      None \<Rightarrow> None
    | Some sc \<Rightarrow> Some (if try_sys sc k \<and> pollSYS ck w slow sc k \<noteq> None then SysData
                      else SysSilent (ck_fail ck) (ck_since ck)))"

definition outcome :: "collector_event \<Rightarrow> collector \<Rightarrow> sys_outcome option" where
  "outcome ev k = (case ev of
      FirstPoll ck w fetch order \<Rightarrow> poll_outcome ck w True k
    | TickPoll ck w fetch order \<Rightarrow> poll_outcome ck w ((k_tick k + 1) mod 3 = 0) (k\<lparr>k_tick := k_tick k + 1\<rparr>)
    | _ \<Rightarrow> None)"

fun outcomes :: "collector_event list \<Rightarrow> collector \<Rightarrow> sys_outcome list" where
  "outcomes [] k = []"
| "outcomes (ev # evs) k = (case outcome ev k of None \<Rightarrow> [] | Some x \<Rightarrow> [x]) @ outcomes evs (collector_step ev k)"

text \<open>The rule: silent since the last answer, and either never answered or silent for the grace period.\<close>

definition silence :: "sys_outcome list \<Rightarrow> sys_outcome list" where
  "silence h = rev (takeWhile (\<lambda>x. x \<noteq> SysData) (rev h))"

definition silent_since :: "sys_outcome list \<Rightarrow> gotime" where
  "silent_since h = (case silence h of SysSilent t c # _ \<Rightarrow> t | _ \<Rightarrow> 0)"

definition grace_over :: "gotime \<Rightarrow> sys_outcome \<Rightarrow> bool" where
  "grace_over since x \<longleftrightarrow> (case x of SysSilent t c \<Rightarrow> sysFallbackGrace \<le> c - since | SysData \<Rightarrow> False)"

definition should_fall_back :: "sys_outcome list \<Rightarrow> bool" where
  "should_fall_back h \<longleftrightarrow> silence h \<noteq> []
    \<and> (SysData \<notin> set h \<or> list_ex (grace_over (silent_since h)) (silence h))"

lemma silence_data [simp]: "silence (h @ [SysData]) = []"
  by (simp add: silence_def)

lemma silence_silent [simp]: "silence (h @ [SysSilent t c]) = silence h @ [SysSilent t c]"
  by (simp add: silence_def)

lemma silent_since_snoc: "silent_since (h @ [SysSilent t c]) = (if silence h = [] then t else silent_since h)"
  by (cases "silence h") (auto simp: silent_since_def)

lemma silence_no_data: "SysData \<notin> set (silence h)"
  by (auto simp: silence_def dest!: set_takeWhileD)

text \<open>The state of the collector after a history of answers.\<close>

definition follows :: "sys_outcome list \<Rightarrow> collector \<Rightarrow> bool" where
  "follows h k \<longleftrightarrow> (k_sysEverHealthy k \<longleftrightarrow> SysData \<in> set h) \<and> (k_sysFellBack k \<longleftrightarrow> should_fall_back h)
    \<and> k_sysFirstFail k = silent_since h"

lemma maybeDiscover_sys [simp]:
  "k_sysEverHealthy (maybeDiscoverBridges k) = k_sysEverHealthy k" "k_sysFellBack (maybeDiscoverBridges k) = k_sysFellBack k"
  "k_sysFirstFail (maybeDiscoverBridges k) = k_sysFirstFail k" "k_sys (maybeDiscoverBridges k) = k_sys k"
  "k_snapshot (maybeDiscoverBridges k) = k_snapshot k" "k_prev (maybeDiscoverBridges k) = k_prev k"
  "k_env (maybeDiscoverBridges k) = k_env k" "k_partialPolls (maybeDiscoverBridges k) = k_partialPolls k"
  by (simp_all add: maybeDiscoverBridges_def)

lemma poll_http_sys [simp]:
  "k_sysEverHealthy (poll_http ck fetch order slow k) = k_sysEverHealthy k"
  "k_sysFellBack (poll_http ck fetch order slow k) = k_sysFellBack k"
  "k_sysFirstFail (poll_http ck fetch order slow k) = k_sysFirstFail k" "k_sys (poll_http ck fetch order slow k) = k_sys k"
  by (simp_all add: poll_http_def Let_def)

lemma pollSYS_sys:
  assumes "pollSYS ck w slow sc k = Some k1"
  shows "k_sysEverHealthy k1 = k_sysEverHealthy k" "k_sysFellBack k1 = k_sysFellBack k" "k_sys k1 = k_sys k"
  using assms by (auto simp: pollSYS_def split: option.splits if_splits)

definition nonzero :: "sys_outcome \<Rightarrow> bool" where
  "nonzero x \<longleftrightarrow> (case x of SysSilent t c \<Rightarrow> t \<noteq> 0 | SysData \<Rightarrow> True)"

lemma silence_nonempty_first: "list_all nonzero h
    \<Longrightarrow> silent_since h = 0 \<longleftrightarrow> silence h = []"
proof -
  assume "list_all nonzero h"
  moreover have "set (silence h) \<subseteq> set h" by (auto simp: silence_def dest!: set_takeWhileD)
  moreover note silence_no_data[of h]
  ultimately show ?thesis
    by (cases "silence h") (auto simp: silent_since_def nonzero_def list_all_iff split: sys_outcome.splits)
qed

lemma poll_follows:
  assumes f: "follows h k" and ne: "list_all nonzero h"
    and o: "poll_outcome ck w slow k = Some x"
  shows "follows (h @ [x]) (poll ck w fetch order slow k)"
proof -
  obtain sc where sc: "k_sys k = Some sc" using o by (auto simp: poll_outcome_def split: option.splits)
  show ?thesis
  proof (cases "if try_sys sc k then pollSYS ck w slow sc k else None")
    case (Some k1)
    then have t: "try_sys sc k" "pollSYS ck w slow sc k = Some k1" by (auto split: if_splits)
    then have "x = SysData" using o sc by (simp add: poll_outcome_def)
    then show ?thesis using sc t
      by (simp add: follows_def poll_def poll_body_def Let_def should_fall_back_def silent_since_def)
  next
    case None
    then have x: "x = SysSilent (ck_fail ck) (ck_since ck)" using o sc by (auto simp: poll_outcome_def split: if_splits)
    let ?k1 = "if try_sys sc k \<and> k_sysFirstFail k = 0 then k\<lparr>k_sysFirstFail := ck_fail ck\<rparr> else k"
    have since: "k_sysFirstFail ?k1 = silent_since (h @ [x])"
      using f silence_nonempty_first[OF ne]
      by (auto simp: follows_def x silent_since_snoc try_sys_def should_fall_back_def)
    have fields: "k_sysEverHealthy ?k1 = k_sysEverHealthy k" "k_sysFellBack ?k1 = k_sysFellBack k" by simp_all
    have "silence h \<noteq> [] \<Longrightarrow> silent_since (h @ [x]) = silent_since h" by (simp add: x silent_since_snoc)
    then have fall: "should_fall_back (h @ [x]) \<longleftrightarrow> should_fall_back h \<or> SysData \<notin> set h
        \<or> sysFallbackGrace \<le> ck_since ck - silent_since (h @ [x])"
      by (cases "silence h = []") (auto simp: should_fall_back_def x grace_over_def)
    have body: "poll_body ck w fetch order slow k = (if k_sysEverHealthy ?k1 \<and> \<not> k_sysFellBack ?k1
          \<and> ck_since ck - k_sysFirstFail ?k1 < sysFallbackGrace
        then maybeDiscoverBridges ?k1 else poll_http ck fetch order slow (?k1\<lparr>k_sysFellBack := True\<rparr>))"
      unfolding poll_body_def sc option.case None Let_def ..
    show ?thesis
      using f since fall fields unfolding follows_def poll_def Let_def body
      by (auto simp: x not_less)
  qed
qed

lemma follows_update [simp]:
  "follows h (k\<lparr>k_tick := n\<rparr>) = follows h k" "follows h (k\<lparr>k_env := e\<rparr>) = follows h k"
  "follows h (k\<lparr>k_subscriber := a\<rparr>) = follows h k" "follows h (k\<lparr>k_sys := b\<rparr>) = follows h k"
  "follows h (k\<lparr>k_inflight := i\<rparr>) = follows h k" "follows h (k\<lparr>k_discovering := d\<rparr>) = follows h k"
  "follows h (k\<lparr>k_mqttBridges := m\<rparr>) = follows h k"
  by (simp_all add: follows_def)

text \<open>The instants of a poll are never the zero time.\<close>

definition good_clock :: "collector_event \<Rightarrow> bool" where
  "good_clock ev \<longleftrightarrow> (case ev of FirstPoll ck w fetch order \<Rightarrow> ck_fail ck \<noteq> 0
     | TickPoll ck w fetch order \<Rightarrow> ck_fail ck \<noteq> 0 | _ \<Rightarrow> True)"

lemma step_follows:
  assumes "follows h k" "list_all nonzero h" "good_clock ev"
  shows "follows (h @ (case outcome ev k of None \<Rightarrow> [] | Some x \<Rightarrow> [x])) (collector_step ev k)
    \<or> k_sys k = None"
proof (cases "k_sys k = None")
  case False
  then obtain sc where sc: "k_sys k = Some sc" by auto
  show ?thesis
  proof (cases ev)
    case (FirstPoll ck w fetch order)
    obtain x where x: "poll_outcome ck w True k = Some x" using sc by (simp add: poll_outcome_def)
    then show ?thesis using poll_follows[OF assms(1,2) x] by (simp add: outcome_def FirstPoll collector_step_def)
  next
    case (TickPoll ck w fetch order)
    let ?k = "k\<lparr>k_tick := k_tick k + 1\<rparr>"
    obtain x where x: "poll_outcome ck w ((k_tick k + 1) mod 3 = 0) ?k = Some x" using sc by (simp add: poll_outcome_def)
    have "follows h ?k" using assms(1) by simp
    from poll_follows[OF this assms(2) x] show ?thesis
      using x by (simp add: outcome_def TickPoll collector_step_def tick_poll_def)
  qed (use assms(1) in \<open>simp_all add: outcome_def collector_step_def begin_discovery_def finish_discovery_def
      discovery_panics_def setEnv_def Let_def split: option.split prod.split\<close>)
qed simp

lemma outcome_nonzero: "good_clock ev \<Longrightarrow> outcome ev k = Some x \<Longrightarrow> nonzero x"
  by (auto simp: outcome_def poll_outcome_def good_clock_def nonzero_def split: collector_event.splits option.splits if_splits)

lemma poll_body_sys [simp]: "k_sys (poll_body ck w fetch order slow k) = k_sys k"
proof (cases "k_sys k")
  case (Some sc)
  show ?thesis
  proof (cases "if try_sys sc k then pollSYS ck w slow sc k else None")
    case None
    then show ?thesis unfolding poll_body_def Some option.case None by (simp add: Let_def Some)
  next
    case (Some k1)
    then have "pollSYS ck w slow sc k = Some k1" by (auto split: if_splits)
    from pollSYS_sys(3)[OF this] show ?thesis
      unfolding poll_body_def \<open>k_sys k = Some sc\<close> option.case Some by (simp add: Let_def \<open>k_sys k = Some sc\<close>)
  qed
qed (simp add: poll_body_def)

lemma step_sys: "k_sys (collector_step ev k) = None \<longleftrightarrow> k_sys k = None"
  by (cases ev) (auto simp: collector_step_def poll_def tick_poll_def Let_def begin_discovery_def finish_discovery_def
      discovery_panics_def setEnv_def split: option.split prod.split)

lemma run_follows:
  "follows h k \<Longrightarrow> list_all nonzero h \<Longrightarrow> list_all good_clock evs \<Longrightarrow> k_sys k \<noteq> None
    \<Longrightarrow> follows (h @ outcomes evs k) (fold collector_step evs k)"
proof (induction evs arbitrary: h k)
  case (Cons ev evs)
  let ?h = "h @ (case outcome ev k of None \<Rightarrow> [] | Some x \<Rightarrow> [x])"
  have "follows ?h (collector_step ev k)" using step_follows[of h k ev] Cons.prems by auto
  moreover have "list_all nonzero ?h" using Cons.prems outcome_nonzero by (auto split: option.split)
  ultimately show ?case using Cons.IH[of ?h "collector_step ev k"] Cons.prems by (simp add: step_sys)
qed simp

text \<open>
  C8. Whatever polls, messages, link changes and discoveries happen, a collector with $SYS is on the HTTP
  fallback exactly when $SYS has been silent since its last answer and either never answered at all or
  has been found silent for the whole grace period of 60 seconds; an answer ends the fallback at once.
\<close>

theorem fallback_follows_silence:
  assumes "list_all good_clock evs"
  shows "k_sysFellBack (fold collector_step evs (newCollector env interval\<lparr>k_subscriber := mq, k_sys := Some sc\<rparr>))
    \<longleftrightarrow> should_fall_back (outcomes evs (newCollector env interval\<lparr>k_subscriber := mq, k_sys := Some sc\<rparr>))"
proof -
  let ?k = "newCollector env interval\<lparr>k_subscriber := mq, k_sys := Some sc\<rparr>"
  have "follows [] ?k" by (simp add: follows_def newCollector_def should_fall_back_def silence_def silent_since_def)
  from run_follows[OF this _ assms] show ?thesis by (simp add: follows_def)
qed

definition example_clock :: "gotime \<Rightarrow> poll_clock" where
  "example_clock t = \<lparr>ck_started = t, ck_sys = t, ck_fail = t, ck_since = t, ck_http = t, ck_done = t\<rparr>"

definition example_replies :: "string \<Rightarrow> server_replies" where
  "example_replies url = \<lparr>rf_varz = Some (zero_varz\<lparr>v_ServerID := url\<rparr>), rf_routez = None, rf_gatewayz = None,
     rf_leafz = None, rf_healthz = Some \<lparr>hs_Status = ''ok'', hs_Error = []\<rparr>,
     rf_connz = None, rf_subsz = None, rf_jsz = None, rf_accountz = None\<rparr>"

lemma fallback_follows_silence_witness:
  "k_sysFellBack (fold collector_step [FirstPoll (example_clock 5) (\<lambda>_. silent_world) example_replies rev]
     (newCollector example_environment (30 * second)\<lparr>k_subscriber := None, k_sys := Some newSYSCollector\<rparr>))"
  by (subst fallback_follows_silence)
    (simp_all add: good_clock_def example_clock_def outcome_def poll_outcome_def newSYSCollector_def pollSYS_def
      sys_poll_def should_fall_back_def silence_def)

section \<open>What an HTTP poll stores\<close>

text \<open>One endpoint of one server, if the server answered at all.\<close>

definition collect :: "(string \<Rightarrow> server_replies) \<Rightarrow> (server_replies \<Rightarrow> 'd option) \<Rightarrow> string
    \<Rightarrow> (string, 'd) gomap \<Rightarrow> (string, 'd) gomap" where
  "collect fetch sel url m = (case rf_varz (fetch url) of None \<Rightarrow> m | Some v \<Rightarrow> keep_reply (v_ServerID v) (sel (fetch url)) m)"

definition answers :: "(string \<Rightarrow> server_replies) \<Rightarrow> (server_replies \<Rightarrow> 'd option) \<Rightarrow> string list \<Rightarrow> string \<Rightarrow> 'd \<Rightarrow> bool" where
  "answers fetch sel urls i d \<longleftrightarrow>
    list_ex (\<lambda>u. map_option v_ServerID (rf_varz (fetch u)) = Some i \<and> sel (fetch u) = Some d) urls"

definition distinct_ids :: "(string \<Rightarrow> server_replies) \<Rightarrow> string list \<Rightarrow> bool" where
  "distinct_ids fetch urls \<longleftrightarrow> (\<forall>u\<in>set urls. \<forall>u'\<in>set urls. \<forall>v v'. rf_varz (fetch u) = Some v \<longrightarrow> rf_varz (fetch u') = Some v'
     \<longrightarrow> v_ServerID v = v_ServerID v' \<longrightarrow> u = u')"

definition stores :: "(string \<Rightarrow> server_replies) \<Rightarrow> (server_replies \<Rightarrow> 'd option) \<Rightarrow> string list \<Rightarrow> (string, 'd) gomap \<Rightarrow> bool"
where
  "stores fetch sel urls m \<longleftrightarrow> (\<forall>i d. map_of m i = Some d \<longleftrightarrow> answers fetch sel urls i d)"

lemma keep_reply_get: "map_of (keep_reply i r m) j = (if j = i \<and> r \<noteq> None then r else map_of m j)"
  by (auto simp: keep_reply_def split: option.splits)

lemma collect_get:
  assumes "distinct_ids fetch (u # urls)"
  shows "map_of (fold (collect fetch sel) urls m) i = Some d \<longleftrightarrow>
    answers fetch sel urls i d \<or> (map_of m i = Some d \<and> (\<forall>d'. \<not> answers fetch sel urls i d'))"
  using assms
proof (induction urls arbitrary: m u)
  case Nil
  then show ?case by (simp add: answers_def)
next
  case (Cons x urls)
  have IH: "map_of (fold (collect fetch sel) urls (collect fetch sel x m)) i = Some d \<longleftrightarrow>
      answers fetch sel urls i d \<or> (map_of (collect fetch sel x m) i = Some d \<and> (\<forall>d'. \<not> answers fetch sel urls i d'))"
    using Cons.prems by (intro Cons.IH[of x]) (auto simp: distinct_ids_def)
  show ?case
  proof (cases "\<exists>v. rf_varz (fetch x) = Some v \<and> v_ServerID v = i")
    case False
    then have "map_of (collect fetch sel x m) i = map_of m i"
      by (auto simp: collect_def keep_reply_get split: option.split)
    with IH False show ?thesis by (auto simp: answers_def)
  next
    case True
    then obtain v where v: "rf_varz (fetch x) = Some v" "v_ServerID v = i" by blast
    have same: "answers fetch sel urls i d' \<Longrightarrow> sel (fetch x) = Some d'" for d'
      using Cons.prems v by (auto simp: answers_def list_ex_iff distinct_ids_def)
    have head: "answers fetch sel (x # urls) i d' \<longleftrightarrow> sel (fetch x) = Some d' \<or> answers fetch sel urls i d'" for d'
      using v by (simp add: answers_def)
    have at: "map_of (collect fetch sel x m) i = (if sel (fetch x) \<noteq> None then sel (fetch x) else map_of m i)"
      using v by (simp add: collect_def keep_reply_get)
    show ?thesis
    proof (cases "sel (fetch x)")
      case None
      then show ?thesis using IH head at by simp
    next
      case (Some e)
      have "answers fetch sel urls i d \<longrightarrow> d = e" using same Some by auto
      then show ?thesis using IH head at Some same by auto
    qed
  qed
qed

lemma fetched_maps:
  "Varz (hw_snap (fold (fetchServer fetch slow) urls w)) = fold (collect fetch rf_varz) urls (Varz (hw_snap w))
   \<and> Routez (hw_snap (fold (fetchServer fetch slow) urls w)) = fold (collect fetch rf_routez) urls (Routez (hw_snap w))
   \<and> Leafz (hw_snap (fold (fetchServer fetch slow) urls w)) = fold (collect fetch rf_leafz) urls (Leafz (hw_snap w))
   \<and> Gatewayz (hw_snap (fold (fetchServer fetch slow) urls w)) = fold (collect fetch rf_gatewayz) urls (Gatewayz (hw_snap w))
   \<and> Health (hw_snap (fold (fetchServer fetch slow) urls w)) = fold (collect fetch rf_healthz) urls (Health (hw_snap w))
   \<and> Connz (hw_snap (fold (fetchServer fetch slow) urls w)) = fold (collect fetch rf_connz) urls (Connz (hw_snap w))
   \<and> JSInfo (hw_snap (fold (fetchServer fetch slow) urls w))
      = (if slow then fold (collect fetch rf_jsz) urls (JSInfo (hw_snap w)) else JSInfo (hw_snap w))"
proof (induction urls arbitrary: w)
  case (Cons u urls)
  have "Varz (hw_snap (fetchServer fetch slow u w)) = collect fetch rf_varz u (Varz (hw_snap w))"
    "Routez (hw_snap (fetchServer fetch slow u w)) = collect fetch rf_routez u (Routez (hw_snap w))"
    "Leafz (hw_snap (fetchServer fetch slow u w)) = collect fetch rf_leafz u (Leafz (hw_snap w))"
    "Gatewayz (hw_snap (fetchServer fetch slow u w)) = collect fetch rf_gatewayz u (Gatewayz (hw_snap w))"
    "Health (hw_snap (fetchServer fetch slow u w)) = collect fetch rf_healthz u (Health (hw_snap w))"
    "Connz (hw_snap (fetchServer fetch slow u w)) = collect fetch rf_connz u (Connz (hw_snap w))"
    "JSInfo (hw_snap (fetchServer fetch slow u w))
      = (if slow then collect fetch rf_jsz u (JSInfo (hw_snap w)) else JSInfo (hw_snap w))"
    by (simp_all add: fetchServer_def collect_def Let_def keep_reply_def split: option.split)
  then show ?case using Cons.IH[of "fetchServer fetch slow u w"] by (cases slow) simp_all
qed simp



section \<open>Whom a discovery sends the token\<close>

lemma discovery_requests_trusted:
  assumes "(host, url, token) \<in> set (snd (DiscoverMQTTBridges probe cancelled snap prev ports adminToken trusted))"
    "token \<noteq> []"
  shows "token = adminToken \<and> discoveryHostTrusted host trusted"
  using assms by (auto simp: DiscoverMQTTBridges_def Let_def split: option.splits if_splits dest!: probe_ports_requests)

text \<open>The environments a collector had in a run, and the one a running discovery has read.\<close>

definition environments_of :: "collector_event list \<Rightarrow> environment set" where
  "environments_of evs = {env. EnvChange env \<in> set evs}"

definition knows_only :: "environment set \<Rightarrow> collector \<Rightarrow> bool" where
  "knows_only E k \<longleftrightarrow> k_env k \<in> E \<and> (case k_inflight k of None \<Rightarrow> True | Some (s, p, env) \<Rightarrow> env \<in> E)"

text \<open>What a poll never touches.\<close>

definition fixed_part :: "collector \<Rightarrow> environment \<times> subscriber option \<times> (snapshot \<times> snapshot option \<times> environment) option" where
  "fixed_part k = (k_env k, k_subscriber k, k_inflight k)"

lemma poll_fixed: "fixed_part (poll ck w fetch order slow k) = fixed_part k"
proof -
  have m: "fixed_part (maybeDiscoverBridges j) = fixed_part j" for j
    by (simp add: maybeDiscoverBridges_def fixed_part_def)
  have h: "fixed_part (poll_http ck fetch order slow j) = fixed_part j" for j
    by (simp add: poll_http_def Let_def m) (simp add: fixed_part_def)
  have s: "fixed_part j' = fixed_part j" if "pollSYS ck w slow sc j = Some j'" for sc j j'
    using that by (auto simp: pollSYS_def fixed_part_def split: option.splits if_splits)
  have "fixed_part (poll_body ck w fetch order slow k) = fixed_part k"
  proof (cases "k_sys k")
    case None
    then show ?thesis by (simp add: poll_body_def h)
  next
    case (Some sc)
    show ?thesis
    proof (cases "if try_sys sc k then pollSYS ck w slow sc k else None")
      case None
      then show ?thesis unfolding poll_body_def Some option.case None
        by (simp add: Let_def h m) (simp add: fixed_part_def)
    next
      case (Some k1)
      then have "pollSYS ck w slow sc k = Some k1" by (auto split: if_splits)
      from s[OF this] show ?thesis
        unfolding poll_body_def \<open>k_sys k = Some sc\<close> option.case Some
        by (simp add: Let_def m) (simp add: fixed_part_def)
    qed
  qed
  then show ?thesis by (simp add: poll_def Let_def fixed_part_def)
qed

lemma poll_env_inflight:
  "k_env (poll ck w fetch order slow k) = k_env k" "k_inflight (poll ck w fetch order slow k) = k_inflight k"
  "k_subscriber (poll ck w fetch order slow k) = k_subscriber k"
  using poll_fixed[of ck w fetch order slow k] by (simp_all add: fixed_part_def)

lemma step_knows_only:
  "knows_only E k \<Longrightarrow> (\<And>env. ev = EnvChange env \<Longrightarrow> env \<in> E) \<Longrightarrow> knows_only E (collector_step ev k)"
  by (cases ev) (auto simp: knows_only_def collector_step_def tick_poll_def Let_def poll_env_inflight begin_discovery_def
      finish_discovery_def discovery_panics_def setEnv_def split: option.splits prod.splits)

lemma run_knows_only:
  assumes "k_inflight k = None"
  shows "knows_only (insert (k_env k) (environments_of evs)) (fold collector_step evs k)"
proof (rule fold_invariant_from)
  show "knows_only (insert (k_env k) (environments_of evs)) k" by (simp add: knows_only_def assms)
  show "knows_only (insert (k_env k) (environments_of evs)) (collector_step ev g)"
    if "ev \<in> set evs" "knows_only (insert (k_env k) (environments_of evs)) g" for ev g
    using that by (intro step_knows_only) (auto simp: environments_of_def)
qed

lemma finished_requests_trusted:
  assumes "knows_only E k" "(host, url, token) \<in> set (snd (finish_discovery probe cancelled k))" "token \<noteq> []"
  shows "\<exists>env\<in>E. token = e_AdminToken env \<and> discoveryHostTrusted host (DiscoveryTrustedHosts env)"
proof -
  obtain s p env where i: "k_inflight k = Some (s, p, env)" "env \<in> E"
    using assms(1,2) by (auto simp: finish_discovery_def knows_only_def split: option.splits)
  have "(host, url, token) \<in> set (snd (DiscoverMQTTBridges probe cancelled (Some s) p (MQTTDiscoveryPorts env)
      (ResolveBridgeToken env []) (DiscoveryTrustedHosts env)))"
    using assms(2) by (simp add: finish_discovery_def i split: prod.splits)
  from discovery_requests_trusted[OF this assms(3)] i(2) show ?thesis
    by (auto simp: ResolveBridgeToken_def)
qed

end
