(* ===== verification/Manager.thy ===== *)
theory Manager
  imports CollectorProps Topology
begin

text \<open>
  The set of collectors, \<^verbatim>\<open>Manager\<close> of \<^verbatim>\<open>internal/collector/collector.go\<close>: one collector per cluster ID, added,
  removed and updated while the program runs. A collector's goroutines are its entry in \<open>g_cancels\<close>,
  with the NATS connection settings they were started with. Building an HTTP client from a TLS
  setting is a parameter, because it may fail.
\<close>

section \<open>State\<close>

text \<open>A stored cluster as far as the manager looks: its ID and \<^verbatim>\<open>ToEnvironment\<close>.\<close>

record managed_cluster =
  cl_ID :: string
  cl_env :: environment

record manager =
  g_collectors :: "(string, collector) gomap"
  g_cancels :: "(string, nats_conn_config option) gomap"
  g_started :: bool
  g_interval :: int

definition natsConnHasAuth :: "nats_conn_config \<Rightarrow> bool" where
  "natsConnHasAuth n \<longleftrightarrow> nn_Username n \<noteq> [] \<or> nn_Password n \<noteq> [] \<or> nn_Token n \<noteq> [] \<or> nn_NKey n \<noteq> [] \<or> nn_CredsFile n \<noteq> []"

section \<open>Comparing settings\<close>

fun serversSame :: "string list \<Rightarrow> string list \<Rightarrow> bool" where
  "serversSame [] [] = True"
| "serversSame (a # as) (b # bs) = (a = b \<and> serversSame as bs)"
| "serversSame _ _ = False"

definition tlsSame :: "tls_config option \<Rightarrow> tls_config option \<Rightarrow> bool" where
  "tlsSame a b = (case (a, b) of
      (None, None) \<Rightarrow> True
    | (Some x, Some y) \<Rightarrow> t_CAFile x = t_CAFile y \<and> t_CAPem x = t_CAPem y \<and> t_Insecure x = t_Insecure y
    | _ \<Rightarrow> False)"

definition natsConnSame :: "nats_conn_config option \<Rightarrow> nats_conn_config option \<Rightarrow> bool" where
  "natsConnSame a b = (case (a, b) of
      (None, None) \<Rightarrow> True
    | (Some x, Some y) \<Rightarrow> serversSame (nn_URLs x) (nn_URLs y) \<and> nn_Username x = nn_Username y
        \<and> nn_Password x = nn_Password y \<and> nn_Token x = nn_Token y \<and> nn_NKey x = nn_NKey y
        \<and> nn_CredsFile x = nn_CredsFile y \<and> nn_SubjectPrefix x = nn_SubjectPrefix y
        \<and> nn_SYSCollection x = nn_SYSCollection y
    | _ \<Rightarrow> False)"

section \<open>Operations\<close>

text \<open>The push fields are set before the goroutines start.\<close>

definition startCollector :: "environment \<Rightarrow> collector \<Rightarrow> collector" where
  "startCollector env c = (case e_NATSConn env of
      None \<Rightarrow> c
    | Some n \<Rightarrow>
        let c = c\<lparr>k_subscriber := Some newMQTTSubscriber\<rparr>
        in if nn_SYSCollection n then c\<lparr>k_sys := Some newSYSCollector\<rparr> else c)"

definition launch :: "string \<Rightarrow> environment \<Rightarrow> collector \<Rightarrow> manager \<Rightarrow> manager" where
  "launch i env c g = g\<lparr>g_collectors := gm_set i (startCollector env c) (g_collectors g),
     g_cancels := gm_set i (e_NATSConn env) (g_cancels g)\<rparr>"

fun load_clusters :: "(tls_config option \<Rightarrow> bool) \<Rightarrow> int \<Rightarrow> managed_cluster list \<Rightarrow> (string, collector) gomap
    \<Rightarrow> (string, collector) gomap option" where
  "load_clusters build interval [] m = Some m"
| "load_clusters build interval (cl # cls) m =
    (if build (e_TLS (cl_env cl))
     then load_clusters build interval cls (gm_set (cl_ID cl) (newCollector (cl_env cl) interval) m) else None)"

text \<open>\<open>stored\<close> is \<^verbatim>\<open>ListClusters\<close>, \<open>None\<close> its error.\<close>

definition NewManager :: "(tls_config option \<Rightarrow> bool) \<Rightarrow> int \<Rightarrow> managed_cluster list option \<Rightarrow> manager option" where
  "NewManager build interval stored = (case stored of
      None \<Rightarrow> None
    | Some cls \<Rightarrow> map_option (\<lambda>m. \<lparr>g_collectors = m, g_cancels = [], g_started = False, g_interval = interval\<rparr>)
        (load_clusters build interval cls []))"

definition Start :: "manager \<Rightarrow> manager" where
  "Start g = fold (\<lambda>(i, c). launch i (k_env c) c) (g_collectors g) (g\<lparr>g_started := True\<rparr>)"

definition addCluster :: "(tls_config option \<Rightarrow> bool) \<Rightarrow> managed_cluster \<Rightarrow> manager \<Rightarrow> manager \<times> bool" where
  "addCluster build cl g =
    (if map_of (g_collectors g) (cl_ID cl) \<noteq> None then (g, True)
     else if \<not> build (e_TLS (cl_env cl)) then (g, False)
     else
       let c = newCollector (cl_env cl) (g_interval g);
           g = g\<lparr>g_collectors := gm_set (cl_ID cl) c (g_collectors g)\<rparr>
       in (if g_started g then launch (cl_ID cl) (cl_env cl) c g else g, True))"

definition RemoveCluster :: "string \<Rightarrow> manager \<Rightarrow> manager" where
  "RemoveCluster i g = g\<lparr>g_cancels := gm_del i (g_cancels g), g_collectors := gm_del i (g_collectors g)\<rparr>"

definition UpdateCluster :: "(tls_config option \<Rightarrow> bool) \<Rightarrow> managed_cluster \<Rightarrow> manager \<Rightarrow> manager \<times> bool" where
  "UpdateCluster build cl g = (case map_of (g_collectors g) (cl_ID cl) of
      None \<Rightarrow> addCluster build cl g
    | Some c \<Rightarrow>
        let old = k_env c; new = cl_env cl
        in if serversSame (e_Servers old) (e_Servers new) \<and> tlsSame (e_TLS old) (e_TLS new)
              \<and> natsConnSame (e_NATSConn old) (e_NATSConn new)
           then (g\<lparr>g_collectors := gm_set (cl_ID cl) (setEnv new c) (g_collectors g)\<rparr>, True)
           else addCluster build cl (RemoveCluster (cl_ID cl) g))"

section \<open>Queries\<close>

definition ClusterConfig :: "string \<Rightarrow> manager \<Rightarrow> environment option" where
  "ClusterConfig i g = map_option k_env (map_of (g_collectors g) i)"

definition ClusterIDs :: "manager \<Rightarrow> string list" where
  "ClusterIDs g = map fst (g_collectors g)"

definition ClusterHealth :: "gotime \<Rightarrow> string \<Rightarrow> manager \<Rightarrow> (string \<times> cluster_health) option" where
  "ClusterHealth now i g = map_option (\<lambda>c. (i, collector_Health now c)) (map_of (g_collectors g) i)"

definition HealthReport :: "gotime \<Rightarrow> manager \<Rightarrow> (string \<times> cluster_health) list" where
  "HealthReport now g = map (\<lambda>(i, c). (i, collector_Health now c)) (g_collectors g)"

definition manager_Snapshot :: "string \<Rightarrow> manager \<Rightarrow> snapshot option" where
  "manager_Snapshot i g = map_option k_snapshot (map_of (g_collectors g) i)"

definition manager_PrevSnapshot :: "string \<Rightarrow> manager \<Rightarrow> snapshot option" where
  "manager_PrevSnapshot i g = Option.bind (map_of (g_collectors g) i) k_prev"

definition manager_Overview :: "string \<Rightarrow> manager \<Rightarrow> overview option" where
  "manager_Overview i g = map_option buildOverview (manager_Snapshot i g)"

definition manager_Topology :: "string \<Rightarrow> manager \<Rightarrow> graph option" where
  "manager_Topology i g = map_option (\<lambda>c. buildTopology (k_snapshot c) (k_prev c)) (map_of (g_collectors g) i)"

definition manager_Health :: "string \<Rightarrow> manager \<Rightarrow> (string, health_status) gomap option" where
  "manager_Health i g = map_option Health (manager_Snapshot i g)"

definition manager_MQTTBridges :: "string \<Rightarrow> manager \<Rightarrow> fleet" where
  "manager_MQTTBridges i g = (case map_of (g_collectors g) i of None \<Rightarrow> [] | Some c \<Rightarrow> MQTTBridges c)"

definition OperationalStats :: "gotime \<Rightarrow> manager \<Rightarrow> (string, operational_stats) gomap" where
  "OperationalStats now g = map (\<lambda>(i, c). (i, operationalStats now c)) (g_collectors g)"

definition EnvServers :: "string \<Rightarrow> manager \<Rightarrow> string list option" where
  "EnvServers i g = map_option (\<lambda>c. e_Servers (k_env c)) (map_of (g_collectors g) i)"

section \<open>Every tracked cluster runs on its own settings\<close>

text \<open>
  What happens to a manager: its operations and the steps of its collectors. Only \<^verbatim>\<open>UpdateCluster\<close> changes
  the environment of a collector.
\<close>

datatype manager_op =
    StartAll
  | Add "tls_config option \<Rightarrow> bool" managed_cluster
  | Remove string
  | Update "tls_config option \<Rightarrow> bool" managed_cluster
  | Collector string collector_event

definition manager_step :: "manager_op \<Rightarrow> manager \<Rightarrow> manager" where
  "manager_step op g = (case op of
      StartAll \<Rightarrow> Start g
    | Add build cl \<Rightarrow> fst (addCluster build cl g)
    | Remove i \<Rightarrow> RemoveCluster i g
    | Update build cl \<Rightarrow> fst (UpdateCluster build cl g)
    | Collector i ev \<Rightarrow> (case map_of (g_collectors g) i of
        None \<Rightarrow> g
      | Some c \<Rightarrow> if \<exists>env. ev = EnvChange env then g
                  else g\<lparr>g_collectors := gm_set i (collector_step ev c) (g_collectors g)\<rparr>))"

text \<open>A collector is set up for the connection it runs with, which is its configured one up to TLS.\<close>

definition runs_on :: "nats_conn_config option \<Rightarrow> collector \<Rightarrow> bool" where
  "runs_on conn c \<longleftrightarrow> natsConnSame conn (e_NATSConn (k_env c))
    \<and> (k_subscriber c \<noteq> None \<longleftrightarrow> conn \<noteq> None)
    \<and> (k_sys c \<noteq> None \<longleftrightarrow> (case conn of None \<Rightarrow> False | Some n \<Rightarrow> nn_SYSCollection n))"

definition set_up :: "manager \<Rightarrow> string \<Rightarrow> collector \<Rightarrow> bool" where
  "set_up g i c \<longleftrightarrow> (case map_of (g_cancels g) i of
      None \<Rightarrow> k_subscriber c = None \<and> k_sys c = None
    | Some conn \<Rightarrow> runs_on conn c)"

definition manager_ok :: "manager \<Rightarrow> bool" where
  "manager_ok g \<longleftrightarrow> gm_ok (g_collectors g) \<and> gm_ok (g_cancels g)
    \<and> (\<forall>i. map_of (g_cancels g) i \<noteq> None \<longleftrightarrow> g_started g \<and> map_of (g_collectors g) i \<noteq> None)
    \<and> (\<forall>i c. map_of (g_collectors g) i = Some c \<longrightarrow> set_up g i c)"

lemma serversSame_iff: "serversSame a b \<longleftrightarrow> a = b"
  by (induction a b rule: serversSame.induct) auto

lemma natsConnSame_refl [simp]: "natsConnSame a a"
  by (auto simp: natsConnSame_def serversSame_iff split: option.split)

lemma natsConnSame_trans: "natsConnSame a b \<Longrightarrow> natsConnSame b c \<Longrightarrow> natsConnSame a c"
  by (auto simp: natsConnSame_def serversSame_iff split: option.splits)

lemma startCollector_runs_on:
  assumes "k_env c = env" "k_subscriber c = None" "k_sys c = None"
  shows "runs_on (e_NATSConn env) (startCollector env c)"
  using assms by (auto simp: runs_on_def startCollector_def Let_def split: option.split)

lemma newCollector_fresh [simp]: "k_env (newCollector env n) = env" "k_subscriber (newCollector env n) = None"
  "k_sys (newCollector env n) = None"
  by (simp_all add: newCollector_def)

lemma restart_runs_on:
  assumes "runs_on conn c \<or> k_subscriber c = None \<and> k_sys c = None"
  shows "runs_on (e_NATSConn (k_env c)) (startCollector (k_env c) c)"
  using assms by (auto simp: runs_on_def startCollector_def natsConnSame_def serversSame_iff Let_def split: option.splits)

lemma step_runs_on:
  assumes "runs_on conn c" "\<nexists>env. ev = EnvChange env"
  shows "runs_on conn (collector_step ev c)"
proof -
  have "k_env (collector_step ev c) = k_env c \<and> (k_subscriber (collector_step ev c) = None \<longleftrightarrow> k_subscriber c = None)"
    using assms(2)
    by (cases ev) (auto simp: collector_step_def tick_poll_def Let_def poll_env_inflight begin_discovery_def
        finish_discovery_def discovery_panics_def split: option.split prod.split)
  then show ?thesis using assms(1) by (simp add: runs_on_def step_sys)
qed

lemma step_unset:
  assumes "k_subscriber c = None \<and> k_sys c = None"
  shows "k_subscriber (collector_step ev c) = None \<and> k_sys (collector_step ev c) = None"
proof -
  have "k_subscriber (collector_step ev c) = None \<longleftrightarrow> k_subscriber c = None"
    by (cases ev) (auto simp: collector_step_def tick_poll_def Let_def poll_env_inflight begin_discovery_def
        finish_discovery_def discovery_panics_def setEnv_def split: option.split prod.split)
  then show ?thesis using assms by (simp add: step_sys)
qed

lemma fold_launch:
  assumes "gm_ok xs"
  shows "map_of (g_collectors (fold (\<lambda>(i, c). launch i (k_env c) c) xs g)) j
      = (case map_of xs j of None \<Rightarrow> map_of (g_collectors g) j | Some c \<Rightarrow> Some (startCollector (k_env c) c))
    \<and> map_of (g_cancels (fold (\<lambda>(i, c). launch i (k_env c) c) xs g)) j
      = (case map_of xs j of None \<Rightarrow> map_of (g_cancels g) j | Some c \<Rightarrow> Some (e_NATSConn (k_env c)))
    \<and> g_started (fold (\<lambda>(i, c). launch i (k_env c) c) xs g) = g_started g
    \<and> (gm_ok (g_collectors g) \<longrightarrow> gm_ok (g_collectors (fold (\<lambda>(i, c). launch i (k_env c) c) xs g)))
    \<and> (gm_ok (g_cancels g) \<longrightarrow> gm_ok (g_cancels (fold (\<lambda>(i, c). launch i (k_env c) c) xs g)))"
  using assms
proof (induction xs arbitrary: g)
  case (Cons x xs)
  obtain i c where x: "x = (i, c)" by (cases x)
  have "gm_ok xs" "map_of xs i = None" using Cons.prems by (auto simp: gm_ok_def x map_of_eq_None_iff)
  with Cons.IH[of "launch i (k_env c) c g"] show ?case by (auto simp: x launch_def split: option.split)
qed simp

lemma untracked_not_running: "manager_ok g \<Longrightarrow> map_of (g_collectors g) i = None \<Longrightarrow> map_of (g_cancels g) i = None"
  unfolding manager_ok_def by metis

lemma Start_ok:
  assumes "manager_ok g"
  shows "manager_ok (Start g)"
proof -
  have ok: "gm_ok (g_collectors g)" and sc: "\<And>i c. map_of (g_collectors g) i = Some c \<Longrightarrow> set_up g i c"
    using assms by (auto simp: manager_ok_def)
  note F = fold_launch[OF ok, of "g\<lparr>g_started := True\<rparr>", folded Start_def]
  have col: "map_of (g_collectors (Start g)) i = (case map_of (g_collectors g) i of None \<Rightarrow> None
      | Some c \<Rightarrow> Some (startCollector (k_env c) c))" for i
    using F[of i] by (simp split: option.splits)
  have can: "map_of (g_cancels (Start g)) i = (case map_of (g_collectors g) i of None \<Rightarrow> map_of (g_cancels g) i
      | Some c \<Rightarrow> Some (e_NATSConn (k_env c)))" for i
    using F[of i] by (simp split: option.splits)
  have "set_up (Start g) i c'" if at: "map_of (g_collectors (Start g)) i = Some c'" for i c'
  proof -
    obtain c where c: "map_of (g_collectors g) i = Some c" "c' = startCollector (k_env c) c"
      using at by (auto simp: col split: option.splits)
    then show ?thesis using restart_runs_on[of _ c] sc[OF c(1)] by (auto simp: set_up_def can split: option.splits)
  qed
  moreover have "map_of (g_cancels g) i = None" if "map_of (g_collectors g) i = None" for i
    using untracked_not_running[OF assms that] .
  moreover have "gm_ok (g_collectors (Start g)) \<and> gm_ok (g_cancels (Start g)) \<and> g_started (Start g)"
    using F assms by (simp add: manager_ok_def)
  ultimately show ?thesis by (auto simp: manager_ok_def col can split: option.split)
qed

lemma Remove_ok: "manager_ok g \<Longrightarrow> manager_ok (RemoveCluster i g)"
  by (auto simp: manager_ok_def RemoveCluster_def set_up_def)

lemma add_ok:
  assumes "manager_ok g"
  shows "manager_ok (fst (addCluster build cl g))"
proof (cases "map_of (g_collectors g) (cl_ID cl) = None \<and> build (e_TLS (cl_env cl))")
  case True
  have "runs_on (e_NATSConn (cl_env cl)) (startCollector (cl_env cl) (newCollector (cl_env cl) (g_interval g)))"
    by (rule startCollector_runs_on) simp_all
  moreover have "map_of (g_cancels g) (cl_ID cl) = None" using untracked_not_running[OF assms] True by simp
  ultimately show ?thesis
    using assms True by (auto simp: addCluster_def manager_ok_def launch_def set_up_def Let_def split: option.splits)
qed (use assms in \<open>auto simp: addCluster_def\<close>)

lemma update_ok:
  assumes "manager_ok g"
  shows "manager_ok (fst (UpdateCluster build cl g))"
proof (cases "map_of (g_collectors g) (cl_ID cl)")
  case (Some c)
  have su: "set_up g (cl_ID cl) c" using assms Some by (auto simp: manager_ok_def)
  show ?thesis
  proof (cases "natsConnSame (e_NATSConn (k_env c)) (e_NATSConn (cl_env cl))")
    case True
    then have "set_up g (cl_ID cl) (setEnv (cl_env cl) c)"
      using su natsConnSame_trans by (auto simp: set_up_def runs_on_def setEnv_def split: option.splits)
    then have "manager_ok (g\<lparr>g_collectors := gm_set (cl_ID cl) (setEnv (cl_env cl) c) (g_collectors g)\<rparr>)"
      using assms Some by (auto simp: manager_ok_def set_up_def)
    then show ?thesis using Some add_ok[OF Remove_ok[OF assms]] by (simp add: UpdateCluster_def Let_def)
  qed (use Some add_ok[OF Remove_ok[OF assms]] in \<open>simp add: UpdateCluster_def Let_def\<close>)
qed (use add_ok[OF assms] in \<open>simp add: UpdateCluster_def\<close>)

lemma manager_step_ok:
  assumes "manager_ok g"
  shows "manager_ok (manager_step op g)"
proof (cases op)
  case (Collector i ev)
  show ?thesis
  proof (cases "map_of (g_collectors g) i")
    case (Some c)
    then have "set_up g i c" using assms by (auto simp: manager_ok_def)
    then have "(\<nexists>env. ev = EnvChange env) \<Longrightarrow> set_up g i (collector_step ev c)"
      using step_runs_on step_unset by (auto simp: set_up_def split: option.splits)
    then show ?thesis using assms Some
      by (auto simp: manager_step_def Collector manager_ok_def set_up_def)
  qed (use assms in \<open>simp add: manager_step_def Collector\<close>)
qed (use assms in \<open>simp_all add: manager_step_def Start_ok add_ok Remove_ok update_ok\<close>)

lemma load_clusters_fresh:
  assumes "load_clusters build n cls m = Some m'" "gm_ok m" "\<forall>(i, c)\<in>set m. k_subscriber c = None \<and> k_sys c = None"
  shows "gm_ok m' \<and> (\<forall>(i, c)\<in>set m'. k_subscriber c = None \<and> k_sys c = None)"
  using assms
proof (induction build n cls m rule: load_clusters.induct)
  case (2 build n cl cls m)
  have "set (gm_set k v xs) \<subseteq> insert (k, v) (set xs)" for k v and xs :: "(string, collector) gomap"
    by (induction xs) (auto simp: gm_set_def split: if_splits)
  from this[of "cl_ID cl" "newCollector (cl_env cl) n" m]
  have "\<forall>(i, c)\<in>set (gm_set (cl_ID cl) (newCollector (cl_env cl) n) m). k_subscriber c = None \<and> k_sys c = None"
    using "2.prems"(3) by fastforce
  then show ?case using 2 by (auto split: if_splits)
qed simp


definition example_cluster :: managed_cluster where
  "example_cluster = \<lparr>cl_ID = ''c1'', cl_env = example_environment\<rparr>"


text \<open>
  An update that succeeds leaves the cluster tracked under its new configuration; one that fails does
  so because the TLS setting cannot be built, and leaves the cluster untracked. Either way no other
  cluster and no other cluster's goroutines change.
\<close>

theorem update_outcome:
  assumes "UpdateCluster build cl g = (g', ok)"
  shows "(if ok then map_option k_env (map_of (g_collectors g') (cl_ID cl)) = Some (cl_env cl)
          else map_of (g_collectors g') (cl_ID cl) = None \<and> \<not> build (e_TLS (cl_env cl)))
    \<and> gm_del (cl_ID cl) (g_collectors g') = gm_del (cl_ID cl) (g_collectors g)
    \<and> gm_del (cl_ID cl) (g_cancels g') = gm_del (cl_ID cl) (g_cancels g)"
proof -
  have ds: "gm_del i (gm_set i v m) = gm_del i m" for i :: string and v and m :: "(string, 'x) gomap"
    by (induction m) (auto simp: gm_del_def gm_set_def)
  have dd: "gm_del i (gm_del i m) = gm_del i m" for i :: string and m :: "(string, 'x) gomap"
    by (simp add: gm_del_def)
  have env: "k_env (startCollector e c) = k_env c" for e c
    by (simp add: startCollector_def Let_def split: option.split)
  have add: "(if ok then map_option k_env (map_of (g_collectors g') (cl_ID cl)) = Some (cl_env cl)
          else map_of (g_collectors g') (cl_ID cl) = None \<and> \<not> build (e_TLS (cl_env cl)))
    \<and> gm_del (cl_ID cl) (g_collectors g') = gm_del (cl_ID cl) (g_collectors h)
    \<and> gm_del (cl_ID cl) (g_cancels g') = gm_del (cl_ID cl) (g_cancels h)"
    if "addCluster build cl h = (g', ok)" "map_of (g_collectors h) (cl_ID cl) = None" for h
    using that by (auto simp: addCluster_def launch_def Let_def ds env split: if_splits)
  show ?thesis
  proof (cases "map_of (g_collectors g) (cl_ID cl)")
    case None
    then show ?thesis using add[of g] assms by (simp add: UpdateCluster_def)
  next
    case (Some c)
    show ?thesis
    proof (cases "serversSame (e_Servers (k_env c)) (e_Servers (cl_env cl)) \<and> tlsSame (e_TLS (k_env c)) (e_TLS (cl_env cl))
        \<and> natsConnSame (e_NATSConn (k_env c)) (e_NATSConn (cl_env cl))")
      case True
      then have "g' = g\<lparr>g_collectors := gm_set (cl_ID cl) (setEnv (cl_env cl) c) (g_collectors g)\<rparr> \<and> ok"
        using assms Some by (auto simp: UpdateCluster_def Let_def)
      then show ?thesis by (simp add: ds setEnv_def)
    next
      case False
      then have "addCluster build cl (RemoveCluster (cl_ID cl) g) = (g', ok)"
        using assms Some unfolding UpdateCluster_def by (simp add: Let_def split: if_splits)
      from add[OF this] show ?thesis by (simp add: RemoveCluster_def dd)
    qed
  qed
qed

lemma update_outcome_witness:
  "map_of (g_collectors (fst (UpdateCluster (\<lambda>_. False) \<lparr>cl_ID = ''c1'', cl_env = example_environment\<lparr>e_TLS := None\<rparr>\<rparr>
     \<lparr>g_collectors = [(''c1'', newCollector example_environment 5)], g_cancels = [], g_started = False, g_interval = 5\<rparr>))) ''c1'' = None"
proof -
  let ?cl = "\<lparr>cl_ID = ''c1'', cl_env = example_environment\<lparr>e_TLS := None\<rparr>\<rparr>"
  let ?g = "\<lparr>g_collectors = [(''c1'', newCollector example_environment 5)], g_cancels = [], g_started = False, g_interval = 5\<rparr>"
  have "UpdateCluster (\<lambda>_. False) ?cl ?g = (fst (UpdateCluster (\<lambda>_. False) ?cl ?g), False)"
    by (simp add: UpdateCluster_def Let_def tlsSame_def example_environment_def addCluster_def RemoveCluster_def)
  from update_outcome[OF this] show ?thesis by simp
qed

text \<open>A change of the NATS connection's TLS block alone is taken for a change of the label.\<close>

lemma nats_tls_change_keeps_connection:
  assumes "map_of (g_collectors g) i = Some c" "e_NATSConn (k_env c) = Some n"
  shows "g_cancels (fst (UpdateCluster build \<lparr>cl_ID = i, cl_env = (k_env c)\<lparr>e_NATSConn := Some (n\<lparr>nn_TLS := t\<rparr>)\<rparr>\<rparr> g)) = g_cancels g"
  using assms by (simp add: UpdateCluster_def Let_def serversSame_iff tlsSame_def natsConnSame_def split: option.split)

end
