(* ===== verification/Queues.thy ===== *)
theory Queues
  imports Prelude
begin

text \<open>
  The contract of a bounded channel with a non-blocking send, as the program uses one for a
  viewer's outgoing messages and for the metrics writer: a send is taken exactly when there is
  room, and what is taken comes out once and in order.
\<close>

datatype 'a queue_op = Offer 'a | Poll

text \<open>A run yields what was accepted, what came out, and the final state.\<close>

fun queue_run :: "('q \<Rightarrow> 'a list) \<Rightarrow> nat \<Rightarrow> ('a \<Rightarrow> 'q \<Rightarrow> 'q) \<Rightarrow> ('q \<Rightarrow> ('a \<times> 'q) option)
    \<Rightarrow> 'a queue_op list \<Rightarrow> 'q \<Rightarrow> 'a list \<times> 'a list \<times> 'q" where
  "queue_run contents cap offer poll [] q = ([], [], q)"
| "queue_run contents cap offer poll (Offer x # ops) q =
    (let (acc, out, q') = queue_run contents cap offer poll ops (offer x q)
     in (if length (contents q) < cap then x # acc else acc, out, q'))"
| "queue_run contents cap offer poll (Poll # ops) q = (case poll q of
      None \<Rightarrow> queue_run contents cap offer poll ops q
    | Some (x, q1) \<Rightarrow>
        (let (acc, out, q') = queue_run contents cap offer poll ops q1 in (acc, x # out, q')))"

locale bounded_queue =
  fixes contents :: "'q \<Rightarrow> 'a list"
    and cap :: nat
    and inv :: "'q \<Rightarrow> bool"
    and offer :: "'a \<Rightarrow> 'q \<Rightarrow> 'q"
    and poll :: "'q \<Rightarrow> ('a \<times> 'q) option"
  assumes inv_bound: "inv q \<Longrightarrow> length (contents q) \<le> cap"
    and inv_offer: "inv q \<Longrightarrow> inv (offer x q)"
    and inv_poll: "inv q \<Longrightarrow> poll q = Some (x, q') \<Longrightarrow> inv q'"
    and offer_room: "inv q \<Longrightarrow> length (contents q) < cap \<Longrightarrow> contents (offer x q) = contents q @ [x]"
    and offer_full: "inv q \<Longrightarrow> length (contents q) \<ge> cap \<Longrightarrow> contents (offer x q) = contents q"
    and poll_some: "poll q = Some (x, q') \<Longrightarrow> contents q = x # contents q'"
    and poll_none: "poll q = None \<Longrightarrow> contents q = []"

context bounded_queue
begin

lemma run_fifo:
  "inv q \<Longrightarrow> queue_run contents cap offer poll ops q = (acc, out, q')
    \<Longrightarrow> contents q @ acc = out @ contents q' \<and> inv q'"
proof (induction ops arbitrary: q acc out q')
  case Nil
  then show ?case by simp
next
  case (Cons op ops)
  show ?case
  proof (cases op)
    case (Offer x)
    obtain acc1 out1 q1 where r: "queue_run contents cap offer poll ops (offer x q) = (acc1, out1, q1)"
      by (cases "queue_run contents cap offer poll ops (offer x q)")
    with Cons.IH[OF inv_offer[OF Cons.prems(1)] r] Cons.prems Offer show ?thesis
      by (cases "length (contents q) < cap") (auto simp: offer_room offer_full)
  next
    case Poll
    with Cons show ?thesis
      by (fastforce dest: poll_some inv_poll split: option.splits prod.splits)
  qed
qed

lemma run_bound:
  assumes "inv q"
  shows "length (contents (snd (snd (queue_run contents cap offer poll ops q)))) \<le> cap"
  using run_fifo[OF assms, of ops] inv_bound by (metis prod.collapse)

end

end
