(* ===== verification/MetricsStore.thy ===== *)
theory MetricsStore
  imports Queues Float64 GoLib
begin

text \<open>
  The metrics writer of \<^verbatim>\<open>internal/store/metrics.go\<close>: a bounded queue of samples, the goroutine that
  writes them to three tables, the shutdown that drains the queue, and the retention. The database
  executes a transaction as a whole or not at all; which of its calls fail is an input. A submission
  is one step, so the race between the send and the stamp of the oldest sample, which only blurs a
  statistic, is not modelled.
\<close>

section \<open>Samples and rows\<close>

record server_sample =
  sv_ServerID :: string
  sv_Connections :: int
  sv_InMsgs :: int
  sv_OutMsgs :: int
  sv_InBytes :: int
  sv_OutBytes :: int
  sv_CPU :: f64
  sv_Mem :: int
  sv_Subscriptions :: "32 word"
  sv_SlowConsumers :: int
  sv_Routes :: int
  sv_LeafNodes :: int
  sv_InMsgsRate :: f64
  sv_OutMsgsRate :: f64
  sv_InBytesRate :: f64
  sv_OutBytesRate :: f64
  sv_Healthy :: bool

record bridge_sample =
  gb_BridgeID :: string
  gb_ConnectionsActive :: int
  gb_InMsgsRate :: f64
  gb_OutMsgsRate :: f64
  gb_InBytesRate :: f64
  gb_OutBytesRate :: f64
  gb_MsgsRecvQoS0 :: int
  gb_MsgsRecvQoS1 :: int
  gb_MsgsSentQoS0 :: int
  gb_MsgsSentQoS1 :: int
  gb_MsgsRecvQoS2 :: int
  gb_MsgsSentQoS2 :: int
  gb_SessionWriteBehindDepth :: int
  gb_ConsumerPendingMessages :: "int option"
  gb_StalledConsumers :: int
  gb_SocketsOpen :: int
  gb_InflightOutMessages :: int
  gb_OpQueueDepth :: int
  gb_OpSuspendedConns :: int
  gb_WorkerPoolQueueDepth :: int
  gb_PoolSlotConnected :: int
  gb_RetainedMessages :: int
  gb_SubscriptionsActive :: int
  gb_GoHeapInuseBytes :: int
  gb_GoGoroutines :: int
  gb_ScramSessionsActive :: int

record metric_sample =
  sa_Timestamp :: gotime
  sa_Env :: string
  sa_ServerCount :: int
  sa_HealthyCount :: int
  sa_ConnectionCount :: int
  sa_InMsgsRate :: f64
  sa_OutMsgsRate :: f64
  sa_InBytesRate :: f64
  sa_OutBytesRate :: f64
  sa_Subscriptions :: "32 word"
  sa_Servers :: "server_sample list"
  sa_MQTTBridges :: "bridge_sample list"

text \<open>SQLite stores a NaN as NULL. A row keeps its identifying columns apart from its values.\<close>

datatype sql_value = SNull | SInt int | SReal f64

definition sql_real :: "f64 \<Rightarrow> sql_value" where
  "sql_real x = (if x = NaN then SNull else SReal x)"

record metric_row =
  mr_ts :: int
  mr_env :: string
  mr_id :: string
  mr_cols :: "(string \<times> sql_value) list"

record metrics_db =
  db_server :: "metric_row list"
  db_env :: "metric_row list"
  db_bridge :: "metric_row list"

definition Unix :: "gotime \<Rightarrow> int" where
  "Unix t = t div second"

definition env_row :: "metric_sample \<Rightarrow> metric_row" where
  "env_row s = \<lparr>mr_ts = Unix (sa_Timestamp s), mr_env = sa_Env s, mr_id = [], mr_cols = [
     (''server_count'', SInt (sa_ServerCount s)), (''healthy_count'', SInt (sa_HealthyCount s)),
     (''connection_count'', SInt (sa_ConnectionCount s)), (''in_msgs_rate'', sql_real (sa_InMsgsRate s)),
     (''out_msgs_rate'', sql_real (sa_OutMsgsRate s)), (''in_bytes_rate'', sql_real (sa_InBytesRate s)),
     (''out_bytes_rate'', sql_real (sa_OutBytesRate s)), (''subscriptions'', SInt (uint (sa_Subscriptions s)))]\<rparr>"

definition server_row :: "metric_sample \<Rightarrow> server_sample \<Rightarrow> metric_row" where
  "server_row s v = \<lparr>mr_ts = Unix (sa_Timestamp s), mr_env = sa_Env s, mr_id = sv_ServerID v, mr_cols = [
     (''connections'', SInt (sv_Connections v)), (''in_msgs'', SInt (sv_InMsgs v)), (''out_msgs'', SInt (sv_OutMsgs v)),
     (''in_bytes'', SInt (sv_InBytes v)), (''out_bytes'', SInt (sv_OutBytes v)), (''cpu'', sql_real (sv_CPU v)),
     (''mem'', SInt (sv_Mem v)), (''subscriptions'', SInt (uint (sv_Subscriptions v))),
     (''slow_consumers'', SInt (sv_SlowConsumers v)), (''routes'', SInt (sv_Routes v)),
     (''leafnodes'', SInt (sv_LeafNodes v)), (''in_msgs_rate'', sql_real (sv_InMsgsRate v)),
     (''out_msgs_rate'', sql_real (sv_OutMsgsRate v)), (''in_bytes_rate'', sql_real (sv_InBytesRate v)),
     (''out_bytes_rate'', sql_real (sv_OutBytesRate v)), (''healthy'', SInt (if sv_Healthy v then 1 else 0))]\<rparr>"

definition bridge_row :: "metric_sample \<Rightarrow> bridge_sample \<Rightarrow> metric_row" where
  "bridge_row s b = \<lparr>mr_ts = Unix (sa_Timestamp s), mr_env = sa_Env s, mr_id = gb_BridgeID b, mr_cols = [
     (''connections_active'', SInt (gb_ConnectionsActive b)), (''in_msgs_rate'', sql_real (gb_InMsgsRate b)),
     (''out_msgs_rate'', sql_real (gb_OutMsgsRate b)), (''in_bytes_rate'', sql_real (gb_InBytesRate b)),
     (''out_bytes_rate'', sql_real (gb_OutBytesRate b)), (''msgs_recv_qos0'', SInt (gb_MsgsRecvQoS0 b)),
     (''msgs_recv_qos1'', SInt (gb_MsgsRecvQoS1 b)), (''msgs_sent_qos0'', SInt (gb_MsgsSentQoS0 b)),
     (''msgs_sent_qos1'', SInt (gb_MsgsSentQoS1 b)), (''msgs_recv_qos2'', SInt (gb_MsgsRecvQoS2 b)),
     (''msgs_sent_qos2'', SInt (gb_MsgsSentQoS2 b)),
     (''session_write_behind_depth'', SInt (gb_SessionWriteBehindDepth b)),
     (''consumer_pending_messages'', case gb_ConsumerPendingMessages b of None \<Rightarrow> SNull | Some n \<Rightarrow> SInt n),
     (''stalled_consumers'', SInt (gb_StalledConsumers b)), (''sockets_open'', SInt (gb_SocketsOpen b)),
     (''inflight_out_messages'', SInt (gb_InflightOutMessages b)), (''op_queue_depth'', SInt (gb_OpQueueDepth b)),
     (''op_suspended_conns'', SInt (gb_OpSuspendedConns b)),
     (''worker_pool_queue_depth'', SInt (gb_WorkerPoolQueueDepth b)),
     (''pool_slot_connected'', SInt (gb_PoolSlotConnected b)), (''retained_messages'', SInt (gb_RetainedMessages b)),
     (''subscriptions_active'', SInt (gb_SubscriptionsActive b)), (''go_heap_inuse_bytes'', SInt (gb_GoHeapInuseBytes b)),
     (''go_goroutines'', SInt (gb_GoGoroutines b)), (''scram_sessions_active'', SInt (gb_ScramSessionsActive b))]\<rparr>"

section \<open>Writing one sample\<close>

text \<open>The calls of a transaction are numbered; \<open>fault n\<close> is the error of the \<open>n\<close>th, if it fails.\<close>

type_synonym db_faults = "nat \<Rightarrow> string option"

datatype write_error =
    BeginFailed string | InsertEnvironment string | PrepareServers string | InsertServer string string
  | PrepareBridges string | InsertBridge string string | CommitFailed string

definition db_call :: "db_faults \<Rightarrow> nat \<Rightarrow> (string \<Rightarrow> write_error) \<Rightarrow> (write_error + 'a) \<Rightarrow> write_error + 'a" where
  "db_call fault n wrap next = (case fault n of Some e \<Rightarrow> Inl (wrap e) | None \<Rightarrow> next)"

fun insert_rows :: "db_faults \<Rightarrow> nat \<Rightarrow> (string \<Rightarrow> string \<Rightarrow> write_error) \<Rightarrow> metric_row list \<Rightarrow> metric_row list
    \<Rightarrow> write_error + metric_row list" where
  "insert_rows fault n wrap [] table = Inr table"
| "insert_rows fault n wrap (r # rs) table =
    db_call fault n (wrap (mr_id r)) (insert_rows fault (n + 1) wrap rs (table @ [r]))"

definition writeSample :: "db_faults \<Rightarrow> metric_sample \<Rightarrow> metrics_db \<Rightarrow> write_error + metrics_db" where
  "writeSample fault s db =
    (let servers = map (server_row s) (sa_Servers s);
         bridges = map (bridge_row s) (sa_MQTTBridges s)
     in db_call fault 0 BeginFailed
       (db_call fault 1 InsertEnvironment
       (db_call fault 2 PrepareServers
       (case insert_rows fault 3 InsertServer servers (db_server db) of
          Inl e \<Rightarrow> Inl e
        | Inr server_table \<Rightarrow>
            db_call fault (3 + length servers) PrepareBridges
            (case insert_rows fault (4 + length servers) InsertBridge bridges (db_bridge db) of
               Inl e \<Rightarrow> Inl e
             | Inr bridge_table \<Rightarrow>
                 db_call fault (4 + length servers + length bridges) CommitFailed
                   (Inr \<lparr>db_server = server_table, db_env = db_env db @ [env_row s], db_bridge = bridge_table\<rparr>))))))"

text \<open>The message of an error; \<open>quoted\<close> is the rendering of an identifier with \<^verbatim>\<open>%q\<close>.\<close>

fun error_text :: "(string \<Rightarrow> string) \<Rightarrow> write_error \<Rightarrow> string" where
  "error_text quoted (BeginFailed e) = ''begin transaction: '' @ e"
| "error_text quoted (InsertEnvironment e) = ''insert environment: '' @ e"
| "error_text quoted (PrepareServers e) = ''prepare server insert: '' @ e"
| "error_text quoted (InsertServer i e) = ''insert server '' @ quoted i @ '': '' @ e"
| "error_text quoted (PrepareBridges e) = ''prepare MQTT insert: '' @ e"
| "error_text quoted (InsertBridge i e) = ''insert MQTT bridge '' @ quoted i @ '': '' @ e"
| "error_text quoted (CommitFailed e) = ''commit transaction: '' @ e"

section \<open>The writer\<close>

datatype log_line = SamplesDropped "64 word" | WriteFailed string string | CleanupFailed string | VacuumFailed

record metrics_writer =
  mw_db :: metrics_db
  mw_queue :: "metric_sample list"
  mw_retention :: int
  mw_dropped :: "64 word"
  mw_droppedTotal :: "64 word"
  mw_pruning :: bool
  mw_written :: "64 word"
  mw_failed :: "64 word"
  mw_busy :: "64 word"
  mw_queryErrs :: "64 word"
  mw_writeNS :: int
  mw_queryNS :: int
  mw_cleanupNS :: int
  mw_batchRows :: int
  mw_oldestNS :: int
  mw_stopped :: bool
  mw_ran :: bool
  mw_done :: bool
  mw_log :: "log_line list"

definition queue_capacity :: nat where
  "queue_capacity = 256"

definition NewMetricsWriter :: "metrics_db \<Rightarrow> int list \<Rightarrow> metrics_writer" where
  "NewMetricsWriter db retention = \<lparr>mw_db = db, mw_queue = [],
     mw_retention = (case retention of r # _ \<Rightarrow> if 0 < r then r else 24 * 60 * minute | [] \<Rightarrow> 24 * 60 * minute),
     mw_dropped = 0, mw_droppedTotal = 0, mw_pruning = False, mw_written = 0, mw_failed = 0, mw_busy = 0,
     mw_queryErrs = 0, mw_writeNS = 0, mw_queryNS = 0, mw_cleanupNS = 0, mw_batchRows = 0, mw_oldestNS = 0,
     mw_stopped = False, mw_ran = False, mw_done = False, mw_log = []\<rparr>"

definition Submit :: "gotime \<Rightarrow> metric_sample \<Rightarrow> metrics_writer \<Rightarrow> bool \<times> metrics_writer" where
  "Submit now s w =
    (if \<not> mw_stopped w \<and> length (mw_queue w) < queue_capacity
     then (True, w\<lparr>mw_queue := mw_queue w @ [s],
                   mw_oldestNS := (if mw_oldestNS w = 0 then now else mw_oldestNS w)\<rparr>)
     else (False, w\<lparr>mw_dropped := mw_dropped w + 1, mw_droppedTotal := mw_droppedTotal w + 1\<rparr>))"

definition recordBusy :: "string \<Rightarrow> metrics_writer \<Rightarrow> metrics_writer" where
  "recordBusy message w =
    (if Contains (ToLower message) ''busy'' \<or> Contains (ToLower message) ''locked''
     then w\<lparr>mw_busy := mw_busy w + 1\<rparr> else w)"

text \<open>What one write meets: the faults of its calls and the instants at which it starts and ends.\<close>

record write_world =
  ww_quoted :: "string \<Rightarrow> string"
  ww_fault :: db_faults
  ww_start :: gotime
  ww_end :: gotime

definition persist :: "write_world \<Rightarrow> metric_sample \<Rightarrow> metrics_writer \<Rightarrow> metrics_writer" where
  "persist x s w =
    (let w1 = w\<lparr>mw_batchRows := 1 + int (length (sa_Servers s)) + int (length (sa_MQTTBridges s)),
                mw_writeNS := ww_end x - ww_start x\<rparr>
     in case writeSample (ww_fault x) s (mw_db w) of
          Inl e \<Rightarrow> recordBusy (error_text (ww_quoted x) e)
            (w1\<lparr>mw_failed := mw_failed w + 1, mw_log := mw_log w @ [WriteFailed (sa_Env s) (error_text (ww_quoted x) e)]\<rparr>)
        | Inr db \<Rightarrow> w1\<lparr>mw_db := db, mw_written := mw_written w + 1\<rparr>)"

text \<open>The writer takes a sample, while it runs and while it drains the queue after the shutdown.\<close>

definition clear_oldest :: "metrics_writer \<Rightarrow> metrics_writer" where
  "clear_oldest w = (if \<not> mw_stopped w \<and> mw_queue w = [] then w\<lparr>mw_oldestNS := 0\<rparr> else w)"

definition take_sample :: "write_world \<Rightarrow> metrics_writer \<Rightarrow> (metric_sample \<times> metrics_writer) option" where
  "take_sample x w = (case mw_queue w of
      [] \<Rightarrow> None
    | s # rest \<Rightarrow> Some (s, clear_oldest (persist x s (w\<lparr>mw_queue := rest\<rparr>))))"

section \<open>Retention\<close>

text \<open>
  Which 10000 of the expired rows the subselect yields is the choice of the database; rows are
  named by their position.
\<close>

definition expired :: "int \<Rightarrow> metric_row list \<Rightarrow> nat list" where
  "expired cutoff rows = filter (\<lambda>i. mr_ts (rows ! i) < cutoff) [0..<length rows]"

definition prune_table :: "(nat list \<Rightarrow> nat list) \<Rightarrow> int \<Rightarrow> metric_row list \<Rightarrow> metric_row list" where
  "prune_table pick cutoff rows = nths rows (- set (pick (expired cutoff rows)))"

definition prune_batch :: nat where
  "prune_batch = 10000"

record prune_world =
  pw_start :: gotime
  pw_now :: gotime
  pw_end :: gotime
  pw_fails :: "string \<Rightarrow> bool"
  pw_pick :: "nat list \<Rightarrow> nat list"
  pw_vacuum_fails :: bool

definition delete_from :: "prune_world \<Rightarrow> int \<Rightarrow> string \<Rightarrow> metric_row list \<Rightarrow> metric_row list \<times> log_line list \<times> bool" where
  "delete_from x cutoff table rows =
    (if pw_fails x table then (rows, [CleanupFailed table], False)
     else let rows' = prune_table (pw_pick x) cutoff rows in (rows', [], length rows' < length rows))"

definition deleteOld :: "prune_world \<Rightarrow> metrics_writer \<Rightarrow> metrics_writer" where
  "deleteOld x w =
    (let cutoff = Unix (pw_now x - mw_retention w);
         (servers, l1, f1) = delete_from x cutoff ''server_metrics'' (db_server (mw_db w));
         (envs, l2, f2) = delete_from x cutoff ''env_metrics'' (db_env (mw_db w));
         (bridges, l3, f3) = delete_from x cutoff ''mqtt_bridge_metrics'' (db_bridge (mw_db w));
         l4 = (if (f1 \<or> f2 \<or> f3) \<and> pw_vacuum_fails x then [VacuumFailed] else [])
     in w\<lparr>mw_db := \<lparr>db_server = servers, db_env = envs, db_bridge = bridges\<rparr>,
          mw_log := mw_log w @ l1 @ l2 @ l3 @ l4, mw_cleanupNS := pw_end x - pw_start x\<rparr>)"

section \<open>The life of the writer\<close>

text \<open>
  \<open>Tick\<close> is a tick of the cleanup timer, which starts a prune unless one is running and reports what
  was dropped since the last report; \<open>Pruned\<close> is a prune that comes to its end.
\<close>

datatype writer_event =
    Submitted gotime metric_sample
  | RunCalled
  | Taken write_world
  | Tick
  | Pruned prune_world
  | Cancelled
  | Drained

definition cleanup_tick :: "metrics_writer \<Rightarrow> metrics_writer" where
  "cleanup_tick w = w\<lparr>mw_pruning := True, mw_dropped := 0,
     mw_log := mw_log w @ (if mw_dropped w = 0 then [] else [SamplesDropped (mw_dropped w)])\<rparr>"

definition active :: "metrics_writer \<Rightarrow> bool" where
  "active w \<longleftrightarrow> mw_ran w \<and> \<not> mw_done w"

definition writer_step :: "writer_event \<Rightarrow> metrics_writer \<Rightarrow> metrics_writer" where
  "writer_step ev w = (case ev of
      Submitted now s \<Rightarrow> snd (Submit now s w)
    | RunCalled \<Rightarrow> w\<lparr>mw_ran := True\<rparr>
    | Taken x \<Rightarrow> (if active w then case take_sample x w of None \<Rightarrow> w | Some (_, w1) \<Rightarrow> w1 else w)
    | Tick \<Rightarrow> if active w \<and> \<not> mw_stopped w then cleanup_tick w else w
    | Pruned x \<Rightarrow> if mw_pruning w then (deleteOld x w)\<lparr>mw_pruning := False\<rparr> else w
    | Cancelled \<Rightarrow> if active w then w\<lparr>mw_stopped := True\<rparr> else w
    | Drained \<Rightarrow> if active w \<and> mw_stopped w \<and> mw_queue w = [] then w\<lparr>mw_done := True\<rparr> else w)"

record writer_stats =
  ws_QueueDepth :: int
  ws_QueueCapacity :: int
  ws_Dropped :: "64 word"
  ws_Written :: "64 word"
  ws_Failed :: "64 word"
  ws_Busy :: "64 word"
  ws_QueryErrors :: "64 word"
  ws_LastWriteNanos :: int
  ws_QueryNanos :: int
  ws_CleanupNanos :: int
  ws_LastBatchRows :: int
  ws_OldestQueueAge :: int

definition writer_Stats :: "gotime \<Rightarrow> metrics_writer \<Rightarrow> writer_stats" where
  "writer_Stats now w = \<lparr>ws_QueueDepth = int (length (mw_queue w)), ws_QueueCapacity = int queue_capacity,
     ws_Dropped = mw_droppedTotal w, ws_Written = mw_written w, ws_Failed = mw_failed w, ws_Busy = mw_busy w,
     ws_QueryErrors = mw_queryErrs w, ws_LastWriteNanos = mw_writeNS w, ws_QueryNanos = mw_queryNS w,
     ws_CleanupNanos = mw_cleanupNS w, ws_LastBatchRows = mw_batchRows w,
     ws_OldestQueueAge = (if mw_queue w \<noteq> [] \<and> 0 < mw_oldestNS w then now - mw_oldestNS w else 0)\<rparr>"

end
