(* ===== verification/MetricsStoreProps.thy ===== *)
theory MetricsStoreProps
  imports MetricsStore
begin

text \<open>
  What the metrics writer promises: a write stores all rows of a sample or none, the accepted samples
  reach the tables in order, none is lost without being counted, and the retention deletes nothing
  that is still wanted.
\<close>

section \<open>What a write does\<close>

text \<open>The specification of a write: all rows of the sample, in every table.\<close>

definition store_sample :: "metric_sample \<Rightarrow> metrics_db \<Rightarrow> metrics_db" where
  "store_sample s db = \<lparr>db_server = db_server db @ map (server_row s) (sa_Servers s),
     db_env = db_env db @ [env_row s], db_bridge = db_bridge db @ map (bridge_row s) (sa_MQTTBridges s)\<rparr>"

lemma insert_rows_cases:
  "insert_rows fault n wrap rs t = Inr t' \<Longrightarrow> t' = t @ rs"
  by (induction rs arbitrary: n t) (fastforce simp: db_call_def split: option.splits)+

lemma writeSample_Inr: "writeSample fault s db = Inr db' \<Longrightarrow> db' = store_sample s db"
  by (auto simp: writeSample_def db_call_def Let_def store_sample_def dest!: insert_rows_cases
      split: option.splits sum.splits)

lemma insert_rows_ok:
  "(\<And>n. fault n = None) \<Longrightarrow> insert_rows fault n wrap rs t = Inr (t @ rs)"
  by (induction rs arbitrary: n t) (auto simp: db_call_def)

lemma writeSample_ok: "(\<And>n. fault n = None) \<Longrightarrow> writeSample fault s db = Inr (store_sample s db)"
  by (simp add: writeSample_def db_call_def insert_rows_ok store_sample_def)

lemma recordBusy_fields [simp]:
  "mw_queue (recordBusy m w) = mw_queue w" "mw_stopped (recordBusy m w) = mw_stopped w" "mw_ran (recordBusy m w) = mw_ran w"
  "mw_done (recordBusy m w) = mw_done w" "mw_db (recordBusy m w) = mw_db w" "mw_failed (recordBusy m w) = mw_failed w"
  "mw_written (recordBusy m w) = mw_written w" "mw_droppedTotal (recordBusy m w) = mw_droppedTotal w"
  by (simp_all add: recordBusy_def)

lemma persist_fields [simp]:
  "mw_queue (persist x s w) = mw_queue w" "mw_stopped (persist x s w) = mw_stopped w" "mw_ran (persist x s w) = mw_ran w"
  "mw_done (persist x s w) = mw_done w" "mw_droppedTotal (persist x s w) = mw_droppedTotal w"
  by (simp_all add: persist_def Let_def split: sum.split)

lemma persist_counts: "mw_written (persist x s w) + mw_failed (persist x s w) = mw_written w + mw_failed w + 1"
  by (simp add: persist_def Let_def split: sum.split)

lemma persist_db:
  "mw_db (persist x s w) = (if isl (writeSample (ww_fault x) s (mw_db w)) then mw_db w else store_sample s (mw_db w))"
  by (auto simp: persist_def Let_def dest: writeSample_Inr split: sum.split)

lemma clear_oldest_fields [simp]:
  "mw_queue (clear_oldest w) = mw_queue w" "mw_stopped (clear_oldest w) = mw_stopped w" "mw_ran (clear_oldest w) = mw_ran w"
  "mw_done (clear_oldest w) = mw_done w" "mw_db (clear_oldest w) = mw_db w" "mw_failed (clear_oldest w) = mw_failed w"
  "mw_written (clear_oldest w) = mw_written w" "mw_droppedTotal (clear_oldest w) = mw_droppedTotal w"
  by (simp_all add: clear_oldest_def)

interpretation writer_queue: bounded_queue mw_queue queue_capacity
    "\<lambda>w. \<not> mw_stopped w \<and> length (mw_queue w) \<le> queue_capacity" "\<lambda>s w. snd (Submit now s w)" "take_sample x" for now x
  by unfold_locales (auto simp: Submit_def take_sample_def split: list.splits)

section \<open>The trace of a run\<close>

definition accepted :: "writer_event \<Rightarrow> metrics_writer \<Rightarrow> metric_sample list" where
  "accepted ev w = (case ev of Submitted now s \<Rightarrow> if fst (Submit now s w) then [s] else [] | _ \<Rightarrow> [])"

text \<open>The sample that a step takes from the queue, and whether its transaction commits.\<close>

definition processed :: "writer_event \<Rightarrow> metrics_writer \<Rightarrow> (metric_sample \<times> bool) list" where
  "processed ev w = (case ev of
      Taken x \<Rightarrow> (if \<not> active w then [] else case mw_queue w of [] \<Rightarrow> []
        | s # _ \<Rightarrow> [(s, \<not> isl (writeSample (ww_fault x) s (mw_db w)))])
    | _ \<Rightarrow> [])"

fun trace :: "(writer_event \<Rightarrow> metrics_writer \<Rightarrow> 'a list) \<Rightarrow> writer_event list \<Rightarrow> metrics_writer \<Rightarrow> 'a list" where
  "trace f [] w = []"
| "trace f (ev # evs) w = f ev w @ trace f evs (writer_step ev w)"

definition is_prune :: "writer_event \<Rightarrow> bool" where
  "is_prune ev \<longleftrightarrow> (case ev of Pruned x \<Rightarrow> True | _ \<Rightarrow> False)"

definition is_submission :: "writer_event \<Rightarrow> bool" where
  "is_submission ev \<longleftrightarrow> (case ev of Submitted now s \<Rightarrow> True | _ \<Rightarrow> False)"

lemma deleteOld_fields [simp]:
  "mw_queue (deleteOld x w) = mw_queue w" "mw_stopped (deleteOld x w) = mw_stopped w" "mw_ran (deleteOld x w) = mw_ran w"
  "mw_done (deleteOld x w) = mw_done w" "mw_droppedTotal (deleteOld x w) = mw_droppedTotal w"
  "mw_written (deleteOld x w) = mw_written w" "mw_failed (deleteOld x w) = mw_failed w"
  by (simp_all add: deleteOld_def Let_def split: prod.split)

lemmas writer_step_defs = writer_step_def cleanup_tick_def take_sample_def Submit_def

lemma step_queue: "mw_queue w @ accepted ev w = map fst (processed ev w) @ mw_queue (writer_step ev w)"
  by (simp add: accepted_def processed_def writer_step_defs split: writer_event.split list.split)

lemma step_db:
  "\<not> is_prune ev \<Longrightarrow> mw_db (writer_step ev w) = fold store_sample (map fst (filter snd (processed ev w))) (mw_db w)"
  by (auto simp: processed_def writer_step_defs is_prune_def persist_db split: writer_event.splits list.split)

definition settled :: "metrics_writer \<Rightarrow> 64 word" where
  "settled w = mw_droppedTotal w + mw_written w + mw_failed w + of_nat (length (mw_queue w))"

lemma step_settled: "settled (writer_step ev w) = settled w + (if is_submission ev then 1 else 0)"
proof (cases ev)
  case (Taken x)
  then show ?thesis
    using persist_counts[of x "hd (mw_queue w)" "w\<lparr>mw_queue := tl (mw_queue w)\<rparr>"]
    by (cases "mw_queue w") (simp_all add: settled_def writer_step_defs is_submission_def algebra_simps)
qed (simp_all add: settled_def writer_step_defs is_submission_def)

lemma run_queue:
  "mw_queue w @ trace accepted evs w = map fst (trace processed evs w) @ mw_queue (fold writer_step evs w)"
proof (induction evs arbitrary: w)
  case Nil
  then show ?case by simp
next
  case (Cons ev evs)
  have "mw_queue w @ trace accepted (ev # evs) w = (mw_queue w @ accepted ev w) @ trace accepted evs (writer_step ev w)"
    by simp
  also have "\<dots> = map fst (processed ev w) @ mw_queue (writer_step ev w) @ trace accepted evs (writer_step ev w)"
    by (simp add: step_queue)
  finally show ?case by (simp add: Cons.IH)
qed

lemma run_db:
  "filter is_prune evs = [] \<Longrightarrow> mw_db (fold writer_step evs w)
    = fold store_sample (map fst (filter snd (trace processed evs w))) (mw_db w)"
  by (induction evs arbitrary: w) (auto simp: step_db split: if_splits)

lemma run_settled: "settled (fold writer_step evs w) = settled w + of_nat (length (filter is_submission evs))"
  by (induction evs arbitrary: w) (auto simp: step_settled)

lemma step_bound: "length (mw_queue w) \<le> queue_capacity \<Longrightarrow> length (mw_queue (writer_step ev w)) \<le> queue_capacity"
  by (auto simp: writer_step_defs split: writer_event.split list.split)

lemma done_empty_step: "mw_done w \<longrightarrow> mw_stopped w \<and> mw_queue w = [] \<Longrightarrow>
  mw_done (writer_step ev w) \<longrightarrow> mw_stopped (writer_step ev w) \<and> mw_queue (writer_step ev w) = []"
  by (auto simp: writer_step_defs active_def split: writer_event.split list.split)

lemma done_empty: "mw_done w \<longrightarrow> mw_stopped w \<and> mw_queue w = [] \<Longrightarrow>
  mw_done (fold writer_step evs w) \<longrightarrow> mw_stopped (fold writer_step evs w) \<and> mw_queue (fold writer_step evs w) = []"
  by (rule fold_preserves[where P = "\<lambda>w. mw_done w \<longrightarrow> mw_stopped w \<and> mw_queue w = []"]) (rule done_empty_step)


text \<open>
  No sample is lost silently: at any time the samples submitted are those dropped and counted,
  written, failed and counted, or still queued (as 64-bit counters), and the queue holds at most 256.
\<close>

theorem every_sample_is_accounted:
  "(of_nat (length (filter is_submission evs)) :: 64 word)
      = settled (fold writer_step evs (NewMetricsWriter db retention))
    \<and> length (mw_queue (fold writer_step evs (NewMetricsWriter db retention))) \<le> queue_capacity"
proof
  show "of_nat (length (filter is_submission evs)) = settled (fold writer_step evs (NewMetricsWriter db retention))"
    by (simp add: run_settled) (simp add: settled_def NewMetricsWriter_def)
  have "length (mw_queue (NewMetricsWriter db retention)) \<le> queue_capacity" by (simp add: NewMetricsWriter_def)
  then show "length (mw_queue (fold writer_step evs (NewMetricsWriter db retention))) \<le> queue_capacity"
    by (rule fold_preserves[where P = "\<lambda>w. length (mw_queue w) \<le> queue_capacity", rotated]) (rule step_bound)
qed

text \<open>The shutdown ends: once cancelled, as many writes as there are samples queued empty the queue.\<close>

lemma shutdown_ends:
  "active w \<Longrightarrow> mw_stopped w \<Longrightarrow> length xs = length (mw_queue w)
    \<Longrightarrow> mw_done (fold writer_step (map Taken xs @ [Drained]) w)"
proof (induction xs arbitrary: w)
  case Nil
  then show ?case by (simp add: writer_step_def)
next
  case (Cons x xs)
  then obtain s rest where "mw_queue w = s # rest" by (cases "mw_queue w") auto
  with Cons.prems have "active (writer_step (Taken x) w)" "mw_stopped (writer_step (Taken x) w)"
      "length xs = length (mw_queue (writer_step (Taken x) w))"
    by (simp_all add: writer_step_defs active_def)
  then show ?case using Cons.IH by simp
qed

section \<open>Retention\<close>

lemma filter_nths_others:
  "(\<And>i. i \<in> S \<Longrightarrow> i < length xs \<Longrightarrow> \<not> P (xs ! i)) \<Longrightarrow> filter P (nths xs (- S)) = filter P xs"
proof (induction xs arbitrary: S)
  case Nil
  then show ?case by simp
next
  case (Cons x xs)
  have "filter P (nths xs (- {j. Suc j \<in> S})) = filter P xs"
    using Cons.prems[of "Suc _"] by (intro Cons.IH) auto
  moreover have "0 \<in> S \<Longrightarrow> \<not> P x" using Cons.prems[of 0] by simp
  moreover have "{j. Suc j \<notin> S} = - {j. Suc j \<in> S}" by auto
  ultimately show ?case by (simp add: nths_Cons)
qed

lemma length_nths_others:
  assumes "S \<subseteq> {..<length xs}"
  shows "length (nths xs (- S)) + card S = length xs"
proof -
  have "length (nths xs (- S)) = card ({..<length xs} - S)"
    by (simp add: length_nths) (rule arg_cong[of _ _ card], auto)
  moreover have "card S \<le> length xs" using card_mono[OF _ assms] by simp
  ultimately show ?thesis using assms by (simp add: card_Diff_subset finite_subset)
qed

text \<open>What the subselect of the delete yields: different expired rows, as many as there are up to the limit.\<close>

definition picks :: "(nat list \<Rightarrow> nat list) \<Rightarrow> bool" where
  "picks pick \<longleftrightarrow> (\<forall>l. distinct l \<longrightarrow> set (pick l) \<subseteq> set l \<and> distinct (pick l) \<and> length (pick l) = min prune_batch (length l))"

lemma length_expired: "length (expired c rows) = length (filter (\<lambda>r. mr_ts r < c) rows)"
proof -
  have "filter (\<lambda>r. mr_ts r < c) rows = map ((!) rows) (expired c rows)"
    unfolding expired_def by (metis (no_types, lifting) filter_map map_nth comp_apply filter_cong)
  then show ?thesis by simp
qed

lemma prune_table_effect:
  assumes "picks pick"
  shows "filter (\<lambda>r. c \<le> mr_ts r) (prune_table pick c rows) = filter (\<lambda>r. c \<le> mr_ts r) rows"
    "length (expired c (prune_table pick c rows)) = length (expired c rows) - prune_batch"
proof -
  let ?S = "set (pick (expired c rows))"
  have S: "?S \<subseteq> set (expired c rows)" "card ?S = min prune_batch (length (expired c rows))"
    using assms[unfolded picks_def, rule_format, of "expired c rows"]
    by (simp_all add: expired_def distinct_card)
  show kept: "filter (\<lambda>r. c \<le> mr_ts r) (prune_table pick c rows) = filter (\<lambda>r. c \<le> mr_ts r) rows"
    unfolding prune_table_def using S(1) by (intro filter_nths_others) (auto simp: expired_def)
  have "length (prune_table pick c rows) + card ?S = length rows"
    unfolding prune_table_def using S(1) by (intro length_nths_others) (auto simp: expired_def)
  moreover have "length (expired c rs) + length (filter (\<lambda>r. c \<le> mr_ts r) rs) = length rs" for rs
    using sum_length_filter_compl[of "\<lambda>r. mr_ts r < c" rs] by (simp add: length_expired not_less)
  from this[of rows] this[of "prune_table pick c rows"]
  have "length (expired c rows) + length (filter (\<lambda>r. c \<le> mr_ts r) rows) = length rows"
    "length (expired c (prune_table pick c rows)) + length (filter (\<lambda>r. c \<le> mr_ts r) rows) = length (prune_table pick c rows)"
    by (simp_all add: kept)
  ultimately show "length (expired c (prune_table pick c rows)) = length (expired c rows) - prune_batch"
    using S(2) by linarith
qed

lemma deleteOld_db: "mw_db (deleteOld x w) = (let c = Unix (pw_now x - mw_retention w) in
    \<lparr>db_server = fst (delete_from x c ''server_metrics'' (db_server (mw_db w))),
     db_env = fst (delete_from x c ''env_metrics'' (db_env (mw_db w))),
     db_bridge = fst (delete_from x c ''mqtt_bridge_metrics'' (db_bridge (mw_db w)))\<rparr>)"
  by (simp add: deleteOld_def Let_def split: prod.split)

definition named_tables :: "metrics_db \<Rightarrow> (string \<times> metric_row list) list" where
  "named_tables db = [(''server_metrics'', db_server db), (''env_metrics'', db_env db),
     (''mqtt_bridge_metrics'', db_bridge db)]"

text \<open>
  A prune deletes only what has expired, and makes progress: every table keeps its rows of the
  retention period in order, and loses ten thousand of its older rows, or all of them if there are
  fewer, unless its deletion failed, and then it keeps them all.
\<close>

theorem prune_removes_only_expired_rows:
  assumes "picks (pw_pick x)" "cutoff = Unix (pw_now x - mw_retention w)"
  shows "list_all2 (\<lambda>(name, old) (_, new). filter (\<lambda>r. cutoff \<le> mr_ts r) new = filter (\<lambda>r. cutoff \<le> mr_ts r) old
      \<and> length (expired cutoff new) = length (expired cutoff old) - (if pw_fails x name then 0 else prune_batch))
    (named_tables (mw_db w)) (named_tables (mw_db (deleteOld x w)))"
proof -
  have "filter (\<lambda>r. cutoff \<le> mr_ts r) (fst (delete_from x cutoff n t)) = filter (\<lambda>r. cutoff \<le> mr_ts r) t
      \<and> length (expired cutoff (fst (delete_from x cutoff n t)))
        = length (expired cutoff t) - (if pw_fails x n then 0 else prune_batch)" for n t
    by (simp add: delete_from_def Let_def prune_table_effect[OF assms(1)])
  then show ?thesis
    by (simp add: named_tables_def deleteOld_db assms(2)[symmetric] Let_def)
qed

section \<open>Examples\<close>

definition example_sample :: "gotime \<Rightarrow> metric_sample" where
  "example_sample t = \<lparr>sa_Timestamp = t, sa_Env = ''e'', sa_ServerCount = 1, sa_HealthyCount = 1, sa_ConnectionCount = 2,
     sa_InMsgsRate = Fin 0, sa_OutMsgsRate = Fin 0, sa_InBytesRate = Fin 0, sa_OutBytesRate = Fin 0,
     sa_Subscriptions = 3, sa_Servers = [], sa_MQTTBridges = []\<rparr>"

definition example_write :: "string option \<Rightarrow> write_world" where
  "example_write e = \<lparr>ww_quoted = (\<lambda>s. s), ww_fault = (\<lambda>_. e), ww_start = 0, ww_end = 1\<rparr>"

definition example_history :: "writer_event list" where
  "example_history = [RunCalled, Submitted 1 (example_sample 5), Submitted 2 (example_sample 6),
     Taken (example_write None), Cancelled, Submitted 3 (example_sample 7),
     Taken (example_write (Some ''database is locked'')), Drained]"


definition example_prune :: prune_world where
  "example_prune = \<lparr>pw_start = 0, pw_now = 24 * 60 * minute + 100 * second, pw_end = 1, pw_fails = (\<lambda>_. False),
     pw_pick = take prune_batch, pw_vacuum_fails = False\<rparr>"

lemma prune_removes_only_expired_rows_witness:
  "filter (\<lambda>r. 100 \<le> mr_ts r) (db_env (mw_db (deleteOld example_prune
      (NewMetricsWriter \<lparr>db_server = [], db_env = [env_row (example_sample (99 * second)), env_row (example_sample (100 * second))],
         db_bridge = []\<rparr> [])))) = [env_row (example_sample (100 * second))]"
proof -
  have p: "picks (pw_pick example_prune)"
    by (auto simp: picks_def example_prune_def dest: in_set_takeD)
  show ?thesis
    using prune_removes_only_expired_rows[OF p, of 100 "NewMetricsWriter \<lparr>db_server = [], db_env =
        [env_row (example_sample (99 * second)), env_row (example_sample (100 * second))], db_bridge = []\<rparr> []"]
    by (simp add: named_tables_def NewMetricsWriter_def example_prune_def Unix_def second_def minute_def
        env_row_def example_sample_def)
qed

end
