(* ===== verification/WsHub.thy ===== *)
theory WsHub
  imports Queues
begin

text \<open>
  Live viewers: the hub of \<^verbatim>\<open>internal/ws/hub.go\<close> and the clients of \<^verbatim>\<open>internal/ws/client.go\<close>.
  Clients are shared objects, so the state keeps them in a heap under their identity and the
  hub's set is the list \<open>registered\<close>. Preparing a frame (JSON and framing) is the caller's; a
  failed one is \<open>None\<close>. A network read or write is an event whose result the step is given.
\<close>

section \<open>State\<close>

definition sendBufLen :: nat where
  "sendBufLen = 64"

definition maxConsecutiveDrops :: "64 word" where
  "maxConsecutiveDrops = 2 * of_nat sendBufLen"

record 'm client =
  send :: "'m list"
  env :: string
  dropped :: "64 word"
  consecutiveDrops :: "64 word"
  client_done :: bool

record 'm hub =
  heap :: "nat \<Rightarrow> 'm client"
  registered :: "nat list"
  hub_dropped :: "64 word"
  subscribed :: "64 word"
  disconnects :: "64 word"
  writeFailures :: "64 word"

definition NewClient :: "'m client" where
  "NewClient = \<lparr>send = [], env = [], dropped = 0, consecutiveDrops = 0, client_done = False\<rparr>"

definition NewHub :: "'m hub" where
  "NewHub = \<lparr>heap = (\<lambda>_. NewClient), registered = [], hub_dropped = 0, subscribed = 0,
    disconnects = 0, writeFailures = 0\<rparr>"

definition upd_client :: "nat \<Rightarrow> ('m client \<Rightarrow> 'm client) \<Rightarrow> 'm hub \<Rightarrow> 'm hub" where
  "upd_client c f h = h\<lparr>heap := (heap h)(c := f (heap h c))\<rparr>"

section \<open>Operations of a client\<close>

definition teardown :: "'m client \<Rightarrow> 'm client" where
  "teardown cl = cl\<lparr>client_done := True\<rparr>"

definition markDropped :: "nat \<Rightarrow> 'm hub \<Rightarrow> 'm hub" where
  "markDropped c h =
    (let h1 = h\<lparr>hub_dropped := hub_dropped h + 1\<rparr>
     in upd_client c (\<lambda>cl.
          let cl1 = cl\<lparr>dropped := dropped cl + 1, consecutiveDrops := consecutiveDrops cl + 1\<rparr>
          in if consecutiveDrops cl1 \<ge> maxConsecutiveDrops then teardown cl1 else cl1) h1)"

definition noteDelivered :: "'m client \<Rightarrow> 'm client" where
  "noteDelivered cl = cl\<lparr>consecutiveDrops := 0\<rparr>"

definition deliver :: "nat \<Rightarrow> 'm \<Rightarrow> 'm hub \<Rightarrow> 'm hub" where
  "deliver c pm h =
    (if length (send (heap h c)) < sendBufLen
     then upd_client c (\<lambda>cl. noteDelivered (cl\<lparr>send := send cl @ [pm]\<rparr>)) h
     else markDropped c h)"

section \<open>Operations of the hub\<close>

definition SendTo :: "nat \<Rightarrow> 'm option \<Rightarrow> 'm hub \<Rightarrow> 'm hub" where
  "SendTo c pm h = (case pm of None \<Rightarrow> h | Some m \<Rightarrow> deliver c m h)"

definition Register :: "nat \<Rightarrow> 'm hub \<Rightarrow> 'm hub" where
  "Register c h = h\<lparr>registered := List.insert c (registered h)\<rparr>"

definition Unregister :: "nat \<Rightarrow> 'm hub \<Rightarrow> 'm hub" where
  "Unregister c h =
    (let existed = c \<in> set (registered h);
         h1 = h\<lparr>registered := removeAll c (registered h)\<rparr>
     in if existed then h1\<lparr>disconnects := disconnects h1 + 1\<rparr> else h1)"

definition Broadcast :: "string \<Rightarrow> 'm option \<Rightarrow> 'm hub \<Rightarrow> 'm hub" where
  "Broadcast e pm h = (case pm of
      None \<Rightarrow> h
    | Some m \<Rightarrow> fold (\<lambda>c h. if env (heap h c) = e then deliver c m h else h) (registered h) h)"

definition ClientCount :: "'m hub \<Rightarrow> nat" where
  "ClientCount h = length (registered h)"

definition DroppedTotal :: "'m hub \<Rightarrow> 64 word" where
  "DroppedTotal h = hub_dropped h"

definition StaleClientCount :: "'m hub \<Rightarrow> nat" where
  "StaleClientCount h = length (filter (\<lambda>c. dropped (heap h c) > 0) (registered h))"

record ws_stats =
  st_Connected :: nat
  st_Dropped :: "64 word"
  st_Subscriptions :: "64 word"
  st_Disconnects :: "64 word"
  st_WriteFailures :: "64 word"
  st_SendQueueDepth :: nat

definition Stats :: "'m hub \<Rightarrow> ws_stats" where
  "Stats h = \<lparr>st_Connected = length (registered h), st_Dropped = hub_dropped h,
     st_Subscriptions = subscribed h, st_Disconnects = disconnects h,
     st_WriteFailures = writeFailures h,
     st_SendQueueDepth = sum_list (map (\<lambda>c. length (send (heap h c))) (registered h))\<rparr>"

section \<open>The pumps\<close>

text \<open>
  One turn of the read pump: a subscription (with the frames that the hub's subscribe hook sends
  to the new subscriber), another message, or a read error, which ends the pump. One turn of the
  write pump: a queued frame or a ping, each write with its success. (The pump may still pick a
  queued frame when the teardown signal is up, so a write is possible in every state.)
\<close>

definition read_message :: "(string \<Rightarrow> 'm option list) \<Rightarrow> nat \<Rightarrow> string option \<Rightarrow> 'm hub \<Rightarrow> 'm hub" where
  "read_message hook c msg h = (case msg of
      None \<Rightarrow> h
    | Some e \<Rightarrow>
        if e = [] then h
        else
          let h1 = upd_client c (\<lambda>cl. cl\<lparr>env := e\<rparr>) h;
              h2 = h1\<lparr>subscribed := subscribed h1 + 1\<rparr>
          in fold (\<lambda>pm h. SendTo c pm h) (hook e) h2)"

definition read_error :: "nat \<Rightarrow> 'm hub \<Rightarrow> 'm hub" where
  "read_error c h = upd_client c teardown (Unregister c h)"

definition write_queued :: "nat \<Rightarrow> bool \<Rightarrow> 'm hub \<Rightarrow> 'm option \<times> 'm hub" where
  "write_queued c ok h = (case send (heap h c) of
      [] \<Rightarrow> (None, h)
    | pm # rest \<Rightarrow>
        let h1 = upd_client c (\<lambda>cl. cl\<lparr>send := rest\<rparr>) h
        in if ok then (Some pm, h1)
           else (None, upd_client c teardown (h1\<lparr>writeFailures := writeFailures h1 + 1\<rparr>)))"

definition write_ping :: "nat \<Rightarrow> bool \<Rightarrow> 'm hub \<Rightarrow> 'm hub" where
  "write_ping c ok h =
    (if ok then h else upd_client c teardown (h\<lparr>writeFailures := writeFailures h + 1\<rparr>))"

inductive hub_step :: "(string \<Rightarrow> 'm option list) \<Rightarrow> 'm hub \<Rightarrow> 'm hub \<Rightarrow> bool"
  for hook :: "string \<Rightarrow> 'm option list"
where
  step_register: "hub_step hook h (Register c h)"
| step_message: "hub_step hook h (read_message hook c msg h)"
| step_read_error: "hub_step hook h (read_error c h)"
| step_write: "hub_step hook h (snd (write_queued c ok h))"
| step_ping: "hub_step hook h (write_ping c ok h)"
| step_broadcast: "hub_step hook h (Broadcast e pm h)"

inductive_cases hub_stepE: "hub_step hook h h'"

inductive reachable :: "(string \<Rightarrow> 'm option list) \<Rightarrow> 'm hub \<Rightarrow> bool"
  for hook :: "string \<Rightarrow> 'm option list"
where
  reach_init: "reachable hook NewHub"
| reach_step: "reachable hook h \<Longrightarrow> hub_step hook h h' \<Longrightarrow> reachable hook h'"

section \<open>Invariant of the clients\<close>

definition client_ok :: "'m client \<Rightarrow> bool" where
  "client_ok cl \<longleftrightarrow> length (send cl) \<le> sendBufLen
    \<and> (maxConsecutiveDrops \<le> consecutiveDrops cl \<longrightarrow> client_done cl)"

definition hub_ok :: "'m hub \<Rightarrow> bool" where
  "hub_ok h \<longleftrightarrow> (\<forall>c. client_ok (heap h c)) \<and> distinct (registered h)"

text \<open>
  The account of drops: the hub's total is the sum over every client there ever was, whether
  still registered or not.
\<close>

definition drops_accounted :: "'m hub \<Rightarrow> bool" where
  "drops_accounted h \<longleftrightarrow> (\<exists>S. finite S \<and> (\<forall>c. c \<notin> S \<longrightarrow> dropped (heap h c) = 0)
    \<and> hub_dropped h = (\<Sum>c\<in>S. dropped (heap h c)))"

lemma upd_client_simps [simp]:
  "heap (upd_client c f h) = (heap h)(c := f (heap h c))"
  "registered (upd_client c f h) = registered h" "hub_dropped (upd_client c f h) = hub_dropped h"
  "subscribed (upd_client c f h) = subscribed h" "disconnects (upd_client c f h) = disconnects h"
  "writeFailures (upd_client c f h) = writeFailures h"
  by (simp_all add: upd_client_def)

lemma deliver_other [simp]: "d \<noteq> c \<Longrightarrow> heap (deliver c m h) d = heap h d"
  by (simp add: deliver_def markDropped_def Let_def)

lemma deliver_env [simp]: "env (heap (deliver c m h) d) = env (heap h d)"
  by (auto simp: deliver_def markDropped_def Let_def noteDelivered_def teardown_def)

lemma deliver_registered [simp]: "registered (deliver c m h) = registered h"
  by (simp add: deliver_def markDropped_def Let_def)

lemma deliver_local: "heap h c = heap h' c \<Longrightarrow> heap (deliver c m h) c = heap (deliver c m h') c"
  by (simp add: deliver_def markDropped_def Let_def)

lemma deliver_ok [wf_intros]: "hub_ok h \<Longrightarrow> hub_ok (deliver c m h)"
  by (auto simp: hub_ok_def client_ok_def deliver_def markDropped_def Let_def noteDelivered_def
      teardown_def maxConsecutiveDrops_def sendBufLen_def)

lemma drops_accounted_same:
  assumes "drops_accounted h" "\<And>d. dropped (heap h' d) = dropped (heap h d)" "hub_dropped h' = hub_dropped h"
  shows "drops_accounted h'"
  using assms by (simp add: drops_accounted_def)

lemma drops_accounted_one:
  assumes "drops_accounted h" "dropped (heap h' c) = dropped (heap h c) + 1"
    "\<And>d. d \<noteq> c \<Longrightarrow> dropped (heap h' d) = dropped (heap h d)" "hub_dropped h' = hub_dropped h + 1"
  shows "drops_accounted h'"
proof -
  obtain S where S: "finite S" "\<And>c. c \<notin> S \<Longrightarrow> dropped (heap h c) = 0"
    "hub_dropped h = (\<Sum>c\<in>S. dropped (heap h c))" using assms(1) by (auto simp: drops_accounted_def)
  have "(\<Sum>d\<in>insert c S. dropped (heap h d)) = (\<Sum>d\<in>S. dropped (heap h d))"
    using S by (cases "c \<in> S") (auto simp: insert_absorb)
  moreover have "(\<Sum>d\<in>insert c S. dropped (heap h' d))
      = dropped (heap h' c) + (\<Sum>d\<in>S - {c}. dropped (heap h d))"
    using S(1) assms(3) by (simp add: sum.insert_remove)
  moreover have "(\<Sum>d\<in>insert c S. dropped (heap h d))
      = dropped (heap h c) + (\<Sum>d\<in>S - {c}. dropped (heap h d))"
    using S(1) by (simp add: sum.insert_remove)
  ultimately have "hub_dropped h' = (\<Sum>d\<in>insert c S. dropped (heap h' d))"
    using assms(2,4) S(3) by simp
  then show ?thesis unfolding drops_accounted_def
    using S assms(3) by (intro exI[of _ "insert c S"]) auto
qed

lemma deliver_accounted [wf_intros]: "drops_accounted h \<Longrightarrow> drops_accounted (deliver c m h)"
proof (cases "length (send (heap h c)) < sendBufLen")
  case True
  then show "drops_accounted h \<Longrightarrow> drops_accounted (deliver c m h)"
    by (elim drops_accounted_same) (auto simp: deliver_def noteDelivered_def)
next
  case False
  then show "drops_accounted h \<Longrightarrow> drops_accounted (deliver c m h)"
    by (elim drops_accounted_one[where c = c])
      (auto simp: deliver_def markDropped_def Let_def teardown_def)
qed

lemma SendTo_ok: "hub_ok h \<and> drops_accounted h \<Longrightarrow> hub_ok (SendTo c pm h) \<and> drops_accounted (SendTo c pm h)"
  by (auto simp: SendTo_def deliver_ok deliver_accounted split: option.split)

lemma Broadcast_ok: "hub_ok h \<and> drops_accounted h \<Longrightarrow> hub_ok (Broadcast e pm h) \<and> drops_accounted (Broadcast e pm h)"
  by (cases pm, simp add: Broadcast_def, simp add: Broadcast_def,
      rule fold_preserves[where P = "\<lambda>h. hub_ok h \<and> drops_accounted h"])
    (auto simp: deliver_ok deliver_accounted)

lemma read_message_ok:
  assumes "hub_ok h \<and> drops_accounted h"
  shows "hub_ok (read_message hook c msg h) \<and> drops_accounted (read_message hook c msg h)"
proof (cases "msg = None \<or> msg = Some []")
  case False
  then obtain e where e: "msg = Some e" "e \<noteq> []" by auto
  let ?h = "(upd_client c (\<lambda>cl. cl\<lparr>env := e\<rparr>) h)\<lparr>subscribed := subscribed h + 1\<rparr>"
  have "hub_ok ?h \<and> drops_accounted ?h"
    using assms by (auto simp: hub_ok_def client_ok_def intro: drops_accounted_same)
  then have "hub_ok (fold (\<lambda>pm h. SendTo c pm h) (hook e) ?h)
      \<and> drops_accounted (fold (\<lambda>pm h. SendTo c pm h) (hook e) ?h)"
    by (rule fold_preserves[where P = "\<lambda>h. hub_ok h \<and> drops_accounted h", rotated]) (rule SendTo_ok)
  then show ?thesis using e by (simp add: read_message_def Let_def)
qed (use assms in \<open>auto simp: read_message_def\<close>)

lemma Register_ok: "hub_ok h \<and> drops_accounted h \<Longrightarrow> hub_ok (Register c h) \<and> drops_accounted (Register c h)"
  by (auto simp: hub_ok_def Register_def intro: drops_accounted_same)

lemma read_error_ok:
  "hub_ok h \<and> drops_accounted h \<Longrightarrow> hub_ok (read_error c h) \<and> drops_accounted (read_error c h)"
  by (auto simp: hub_ok_def client_ok_def read_error_def Unregister_def Let_def teardown_def
      distinct_removeAll intro: drops_accounted_same)

lemma write_queued_ok:
  assumes "hub_ok h \<and> drops_accounted h"
  shows "hub_ok (snd (write_queued c ok h)) \<and> drops_accounted (snd (write_queued c ok h))"
proof (cases "send (heap h c)")
  case (Cons pm rest)
  with assms have "length rest \<le> sendBufLen" unfolding hub_ok_def client_ok_def
    by (metis Suc_leD length_Cons)
  with Cons assms show ?thesis
    by (auto simp: hub_ok_def client_ok_def write_queued_def Let_def teardown_def
        intro: drops_accounted_same)
qed (use assms in \<open>simp add: write_queued_def\<close>)

lemma write_ping_ok:
  "hub_ok h \<and> drops_accounted h \<Longrightarrow> hub_ok (write_ping c ok h) \<and> drops_accounted (write_ping c ok h)"
  by (auto simp: hub_ok_def client_ok_def write_ping_def teardown_def intro: drops_accounted_same)

lemmas hub_ops_ok = Register_ok read_message_ok read_error_ok write_queued_ok write_ping_ok Broadcast_ok

lemma hub_step_ok:
  "hub_step hook h h' \<Longrightarrow> hub_ok h \<and> drops_accounted h \<Longrightarrow> hub_ok h' \<and> drops_accounted h'"
  by (elim hub_stepE) (simp_all only: hub_ops_ok)

lemma reachable_ok: "reachable hook h \<Longrightarrow> hub_ok h \<and> drops_accounted h"
proof (induction rule: reachable.induct)
  case reach_init
  show ?case
    by (auto simp: NewHub_def NewClient_def hub_ok_def client_ok_def drops_accounted_def
        maxConsecutiveDrops_def sendBufLen_def)
next
  case (reach_step h h')
  then show ?case using hub_step_ok by blast
qed

text \<open>
  C15. In every reachable state of the hub each viewer's outgoing queue is within its 64 frames, no
  viewer that has missed 128 broadcasts in a row is still open, no client is registered twice, and
  the total of dropped messages is the sum over all clients ever seen, gone ones included.
\<close>

theorem hub_reachable_invariant:
  assumes "reachable hook h"
  shows "length (send (heap h c)) \<le> 64
    \<and> (128 \<le> consecutiveDrops (heap h c) \<longrightarrow> client_done (heap h c))
    \<and> distinct (registered h) \<and> drops_accounted h"
  using reachable_ok[OF assms] by (auto simp: hub_ok_def client_ok_def sendBufLen_def maxConsecutiveDrops_def)

section \<open>Broadcasts\<close>

lemma fold_deliver_heap:
  assumes "distinct cs"
  shows "heap (fold (\<lambda>c h. if env (heap h c) = e then deliver c m h else h) cs h) d
    = (if d \<in> set cs \<and> env (heap h d) = e then heap (deliver d m h) d else heap h d)"
  using assms
proof (induction cs arbitrary: h)
  case (Cons c cs)
  let ?h = "if env (heap h c) = e then deliver c m h else h"
  have "d \<in> set cs \<Longrightarrow> heap ?h d = heap h d" using Cons.prems by (cases "d = c") auto
  then have "d \<in> set cs \<Longrightarrow> heap (deliver d m ?h) d = heap (deliver d m h) d"
    by (rule deliver_local)
  with Cons show ?case by (cases "d = c") auto
qed simp

text \<open>
  A broadcast reaches the registered viewers of its environment and nobody else: each of
  those gets the frame at the end of its queue, or one more recorded drop when the queue is
  full, and every other client's state is what it was.
\<close>

theorem broadcast_isolation:
  assumes "reachable hook h"
  shows "heap (Broadcast e (Some m) h) d =
    (let cl = heap h d in
     if d \<notin> set (registered h) \<or> env cl \<noteq> e then cl
     else if length (send cl) < 64 then cl\<lparr>send := send cl @ [m], consecutiveDrops := 0\<rparr>
     else cl\<lparr>dropped := dropped cl + 1, consecutiveDrops := consecutiveDrops cl + 1,
             client_done := client_done cl \<or> 128 \<le> consecutiveDrops cl + 1\<rparr>)"
proof -
  have "distinct (registered h)" using reachable_ok[OF assms] by (simp add: hub_ok_def)
  from fold_deliver_heap[OF this, of e m h d] show ?thesis
    by (auto simp: Broadcast_def Let_def deliver_def markDropped_def noteDelivered_def teardown_def
        sendBufLen_def maxConsecutiveDrops_def)
qed

definition hub_example :: "nat hub" where
  "hub_example = Register 1 NewHub"

lemma hub_example_reachable: "reachable hook hub_example"
  unfolding hub_example_def by (intro reach_step[OF reach_init] step_register)

lemma broadcast_isolation_witness:
  "heap (Broadcast [] (Some 7) hub_example) 1 = NewClient\<lparr>send := [7]\<rparr>"
  using broadcast_isolation[OF hub_example_reachable[of "\<lambda>_. []"], of "[]" 7 1]
  by (simp add: hub_example_def Register_def NewHub_def NewClient_def Let_def)

lemma hub_reachable_invariant_witness:
  "drops_accounted hub_example"
  using hub_reachable_invariant[OF hub_example_reachable[of "\<lambda>_. []"]] by simp

section \<open>A stuck viewer\<close>

lemma deliver_full:
  assumes "length (send (heap h c)) \<ge> sendBufLen"
  shows "heap (deliver c m h) c = (let cl = heap h c in
    cl\<lparr>dropped := dropped cl + 1, consecutiveDrops := consecutiveDrops cl + 1,
       client_done := client_done cl \<or> maxConsecutiveDrops \<le> consecutiveDrops cl + 1\<rparr>)"
  using assms by (auto simp: deliver_def markDropped_def Let_def teardown_def)

lemma deliver_run_full:
  assumes "length (send (heap h c)) \<ge> sendBufLen" "consecutiveDrops (heap h c) = 0"
    "\<not> client_done (heap h c)" "length ms \<le> 128"
  shows "send (heap (fold (deliver c) ms h) c) = send (heap h c)
    \<and> consecutiveDrops (heap (fold (deliver c) ms h) c) = of_nat (length ms)
    \<and> client_done (heap (fold (deliver c) ms h) c) = (length ms = 128)"
  using assms
proof (induction ms rule: rev_induct)
  case (snoc m ms)
  have le: "maxConsecutiveDrops \<le> (of_nat (length ms) + 1 :: 64 word) \<longleftrightarrow> 128 \<le> Suc (length ms)"
  proof -
    have "unat (of_nat (Suc (length ms)) :: 64 word) = Suc (length ms)"
      using snoc.prems(4) by (simp add: unat_of_nat del: of_nat_Suc)
    moreover have "(of_nat (length ms) + 1 :: 64 word) = of_nat (Suc (length ms))"
      by (simp add: add.commute)
    moreover have "unat (128 :: 64 word) = 128" "maxConsecutiveDrops = 128"
      by (simp_all add: maxConsecutiveDrops_def sendBufLen_def)
    ultimately show ?thesis by (simp only: word_le_nat_alt)
  qed
  from snoc show ?case by (auto simp: deliver_full Let_def le)
qed simp

text \<open>
  A viewer whose queue stays full is closed by the 128th missed message in a row, neither
  earlier nor later.
\<close>

theorem stuck_viewer_closed_at_128:
  assumes "length (send (heap h c)) \<ge> 64" "consecutiveDrops (heap h c) = 0"
    "\<not> client_done (heap h c)" "length ms \<le> 128"
  shows "client_done (heap (fold (deliver c) ms h) c) \<longleftrightarrow> length ms = 128"
  using deliver_run_full[of h c ms] assms by (simp add: sendBufLen_def)

lemma stuck_viewer_closed_at_128_witness:
  "client_done (heap (fold (deliver 1) (replicate 128 (0::nat))
     (NewHub\<lparr>heap := \<lambda>_. NewClient\<lparr>send := replicate 64 0\<rparr>\<rparr>)) 1)"
  by (subst stuck_viewer_closed_at_128) (simp_all add: NewClient_def)

section \<open>Order of frames\<close>

definition take_frame :: "nat \<Rightarrow> 'm hub \<Rightarrow> ('m \<times> 'm hub) option" where
  "take_frame c h = (case write_queued c True h of (Some pm, h') \<Rightarrow> Some (pm, h') | _ \<Rightarrow> None)"

lemma take_frame_eq:
  "take_frame c h = (case send (heap h c) of [] \<Rightarrow> None
     | pm # rest \<Rightarrow> Some (pm, upd_client c (\<lambda>cl. cl\<lparr>send := rest\<rparr>) h))"
  by (simp add: take_frame_def write_queued_def Let_def split: list.split)

interpretation viewer: bounded_queue "\<lambda>h. send (heap h c)" sendBufLen
    "\<lambda>h. length (send (heap h c)) \<le> sendBufLen" "deliver c" "take_frame c" for c
  by unfold_locales
    (auto simp: deliver_def markDropped_def Let_def noteDelivered_def teardown_def take_frame_eq
      split: list.splits)

text \<open>
  What a viewer is sent is, in order and without duplicates or gaps, what its queue accepted:
  over any interleaving of deliveries and successful writes, the frames written are a prefix of
  the frames accepted, and the rest is still queued.
\<close>

theorem viewer_frames_fifo:
  assumes "queue_run (\<lambda>h. send (heap h c)) sendBufLen (deliver c) (take_frame c) ops h = (acc, out, h')"
    "send (heap h c) = []"
  shows "acc = out @ send (heap h' c)"
  using viewer.run_fifo[of h c ops acc out h'] assms by simp

lemma viewer_frames_fifo_witness:
  "[1, 2] = [1] @ send (heap (snd (snd (queue_run (\<lambda>h. send (heap h 1)) sendBufLen (deliver 1)
     (take_frame 1) [Offer 1, Offer 2, Poll] (NewHub :: nat hub)))) 1)"
  by (rule viewer_frames_fifo[of 1 "[Offer 1, Offer 2, Poll]" NewHub])
    (simp_all add: take_frame_eq deliver_def NewHub_def NewClient_def sendBufLen_def noteDelivered_def)

end
