(* ===== verification/MetricSample.thy ===== *)
theory MetricSample
  imports Manager MetricsStoreProps WsHub
begin

text \<open>
  From a poll to the database and the viewers: \<^verbatim>\<open>BuildMetricSample\<close> of
  \<^verbatim>\<open>internal/collector/metrics_sample.go\<close> and the callbacks that \<^verbatim>\<open>cmd/machmqtt-dashboard/main.go\<close> hangs
  between the collectors, the hub and the metrics writer.
\<close>

section \<open>Building a sample\<close>

definition server_sample_of :: "snapshot \<Rightarrow> string \<times> varz \<Rightarrow> server_sample" where
  "server_sample_of snap iv =
    (let (i, v) = iv; r = (case map_of (Rates snap) i of None \<Rightarrow> zero_rates | Some r \<Rightarrow> r)
     in \<lparr>sv_ServerID = i, sv_Connections = v_Connections v, sv_InMsgs = v_InMsgs v, sv_OutMsgs = v_OutMsgs v,
         sv_InBytes = v_InBytes v, sv_OutBytes = v_OutBytes v, sv_CPU = v_CPU v, sv_Mem = v_Mem v,
         sv_Subscriptions = v_Subscriptions v, sv_SlowConsumers = v_SlowConsumers v, sv_Routes = v_Routes v,
         sv_LeafNodes = v_Leafs v, sv_InMsgsRate = sr_InMsgsRate r, sv_OutMsgsRate = sr_OutMsgsRate r,
         sv_InBytesRate = sr_InBytesRate r, sv_OutBytesRate = sr_OutBytesRate r, sv_Healthy = is_healthy snap i\<rparr>)"

text \<open>The sample of a bridge without a counter set, and what a counter set adds.\<close>

definition plain_bridge_sample :: "bridge_status bridge_instance \<Rightarrow> bridge_sample" where
  "plain_bridge_sample b =
    \<lparr>gb_BridgeID = (if bi_ConfiguredName b = [] then bi_IP b else bi_ConfiguredName b), gb_ConnectionsActive = 0,
     gb_InMsgsRate = bi_InMsgsRate b, gb_OutMsgsRate = bi_OutMsgsRate b, gb_InBytesRate = bi_InBytesRate b,
     gb_OutBytesRate = bi_OutBytesRate b, gb_MsgsRecvQoS0 = 0, gb_MsgsRecvQoS1 = 0, gb_MsgsSentQoS0 = 0,
     gb_MsgsSentQoS1 = 0, gb_MsgsRecvQoS2 = 0, gb_MsgsSentQoS2 = 0, gb_SessionWriteBehindDepth = 0,
     gb_ConsumerPendingMessages = None, gb_StalledConsumers = 0, gb_SocketsOpen = 0, gb_InflightOutMessages = 0,
     gb_OpQueueDepth = 0, gb_OpSuspendedConns = 0, gb_WorkerPoolQueueDepth = 0, gb_PoolSlotConnected = 0,
     gb_RetainedMessages = 0, gb_SubscriptionsActive = 0, gb_GoHeapInuseBytes = 0, gb_GoGoroutines = 0,
     gb_ScramSessionsActive = 0\<rparr>"

definition with_counters :: "mqtt_metrics \<Rightarrow> bridge_sample \<Rightarrow> bridge_sample" where
  "with_counters mx g = g\<lparr>
     gb_ConnectionsActive := m_int mx ''ConnectionsActive'', gb_MsgsRecvQoS0 := m_int mx ''MsgsRecvQoS0'',
     gb_MsgsRecvQoS1 := m_int mx ''MsgsRecvQoS1'', gb_MsgsSentQoS0 := m_int mx ''MsgsSentQoS0'',
     gb_MsgsSentQoS1 := m_int mx ''MsgsSentQoS1'', gb_MsgsRecvQoS2 := m_int mx ''MsgsRecvQoS2'',
     gb_MsgsSentQoS2 := m_int mx ''MsgsSentQoS2'', gb_SessionWriteBehindDepth := m_int mx ''SessionWriteBehindDepth'',
     gb_StalledConsumers := m_int mx ''StalledConsumers'',
     gb_ConsumerPendingMessages := (if 0 \<le> m_int mx ''ConsumerPendingMessages''
        then Some (m_int mx ''ConsumerPendingMessages'') else gb_ConsumerPendingMessages g),
     gb_SocketsOpen := m_int mx ''SocketsOpen'', gb_InflightOutMessages := m_int mx ''InflightOutMessages'',
     gb_OpQueueDepth := m_int mx ''OpQueueDepth'', gb_OpSuspendedConns := m_int mx ''OpSuspendedConns'',
     gb_WorkerPoolQueueDepth := m_int mx ''WorkerPoolQueueDepth'', gb_PoolSlotConnected := m_int mx ''PoolSlotConnected'',
     gb_RetainedMessages := m_int mx ''RetainedMessages'', gb_SubscriptionsActive := m_int mx ''SubscriptionsActive'',
     gb_GoHeapInuseBytes := m_int mx ''GoHeapInuseBytes'', gb_GoGoroutines := m_int mx ''GoGoroutines'',
     gb_ScramSessionsActive := m_int mx ''ScramSessionsActive''\<rparr>"

definition bridge_sample_of :: "bridge_status bridge_instance \<Rightarrow> bridge_sample" where
  "bridge_sample_of b = (case Option.bind (bi_Status b) bs_Metrics of
      None \<Rightarrow> plain_bridge_sample b
    | Some mx \<Rightarrow> with_counters mx (plain_bridge_sample b))"

definition BuildMetricSample :: "string \<Rightarrow> gotime \<Rightarrow> overview option \<Rightarrow> manager \<Rightarrow> metric_sample option" where
  "BuildMetricSample i ts ov g = (case ov of
      None \<Rightarrow> None
    | Some ov \<Rightarrow> Some \<lparr>sa_Timestamp = ts, sa_Env = i, sa_ServerCount = ServerCount ov, sa_HealthyCount = HealthyCount ov,
        sa_ConnectionCount = ConnectionCount ov, sa_InMsgsRate = InMsgsRate ov, sa_OutMsgsRate = OutMsgsRate ov,
        sa_InBytesRate = InBytesRate ov, sa_OutBytesRate = OutBytesRate ov, sa_Subscriptions = Subscriptions ov,
        sa_Servers = (case manager_Snapshot i g of None \<Rightarrow> [] | Some snap \<Rightarrow> map (server_sample_of snap) (Varz snap)),
        sa_MQTTBridges = map bridge_sample_of (manager_MQTTBridges i g)\<rparr>)"

section \<open>The callbacks of the program\<close>

text \<open>What is sent to a viewer; framing a message as JSON is a parameter and may fail.\<close>

datatype payload =
    OverviewPayload "overview option"
  | TopologyPayload "graph option"
  | HealthPayload "(string, health_status) gomap option"

type_synonym message = "string \<times> string \<times> payload"

definition cluster_messages :: "string \<Rightarrow> manager \<Rightarrow> message list" where
  "cluster_messages i g = [(i, ''overview'', OverviewPayload (manager_Overview i g)),
     (i, ''topology'', TopologyPayload (manager_Topology i g)), (i, ''health'', HealthPayload (manager_Health i g))]"

text \<open>After a poll: three broadcasts and a sample for the writer. When a viewer subscribes it gets the present state.\<close>

definition on_change :: "(message \<Rightarrow> 'm option) \<Rightarrow> string \<Rightarrow> gotime \<Rightarrow> gotime \<Rightarrow> manager \<Rightarrow> 'm hub \<times> metrics_writer
    \<Rightarrow> 'm hub \<times> metrics_writer" where
  "on_change prepare i ts now g s =
    (fold (\<lambda>m h. Broadcast i (prepare m) h) (cluster_messages i g) (fst s),
     case BuildMetricSample i ts (manager_Overview i g) g of
       None \<Rightarrow> snd s
     | Some sample \<Rightarrow> snd (Submit now sample (snd s)))"

definition subscribe_hook :: "(message \<Rightarrow> 'm option) \<Rightarrow> manager \<Rightarrow> string \<Rightarrow> 'm option list" where
  "subscribe_hook prepare g i = map prepare (cluster_messages i g)"

section \<open>What is recorded\<close>

lemma wrap64_add: "wrap64 (wrap64 a + b) = wrap64 (a + b)"
  by (simp add: wrap64_def mod_simps algebra_simps)

lemma wrap64_small [simp]: "wrap64 0 = 0"
  by (simp add: wrap64_def)

lemma fold_servers_totals:
  "ConnectionCount acc = wrap64 (ConnectionCount acc) \<Longrightarrow>
   ConnectionCount (fold (add_server s) vs acc)
     = wrap64 (ConnectionCount acc + sum_list (map (\<lambda>(i, v). v_Connections v) vs))
   \<and> Subscriptions (fold (add_server s) vs acc) = Subscriptions acc + sum_list (map (\<lambda>(i, v). v_Subscriptions v) vs)"
proof (induction vs arbitrary: acc)
  case Nil
  then show ?case by simp
next
  case (Cons p vs)
  obtain k v where p: "p = (k, v)" by (cases p)
  have c: "ConnectionCount (add_server s p acc) = wrap64 (ConnectionCount acc + v_Connections v)"
    "Subscriptions (add_server s p acc) = Subscriptions acc + v_Subscriptions v"
    by (simp_all add: add_server_def Let_def p)
  with Cons.IH[of "add_server s p acc"] show ?case
    using wrap64_add[of "ConnectionCount acc + v_Connections v"] wrap64_add[of "ConnectionCount acc + v_Connections v" 0]
    by (simp add: p algebra_simps)
qed

lemma fold_js_totals: "ConnectionCount (fold add_js js acc) = ConnectionCount acc
    \<and> Subscriptions (fold add_js js acc) = Subscriptions acc"
  by (induction js arbitrary: acc) (auto simp: add_js_def Let_def)

lemma buildOverview_totals:
  "ServerCount (buildOverview s) = int (length (Varz s))"
  "HealthyCount (buildOverview s) = int (length (filter (\<lambda>(i, v). is_healthy s i) (Varz s)))"
  "ConnectionCount (buildOverview s) = wrap64 (sum_list (map (\<lambda>(i, v). v_Connections v) (Varz s)))"
  "Subscriptions (buildOverview s) = sum_list (map (\<lambda>(i, v). v_Subscriptions v) (Varz s))"
  using fold_servers[of s "Varz s" empty_overview] fold_servers_totals[of empty_overview s "Varz s"]
    fold_js_same[of "JSInfo s" "fold (add_server s) (Varz s) empty_overview"]
    fold_js_totals[of "JSInfo s" "fold (add_server s) (Varz s) empty_overview"]
  by (simp_all add: buildOverview_def Let_def empty_overview_def)

text \<open>
  A recorded sample agrees with itself: the totals of a cluster that the program stores after a poll are
  those of the servers that it stores beside them - their number, the healthy ones among them, the sum
  of their connections and of their subscriptions - and every bridge that the fleet lists is stored.
\<close>

theorem recorded_sample_adds_up:
  assumes "BuildMetricSample i ts (manager_Overview i g) g = Some s"
  shows "sa_ServerCount s = int (length (sa_Servers s))
    \<and> sa_HealthyCount s = int (length (filter sv_Healthy (sa_Servers s)))
    \<and> sa_ConnectionCount s = wrap64 (sum_list (map sv_Connections (sa_Servers s)))
    \<and> sa_Subscriptions s = sum_list (map sv_Subscriptions (sa_Servers s))
    \<and> length (sa_MQTTBridges s) = length (manager_MQTTBridges i g)"
proof -
  obtain snap where snap: "manager_Snapshot i g = Some snap"
    using assms by (cases "manager_Snapshot i g") (simp_all add: manager_Overview_def BuildMetricSample_def)
  have row: "sv_Healthy (server_sample_of snap iv) = (case iv of (i, v) \<Rightarrow> is_healthy snap i)"
    "sv_Connections (server_sample_of snap iv) = (case iv of (i, v) \<Rightarrow> v_Connections v)"
    "sv_Subscriptions (server_sample_of snap iv) = (case iv of (i, v) \<Rightarrow> v_Subscriptions v)" for iv
    by (simp_all add: server_sample_of_def Let_def split: prod.split)
  have "sa_Servers s = map (server_sample_of snap) (Varz snap)" "sa_MQTTBridges s = map bridge_sample_of (manager_MQTTBridges i g)"
    "sa_ServerCount s = ServerCount (buildOverview snap)" "sa_HealthyCount s = HealthyCount (buildOverview snap)"
    "sa_ConnectionCount s = ConnectionCount (buildOverview snap)" "sa_Subscriptions s = Subscriptions (buildOverview snap)"
    using assms by (auto simp: manager_Overview_def snap BuildMetricSample_def)
  then show ?thesis by (simp add: buildOverview_totals row filter_map comp_def)
qed

definition example_manager :: manager where
  "example_manager = \<lparr>g_collectors = [(''a'', (newCollector example_environment (30 * second))
       \<lparr>k_snapshot := empty_snapshot\<lparr>Varz := [(''S'', zero_varz\<lparr>v_Connections := 3\<rparr>), (''T'', zero_varz\<lparr>v_Connections := 4\<rparr>)],
          Health := [(''T'', \<lparr>hs_Status = ''error'', hs_Error = []\<rparr>)]\<rparr>\<rparr>)],
     g_cancels = [], g_started = False, g_interval = 30 * second\<rparr>"

lemma recorded_sample_adds_up_witness:
  "sa_ConnectionCount (the (BuildMetricSample ''a'' 5 (manager_Overview ''a'' example_manager) example_manager)) = wrap64 7
    \<and> sa_HealthyCount (the (BuildMetricSample ''a'' 5 (manager_Overview ''a'' example_manager) example_manager)) = 1"
proof -
  have m: "manager_Snapshot ''a'' example_manager = Some (empty_snapshot
      \<lparr>Varz := [(''S'', zero_varz\<lparr>v_Connections := 3\<rparr>), (''T'', zero_varz\<lparr>v_Connections := 4\<rparr>)],
          Health := [(''T'', \<lparr>hs_Status = ''error'', hs_Error = []\<rparr>)]\<rparr>)" (is "_ = Some ?s")
    by (simp add: manager_Snapshot_def example_manager_def)
  then obtain s where s: "BuildMetricSample ''a'' 5 (manager_Overview ''a'' example_manager) example_manager = Some s"
    "sa_Servers s = map (server_sample_of ?s) (Varz ?s)"
    by (simp add: manager_Overview_def BuildMetricSample_def)
  from recorded_sample_adds_up[OF s(1)] show ?thesis
    by (simp add: s server_sample_of_def Let_def is_healthy_def empty_snapshot_def)
qed

end
