(* ===== verification/MetricsQuery.thy ===== *)
theory MetricsQuery
  imports MetricsStoreProps "HOL-Library.Signed_Division"
begin

text \<open>
  The time series: the queries of \<^verbatim>\<open>internal/store/metrics.go\<close> and the handlers of
  \<^verbatim>\<open>internal/api/handlers_metrics.go\<close> in front of them. A query is the SQL that the code builds, read
  as a function of the rows; the aggregates \<^verbatim>\<open>AVG\<close> and \<^verbatim>\<open>SUM\<close> belong to the database and are a
  parameter. SQL leaves the order of the groups of one bucket open; here it is that of their first row.
\<close>

section \<open>The SQL\<close>

definition column :: "metric_row \<Rightarrow> string \<Rightarrow> sql_value" where
  "column r c = (case map_of (mr_cols r) c of None \<Rightarrow> SNull | Some v \<Rightarrow> v)"

text \<open>A row of a result: the bucket, the identifier and the aggregated columns.\<close>

type_synonym result_row = "int \<times> string \<times> (string \<times> sql_value) list"

definition bucket_of :: "int \<Rightarrow> int \<Rightarrow> int" where
  "bucket_of step ts = ts sdiv step * step"

definition group_of :: "bool \<Rightarrow> int \<Rightarrow> metric_row \<Rightarrow> int \<times> string" where
  "group_of byID step r = (bucket_of step (mr_ts r), if byID then mr_id r else [])"

definition in_range :: "bool \<Rightarrow> string \<Rightarrow> string \<Rightarrow> int \<Rightarrow> int \<Rightarrow> metric_row \<Rightarrow> bool" where
  "in_range byID env idVal from to r \<longleftrightarrow> mr_env r = env \<and> from \<le> mr_ts r \<and> mr_ts r \<le> to
     \<and> (byID \<and> idVal \<noteq> [] \<longrightarrow> mr_id r = idVal)"

definition group_rows :: "(string \<Rightarrow> sql_value list \<Rightarrow> sql_value) \<Rightarrow> string \<Rightarrow> string list \<Rightarrow> (int \<times> string) list
    \<Rightarrow> ((int \<times> string) \<times> (string \<Rightarrow> sql_value)) list \<Rightarrow> result_row list" where
  "group_rows agg fn cols groups rows =
    map (\<lambda>g. (fst g, snd g, map (\<lambda>c. (c, agg fn (map (\<lambda>r. snd r c) (filter (\<lambda>r. fst r = g) rows)))) cols)) groups"

definition buildMetricsQuery :: "(string \<Rightarrow> sql_value list \<Rightarrow> sql_value) \<Rightarrow> metric_row list \<Rightarrow> bool \<Rightarrow> string list
    \<Rightarrow> string \<Rightarrow> string \<Rightarrow> int \<Rightarrow> int \<Rightarrow> int \<Rightarrow> result_row list" where
  "buildMetricsQuery agg table byID cols env idVal from to step =
    (let rows = map (\<lambda>r. (group_of byID step r, column r)) (filter (in_range byID env idVal from to) table)
     in group_rows agg ''AVG'' cols (sort_key fst (remdups (map fst rows))) rows)"

definition mqttMetricCols :: "string list" where
  "mqttMetricCols = [''connections_active'', ''in_msgs_rate'', ''out_msgs_rate'', ''in_bytes_rate'', ''out_bytes_rate'',
     ''msgs_recv_qos0'', ''msgs_recv_qos1'', ''msgs_sent_qos0'', ''msgs_sent_qos1'', ''msgs_recv_qos2'', ''msgs_sent_qos2'',
     ''session_write_behind_depth'', ''consumer_pending_messages'', ''stalled_consumers'', ''sockets_open'',
     ''inflight_out_messages'', ''op_queue_depth'', ''op_suspended_conns'', ''worker_pool_queue_depth'',
     ''pool_slot_connected'', ''retained_messages'', ''subscriptions_active'', ''go_heap_inuse_bytes'', ''go_goroutines'',
     ''scram_sessions_active'']"

text \<open>The sum over the bridges of the averages of a bucket, for the fleet as a whole.\<close>

definition fleet_query :: "(string \<Rightarrow> sql_value list \<Rightarrow> sql_value) \<Rightarrow> result_row list \<Rightarrow> result_row list" where
  "fleet_query agg inner =
    (let rows = map (\<lambda>(b, _, vs). ((b, []), \<lambda>c. case map_of vs c of None \<Rightarrow> SNull | Some v \<Rightarrow> v)) inner
     in group_rows agg ''SUM'' mqttMetricCols (sort_key fst (remdups (map fst rows))) rows)"

section \<open>Scanning\<close>

datatype point_value = PInt int | PText string | PFloat f64

type_synonym metric_point = "(string \<times> point_value) list"

definition scan_float :: "sql_value \<Rightarrow> f64 option" where
  "scan_float v = (case v of SNull \<Rightarrow> None | SInt i \<Rightarrow> Some (f_of_int i) | SReal x \<Rightarrow> Some x)"

text \<open>Columns that may be NULL, which are left out of the point then.\<close>

definition nullable_columns :: "string list" where
  "nullable_columns = [''consumer_pending_messages'', ''sockets_open'', ''inflight_out_messages'', ''op_queue_depth'',
     ''op_suspended_conns'', ''worker_pool_queue_depth'', ''pool_slot_connected'', ''retained_messages'',
     ''subscriptions_active'', ''go_heap_inuse_bytes'', ''go_goroutines'', ''scram_sessions_active'']"

text \<open>\<open>None\<close> is a NULL in a column that is scanned into a plain number, which is an error.\<close>

fun scan_columns :: "string list \<Rightarrow> (string \<times> sql_value) list \<Rightarrow> metric_point option" where
  "scan_columns nullable [] = Some []"
| "scan_columns nullable ((c, v) # cs) = (case scan_float v of
      Some x \<Rightarrow> map_option (\<lambda>p. (c, PFloat x) # p) (scan_columns nullable cs)
    | None \<Rightarrow> if c \<in> set nullable then scan_columns nullable cs else None)"

definition scan_point :: "string list \<Rightarrow> string \<Rightarrow> result_row \<Rightarrow> metric_point option" where
  "scan_point nullable idName r = (case r of (b, i, vs) \<Rightarrow>
     map_option (\<lambda>p. (''ts'', PInt b) # (if idName = [] then [] else [(idName, PText i)]) @ p) (scan_columns nullable vs))"

datatype query_error = QueryFailed string | ScanFailed | RowsFailed string

text \<open>What a query meets: the aggregates, the errors of the database, the text of a scan error, the instants.\<close>

record query_world =
  qw_agg :: "string \<Rightarrow> sql_value list \<Rightarrow> sql_value"
  qw_query_error :: "string option"
  qw_rows_error :: "string option"
  qw_scan_text :: string
  qw_start :: gotime
  qw_end :: gotime

definition read_points :: "query_world \<Rightarrow> string list \<Rightarrow> string \<Rightarrow> result_row list \<Rightarrow> query_error + metric_point list" where
  "read_points x nullable idName rows = (case qw_query_error x of
      Some e \<Rightarrow> Inl (QueryFailed e)
    | None \<Rightarrow> (case those (map (scan_point nullable idName) rows) of
        None \<Rightarrow> Inl ScanFailed
      | Some points \<Rightarrow> (case qw_rows_error x of Some e \<Rightarrow> Inl (RowsFailed e) | None \<Rightarrow> Inr points)))"

definition query_error_text :: "query_world \<Rightarrow> query_error \<Rightarrow> string" where
  "query_error_text x e = (case e of QueryFailed m \<Rightarrow> m | ScanFailed \<Rightarrow> qw_scan_text x | RowsFailed m \<Rightarrow> m)"

definition observeQuery :: "query_world \<Rightarrow> query_error + 'a \<Rightarrow> metrics_writer \<Rightarrow> metrics_writer" where
  "observeQuery x r w =
    (let w1 = w\<lparr>mw_queryNS := wrap64 (mw_queryNS w + (qw_end x - qw_start x))\<rparr>
     in case r of Inl e \<Rightarrow> recordBusy (query_error_text x e) (w1\<lparr>mw_queryErrs := mw_queryErrs w + 1\<rparr>) | Inr _ \<Rightarrow> w1)"

section \<open>The three queries\<close>

definition autoStep :: "int \<Rightarrow> int \<Rightarrow> int \<Rightarrow> int" where
  "autoStep from to targetPoints =
    (if to - from \<le> 0 then 5 else if (to - from) div targetPoints < 5 then 5 else (to - from) div targetPoints)"

definition effective_step :: "int \<Rightarrow> int \<Rightarrow> int \<Rightarrow> int" where
  "effective_step from to step = (if step \<le> 0 then autoStep from to 200 else step)"

definition QueryEnvMetrics :: "query_world \<Rightarrow> string \<Rightarrow> int \<Rightarrow> int \<Rightarrow> int \<Rightarrow> metrics_writer
    \<Rightarrow> (query_error + metric_point list) \<times> metrics_writer" where
  "QueryEnvMetrics x env from to step w =
    (let rows = buildMetricsQuery (qw_agg x) (db_env (mw_db w)) False
           [''server_count'', ''healthy_count'', ''connection_count'', ''in_msgs_rate'', ''out_msgs_rate'', ''in_bytes_rate'',
            ''out_bytes_rate'', ''subscriptions''] env [] from to (effective_step from to step);
         r = read_points x [] [] rows
     in (r, observeQuery x r w))"

definition QueryServerMetrics :: "query_world \<Rightarrow> string \<Rightarrow> string \<Rightarrow> int \<Rightarrow> int \<Rightarrow> int \<Rightarrow> metrics_writer
    \<Rightarrow> (query_error + metric_point list) \<times> metrics_writer" where
  "QueryServerMetrics x env serverID from to step w =
    (let rows = buildMetricsQuery (qw_agg x) (db_server (mw_db w)) True
           [''connections'', ''cpu'', ''mem'', ''in_msgs_rate'', ''out_msgs_rate'', ''in_bytes_rate'', ''out_bytes_rate'',
            ''subscriptions'', ''slow_consumers''] env serverID from to (effective_step from to step);
         r = read_points x [] ''server_id'' rows
     in (r, observeQuery x r w))"

definition QueryMQTTMetrics :: "query_world \<Rightarrow> string \<Rightarrow> string \<Rightarrow> int \<Rightarrow> int \<Rightarrow> int \<Rightarrow> metrics_writer
    \<Rightarrow> (query_error + metric_point list) \<times> metrics_writer" where
  "QueryMQTTMetrics x env bridgeID from to step w =
    (let inner = buildMetricsQuery (qw_agg x) (db_bridge (mw_db w)) True mqttMetricCols env bridgeID from to
           (effective_step from to step);
         rows = (if bridgeID = [] then fleet_query (qw_agg x) inner else inner);
         r = read_points x nullable_columns (if bridgeID = [] then [] else ''bridge_id'') rows
     in (r, observeQuery x r w))"

section \<open>The handlers\<close>

definition maxMetricPoints :: int where
  "maxMetricPoints = 5000"

text \<open>\<open>get\<close> reads a parameter of the URL, the empty string when it is absent.\<close>

definition time_param :: "string \<Rightarrow> int \<Rightarrow> int \<Rightarrow> int \<Rightarrow> int" where
  "time_param v lo hi old = (if v = [] then old else case ParseInt v of
      Some n \<Rightarrow> if lo \<le> n \<and> n \<le> hi then n else old
    | None \<Rightarrow> old)"

definition parseTimeRange :: "int \<Rightarrow> (string \<Rightarrow> string) \<Rightarrow> int \<times> int \<times> int" where
  "parseTimeRange now get =
    (let from = time_param (get ''from'') (now - 30 * 24 * 3600) now (now - 3600);
         to = time_param (get ''to'') from (now + 60) now;
         step = time_param (get ''step'') 1 86400 0
     in (from, to, if 0 < step \<and> step < (to - from) div maxMetricPoints then (to - from) div maxMetricPoints else step))"

text \<open>A response is its status and the points, if it carries any.\<close>

definition answer_points :: "(query_error + metric_point list) \<times> metrics_writer
    \<Rightarrow> (nat \<times> metric_point list option) \<times> metrics_writer option" where
  "answer_points q = ((case fst q of Inl e \<Rightarrow> (500, None) | Inr points \<Rightarrow> (200, Some points)), Some (snd q))"

definition handleEnvMetrics :: "query_world \<Rightarrow> int \<Rightarrow> string \<Rightarrow> (string \<Rightarrow> string) \<Rightarrow> metrics_writer option
    \<Rightarrow> (nat \<times> metric_point list option) \<times> metrics_writer option" where
  "handleEnvMetrics x now env get metrics = (case metrics of
      None \<Rightarrow> ((503, None), None)
    | Some w \<Rightarrow> (case parseTimeRange now get of (from, to, step) \<Rightarrow> answer_points (QueryEnvMetrics x env from to step w)))"

definition handleServerMetrics :: "query_world \<Rightarrow> int \<Rightarrow> string \<Rightarrow> (string \<Rightarrow> string) \<Rightarrow> metrics_writer option
    \<Rightarrow> (nat \<times> metric_point list option) \<times> metrics_writer option" where
  "handleServerMetrics x now env get metrics = (case metrics of
      None \<Rightarrow> ((503, None), None)
    | Some w \<Rightarrow> (case parseTimeRange now get of (from, to, step) \<Rightarrow>
        answer_points (QueryServerMetrics x env (get ''server_id'') from to step w)))"

definition handleMQTTBridgeMetrics :: "query_world \<Rightarrow> int \<Rightarrow> string \<Rightarrow> (string \<Rightarrow> string) \<Rightarrow> metrics_writer option
    \<Rightarrow> (nat \<times> metric_point list option) \<times> metrics_writer option" where
  "handleMQTTBridgeMetrics x now env get metrics = (case metrics of
      None \<Rightarrow> ((503, None), None)
    | Some w \<Rightarrow> (case parseTimeRange now get of (from, to, step) \<Rightarrow>
        answer_points (QueryMQTTMetrics x env (get ''bridge_id'') from to step w)))"

end
