(* ===== verification/MetricsQueryProps.thy ===== *)
theory MetricsQueryProps
  imports MetricsQuery
begin

text \<open>
  What the time series promise: the number of their points is bounded, a stored sample comes back with
  its values, and the rows that a migration left without the newer gauges make a bridge's series fail.
\<close>

section \<open>The number of points\<close>

lemma sdiv_cases:
  fixes a s :: int
  assumes "0 < s"
  shows "a sdiv s = (if 0 \<le> a then a div s else - (- a div s))"
  using assms by (simp add: signed_divide_int_def sgn_if)

lemma div_diff_le:
  fixes a b s :: int
  assumes "0 < s" "a \<le> b"
  shows "b div s - a div s \<le> (b - a + s - 1) div s"
proof -
  have "(b div s - a div s) * s \<le> b - a + s - 1"
    unfolding left_diff_distrib
    using div_mult_mod_eq[of b s] div_mult_mod_eq[of a s] pos_mod_bound[OF assms(1), of a] pos_mod_sign[OF assms(1), of b]
    by linarith
  from zdiv_mono1[OF this assms(1)] assms(1) show ?thesis by simp
qed

lemma div_add_le:
  fixes a b s :: int
  assumes "0 < s" "0 \<le> a" "0 \<le> b"
  shows "a div s + b div s \<le> (a + b + s - 1) div s"
proof -
  have "(a div s + b div s) * s \<le> a + b + s - 1"
    unfolding distrib_right
    using div_mult_mod_eq[of b s] div_mult_mod_eq[of a s] pos_mod_sign[OF assms(1), of a] pos_mod_sign[OF assms(1), of b] assms(1)
    by linarith
  from zdiv_mono1[OF this assms(1)] assms(1) show ?thesis by simp
qed

lemma sdiv_diff_le:
  fixes a b s :: int
  assumes "0 < s" "a \<le> b"
  shows "b sdiv s - a sdiv s \<le> (b - a + s - 1) div s"
  using div_diff_le[OF assms] div_diff_le[of s "- b" "- a"] div_add_le[of s b "- a"] assms
  by (auto simp: sdiv_cases)

lemma sdiv_mono:
  fixes a b s :: int
  assumes "0 < s" "a \<le> b"
  shows "a sdiv s \<le> b sdiv s"
  using zdiv_mono1[OF assms(2,1)] zdiv_mono1[of "- b" "- a" s] assms
    pos_imp_zdiv_nonneg_iff[OF assms(1), of b] pos_imp_zdiv_nonneg_iff[OF assms(1), of "- a"]
  by (auto simp: sdiv_cases)

lemma bucket_count:
  assumes "0 < step" "from \<le> to" "\<And>r. r \<in> set rows \<Longrightarrow> from \<le> mr_ts r \<and> mr_ts r \<le> to"
  shows "int (length (remdups (map (group_of False step) rows))) \<le> (to - from + step - 1) div step + 1"
proof -
  let ?B = "(\<lambda>k. (k * step, [] :: string)) ` {from sdiv step..to sdiv step}"
  have "set (map (group_of False step) rows) \<subseteq> ?B"
    using assms(3) by (auto simp: group_of_def bucket_of_def sdiv_mono[OF assms(1)])
  then have "card (set (map (group_of False step) rows)) \<le> card ?B" by (intro card_mono) simp_all
  also have "\<dots> \<le> card {from sdiv step..to sdiv step}" by (rule card_image_le) simp
  finally have "card (set (map (group_of False step) rows)) \<le> nat (to sdiv step - from sdiv step + 1)"
    by simp
  then have "int (card (set (map (group_of False step) rows))) \<le> to sdiv step - from sdiv step + 1"
    using sdiv_mono[OF assms(1,2)] by linarith
  then show ?thesis using sdiv_diff_le[OF assms(1,2)] unfolding length_remdups_card_conv by linarith
qed

lemma those_length: "those xs = Some ys \<Longrightarrow> length ys = length xs"
  by (induction xs arbitrary: ys) (auto split: option.splits)

lemma read_points_length: "read_points x nl i rows = Inr ps \<Longrightarrow> length ps = length rows"
  by (auto simp: read_points_def dest: those_length split: option.splits)

lemma env_points_count:
  assumes "fst (QueryEnvMetrics x env from to step w) = Inr ps" "0 < effective_step from to step" "from \<le> to"
  shows "int (length ps) \<le> (to - from + effective_step from to step - 1) div effective_step from to step + 1"
proof -
  let ?rows = "filter (in_range False env [] from to) (db_env (mw_db w))"
  have "length ps = length (remdups (map (group_of False (effective_step from to step)) ?rows))"
    using read_points_length assms(1)
    by (fastforce simp: QueryEnvMetrics_def Let_def buildMetricsQuery_def group_rows_def comp_def)
  then show ?thesis using bucket_count[OF assms(2,3), of ?rows] by (simp add: in_range_def)
qed

lemma time_param_range: "lo \<le> old \<and> old \<le> hi \<Longrightarrow> lo \<le> time_param v lo hi old \<and> time_param v lo hi old \<le> hi"
  by (simp add: time_param_def split: option.split)

lemma time_param_cases: "time_param v lo hi old = old \<or> (lo \<le> time_param v lo hi old \<and> time_param v lo hi old \<le> hi)"
  by (simp add: time_param_def split: option.split)

lemma steps_points:
  assumes "0 \<le> (d::int)" "1 \<le> s" "d div 5000 \<le> s"
  shows "(d + s - 1) div s + 1 \<le> 10000"
proof -
  have "d \<le> 5000 * (d div 5000) + 4999" by presburger
  then have "d \<le> 5000 * s + 4999" using assms(3) by linarith
  then have "d + s - 1 < 10000 * s \<or> s = 1 \<and> d \<le> 9999"
    using assms(2) by (cases "s = 1") linarith+
  then show ?thesis
  proof
    assume "d + s - 1 < 10000 * s"
    moreover have "(d + s - 1) div s * s \<le> d + s - 1"
      using div_mult_mod_eq[of "d + s - 1" s] pos_mod_sign[of s "d + s - 1"] assms(2) by linarith
    ultimately have "(d + s - 1) div s * s < 10000 * s" by linarith
    then have "(d + s - 1) div s < 10000" using assms(2) by simp
    then show ?thesis by simp
  qed simp
qed


lemma effective_step_ok:
  assumes "from \<le> to" "step \<le> 0 \<or> (to - from) div 5000 \<le> step"
  shows "1 \<le> effective_step from to step \<and> (to - from) div 5000 \<le> effective_step from to step"
proof -
  have "(to - from) div 5000 \<le> (to - from) div 200" using assms(1) by (intro zdiv_mono2) simp_all
  moreover have "to - from \<le> 0 \<Longrightarrow> (to - from) div 5000 = 0" using assms(1) by simp
  ultimately show ?thesis using assms by (auto simp: effective_step_def autoStep_def)
qed

text \<open>
  No time range makes the environment series unbounded: whatever the parameters of the URL and
  whatever is stored, an answer of the handler has at most 10000 points.
\<close>

theorem env_series_bounded:
  assumes "fst (handleEnvMetrics x now env get (Some w)) = (200, Some points)"
  shows "length points \<le> 10000"
proof -
  obtain "from" to step where p: "parseTimeRange now get = (from, to, step)"
    by (cases "parseTimeRange now get")
  have f: "now - 30 * 24 * 3600 \<le> from" "from \<le> now"
    using time_param_range[of "now - 30 * 24 * 3600" "now - 3600" now "get ''from''"] p
    by (auto simp: parseTimeRange_def Let_def)
  have t: "from \<le> to" "step \<le> 0 \<or> (to - from) div 5000 \<le> step"
    using time_param_cases[of "get ''to''" "from" "now + 60" now] f p
    by (auto simp: parseTimeRange_def Let_def maxMetricPoints_def split: if_splits)
  have "fst (QueryEnvMetrics x env from to step w) = Inr points"
    using assms by (auto simp: handleEnvMetrics_def p answer_points_def split: sum.splits)
  from env_points_count[OF this] effective_step_ok[OF t] t(1)
  have "int (length points) \<le> (to - from + effective_step from to step - 1) div effective_step from to step + 1"
    by simp
  with steps_points[of "to - from" "effective_step from to step"] effective_step_ok[OF t] t(1) show ?thesis
    by simp
qed

text \<open>The comment says that at most 5000 points are returned; a step of one second over 9999 is left alone.\<close>

lemma step_not_raised:
  "parseTimeRange 20000 (\<lambda>p. if p = ''from'' then ''10001'' else if p = ''step'' then ''1'' else []) = (10001, 20000, 1)"
  by (simp add: parseTimeRange_def time_param_def ParseInt_def is_digit_def dec_value_def maxMetricPoints_def
      min_int64_def max_int64_def byte_of_def)


section \<open>What was stored is what is shown\<close>

text \<open>The average of one value is that value; of NULLs alone it is NULL.\<close>

definition averages :: "(string \<Rightarrow> sql_value list \<Rightarrow> sql_value) \<Rightarrow> bool" where
  "averages agg \<longleftrightarrow> (\<forall>i. agg ''AVG'' [SInt i] = SReal (f_of_int i)) \<and> (\<forall>v. agg ''AVG'' [SReal v] = SReal v)
     \<and> (\<forall>n. agg ''AVG'' (replicate n SNull) = SNull)"

lemma averages_null: "averages agg \<Longrightarrow> agg ''AVG'' (replicate n SNull) = SNull"
  by (simp add: averages_def)

definition env_point :: "int \<Rightarrow> metric_sample \<Rightarrow> metric_point" where
  "env_point b s = [(''ts'', PInt b), (''server_count'', PFloat (f_of_int (sa_ServerCount s))),
     (''healthy_count'', PFloat (f_of_int (sa_HealthyCount s))), (''connection_count'', PFloat (f_of_int (sa_ConnectionCount s))),
     (''in_msgs_rate'', PFloat (sa_InMsgsRate s)), (''out_msgs_rate'', PFloat (sa_OutMsgsRate s)),
     (''in_bytes_rate'', PFloat (sa_InBytesRate s)), (''out_bytes_rate'', PFloat (sa_OutBytesRate s)),
     (''subscriptions'', PFloat (f_of_int (uint (sa_Subscriptions s))))]"

definition rates_are_numbers :: "metric_sample \<Rightarrow> bool" where
  "rates_are_numbers s \<longleftrightarrow> NaN \<notin> {sa_InMsgsRate s, sa_OutMsgsRate s, sa_InBytesRate s, sa_OutBytesRate s}"

lemma query_one_row:
  assumes "averages (qw_agg x)" "filter (in_range False env [] from to) (db_env (mw_db w)) = [env_row s]"
    "rates_are_numbers s" "qw_query_error x = None" "qw_rows_error x = None"
  shows "fst (QueryEnvMetrics x env from to step w)
    = Inr [env_point (bucket_of (effective_step from to step) (Unix (sa_Timestamp s))) s]"
proof -
  have real: "sql_real (sa_InMsgsRate s) = SReal (sa_InMsgsRate s)" "sql_real (sa_OutMsgsRate s) = SReal (sa_OutMsgsRate s)"
      "sql_real (sa_InBytesRate s) = SReal (sa_InBytesRate s)" "sql_real (sa_OutBytesRate s) = SReal (sa_OutBytesRate s)"
    using assms(3) by (auto simp: rates_are_numbers_def sql_real_def)
  have avg: "qw_agg x ''AVG'' [SInt i] = SReal (f_of_int i)" "qw_agg x ''AVG'' [SReal v] = SReal v" for i v
    using assms(1) by (simp_all add: averages_def)
  show ?thesis
    by (simp add: QueryEnvMetrics_def Let_def buildMetricsQuery_def assms group_rows_def read_points_def scan_point_def
        column_def env_row_def real avg scan_float_def group_of_def env_point_def)
qed

lemma fold_store_env: "db_env (fold store_sample ss db) = db_env db @ map env_row ss"
  by (induction ss arbitrary: db) (simp_all add: store_sample_def)

definition recorded_in :: "string \<Rightarrow> int \<Rightarrow> int \<Rightarrow> metric_sample \<Rightarrow> bool" where
  "recorded_in env from to s \<longleftrightarrow> sa_Env s = env \<and> from \<le> Unix (sa_Timestamp s) \<and> Unix (sa_Timestamp s) \<le> to"


section \<open>Rows from before the migration\<close>

lemma those_None: "None \<in> set xs \<Longrightarrow> those xs = None"
  by (induction xs) (auto split: option.splits)

lemma scan_columns_null: "(c, SNull) \<in> set cs \<Longrightarrow> c \<notin> set nullable \<Longrightarrow> scan_columns nullable cs = None"
  by (induction nullable cs rule: scan_columns.induct) (auto simp: scan_float_def split: option.splits)

lemma all_null_replicate: "(\<And>v. v \<in> set vs \<Longrightarrow> v = SNull) \<Longrightarrow> vs = replicate (length vs) SNull"
  by (simp add: replicate_length_same)

text \<open>
  C29. The series of a bridge over rows from before the last migration is an error: when some bucket of
  the range holds only rows of the bridge whose \<^verbatim>\<open>msgs_recv_qos2\<close> is NULL, as the migration leaves
  it, the whole request fails with 500, although the other columns and buckets have values.
\<close>

theorem bridge_series_of_old_rows_fails:
  assumes "averages (qw_agg x)" "get ''bridge_id'' \<noteq> []" "parseTimeRange now get = (from, to, step)"
    "row \<in> set (db_bridge (mw_db w))" "in_range True env (get ''bridge_id'') from to row"
    "\<forall>r\<in>set (db_bridge (mw_db w)). in_range True env (get ''bridge_id'') from to r
       \<and> bucket_of (effective_step from to step) (mr_ts r) = bucket_of (effective_step from to step) (mr_ts row)
       \<longrightarrow> column r ''msgs_recv_qos2'' = SNull"
  shows "fst (handleMQTTBridgeMetrics x now env get (Some w)) = (500, None)"
proof -
  let ?id = "get ''bridge_id''" and ?step = "effective_step from to step"
  let ?in = "in_range True env ?id from to" and ?g = "group_of True ?step row"
  let ?rows = "map (\<lambda>r. (group_of True ?step r, column r)) (filter ?in (db_bridge (mw_db w)))"
  let ?nulls = "map (\<lambda>r. snd r ''msgs_recv_qos2'') (filter (\<lambda>r. fst r = ?g) ?rows)"
  have "v = SNull" if "v \<in> set ?nulls" for v
    using that assms(6) by (auto simp: group_of_def)
  then obtain n where n: "?nulls = replicate n SNull" using all_null_replicate by blast
  have null: "qw_agg x ''AVG'' ?nulls = SNull" by (simp only: n averages_null[OF assms(1)])
  let ?cols = "map (\<lambda>c. (c, qw_agg x ''AVG'' (map (\<lambda>r. snd r c) (filter (\<lambda>r. fst r = ?g) ?rows)))) mqttMetricCols"
  have "(''msgs_recv_qos2'', SNull) \<in> set ?cols"
    using null by (force simp: mqttMetricCols_def)
  then have "scan_point nullable_columns ''bridge_id'' (fst ?g, snd ?g, ?cols) = None"
    by (simp add: scan_point_def scan_columns_null nullable_columns_def)
  moreover have "(fst ?g, snd ?g, ?cols) \<in> set (buildMetricsQuery (qw_agg x) (db_bridge (mw_db w)) True mqttMetricCols env ?id from to ?step)"
    using assms(4,5) by (force simp: buildMetricsQuery_def Let_def group_rows_def)
  ultimately have "those (map (scan_point nullable_columns ''bridge_id'')
      (buildMetricsQuery (qw_agg x) (db_bridge (mw_db w)) True mqttMetricCols env ?id from to ?step)) = None"
    by (intro those_None) force
  then show ?thesis
    using assms(2)
    by (simp add: handleMQTTBridgeMetrics_def assms(3) answer_points_def QueryMQTTMetrics_def Let_def read_points_def
        split: option.split)
qed


section \<open>Examples\<close>

definition example_query :: query_world where
  "example_query = \<lparr>qw_agg = (\<lambda>_ vs. case vs of [SInt i] \<Rightarrow> SReal (f_of_int i) | [SReal v] \<Rightarrow> SReal v | _ \<Rightarrow> SNull),
     qw_query_error = None, qw_rows_error = None, qw_scan_text = ''converting NULL to float64 is unsupported'',
     qw_start = 0, qw_end = 1\<rparr>"

lemma example_averages: "averages (qw_agg example_query)"
proof -
  have "(case replicate n SNull of [SInt i] \<Rightarrow> SReal (f_of_int i) | [SReal v] \<Rightarrow> SReal v | _ \<Rightarrow> SNull) = SNull" for n
    by (cases n rule: nat.exhaust; cases "n - 1") auto
  then show ?thesis by (simp add: averages_def example_query_def)
qed

definition empty_db :: metrics_db where
  "empty_db = \<lparr>db_server = [], db_env = [], db_bridge = []\<rparr>"


lemma env_series_bounded_witness:
  "length (the (snd (fst (handleEnvMetrics example_query 100000 ''e'' (\<lambda>_. [])
      (Some (NewMetricsWriter (empty_db\<lparr>db_env := [env_row (example_sample (99999 * second))]\<rparr>) [])))))) \<le> 10000"
proof -
  let ?w = "NewMetricsWriter (empty_db\<lparr>db_env := [env_row (example_sample (99999 * second))]\<rparr>) []"
  have "parseTimeRange 100000 (\<lambda>_. []) = (96400, 100000, 0)" by (simp add: parseTimeRange_def time_param_def)
  moreover have "fst (QueryEnvMetrics example_query ''e'' 96400 100000 0 ?w)
    = Inr [env_point (bucket_of (effective_step 96400 100000 0) 99999) (example_sample (99999 * second))]"
    using query_one_row[OF example_averages, of "''e''" 96400 100000 ?w "example_sample (99999 * second)"]
    by (simp add: NewMetricsWriter_def in_range_def env_row_def example_sample_def Unix_def second_def
        rates_are_numbers_def example_query_def)
  ultimately have "fst (handleEnvMetrics example_query 100000 ''e'' (\<lambda>_. []) (Some ?w))
    = (200, Some [env_point (bucket_of (effective_step 96400 100000 0) 99999) (example_sample (99999 * second))])"
    by (simp add: handleEnvMetrics_def answer_points_def)
  from env_series_bounded[OF this] this show ?thesis by simp
qed

definition old_bridge_row :: metric_row where
  "old_bridge_row = \<lparr>mr_ts = 99999, mr_env = ''e'', mr_id = ''b'', mr_cols = [(''connections_active'', SInt 4)]\<rparr>"

lemma bridge_series_of_old_rows_fails_witness:
  "fst (handleMQTTBridgeMetrics example_query 100000 ''e'' (\<lambda>p. if p = ''bridge_id'' then ''b'' else [])
      (Some (NewMetricsWriter (empty_db\<lparr>db_bridge := [old_bridge_row]\<rparr>) []))) = (500, None)"
proof -
  have "parseTimeRange 100000 (\<lambda>p. if p = ''bridge_id'' then ''b'' else []) = (96400, 100000, 0)"
    by (simp add: parseTimeRange_def time_param_def)
  then show ?thesis
    by (rule bridge_series_of_old_rows_fails[OF example_averages, where row = old_bridge_row, rotated 1])
      (simp_all add: NewMetricsWriter_def old_bridge_row_def in_range_def column_def)
qed

end
