(* ===== verification/Migrations.thy ===== *)
theory Migrations
  imports Prelude
begin

text \<open>
  The migration ledger of \<^verbatim>\<open>internal/store/store.go\<close>. A statement is read as a function on a small model of
  the database: tables with their columns, each with the value that existing rows get when it is
  added, and the indexes, each with its table. Any statement may also fail for reasons of the database, a
  violated unique index among them; which ones do is an input.
\<close>

section \<open>The database\<close>

datatype cell = Null | Num int | Txt string

type_synonym columns = "(string \<times> cell) list"

record table =
  tab_columns :: columns
  tab_rows :: "(string \<Rightarrow> cell) list"

record schema =
  sc_tables :: "(string, table) gomap"
  sc_indexes :: "(string \<times> string) list"

record ledger_db =
  mg_schema :: schema
  mg_applied :: "(int \<times> string) list"

definition column_names :: "string \<Rightarrow> schema \<Rightarrow> string list" where
  "column_names t s = (case map_of (sc_tables s) t of None \<Rightarrow> [] | Some tab \<Rightarrow> map fst (tab_columns tab))"

text \<open>The statements that the migrations use; a table is created with or without \<^verbatim>\<open>IF NOT EXISTS\<close>.\<close>

datatype statement =
    CreateIfMissing string columns
  | CreateNew string columns
  | CreateIndex string string
  | AddColumn string string cell
  | RenameTable string string
  | CopyLocalUsers
  | DropTable string
  | RaiseTokenVersions

definition set_table :: "string \<Rightarrow> table \<Rightarrow> schema \<Rightarrow> schema" where
  "set_table t tab s = s\<lparr>sc_tables := gm_set t tab (sc_tables s)\<rparr>"

text \<open>A row that is inserted without some columns has their defaults.\<close>

definition copied_columns :: "string list" where
  "copied_columns = [''id'', ''username'', ''password_hash'', ''role'', ''created_at'', ''last_login'', ''failed_attempts'',
     ''last_failed_at'', ''must_change_password'', ''token_version'']"

definition copy_user :: "table \<Rightarrow> (string \<Rightarrow> cell) \<Rightarrow> string \<Rightarrow> cell" where
  "copy_user users r c =
    (if c = ''auth_provider'' then Txt ''local''
     else if c \<in> set copied_columns then r c
     else case map_of (tab_columns users) c of None \<Rightarrow> Null | Some d \<Rightarrow> d)"

definition raise_version :: "(string \<Rightarrow> cell) \<Rightarrow> (string \<Rightarrow> cell) option" where
  "raise_version r = (case (r ''token_version'', r ''session_version'') of
      (Num a, Num b) \<Rightarrow> Some (r(''token_version'' := Num (max a b)))
    | _ \<Rightarrow> None)"

text \<open>\<open>None\<close> is an SQL error: a table that is missing or there already, a column that is there already.\<close>

fun run_statement :: "statement \<Rightarrow> schema \<Rightarrow> schema option" where
  "run_statement (CreateIfMissing t cols) s =
    (if map_of (sc_tables s) t = None then Some (set_table t \<lparr>tab_columns = cols, tab_rows = []\<rparr> s) else Some s)"
| "run_statement (CreateNew t cols) s =
    (if map_of (sc_tables s) t = None then Some (set_table t \<lparr>tab_columns = cols, tab_rows = []\<rparr> s) else None)"
| "run_statement (CreateIndex i t) s =
    (if map_of (sc_tables s) t = None then None else if map_of (sc_indexes s) i = None then Some (s\<lparr>sc_indexes := sc_indexes s @ [(i, t)]\<rparr>) else Some s)"
| "run_statement (AddColumn t c d) s = (case map_of (sc_tables s) t of
      None \<Rightarrow> None
    | Some tab \<Rightarrow> if c \<in> set (map fst (tab_columns tab)) then None
        else Some (set_table t \<lparr>tab_columns = tab_columns tab @ [(c, d)], tab_rows = map (\<lambda>r. r(c := d)) (tab_rows tab)\<rparr> s))"
| "run_statement (RenameTable a b) s = (case map_of (sc_tables s) a of
      None \<Rightarrow> None
    | Some tab \<Rightarrow> if map_of (sc_tables s) b \<noteq> None then None
        else Some \<lparr>sc_tables = gm_set b tab (gm_del a (sc_tables s)),
          sc_indexes = map (\<lambda>(i, t). (i, if t = a then b else t)) (sc_indexes s)\<rparr>)"
| "run_statement CopyLocalUsers s = (case (map_of (sc_tables s) ''users'', map_of (sc_tables s) ''users_local_legacy'') of
      (Some users, Some legacy) \<Rightarrow>
        if set copied_columns \<subseteq> set (map fst (tab_columns legacy))
        then Some (set_table ''users'' (users\<lparr>tab_rows := tab_rows users @ map (copy_user users) (tab_rows legacy)\<rparr>) s)
        else None
    | _ \<Rightarrow> None)"
| "run_statement (DropTable t) s =
    (if map_of (sc_tables s) t = None then None else Some \<lparr>sc_tables = gm_del t (sc_tables s), sc_indexes = filter (\<lambda>(i, u). u \<noteq> t) (sc_indexes s)\<rparr>)"
| "run_statement RaiseTokenVersions s = (case map_of (sc_tables s) ''users'' of
      None \<Rightarrow> None
    | Some users \<Rightarrow> (case those (map raise_version (tab_rows users)) of
        None \<Rightarrow> None
      | Some rows \<Rightarrow> Some (set_table ''users'' (users\<lparr>tab_rows := rows\<rparr>) s)))"

section \<open>Transactions\<close>

text \<open>The calls of a run are numbered; \<open>fault n\<close> is the error of the \<open>n\<close>th, if the database fails it.\<close>

type_synonym tx = "nat \<times> schema"

definition tx_exec :: "(nat \<Rightarrow> string option) \<Rightarrow> statement \<Rightarrow> tx \<Rightarrow> string + tx" where
  "tx_exec fault st x = (case fault (fst x) of
      Some e \<Rightarrow> Inl e
    | None \<Rightarrow> (case run_statement st (snd x) of None \<Rightarrow> Inl ''SQL logic error'' | Some s \<Rightarrow> Inr (fst x + 1, s)))"

fun execStatements :: "(nat \<Rightarrow> string option) \<Rightarrow> statement list \<Rightarrow> tx \<Rightarrow> string + tx" where
  "execStatements fault [] x = Inr x"
| "execStatements fault (st # sts) x = try_bind (tx_exec fault st x) (execStatements fault sts)"

definition hasColumn :: "(nat \<Rightarrow> string option) \<Rightarrow> string \<Rightarrow> string \<Rightarrow> tx \<Rightarrow> string + bool \<times> tx" where
  "hasColumn fault t c x = (case fault (fst x) of
      Some e \<Rightarrow> Inl e
    | None \<Rightarrow> Inr (c \<in> set (column_names t (snd x)), fst x + 1, snd x))"

definition ensureColumn :: "(nat \<Rightarrow> string option) \<Rightarrow> string \<Rightarrow> string \<times> cell \<Rightarrow> tx \<Rightarrow> string + tx" where
  "ensureColumn fault t cd x = try_bind (hasColumn fault t (fst cd) x) (\<lambda>(there, x).
     if there then Inr x
     else map_error (\<lambda>e. ''add '' @ t @ ''.'' @ fst cd @ '': '' @ e) (tx_exec fault (AddColumn t (fst cd) (snd cd)) x))"

fun ensureColumns :: "(nat \<Rightarrow> string option) \<Rightarrow> string \<Rightarrow> columns \<Rightarrow> tx \<Rightarrow> string + tx" where
  "ensureColumns fault t [] x = Inr x"
| "ensureColumns fault t (cd # cds) x = try_bind (ensureColumn fault t cd x) (ensureColumns fault t cds)"

section \<open>The migrations\<close>

text \<open>A column without a default gives existing rows NULL; \<^verbatim>\<open>CURRENT_TIMESTAMP\<close> is written \<open>Txt ''now''\<close>.\<close>

definition users_columns :: columns where
  "users_columns = [(''id'', Null), (''username'', Null), (''password_hash'', Null), (''role'', Txt ''viewer''),
     (''auth_provider'', Txt ''local''), (''external_subject'', Null), (''display_name'', Txt []), (''email'', Txt []),
     (''created_at'', Txt ''now''), (''last_login'', Null), (''failed_attempts'', Num 0), (''last_failed_at'', Null),
     (''must_change_password'', Num 0), (''token_version'', Num 0)]"

definition legacy_user_columns :: columns where
  "legacy_user_columns = [(''role'', Txt ''viewer''), (''last_login'', Null), (''failed_attempts'', Num 0),
     (''last_failed_at'', Null), (''must_change_password'', Num 0), (''token_version'', Num 0)]"

definition identity_columns :: columns where
  "identity_columns = [(''external_subject'', Null), (''display_name'', Txt []), (''email'', Txt [])]"

definition rebuildLocalUsers :: "(nat \<Rightarrow> string option) \<Rightarrow> tx \<Rightarrow> string + tx" where
  "rebuildLocalUsers fault x = map_error (\<lambda>e. ''migrate local users: '' @ e) (execStatements fault
     [RenameTable ''users'' ''users_local_legacy'', CreateNew ''users'' users_columns, CopyLocalUsers,
      DropTable ''users_local_legacy''] x)"

definition migrateUsers :: "(nat \<Rightarrow> string option) \<Rightarrow> tx \<Rightarrow> string + tx" where
  "migrateUsers fault x =
    try_bind (tx_exec fault (CreateIfMissing ''users'' users_columns) x) (\<lambda>x.
    try_bind (ensureColumns fault ''users'' legacy_user_columns x) (\<lambda>x.
    try_bind (hasColumn fault ''users'' ''auth_provider'' x) (\<lambda>(hasProvider, x).
    try_bind (if \<not> hasProvider then rebuildLocalUsers fault x
      else try_bind (ensureColumns fault ''users'' identity_columns x) (\<lambda>x.
        try_bind (hasColumn fault ''users'' ''session_version'' x) (\<lambda>(hasSessionVersion, x).
        if hasSessionVersion then tx_exec fault RaiseTokenVersions x else Inr x))) (\<lambda>x.
    execStatements fault [CreateIndex ''idx_users_local_username'' ''users'',
      CreateIndex ''idx_users_external_identity'' ''users'', CreateIndex ''idx_users_local_admin'' ''users''] x))))"

definition plain :: "string list \<Rightarrow> columns" where
  "plain cs = map (\<lambda>c. (c, Null)) cs"

definition bridges_statements :: "statement list" where
  "bridges_statements =
     [CreateIfMissing ''mqtt_bridges'' (plain [''id'', ''env'', ''ip'', ''server_id''] @ [(''admin_url'', Txt []), (''last_seen'', Txt ''now'')]),
      CreateIndex ''idx_mqtt_bridges_env_last_seen'' ''mqtt_bridges'']"

definition migrateMQTTBridges :: "(nat \<Rightarrow> string option) \<Rightarrow> tx \<Rightarrow> string + tx" where
  "migrateMQTTBridges fault = execStatements fault bridges_statements"

definition metrics_statements :: "statement list" where
  "metrics_statements =
     [CreateIfMissing ''server_metrics'' (plain [''ts'', ''env'', ''server_id'', ''connections'', ''in_msgs'', ''out_msgs'',
        ''in_bytes'', ''out_bytes'', ''cpu'', ''mem'', ''subscriptions'', ''slow_consumers'', ''routes'', ''leafnodes'',
        ''in_msgs_rate'', ''out_msgs_rate'', ''in_bytes_rate'', ''out_bytes_rate'', ''healthy'']),
      CreateIndex ''idx_server_metrics_env_sid_ts'' ''server_metrics'',
      CreateIndex ''idx_server_metrics_env_ts'' ''server_metrics'', CreateIndex ''idx_server_metrics_ts'' ''server_metrics'',
      CreateIfMissing ''env_metrics'' (plain [''ts'', ''env'', ''server_count'', ''healthy_count'', ''connection_count'',
        ''in_msgs_rate'', ''out_msgs_rate'', ''in_bytes_rate'', ''out_bytes_rate'', ''subscriptions'']),
      CreateIndex ''idx_env_metrics_env_ts'' ''env_metrics'', CreateIndex ''idx_env_metrics_ts'' ''env_metrics'',
      CreateIfMissing ''mqtt_bridge_metrics'' (plain [''ts'', ''env'', ''bridge_id'', ''connections_active'', ''in_msgs_rate'',
        ''out_msgs_rate'', ''in_bytes_rate'', ''out_bytes_rate'', ''msgs_recv_qos0'', ''msgs_recv_qos1'', ''msgs_sent_qos0'',
        ''msgs_sent_qos1'']),
      CreateIndex ''idx_mqtt_bridge_metrics_env_bid_ts'' ''mqtt_bridge_metrics'',
      CreateIndex ''idx_mqtt_bridge_metrics_env_ts'' ''mqtt_bridge_metrics'',
      CreateIndex ''idx_mqtt_bridge_metrics_ts'' ''mqtt_bridge_metrics'']"

definition migrateMetrics :: "(nat \<Rightarrow> string option) \<Rightarrow> tx \<Rightarrow> string + tx" where
  "migrateMetrics fault = execStatements fault metrics_statements"

definition topology_statements :: "statement list" where
  "topology_statements =
     [CreateIfMissing ''topology_positions'' (plain [''env'', ''node_id'', ''x'', ''y'']),
      CreateIfMissing ''topology_camera'' (plain [''env'', ''zoom'', ''center_x'', ''center_y''])]"

definition migrateTopology :: "(nat \<Rightarrow> string option) \<Rightarrow> tx \<Rightarrow> string + tx" where
  "migrateTopology fault = execStatements fault topology_statements"

definition clusters_columns :: columns where
  "clusters_columns = [(''id'', Null), (''name'', Null), (''servers'', Txt ''[]''), (''mqtt_bridges'', Txt ''[]''),
     (''mqtt_discovery'', Null), (''tls'', Null), (''admin_token'', Txt []), (''nats_conn'', Null), (''created_at'', Txt ''now'')]"

definition migrateClusters :: "(nat \<Rightarrow> string option) \<Rightarrow> tx \<Rightarrow> string + tx" where
  "migrateClusters fault x =
    try_bind (execStatements fault [CreateIfMissing ''clusters'' clusters_columns] x)
      (ensureColumn fault ''clusters'' (''nats_conn'', Null))"

definition mqttBridgeGaugeColumns :: "string list" where
  "mqttBridgeGaugeColumns = [''msgs_recv_qos2'', ''msgs_sent_qos2'', ''session_write_behind_depth'',
     ''consumer_pending_messages'', ''stalled_consumers'', ''sockets_open'', ''inflight_out_messages'', ''op_queue_depth'',
     ''op_suspended_conns'', ''worker_pool_queue_depth'', ''pool_slot_connected'', ''retained_messages'',
     ''subscriptions_active'', ''go_heap_inuse_bytes'', ''go_goroutines'', ''scram_sessions_active'']"

definition migrateMQTTBridgeGauges :: "(nat \<Rightarrow> string option) \<Rightarrow> tx \<Rightarrow> string + tx" where
  "migrateMQTTBridgeGauges fault x = ensureColumns fault ''mqtt_bridge_metrics'' (plain mqttBridgeGaugeColumns) x"

type_synonym migration = "int \<times> string \<times> ((nat \<Rightarrow> string option) \<Rightarrow> tx \<Rightarrow> string + tx)"

definition schemaMigrations :: "migration list" where
  "schemaMigrations = [(1, ''users and external identities'', migrateUsers), (2, ''mqtt bridge discovery'', migrateMQTTBridges),
     (3, ''time-series metrics'', migrateMetrics), (4, ''topology persistence'', migrateTopology),
     (5, ''cluster configuration'', migrateClusters), (6, ''mqtt bridge metric gauges'', migrateMQTTBridgeGauges)]"

section \<open>The ledger\<close>

datatype migrate_error =
    CreateLedger string | ReadLedger int string | BeginMigration int string | ApplyMigration int string string
  | RecordMigration int string | CommitMigration int string

text \<open>One migration: skipped when it is recorded, and otherwise committed together with its record or not at all.\<close>

definition run_migration :: "(nat \<Rightarrow> string option) \<Rightarrow> migration \<Rightarrow> nat \<times> ledger_db \<Rightarrow> migrate_error + nat \<times> ledger_db" where
  "run_migration fault m nd = (case (m, nd) of ((v, name, apply_it), n, db) \<Rightarrow>
     (case fault n of Some e \<Rightarrow> Inl (ReadLedger v e) | None \<Rightarrow>
     if v \<in> fst ` set (mg_applied db) then Inr (n + 1, db)
     else case fault (n + 1) of Some e \<Rightarrow> Inl (BeginMigration v e) | None \<Rightarrow>
     (case apply_it fault (n + 2, mg_schema db) of Inl e \<Rightarrow> Inl (ApplyMigration v name e) | Inr (k, s) \<Rightarrow>
     (case fault k of Some e \<Rightarrow> Inl (RecordMigration v e) | None \<Rightarrow>
     (case fault (k + 1) of Some e \<Rightarrow> Inl (CommitMigration v e) | None \<Rightarrow>
       Inr (k + 2, \<lparr>mg_schema = s, mg_applied = mg_applied db @ [(v, name)]\<rparr>))))))"

text \<open>The run stops at the first error and leaves what was committed until then.\<close>

fun run_migrations :: "(nat \<Rightarrow> string option) \<Rightarrow> migration list \<Rightarrow> nat \<times> ledger_db \<Rightarrow> migrate_error option \<times> ledger_db" where
  "run_migrations fault [] nd = (None, snd nd)"
| "run_migrations fault (m # ms) nd = (case run_migration fault m nd of
      Inl e \<Rightarrow> (Some e, snd nd)
    | Inr nd \<Rightarrow> run_migrations fault ms nd)"

definition migrateVersioned :: "(nat \<Rightarrow> string option) \<Rightarrow> ledger_db \<Rightarrow> migrate_error option \<times> ledger_db" where
  "migrateVersioned fault db = (case fault 0 of
      Some e \<Rightarrow> (Some (CreateLedger e), db)
    | None \<Rightarrow> run_migrations fault schemaMigrations (1, db))"

end
