(* ===== verification/MigrationProps.thy ===== *)
theory MigrationProps
  imports Migrations
begin

text \<open>
  What the migrations promise: a run that was interrupted is resumed by the next one, the accounts
  survive, and a run that succeeds leaves every table with the columns that the program uses.
\<close>

section \<open>Faults only decide whether a run gets to its end\<close>

definition steady :: "((nat \<Rightarrow> string option) \<Rightarrow> tx \<Rightarrow> string + tx) \<Rightarrow> bool" where
  "steady f \<longleftrightarrow> (\<forall>fault n k s m s'. f fault (n, s) = Inr (m, s') \<longrightarrow> (\<exists>j. f (\<lambda>_. None) (k, s) = Inr (j, s')))
     \<and> (\<forall>n k s e. f (\<lambda>_. None) (n, s) = Inl e \<longrightarrow> f (\<lambda>_. None) (k, s) = Inl e)"

named_theorems steady_intros "steps whose result does not depend on the faults"

lemma steadyD: "steady f \<Longrightarrow> f fault (n, s) = Inr (m, s') \<Longrightarrow> \<exists>j. f (\<lambda>_. None) (k, s) = Inr (j, s')"
  unfolding steady_def by blast

lemma steady_error: "steady f \<Longrightarrow> f (\<lambda>_. None) (n, s) = Inl e \<Longrightarrow> f (\<lambda>_. None) (k, s) = Inl e"
  unfolding steady_def by blast

lemma steady_exec [steady_intros]: "steady (\<lambda>fault. tx_exec fault st)"
  by (auto simp: steady_def tx_exec_def split: option.splits)

lemma steady_bind [steady_intros]:
  assumes "steady f" "steady g"
  shows "steady (\<lambda>fault x. try_bind (f fault x) (g fault))"
  unfolding steady_def
proof (intro conjI allI impI)
  fix fault n k s m s'
  assume "try_bind (f fault (n, s)) (g fault) = Inr (m, s')"
  then obtain i s1 where "f fault (n, s) = Inr (i, s1)" "g fault (i, s1) = Inr (m, s')" by (auto simp: try_bind_Inr)
  then show "\<exists>j. try_bind (f (\<lambda>_. None) (k, s)) (g (\<lambda>_. None)) = Inr (j, s')"
    using steadyD[OF assms(1), of fault n s i s1 k] steadyD[OF assms(2), of fault i s1 m s'] by fastforce
next
  fix n k s e
  assume e: "try_bind (f (\<lambda>_. None) (n, s)) (g (\<lambda>_. None)) = Inl e"
  show "try_bind (f (\<lambda>_. None) (k, s)) (g (\<lambda>_. None)) = Inl e"
  proof (cases "f (\<lambda>_. None) (n, s)")
    case (Inl d)
    with e steady_error[OF assms(1) Inl] show ?thesis by simp
  next
    case (Inr x)
    obtain i s1 where "x = (i, s1)" by (cases x)
    with Inr e steadyD[OF assms(1), of "\<lambda>_. None" n s i s1 k] steady_error[OF assms(2), of i s1 e] show ?thesis by fastforce
  qed
qed

lemma map_error_Inl: "map_error h r = Inl e \<longleftrightarrow> (\<exists>d. r = Inl d \<and> e = h d)"
  by (cases r) auto

lemma steady_map_error [steady_intros]: "steady f \<Longrightarrow> steady (\<lambda>fault x. map_error h (f fault x))"
  unfolding steady_def map_error_Inr map_error_Inl by blast

lemma steady_Inr [steady_intros]: "steady (\<lambda>fault x. Inr x)"
  by (simp add: steady_def)

lemma hasColumn_bind: "try_bind (hasColumn fault t c (n, s)) (\<lambda>(b, x). g b fault x) = (case fault n of
    Some e \<Rightarrow> Inl e | None \<Rightarrow> g (c \<in> set (column_names t s)) fault (n + 1, s))"
  by (simp add: hasColumn_def split: option.split)

lemma steady_hasColumn [steady_intros]:
  assumes "\<And>b. steady (g b)"
  shows "steady (\<lambda>fault x. try_bind (hasColumn fault t c x) (\<lambda>(b, x). g b fault x))"
  unfolding steady_def hasColumn_bind
proof (intro conjI allI impI)
  fix fault n k s m s'
  assume "(case fault n of Some e \<Rightarrow> Inl e | None \<Rightarrow> g (c \<in> set (column_names t s)) fault (n + 1, s)) = Inr (m, s')"
  then have "g (c \<in> set (column_names t s)) fault (n + 1, s) = Inr (m, s')" by (simp split: option.splits)
  from steadyD[OF assms this, of "k + 1"]
  show "\<exists>j. (case None of Some e \<Rightarrow> Inl e | None \<Rightarrow> g (c \<in> set (column_names t s)) (\<lambda>_. None) (k + 1, s)) = Inr (j, s')"
    by simp
next
  fix n k s e
  assume "(case None of Some e \<Rightarrow> Inl e | None \<Rightarrow> g (c \<in> set (column_names t s)) (\<lambda>_. None) (n + 1, s)) = Inl e"
  then have "g (c \<in> set (column_names t s)) (\<lambda>_. None) (n + 1, s) = Inl e" by (simp only: option.case)
  from steady_error[OF assms this, of "k + 1"]
  show "(case None of Some e \<Rightarrow> Inl e | None \<Rightarrow> g (c \<in> set (column_names t s)) (\<lambda>_. None) (k + 1, s)) = Inl e"
    by (simp only: option.case)
qed

lemma steady_statements [steady_intros]: "steady (\<lambda>fault. execStatements fault sts)"
proof (induction sts)
  case Nil
  then show ?case by (simp add: steady_def)
next
  case (Cons st sts)
  from steady_bind[OF steady_exec this] show ?case by simp
qed

lemma steady_if [steady_intros]: "steady f \<Longrightarrow> steady g \<Longrightarrow> steady (\<lambda>fault x. if b then f fault x else g fault x)"
  by (cases b) simp_all

lemma steady_ensureColumn [steady_intros]: "steady (\<lambda>fault. ensureColumn fault t cd)"
  unfolding ensureColumn_def by (intro steady_intros)

lemma steady_ensureColumns [steady_intros]: "steady (\<lambda>fault. ensureColumns fault t cds)"
proof (induction cds)
  case Nil
  then show ?case by (simp add: steady_def)
next
  case (Cons cd cds)
  from steady_bind[OF steady_ensureColumn this] show ?case by simp
qed

lemma steady_rebuild [steady_intros]: "steady rebuildLocalUsers"
  unfolding rebuildLocalUsers_def by (intro steady_intros)

lemma steady_migrations: "list_all (\<lambda>(v, name, f). steady f) schemaMigrations"
  unfolding schemaMigrations_def migrateUsers_def[abs_def] migrateMQTTBridges_def[abs_def] migrateMetrics_def[abs_def]
    migrateTopology_def[abs_def] migrateClusters_def[abs_def] migrateMQTTBridgeGauges_def[abs_def]
  by (simp; intro conjI steady_intros)

section \<open>Resuming\<close>

lemma run_migration_resumes:
  assumes "run_migration fault m (n, db) = Inr (n', db')" "case m of (v, name, f) \<Rightarrow> steady f"
  shows "\<exists>j. run_migration (\<lambda>_. None) m (k, db) = Inr (j, db')"
proof (cases m)
  case (fields v name f)
  show ?thesis
  proof (cases "v \<in> fst ` set (mg_applied db)")
    case True
    then show ?thesis using assms(1) by (auto simp: run_migration_def fields split: option.splits)
  next
    case False
    with assms(1) obtain i s where "f fault (n + 2, mg_schema db) = Inr (i, s)"
      "db' = \<lparr>mg_schema = s, mg_applied = mg_applied db @ [(v, name)]\<rparr>"
      by (auto simp: run_migration_def fields split: option.splits sum.splits)
    with False steadyD[of f fault "n + 2" "mg_schema db" i s "k + 2"] assms(2) show ?thesis
      by (auto simp: run_migration_def fields)
  qed
qed

lemma run_migration_error:
  assumes "run_migration (\<lambda>_. None) m (n, db) = Inl e" "case m of (v, name, f) \<Rightarrow> steady f"
  shows "run_migration (\<lambda>_. None) m (k, db) = Inl e"
  using assms steady_error[of "snd (snd m)" "n + 2" "mg_schema db" _ "k + 2"]
  by (cases m) (auto simp: run_migration_def split: sum.splits if_splits)

lemma run_migration_recorded: "run_migration fault (v, name, f) (n, db) = Inr (n', db')
    \<Longrightarrow> v \<in> fst ` set (mg_applied db') \<and> set (mg_applied db) \<subseteq> set (mg_applied db')"
  by (auto simp: run_migration_def split: prod.splits option.splits sum.splits if_splits)

lemma run_migrations_records:
  "set (mg_applied (snd nd)) \<subseteq> set (mg_applied (snd (run_migrations fault ms nd)))"
proof (induction ms arbitrary: nd)
  case Nil
  then show ?case by simp
next
  case (Cons m ms)
  obtain v name f n db where m: "m = (v, name, f)" "nd = (n, db)" by (cases m, cases nd)
  show ?case
  proof (cases "run_migration fault m nd")
    case (Inl e)
    then show ?thesis by simp
  next
    case (Inr nd')
    obtain n' db' where "nd' = (n', db')" by (cases nd')
    with Inr m run_migration_recorded[of fault v name f n db n' db'] Cons.IH[of nd'] show ?thesis by auto
  qed
qed

lemma skip_recorded: "v \<in> fst ` set (mg_applied db) \<Longrightarrow> run_migration (\<lambda>_. None) (v, name, f) (n, db) = Inr (n + 1, db)"
  by (simp add: run_migration_def)

lemma run_migrations_counter:
  "list_all (\<lambda>(v, name, f). steady f) ms
    \<Longrightarrow> run_migrations (\<lambda>_. None) ms (n, db) = run_migrations (\<lambda>_. None) ms (k, db)"
proof (induction ms arbitrary: n k db)
  case Nil
  then show ?case by simp
next
  case (Cons m ms)
  then have m: "case m of (v, name, f) \<Rightarrow> steady f" by simp
  show ?case
  proof (cases "run_migration (\<lambda>_. None) m (n, db)")
    case (Inl e)
    with run_migration_error[OF Inl m] show ?thesis by simp
  next
    case (Inr nd)
    obtain n' db' where nd: "nd = (n', db')" by (cases nd)
    from run_migration_resumes[OF _ m] Inr obtain j where "run_migration (\<lambda>_. None) m (k, db) = Inr (j, db')"
      unfolding nd by blast
    with Inr Cons.IH[of n' db' j] Cons.prems show ?thesis by (simp add: nd)
  qed
qed

lemma run_migrations_resume:
  "list_all (\<lambda>(v, name, f). steady f) ms
    \<Longrightarrow> run_migrations (\<lambda>_. None) ms (k, snd (run_migrations fault ms (n, db))) = run_migrations (\<lambda>_. None) ms (k, db)"
proof (induction ms arbitrary: n k db)
  case Nil
  then show ?case by simp
next
  case (Cons m ms)
  then have m: "case m of (v, name, f) \<Rightarrow> steady f" and ms: "list_all (\<lambda>(v, name, f). steady f) ms" by simp_all
  show ?case
  proof (cases "run_migration fault m (n, db)")
    case (Inl e)
    then show ?thesis by simp
  next
    case (Inr nd)
    obtain n' db' v name f where nd: "nd = (n', db')" and mv: "m = (v, name, f)" by (cases nd, cases m)
    let ?fin = "snd (run_migrations fault ms (n', db'))"
    obtain j where j: "run_migration (\<lambda>_. None) m (k, db) = Inr (j, db')"
      using run_migration_resumes[OF _ m] Inr unfolding nd by blast
    have "v \<in> fst ` set (mg_applied ?fin)"
      using run_migration_recorded[of fault v name f n db n' db'] run_migrations_records[of "(n', db')" fault ms] Inr
      by (force simp: nd mv)
    then have "run_migration (\<lambda>_. None) m (k, ?fin) = Inr (k + 1, ?fin)" by (simp add: mv skip_recorded)
    then show ?thesis
      using Cons.IH[OF ms, of "k + 1" n' db'] run_migrations_counter[OF ms, of "k + 1" db' j] Inr
      by (simp add: nd j)
  qed
qed

text \<open>
  C9. An interrupted start is resumed by the next one: wherever the database fails a run of the
  migrations, an undisturbed run afterwards has the same result, with the same schema, rows and ledger,
  as if the interrupted run had never been; in particular a second run changes nothing.
\<close>

theorem interrupted_migration_resumes:
  "migrateVersioned (\<lambda>_. None) (snd (migrateVersioned fault db)) = migrateVersioned (\<lambda>_. None) db"
  using run_migrations_resume[OF steady_migrations, of 1 fault 1 db]
  by (simp add: migrateVersioned_def split: option.split)

declare run_statement.simps [simp del]

section \<open>What a successful step keeps\<close>

text \<open>The schemas before and after a successful step are in the relation.\<close>

definition transports :: "(schema \<Rightarrow> schema \<Rightarrow> bool) \<Rightarrow> ((nat \<Rightarrow> string option) \<Rightarrow> tx \<Rightarrow> string + tx) \<Rightarrow> bool" where
  "transports R f \<longleftrightarrow> (\<forall>fault x y. f fault x = Inr y \<longrightarrow> R (snd x) (snd y))"

definition order :: "('a \<Rightarrow> 'a \<Rightarrow> bool) \<Rightarrow> bool" where
  "order R \<longleftrightarrow> (\<forall>a. R a a) \<and> (\<forall>a b c. R a b \<longrightarrow> R b c \<longrightarrow> R a c)"

lemma transportsD: "transports R f \<Longrightarrow> f fault x = Inr y \<Longrightarrow> R (snd x) (snd y)"
  unfolding transports_def by blast

lemma transports_exec: "(\<And>s s'. run_statement st s = Some s' \<Longrightarrow> R s s') \<Longrightarrow> transports R (\<lambda>fault. tx_exec fault st)"
  by (auto simp: transports_def tx_exec_def split: option.splits)

lemma transports_bind: "order R \<Longrightarrow> transports R f \<Longrightarrow> transports R g \<Longrightarrow> transports R (\<lambda>fault x. try_bind (f fault x) (g fault))"
  unfolding transports_def order_def try_bind_Inr by blast

lemma transports_map_error: "transports R f \<Longrightarrow> transports R (\<lambda>fault x. map_error h (f fault x))"
  unfolding transports_def map_error_Inr .

lemma transports_Inr: "order R \<Longrightarrow> transports R (\<lambda>fault x. Inr x)"
  by (simp add: transports_def order_def)

lemma transports_hasColumn:
  "(\<And>b. transports R (g b)) \<Longrightarrow> transports R (\<lambda>fault x. try_bind (hasColumn fault t c x) (\<lambda>(b, x). g b fault x))"
  by (fastforce simp: transports_def hasColumn_bind split: option.splits)

lemma transports_if: "transports R f \<Longrightarrow> transports R g \<Longrightarrow> transports R (\<lambda>fault x. if b then f fault x else g fault x)"
  by (cases b) simp_all

lemma transports_statements:
  assumes "order R" "\<And>st s s'. st \<in> set sts \<Longrightarrow> run_statement st s = Some s' \<Longrightarrow> R s s'"
  shows "transports R (\<lambda>fault. execStatements fault sts)"
  using assms(2)
proof (induction sts)
  case Nil
  then show ?case using assms(1) by (simp add: transports_def order_def)
next
  case (Cons st sts)
  have "transports R (\<lambda>fault. execStatements fault sts)" by (rule Cons.IH, rule Cons.prems; simp)
  moreover have "transports R (\<lambda>fault. tx_exec fault st)" by (rule transports_exec, rule Cons.prems; simp)
  ultimately show ?case using transports_bind[OF assms(1)] by simp
qed

lemma transports_ensureColumn:
  "order R \<Longrightarrow> (\<And>s s'. run_statement (AddColumn t (fst cd) (snd cd)) s = Some s' \<Longrightarrow> R s s')
    \<Longrightarrow> transports R (\<lambda>fault. ensureColumn fault t cd)"
  unfolding ensureColumn_def
  by (intro transports_hasColumn transports_if transports_Inr transports_map_error transports_exec)

lemma transports_ensureColumns:
  assumes "order R" "\<And>cd s s'. cd \<in> set cds \<Longrightarrow> run_statement (AddColumn t (fst cd) (snd cd)) s = Some s' \<Longrightarrow> R s s'"
  shows "transports R (\<lambda>fault. ensureColumns fault t cds)"
  using assms(2)
proof (induction cds)
  case Nil
  then show ?case using assms(1) by (simp add: transports_def order_def)
next
  case (Cons cd cds)
  have "transports R (\<lambda>fault. ensureColumns fault t cds)" by (rule Cons.IH, rule Cons.prems; simp)
  moreover have "transports R (\<lambda>fault. ensureColumn fault t cd)"
    by (rule transports_ensureColumn[OF assms(1)], rule Cons.prems; simp)
  ultimately show ?case using transports_bind[OF assms(1)] by simp
qed

lemma run_migrations_transport:
  assumes "order R"
  shows "list_all (\<lambda>(v, name, f). transports R f) ms \<Longrightarrow> R (mg_schema (snd nd)) (mg_schema (snd (run_migrations fault ms nd)))"
proof (induction ms arbitrary: nd)
  case Nil
  then show ?case using assms by (simp add: order_def)
next
  case (Cons m ms)
  obtain v name f n db where m: "m = (v, name, f)" "nd = (n, db)" by (cases m, cases nd)
  show ?case
  proof (cases "run_migration fault m nd")
    case (Inl e)
    then show ?thesis using assms by (simp add: order_def)
  next
    case (Inr nd')
    then have "R (mg_schema db) (mg_schema (snd nd'))"
      using Cons.prems assms transportsD[of R f fault "(n + 2, mg_schema db)"]
      by (fastforce simp: run_migration_def m order_def split: option.splits sum.splits if_splits)
    with Inr Cons assms show ?thesis by (auto simp: m order_def)
  qed
qed

section \<open>The accounts survive\<close>

definition account_of :: "(string \<Rightarrow> cell) \<Rightarrow> cell \<times> cell \<times> cell" where
  "account_of r = (r ''id'', r ''username'', r ''password_hash'')"

definition accounts :: "schema \<Rightarrow> (cell \<times> cell \<times> cell) list" where
  "accounts s = (case map_of (sc_tables s) ''users'' of None \<Rightarrow> [] | Some users \<Rightarrow> map account_of (tab_rows users))"

definition same_accounts :: "schema \<Rightarrow> schema \<Rightarrow> bool" where
  "same_accounts s s' \<longleftrightarrow> accounts s' = accounts s"

lemma order_same_accounts: "order same_accounts"
  by (simp add: order_def same_accounts_def)

fun touches :: "statement \<Rightarrow> string set" where
  "touches (CreateIfMissing t cols) = {t}"
| "touches (CreateNew t cols) = {t}"
| "touches (CreateIndex i t) = {}"
| "touches (AddColumn t c d) = {t}"
| "touches (RenameTable a b) = {a, b}"
| "touches CopyLocalUsers = {''users''}"
| "touches (DropTable t) = {t}"
| "touches RaiseTokenVersions = {''users''}"

lemma untouched: "run_statement st s = Some s' \<Longrightarrow> t \<notin> touches st \<Longrightarrow> map_of (sc_tables s') t = map_of (sc_tables s) t"
  by (cases st) (auto simp: run_statement.simps set_table_def split: if_splits option.splits)

lemma untouched_accounts: "run_statement st s = Some s' \<Longrightarrow> ''users'' \<notin> touches st \<Longrightarrow> same_accounts s s'"
  by (simp add: same_accounts_def accounts_def untouched)

lemma created_accounts: "run_statement (CreateIfMissing ''users'' cols) s = Some s' \<Longrightarrow> same_accounts s s'"
  by (auto simp: run_statement.simps same_accounts_def accounts_def set_table_def split: if_splits)

lemma added_accounts: "c \<notin> {''id'', ''username'', ''password_hash''}
    \<Longrightarrow> run_statement (AddColumn t c d) s = Some s' \<Longrightarrow> same_accounts s s'"
  by (cases "t = ''users''")
    (auto simp: run_statement.simps same_accounts_def accounts_def set_table_def account_of_def split: if_splits option.splits)

lemma raised_account: "raise_version r = Some r' \<Longrightarrow> account_of r' = account_of r"
  by (auto simp: raise_version_def account_of_def split: cell.splits)

lemma those_map_eq: "those (map f xs) = Some ys \<Longrightarrow> (\<And>x y. f x = Some y \<Longrightarrow> g y = h x) \<Longrightarrow> map g ys = map h xs"
  by (induction xs arbitrary: ys) (auto split: option.splits)

lemma raised_accounts: "run_statement RaiseTokenVersions s = Some s' \<Longrightarrow> same_accounts s s'"
  by (auto simp: run_statement.simps same_accounts_def accounts_def set_table_def split: option.splits
      dest!: those_map_eq[where g = account_of and h = account_of, OF _ raised_account])

lemma copied_account: "account_of (copy_user users r) = account_of r"
  by (simp add: account_of_def copy_user_def copied_columns_def)

lemma rebuild_effect:
  assumes "rebuildLocalUsers fault x = Inr y"
  shows "\<exists>users. map_of (sc_tables (snd x)) ''users'' = Some users
    \<and> map_of (sc_tables (snd y)) ''users'' = Some \<lparr>tab_columns = users_columns,
        tab_rows = map (copy_user \<lparr>tab_columns = users_columns, tab_rows = []\<rparr>) (tab_rows users)\<rparr>
    \<and> (\<forall>t. t \<noteq> ''users'' \<and> t \<noteq> ''users_local_legacy'' \<longrightarrow> map_of (sc_tables (snd y)) t = map_of (sc_tables (snd x)) t)
    \<and> map_of (sc_tables (snd y)) ''users_local_legacy'' = None"
  using assms
  by (auto simp: run_statement.simps rebuildLocalUsers_def map_error_Inr try_bind_Inr tx_exec_def set_table_def
      split: option.splits if_splits)

lemma rebuild_accounts: "transports same_accounts rebuildLocalUsers"
  using rebuild_effect by (fastforce simp: transports_def same_accounts_def accounts_def copied_account comp_def)

lemma users_steps_accounts:
  "transports same_accounts (\<lambda>fault. tx_exec fault (CreateIfMissing ''users'' users_columns))"
  "transports same_accounts (\<lambda>fault. tx_exec fault RaiseTokenVersions)"
  "transports same_accounts (\<lambda>fault. ensureColumns fault ''users'' legacy_user_columns)"
  "transports same_accounts (\<lambda>fault. ensureColumns fault ''users'' identity_columns)"
  "transports same_accounts (\<lambda>fault. execStatements fault [CreateIndex ''idx_users_local_username'' ''users'',
      CreateIndex ''idx_users_external_identity'' ''users'', CreateIndex ''idx_users_local_admin'' ''users''])"
proof -
  show "transports same_accounts (\<lambda>fault. tx_exec fault (CreateIfMissing ''users'' users_columns))"
    "transports same_accounts (\<lambda>fault. tx_exec fault RaiseTokenVersions)"
    by (rule transports_exec, erule created_accounts raised_accounts)+
  show "transports same_accounts (\<lambda>fault. ensureColumns fault ''users'' legacy_user_columns)"
    "transports same_accounts (\<lambda>fault. ensureColumns fault ''users'' identity_columns)"
    by (rule transports_ensureColumns[OF order_same_accounts], erule added_accounts[rotated],
        auto simp: legacy_user_columns_def identity_columns_def)+
  show "transports same_accounts (\<lambda>fault. execStatements fault [CreateIndex ''idx_users_local_username'' ''users'',
      CreateIndex ''idx_users_external_identity'' ''users'', CreateIndex ''idx_users_local_admin'' ''users''])"
    by (rule transports_statements[OF order_same_accounts], erule untouched_accounts) auto
qed

lemma migrateUsers_accounts: "transports same_accounts migrateUsers"
  unfolding migrateUsers_def[abs_def]
  by (intro transports_bind[OF order_same_accounts] transports_hasColumn transports_if
      transports_Inr[OF order_same_accounts] rebuild_accounts users_steps_accounts)

lemma other_accounts:
  "transports same_accounts migrateMQTTBridges" "transports same_accounts migrateMetrics"
  "transports same_accounts migrateTopology" "transports same_accounts migrateClusters"
  "transports same_accounts migrateMQTTBridgeGauges"
  unfolding migrateMQTTBridges_def[abs_def] migrateMetrics_def[abs_def] migrateTopology_def[abs_def]
    migrateClusters_def[abs_def] migrateMQTTBridgeGauges_def[abs_def]
  by (intro transports_statements transports_bind transports_ensureColumn transports_ensureColumns order_same_accounts;
      auto intro: untouched_accounts simp: bridges_statements_def metrics_statements_def topology_statements_def)+

text \<open>
  No migration loses an account or its password: whatever the old schema is and wherever the
  database fails, the users table holds the same identifiers, names and password hashes in the same
  order before and after, also when it had to be rebuilt.
\<close>

theorem migrations_keep_accounts:
  "accounts (mg_schema (snd (migrateVersioned fault db))) = accounts (mg_schema db)"
proof -
  have "list_all (\<lambda>(v, name, f). transports same_accounts f) schemaMigrations"
    by (simp add: schemaMigrations_def migrateUsers_accounts other_accounts)
  from run_migrations_transport[OF order_same_accounts this, of "(1, db)" fault] show ?thesis
    by (simp add: migrateVersioned_def same_accounts_def split: option.split)
qed

end
