(* ===== verification/MigratedSchema.thy ===== *)
theory MigratedSchema
  imports MigrationProps
begin

text \<open>
  The schema that a successful run of the migrations leaves: a fresh database and an upgraded one come
  to the same columns.
\<close>

section \<open>The schema in the end\<close>

text \<open>
  The columns that a table of an older deployment had from the beginning: a table that is there is
  only ever widened by the columns that came later.
\<close>

definition original_columns :: "(string \<times> string list) list" where
  "original_columns = [(''users'', [''id'', ''username'', ''password_hash'', ''created_at'']),
     (''mqtt_bridges'', [''id'', ''env'', ''ip'', ''server_id'', ''admin_url'', ''last_seen'']),
     (''server_metrics'', [''ts'', ''env'', ''server_id'', ''connections'', ''in_msgs'', ''out_msgs'',
        ''in_bytes'', ''out_bytes'', ''cpu'', ''mem'', ''subscriptions'', ''slow_consumers'', ''routes'', ''leafnodes'',
        ''in_msgs_rate'', ''out_msgs_rate'', ''in_bytes_rate'', ''out_bytes_rate'', ''healthy'']),
     (''env_metrics'', [''ts'', ''env'', ''server_count'', ''healthy_count'', ''connection_count'',
        ''in_msgs_rate'', ''out_msgs_rate'', ''in_bytes_rate'', ''out_bytes_rate'', ''subscriptions'']),
     (''mqtt_bridge_metrics'', [''ts'', ''env'', ''bridge_id'', ''connections_active'', ''in_msgs_rate'',
        ''out_msgs_rate'', ''in_bytes_rate'', ''out_bytes_rate'', ''msgs_recv_qos0'', ''msgs_recv_qos1'', ''msgs_sent_qos0'',
        ''msgs_sent_qos1'']),
     (''topology_positions'', [''env'', ''node_id'', ''x'', ''y'']),
     (''topology_camera'', [''env'', ''zoom'', ''center_x'', ''center_y'']),
     (''clusters'', [''id'', ''name'', ''servers'', ''mqtt_bridges'', ''mqtt_discovery'', ''tls'', ''admin_token'', ''created_at''])]"

definition later_columns :: "(string \<times> string list) list" where
  "later_columns = [(''users'', [''role'', ''auth_provider'', ''external_subject'', ''display_name'', ''email'', ''last_login'',
        ''failed_attempts'', ''last_failed_at'', ''must_change_password'', ''token_version'']),
     (''mqtt_bridge_metrics'', mqttBridgeGaugeColumns), (''clusters'', [''nats_conn''])]"

definition original_of :: "string \<Rightarrow> string set" where
  "original_of t = (case map_of original_columns t of None \<Rightarrow> {} | Some cs \<Rightarrow> set cs)"

definition originals_there :: "schema \<Rightarrow> bool" where
  "originals_there s \<longleftrightarrow> (\<forall>t. map_of (sc_tables s) t \<noteq> None \<longrightarrow> original_of t \<subseteq> set (column_names t s))"

text \<open>The columns that count: for the users, which may be rebuilt, those of the present schema.\<close>

definition known :: "string \<Rightarrow> schema \<Rightarrow> string set" where
  "known t s = set (column_names t s) \<inter> (if t = ''users'' then set (map fst users_columns) else UNIV)"

definition widens :: "schema \<Rightarrow> schema \<Rightarrow> bool" where
  "widens s s' \<longleftrightarrow> (\<forall>t. t \<noteq> ''users_local_legacy'' \<longrightarrow> known t s \<subseteq> known t s')
     \<and> (originals_there s \<longrightarrow> originals_there s')"

lemma order_widens: "order widens"
  unfolding order_def widens_def by blast

lemma grown_widens:
  assumes "\<And>t. set (column_names t s) \<subseteq> set (column_names t s')"
    "\<And>t. map_of (sc_tables s') t \<noteq> None \<Longrightarrow> map_of (sc_tables s) t = None \<Longrightarrow> original_of t \<subseteq> set (column_names t s')"
  shows "widens s s'"
  using assms unfolding widens_def known_def originals_there_def by blast

lemma column_names_at: "map_of (sc_tables s) t = Some tab \<Longrightarrow> column_names t s = map fst (tab_columns tab)"
  "map_of (sc_tables s) t = None \<Longrightarrow> column_names t s = []"
  by (simp_all add: column_names_def)

lemma set_table_simps [simp]:
  "column_names t (set_table u tab s) = (if t = u then map fst (tab_columns tab) else column_names t s)"
  "map_of (sc_tables (set_table u tab s)) t = (if t = u then Some tab else map_of (sc_tables s) t)"
  by (simp_all add: set_table_def column_names_def)

lemma widens_set_table:
  assumes "set (column_names t s) \<subseteq> set (map fst (tab_columns tab))"
    "map_of (sc_tables s) t = None \<Longrightarrow> original_of t \<subseteq> set (map fst (tab_columns tab))"
  shows "widens s (set_table t tab s)"
  using assms by (intro grown_widens) (auto split: if_splits)

lemma widens_refl [simp]: "widens s s"
  using order_widens by (simp add: order_def)

lemma widens_create:
  "run_statement (CreateIfMissing t cols) s = Some s' \<Longrightarrow> original_of t \<subseteq> set (map fst cols) \<Longrightarrow> widens s s'"
  by (auto simp: run_statement.simps column_names_at intro!: widens_set_table split: if_splits)

lemma widens_index: "run_statement (CreateIndex i t) s = Some s' \<Longrightarrow> widens s s'"
  by (rule grown_widens) (auto simp: run_statement.simps column_names_def split: if_splits)

lemma widens_add: "run_statement (AddColumn t c d) s = Some s' \<Longrightarrow> widens s s'"
  by (auto simp: run_statement.simps column_names_at intro!: widens_set_table split: if_splits option.splits)

lemma widens_raise: "run_statement RaiseTokenVersions s = Some s' \<Longrightarrow> widens s s'"
  by (auto simp: run_statement.simps column_names_at intro!: widens_set_table split: if_splits option.splits)

lemma original_users: "original_of ''users'' \<subseteq> set (map fst users_columns)"
  by (simp add: original_of_def original_columns_def users_columns_def)

lemma rebuild_columns:
  assumes "rebuildLocalUsers fault x = Inr y"
  shows "column_names t (snd y) = (if t = ''users'' then map fst users_columns
    else if t = ''users_local_legacy'' then [] else column_names t (snd x))"
proof -
  have u: "column_names ''users'' (snd y) = map fst users_columns"
    and o: "t \<noteq> ''users'' \<Longrightarrow> t \<noteq> ''users_local_legacy'' \<Longrightarrow> column_names t (snd y) = column_names t (snd x)"
    and n: "column_names ''users_local_legacy'' (snd y) = []" for t
    using rebuild_effect[OF assms] by (elim exE conjE, simp add: column_names_def)+
  consider "t = ''users''" | "t = ''users_local_legacy''" | "t \<noteq> ''users''" "t \<noteq> ''users_local_legacy''" by blast
  then show ?thesis by cases (simp_all add: u o n)
qed

lemma rebuild_widens: "transports widens rebuildLocalUsers"
  unfolding transports_def
proof (intro allI impI)
  fix fault x y
  assume r: "rebuildLocalUsers fault x = Inr y"
  have "originals_there (snd y)" if "originals_there (snd x)"
    unfolding originals_there_def
  proof (intro allI impI)
    fix t
    assume "map_of (sc_tables (snd y)) t \<noteq> None"
    with rebuild_effect[OF r] have "t = ''users'' \<or> t \<noteq> ''users_local_legacy'' \<and> map_of (sc_tables (snd x)) t \<noteq> None"
      by metis
    then show "original_of t \<subseteq> set (column_names t (snd y))"
      using that original_users unfolding originals_there_def rebuild_columns[OF r] by (elim disjE) simp_all
  qed
  then show "widens (snd x) (snd y)" by (simp add: widens_def known_def rebuild_columns[OF r])
qed

fun creates_only :: "statement \<Rightarrow> bool" where
  "creates_only (CreateIfMissing t cols) \<longleftrightarrow> original_of t \<subseteq> set (map fst cols)"
| "creates_only (CreateIndex i t) \<longleftrightarrow> True"
| "creates_only _ \<longleftrightarrow> False"

abbreviation only_creates :: "statement list \<Rightarrow> bool" where
  "only_creates sts \<equiv> list_all creates_only sts"

lemma widens_statement:
  assumes "run_statement st s = Some s'"
    "creates_only st"
  shows "widens s s'"
  using assms by (cases st) (auto intro: widens_create[simplified] widens_index)

lemma widens_statements:
  assumes "only_creates sts"
  shows "transports widens (\<lambda>fault. execStatements fault sts)"
  using assms by (intro transports_statements order_widens) (auto simp: list_all_iff intro: widens_statement)

lemma widens_ensureColumn: "transports widens (\<lambda>fault. ensureColumn fault t cd)"
  by (intro transports_ensureColumn order_widens) (rule widens_add)

lemma widens_ensureColumns: "transports widens (\<lambda>fault. ensureColumns fault t cds)"
  by (intro transports_ensureColumns order_widens) (rule widens_add)

lemmas original_defs = original_of_def original_columns_def

lemma widens_users_steps:
  "transports widens (\<lambda>fault. tx_exec fault (CreateIfMissing ''users'' users_columns))"
  "transports widens (\<lambda>fault. tx_exec fault RaiseTokenVersions)"
  "transports widens (\<lambda>fault. execStatements fault [CreateIndex ''idx_users_local_username'' ''users'',
      CreateIndex ''idx_users_external_identity'' ''users'', CreateIndex ''idx_users_local_admin'' ''users''])"
proof -
  show "transports widens (\<lambda>fault. tx_exec fault (CreateIfMissing ''users'' users_columns))"
    by (rule transports_exec, erule widens_create[OF _ original_users])
  show "transports widens (\<lambda>fault. tx_exec fault RaiseTokenVersions)"
    by (rule transports_exec, erule widens_raise)
qed (rule widens_statements, simp)

lemma new_tables:
  "only_creates bridges_statements" "only_creates metrics_statements" "only_creates topology_statements"
  "only_creates [CreateIfMissing ''clusters'' clusters_columns]"
  by (simp_all add: bridges_statements_def metrics_statements_def topology_statements_def clusters_columns_def
      original_defs plain_def)

lemma migrations_widen: "list_all (\<lambda>(v, name, f). transports widens f) schemaMigrations"
proof -
  have "transports widens migrateUsers"
    unfolding migrateUsers_def[abs_def]
    by (intro transports_bind[OF order_widens] transports_hasColumn transports_if transports_Inr[OF order_widens]
        rebuild_widens widens_users_steps widens_ensureColumns)
  moreover have "transports widens migrateMQTTBridges" "transports widens migrateMetrics" "transports widens migrateTopology"
    unfolding migrateMQTTBridges_def[abs_def] migrateMetrics_def[abs_def] migrateTopology_def[abs_def]
    by (intro widens_statements new_tables)+
  moreover have "transports widens migrateClusters"
    unfolding migrateClusters_def[abs_def]
    by (intro transports_bind[OF order_widens] widens_ensureColumn widens_statements new_tables)
  moreover have "transports widens migrateMQTTBridgeGauges"
    unfolding migrateMQTTBridgeGauges_def[abs_def] by (rule widens_ensureColumns)
  ultimately show ?thesis by (simp add: schemaMigrations_def)
qed

text \<open>Columns that a successful step provides, given the original ones.\<close>

definition provides :: "((nat \<Rightarrow> string option) \<Rightarrow> tx \<Rightarrow> string + tx) \<Rightarrow> string \<Rightarrow> string set \<Rightarrow> bool" where
  "provides f t cs \<longleftrightarrow> (\<forall>fault x y. f fault x = Inr y \<longrightarrow> originals_there (snd x) \<longrightarrow> cs \<subseteq> known t (snd y))"

lemma run_migrations_provide:
  assumes "list_all (\<lambda>(v, name, f). transports widens f) ms" "distinct (map fst ms)"
    "fst ` set (mg_applied (snd nd)) \<inter> fst ` set ms = {}" "originals_there (mg_schema (snd nd))"
    "fst (run_migrations fault ms nd) = None" "(v, name, f) \<in> set ms" "provides f t cs" "t \<noteq> ''users_local_legacy''"
  shows "cs \<subseteq> known t (mg_schema (snd (run_migrations fault ms nd)))"
  using assms(1-6)
proof (induction ms arbitrary: nd)
  case Nil
  then show ?case by simp
next
  case (Cons m ms)
  obtain v1 name1 f1 n db where m: "m = (v1, name1, f1)" "nd = (n, db)" by (cases m, cases nd)
  have v1: "v1 \<notin> fst ` set (mg_applied db)" using Cons.prems(3) by (auto simp: m)
  then obtain k s k' where s: "f1 fault (n + 2, mg_schema db) = Inr (k, s)"
    "run_migration fault m nd = Inr (k', \<lparr>mg_schema = s, mg_applied = mg_applied db @ [(v1, name1)]\<rparr>)"
    using Cons.prems(5)
    by (cases "f1 fault (n + 2, mg_schema db)") (auto simp: m run_migration_def split: option.splits)
  let ?nd = "(k', \<lparr>mg_schema = s, mg_applied = mg_applied db @ [(v1, name1)]\<rparr>)"
  have w: "widens (mg_schema db) s" using transportsD[of widens f1 fault "(n + 2, mg_schema db)" "(k, s)"] s(1) Cons.prems(1) by (simp add: m)
  have ms: "list_all (\<lambda>(v, name, f). transports widens f) ms" using Cons.prems(1) by simp
  show ?case
  proof (cases "(v, name, f) \<in> set ms")
    case True
    have "originals_there s" using w Cons.prems(4) by (simp add: widens_def m)
    with Cons.IH[of ?nd] Cons.prems ms True s(2) show ?thesis by (auto simp: m)
  next
    case False
    then have "f = f1" using Cons.prems(6) by (simp add: m)
    then have "cs \<subseteq> known t s" using assms(7) s(1) Cons.prems(4) by (fastforce simp: provides_def m)
    moreover have "widens s (mg_schema (snd (run_migrations fault ms ?nd)))"
      using run_migrations_transport[OF order_widens ms, of ?nd fault] by simp
    ultimately show ?thesis using assms(8) s(2) by (auto simp: widens_def)
  qed
qed

lemma ensureColumn_provides: "ensureColumn fault t cd x = Inr y \<Longrightarrow> fst cd \<in> set (column_names t (snd y))"
  by (auto simp: ensureColumn_def hasColumn_def try_bind_Inr map_error_Inr tx_exec_def run_statement.simps column_names_at
      split: option.splits if_splits)

lemma columns_grow: "transports widens f \<Longrightarrow> f fault x = Inr y \<Longrightarrow> t \<noteq> ''users_local_legacy'' \<Longrightarrow> known t (snd x) \<subseteq> known t (snd y)"
  unfolding transports_def widens_def by blast

lemma ensureColumns_provides:
  assumes "t \<noteq> ''users_local_legacy''" "t = ''users'' \<longrightarrow> fst ` set cds \<subseteq> fst ` set users_columns"
  shows "ensureColumns fault t cds x = Inr y \<Longrightarrow> fst ` set cds \<subseteq> known t (snd y)"
  using assms(2)
proof (induction cds arbitrary: x)
  case Nil
  then show ?case by simp
next
  case (Cons cd cds)
  then obtain x1 where x1: "ensureColumn fault t cd x = Inr x1" "ensureColumns fault t cds x1 = Inr y"
    by (auto simp: try_bind_Inr)
  have "fst cd \<in> known t (snd x1)"
    using ensureColumn_provides[OF x1(1)] Cons.prems(2) by (auto simp: known_def)
  with columns_grow[OF widens_ensureColumns x1(2) assms(1)] Cons.IH[OF x1(2)] Cons.prems(2) show ?case by auto
qed

lemma created_exists: "run_statement (CreateIfMissing t cols) s = Some s' \<Longrightarrow> map_of (sc_tables s') t \<noteq> None"
  by (auto simp: run_statement.simps split: if_splits)

lemma created_columns:
  assumes "execStatements fault sts x = Inr y" "CreateIfMissing t cols \<in> set sts" "originals_there (snd x)"
    "only_creates sts"
    "t \<noteq> ''users_local_legacy''" "t = ''users'' \<longrightarrow> original_of t \<subseteq> set (map fst users_columns)"
  shows "original_of t \<subseteq> known t (snd y)"
  using assms(1-4)
proof (induction sts arbitrary: x)
  case Nil
  then show ?case by simp
next
  case (Cons st sts)
  then obtain x1 where x1: "tx_exec fault st x = Inr x1" "execStatements fault sts x1 = Inr y" by (auto simp: try_bind_Inr)
  then have r: "run_statement st (snd x) = Some (snd x1)" by (auto simp: tx_exec_def split: option.splits)
  have w: "widens (snd x) (snd x1)" using widens_statement[OF r] Cons.prems(4) by simp
  then have o: "originals_there (snd x1)" using Cons.prems(3) by (simp add: widens_def)
  have rest: "only_creates sts"
    using Cons.prems(4) by simp
  show ?case
  proof (cases "CreateIfMissing t cols \<in> set sts")
    case True
    then show ?thesis using Cons.IH[OF x1(2) _ o rest] by simp
  next
    case False
    then have "st = CreateIfMissing t cols" using Cons.prems(2) by auto
    then have "map_of (sc_tables (snd x1)) t \<noteq> None" using r created_exists by simp
    then have "original_of t \<subseteq> known t (snd x1)" using o assms(6) by (auto simp: originals_there_def known_def)
    with columns_grow[OF widens_statements[OF rest] x1(2) assms(5)] show ?thesis by blast
  qed
qed

lemma users_provided: "provides migrateUsers ''users'' (set (map fst users_columns))"
  unfolding provides_def
proof (intro allI impI)
  fix fault x y
  assume run: "migrateUsers fault x = Inr y" and orig: "originals_there (snd x)"
  let ?k = "known ''users''"
  obtain x1 x2 b x3 x4 where steps: "tx_exec fault (CreateIfMissing ''users'' users_columns) x = Inr x1"
    "ensureColumns fault ''users'' legacy_user_columns x1 = Inr x2" "hasColumn fault ''users'' ''auth_provider'' x2 = Inr (b, x3)"
    "(if \<not> b then rebuildLocalUsers fault x3 else try_bind (ensureColumns fault ''users'' identity_columns x3) (\<lambda>x.
        try_bind (hasColumn fault ''users'' ''session_version'' x) (\<lambda>(has, x).
          if has then tx_exec fault RaiseTokenVersions x else Inr x))) = Inr x4"
    "execStatements fault [CreateIndex ''idx_users_local_username'' ''users'',
      CreateIndex ''idx_users_external_identity'' ''users'', CreateIndex ''idx_users_local_admin'' ''users''] x4 = Inr y"
    using run by (auto simp: migrateUsers_def try_bind_Inr simp del: execStatements.simps)
  have last: "?k (snd x4) \<subseteq> ?k (snd y)" using columns_grow[OF widens_users_steps(3) steps(5)] by simp
  show "set (map fst users_columns) \<subseteq> ?k (snd y)"
  proof (cases b)
    case False
    then have "column_names ''users'' (snd x4) = map fst users_columns" using steps(4) rebuild_columns by simp
    with last show ?thesis by (auto simp: known_def)
  next
    case True
    then obtain x5 x6 has where ident: "ensureColumns fault ''users'' identity_columns x3 = Inr x5"
      "hasColumn fault ''users'' ''session_version'' x5 = Inr (has, x6)"
      "(if has then tx_exec fault RaiseTokenVersions x6 else Inr x6) = Inr x4"
      using steps(4) by (auto simp: try_bind_Inr)
    have same: "snd x3 = snd x2" "snd x6 = snd x5" "b \<longleftrightarrow> ''auth_provider'' \<in> set (column_names ''users'' (snd x2))"
      using steps(3) ident(2) by (auto simp: hasColumn_def split: option.splits)
    have c1: "run_statement (CreateIfMissing ''users'' users_columns) (snd x) = Some (snd x1)"
      using steps(1) by (auto simp: tx_exec_def split: option.splits)
    have "originals_there (snd x1)" using widens_create[OF c1 original_users] orig by (simp add: widens_def)
    then have o: "original_of ''users'' \<subseteq> ?k (snd x1)"
      using created_exists[OF c1] original_users unfolding originals_there_def known_def by simp
    have l: "fst ` set legacy_user_columns \<subseteq> ?k (snd x2)"
      by (rule ensureColumns_provides[OF _ _ steps(2)]) (simp_all add: legacy_user_columns_def users_columns_def)
    have p: "{''auth_provider''} \<subseteq> ?k (snd x2)" using True same(3) by (simp add: known_def users_columns_def)
    have i: "fst ` set identity_columns \<subseteq> ?k (snd x5)"
      by (rule ensureColumns_provides[OF _ _ ident(1)]) (simp_all add: identity_columns_def users_columns_def)
    have "?k (snd x5) \<subseteq> ?k (snd x4)"
      using columns_grow[OF widens_users_steps(2), of fault x6 x4 "''users''"] ident(3) same(2) by (cases has) auto
    then have up5: "?k (snd x5) \<subseteq> ?k (snd y)" using last by (rule subset_trans)
    have "?k (snd x2) \<subseteq> ?k (snd x5)"
      using columns_grow[OF widens_ensureColumns ident(1), of "''users''"] by (simp add: same(1))
    then have up2: "?k (snd x2) \<subseteq> ?k (snd y)" using up5 by (rule subset_trans)
    have "?k (snd x1) \<subseteq> ?k (snd x2)"
      using columns_grow[OF widens_ensureColumns steps(2), of "''users''"] by simp
    then have up1: "?k (snd x1) \<subseteq> ?k (snd y)" using up2 by (rule subset_trans)
    from subset_trans[OF o up1] subset_trans[OF l up2] subset_trans[OF p up2] subset_trans[OF i up5] show ?thesis
      by (simp add: users_columns_def legacy_user_columns_def identity_columns_def original_defs)
  qed
qed

lemma statements_provide:
  assumes "only_creates sts"
    "t \<in> \<Union> (touches ` set sts)" "t \<noteq> ''users_local_legacy''" "t \<noteq> ''users''"
  shows "provides (\<lambda>fault. execStatements fault sts) t (original_of t)"
proof -
  obtain st where st: "st \<in> set sts" "t \<in> touches st" using assms(2) by blast
  then have "creates_only st" using assms(1) by (simp add: list_all_iff)
  with st obtain cols where "CreateIfMissing t cols \<in> set sts" by (cases st rule: creates_only.cases) auto
  with created_columns assms(1,3,4) show ?thesis unfolding provides_def by blast
qed

lemma metrics_provided:
  "provides migrateMQTTBridges ''mqtt_bridges'' (original_of ''mqtt_bridges'')"
  "provides migrateMetrics ''server_metrics'' (original_of ''server_metrics'')"
  "provides migrateMetrics ''env_metrics'' (original_of ''env_metrics'')"
  "provides migrateMetrics ''mqtt_bridge_metrics'' (original_of ''mqtt_bridge_metrics'')"
  "provides migrateTopology ''topology_positions'' (original_of ''topology_positions'')"
  "provides migrateTopology ''topology_camera'' (original_of ''topology_camera'')"
  unfolding migrateMQTTBridges_def[abs_def] migrateMetrics_def[abs_def] migrateTopology_def[abs_def]
  by (rule statements_provide, rule new_tables,
      simp add: bridges_statements_def metrics_statements_def topology_statements_def, simp, simp)+

lemma clusters_provided: "provides migrateClusters ''clusters'' (insert ''nats_conn'' (original_of ''clusters''))"
  unfolding provides_def
proof (intro allI impI)
  fix fault x y
  assume "migrateClusters fault x = Inr y" and orig: "originals_there (snd x)"
  then obtain x1 where x1: "execStatements fault [CreateIfMissing ''clusters'' clusters_columns] x = Inr x1"
    "ensureColumn fault ''clusters'' (''nats_conn'', Null) x1 = Inr y"
    unfolding migrateClusters_def try_bind_Inr by blast
  have "provides (\<lambda>fault. execStatements fault [CreateIfMissing ''clusters'' clusters_columns]) ''clusters'' (original_of ''clusters'')"
    by (rule statements_provide, rule new_tables, simp_all)
  then have "original_of ''clusters'' \<subseteq> known ''clusters'' (snd x1)" using x1(1) orig unfolding provides_def by blast
  moreover have "known ''clusters'' (snd x1) \<subseteq> known ''clusters'' (snd y)"
    using columns_grow[OF widens_ensureColumn x1(2)] by simp
  moreover have "''nats_conn'' \<in> known ''clusters'' (snd y)" using ensureColumn_provides[OF x1(2)] by (simp add: known_def)
  ultimately show "insert ''nats_conn'' (original_of ''clusters'') \<subseteq> known ''clusters'' (snd y)" by blast
qed

lemma gauges_provided: "provides migrateMQTTBridgeGauges ''mqtt_bridge_metrics'' (set mqttBridgeGaugeColumns)"
proof -
  have "fst ` set (plain mqttBridgeGaugeColumns) = set mqttBridgeGaugeColumns" by (force simp: plain_def)
  with ensureColumns_provides[of "''mqtt_bridge_metrics''" "plain mqttBridgeGaugeColumns"] show ?thesis
    by (simp add: provides_def migrateMQTTBridgeGauges_def)
qed

definition current_columns :: "(string \<times> string list) list" where
  "current_columns = original_columns @ later_columns"

text \<open>
  A fresh database and an upgraded one come to the same columns: when a run over a database without a
  ledger succeeds, every table of the program has all the columns the program uses, whether it was
  created by the run or was there before with its original columns, or with any of the later ones.
\<close>

theorem migrated_schema_is_current:
  assumes "mg_applied db = []" "originals_there (mg_schema db)" "fst (migrateVersioned fault db) = None"
  shows "list_all (\<lambda>(t, cs). set cs \<subseteq> set (column_names t (mg_schema (snd (migrateVersioned fault db))))) current_columns"
proof -
  have run: "migrateVersioned fault db = run_migrations fault schemaMigrations (1, db)"
    using assms(3) by (simp add: migrateVersioned_def split: option.splits)
  let ?s = "mg_schema (snd (migrateVersioned fault db))"
  have p: "cs \<subseteq> set (column_names t ?s)"
    if "f \<in> (\<lambda>m. snd (snd m)) ` set schemaMigrations" "provides f t cs" "t \<noteq> ''users_local_legacy''" for f t cs
  proof -
    note f = that
    obtain v name where m: "(v, name, f) \<in> set schemaMigrations" using f(1) by force
    have "cs \<subseteq> known t ?s"
      unfolding run using assms
      by (intro run_migrations_provide[OF migrations_widen _ _ _ _ m f(2,3)]) (simp_all add: run, simp add: schemaMigrations_def)
    then show ?thesis by (auto simp: known_def)
  qed
  have m: "{migrateUsers, migrateMQTTBridges, migrateMetrics, migrateTopology, migrateClusters, migrateMQTTBridgeGauges}
      \<subseteq> (\<lambda>m. snd (snd m)) ` set schemaMigrations" by (simp add: schemaMigrations_def)
  have "set (map fst users_columns) \<subseteq> set (column_names ''users'' ?s)"
    by (rule p[OF _ users_provided]) (use m in simp_all)
  moreover have "original_of ''mqtt_bridges'' \<subseteq> set (column_names ''mqtt_bridges'' ?s)"
    "original_of ''server_metrics'' \<subseteq> set (column_names ''server_metrics'' ?s)"
    "original_of ''env_metrics'' \<subseteq> set (column_names ''env_metrics'' ?s)"
    "original_of ''mqtt_bridge_metrics'' \<subseteq> set (column_names ''mqtt_bridge_metrics'' ?s)"
    "original_of ''topology_positions'' \<subseteq> set (column_names ''topology_positions'' ?s)"
    "original_of ''topology_camera'' \<subseteq> set (column_names ''topology_camera'' ?s)"
    by (rule p[rotated], rule metrics_provided, simp, rule subsetD[OF m], simp)+
  moreover have "insert ''nats_conn'' (original_of ''clusters'') \<subseteq> set (column_names ''clusters'' ?s)"
    by (rule p[OF _ clusters_provided]) (use m in simp_all)
  moreover have "set mqttBridgeGaugeColumns \<subseteq> set (column_names ''mqtt_bridge_metrics'' ?s)"
    by (rule p[OF _ gauges_provided]) (use m in simp_all)
  ultimately show ?thesis
    by (simp add: current_columns_def original_defs later_columns_def users_columns_def)
qed

text \<open>A database of an early release: two local accounts without roles, and the metrics without the gauges.\<close>

definition early_users :: table where
  "early_users = \<lparr>tab_columns = plain [''id'', ''username'', ''password_hash'', ''created_at''],
     tab_rows = [(\<lambda>c. if c = ''username'' then Txt ''admin'' else Null), (\<lambda>c. if c = ''username'' then Txt ''ann'' else Null)]\<rparr>"

definition early_db :: ledger_db where
  "early_db = \<lparr>mg_schema = \<lparr>sc_tables = [(''users'', early_users)], sc_indexes = []\<rparr>, mg_applied = []\<rparr>"

lemma migrated_schema_is_current_witness:
  "{''role'', ''auth_provider'', ''token_version''} \<subseteq> set (column_names ''users'' (mg_schema (snd (migrateVersioned (\<lambda>_. None) early_db))))
    \<and> ''go_goroutines'' \<in> set (column_names ''mqtt_bridge_metrics'' (mg_schema (snd (migrateVersioned (\<lambda>_. None) early_db))))"
proof -
  have "originals_there (mg_schema early_db)"
    by (simp add: originals_there_def early_db_def column_names_def early_users_def plain_def original_defs)
  moreover have "fst (migrateVersioned (\<lambda>_. None) early_db) = None" by code_simp
  ultimately have "list_all (\<lambda>(t, cs). set cs \<subseteq> set (column_names t (mg_schema (snd (migrateVersioned (\<lambda>_. None) early_db)))))
      current_columns"
    by (intro migrated_schema_is_current) (simp add: early_db_def)
  then show ?thesis by (simp add: current_columns_def original_columns_def later_columns_def mqttBridgeGaugeColumns_def)
qed

end
