(* ===== verification/ClusterCodec.thy ===== *)
theory ClusterCodec
  imports ConfigModel "HOL-Library.Monad_Syntax"
begin

text \<open>
  The JSON columns of the clusters table: the struct tags of \<^verbatim>\<open>internal/config/config.go\<close> as encoders and
  decoders between the configuration records and JSON values, in the way of \<^verbatim>\<open>encoding/json\<close>. A column
  holds the text of one value. A nil slice and an empty one are the same list here, and are written
  as an empty array.
\<close>

section \<open>Values\<close>

text \<open>A number that is not written as an integer is a fraction.\<close>

datatype json =
    JNull
  | JBool bool
  | JInt int
  | JFraction string
  | JStr string
  | JArr "json list"
  | JObj "(string \<times> json) list"

section \<open>Encoding\<close>

text \<open>Fields of a struct in order; \<^verbatim>\<open>omitempty\<close> leaves out a zero value.\<close>

definition omit_string :: "string \<Rightarrow> string \<Rightarrow> (string \<times> json) list" where
  "omit_string name s = (if s = [] then [] else [(name, JStr s)])"

definition omit_bool :: "string \<Rightarrow> bool \<Rightarrow> (string \<times> json) list" where
  "omit_bool name b = (if b then [(name, JBool b)] else [])"

definition omit_list :: "string \<Rightarrow> json list \<Rightarrow> (string \<times> json) list" where
  "omit_list name xs = (if xs = [] then [] else [(name, JArr xs)])"

definition omit_pointer :: "string \<Rightarrow> json option \<Rightarrow> (string \<times> json) list" where
  "omit_pointer name p = (case p of None \<Rightarrow> [] | Some v \<Rightarrow> [(name, v)])"

definition encode_server :: "string \<Rightarrow> json" where
  "encode_server url = JObj [(''url'', JStr url)]"

definition encode_bridge :: "mqtt_bridge \<Rightarrow> json" where
  "encode_bridge b = JObj ([(''name'', JStr (mb_Name b)), (''url'', JStr (mb_URL b))] @ omit_string ''bearer_token'' (mb_BearerToken b))"

definition encode_discovery :: "mqtt_discovery_config \<Rightarrow> json" where
  "encode_discovery d = JObj (omit_pointer ''enabled'' (map_option JBool (md_Enabled d))
     @ omit_list ''admin_ports'' (map JInt (md_AdminPorts d)) @ omit_list ''trusted_hosts'' (map JStr (md_TrustedHosts d)))"

definition encode_tls :: "tls_config \<Rightarrow> json" where
  "encode_tls t = JObj (omit_string ''ca_file'' (t_CAFile t) @ omit_string ''ca_pem'' (t_CAPem t)
     @ [(''insecure'', JBool (t_Insecure t))])"

definition encode_nats_conn :: "nats_conn_config \<Rightarrow> json" where
  "encode_nats_conn n = JObj ([(''urls'', JArr (map JStr (nn_URLs n)))] @ omit_string ''username'' (nn_Username n)
     @ omit_string ''password'' (nn_Password n) @ omit_string ''token'' (nn_Token n) @ omit_string ''nkey'' (nn_NKey n)
     @ omit_string ''creds_file'' (nn_CredsFile n) @ omit_string ''subject_prefix'' (nn_SubjectPrefix n)
     @ omit_bool ''sys_collection'' (nn_SYSCollection n) @ omit_pointer ''tls'' (map_option encode_tls (nn_TLS n)))"

section \<open>Decoding into a zero struct\<close>

text \<open>
  A field is found by its name without regard to case, and the last one counts; a missing field and
  \<^verbatim>\<open>null\<close> leave the zero value.
\<close>

definition json_field :: "string \<Rightarrow> (json \<Rightarrow> 'a option) \<Rightarrow> 'a \<Rightarrow> (string \<times> json) list \<Rightarrow> 'a option" where
  "json_field name dec zero members = (case map_of (rev (map (\<lambda>(k, v). (ToLower k, v)) members)) name of
      None \<Rightarrow> Some zero
    | Some v \<Rightarrow> if v = JNull then Some zero else dec v)"

fun decode_string :: "json \<Rightarrow> string option" where
  "decode_string (JStr s) = Some s"
| "decode_string _ = None"

fun decode_bool :: "json \<Rightarrow> bool option" where
  "decode_bool (JBool b) = Some b"
| "decode_bool _ = None"

fun decode_int :: "json \<Rightarrow> int option" where
  "decode_int (JInt i) = (if min_int64 \<le> i \<and> i \<le> max_int64 then Some i else None)"
| "decode_int _ = None"

definition decode_elements :: "(json \<Rightarrow> 'a option) \<Rightarrow> 'a \<Rightarrow> json list \<Rightarrow> 'a list option" where
  "decode_elements dec zero xs = those (map (\<lambda>v. if v = JNull then Some zero else dec v) xs)"

definition decode_list :: "(json \<Rightarrow> 'a option) \<Rightarrow> 'a \<Rightarrow> json \<Rightarrow> 'a list option" where
  "decode_list dec zero v = (case v of JArr xs \<Rightarrow> decode_elements dec zero xs | _ \<Rightarrow> None)"

definition decode_object :: "((string \<times> json) list \<Rightarrow> 'a option) \<Rightarrow> json \<Rightarrow> 'a option" where
  "decode_object f v = (case v of JObj members \<Rightarrow> f members | _ \<Rightarrow> None)"

definition decode_server :: "json \<Rightarrow> string option" where
  "decode_server = decode_object (json_field ''url'' decode_string [])"

definition decode_bridge :: "json \<Rightarrow> mqtt_bridge option" where
  "decode_bridge = decode_object (\<lambda>ms. do {
     name \<leftarrow> json_field ''name'' decode_string [] ms;
     url \<leftarrow> json_field ''url'' decode_string [] ms;
     token \<leftarrow> json_field ''bearer_token'' decode_string [] ms;
     Some \<lparr>mb_Name = name, mb_URL = url, mb_BearerToken = token\<rparr>})"

definition decode_discovery :: "json \<Rightarrow> mqtt_discovery_config option" where
  "decode_discovery = decode_object (\<lambda>ms. do {
     enabled \<leftarrow> json_field ''enabled'' (map_option Some \<circ> decode_bool) None ms;
     ports \<leftarrow> json_field ''admin_ports'' (decode_list decode_int 0) [] ms;
     hosts \<leftarrow> json_field ''trusted_hosts'' (decode_list decode_string []) [] ms;
     Some \<lparr>md_Enabled = enabled, md_AdminPorts = ports, md_TrustedHosts = hosts\<rparr>})"

definition decode_tls :: "json \<Rightarrow> tls_config option" where
  "decode_tls = decode_object (\<lambda>ms. do {
     file \<leftarrow> json_field ''ca_file'' decode_string [] ms;
     pem \<leftarrow> json_field ''ca_pem'' decode_string [] ms;
     insecure \<leftarrow> json_field ''insecure'' decode_bool False ms;
     Some \<lparr>t_CAFile = file, t_CAPem = pem, t_Insecure = insecure\<rparr>})"

definition decode_nats_conn :: "json \<Rightarrow> nats_conn_config option" where
  "decode_nats_conn = decode_object (\<lambda>ms. do {
     urls \<leftarrow> json_field ''urls'' (decode_list decode_string []) [] ms;
     username \<leftarrow> json_field ''username'' decode_string [] ms;
     password \<leftarrow> json_field ''password'' decode_string [] ms;
     token \<leftarrow> json_field ''token'' decode_string [] ms;
     nkey \<leftarrow> json_field ''nkey'' decode_string [] ms;
     creds \<leftarrow> json_field ''creds_file'' decode_string [] ms;
     prefix \<leftarrow> json_field ''subject_prefix'' decode_string [] ms;
     sys \<leftarrow> json_field ''sys_collection'' decode_bool False ms;
     tls \<leftarrow> json_field ''tls'' (map_option Some \<circ> decode_tls) None ms;
     Some \<lparr>nn_URLs = urls, nn_Username = username, nn_Password = password, nn_Token = token, nn_NKey = nkey,
       nn_CredsFile = creds, nn_SubjectPrefix = prefix, nn_SYSCollection = sys, nn_TLS = tls\<rparr>})"

section \<open>What is encoded is decoded\<close>

lemma those_inverse: "\<forall>x\<in>set xs. f (enc x) = Some x \<Longrightarrow> those (map f (map enc xs)) = Some xs"
  by (induction xs) simp_all

lemma decode_list_encoded:
  assumes "\<And>x. x \<in> set xs \<Longrightarrow> enc x \<noteq> JNull \<and> dec (enc x) = Some x"
  shows "decode_list dec zero (JArr (map enc xs)) = Some xs"
proof -
  have "\<forall>x\<in>set xs. (if enc x = JNull then Some zero else dec (enc x)) = Some x" using assms by simp
  then show ?thesis using those_inverse[of xs "\<lambda>v. if v = JNull then Some zero else dec v" enc]
    by (simp only: decode_list_def decode_elements_def json.case)
qed

lemma decode_strings [simp]: "decode_list decode_string zero (JArr (map JStr xs)) = Some xs"
  by (rule decode_list_encoded) simp

named_theorems json_fields "reading the fields of an encoded struct"

definition json_names :: "(string \<times> json) list \<Rightarrow> string set" where
  "json_names members = (ToLower \<circ> fst) ` set members"

lemma json_names_append [json_fields]: "json_names (a @ b) = json_names a \<union> json_names b"
  by (auto simp: json_names_def)

lemma json_names_Cons [json_fields]: "json_names (p # b) = insert (ToLower (fst p)) (json_names b)" "json_names [] = {}"
  by (auto simp: json_names_def)

lemma json_names_omit [json_fields]:
  "n \<in> json_names (omit_string k s) \<longleftrightarrow> s \<noteq> [] \<and> n = ToLower k" "n \<in> json_names (omit_bool k b) \<longleftrightarrow> b \<and> n = ToLower k"
  "n \<in> json_names (omit_list k xs) \<longleftrightarrow> xs \<noteq> [] \<and> n = ToLower k" "n \<in> json_names (omit_pointer k p) \<longleftrightarrow> p \<noteq> None \<and> n = ToLower k"
  by (auto simp: json_names_def omit_string_def omit_bool_def omit_list_def omit_pointer_def split: option.splits)

lemma json_field_none: "n \<notin> json_names a \<Longrightarrow> map_of (rev (map (\<lambda>(k, v). (ToLower k, v)) a)) n = None"
  by (force simp: json_names_def map_of_eq_None_iff)

lemma json_field_skip [json_fields]:
  "n \<notin> json_names b \<Longrightarrow> json_field n dec zero (a @ b) = json_field n dec zero a"
  "n \<notin> json_names a \<Longrightarrow> json_field n dec zero (a @ b) = json_field n dec zero b"
  using json_field_none[of n a] json_field_none[of n b]
  by (auto simp: json_field_def map_add_def split: option.split)

lemma json_field_skip_Cons [json_fields]:
  "n \<noteq> ToLower k \<Longrightarrow> json_field n dec zero ((k, v) # b) = json_field n dec zero b"
  using json_field_skip(2)[of n "[(k, v)]"] by (simp add: json_names_def)

lemma json_field_head [json_fields]:
  "n = ToLower k \<Longrightarrow> n \<notin> json_names b \<Longrightarrow> json_field n dec zero ((k, v) # b) = (if v = JNull then Some zero else dec v)"
  using json_field_skip(1)[of n b dec zero "[(k, v)]"] by (simp add: json_field_def)

lemma json_field_at [json_fields]:
  "ToLower k = n \<Longrightarrow> json_field n dec zero [(k, v)] = (if v = JNull then Some zero else dec v)"
  "json_field n dec zero [] = Some zero"
  "ToLower k = n \<Longrightarrow> json_field n decode_string [] (omit_string k s) = Some s"
  "ToLower k = n \<Longrightarrow> json_field n decode_bool False (omit_bool k b) = Some b"
  by (auto simp: json_field_def omit_string_def omit_bool_def)

lemma json_field_list [json_fields]:
  assumes "ToLower k = n" "\<And>x. x \<in> set xs \<Longrightarrow> enc x \<noteq> JNull \<and> dec (enc x) = Some x"
  shows "json_field n (decode_list dec z) [] (omit_list k (map enc xs)) = Some xs"
  using assms decode_list_encoded[of xs enc dec z] by (auto simp: json_field_def omit_list_def)

lemma json_field_pointer [json_fields]:
  assumes "ToLower k = n" "\<And>x. enc x \<noteq> JNull \<and> dec (enc x) = Some x"
  shows "json_field n (map_option Some \<circ> dec) None (omit_pointer k (map_option enc p)) = Some p"
  using assms by (cases p) (auto simp: json_field_def omit_pointer_def)

lemma field_names [json_fields]:
  "ToLower ''url'' = ''url''" "ToLower ''name'' = ''name''" "ToLower ''bearer_token'' = ''bearer_token''"
  "ToLower ''enabled'' = ''enabled''" "ToLower ''admin_ports'' = ''admin_ports''" "ToLower ''trusted_hosts'' = ''trusted_hosts''"
  "ToLower ''ca_file'' = ''ca_file''" "ToLower ''ca_pem'' = ''ca_pem''" "ToLower ''insecure'' = ''insecure''"
  "ToLower ''urls'' = ''urls''" "ToLower ''username'' = ''username''" "ToLower ''password'' = ''password''"
  "ToLower ''token'' = ''token''" "ToLower ''nkey'' = ''nkey''" "ToLower ''creds_file'' = ''creds_file''"
  "ToLower ''subject_prefix'' = ''subject_prefix''" "ToLower ''sys_collection'' = ''sys_collection''" "ToLower ''tls'' = ''tls''"
  by code_simp+

lemma encoded_not_null [simp]: "encode_server u \<noteq> JNull" "encode_bridge b \<noteq> JNull" "encode_discovery d \<noteq> JNull"
  "encode_tls t \<noteq> JNull" "encode_nats_conn n \<noteq> JNull"
  by (simp_all add: encode_server_def encode_bridge_def encode_discovery_def encode_tls_def encode_nats_conn_def)

lemma decode_server_encoded [simp]: "decode_server (encode_server u) = Some u"
  by (simp add: decode_server_def encode_server_def decode_object_def json_fields)

lemma decode_bridge_encoded [simp]: "decode_bridge (encode_bridge b) = Some b"
  by (simp add: decode_bridge_def encode_bridge_def decode_object_def json_fields)

lemma decode_tls_encoded [simp]: "decode_tls (encode_tls t) = Some t"
  by (simp add: decode_tls_def encode_tls_def decode_object_def json_fields)

lemma decode_discovery_encoded:
  assumes "\<forall>p\<in>set (md_AdminPorts d). min_int64 \<le> p \<and> p \<le> max_int64"
  shows "decode_discovery (encode_discovery d) = Some d"
  using assms by (simp add: decode_discovery_def encode_discovery_def decode_object_def json_fields)

lemma decode_nats_conn_encoded [simp]: "decode_nats_conn (encode_nats_conn n) = Some n"
  by (simp add: decode_nats_conn_def encode_nats_conn_def decode_object_def json_fields)

lemma decode_servers [simp]: "decode_list decode_server [] (JArr (map encode_server us)) = Some us"
  by (rule decode_list_encoded) simp

lemma decode_bridges [simp]: "decode_list decode_bridge z (JArr (map encode_bridge bs)) = Some bs"
  by (rule decode_list_encoded) simp

end
