(* ===== verification/EnvTables.thy ===== *)
theory EnvTables
  imports MetricsStore "HOL-Library.List_Lexorder" "HOL-Library.Char_ord"
begin

text \<open>
  The tables of \<^verbatim>\<open>internal/store/store.go\<close> that are keyed by an environment, which is the ID of a cluster:
  the discovered bridges and the saved topology, next to the three metric tables. \<open>fault n\<close> is the
  error of the \<open>n\<close>th call of an operation. The wire form of a time is a text that the database
  compares; \<open>older\<close> is that comparison of a stored time with the bound of a query.
\<close>

section \<open>Rows\<close>

record bridge_record =
  br_Env :: string
  br_IP :: string
  br_ServerID :: string
  br_AdminURL :: string
  br_LastSeen :: gotime

record node_position =
  np_NodeID :: string
  np_X :: f64
  np_Y :: f64

record camera_state =
  ca_Zoom :: f64
  ca_CenterX :: f64
  ca_CenterY :: f64

text \<open>A position row is the environment and the position, with the primary key of both names.\<close>

record env_tables =
  et_bridges :: "bridge_record list"
  et_metrics :: metrics_db
  et_positions :: "(string \<times> node_position) list"
  et_camera :: "(string, camera_state) gomap"

definition position_key :: "string \<times> node_position \<Rightarrow> string \<times> string" where
  "position_key p = (fst p, np_NodeID (snd p))"

definition bridge_key_of :: "bridge_record \<Rightarrow> string \<times> string \<times> string" where
  "bridge_key_of b = (br_Env b, br_IP b, br_ServerID b)"

definition tables_ok :: "env_tables \<Rightarrow> bool" where
  "tables_ok t \<longleftrightarrow> distinct (map bridge_key_of (et_bridges t)) \<and> distinct (map position_key (et_positions t)) \<and> gm_ok (et_camera t)"

section \<open>Discovered bridges\<close>

definition UpsertMQTTBridge :: "db_faults \<Rightarrow> gotime \<Rightarrow> string \<Rightarrow> string \<Rightarrow> string \<Rightarrow> string \<Rightarrow> env_tables
    \<Rightarrow> string option \<times> env_tables" where
  "UpsertMQTTBridge fault now env ip server url t = (case fault 0 of
      Some e \<Rightarrow> (Some e, t)
    | None \<Rightarrow>
        (None, t\<lparr>et_bridges :=
          (if (env, ip, server) \<in> set (map bridge_key_of (et_bridges t))
           then map (\<lambda>b. if bridge_key_of b = (env, ip, server) then b\<lparr>br_AdminURL := url, br_LastSeen := now\<rparr> else b)
                  (et_bridges t)
           else et_bridges t @ [\<lparr>br_Env = env, br_IP = ip, br_ServerID = server, br_AdminURL = url, br_LastSeen = now\<rparr>])\<rparr>))"

definition ListMQTTBridges :: "db_faults \<Rightarrow> string \<Rightarrow> env_tables \<Rightarrow> string + bridge_record list" where
  "ListMQTTBridges fault env t = (case fault 0 of
      Some e \<Rightarrow> Inl e
    | None \<Rightarrow> Inr (sort_key br_IP (filter (\<lambda>b. br_Env b = env) (et_bridges t))))"

definition DeleteStaleMQTTBridges :: "db_faults \<Rightarrow> (gotime \<Rightarrow> gotime \<Rightarrow> bool) \<Rightarrow> gotime \<Rightarrow> string \<Rightarrow> int \<Rightarrow> env_tables
    \<Rightarrow> string option \<times> env_tables" where
  "DeleteStaleMQTTBridges fault older now env age t = (case fault 0 of
      Some e \<Rightarrow> (Some e, t)
    | None \<Rightarrow> (None, t\<lparr>et_bridges :=
        filter (\<lambda>b. \<not> (br_Env b = env \<and> older (br_LastSeen b) (now - age))) (et_bridges t)\<rparr>))"

section \<open>Saved topology\<close>

definition GetTopologyPositions :: "db_faults \<Rightarrow> string \<Rightarrow> env_tables \<Rightarrow> string + node_position list" where
  "GetTopologyPositions fault env t = (case fault 0 of
      Some e \<Rightarrow> Inl e
    | None \<Rightarrow> Inr (map snd (filter (\<lambda>p. fst p = env) (et_positions t))))"

definition GetTopologyCamera :: "db_faults \<Rightarrow> string \<Rightarrow> env_tables \<Rightarrow> string + camera_state option" where
  "GetTopologyCamera fault env t = (case fault 0 of
      Some e \<Rightarrow> Inl e
    | None \<Rightarrow> Inr (map_of (et_camera t) env))"

text \<open>A NaN is stored as NULL, which the columns refuse.\<close>

definition SaveTopologyCamera :: "db_faults \<Rightarrow> string \<Rightarrow> camera_state \<Rightarrow> env_tables \<Rightarrow> string option \<times> env_tables" where
  "SaveTopologyCamera fault env c t = (case fault 0 of
      Some e \<Rightarrow> (Some e, t)
    | None \<Rightarrow>
        if ca_Zoom c = NaN \<or> ca_CenterX c = NaN \<or> ca_CenterY c = NaN then (Some ''NOT NULL constraint failed'', t)
        else (None, t\<lparr>et_camera := gm_set env c (et_camera t)\<rparr>))"

definition DeleteTopologyCamera :: "db_faults \<Rightarrow> string \<Rightarrow> env_tables \<Rightarrow> string option \<times> env_tables" where
  "DeleteTopologyCamera fault env t = (case fault 0 of
      Some e \<Rightarrow> (Some e, t)
    | None \<Rightarrow> (None, t\<lparr>et_camera := gm_del env (et_camera t)\<rparr>))"

fun insert_positions :: "db_faults \<Rightarrow> nat \<Rightarrow> string \<Rightarrow> node_position list \<Rightarrow> (string \<times> node_position) list
    \<Rightarrow> string + (string \<times> node_position) list" where
  "insert_positions fault n env [] table = Inr table"
| "insert_positions fault n env (p # ps) table = (case fault n of
      Some e \<Rightarrow> Inl e
    | None \<Rightarrow>
        if (env, np_NodeID p) \<in> set (map position_key table) then Inl ''UNIQUE constraint failed''
        else if np_X p = NaN \<or> np_Y p = NaN then Inl ''NOT NULL constraint failed''
        else insert_positions fault (n + 1) env ps (table @ [(env, p)]))"

text \<open>One transaction: begin, delete, prepare, the inserts, commit. An error rolls everything back.\<close>

definition SaveTopologyPositions :: "db_faults \<Rightarrow> string \<Rightarrow> node_position list \<Rightarrow> env_tables \<Rightarrow> string option \<times> env_tables" where
  "SaveTopologyPositions fault env ps t = (case (fault 0, fault 1, fault 2) of
      (None, None, None) \<Rightarrow>
        (case insert_positions fault 3 env ps (filter (\<lambda>p. fst p \<noteq> env) (et_positions t)) of
           Inl e \<Rightarrow> (Some e, t)
         | Inr table \<Rightarrow> (case fault (3 + length ps) of
             Some e \<Rightarrow> (Some e, t)
           | None \<Rightarrow> (None, t\<lparr>et_positions := table\<rparr>)))
    | (Some e, _, _) \<Rightarrow> (Some e, t)
    | (None, Some e, _) \<Rightarrow> (Some e, t)
    | (None, None, Some e) \<Rightarrow> (Some e, t))"

section \<open>Lemmas\<close>

lemma insert_positions_result:
  "insert_positions fault n env ps table = Inr table' \<Longrightarrow>
    table' = table @ map (Pair env) ps \<and> (distinct (map position_key table) \<longrightarrow> distinct (map position_key table'))"
proof (induction fault n env ps table rule: insert_positions.induct)
  case (2 fault n env p ps table)
  then have rec: "insert_positions fault (n + 1) env ps (table @ [(env, p)]) = Inr table'"
    and new: "(env, np_NodeID p) \<notin> set (map position_key table)" and ok: "fault n = None" "\<not> (np_X p = NaN \<or> np_Y p = NaN)"
    by (auto split: option.splits if_splits)
  have k: "position_key (env, p) = (env, np_NodeID p)" by (simp add: position_key_def)
  have "distinct (map position_key table) \<Longrightarrow> distinct (map position_key (table @ [(env, p)]))" using new by (simp add: k)
  note d = this
  note ih = 2(1)[OF ok(1) new ok(2) rec]
  show ?case
  proof
    show "table' = table @ map (Pair env) (p # ps)" using ih by simp
    show "distinct (map position_key table) \<longrightarrow> distinct (map position_key table')" using ih d by blast
  qed
qed simp

lemma save_positions_cases:
  assumes "SaveTopologyPositions fault env ps t = (r, t')"
  shows "(r \<noteq> None \<and> t' = t) \<or> (r = None \<and> t' = t\<lparr>et_positions := filter (\<lambda>p. fst p \<noteq> env) (et_positions t) @ map (Pair env) ps\<rparr>
    \<and> (distinct (map position_key (et_positions t)) \<longrightarrow> distinct (map position_key (et_positions t'))))"
proof -
  have d: "distinct (map position_key (et_positions t)) \<Longrightarrow> distinct (map position_key (filter (\<lambda>p. fst p \<noteq> env) (et_positions t)))"
    by (rule distinct_map_filter)
  show ?thesis using assms insert_positions_result[of fault 3 env ps "filter (\<lambda>p. fst p \<noteq> env) (et_positions t)"] d
    by (auto simp: SaveTopologyPositions_def split: option.splits sum.splits)
qed

text \<open>A saved layout is what is loaded, for this environment; the others keep theirs.\<close>

lemma saved_positions_are_loaded:
  assumes "SaveTopologyPositions fault env ps t = (None, t')"
  shows "GetTopologyPositions (\<lambda>_. None) e t' = (if e = env then Inr ps else GetTopologyPositions (\<lambda>_. None) e t)"
proof -
  have t': "et_positions t' = filter (\<lambda>p. fst p \<noteq> env) (et_positions t) @ map (Pair env) ps"
    using save_positions_cases[OF assms] by auto
  have "filter (\<lambda>p. fst p = e) (map (Pair env) ps) = (if e = env then map (Pair env) ps else [])"
    by (induction ps) auto
  moreover have "filter (\<lambda>p. fst p = e) (filter (\<lambda>p. fst p \<noteq> env) (et_positions t))
      = (if e = env then [] else filter (\<lambda>p. fst p = e) (et_positions t))"
    by (induction "et_positions t") (auto simp: filter_empty_conv intro: filter_cong)
  ultimately show ?thesis by (simp add: GetTopologyPositions_def t' comp_def)
qed

lemma upsert_bridge_keys:
  "map bridge_key_of (et_bridges (snd (UpsertMQTTBridge fault now env ip server url t))) =
    (if fault 0 \<noteq> None \<or> (env, ip, server) \<in> set (map bridge_key_of (et_bridges t)) then map bridge_key_of (et_bridges t)
     else map bridge_key_of (et_bridges t) @ [(env, ip, server)])"
  by (auto simp: UpsertMQTTBridge_def bridge_key_of_def split: option.split)

text \<open>Every operation keeps the keys of the tables unique.\<close>

lemma env_tables_kept:
  assumes "tables_ok t"
  shows "tables_ok (snd (UpsertMQTTBridge fault now env ip server url t))"
    "tables_ok (snd (DeleteStaleMQTTBridges fault older now env age t))"
    "tables_ok (snd (SaveTopologyCamera fault env c t))"
    "tables_ok (snd (DeleteTopologyCamera fault env t))"
    "tables_ok (snd (SaveTopologyPositions fault env ps t))"
proof -
  have "et_positions (snd (UpsertMQTTBridge fault now env ip server url t)) = et_positions t"
    "et_camera (snd (UpsertMQTTBridge fault now env ip server url t)) = et_camera t"
    by (simp_all add: UpsertMQTTBridge_def split: option.split)
  then show "tables_ok (snd (UpsertMQTTBridge fault now env ip server url t))"
    using assms by (simp only: tables_ok_def upsert_bridge_keys split: if_split) auto
  show "tables_ok (snd (DeleteStaleMQTTBridges fault older now env age t))"
    using assms by (simp add: tables_ok_def DeleteStaleMQTTBridges_def distinct_map_filter split: option.split)
  show "tables_ok (snd (SaveTopologyCamera fault env c t))" "tables_ok (snd (DeleteTopologyCamera fault env t))"
    using assms by (simp_all add: tables_ok_def SaveTopologyCamera_def DeleteTopologyCamera_def split: option.split)
  show "tables_ok (snd (SaveTopologyPositions fault env ps t))"
    using save_positions_cases[of fault env ps t "fst (SaveTopologyPositions fault env ps t)" "snd (SaveTopologyPositions fault env ps t)"] assms
    by (auto simp: tables_ok_def)
qed

end
