(* ===== verification/ClusterStore.thy ===== *)
theory ClusterStore
  imports ClusterCodec EnvTables Manager
begin

text \<open>
  The clusters table, \<^verbatim>\<open>internal/store/clusters.go\<close>: a row keeps the structured fields as JSON columns, and
  reading a row loads the CA files it names. Deleting a cluster removes the rows of its ID from the six
  tables that are keyed by it. \<open>fault n\<close> is the error of the \<open>n\<close>th call to the database; the encoder of
  the standard library does not fail on these types.
\<close>

section \<open>Clusters, rows and errors\<close>

record cluster =
  kl_ID :: string
  kl_Name :: string
  kl_Servers :: "string list"
  kl_MQTTBridges :: "mqtt_bridge list"
  kl_MQTTDiscovery :: "mqtt_discovery_config option"
  kl_TLS :: "tls_config option"
  kl_AdminToken :: string
  kl_NATSConn :: "nats_conn_config option"
  kl_CreatedAt :: gotime

definition ToEnvironment :: "cluster \<Rightarrow> environment" where
  "ToEnvironment c = \<lparr>e_Name = kl_Name c, e_Servers = kl_Servers c, e_MQTTBridges = kl_MQTTBridges c,
     e_MQTTDiscovery = kl_MQTTDiscovery c, e_AdminToken = kl_AdminToken c, e_TLS = kl_TLS c, e_NATSConn = kl_NATSConn c\<rparr>"

definition ClusterFromEnvironment :: "environment \<Rightarrow> cluster" where
  "ClusterFromEnvironment e = \<lparr>kl_ID = [], kl_Name = e_Name e, kl_Servers = e_Servers e, kl_MQTTBridges = e_MQTTBridges e,
     kl_MQTTDiscovery = e_MQTTDiscovery e, kl_TLS = e_TLS e, kl_AdminToken = e_AdminToken e, kl_NATSConn = e_NATSConn e,
     kl_CreatedAt = 0\<rparr>"

text \<open>A nullable column is \<open>None\<close> for NULL.\<close>

record cluster_row =
  kr_id :: string
  kr_name :: string
  kr_servers :: json
  kr_bridges :: json
  kr_discovery :: "json option"
  kr_tls :: "json option"
  kr_admin_token :: string
  kr_nats_conn :: "json option"
  kr_created_at :: gotime

record cluster_db =
  kd_clusters :: "cluster_row list"
  kd_tables :: env_tables

datatype cluster_error =
    ErrClusterNotFound
  | ErrClusterNameRequired
  | ErrClusterServersRequired
  | IDFailed
  | BadColumn string
  | CAUnreadable file_error
  | ClusterDBError string

section \<open>Rows from clusters and back\<close>

text \<open>
  The argument of \<^verbatim>\<open>marshalNullable\<close> is an interface that holds a typed pointer, so it is never nil itself: a
  nil pointer is encoded, as \<^verbatim>\<open>null\<close>.
\<close>

definition marshalNullable :: "json option \<Rightarrow> json option" where
  "marshalNullable p = Some (case p of None \<Rightarrow> JNull | Some v \<Rightarrow> v)"

definition marshalClusterFields :: "cluster \<Rightarrow> json \<times> json \<times> json option \<times> json option \<times> json option" where
  "marshalClusterFields c = (JArr (map encode_server (kl_Servers c)), JArr (map encode_bridge (kl_MQTTBridges c)),
     marshalNullable (map_option encode_discovery (kl_MQTTDiscovery c)), marshalNullable (map_option encode_tls (kl_TLS c)),
     marshalNullable (map_option encode_nats_conn (kl_NATSConn c)))"

definition cluster_row_of :: "cluster \<Rightarrow> cluster_row" where
  "cluster_row_of c = (let (servers, bridges, discovery, tls, nats) = marshalClusterFields c in
     \<lparr>kr_id = kl_ID c, kr_name = kl_Name c, kr_servers = servers, kr_bridges = bridges, kr_discovery = discovery,
       kr_tls = tls, kr_admin_token = kl_AdminToken c, kr_nats_conn = nats, kr_created_at = kl_CreatedAt c\<rparr>)"

text \<open>A column that is NULL or \<^verbatim>\<open>null\<close> leaves a nil pointer; \<^verbatim>\<open>null\<close> in a slice column leaves a nil slice.\<close>

definition scan_pointer :: "string \<Rightarrow> (json \<Rightarrow> 'a option) \<Rightarrow> json option \<Rightarrow> cluster_error + 'a option" where
  "scan_pointer column dec p = (case p of
      None \<Rightarrow> Inr None
    | Some v \<Rightarrow> if v = JNull then Inr None else case dec v of None \<Rightarrow> Inl (BadColumn column) | Some x \<Rightarrow> Inr (Some x))"

definition scan_list :: "string \<Rightarrow> (json \<Rightarrow> 'a list option) \<Rightarrow> json \<Rightarrow> cluster_error + 'a list" where
  "scan_list column dec v =
    (if v = JNull then Inr [] else case dec v of None \<Rightarrow> Inl (BadColumn column) | Some xs \<Rightarrow> Inr xs)"

definition zero_bridge :: mqtt_bridge where
  "zero_bridge = \<lparr>mb_Name = [], mb_URL = [], mb_BearerToken = []\<rparr>"

definition hydrate_nats :: "host \<Rightarrow> nats_conn_config option \<Rightarrow> cluster_error + nats_conn_config option" where
  "hydrate_nats h nc = (case nc of
      None \<Rightarrow> Inr None
    | Some n \<Rightarrow> try_bind (map_error CAUnreadable (ResolveCAFile h (nn_TLS n))) (\<lambda>t. Inr (Some (n\<lparr>nn_TLS := t\<rparr>))))"

definition scanCluster :: "host \<Rightarrow> cluster_row \<Rightarrow> cluster_error + cluster" where
  "scanCluster h r =
    try_bind (scan_list ''servers'' (decode_list decode_server []) (kr_servers r)) (\<lambda>servers.
    try_bind (scan_list ''mqtt_bridges'' (decode_list decode_bridge zero_bridge) (kr_bridges r)) (\<lambda>bridges.
    try_bind (scan_pointer ''mqtt_discovery'' decode_discovery (kr_discovery r)) (\<lambda>discovery.
    try_bind (scan_pointer ''tls'' decode_tls (kr_tls r)) (\<lambda>tls.
    try_bind (scan_pointer ''nats_conn'' decode_nats_conn (kr_nats_conn r)) (\<lambda>nats.
    try_bind (map_error CAUnreadable (ResolveCAFile h tls)) (\<lambda>tls.
    try_bind (hydrate_nats h nats) (\<lambda>nats.
      Inr \<lparr>kl_ID = kr_id r, kl_Name = kr_name r, kl_Servers = servers, kl_MQTTBridges = bridges,
        kl_MQTTDiscovery = discovery, kl_TLS = tls, kl_AdminToken = kr_admin_token r, kl_NATSConn = nats,
        kl_CreatedAt = kr_created_at r\<rparr>)))))))"

section \<open>Operations\<close>

definition cluster_call :: "db_faults \<Rightarrow> nat \<Rightarrow> (cluster_error + 'a) \<Rightarrow> cluster_error + 'a" where
  "cluster_call fault n next = (case fault n of Some e \<Rightarrow> Inl (ClusterDBError e) | None \<Rightarrow> next)"

definition check_cluster :: "cluster \<Rightarrow> cluster_error + unit" where
  "check_cluster c =
    (if kl_Name c = [] then Inl ErrClusterNameRequired else if kl_Servers c = [] then Inl ErrClusterServersRequired else Inr ())"

text \<open>\<open>fresh\<close> is the generated ID, \<open>None\<close> if there is no entropy. The created cluster is returned.\<close>

definition CreateCluster :: "db_faults \<Rightarrow> string option \<Rightarrow> gotime \<Rightarrow> cluster \<Rightarrow> cluster_db \<Rightarrow> cluster_error + cluster \<times> cluster_db" where
  "CreateCluster fault fresh now c db =
    try_bind (check_cluster c) (\<lambda>_.
      case fresh of
        None \<Rightarrow> Inl IDFailed
      | Some i \<Rightarrow>
          let c = c\<lparr>kl_ID := i, kl_CreatedAt := now\<rparr>
          in cluster_call fault 0
            (if i \<in> set (map kr_id (kd_clusters db)) then Inl (ClusterDBError ''UNIQUE constraint failed'')
             else Inr (c, db\<lparr>kd_clusters := kd_clusters db @ [cluster_row_of c]\<rparr>)))"

fun scan_clusters :: "host \<Rightarrow> cluster_row list \<Rightarrow> cluster_error + cluster list" where
  "scan_clusters h [] = Inr []"
| "scan_clusters h (r # rs) = try_bind (scanCluster h r) (\<lambda>c. try_bind (scan_clusters h rs) (\<lambda>cs. Inr (c # cs)))"

definition ListClusters :: "db_faults \<Rightarrow> host \<Rightarrow> cluster_db \<Rightarrow> cluster_error + cluster list" where
  "ListClusters fault h db =
    cluster_call fault 0 (try_bind (scan_clusters h (sort_key kr_name (kd_clusters db))) (\<lambda>cs. cluster_call fault 1 (Inr cs)))"

definition GetCluster :: "db_faults \<Rightarrow> host \<Rightarrow> string \<Rightarrow> cluster_db \<Rightarrow> cluster_error + cluster" where
  "GetCluster fault h i db = cluster_call fault 0
    (case find (\<lambda>r. kr_id r = i) (kd_clusters db) of None \<Rightarrow> Inl ErrClusterNotFound | Some r \<Rightarrow> scanCluster h r)"

definition store_UpdateCluster :: "db_faults \<Rightarrow> cluster \<Rightarrow> cluster_db \<Rightarrow> cluster_error + cluster_db" where
  "store_UpdateCluster fault c db =
    try_bind (check_cluster c) (\<lambda>_. cluster_call fault 0
      (if kl_ID c \<in> set (map kr_id (kd_clusters db))
       then Inr (db\<lparr>kd_clusters := map (\<lambda>r. if kr_id r = kl_ID c
               then (cluster_row_of c)\<lparr>kr_created_at := kr_created_at r\<rparr> else r) (kd_clusters db)\<rparr>)
       else Inl ErrClusterNotFound))"

text \<open>The rows of an environment are deleted table by table, in one transaction.\<close>

definition delete_env_rows :: "string \<Rightarrow> env_tables \<Rightarrow> env_tables" where
  "delete_env_rows i t = t\<lparr>et_bridges := filter (\<lambda>b. br_Env b \<noteq> i) (et_bridges t),
     et_metrics := \<lparr>db_server = filter (\<lambda>r. mr_env r \<noteq> i) (db_server (et_metrics t)),
       db_env = filter (\<lambda>r. mr_env r \<noteq> i) (db_env (et_metrics t)), db_bridge = filter (\<lambda>r. mr_env r \<noteq> i) (db_bridge (et_metrics t))\<rparr>,
     et_positions := filter (\<lambda>p. fst p \<noteq> i) (et_positions t), et_camera := gm_del i (et_camera t)\<rparr>"

definition cascade_tables :: "string list" where
  "cascade_tables = [''mqtt_bridges'', ''server_metrics'', ''env_metrics'', ''mqtt_bridge_metrics'', ''topology_positions'', ''topology_camera'']"

definition delete_table_rows :: "string \<Rightarrow> string \<Rightarrow> env_tables \<Rightarrow> env_tables" where
  "delete_table_rows table i t =
    (let m = et_metrics t in
     if table = ''mqtt_bridges'' then t\<lparr>et_bridges := filter (\<lambda>b. br_Env b \<noteq> i) (et_bridges t)\<rparr>
     else if table = ''server_metrics'' then t\<lparr>et_metrics := m\<lparr>db_server := filter (\<lambda>r. mr_env r \<noteq> i) (db_server m)\<rparr>\<rparr>
     else if table = ''env_metrics'' then t\<lparr>et_metrics := m\<lparr>db_env := filter (\<lambda>r. mr_env r \<noteq> i) (db_env m)\<rparr>\<rparr>
     else if table = ''mqtt_bridge_metrics'' then t\<lparr>et_metrics := m\<lparr>db_bridge := filter (\<lambda>r. mr_env r \<noteq> i) (db_bridge m)\<rparr>\<rparr>
     else if table = ''topology_positions'' then t\<lparr>et_positions := filter (\<lambda>p. fst p \<noteq> i) (et_positions t)\<rparr>
     else if table = ''topology_camera'' then t\<lparr>et_camera := gm_del i (et_camera t)\<rparr>
     else t)"

fun cascade :: "db_faults \<Rightarrow> nat \<Rightarrow> string \<Rightarrow> string list \<Rightarrow> env_tables \<Rightarrow> cluster_error + env_tables" where
  "cascade fault n i [] t = Inr t"
| "cascade fault n i (table # tables) t = cluster_call fault n (cascade fault (n + 1) i tables (delete_table_rows table i t))"

definition store_DeleteCluster :: "db_faults \<Rightarrow> string \<Rightarrow> cluster_db \<Rightarrow> cluster_error + cluster_db" where
  "store_DeleteCluster fault i db =
    cluster_call fault 0 (cluster_call fault 1
      (if i \<notin> set (map kr_id (kd_clusters db)) then Inl ErrClusterNotFound
       else try_bind (cascade fault 2 i cascade_tables (kd_tables db)) (\<lambda>t.
         cluster_call fault 8 (Inr \<lparr>kd_clusters = filter (\<lambda>r. kr_id r \<noteq> i) (kd_clusters db), kd_tables = t\<rparr>))))"

definition ClusterCount :: "db_faults \<Rightarrow> cluster_db \<Rightarrow> cluster_error + nat" where
  "ClusterCount fault db = cluster_call fault 0 (Inr (length (kd_clusters db)))"

section \<open>Seeding from the configuration\<close>

text \<open>
  \<open>world n\<close> is what the \<open>n\<close>th insertion finds: the faults, the generated ID and the time. The clusters
  created before an error remain.
\<close>

fun seed_environments :: "(nat \<Rightarrow> db_faults \<times> string option \<times> gotime) \<Rightarrow> nat \<Rightarrow> string list \<Rightarrow> environment list \<Rightarrow> cluster_db
    \<Rightarrow> (cluster_error option \<times> nat) \<times> cluster_db" where
  "seed_environments world n names [] db = ((None, n), db)"
| "seed_environments world n names (e # es) db =
    (if e_Name e = [] \<or> e_Name e \<in> set names then seed_environments world n names es db
     else let (fault, fresh, now) = world n
          in case CreateCluster fault fresh now (ClusterFromEnvironment e) db of
               Inl err \<Rightarrow> ((Some err, n), db)
             | Inr (_, db') \<Rightarrow> seed_environments world (n + 1) (e_Name e # names) es db')"

definition SeedClusters :: "db_faults \<Rightarrow> host \<Rightarrow> (nat \<Rightarrow> db_faults \<times> string option \<times> gotime) \<Rightarrow> environment list \<Rightarrow> cluster_db
    \<Rightarrow> (cluster_error option \<times> nat) \<times> cluster_db" where
  "SeedClusters fault h world envs db =
    (if envs = [] then ((None, 0), db)
     else case ListClusters fault h db of
       Inl e \<Rightarrow> ((Some e, 0), db)
     | Inr existing \<Rightarrow> seed_environments world 0 (map kl_Name existing) envs db)"

section \<open>Lemmas\<close>

lemma cluster_call_Inr [error_simps]: "cluster_call fault n r = Inr x \<longleftrightarrow> fault n = None \<and> r = Inr x"
  by (simp add: cluster_call_def split: option.split)

lemma cluster_call_ok [simp]: "fault n = None \<Longrightarrow> cluster_call fault n r = r"
  by (simp add: cluster_call_def)

lemma check_cluster_Inr [error_simps]: "check_cluster c = Inr u \<longleftrightarrow> kl_Name c \<noteq> [] \<and> kl_Servers c \<noteq> []"
  by (simp add: check_cluster_def)

text \<open>The decimal ports of a configuration are 64-bit integers.\<close>

definition ports_in_range :: "cluster \<Rightarrow> bool" where
  "ports_in_range c \<longleftrightarrow> (case kl_MQTTDiscovery c of None \<Rightarrow> True
     | Some d \<Rightarrow> list_all (\<lambda>p. min_int64 \<le> p \<and> p \<le> max_int64) (md_AdminPorts d))"

lemma scan_pointer_marshalled:
  assumes "\<And>x. p = Some x \<Longrightarrow> enc x \<noteq> JNull \<and> dec (enc x) = Some x"
  shows "scan_pointer column dec (marshalNullable (map_option enc p)) = Inr p"
  using assms by (cases p) (auto simp: scan_pointer_def marshalNullable_def)

text \<open>Reading back what was written: the cluster with the CA files loaded.\<close>

lemma scan_written:
  assumes "ports_in_range c"
  shows "scanCluster h (cluster_row_of c) =
    try_bind (map_error CAUnreadable (ResolveCAFile h (kl_TLS c))) (\<lambda>t.
    try_bind (hydrate_nats h (kl_NATSConn c)) (\<lambda>n. Inr (c\<lparr>kl_TLS := t, kl_NATSConn := n\<rparr>)))"
proof -
  have d: "scan_pointer ''mqtt_discovery'' decode_discovery (marshalNullable (map_option encode_discovery (kl_MQTTDiscovery c)))
      = Inr (kl_MQTTDiscovery c)"
    using assms decode_discovery_encoded by (intro scan_pointer_marshalled) (auto simp: ports_in_range_def list_all_iff)
  have t: "scan_pointer ''tls'' decode_tls (marshalNullable (map_option encode_tls (kl_TLS c))) = Inr (kl_TLS c)"
    by (rule scan_pointer_marshalled) simp
  have n: "scan_pointer ''nats_conn'' decode_nats_conn (marshalNullable (map_option encode_nats_conn (kl_NATSConn c)))
      = Inr (kl_NATSConn c)"
    by (rule scan_pointer_marshalled) simp
  have e: "c\<lparr>kl_TLS := x, kl_NATSConn := y\<rparr> = \<lparr>kl_ID = kl_ID c, kl_Name = kl_Name c, kl_Servers = kl_Servers c,
      kl_MQTTBridges = kl_MQTTBridges c, kl_MQTTDiscovery = kl_MQTTDiscovery c, kl_TLS = x, kl_AdminToken = kl_AdminToken c,
      kl_NATSConn = y, kl_CreatedAt = kl_CreatedAt c\<rparr>" for x y by (cases c) simp
  show ?thesis
    by (simp add: scanCluster_def cluster_row_of_def marshalClusterFields_def scan_list_def d t n e)
qed

definition ca_in_memory :: "tls_config option \<Rightarrow> bool" where
  "ca_in_memory t \<longleftrightarrow> (case t of None \<Rightarrow> True | Some c \<Rightarrow> t_CAFile c = [] \<or> t_CAPem c \<noteq> [])"

lemma ResolveCAFile_in_memory [simp]: "ca_in_memory t \<Longrightarrow> ResolveCAFile h t = Inr t"
  by (auto simp: ca_in_memory_def ResolveCAFile_def split: option.splits)

definition cas_in_memory :: "cluster \<Rightarrow> bool" where
  "cas_in_memory c \<longleftrightarrow> ca_in_memory (kl_TLS c) \<and> ca_in_memory (natsConnTLS (kl_NATSConn c))"

lemma scan_written_in_memory:
  assumes "ports_in_range c" "cas_in_memory c"
  shows "scanCluster h (cluster_row_of c) = Inr c"
  using assms by (auto simp: scan_written cas_in_memory_def hydrate_nats_def natsConnTLS_def split: option.splits)

subsection \<open>Creating, updating, reading\<close>

definition row_ids :: "cluster_db \<Rightarrow> string list" where
  "row_ids db = map kr_id (kd_clusters db)"

definition find_row :: "string \<Rightarrow> cluster_db \<Rightarrow> cluster_row option" where
  "find_row i db = find (\<lambda>r. kr_id r = i) (kd_clusters db)"

lemma find_row_None: "find_row i db = None \<longleftrightarrow> i \<notin> set (row_ids db)"
  by (auto simp: find_row_def row_ids_def find_None_iff)

lemma cluster_row_of_fields [simp]: "kr_id (cluster_row_of c) = kl_ID c" "kr_name (cluster_row_of c) = kl_Name c"
  "kr_created_at (cluster_row_of c) = kl_CreatedAt c"
  by (simp_all add: cluster_row_of_def marshalClusterFields_def)

lemma find_row_append: "find P (xs @ ys) = (case find P xs of None \<Rightarrow> find P ys | Some x \<Rightarrow> Some x)"
  by (induction xs) auto

lemma create_outcome:
  assumes "CreateCluster fault fresh now c db = Inr (c', db')"
  shows "fresh = Some (kl_ID c')" "c' = c\<lparr>kl_ID := kl_ID c', kl_CreatedAt := now\<rparr>" "kl_ID c' \<notin> set (row_ids db)"
    "db' = db\<lparr>kd_clusters := kd_clusters db @ [cluster_row_of c']\<rparr>"
    "find_row j db' = (if j = kl_ID c' then Some (cluster_row_of c') else find_row j db)"
  using assms find_row_None[of j db]
  by (auto simp: CreateCluster_def error_simps Let_def row_ids_def find_row_def find_row_append split: option.splits if_splits)

lemma find_map_row:
  assumes "\<And>r. kr_id (f r) = kr_id r"
  shows "find (\<lambda>r. kr_id r = j) (map f rs) = map_option f (find (\<lambda>r. kr_id r = j) rs)"
  using assms by (induction rs) auto

lemma row_update_outcome:
  assumes "store_UpdateCluster fault c db = Inr db'"
  obtains r where "find_row (kl_ID c) db = Some r" "row_ids db' = row_ids db" "kd_tables db' = kd_tables db"
    "\<And>j. find_row j db' = (if j = kl_ID c then Some ((cluster_row_of c)\<lparr>kr_created_at := kr_created_at r\<rparr>) else find_row j db)"
proof -
  let ?f = "\<lambda>r. if kr_id r = kl_ID c then (cluster_row_of c)\<lparr>kr_created_at := kr_created_at r\<rparr> else r"
  have db': "db' = db\<lparr>kd_clusters := map ?f (kd_clusters db)\<rparr>" and i: "kl_ID c \<in> set (row_ids db)"
    using assms by (auto simp: store_UpdateCluster_def error_simps row_ids_def split: if_splits)
  obtain r where r: "find_row (kl_ID c) db = Some r" using i find_row_None[of "kl_ID c" db] by auto
  have "kr_id r = kl_ID c" using r by (auto simp: find_row_def find_Some_iff)
  moreover have "find_row j db' = map_option ?f (find_row j db)" for j
    unfolding db' find_row_def by (simp add: find_map_row)
  moreover have "kr_id x = j" if "find_row j db = Some x" for j x using that by (auto simp: find_row_def find_Some_iff)
  ultimately have "find_row j db' = (if j = kl_ID c then Some ((cluster_row_of c)\<lparr>kr_created_at := kr_created_at r\<rparr>) else find_row j db)" for j
    using r by (cases "find_row j db") auto
  then show thesis using that[OF r] by (simp add: db' row_ids_def comp_def if_distrib cong: if_cong)
qed

subsection \<open>Deleting\<close>

lemma cascade_runs:
  "cascade fault n i tables t = Inr t' \<Longrightarrow> t' = fold (\<lambda>table. delete_table_rows table i) tables t"
  by (induction fault n i tables t rule: cascade.induct) (auto simp: error_simps)

text \<open>The six deletions together remove exactly the rows of the environment.\<close>

lemma cascade_is_delete: "fold (\<lambda>table. delete_table_rows table i) cascade_tables t = delete_env_rows i t"
  by (simp add: cascade_tables_def delete_table_rows_def delete_env_rows_def Let_def)

lemma delete_outcome:
  assumes "store_DeleteCluster fault i db = Inr db'"
  shows "i \<in> set (row_ids db)" "kd_tables db' = delete_env_rows i (kd_tables db)"
    "kd_clusters db' = filter (\<lambda>r. kr_id r \<noteq> i) (kd_clusters db)"
  using assms by (auto simp: store_DeleteCluster_def error_simps row_ids_def cascade_is_delete[symmetric] dest: cascade_runs
      split: if_splits)

lemma delete_find: 
  assumes "store_DeleteCluster fault i db = Inr db'"
  shows "find_row j db' = (if j = i then None else find_row j db)"
proof -
  have "find (\<lambda>r. kr_id r = j) (filter (\<lambda>r. kr_id r \<noteq> i) rs) = (if j = i then None else find (\<lambda>r. kr_id r = j) rs)" for rs
    by (induction rs) auto
  then show ?thesis by (simp only: find_row_def delete_outcome(3)[OF assms])
qed

text \<open>The rows of an environment in the six tables.\<close>

definition env_has_rows :: "string \<Rightarrow> env_tables \<Rightarrow> bool" where
  "env_has_rows i t \<longleftrightarrow> i \<in> br_Env ` set (et_bridges t) \<or> i \<in> mr_env ` set (db_server (et_metrics t))
     \<or> i \<in> mr_env ` set (db_env (et_metrics t)) \<or> i \<in> mr_env ` set (db_bridge (et_metrics t))
     \<or> i \<in> fst ` set (et_positions t) \<or> map_of (et_camera t) i \<noteq> None"

definition env_rows :: "string \<Rightarrow> env_tables \<Rightarrow> env_tables" where
  "env_rows i t = \<lparr>et_bridges = filter (\<lambda>b. br_Env b = i) (et_bridges t),
     et_metrics = \<lparr>db_server = filter (\<lambda>r. mr_env r = i) (db_server (et_metrics t)),
       db_env = filter (\<lambda>r. mr_env r = i) (db_env (et_metrics t)), db_bridge = filter (\<lambda>r. mr_env r = i) (db_bridge (et_metrics t))\<rparr>,
     et_positions = filter (\<lambda>p. fst p = i) (et_positions t), et_camera = filter (\<lambda>p. fst p = i) (et_camera t)\<rparr>"

lemma deleted_env_rows: "\<not> env_has_rows i (delete_env_rows i t)"
  by (auto simp: env_has_rows_def delete_env_rows_def)

lemma filter_other: "j \<noteq> i \<Longrightarrow> filter (\<lambda>x. f x \<noteq> i \<and> f x = j) xs = filter (\<lambda>x. f x = j) xs"
  by (rule filter_cong) auto

lemma delete_keeps_other_rows: "j \<noteq> i \<Longrightarrow> env_rows j (delete_env_rows i t) = env_rows j t"
  by (simp add: env_rows_def delete_env_rows_def filter_other gm_del_def)

subsection \<open>Seeding\<close>

text \<open>The clusters that were there stay as they are, and the new ones follow.\<close>

lemma seed_extends:
  "seed_environments world n names envs db = (r, db') \<Longrightarrow>
    kd_tables db' = kd_tables db \<and> (\<exists>new. kd_clusters db' = kd_clusters db @ new \<and> length new + n = snd r
      \<and> (\<forall>x\<in>set new. kr_name x \<notin> set names \<and> (\<exists>e\<in>set envs. e_Name e = kr_name x \<and> kr_name x \<noteq> [])) \<and> distinct (map kr_name new))"
proof (induction world n names envs db arbitrary: r db' rule: seed_environments.induct)
  case (2 world n names e es db)
  show ?case
  proof (cases "e_Name e = [] \<or> e_Name e \<in> set names")
    case True
    then show ?thesis using 2(1)[OF True, of r db'] 2(3) by (fastforce split: prod.splits)
  next
    case False
    obtain fault fresh now where w: "world n = (fault, fresh, now)" by (cases "world n")
    show ?thesis
    proof (cases "CreateCluster fault fresh now (ClusterFromEnvironment e) db")
      case (Inl err)
      then show ?thesis using 2(3) False w by auto
    next
      case (Inr cd)
      obtain c d where cd: "cd = (c, d)" by (cases cd)
      note out = create_outcome[OF Inr[unfolded cd]]
      have nm: "kl_Name c = e_Name e" by (subst out(2)) (simp add: ClusterFromEnvironment_def)
      have rest: "seed_environments world (n + 1) (e_Name e # names) es d = (r, db')"
        using 2(3) False w Inr cd by simp
      obtain new where new: "kd_tables db' = kd_tables d" "kd_clusters db' = kd_clusters d @ new" "length new + (n + 1) = snd r"
          "\<forall>x\<in>set new. kr_name x \<notin> set (e_Name e # names) \<and> (\<exists>e\<in>set es. e_Name e = kr_name x \<and> kr_name x \<noteq> [])"
          "distinct (map kr_name new)"
        using 2(2)[OF False refl w[symmetric] refl Inr cd[symmetric] rest] by blast
      have "kd_clusters db' = kd_clusters db @ (cluster_row_of c # new)" "kd_tables d = kd_tables db"
        using new(2) by (simp_all add: out(4))
      then show ?thesis using new False nm by (intro conjI exI[of _ "cluster_row_of c # new"]) auto
    qed
  qed
qed simp

text \<open>After a seeding without an error every named environment has a cluster.\<close>

lemma seed_covers:
  "seed_environments world n names envs db = ((None, m), db') \<Longrightarrow> e \<in> set envs \<Longrightarrow> e_Name e \<noteq> []
    \<Longrightarrow> e_Name e \<in> set names \<union> kr_name ` set (kd_clusters db')"
proof (induction world n names envs db arbitrary: rule: seed_environments.induct)
  case (2 world n names a es db)
  show ?case
  proof (cases "e_Name a = [] \<or> e_Name a \<in> set names")
    case True
    then show ?thesis using 2 by auto
  next
    case False
    obtain fault fresh now where w: "world n = (fault, fresh, now)" by (cases "world n")
    obtain c d where cd: "CreateCluster fault fresh now (ClusterFromEnvironment a) db = Inr (c, d)"
        and rest: "seed_environments world (n + 1) (e_Name a # names) es d = ((None, m), db')"
      using 2(3) False w by (auto split: sum.splits prod.splits)
    note out = create_outcome[OF cd]
    have nm: "kl_Name c = e_Name a" by (subst out(2)) (simp add: ClusterFromEnvironment_def)
    have "e_Name a \<in> kr_name ` set (kd_clusters d)" by (simp add: out(4) nm)
    moreover obtain new where "kd_clusters db' = kd_clusters d @ new" using seed_extends[OF rest] by blast
    ultimately have a: "e_Name a \<in> kr_name ` set (kd_clusters db')" by auto
    show ?thesis
    proof (cases "e = a")
      case False
      then have "e \<in> set es" using 2(4) by simp
      then show ?thesis using 2(2)[OF \<open>\<not> (e_Name a = [] \<or> e_Name a \<in> set names)\<close> refl w[symmetric] refl cd refl rest _ 2(5)] a by auto
    qed (use a in simp)
  qed
qed simp

lemma seed_nothing_new:
  "\<forall>e\<in>set envs. e_Name e = [] \<or> e_Name e \<in> set names \<Longrightarrow> seed_environments world n names envs db = ((None, n), db)"
  by (induction envs) auto

lemma listed_names:
  "scan_clusters h rs = Inr cs \<Longrightarrow> map kl_Name cs = map kr_name rs"
proof (induction rs arbitrary: cs)
  case (Cons r rs)
  then obtain c cs' where c: "scanCluster h r = Inr c" "scan_clusters h rs = Inr cs'" "cs = c # cs'"
    by (auto simp: error_simps)
  have "kl_Name c = kr_name r" using c(1) by (auto simp: scanCluster_def error_simps)
  then show ?case using Cons c by simp
qed simp

lemma listed_name_set:
  assumes "ListClusters fault h db = Inr cs"
  shows "kl_Name ` set cs = kr_name ` set (kd_clusters db)"
proof -
  have "scan_clusters h (sort_key kr_name (kd_clusters db)) = Inr cs" using assms by (auto simp: ListClusters_def error_simps)
  from listed_names[OF this] have "set (map kl_Name cs) = set (map kr_name (sort_key kr_name (kd_clusters db)))" by simp
  then show ?thesis by simp
qed

end
