(* ===== verification/ClusterApi.thy ===== *)
theory ClusterApi
  imports ClusterStore UrlText
begin

text \<open>
  The cluster management of the admin API, \<^verbatim>\<open>internal/api/handlers_clusters.go\<close>: requests are merged with
  the stored cluster, stored, given to the manager and answered with a view that carries no secret.
  A handler works on the database and the manager; its request body is already decoded, \<open>None\<close> if that
  failed.
\<close>

section \<open>Answers\<close>

datatype 'v reply = Reply nat 'v | Refuse nat string

definition writeClusterError :: "cluster_error \<Rightarrow> 'v reply" where
  "writeClusterError e = (case e of
      ErrClusterNotFound \<Rightarrow> Refuse 404 ''cluster not found''
    | ErrClusterNameRequired \<Rightarrow> Refuse 400 ''cluster name is required''
    | ErrClusterServersRequired \<Rightarrow> Refuse 400 ''at least one server URL is required''
    | _ \<Rightarrow> Refuse 500 ''internal error'')"

section \<open>URLs without and with their user part\<close>

definition redactURLCreds :: "string \<Rightarrow> string" where
  "redactURLCreds raw = (case url_Parse raw of
      None \<Rightarrow> raw
    | Some u \<Rightarrow> if u_User u = None then raw else url_String (u\<lparr>u_User := None\<rparr>))"

text \<open>The first earlier URL with credentials for the same host.\<close>

definition creds_for :: "url \<Rightarrow> string \<Rightarrow> userinfo option" where
  "creds_for u p = (case url_Parse p of None \<Rightarrow> None | Some pu \<Rightarrow> if u_Host pu = u_Host u then u_User pu else None)"

fun first_creds :: "url \<Rightarrow> string list \<Rightarrow> userinfo option" where
  "first_creds u [] = None"
| "first_creds u (p # ps) = (case creds_for u p of Some ui \<Rightarrow> Some ui | None \<Rightarrow> first_creds u ps)"

definition restoreURLCreds :: "string \<Rightarrow> string list \<Rightarrow> string" where
  "restoreURLCreds incoming prev = (case url_Parse incoming of
      None \<Rightarrow> incoming
    | Some u \<Rightarrow>
        if u_User u \<noteq> None then incoming
        else case first_creds u prev of None \<Rightarrow> incoming | Some ui \<Rightarrow> url_String (u\<lparr>u_User := Some ui\<rparr>))"

section \<open>Views\<close>

record nats_conn_view =
  nv_URLs :: "string list"
  nv_Username :: string
  nv_SubjectPrefix :: string
  nv_SYSCollection :: bool
  nv_TLS :: "tls_config option"
  nv_HasPassword :: bool
  nv_HasToken :: bool
  nv_HasNKey :: bool
  nv_HasCreds :: bool

record mqtt_bridge_view =
  vb_Name :: string
  vb_URL :: string
  vb_HasBearerToken :: bool

record cluster_view =
  vw_ID :: string
  vw_Name :: string
  vw_Servers :: "string list"
  vw_MQTTBridges :: "mqtt_bridge_view list"
  vw_MQTTDiscovery :: "mqtt_discovery_config option"
  vw_TLS :: "tls_config option"
  vw_HasAdminToken :: bool
  vw_NATSConn :: "nats_conn_view option"
  vw_CreatedAt :: gotime

definition nats_view :: "nats_conn_config \<Rightarrow> nats_conn_view" where
  "nats_view n = \<lparr>nv_URLs = map redactURLCreds (nn_URLs n), nv_Username = nn_Username n, nv_SubjectPrefix = nn_SubjectPrefix n,
     nv_SYSCollection = nn_SYSCollection n, nv_TLS = nn_TLS n, nv_HasPassword = (nn_Password n \<noteq> []),
     nv_HasToken = (nn_Token n \<noteq> []), nv_HasNKey = (nn_NKey n \<noteq> []), nv_HasCreds = (nn_CredsFile n \<noteq> [])\<rparr>"

definition bridge_view :: "mqtt_bridge \<Rightarrow> mqtt_bridge_view" where
  "bridge_view b = \<lparr>vb_Name = mb_Name b, vb_URL = redactURLCreds (mb_URL b), vb_HasBearerToken = (mb_BearerToken b \<noteq> [])\<rparr>"

definition toClusterView :: "cluster \<Rightarrow> cluster_view" where
  "toClusterView c = \<lparr>vw_ID = kl_ID c, vw_Name = kl_Name c, vw_Servers = map redactURLCreds (kl_Servers c),
     vw_MQTTBridges = map bridge_view (kl_MQTTBridges c), vw_MQTTDiscovery = kl_MQTTDiscovery c, vw_TLS = kl_TLS c,
     vw_HasAdminToken = (kl_AdminToken c \<noteq> []), vw_NATSConn = map_option nats_view (kl_NATSConn c), vw_CreatedAt = kl_CreatedAt c\<rparr>"

section \<open>Requests\<close>

record cluster_request =
  cq_Name :: string
  cq_Servers :: "string list"
  cq_MQTTBridges :: "mqtt_bridge list"
  cq_MQTTDiscovery :: "mqtt_discovery_config option"
  cq_TLS :: "tls_config option"
  cq_AdminToken :: string
  cq_NATSConn :: "nats_conn_config option"

text \<open>The error names the field that a client may not set.\<close>

definition sanitizedTLS :: "tls_config option \<Rightarrow> tls_config option \<Rightarrow> string \<Rightarrow> string + tls_config option" where
  "sanitizedTLS incoming stored field = (case incoming of
      None \<Rightarrow> Inr None
    | Some t \<Rightarrow>
        let path = (case stored of None \<Rightarrow> [] | Some s \<Rightarrow> t_CAFile s);
            pem = (case stored of None \<Rightarrow> [] | Some s \<Rightarrow> t_CAPem s)
        in if t_CAFile t \<noteq> [] \<and> t_CAFile t \<noteq> path then Inl field
           else Inr (Some \<lparr>t_CAFile = path, t_CAPem = (if t_CAPem t = [] then pem else t_CAPem t), t_Insecure = t_Insecure t\<rparr>))"

definition stored_creds :: "cluster option \<Rightarrow> string" where
  "stored_creds prev = (case Option.bind prev kl_NATSConn of None \<Rightarrow> [] | Some n \<Rightarrow> nn_CredsFile n)"

definition sanitizeHostPaths :: "cluster_request \<Rightarrow> cluster option \<Rightarrow> string + cluster_request" where
  "sanitizeHostPaths req prev =
    try_bind (sanitizedTLS (cq_TLS req) (Option.bind prev kl_TLS) ''tls.ca_file'') (\<lambda>tls.
    let req = req\<lparr>cq_TLS := tls\<rparr>
    in case cq_NATSConn req of
         None \<Rightarrow> Inr req
       | Some n \<Rightarrow>
           try_bind (sanitizedTLS (nn_TLS n) (Option.bind (Option.bind prev kl_NATSConn) nn_TLS) ''nats_conn.tls.ca_file'') (\<lambda>tls.
           if nn_CredsFile n \<noteq> [] \<and> nn_CredsFile n \<noteq> stored_creds prev then Inl ''nats_conn.creds_file''
           else Inr (req\<lparr>cq_NATSConn := Some (n\<lparr>nn_TLS := tls, nn_CredsFile := stored_creds prev\<rparr>)\<rparr>)))"

definition request_cluster :: "string \<Rightarrow> cluster_request \<Rightarrow> cluster" where
  "request_cluster i req = \<lparr>kl_ID = i, kl_Name = cq_Name req, kl_Servers = cq_Servers req, kl_MQTTBridges = cq_MQTTBridges req,
     kl_MQTTDiscovery = cq_MQTTDiscovery req, kl_TLS = cq_TLS req, kl_AdminToken = cq_AdminToken req,
     kl_NATSConn = cq_NATSConn req, kl_CreatedAt = 0\<rparr>"

section \<open>Blank secrets keep the stored ones\<close>

definition keep_blank :: "string \<Rightarrow> string \<Rightarrow> string" where
  "keep_blank new old = (if new = [] then old else new)"

text \<open>The last stored bridge of a name that has a token.\<close>

definition prev_token :: "mqtt_bridge list \<Rightarrow> string \<Rightarrow> string option" where
  "prev_token bs name = map_of (rev (map (\<lambda>b. (mb_Name b, mb_BearerToken b)) (filter (\<lambda>b. mb_BearerToken b \<noteq> []) bs))) name"

definition merge_bridge :: "mqtt_bridge list \<Rightarrow> mqtt_bridge \<Rightarrow> mqtt_bridge" where
  "merge_bridge prev b =
    (let b = b\<lparr>mb_URL := restoreURLCreds (mb_URL b) (map mb_URL prev)\<rparr>
     in if mb_BearerToken b = []
        then (case prev_token prev (mb_Name b) of None \<Rightarrow> b | Some t \<Rightarrow> b\<lparr>mb_BearerToken := t\<rparr>)
        else b)"

definition merge_nats :: "nats_conn_config option \<Rightarrow> nats_conn_config option \<Rightarrow> nats_conn_config option" where
  "merge_nats new old = (case (new, old) of
      (Some n, Some p) \<Rightarrow> Some (n\<lparr>nn_URLs := map (\<lambda>u. restoreURLCreds u (nn_URLs p)) (nn_URLs n),
        nn_Password := keep_blank (nn_Password n) (nn_Password p), nn_Token := keep_blank (nn_Token n) (nn_Token p),
        nn_NKey := keep_blank (nn_NKey n) (nn_NKey p), nn_CredsFile := keep_blank (nn_CredsFile n) (nn_CredsFile p)\<rparr>)
    | _ \<Rightarrow> new)"

definition mergeClusterSecrets :: "cluster \<Rightarrow> cluster \<Rightarrow> cluster" where
  "mergeClusterSecrets cl prev = cl\<lparr>kl_AdminToken := keep_blank (kl_AdminToken cl) (kl_AdminToken prev),
     kl_Servers := map (\<lambda>u. restoreURLCreds u (kl_Servers prev)) (kl_Servers cl),
     kl_MQTTBridges := map (merge_bridge (kl_MQTTBridges prev)) (kl_MQTTBridges cl),
     kl_NATSConn := merge_nats (kl_NATSConn cl) (kl_NATSConn prev)\<rparr>"

section \<open>Handlers\<close>

record cluster_api =
  as_db :: cluster_db
  as_manager :: manager

text \<open>An HTTP client is built from a TLS setting unless its CA is unusable.\<close>

definition NewFetcher :: "host \<Rightarrow> tls_config option \<Rightarrow> bool" where
  "NewFetcher h t \<longleftrightarrow> (case t of None \<Rightarrow> True | Some c \<Rightarrow> \<not> isl (CertPool h (Some c)))"

definition managed :: "cluster \<Rightarrow> managed_cluster" where
  "managed c = \<lparr>cl_ID = kl_ID c, cl_env = ToEnvironment c\<rparr>"

definition handleListClusters :: "db_faults \<Rightarrow> host \<Rightarrow> cluster_api \<Rightarrow> cluster_view list reply" where
  "handleListClusters fault h s = (case ListClusters fault h (as_db s) of
      Inl e \<Rightarrow> Refuse 500 ''failed to list clusters''
    | Inr cs \<Rightarrow> Reply 200 (map toClusterView cs))"

text \<open>\<open>undo\<close> are the faults of the rollback after a collector did not start.\<close>

definition handleCreateCluster :: "db_faults \<Rightarrow> db_faults \<Rightarrow> host \<Rightarrow> string option \<Rightarrow> gotime \<Rightarrow> cluster_request option \<Rightarrow> cluster_api
    \<Rightarrow> cluster_view reply \<times> cluster_api" where
  "handleCreateCluster fault undo h fresh now body s = (case body of
      None \<Rightarrow> (Refuse 400 ''invalid request body'', s)
    | Some req \<Rightarrow> (case sanitizeHostPaths req None of
        Inl field \<Rightarrow> (Refuse 400 field, s)
      | Inr req \<Rightarrow>
          let cl = request_cluster [] req
          in if \<not> NewFetcher h (kl_TLS cl) then (Refuse 400 ''TLS'', s)
             else case CreateCluster fault fresh now cl (as_db s) of
               Inl e \<Rightarrow> (writeClusterError e, s)
             | Inr (cl, db) \<Rightarrow>
                 let (g, started) = addCluster (NewFetcher h) (managed cl) (as_manager s)
                 in if started then (Reply 201 (toClusterView cl), \<lparr>as_db = db, as_manager = g\<rparr>)
                    else (Refuse 500 ''failed to start cluster collector'',
                      \<lparr>as_db = (case store_DeleteCluster undo (kl_ID cl) db of Inl e \<Rightarrow> db | Inr db \<Rightarrow> db), as_manager = g\<rparr>)))"

definition handleUpdateCluster :: "db_faults \<Rightarrow> db_faults \<Rightarrow> host \<Rightarrow> string \<Rightarrow> cluster_request option \<Rightarrow> cluster_api
    \<Rightarrow> cluster_view reply \<times> cluster_api" where
  "handleUpdateCluster fault write_fault h i body s = (case body of
      None \<Rightarrow> (Refuse 400 ''invalid request body'', s)
    | Some req \<Rightarrow>
        let prev = (case GetCluster fault h i (as_db s) of Inl e \<Rightarrow> None | Inr c \<Rightarrow> Some c)
        in case sanitizeHostPaths req prev of
          Inl field \<Rightarrow> (Refuse 400 field, s)
        | Inr req \<Rightarrow>
            let cl = (case prev of None \<Rightarrow> request_cluster i req | Some p \<Rightarrow> mergeClusterSecrets (request_cluster i req) p)
            in if \<not> NewFetcher h (kl_TLS cl) then (Refuse 400 ''TLS'', s)
               else case store_UpdateCluster write_fault cl (as_db s) of
                 Inl e \<Rightarrow> (writeClusterError e, s)
               | Inr db \<Rightarrow> (Reply 200 (toClusterView cl),
                   \<lparr>as_db = db, as_manager = fst (UpdateCluster (NewFetcher h) (managed cl) (as_manager s))\<rparr>))"

definition handleDeleteCluster :: "db_faults \<Rightarrow> string \<Rightarrow> cluster_api \<Rightarrow> unit reply \<times> cluster_api" where
  "handleDeleteCluster fault i s =
    (let g = RemoveCluster i (as_manager s)
     in case store_DeleteCluster fault i (as_db s) of
       Inl e \<Rightarrow> (writeClusterError e, s\<lparr>as_manager := g\<rparr>)
     | Inr db \<Rightarrow> (Reply 200 (), \<lparr>as_db = db, as_manager = g\<rparr>))"

end
