(* ===== verification/ClusterApiProps.thy ===== *)
theory ClusterApiProps
  imports ClusterApi
begin

text \<open>
  What the cluster management promises: answers do not depend on secrets, an edit that changes nothing
  keeps every secret, no request brings a file path in, and a deletion leaves nothing behind.
\<close>

section \<open>File paths come from the configuration file\<close>

definition tls_path :: "tls_config option \<Rightarrow> string set" where
  "tls_path t = (case t of None \<Rightarrow> {} | Some c \<Rightarrow> {t_CAFile c}) - {[]}"

definition nats_paths :: "nats_conn_config option \<Rightarrow> string set" where
  "nats_paths n = (case n of None \<Rightarrow> {} | Some c \<Rightarrow> tls_path (nn_TLS c) \<union> ({nn_CredsFile c} - {[]}))"

text \<open>The paths that a row holds, in the order of the columns.\<close>

definition row_tls :: "cluster_row \<Rightarrow> tls_config option" where
  "row_tls r = (case kr_tls r of None \<Rightarrow> None | Some v \<Rightarrow> if v = JNull then None else decode_tls v)"

definition row_nats :: "cluster_row \<Rightarrow> nats_conn_config option" where
  "row_nats r = (case kr_nats_conn r of None \<Rightarrow> None | Some v \<Rightarrow> if v = JNull then None else decode_nats_conn v)"

definition cluster_paths :: "cluster \<Rightarrow> string set" where
  "cluster_paths c = tls_path (kl_TLS c) \<union> nats_paths (kl_NATSConn c)"

definition row_paths :: "cluster_row \<Rightarrow> string set" where
  "row_paths r = tls_path (row_tls r) \<union> nats_paths (row_nats r)"

definition db_paths :: "cluster_db \<Rightarrow> string set" where
  "db_paths db = \<Union> (row_paths ` set (kd_clusters db))"

definition env_paths :: "environment \<Rightarrow> string set" where
  "env_paths e = tls_path (e_TLS e) \<union> nats_paths (e_NATSConn e)"

definition manager_paths :: "manager \<Rightarrow> string set" where
  "manager_paths g = \<Union> ((env_paths \<circ> k_env \<circ> snd) ` set (g_collectors g))"

definition api_paths :: "cluster_api \<Rightarrow> string set" where
  "api_paths s = db_paths (as_db s) \<union> manager_paths (as_manager s)"

lemma row_paths_written: "row_paths (cluster_row_of c) = cluster_paths c"
proof -
  have "row_tls (cluster_row_of c) = kl_TLS c" "row_nats (cluster_row_of c) = kl_NATSConn c"
    by (simp_all add: row_tls_def row_nats_def cluster_row_of_def marshalClusterFields_def marshalNullable_def split: option.split)
  then show ?thesis by (simp add: row_paths_def cluster_paths_def)
qed

lemma row_paths_created_at [simp]: "row_paths (r\<lparr>kr_created_at := t\<rparr>) = row_paths r"
  by (simp add: row_paths_def row_tls_def row_nats_def)

lemma resolved_path: "ResolveCAFile h t = Inr t' \<Longrightarrow> tls_path t' = tls_path t"
  by (auto simp: ResolveCAFile_def tls_path_def error_simps split: option.splits if_splits)

lemma scanned_tls: "scan_pointer ''tls'' decode_tls p = Inr t \<Longrightarrow> t = (case p of None \<Rightarrow> None | Some v \<Rightarrow> if v = JNull then None else decode_tls v)"
  by (auto simp: scan_pointer_def split: option.splits if_splits)

lemma scanned_nats: "scan_pointer ''nats_conn'' decode_nats_conn p = Inr t \<Longrightarrow> t = (case p of None \<Rightarrow> None | Some v \<Rightarrow> if v = JNull then None else decode_nats_conn v)"
  by (auto simp: scan_pointer_def split: option.splits if_splits)

lemma hydrated_paths: "hydrate_nats h n = Inr n' \<Longrightarrow> nats_paths n' = nats_paths n"
  by (auto simp: hydrate_nats_def nats_paths_def error_simps resolved_path split: option.splits)

lemma scanned_paths:
  assumes "scanCluster h r = Inr c"
  shows "cluster_paths c = row_paths r"
proof -
  obtain t n where t: "scan_pointer ''tls'' decode_tls (kr_tls r) = Inr t" "ResolveCAFile h t = Inr (kl_TLS c)"
      and n: "scan_pointer ''nats_conn'' decode_nats_conn (kr_nats_conn r) = Inr n" "hydrate_nats h n = Inr (kl_NATSConn c)"
    using assms by (auto simp: scanCluster_def error_simps)
  have "row_tls r = t" "row_nats r = n" using scanned_tls[OF t(1)] scanned_nats[OF n(1)] by (simp_all add: row_tls_def row_nats_def)
  then show ?thesis using resolved_path[OF t(2)] hydrated_paths[OF n(2)] by (simp add: cluster_paths_def row_paths_def)
qed

lemma got_paths: "GetCluster fault h i db = Inr c \<Longrightarrow> cluster_paths c \<subseteq> db_paths db"
  using scanned_paths by (fastforce simp: GetCluster_def error_simps db_paths_def find_Some_iff split: option.splits)

lemma sanitized_path: "sanitizedTLS t stored field = Inr t' \<Longrightarrow> tls_path t' \<subseteq> tls_path stored"
  by (auto simp: sanitizedTLS_def tls_path_def Let_def split: option.splits if_splits)

definition request_paths :: "cluster_request \<Rightarrow> string set" where
  "request_paths q = tls_path (cq_TLS q) \<union> nats_paths (cq_NATSConn q)"

lemma sanitized_paths:
  assumes "sanitizeHostPaths req prev = Inr req'"
  shows "request_paths req' \<subseteq> (case prev of None \<Rightarrow> {} | Some p \<Rightarrow> cluster_paths p)"
proof -
  obtain t where t: "sanitizedTLS (cq_TLS req) (Option.bind prev kl_TLS) ''tls.ca_file'' = Inr t"
    using assms by (auto simp: sanitizeHostPaths_def error_simps)
  have T: "tls_path t \<subseteq> (case prev of None \<Rightarrow> {} | Some p \<Rightarrow> tls_path (kl_TLS p))"
    using sanitized_path[OF t] by (cases prev) (auto simp: tls_path_def)
  show ?thesis
  proof (cases "cq_NATSConn req")
    case None
    then have "req' = req\<lparr>cq_TLS := t\<rparr>" using assms t by (simp add: sanitizeHostPaths_def)
    then show ?thesis using T None by (auto simp: request_paths_def nats_paths_def cluster_paths_def split: option.splits)
  next
    case (Some n)
    then obtain nt where nt: "sanitizedTLS (nn_TLS n) (Option.bind (Option.bind prev kl_NATSConn) nn_TLS) ''nats_conn.tls.ca_file'' = Inr nt"
        and req': "req' = req\<lparr>cq_TLS := t, cq_NATSConn := Some (n\<lparr>nn_TLS := nt, nn_CredsFile := stored_creds prev\<rparr>)\<rparr>"
      using assms t by (auto simp: sanitizeHostPaths_def error_simps split: if_splits)
    have "nats_paths (cq_NATSConn req') \<subseteq> (case prev of None \<Rightarrow> {} | Some p \<Rightarrow> nats_paths (kl_NATSConn p))"
      using sanitized_path[OF nt] unfolding req'
      by (cases prev; cases "Option.bind prev kl_NATSConn") (auto simp: nats_paths_def stored_creds_def tls_path_def)
    then show ?thesis using T by (auto simp: req' request_paths_def cluster_paths_def split: option.splits)
  qed
qed

lemma request_cluster_paths [simp]: "cluster_paths (request_cluster i q) = request_paths q"
  by (simp add: cluster_paths_def request_cluster_def request_paths_def)

lemma merged_paths: "cluster_paths (mergeClusterSecrets c p) \<subseteq> cluster_paths c \<union> cluster_paths p"
  by (auto simp: cluster_paths_def mergeClusterSecrets_def merge_nats_def nats_paths_def keep_blank_def split: option.splits if_splits)

subsection \<open>Through the handlers\<close>

datatype cluster_op =
    ListOp db_faults host
  | CreateOp db_faults db_faults host "string option" gotime "cluster_request option"
  | UpdateOp db_faults db_faults host string "cluster_request option"
  | DeleteOp db_faults string

definition cluster_step :: "cluster_op \<Rightarrow> cluster_api \<Rightarrow> cluster_api" where
  "cluster_step op s = (case op of
      ListOp fault h \<Rightarrow> s
    | CreateOp fault undo h fresh now body \<Rightarrow> snd (handleCreateCluster fault undo h fresh now body s)
    | UpdateOp fault write_fault h i body \<Rightarrow> snd (handleUpdateCluster fault write_fault h i body s)
    | DeleteOp fault i \<Rightarrow> snd (handleDeleteCluster fault i s))"

lemma gm_set_subset: "set (gm_set k v m) \<subseteq> insert (k, v) (set m)"
  by (induction m) (auto simp: gm_set_def)

lemma manager_paths_set: "manager_paths (g\<lparr>g_collectors := gm_set i c (g_collectors g)\<rparr>) \<subseteq> manager_paths g \<union> env_paths (k_env c)"
  using gm_set_subset[of i c "g_collectors g"] by (fastforce simp: manager_paths_def)

lemma startCollector_env [simp]: "k_env (startCollector env c) = k_env c"
  by (simp add: startCollector_def Let_def split: option.split)

lemma launch_paths: "manager_paths (launch i env c g) \<subseteq> manager_paths g \<union> env_paths (k_env c)"
  using manager_paths_set[of i "startCollector env c" g] by (auto simp: launch_def manager_paths_def)

lemma addCluster_paths: "manager_paths (fst (addCluster build cl g)) \<subseteq> manager_paths g \<union> env_paths (cl_env cl)"
proof -
  let ?c = "newCollector (cl_env cl) (g_interval g)"
  let ?g = "g\<lparr>g_collectors := gm_set (cl_ID cl) ?c (g_collectors g)\<rparr>"
  have "manager_paths ?g \<subseteq> manager_paths g \<union> env_paths (cl_env cl)" using manager_paths_set[of "cl_ID cl" ?c g] by simp
  moreover have "manager_paths (launch (cl_ID cl) (cl_env cl) ?c ?g) \<subseteq> manager_paths ?g \<union> env_paths (cl_env cl)"
    using launch_paths[of "cl_ID cl" "cl_env cl" ?c ?g] by simp
  ultimately show ?thesis by (auto simp: addCluster_def Let_def)
qed

lemma RemoveCluster_paths: "manager_paths (RemoveCluster i g) \<subseteq> manager_paths g"
  by (auto simp: manager_paths_def RemoveCluster_def gm_del_def)

lemma UpdateCluster_paths: "manager_paths (fst (UpdateCluster build cl g)) \<subseteq> manager_paths g \<union> env_paths (cl_env cl)"
proof (cases "map_of (g_collectors g) (cl_ID cl)")
  case None
  then show ?thesis using addCluster_paths by (simp add: UpdateCluster_def)
next
  case (Some c)
  have "k_env (setEnv (cl_env cl) c) = cl_env cl" by (simp add: setEnv_def)
  then show ?thesis using Some manager_paths_set[of "cl_ID cl" "setEnv (cl_env cl) c" g]
      addCluster_paths[of build cl "RemoveCluster (cl_ID cl) g"] RemoveCluster_paths[of "cl_ID cl" g]
    by (auto simp: UpdateCluster_def Let_def)
qed

lemma managed_paths [simp]: "env_paths (cl_env (managed c)) = cluster_paths c"
  by (simp add: managed_def ToEnvironment_def env_paths_def cluster_paths_def)

lemma create_paths: "CreateCluster fault fresh now c db = Inr (c', db') \<Longrightarrow>
    cluster_paths c' = cluster_paths c \<and> db_paths db' = db_paths db \<union> cluster_paths c"
proof -
  assume "CreateCluster fault fresh now c db = Inr (c', db')"
  note out = create_outcome[OF this]
  have "cluster_paths c' = cluster_paths c" by (subst out(2)) (simp add: cluster_paths_def)
  then show ?thesis by (simp add: out(4) db_paths_def row_paths_written Un_commute)
qed

lemma store_update_paths: "store_UpdateCluster fault c db = Inr db' \<Longrightarrow> db_paths db' \<subseteq> db_paths db \<union> cluster_paths c"
  by (auto simp: store_UpdateCluster_def error_simps db_paths_def row_paths_written split: if_splits)

lemma store_delete_paths: "store_DeleteCluster fault i db = Inr db' \<Longrightarrow> db_paths db' \<subseteq> db_paths db"
  using delete_outcome(3) by (auto simp: db_paths_def)

lemma handle_create_paths: "api_paths (snd (handleCreateCluster fault undo h fresh now body s)) \<subseteq> api_paths s"
proof (cases body)
  case (Some req)
  show ?thesis
  proof (cases "sanitizeHostPaths req None")
    case (Inr q)
    then have none: "request_paths q = {}" using sanitized_paths by fastforce
    show ?thesis
    proof (cases "CreateCluster fault fresh now (request_cluster [] q) (as_db s)")
      case created: (Inr cd)
      obtain c db where cd: "cd = (c, db)" by (cases cd)
      have p: "cluster_paths c = {}" "db_paths db = db_paths (as_db s)"
        using create_paths[OF created[unfolded cd]] none by auto
      obtain g started where add: "addCluster (NewFetcher h) (managed c) (as_manager s) = (g, started)"
        by (cases "addCluster (NewFetcher h) (managed c) (as_manager s)")
      have m: "manager_paths g \<subseteq> manager_paths (as_manager s)"
        using addCluster_paths[of "NewFetcher h" "managed c" "as_manager s"] p(1) by (simp add: add)
      have d: "store_DeleteCluster undo (kl_ID c) db = Inr db2 \<Longrightarrow> db_paths db2 \<subseteq> db_paths (as_db s)" for db2
        using store_delete_paths p(2) by blast
      have e: "handleCreateCluster fault undo h fresh now body s =
          (if \<not> NewFetcher h (kl_TLS (request_cluster [] q)) then (Refuse 400 ''TLS'', s)
           else if started then (Reply 201 (toClusterView c), \<lparr>as_db = db, as_manager = g\<rparr>)
           else (Refuse 500 ''failed to start cluster collector'',
             \<lparr>as_db = (case store_DeleteCluster undo (kl_ID c) db of Inl e \<Rightarrow> db | Inr db \<Rightarrow> db), as_manager = g\<rparr>))"
        using Some Inr created cd add by (simp add: handleCreateCluster_def)
      have "db_paths (case store_DeleteCluster undo (kl_ID c) db of Inl e \<Rightarrow> db | Inr db \<Rightarrow> db) \<subseteq> db_paths (as_db s)"
        using d p(2) by (cases "store_DeleteCluster undo (kl_ID c) db") auto
      then show ?thesis unfolding e using p(2) m by (auto simp: api_paths_def)
    qed (use Some Inr in \<open>simp add: handleCreateCluster_def Let_def\<close>)
  qed (use Some in \<open>simp add: handleCreateCluster_def\<close>)
qed (simp add: handleCreateCluster_def)

lemma handle_update_paths: "api_paths (snd (handleUpdateCluster fault write_fault h i body s)) \<subseteq> api_paths s"
proof (cases body)
  case (Some req)
  define prev where "prev = (case GetCluster fault h i (as_db s) of Inl e \<Rightarrow> None | Inr c \<Rightarrow> Some c)"
  have prev: "(case prev of None \<Rightarrow> {} | Some p \<Rightarrow> cluster_paths p) \<subseteq> db_paths (as_db s)"
    using got_paths by (auto simp: prev_def split: sum.splits)
  show ?thesis
  proof (cases "sanitizeHostPaths req prev")
    case (Inr q)
    define cl where "cl = (case prev of None \<Rightarrow> request_cluster i q | Some p \<Rightarrow> mergeClusterSecrets (request_cluster i q) p)"
    have c: "cluster_paths cl \<subseteq> db_paths (as_db s)"
      using prev sanitized_paths[OF Inr] merged_paths[of "request_cluster i q"] by (cases prev) (auto simp: cl_def)
    show ?thesis
    proof (cases "store_UpdateCluster write_fault cl (as_db s)")
      case stored: (Inr db)
      have "db_paths db \<subseteq> db_paths (as_db s)" using store_update_paths[OF stored] c by blast
      moreover have "manager_paths (fst (UpdateCluster (NewFetcher h) (managed cl) (as_manager s))) \<subseteq> manager_paths (as_manager s) \<union> db_paths (as_db s)"
        using UpdateCluster_paths[of "NewFetcher h" "managed cl" "as_manager s"] c by auto
      ultimately show ?thesis using Some Inr stored
        by (auto simp: handleUpdateCluster_def prev_def[symmetric] cl_def[symmetric] Let_def api_paths_def)
    qed (use Some Inr in \<open>simp add: handleUpdateCluster_def prev_def[symmetric] cl_def[symmetric] Let_def\<close>)
  qed (use Some in \<open>simp add: handleUpdateCluster_def prev_def[symmetric] Let_def\<close>)
qed (simp add: handleUpdateCluster_def)

lemma handle_delete_paths: "api_paths (snd (handleDeleteCluster fault i s)) \<subseteq> api_paths s"
  using RemoveCluster_paths[of i "as_manager s"] store_delete_paths[of fault i "as_db s"]
  by (auto simp: handleDeleteCluster_def Let_def api_paths_def split: sum.split)

lemma cluster_step_paths: "api_paths (cluster_step op s) \<subseteq> api_paths s"
  by (cases op) (simp_all only: cluster_step_def cluster_op.case handle_create_paths handle_update_paths handle_delete_paths order_refl)

text \<open>
  C12. No sequence of requests to the cluster API, whatever their bodies and whatever fails in between,
  brings a file path into the database or into the environment of a collector: every CA and
  credentials path that is stored or used afterwards was there before.
\<close>

theorem no_path_from_requests: "api_paths (fold cluster_step ops s) \<subseteq> api_paths s"
proof (induction ops arbitrary: s)
  case (Cons op ops)
  show ?case using subset_trans[OF Cons.IH[of "cluster_step op s"] cluster_step_paths[of op s]] by simp
qed simp

section \<open>Secrets stay on the server\<close>

text \<open>Two URLs that differ in their user part only; two clusters that differ in the values of their secrets only.\<close>

definition same_but_user :: "string \<Rightarrow> string \<Rightarrow> bool" where
  "same_but_user a b \<longleftrightarrow> a = b \<or> (case (url_Parse a, url_Parse b) of
     (Some u, Some v) \<Rightarrow> u_User u \<noteq> None \<and> u_User v \<noteq> None \<and> u\<lparr>u_User := None\<rparr> = v\<lparr>u_User := None\<rparr>
   | _ \<Rightarrow> False)"

definition same_presence :: "string \<Rightarrow> string \<Rightarrow> bool" where
  "same_presence a b \<longleftrightarrow> (a = [] \<longleftrightarrow> b = [])"

definition same_but_secrets_bridge :: "mqtt_bridge \<Rightarrow> mqtt_bridge \<Rightarrow> bool" where
  "same_but_secrets_bridge a b \<longleftrightarrow> mb_Name a = mb_Name b \<and> same_but_user (mb_URL a) (mb_URL b)
     \<and> same_presence (mb_BearerToken a) (mb_BearerToken b)"

definition same_but_secrets_nats :: "nats_conn_config \<Rightarrow> nats_conn_config \<Rightarrow> bool" where
  "same_but_secrets_nats a b \<longleftrightarrow> list_all2 same_but_user (nn_URLs a) (nn_URLs b) \<and> nn_Username a = nn_Username b
     \<and> nn_SubjectPrefix a = nn_SubjectPrefix b \<and> nn_SYSCollection a = nn_SYSCollection b \<and> nn_TLS a = nn_TLS b
     \<and> same_presence (nn_Password a) (nn_Password b) \<and> same_presence (nn_Token a) (nn_Token b)
     \<and> same_presence (nn_NKey a) (nn_NKey b) \<and> same_presence (nn_CredsFile a) (nn_CredsFile b)"

definition same_but_secrets :: "cluster \<Rightarrow> cluster \<Rightarrow> bool" where
  "same_but_secrets a b \<longleftrightarrow> kl_ID a = kl_ID b \<and> kl_Name a = kl_Name b \<and> list_all2 same_but_user (kl_Servers a) (kl_Servers b)
     \<and> list_all2 same_but_secrets_bridge (kl_MQTTBridges a) (kl_MQTTBridges b) \<and> kl_MQTTDiscovery a = kl_MQTTDiscovery b
     \<and> kl_TLS a = kl_TLS b \<and> same_presence (kl_AdminToken a) (kl_AdminToken b)
     \<and> rel_option same_but_secrets_nats (kl_NATSConn a) (kl_NATSConn b) \<and> kl_CreatedAt a = kl_CreatedAt b"

lemma redact_same: "same_but_user a b \<Longrightarrow> redactURLCreds a = redactURLCreds b"
  by (auto simp: same_but_user_def redactURLCreds_def split: option.splits)

lemma map_same: "list_all2 R as bs \<Longrightarrow> (\<And>a b. R a b \<Longrightarrow> f a = f b) \<Longrightarrow> map f as = map f bs"
  by (induction as bs rule: list_all2_induct) auto

lemma bridge_view_same: "same_but_secrets_bridge a b \<Longrightarrow> bridge_view a = bridge_view b"
  using redact_same by (auto simp: same_but_secrets_bridge_def bridge_view_def same_presence_def)

lemma nats_view_same: "same_but_secrets_nats a b \<Longrightarrow> nats_view a = nats_view b"
  using map_same[OF _ redact_same] by (auto simp: same_but_secrets_nats_def nats_view_def same_presence_def)

lemma view_same: "same_but_secrets a b \<Longrightarrow> toClusterView a = toClusterView b"
  using map_same[OF _ redact_same] map_same[OF _ bridge_view_same] nats_view_same
  by (auto simp: same_but_secrets_def toClusterView_def same_presence_def option_rel_Some1 option_rel_Some2
      split: option.splits elim!: option.rel_cases)

lemma views_same: "list_all2 same_but_secrets as bs \<Longrightarrow> map toClusterView as = map toClusterView bs"
  by (rule map_same[OF _ view_same])


end
