(* ===== verification/ClusterEdits.thy ===== *)
theory ClusterEdits
  imports ClusterApiProps
begin

text \<open>
  Edits through the cluster API: the round trip of an edit that changes nothing, what a failed read of
  the stored cluster costs, and what a deletion removes.
\<close>

section \<open>A redacted URL gets its user part back\<close>

definition same_target :: "string \<Rightarrow> string \<Rightarrow> bool" where
  "same_target a b \<longleftrightarrow> a = b \<or> (case (url_Parse a, url_Parse b) of (Some u, Some v) \<Rightarrow> same_url u v | _ \<Rightarrow> False)"

text \<open>URLs of one list with the same host have the same user part, and a host that has one is plain.\<close>

definition consistent_urls :: "string list \<Rightarrow> bool" where
  "consistent_urls us \<longleftrightarrow> (\<forall>a\<in>set us. \<forall>b\<in>set us. \<forall>u v. url_Parse a = Some u \<longrightarrow> url_Parse b = Some v
     \<longrightarrow> u_User v \<noteq> None \<longrightarrow> u_Host v \<noteq> [] \<and> plain_host (u_Host v) \<and> (u_Host u = u_Host v \<longrightarrow> u_User u = u_User v))"

lemma first_creds_Some: "first_creds u ps = Some ui \<Longrightarrow> \<exists>p\<in>set ps. creds_for u p = Some ui"
  by (induction ps) (auto split: option.splits)

lemma first_creds_None: "first_creds u ps = None \<longleftrightarrow> (\<forall>p\<in>set ps. creds_for u p = None)"
  by (induction ps) (auto split: option.splits)

lemma creds_for_Some: "creds_for u p = Some ui \<longleftrightarrow> (\<exists>v. url_Parse p = Some v \<and> u_Host v = u_Host u \<and> u_User v = Some ui)"
  by (auto simp: creds_for_def split: option.splits)

lemma same_url_fields: "same_url a b \<Longrightarrow> u_Host a = u_Host b \<and> u_User a = u_User b"
  by (cases a; cases b) (simp add: same_url_def)

lemma same_url_user: "same_url a (b\<lparr>u_User := None\<rparr>) \<Longrightarrow> same_url (a\<lparr>u_User := u_User b\<rparr>) b"
  by (cases a; cases b) (simp add: same_url_def)

lemma same_url_trans: "same_url a b \<Longrightarrow> same_url b c \<Longrightarrow> same_url a c"
  by (simp add: same_url_def)

lemma restore_redacted:
  assumes "consistent_urls us" "raw \<in> set us"
  shows "same_target (restoreURLCreds (redactURLCreds raw) us) raw"
proof (cases "url_Parse raw")
  case None
  then show ?thesis by (simp add: redactURLCreds_def restoreURLCreds_def same_target_def)
next
  case (Some u)
  have cons: "u_Host v \<noteq> [] \<and> plain_host (u_Host v) \<and> (u_Host u = u_Host v \<longrightarrow> u_User u = u_User v)"
    if "p \<in> set us" "url_Parse p = Some v" "u_User v \<noteq> None" for p v
    using assms Some that unfolding consistent_urls_def by blast
  show ?thesis
  proof (cases "u_User u")
    case None
    have "first_creds u us = None"
    proof (rule ccontr)
      assume "first_creds u us \<noteq> None"
      then obtain p v ui where "p \<in> set us" "url_Parse p = Some v" "u_Host v = u_Host u" "u_User v = Some ui"
        using first_creds_Some[of u us] by (auto simp: creds_for_Some)
      then show False using cons None by fastforce
    qed
    then show ?thesis using Some None by (simp add: redactURLCreds_def restoreURLCreds_def same_target_def)
  next
    case user: (Some ui)
    have h: "u_Host u \<noteq> []" "plain_host (u_Host u)" using cons[OF assms(2) Some] user by auto
    let ?red = "url_String (u\<lparr>u_User := None\<rparr>)"
    have red: "redactURLCreds raw = ?red" using Some user by (simp add: redactURLCreds_def)
    obtain v where v: "url_Parse ?red = Some v" "same_url v (u\<lparr>u_User := None\<rparr>)"
      using url_String_read_back[OF Some h, of None] .
    have vf: "u_Host v = u_Host u" "u_User v = None" using same_url_fields[OF v(2)] by simp_all
    have "creds_for v raw = Some ui" using Some user vf by (simp add: creds_for_Some)
    then have "first_creds v us \<noteq> None" using assms(2) by (metis first_creds_None option.distinct(1))
    then obtain uj where uj: "first_creds v us = Some uj" by blast
    then obtain p w where w: "p \<in> set us" "url_Parse p = Some w" "u_Host w = u_Host v" "u_User w = Some uj"
      using first_creds_Some by (metis creds_for_Some)
    then have "uj = ui" using cons[of p w] vf user by auto
    then have restored: "restoreURLCreds (redactURLCreds raw) us = url_String (v\<lparr>u_User := Some ui\<rparr>)"
      using v(1) vf uj by (simp add: restoreURLCreds_def red)
    obtain x where x: "url_Parse (url_String (v\<lparr>u_User := Some ui\<rparr>)) = Some x" "same_url x (v\<lparr>u_User := Some ui\<rparr>)"
      using url_String_read_back[OF v(1), of "Some ui"] h vf by auto
    have "same_url x u" using same_url_trans[OF x(2)] same_url_user[OF v(2)] user by simp
    then show ?thesis using x(1) Some by (simp add: same_target_def restored)
  qed
qed

section \<open>The request of an edit that changes nothing\<close>

text \<open>What the edit form sends back from a view: the shown values, and blank secrets.\<close>

definition resubmit :: "cluster_view \<Rightarrow> cluster_request" where
  "resubmit v = \<lparr>cq_Name = vw_Name v, cq_Servers = vw_Servers v,
     cq_MQTTBridges = map (\<lambda>b. \<lparr>mb_Name = vb_Name b, mb_URL = vb_URL b, mb_BearerToken = []\<rparr>) (vw_MQTTBridges v),
     cq_MQTTDiscovery = vw_MQTTDiscovery v, cq_TLS = vw_TLS v, cq_AdminToken = [],
     cq_NATSConn = map_option (\<lambda>n. \<lparr>nn_URLs = nv_URLs n, nn_Username = nv_Username n, nn_Password = [], nn_Token = [],
       nn_NKey = [], nn_CredsFile = [], nn_SubjectPrefix = nv_SubjectPrefix n, nn_SYSCollection = nv_SYSCollection n,
       nn_TLS = nv_TLS n\<rparr>) (vw_NATSConn v)\<rparr>"

definition same_bridge :: "mqtt_bridge \<Rightarrow> mqtt_bridge \<Rightarrow> bool" where
  "same_bridge a b \<longleftrightarrow> mb_Name a = mb_Name b \<and> same_target (mb_URL a) (mb_URL b) \<and> mb_BearerToken a = mb_BearerToken b"

definition same_nats :: "nats_conn_config \<Rightarrow> nats_conn_config \<Rightarrow> bool" where
  "same_nats a b \<longleftrightarrow> list_all2 same_target (nn_URLs a) (nn_URLs b) \<and> a\<lparr>nn_URLs := []\<rparr> = b\<lparr>nn_URLs := []\<rparr>"

text \<open>Equal up to the spelling of URLs, which still have the same meaning and the same credentials.\<close>

definition same_cluster :: "cluster \<Rightarrow> cluster \<Rightarrow> bool" where
  "same_cluster a b \<longleftrightarrow> kl_ID a = kl_ID b \<and> kl_Name a = kl_Name b \<and> list_all2 same_target (kl_Servers a) (kl_Servers b)
     \<and> list_all2 same_bridge (kl_MQTTBridges a) (kl_MQTTBridges b) \<and> kl_MQTTDiscovery a = kl_MQTTDiscovery b
     \<and> kl_TLS a = kl_TLS b \<and> kl_AdminToken a = kl_AdminToken b \<and> rel_option same_nats (kl_NATSConn a) (kl_NATSConn b)
     \<and> kl_CreatedAt a = kl_CreatedAt b"

definition editable :: "cluster \<Rightarrow> bool" where
  "editable c \<longleftrightarrow> kl_Name c \<noteq> [] \<and> kl_Servers c \<noteq> [] \<and> consistent_urls (kl_Servers c) \<and> consistent_urls (map mb_URL (kl_MQTTBridges c))
     \<and> (case kl_NATSConn c of None \<Rightarrow> True | Some n \<Rightarrow> consistent_urls (nn_URLs n)) \<and> distinct (map mb_Name (kl_MQTTBridges c))
     \<and> ports_in_range c"

lemma list_all2_map_self: "(\<And>x. x \<in> set xs \<Longrightarrow> R (f x) x) \<Longrightarrow> list_all2 R (map f xs) xs"
  by (induction xs) auto

lemma restored_list: "consistent_urls us \<Longrightarrow> list_all2 same_target (map (\<lambda>u. restoreURLCreds u us) (map redactURLCreds us)) us"
  using restore_redacted by (simp add: comp_def list_all2_map_self)

lemma prev_token_own:
  assumes "distinct (map mb_Name bs)" "b \<in> set bs"
  shows "prev_token bs (mb_Name b) = (if mb_BearerToken b = [] then None else Some (mb_BearerToken b))"
proof -
  let ?m = "map (\<lambda>b. (mb_Name b, mb_BearerToken b)) (filter (\<lambda>b. mb_BearerToken b \<noteq> []) bs)"
  have "distinct (map fst ?m)" using assms(1) by (simp add: comp_def distinct_map_filter)
  then have d: "distinct (map fst (rev ?m))" by (simp only: distinct_rev flip: rev_map)
  show ?thesis
  proof (cases "mb_BearerToken b = []")
    case True
    have "mb_Name b \<notin> fst ` set ?m" using assms True by (auto simp: distinct_map inj_on_def)
    then show ?thesis using True by (simp add: prev_token_def map_of_eq_None_iff image_image)
  next
    case False
    then have "(mb_Name b, mb_BearerToken b) \<in> set (rev ?m)" using assms(2) by auto
    then show ?thesis using False map_of_eq_Some_iff[OF d] by (simp add: prev_token_def)
  qed
qed

lemma sanitizedTLS_own: "sanitizedTLS t t field = Inr t"
  by (cases t) (auto simp: sanitizedTLS_def)

lemma sanitize_resubmit: 
  "sanitizeHostPaths (resubmit (toClusterView c)) (Some c)
    = Inr (resubmit (toClusterView c)\<lparr>cq_NATSConn := map_option (\<lambda>n. n\<lparr>nn_CredsFile := stored_creds (Some c)\<rparr>)
        (cq_NATSConn (resubmit (toClusterView c)))\<rparr>)"
proof -
  have "cq_TLS (resubmit (toClusterView c)) = kl_TLS c" by (simp add: resubmit_def toClusterView_def)
  moreover have "r\<lparr>cq_TLS := cq_TLS r\<rparr> = r" for r :: cluster_request by (cases r) simp
  ultimately show ?thesis
    by (cases "kl_NATSConn c")
      (auto simp: sanitizeHostPaths_def sanitizedTLS_own resubmit_def toClusterView_def nats_view_def)
qed

lemma merged_resubmit:
  assumes "editable c"
  shows "same_cluster (mergeClusterSecrets (request_cluster (kl_ID c) (resubmit (toClusterView c)\<lparr>cq_NATSConn :=
      map_option (\<lambda>n. n\<lparr>nn_CredsFile := stored_creds (Some c)\<rparr>) (cq_NATSConn (resubmit (toClusterView c)))\<rparr>)) c
    \<lparr>kl_CreatedAt := kl_CreatedAt c\<rparr>) c"
proof -
  have b: "same_bridge (merge_bridge (kl_MQTTBridges c) \<lparr>mb_Name = mb_Name b, mb_URL = redactURLCreds (mb_URL b), mb_BearerToken = []\<rparr>) b"
    if "b \<in> set (kl_MQTTBridges c)" for b
  proof -
    have "same_target (restoreURLCreds (redactURLCreds (mb_URL b)) (map mb_URL (kl_MQTTBridges c))) (mb_URL b)"
      using assms that by (intro restore_redacted) (auto simp: editable_def)
    then show ?thesis using prev_token_own[of "kl_MQTTBridges c" b] assms that
      by (auto simp: editable_def same_bridge_def merge_bridge_def Let_def)
  qed
  have s: "list_all2 same_target (map (\<lambda>u. restoreURLCreds u (kl_Servers c)) (map redactURLCreds (kl_Servers c))) (kl_Servers c)"
    using assms by (intro restored_list) (simp add: editable_def)
  have n: "same_nats (n\<lparr>nn_URLs := map (\<lambda>u. restoreURLCreds u (nn_URLs n)) (map redactURLCreds (nn_URLs n))\<rparr>) n"
    if "kl_NATSConn c = Some n" for n
    using assms restored_list that by (simp add: editable_def same_nats_def)
  have e: "\<lparr>nn_URLs = us, nn_Username = nn_Username n, nn_Password = nn_Password n, nn_Token = nn_Token n, nn_NKey = nn_NKey n,
      nn_CredsFile = nn_CredsFile n, nn_SubjectPrefix = nn_SubjectPrefix n, nn_SYSCollection = nn_SYSCollection n, nn_TLS = nn_TLS n\<rparr>
      = n\<lparr>nn_URLs := us\<rparr>" for us and n :: nats_conn_config by (cases n) simp
  have bl: "list_all2 same_bridge (map (\<lambda>b. merge_bridge (kl_MQTTBridges c) \<lparr>mb_Name = mb_Name b, mb_URL = redactURLCreds (mb_URL b), mb_BearerToken = []\<rparr>)
      (kl_MQTTBridges c)) (kl_MQTTBridges c)" using b by (rule list_all2_map_self)
  show ?thesis
    using s bl n
    by (cases "kl_NATSConn c") (simp_all add: same_cluster_def mergeClusterSecrets_def request_cluster_def resubmit_def toClusterView_def
        keep_blank_def bridge_view_def nats_view_def comp_def merge_nats_def stored_creds_def e split: if_splits)
qed

section \<open>What an update stores\<close>

lemma ResolveCAFile_again: "ResolveCAFile h t = Inr t' \<Longrightarrow> ResolveCAFile h t' = Inr t'"
  by (cases t) (auto simp: ResolveCAFile_def error_simps split: if_splits)

lemma scanned_cas:
  assumes "scanCluster h r = Inr c"
  shows "ResolveCAFile h (kl_TLS c) = Inr (kl_TLS c)" "hydrate_nats h (kl_NATSConn c) = Inr (kl_NATSConn c)"
    "kl_ID c = kr_id r" "kl_CreatedAt c = kr_created_at r"
proof -
  obtain t n where t: "ResolveCAFile h t = Inr (kl_TLS c)" and n: "hydrate_nats h n = Inr (kl_NATSConn c)"
      and "kl_ID c = kr_id r \<and> kl_CreatedAt c = kr_created_at r"
    using assms by (auto simp: scanCluster_def error_simps)
  moreover have "hydrate_nats h (kl_NATSConn c) = Inr (kl_NATSConn c)"
    using n ResolveCAFile_again[of h] by (auto simp: hydrate_nats_def error_simps split: option.splits)
  ultimately show "ResolveCAFile h (kl_TLS c) = Inr (kl_TLS c)" "hydrate_nats h (kl_NATSConn c) = Inr (kl_NATSConn c)"
    "kl_ID c = kr_id r" "kl_CreatedAt c = kr_created_at r" using ResolveCAFile_again by auto
qed

lemma got_row: "GetCluster fault h i db = Inr c \<Longrightarrow> \<exists>r. find_row i db = Some r \<and> scanCluster h r = Inr c \<and> kr_id r = i"
  by (auto simp: GetCluster_def error_simps find_row_def find_Some_iff split: option.splits)

lemma store_update_found:
  assumes "find_row (kl_ID c) db = Some r" "kl_Name c \<noteq> []" "kl_Servers c \<noteq> []" "fault 0 = None"
  shows "\<exists>db'. store_UpdateCluster fault c db = Inr db'"
proof -
  have "kl_ID c \<in> set (map kr_id (kd_clusters db))" using assms(1) find_row_None[of "kl_ID c" db] by (auto simp: row_ids_def)
  then show ?thesis using assms by (simp add: store_UpdateCluster_def check_cluster_def)
qed

lemma update_find:
  assumes "store_UpdateCluster fault c db = Inr db'" "find_row (kl_ID c) db = Some r"
  shows "find_row (kl_ID c) db' = Some (cluster_row_of (c\<lparr>kl_CreatedAt := kr_created_at r\<rparr>))"
proof -
  have "(cluster_row_of c)\<lparr>kr_created_at := x\<rparr> = cluster_row_of (c\<lparr>kl_CreatedAt := x\<rparr>)" for x
    by (simp add: cluster_row_of_def marshalClusterFields_def)
  then show ?thesis using assms(2) by - (rule row_update_outcome[OF assms(1)], simp)
qed

lemma read_after_update:
  assumes "store_UpdateCluster fault c db = Inr db'" "find_row (kl_ID c) db = Some r"
  shows "GetCluster (\<lambda>_. None) h (kl_ID c) db' = scanCluster h (cluster_row_of (c\<lparr>kl_CreatedAt := kr_created_at r\<rparr>))"
  using update_find[OF assms] by (simp add: GetCluster_def flip: find_row_def)

definition kept_edit :: "cluster \<Rightarrow> cluster" where
  "kept_edit c = mergeClusterSecrets (request_cluster (kl_ID c) (resubmit (toClusterView c)\<lparr>cq_NATSConn :=
      map_option (\<lambda>n. n\<lparr>nn_CredsFile := stored_creds (Some c)\<rparr>) (cq_NATSConn (resubmit (toClusterView c)))\<rparr>)) c"

lemma keeps_nats_tls [simp]: "n\<lparr>nn_TLS := t\<rparr> = n \<longleftrightarrow> t = nn_TLS n"
  by (cases n) auto

lemma kept_edit_fields: "kl_ID (kept_edit c) = kl_ID c" "kl_Name (kept_edit c) = kl_Name c"
  "kl_Servers (kept_edit c) = [] \<longleftrightarrow> kl_Servers c = []" "kl_TLS (kept_edit c) = kl_TLS c"
  "kl_MQTTDiscovery (kept_edit c) = kl_MQTTDiscovery c"
  "hydrate_nats h (kl_NATSConn c) = Inr (kl_NATSConn c) \<Longrightarrow> hydrate_nats h (kl_NATSConn (kept_edit c)) = Inr (kl_NATSConn (kept_edit c))"
proof -
  show "hydrate_nats h (kl_NATSConn c) = Inr (kl_NATSConn c) \<Longrightarrow> hydrate_nats h (kl_NATSConn (kept_edit c)) = Inr (kl_NATSConn (kept_edit c))"
    by (cases "kl_NATSConn c") (auto simp: kept_edit_def hydrate_nats_def mergeClusterSecrets_def request_cluster_def resubmit_def
        toClusterView_def merge_nats_def nats_view_def error_simps)
qed (simp_all add: kept_edit_def mergeClusterSecrets_def request_cluster_def resubmit_def toClusterView_def)


section \<open>When the stored cluster cannot be read\<close>

text \<open>
  C32. An edit that finds the stored cluster unreadable, for instance because its CA file is gone, is
  accepted all the same, without anything to merge from: its blank admin token replaces the stored one.
\<close>

theorem unreadable_cluster_loses_token:
  assumes "GetCluster fault h i (as_db s) = Inl e" "find_row i (as_db s) = Some r" "write_fault 0 = None"
    "sanitizeHostPaths q None = Inr q'" "NewFetcher h (cq_TLS q')" "cq_Name q \<noteq> []" "cq_Servers q \<noteq> []" "cq_AdminToken q = []"
  shows "\<exists>view s' r'. handleUpdateCluster fault write_fault h i (Some q) s = (Reply 200 view, s')
    \<and> find_row i (as_db s') = Some r' \<and> kr_admin_token r' = []"
proof -
  have q': "cq_Name q' = cq_Name q" "cq_Servers q' = cq_Servers q" "cq_AdminToken q' = cq_AdminToken q"
    using assms(4) by (cases "cq_NATSConn q"; auto simp: sanitizeHostPaths_def error_simps Let_def split: if_splits)+
  let ?c = "request_cluster i q'"
  have c: "kl_ID ?c = i" "kl_Name ?c = cq_Name q'" "kl_Servers ?c = cq_Servers q'" "kl_TLS ?c = cq_TLS q'" "kl_AdminToken ?c = []"
    using q' assms(8) by (simp_all add: request_cluster_def)
  obtain db where db: "store_UpdateCluster write_fault ?c (as_db s) = Inr db"
    using store_update_found[of ?c "as_db s" r write_fault] c q' assms by auto
  have "find_row i db = Some (cluster_row_of (?c\<lparr>kl_CreatedAt := kr_created_at r\<rparr>))"
    using update_find[OF db, of r] c(1) assms(2) by simp
  moreover have "kr_admin_token (cluster_row_of (?c\<lparr>kl_CreatedAt := kr_created_at r\<rparr>)) = []" using c(5) by (simp add: cluster_row_of_def marshalClusterFields_def)
  ultimately show ?thesis using assms(1,4,5) db c(4) by (simp add: handleUpdateCluster_def Let_def)
qed

section \<open>Deletion\<close>

definition no_rows :: env_tables where
  "no_rows = \<lparr>et_bridges = [], et_metrics = \<lparr>db_server = [], db_env = [], db_bridge = []\<rparr>, et_positions = [], et_camera = []\<rparr>"

lemma env_rows_deleted: "env_rows j (delete_env_rows i t) = (if j = i then no_rows else env_rows j t)"
proof (cases "j = i")
  case True
  then show ?thesis by (simp add: env_rows_def delete_env_rows_def no_rows_def gm_del_def)
qed (simp add: delete_keeps_other_rows)

text \<open>
  C31. Deleting a cluster ends its collector in any case. When it is answered with success, the
  cluster's row and its rows in the six tables are gone and nothing of another cluster is touched;
  when it is refused, the database is as it was.
\<close>

theorem deletion_is_complete_or_refused:
  "case handleDeleteCluster fault i s of
     (Reply code u, s') \<Rightarrow> code = 200
       \<and> (\<forall>j. find_row j (as_db s') = (if j = i then None else find_row j (as_db s)))
       \<and> (\<forall>j. env_rows j (kd_tables (as_db s')) = (if j = i then no_rows else env_rows j (kd_tables (as_db s))))
       \<and> (\<forall>j. map_of (g_collectors (as_manager s')) j = (if j = i then None else map_of (g_collectors (as_manager s)) j))
       \<and> (\<forall>j. map_of (g_cancels (as_manager s')) j = (if j = i then None else map_of (g_cancels (as_manager s)) j))
   | (Refuse code msg, s') \<Rightarrow> as_db s' = as_db s \<and> map_of (g_collectors (as_manager s')) i = None
       \<and> map_of (g_cancels (as_manager s')) i = None"
proof (cases "store_DeleteCluster fault i (as_db s)")
  case (Inl e)
  then show ?thesis by (cases e) (simp_all add: handleDeleteCluster_def writeClusterError_def RemoveCluster_def Let_def)
next
  case (Inr db)
  then show ?thesis
    by (simp add: handleDeleteCluster_def Let_def RemoveCluster_def delete_find[OF Inr] delete_outcome(2)[OF Inr] env_rows_deleted)
qed

section \<open>Seeding\<close>

text \<open>
  Seeding keeps every stored cluster, in its place, and the tables; afterwards every named
  environment of the configuration has a cluster, no name was added twice, and seeding again
  with the same configuration, whatever the insertions would find, changes nothing.
\<close>

theorem seeding_is_idempotent:
  assumes "SeedClusters fault h world envs db = ((None, n), db')"
  shows "\<exists>new. kd_clusters db' = kd_clusters db @ new \<and> kd_tables db' = kd_tables db \<and> distinct (map kr_name new)
    \<and> (envs = [] \<or> e_Name ` set envs - {[]} \<subseteq> kr_name ` set (kd_clusters db'))
    \<and> (case ListClusters fault' h' db' of Inl e \<Rightarrow> True | Inr cs \<Rightarrow> SeedClusters fault' h' world' envs db' = ((None, 0), db'))"
proof (cases "envs = []")
  case True
  then show ?thesis using assms by (simp add: SeedClusters_def split: sum.split)
next
  case False
  obtain cs where cs: "ListClusters fault h db = Inr cs" and seed: "seed_environments world 0 (map kl_Name cs) envs db = ((None, n), db')"
    using assms False by (auto simp: SeedClusters_def split: sum.splits)
  obtain new where new: "kd_clusters db' = kd_clusters db @ new" "kd_tables db' = kd_tables db" "distinct (map kr_name new)"
    using seed_extends[OF seed] by blast
  have cover: "e_Name e \<in> kr_name ` set (kd_clusters db')" if "e \<in> set envs" "e_Name e \<noteq> []" for e
    using seed_covers[OF seed that] listed_name_set[OF cs] new(1) by auto
  have again: "SeedClusters fault' h' world' envs db' = ((None, 0), db')" if "ListClusters fault' h' db' = Inr cs'" for cs'
  proof -
    have "\<forall>e\<in>set envs. e_Name e = [] \<or> e_Name e \<in> set (map kl_Name cs')" using cover listed_name_set[OF that] by auto
    then show ?thesis using seed_nothing_new that False by (simp add: SeedClusters_def)
  qed
  show ?thesis using new cover again by (intro exI[of _ new]) (auto split: sum.split)
qed

section \<open>Examples\<close>

definition demo_cluster :: "string \<Rightarrow> string \<Rightarrow> cluster" where
  "demo_cluster url secret = \<lparr>kl_ID = ''c1'', kl_Name = ''prod'', kl_Servers = [url],
     kl_MQTTBridges = [\<lparr>mb_Name = ''b'', mb_URL = url, mb_BearerToken = secret\<rparr>], kl_MQTTDiscovery = None, kl_TLS = None,
     kl_AdminToken = secret, kl_NATSConn = None, kl_CreatedAt = 7\<rparr>"

definition demo_api :: "string \<Rightarrow> string \<Rightarrow> cluster_api" where
  "demo_api url secret = \<lparr>as_db = \<lparr>kd_clusters = [cluster_row_of (demo_cluster url secret)], kd_tables = no_rows\<rparr>,
     as_manager = \<lparr>g_collectors = [], g_cancels = [], g_started = False, g_interval = 1\<rparr>\<rparr>"

definition demo_host :: host where
  "demo_host = \<lparr>read_file = \<lambda>_. None, open_file = \<lambda>_. None, pem_certs = \<lambda>_. False, getenv = \<lambda>_. [], yaml_decode = \<lambda>_ _. None\<rparr>"

lemma demo_scan: "scanCluster h (cluster_row_of (demo_cluster url secret)) = Inr (demo_cluster url secret)"
  by (rule scan_written_in_memory) (simp_all add: demo_cluster_def ports_in_range_def cas_in_memory_def ca_in_memory_def natsConnTLS_def)

lemma demo_get: "GetCluster (\<lambda>_. None) h ''c1'' (as_db (demo_api url secret)) = Inr (demo_cluster url secret)"
proof -
  have "kl_ID (demo_cluster url secret) = ''c1''" by (simp add: demo_cluster_def)
  then show ?thesis by (simp add: GetCluster_def demo_api_def demo_scan)
qed

lemma demo_url_plain:
  "\<exists>p. url_Parse ''http://a:b@n1'' = Some p \<and> u_Host p = ''n1'' \<and> plain_host ''n1''"
proof -
  let ?p = "the (url_Parse ''http://a:b@n1'')"
  have "url_Parse ''http://a:b@n1'' = Some ?p \<and> u_Host ?p = ''n1'' \<and> plain_host ''n1''" by code_simp
  then show ?thesis by blast
qed

lemma demo_editable: "editable (demo_cluster ''http://a:b@n1'' secret)"
proof -
  have "consistent_urls [''http://a:b@n1'']" using demo_url_plain by (auto simp: consistent_urls_def)
  then show ?thesis by (simp add: editable_def demo_cluster_def ports_in_range_def)
qed

lemma demo_urls_alike: "same_but_user ''http://a:b@n1'' ''http://c:d@n1''"
  by code_simp



definition lost_ca_row :: cluster_row where
  "lost_ca_row = cluster_row_of ((demo_cluster ''http://n1'' ''t'')\<lparr>kl_TLS := Some \<lparr>t_CAFile = ''/gone'', t_CAPem = [], t_Insecure = False\<rparr>\<rparr>)"

definition demo_request :: cluster_request where
  "demo_request = \<lparr>cq_Name = ''prod'', cq_Servers = [''http://n1''], cq_MQTTBridges = [], cq_MQTTDiscovery = None, cq_TLS = None,
     cq_AdminToken = [], cq_NATSConn = None\<rparr>"

lemma unreadable_cluster_loses_token_witness:
  "let s = (demo_api ''http://n1'' ''t'')\<lparr>as_db := \<lparr>kd_clusters = [lost_ca_row], kd_tables = no_rows\<rparr>\<rparr>
   in kr_admin_token lost_ca_row = ''t'' \<and> (\<exists>view s' r'. handleUpdateCluster (\<lambda>_. None) (\<lambda>_. None) demo_host ''c1'' (Some demo_request) s
        = (Reply 200 view, s') \<and> find_row ''c1'' (as_db s') = Some r' \<and> kr_admin_token r' = [])"
proof -
  let ?s = "(demo_api ''http://n1'' ''t'')\<lparr>as_db := \<lparr>kd_clusters = [lost_ca_row], kd_tables = no_rows\<rparr>\<rparr>"
  let ?c = "(demo_cluster ''http://n1'' ''t'')\<lparr>kl_TLS := Some \<lparr>t_CAFile = ''/gone'', t_CAPem = [], t_Insecure = False\<rparr>\<rparr>"
  have row: "kr_id lost_ca_row = ''c1''" "kr_admin_token lost_ca_row = ''t''"
    by (simp_all add: lost_ca_row_def cluster_row_of_def marshalClusterFields_def demo_cluster_def)
  have "ports_in_range ?c" by (simp add: ports_in_range_def demo_cluster_def)
  then have "scanCluster demo_host lost_ca_row = Inl (CAUnreadable OpenFailed)"
    by (simp add: lost_ca_row_def scan_written ResolveCAFile_def readCertFile_def demo_host_def map_error_def)
  then have "GetCluster (\<lambda>_. None) demo_host ''c1'' (as_db ?s) = Inl (CAUnreadable OpenFailed)" "find_row ''c1'' (as_db ?s) = Some lost_ca_row"
    by (simp_all add: GetCluster_def find_row_def row)
  then show ?thesis
    using unreadable_cluster_loses_token[of "\<lambda>_. None" demo_host "''c1''" ?s _ lost_ca_row "\<lambda>_. None" demo_request demo_request] row
    by (simp add: demo_request_def sanitizeHostPaths_def sanitizedTLS_def NewFetcher_def Let_def)
qed

definition demo_environment :: environment where
  "demo_environment = ToEnvironment (demo_cluster ''http://n1'' ''t'')"

lemma seeding_is_idempotent_witness:
  "let db = \<lparr>kd_clusters = [], kd_tables = no_rows\<rparr>;
       (r, db') = SeedClusters (\<lambda>_. None) demo_host (\<lambda>_. (\<lambda>_. None, Some ''i'', 5)) [demo_environment, demo_environment] db
   in r = (None, 1) \<and> map kr_name (kd_clusters db') = [''prod'']
     \<and> SeedClusters (\<lambda>_. None) demo_host (\<lambda>_. (\<lambda>_. None, None, 0)) [demo_environment, demo_environment] db' = ((None, 0), db')"
proof -
  define db :: cluster_db where "db = \<lparr>kd_clusters = [], kd_tables = no_rows\<rparr>"
  define c where "c = (ClusterFromEnvironment demo_environment)\<lparr>kl_ID := ''i'', kl_CreatedAt := 5\<rparr>"
  define db' :: cluster_db where "db' = \<lparr>kd_clusters = [cluster_row_of c], kd_tables = no_rows\<rparr>"
  have c: "kl_Name c = ''prod''" "e_Name demo_environment = ''prod''"
    by (simp_all add: c_def demo_environment_def demo_cluster_def ToEnvironment_def ClusterFromEnvironment_def)
  have s: "SeedClusters (\<lambda>_. None) demo_host (\<lambda>_. (\<lambda>_. None, Some ''i'', 5)) [demo_environment, demo_environment] db = ((None, 1), db')"
    by (simp add: SeedClusters_def ListClusters_def db_def CreateCluster_def check_cluster_def Let_def db'_def c_def
        ClusterFromEnvironment_def demo_environment_def demo_cluster_def ToEnvironment_def)
  have "scanCluster demo_host (cluster_row_of c) = Inr c"
    by (rule scan_written_in_memory) (simp_all add: c_def demo_environment_def demo_cluster_def ToEnvironment_def ClusterFromEnvironment_def
        ports_in_range_def cas_in_memory_def ca_in_memory_def natsConnTLS_def)
  then have "ListClusters (\<lambda>_. None) demo_host db' = Inr [c]" by (simp add: ListClusters_def db'_def)
  then have "SeedClusters (\<lambda>_. None) demo_host (\<lambda>_. (\<lambda>_. None, None, 0)) [demo_environment, demo_environment] db' = ((None, 0), db')"
    using seeding_is_idempotent[OF s, of "\<lambda>_. None" demo_host "\<lambda>_. (\<lambda>_. None, None, 0)"] by auto
  then show ?thesis using s c by (simp add: db_def[symmetric]) (simp add: db'_def)
qed

end
