(* ===== verification/ConnPages.thy ===== *)
theory ConnPages
  imports Types "HOL-Library.List_Lexorder" "HOL-Library.Char_ord" "HOL-Library.Product_Lexorder"
begin

text \<open>
  Reading all connections of a cluster page by page, \<^verbatim>\<open>fetchConnzPages\<close> and \<^verbatim>\<open>flattenConnz\<close> of
  \<^verbatim>\<open>internal/api/handlers_env.go\<close>. \<open>fetch server limit offset\<close> is the answer of a monitoring endpoint,
  \<open>None\<close> if the request fails; a server is asked at most once for an offset. The servers are asked
  concurrently, each into a slot of its own.
\<close>

section \<open>Pages of one server\<close>

definition connzPageSize :: nat where
  "connzPageSize = 1024"

definition connzMaxPerServer :: nat where
  "connzMaxPerServer = 50000"

definition connzMaxClusterRows :: nat where
  "connzMaxClusterRows = 100000"

type_synonym page_fetch = "string \<Rightarrow> nat \<Rightarrow> nat \<Rightarrow> connz option"

record connz_server_result =
  rs_conns :: "conn_info list"
  rs_total :: int
  rs_serverID :: string
  rs_failed :: bool
  rs_truncated :: bool

definition no_result :: connz_server_result where
  "no_result = \<lparr>rs_conns = [], rs_total = 0, rs_serverID = [], rs_failed = False, rs_truncated = False\<rparr>"

definition add_page :: "connz \<Rightarrow> connz_server_result \<Rightarrow> connz_server_result" where
  "add_page page r =
    (let r = (if rs_serverID r = [] then r\<lparr>rs_serverID := cz_ServerID page, rs_total := cz_Total page\<rparr> else r)
     in r\<lparr>rs_conns := rs_conns r @ map (\<lambda>c. c\<lparr>c_ServerID := cz_ServerID page\<rparr>) (cz_Conns page)\<rparr>)"

definition last_page :: "nat \<Rightarrow> connz \<Rightarrow> bool" where
  "last_page offset page \<longleftrightarrow>
    (let next_offset = offset + length (cz_Conns page)
     in cz_Conns page = [] \<or> next_offset \<le> offset \<or> (0 < cz_Total page \<and> cz_Total page \<le> int next_offset)
        \<or> length (cz_Conns page) < connzPageSize)"

lemma page_progress:
  assumes "\<not> connzMaxPerServer \<le> offset" "\<not> last_page offset page"
  shows "connzMaxPerServer - (offset + length (cz_Conns page)) < connzMaxPerServer - offset"
proof -
  have "0 < length (cz_Conns page)" using assms(2) by (simp add: last_page_def)
  then show ?thesis using assms(1) by linarith
qed

text \<open>The check after the loop; a failed server keeps what it has.\<close>

definition close_result :: "connz_server_result \<Rightarrow> connz_server_result" where
  "close_result r =
    (let r = (if rs_total r = 0 then r\<lparr>rs_total := int (length (rs_conns r))\<rparr> else r)
     in if int (length (rs_conns r)) < rs_total r \<or> connzMaxPerServer \<le> length (rs_conns r) then r\<lparr>rs_truncated := True\<rparr> else r)"

function fetch_pages :: "(nat \<Rightarrow> connz option) \<Rightarrow> nat \<Rightarrow> connz_server_result \<Rightarrow> connz_server_result" where
  "fetch_pages fetch offset r =
    (if connzMaxPerServer \<le> offset then close_result r
     else case fetch offset of
       None \<Rightarrow> r\<lparr>rs_failed := True\<rparr>
     | Some page \<Rightarrow>
         if last_page offset page then close_result (add_page page r)
         else fetch_pages fetch (offset + length (cz_Conns page)) (add_page page r))"
  by auto
termination
  by (relation "measure (\<lambda>(fetch, offset, r). connzMaxPerServer - offset)") (auto dest: page_progress)

declare fetch_pages.simps [simp del]

definition fetchConnzPages :: "string list \<Rightarrow> page_fetch \<Rightarrow> connz_server_result list" where
  "fetchConnzPages servers fetch = map (\<lambda>url. fetch_pages (fetch url connzPageSize) 0 no_result) servers"

section \<open>One list for the cluster\<close>

definition conn_key :: "conn_info \<Rightarrow> string \<times> 64 word \<times> string \<times> int" where
  "conn_key c = (c_ServerID c, c_Cid c, c_IP c, c_Port c)"

record conn_listing =
  cs_conns :: "conn_info list"
  cs_total :: int
  cs_failed :: nat
  cs_partial :: bool

definition flattenConnz :: "connz_server_result list \<Rightarrow> conn_listing" where
  "flattenConnz results =
    (let conns = sort_key conn_key (concat (map rs_conns results))
     in \<lparr>cs_conns = take connzMaxClusterRows conns,
         cs_total = fold (\<lambda>r t. wrap64 (t + rs_total r)) results 0,
         cs_failed = length (filter rs_failed results),
         cs_partial = ((\<exists>r\<in>set results. rs_failed r \<or> rs_truncated r) \<or> connzMaxClusterRows < length conns)\<rparr>)"

section \<open>The pages of one server, in order, and how the asking ended\<close>

datatype paging = Failed | LastPage | LimitReached

function asked :: "(nat \<Rightarrow> connz option) \<Rightarrow> nat \<Rightarrow> connz list \<times> paging" where
  "asked fetch offset =
    (if connzMaxPerServer \<le> offset then ([], LimitReached)
     else case fetch offset of
       None \<Rightarrow> ([], Failed)
     | Some page \<Rightarrow>
         if last_page offset page then ([page], LastPage)
         else (let (pages, how) = asked fetch (offset + length (cz_Conns page)) in (page # pages, how)))"
  by auto
termination
  by (relation "measure (\<lambda>(fetch, offset). connzMaxPerServer - offset)") (auto dest: page_progress)

declare asked.simps [simp del]

lemma fetch_pages_asked:
  "fetch_pages fetch offset r = (let (pages, how) = asked fetch offset; r = fold add_page pages r
     in if how = Failed then r\<lparr>rs_failed := True\<rparr> else close_result r)"
proof (induction fetch offset r rule: fetch_pages.induct)
  case (1 fetch offset r)
  show ?case
  proof (cases "connzMaxPerServer \<le> offset \<or> fetch offset = None")
    case True
    then show ?thesis by (auto simp: fetch_pages.simps[of fetch offset] asked.simps[of fetch offset] split: option.splits)
  next
    case False
    then obtain page where page: "fetch offset = Some page" by auto
    obtain pages how where a: "asked fetch (offset + length (cz_Conns page)) = (pages, how)" by fastforce
    show ?thesis using False page a 1[OF _ page]
      by (simp add: fetch_pages.simps[of fetch offset] asked.simps[of fetch offset])
  qed
qed

section \<open>A server that does not change is listed exactly\<close>

definition steady_page :: "string \<Rightarrow> conn_info list \<Rightarrow> nat \<Rightarrow> nat \<Rightarrow> connz" where
  "steady_page i cs limit offset = \<lparr>cz_ServerID = i, cz_NumConns = int (length (take limit (drop offset cs))),
     cz_Total = int (length cs), cz_Offset = int offset, cz_Limit = int limit, cz_Conns = take limit (drop offset cs)\<rparr>"

definition page_rows :: "connz list \<Rightarrow> conn_info list" where
  "page_rows pages = concat (map cz_Conns pages)"

lemma asked_steady:
  assumes "\<And>offset. fetch offset = Some (steady_page i cs connzPageSize offset)"
  shows "snd (asked fetch offset) \<noteq> Failed \<and> (\<forall>p\<in>set (fst (asked fetch offset)). cz_ServerID p = i \<and> cz_Total p = int (length cs))
    \<and> (\<exists>k. page_rows (fst (asked fetch offset)) = take k (drop offset cs))
    \<and> (length cs < connzMaxPerServer \<longrightarrow> page_rows (fst (asked fetch offset)) = drop offset cs)"
  using assms
proof (induction fetch offset rule: asked.induct)
  case (1 fetch offset)
  let ?page = "steady_page i cs connzPageSize offset"
  show ?case
  proof (cases "connzMaxPerServer \<le> offset")
    case True
    then show ?thesis by (simp add: asked.simps[of fetch offset] page_rows_def)
  next
    case False
    note unfold = asked.simps[of fetch offset] 1(2)[of offset] False
    show ?thesis
    proof (cases "last_page offset ?page")
      case True
      then have "take connzPageSize (drop offset cs) = drop offset cs"
        by (auto simp: last_page_def steady_page_def connzPageSize_def Let_def min_def split: if_splits)
      then show ?thesis using True unfold
        by (auto simp: page_rows_def steady_page_def intro: exI[of _ "length cs"])
    next
      case more: False
      let ?n = "offset + length (cz_Conns ?page)"
      let ?rest = "asked fetch ?n"
      have a: "asked fetch offset = (?page # fst ?rest, snd ?rest)" using more unfold by (simp add: case_prod_beta Let_def)
      have "length (cz_Conns ?page) = connzPageSize"
        using more by (auto simp: last_page_def steady_page_def Let_def min_def split: if_splits)
      then have n: "?n = offset + connzPageSize" by simp
      have IH: "snd ?rest \<noteq> Failed \<and> (\<forall>p\<in>set (fst ?rest). cz_ServerID p = i \<and> cz_Total p = int (length cs))
          \<and> (\<exists>k. page_rows (fst ?rest) = take k (drop ?n cs))
          \<and> (length cs < connzMaxPerServer \<longrightarrow> page_rows (fst ?rest) = drop ?n cs)"
        by (rule 1(1)[OF _ 1(2) more]) (use False 1(2) in auto)
      have split: "page_rows (?page # ps) = take connzPageSize (drop offset cs) @ page_rows ps" for ps
        by (simp add: page_rows_def steady_page_def)
      have d: "drop ?n cs = drop connzPageSize (drop offset cs)" unfolding n by (simp add: add.commute)
      obtain k where k: "page_rows (fst ?rest) = take k (drop ?n cs)" using IH by blast
      have "page_rows (?page # fst ?rest) = take (connzPageSize + k) (drop offset cs)"
        unfolding split k d by (simp add: take_add)
      moreover have "page_rows (?page # fst ?rest) = drop offset cs" if "length cs < connzMaxPerServer"
      proof -
        have "page_rows (fst ?rest) = drop ?n cs" using IH that by blast
        then show ?thesis unfolding split d by (simp only: append_take_drop_id)
      qed
      moreover have "cz_ServerID ?page = i" "cz_Total ?page = int (length cs)" by (simp_all add: steady_page_def)
      ultimately show ?thesis unfolding a using IH by auto
    qed
  qed
qed

lemma fold_pages:
  assumes "\<forall>p\<in>set pages. cz_ServerID p = i \<and> cz_Total p = n" "i \<noteq> []" "rs_serverID r = [] \<or> rs_serverID r = i \<and> rs_total r = n"
  shows "fold add_page pages r = r\<lparr>rs_conns := rs_conns r @ map (\<lambda>c. c\<lparr>c_ServerID := i\<rparr>) (page_rows pages),
    rs_serverID := (if pages = [] then rs_serverID r else i), rs_total := (if pages = [] then rs_total r else n)\<rparr>"
  using assms by (induction pages arbitrary: r) (auto simp: page_rows_def add_page_def)

lemma asked_something: "fetch 0 = Some p \<Longrightarrow> fst (asked fetch 0) \<noteq> []"
  by (simp add: asked.simps[of fetch 0] connzMaxPerServer_def case_prod_beta)

definition with_server :: "string \<Rightarrow> conn_info list \<Rightarrow> conn_info list" where
  "with_server i cs = map (\<lambda>c. c\<lparr>c_ServerID := i\<rparr>) cs"

lemma steady_server:
  assumes "\<And>offset. fetch offset = Some (steady_page i cs connzPageSize offset)" "i \<noteq> []"
  shows "\<not> rs_failed (fetch_pages fetch 0 no_result) \<and> (rs_truncated (fetch_pages fetch 0 no_result) \<longleftrightarrow> connzMaxPerServer \<le> length cs)
    \<and> (length cs < connzMaxPerServer \<longrightarrow> rs_conns (fetch_pages fetch 0 no_result) = with_server i cs
        \<and> rs_total (fetch_pages fetch 0 no_result) = int (length cs))"
proof -
  obtain pages how where a: "asked fetch 0 = (pages, how)" by fastforce
  note st = asked_steady[OF assms(1), of 0, unfolded a]
  obtain k where k: "page_rows pages = take k cs" using st by auto
  have full: "length cs < connzMaxPerServer \<Longrightarrow> page_rows pages = cs" using st by simp
  have "pages \<noteq> []" using asked_something[of fetch] assms(1)[of 0] a by simp
  then have f: "fold add_page pages no_result = no_result\<lparr>rs_conns := with_server i (take k cs), rs_serverID := i, rs_total := int (length cs)\<rparr>"
    using fold_pages[of pages i "int (length cs)" no_result] st assms(2) by (simp add: no_result_def with_server_def k)
  have res: "fetch_pages fetch 0 no_result = close_result (no_result\<lparr>rs_conns := with_server i (take k cs), rs_serverID := i, rs_total := int (length cs)\<rparr>)"
    unfolding fetch_pages_asked a using st f by simp
  show ?thesis unfolding res using full k
    by (cases "length cs < connzMaxPerServer")
      (auto simp: close_result_def Let_def no_result_def with_server_def min_def not_less)
qed

lemma sum_list_int_length: "sum_list (map (\<lambda>x. int (f x)) xs) = int (sum_list (map f xs))"
  by (induction xs) auto

lemma total_no_wrap:
  assumes "\<forall>r\<in>set rs. 0 \<le> rs_total r" "sum_list (map rs_total rs) + t \<le> max_int64" "0 \<le> t"
  shows "fold (\<lambda>r t. wrap64 (t + rs_total r)) rs t = t + sum_list (map rs_total rs)"
  using assms
proof (induction rs arbitrary: t)
  case (Cons r rs)
  have "0 \<le> sum_list (map rs_total rs)" using Cons.prems(1) by (intro sum_list_nonneg) auto
  then have "wrap64 (t + rs_total r) = t + rs_total r"
    using Cons.prems by (intro wrap64_id) (auto simp: min_int64_def)
  then show ?case using Cons by simp
qed simp

text \<open>
  C10. If the servers do not change while they are read, the listing is flagged as partial exactly if
  a server has 50000 connections or more, or the cluster more than 100000; otherwise it holds every
  connection of every server once, with its server, in the order of its key, and the right total.
\<close>

theorem steady_cluster_is_listed_exactly:
  assumes "\<forall>url\<in>set servers. \<forall>offset. fetch url connzPageSize offset = Some (steady_page (name url) (conns url) connzPageSize offset)"
    "\<forall>url\<in>set servers. name url \<noteq> []"
  shows "let l = flattenConnz (fetchConnzPages servers fetch); all = concat (map (\<lambda>url. with_server (name url) (conns url)) servers)
    in cs_failed l = 0
     \<and> (cs_partial l \<longleftrightarrow> (\<exists>url\<in>set servers. connzMaxPerServer \<le> length (conns url)) \<or> connzMaxClusterRows < length all)
     \<and> (\<not> cs_partial l \<longrightarrow> cs_conns l = sort_key conn_key all \<and> cs_total l = int (length all))"
proof -
  let ?r = "\<lambda>url. fetch_pages (fetch url connzPageSize) 0 no_result"
  let ?all = "concat (map (\<lambda>url. with_server (name url) (conns url)) servers)"
  have one: "\<not> rs_failed (?r url) \<and> (rs_truncated (?r url) \<longleftrightarrow> connzMaxPerServer \<le> length (conns url))
    \<and> (length (conns url) < connzMaxPerServer \<longrightarrow> rs_conns (?r url) = with_server (name url) (conns url)
        \<and> rs_total (?r url) = int (length (conns url)))" if "url \<in> set servers" for url
    using steady_server[of "fetch url connzPageSize" "name url" "conns url"] assms that by blast
  show ?thesis
  proof (cases "\<exists>url\<in>set servers. connzMaxPerServer \<le> length (conns url)")
    case True
    then show ?thesis using one by (auto simp: flattenConnz_def fetchConnzPages_def Let_def filter_empty_conv)
  next
    case False
    then have small: "rs_conns (?r url) = with_server (name url) (conns url)" "rs_total (?r url) = int (length (conns url))"
        "\<not> rs_truncated (?r url)" "\<not> rs_failed (?r url)" if "url \<in> set servers" for url
      using one[OF that] that by auto
    have rows: "concat (map rs_conns (map ?r servers)) = ?all" using small(1) by (simp add: comp_def cong: map_cong)
    have "map rs_total (map ?r servers) = map (\<lambda>url. int (length (conns url))) servers" using small(2) by simp
    then have sum: "sum_list (map rs_total (map ?r servers)) = int (length ?all)"
      by (simp only: length_concat map_map comp_def with_server_def length_map) (simp add: sum_list_int_length)
    have "fold (\<lambda>r t. wrap64 (t + rs_total r)) (map ?r servers) 0 = int (length ?all)" if "length ?all \<le> connzMaxClusterRows"
      using total_no_wrap[of "map ?r servers" 0] that small(2) sum by (simp add: max_int64_def connzMaxClusterRows_def)
    then show ?thesis using False small rows
      by (auto simp: flattenConnz_def fetchConnzPages_def Let_def filter_empty_conv)
  qed
qed

definition demo_conn :: "nat \<Rightarrow> conn_info" where
  "demo_conn n = zero_conn_info\<lparr>c_Cid := word_of_nat n\<rparr>"

lemma steady_cluster_is_listed_exactly_witness:
  "let l = flattenConnz (fetchConnzPages [''a'', ''b''] (\<lambda>url limit offset. Some (steady_page url [demo_conn 2, demo_conn 1] limit offset)))
   in \<not> cs_partial l \<and> cs_total l = 4 \<and> map c_Cid (cs_conns l) = [1, 2, 1, 2]"
proof -
  let ?fetch = "\<lambda>url limit offset. Some (steady_page url [demo_conn 2, demo_conn 1] limit offset)"
  let ?all = "concat (map (\<lambda>url. with_server url [demo_conn 2, demo_conn 1]) [''a'', ''b''])"
  define l where "l = flattenConnz (fetchConnzPages [''a'', ''b''] ?fetch)"
  have l: "(cs_partial l \<longleftrightarrow> (\<exists>url\<in>set [''a'', ''b'']. connzMaxPerServer \<le> length [demo_conn 2, demo_conn 1]) \<or> connzMaxClusterRows < length ?all)
      \<and> (\<not> cs_partial l \<longrightarrow> cs_conns l = sort_key conn_key ?all \<and> cs_total l = int (length ?all))"
    using steady_cluster_is_listed_exactly[of "[''a'', ''b'']" ?fetch "\<lambda>url. url" "\<lambda>_. [demo_conn 2, demo_conn 1]"]
    unfolding l_def by (simp add: Let_def)
  moreover have "length ?all = 4" by (simp add: with_server_def)
  ultimately have "\<not> cs_partial l \<and> cs_conns l = sort_key conn_key ?all \<and> cs_total l = 4"
    by (simp add: connzMaxPerServer_def connzMaxClusterRows_def)
  moreover have "map c_Cid (sort_key conn_key ?all) = [1, 2, 1, 2]" by code_simp
  ultimately show ?thesis unfolding l_def[symmetric] by simp
qed

end
