(* ===== verification/FreshCache.thy ===== *)
theory FreshCache
  imports Prelude
begin

text \<open>
  The contract of the two response caches of the API, the subscription rows and the bridge bodies:
  what is served for a key is what was stored for it last, and it is younger than the time to live.
  Storing may drop any entry.
\<close>

type_synonym ('k, 'v) put = "gotime \<times> 'k \<times> 'v"

definition last_put :: "'k \<Rightarrow> ('k, 'v) put list \<Rightarrow> (gotime \<times> 'v) option" where
  "last_put k puts = fold (\<lambda>(t, j, v) acc. if j = k then Some (t, v) else acc) puts None"

lemma last_put_snoc: "last_put k (puts @ [(t, j, v)]) = (if j = k then Some (t, v) else last_put k puts)"
  by (simp add: last_put_def)

locale fresh_cache =
  fixes start :: 's
    and entry :: "'s \<Rightarrow> 'k \<Rightarrow> (gotime \<times> 'v) option"
    and served :: "gotime \<Rightarrow> 'k \<Rightarrow> 's \<Rightarrow> 'v option"
    and put :: "gotime \<Rightarrow> 'k \<Rightarrow> 'v \<Rightarrow> 's \<Rightarrow> 's"
    and ttl :: gotime
  assumes start_empty: "entry start k = None"
    and served_fresh: "served t k s = Some v \<Longrightarrow> \<exists>u. entry s k = Some (u, v) \<and> t - u < ttl"
    and put_own: "entry (put t k v s) k \<in> {Some (t, v), None}"
    and put_other: "j \<noteq> k \<Longrightarrow> entry (put t k v s) j \<in> {entry s j, None}"
begin

definition run :: "('k, 'v) put list \<Rightarrow> 's" where
  "run puts = fold (\<lambda>(t, k, v). put t k v) puts start"

lemma run_entry: "entry (run puts) k = Some e \<Longrightarrow> last_put k puts = Some e"
proof (induction puts rule: rev_induct)
  case Nil
  then show ?case by (simp add: run_def start_empty)
next
  case (snoc p puts)
  obtain t j v where p: "p = (t, j, v)" by (cases p)
  have "run (puts @ [p]) = put t j v (run puts)" by (simp add: run_def p)
  then show ?case using snoc put_own[of t j v "run puts"] put_other[of k j t v "run puts"]
    by (cases "j = k") (auto simp: p last_put_snoc)
qed

lemma served_is_last_put: "served t k (run puts) = Some v \<Longrightarrow> \<exists>u. last_put k puts = Some (u, v) \<and> t - u < ttl"
  using served_fresh run_entry by blast

end

end
