(* ===== verification/SubsRows.thy ===== *)
theory SubsRows
  imports ConnPages FreshCache Manager
begin

text \<open>
  The subscription rows of an environment, \<^verbatim>\<open>getSubsRows\<close> and what it uses in
  \<^verbatim>\<open>internal/api/handlers_env.go\<close>: rows from the last snapshot or, if that carries none, from the
  servers, kept for 15 seconds. The order of rows with the same subject is not fixed by the code's
  sort; the model keeps them in the order found. Callers that wait on the same flight share its result.
\<close>

section \<open>Rows\<close>

record sub_row =
  sw_Subject :: string
  sw_Queue :: string
  sw_Sid :: string
  sw_Msgs :: int
  sw_ConnCid :: "64 word"
  sw_ConnName :: string
  sw_ConnIP :: string
  sw_Account :: string
  sw_ServerID :: string
  sw_ServerName :: string

definition detail_row :: "string \<Rightarrow> string \<Rightarrow> conn_info \<Rightarrow> sub_detail \<Rightarrow> sub_row" where
  "detail_row srv name c d = \<lparr>sw_Subject = sd_Subject d, sw_Queue = sd_Queue d, sw_Sid = sd_Sid d, sw_Msgs = sd_Msgs d,
     sw_ConnCid = c_Cid c, sw_ConnName = c_Name c, sw_ConnIP = c_IP c,
     sw_Account = (if sd_Account d = [] then c_Account c else sd_Account d), sw_ServerID = srv, sw_ServerName = name\<rparr>"

definition plain_row :: "string \<Rightarrow> string \<Rightarrow> conn_info \<Rightarrow> nat \<times> string \<Rightarrow> sub_row" where
  "plain_row srv name c p = \<lparr>sw_Subject = snd p, sw_Queue = [], sw_Sid = itoa (int (fst p) + 1), sw_Msgs = 0,
     sw_ConnCid = c_Cid c, sw_ConnName = c_Name c, sw_ConnIP = c_IP c, sw_Account = c_Account c,
     sw_ServerID = srv, sw_ServerName = name\<rparr>"

definition conn_rows :: "string \<Rightarrow> string \<Rightarrow> conn_info \<Rightarrow> sub_row list" where
  "conn_rows srv name c =
    (if c_SubsDetail c \<noteq> [] then map (detail_row srv name c) (c_SubsDetail c)
     else map (plain_row srv name c) (List.enumerate 0 (c_Subs c)))"

definition maxRows :: nat where
  "maxRows = 50000"

text \<open>Rows are appended one by one; the loop is left after the row that reaches the limit.\<close>

fun append_rows :: "sub_row list \<Rightarrow> sub_row list \<Rightarrow> sub_row list" where
  "append_rows all [] = all"
| "append_rows all (r # rs) = (if maxRows \<le> length all + 1 then all @ [r] else append_rows (all @ [r]) rs)"

section \<open>From the snapshot\<close>

definition server_label :: "snapshot option \<Rightarrow> string \<Rightarrow> string" where
  "server_label snap i = (case snap of
      None \<Rightarrow> i
    | Some s \<Rightarrow> (case map_of (Varz s) i of
        None \<Rightarrow> i
      | Some v \<Rightarrow> if v_ServerName v \<noteq> [] then v_ServerName v else i))"

definition snapshot_server :: "snapshot \<Rightarrow> string \<times> connz \<Rightarrow> sub_row list \<times> bool \<Rightarrow> sub_row list \<times> bool" where
  "snapshot_server snap p acc = (let (srv, cz) = p; (all, truncated) = acc in
     (fold (\<lambda>c all. append_rows all (conn_rows srv (server_label (Some snap) srv) c)) (cz_Conns cz) all,
      truncated \<or> int (length (cz_Conns cz)) < cz_Total cz))"

definition subsRowsFromConnz :: "snapshot \<Rightarrow> (sub_row list \<times> bool) option" where
  "subsRowsFromConnz snap =
    (let (all, truncated) = fold (snapshot_server snap) (Connz snap) ([], False)
     in if all = [] then None else Some (sort_key sw_Subject all, truncated \<or> maxRows \<le> length all))"

section \<open>From the servers\<close>

fun gather_conns :: "string \<Rightarrow> string \<Rightarrow> conn_info list \<Rightarrow> sub_row list \<Rightarrow> sub_row list" where
  "gather_conns srv name [] all = all"
| "gather_conns srv name (c # cs) all =
    (if maxRows \<le> length all then all else gather_conns srv name cs (append_rows all (conn_rows srv name c)))"

fun gather_servers :: "(string \<Rightarrow> string) \<Rightarrow> connz_server_result list \<Rightarrow> sub_row list \<Rightarrow> bool \<Rightarrow> sub_row list \<times> bool" where
  "gather_servers label [] all truncated = (all, truncated)"
| "gather_servers label (r # rs) all truncated =
    (if rs_failed r then gather_servers label rs all True
     else let truncated = (truncated \<or> rs_truncated r)
          in if maxRows \<le> length all then (all, truncated)
             else gather_servers label rs (gather_conns (rs_serverID r) (label (rs_serverID r)) (rs_conns r) all) truncated)"

definition rows_from_servers :: "(string \<Rightarrow> string) \<Rightarrow> connz_server_result list \<Rightarrow> sub_row list \<times> bool" where
  "rows_from_servers label results =
    (let (all, truncated) = gather_servers label results [] False
     in (sort_key sw_Subject all, truncated \<or> maxRows \<le> length all))"

section \<open>The cache\<close>

record subs_entry =
  se_rows :: "sub_row list"
  se_truncated :: bool
  se_fetchedAt :: gotime

record subs_state =
  su_cache :: "(string, subs_entry) gomap"
  su_hits :: "64 word"
  su_misses :: "64 word"
  su_evictions :: "64 word"

definition new_subs :: subs_state where
  "new_subs = \<lparr>su_cache = [], su_hits = 0, su_misses = 0, su_evictions = 0\<rparr>"

definition subsCacheTTL :: gotime where
  "subsCacheTTL = 15 * second"

definition subsCacheMaxEntries :: nat where
  "subsCacheMaxEntries = 50"

definition cached_rows :: "gotime \<Rightarrow> string \<Rightarrow> subs_state \<Rightarrow> (sub_row list \<times> bool) option" where
  "cached_rows now i s = (case map_of (su_cache s) i of
      None \<Rightarrow> None
    | Some e \<Rightarrow> if now - se_fetchedAt e < subsCacheTTL then Some (se_rows e, se_truncated e) else None)"

definition older_entry :: "string \<times> subs_entry \<Rightarrow> string \<times> gotime \<Rightarrow> string \<times> gotime" where
  "older_entry p best = (let (k, e) = p; (key, time) = best in
     if key = [] \<or> se_fetchedAt e < time then (k, se_fetchedAt e) else (key, time))"

definition cacheSubsRows :: "gotime \<Rightarrow> string \<Rightarrow> sub_row list \<times> bool \<Rightarrow> subs_state \<Rightarrow> subs_state" where
  "cacheSubsRows now i v s =
    (let m = gm_set i \<lparr>se_rows = fst v, se_truncated = snd v, se_fetchedAt = now\<rparr> (su_cache s);
         key = fst (fold older_entry m ([], 0))
     in if subsCacheMaxEntries < length m \<and> key \<noteq> []
        then s\<lparr>su_cache := gm_del key m, su_evictions := su_evictions s + 1\<rparr>
        else s\<lparr>su_cache := m\<rparr>)"

text \<open>
  \<open>clock n\<close> is the \<open>n\<close>th reading of the clock. \<open>detail\<close> asks for subscriptions with their detail, \<open>plain\<close>
  for their subjects only. No rows, the nil slice, is also the answer for an unknown environment.
\<close>

record subs_source =
  sx_detail :: page_fetch
  sx_plain :: page_fetch

definition subs_page :: "subs_source \<Rightarrow> page_fetch" where
  "subs_page src url limit offset = (case sx_detail src url limit offset of None \<Rightarrow> sx_plain src url limit offset | Some p \<Rightarrow> Some p)"

definition loadSubsRows :: "(nat \<Rightarrow> gotime) \<Rightarrow> subs_source \<Rightarrow> manager \<Rightarrow> string \<Rightarrow> subs_state
    \<Rightarrow> (sub_row list \<times> bool) \<times> subs_state" where
  "loadSubsRows clock src g i s = (case cached_rows (clock 0) i s of
      Some v \<Rightarrow> (v, s\<lparr>su_hits := su_hits s + 1\<rparr>)
    | None \<Rightarrow> (case Option.bind (manager_Snapshot i g) subsRowsFromConnz of
        Some v \<Rightarrow> (v, cacheSubsRows (clock 1) i v s)
      | None \<Rightarrow> (case EnvServers i g of
          None \<Rightarrow> (([], False), s)
        | Some servers \<Rightarrow>
            if servers = [] then (([], False), s)
            else let v = rows_from_servers (server_label (manager_Snapshot i g)) (fetchConnzPages servers (subs_page src))
                 in (v, cacheSubsRows (clock 1) i v s))))"

definition getSubsRows :: "(nat \<Rightarrow> gotime) \<Rightarrow> subs_source \<Rightarrow> manager \<Rightarrow> string \<Rightarrow> subs_state
    \<Rightarrow> (sub_row list \<times> bool) \<times> subs_state" where
  "getSubsRows clock src g i s = (case cached_rows (clock 0) i s of
      Some v \<Rightarrow> (v, s\<lparr>su_hits := su_hits s + 1\<rparr>)
    | None \<Rightarrow> loadSubsRows (\<lambda>n. clock (n + 1)) src g i (s\<lparr>su_misses := su_misses s + 1\<rparr>))"

section \<open>The cache serves what was stored last, for 15 seconds\<close>

definition subs_entry_of :: "subs_state \<Rightarrow> string \<Rightarrow> (gotime \<times> sub_row list \<times> bool) option" where
  "subs_entry_of s i = map_option (\<lambda>e. (se_fetchedAt e, se_rows e, se_truncated e)) (map_of (su_cache s) i)"

interpretation subs: fresh_cache new_subs subs_entry_of cached_rows cacheSubsRows subsCacheTTL
proof
  fix i j now and s :: subs_state and v :: "sub_row list \<times> bool"
  show "subs_entry_of new_subs i = None" by (simp add: subs_entry_of_def new_subs_def)
  show "cached_rows now i s = Some v \<Longrightarrow> \<exists>u. subs_entry_of s i = Some (u, v) \<and> now - u < subsCacheTTL"
    by (auto simp: cached_rows_def subs_entry_of_def split: option.splits if_splits)
  show "subs_entry_of (cacheSubsRows now i v s) i \<in> {Some (now, v), None}"
    by (auto simp: subs_entry_of_def cacheSubsRows_def Let_def)
  show "j \<noteq> i \<Longrightarrow> subs_entry_of (cacheSubsRows now i v s) j \<in> {subs_entry_of s j, None}"
    by (auto simp: subs_entry_of_def cacheSubsRows_def Let_def)
qed

definition subs_bounded :: "subs_state \<Rightarrow> bool" where
  "subs_bounded s \<longleftrightarrow> length (su_cache s) \<le> subsCacheMaxEntries \<and> [] \<notin> fst ` set (su_cache s)"

lemma older_entry_key: "fst (older_entry p best) \<in> {fst p, fst best}"
  by (auto simp: older_entry_def split: prod.splits)

lemma oldest_listed: "fst (fold older_entry m best) \<in> insert (fst best) (fst ` set m)"
proof (induction m arbitrary: best)
  case (Cons p m)
  show ?case using Cons.IH[of "older_entry p best"] older_entry_key[of p best] by auto
qed simp

lemma oldest_found:
  assumes "m \<noteq> []"
  shows "fst (fold older_entry m ([], t)) \<in> fst ` set m"
proof -
  obtain p rest where m: "m = p # rest" using assms by (cases m) auto
  have "fst (older_entry p ([], t)) = fst p" by (simp add: older_entry_def split: prod.splits)
  then show ?thesis using oldest_listed[of rest "older_entry p ([], t)"] by (simp add: m)
qed

lemma gm_del_shorter: "k \<in> fst ` set m \<Longrightarrow> length (gm_del k m) < length m"
  using length_filter_less[of _ m "\<lambda>p. fst p \<noteq> k"] by (auto simp: gm_del_def)

lemma gm_set_length: "length (gm_set k v m) \<le> length m + 1"
  by (induction m) (auto simp: gm_set_def)

lemma gm_set_keys: "fst ` set (gm_set k v m) = insert k (fst ` set m)"
  by (simp add: gm_set_def dom_update)

lemma subs_bounded_put:
  assumes "subs_bounded s" "i \<noteq> []"
  shows "subs_bounded (cacheSubsRows now i v s)"
proof -
  define m where "m = gm_set i \<lparr>se_rows = fst v, se_truncated = snd v, se_fetchedAt = now\<rparr> (su_cache s)"
  define key where "key = fst (fold older_entry m ([], 0))"
  have len: "length m \<le> subsCacheMaxEntries + 1" using gm_set_length assms(1) le_trans[OF gm_set_length] by (fastforce simp: m_def subs_bounded_def)
  have keys: "[] \<notin> fst ` set m" using assms by (simp add: m_def gm_set_keys subs_bounded_def)
  have r: "su_cache (cacheSubsRows now i v s) = (if subsCacheMaxEntries < length m \<and> key \<noteq> [] then gm_del key m else m)"
    by (simp add: cacheSubsRows_def m_def[symmetric] key_def[symmetric] Let_def)
  show ?thesis
  proof (cases "subsCacheMaxEntries < length m")
    case True
    then have "m \<noteq> []" by auto
    then have k: "key \<in> fst ` set m" using oldest_found by (simp add: key_def)
    then have "length (gm_del key m) < length m" by (rule gm_del_shorter)
    moreover have "key \<noteq> []" using k keys by metis
    ultimately show ?thesis using True len keys by (auto simp: subs_bounded_def r gm_del_def)
  next
    case False
    then show ?thesis using keys by (simp add: subs_bounded_def r)
  qed
qed

lemma subs_bounded_run:
  assumes "\<forall>p\<in>set puts. fst (snd p) \<noteq> []"
  shows "subs_bounded (subs.run puts)"
  using assms
proof (induction puts rule: rev_induct)
  case Nil
  have "subs.run [] = new_subs" by (simp add: subs.run_def)
  then show ?case by (simp add: subs_bounded_def new_subs_def)
next
  case (snoc p puts)
  obtain t i v where p: "p = (t, i, v)" by (cases p)
  have "subs.run (puts @ [p]) = cacheSubsRows t i v (subs.run puts)" by (simp add: subs.run_def p)
  then show ?case using snoc subs_bounded_put by (auto simp: p)
qed

text \<open>
  C33. Whatever was stored in the cache of subscription rows for whichever environments, what is served
  for an environment is what was stored for it last, less than 15 seconds ago, and the cache holds
  at most 50 environments.
\<close>

theorem cached_rows_are_fresh:
  assumes "\<forall>p\<in>set puts. fst (snd p) \<noteq> []"
  shows "let s = fold (\<lambda>(t, i, v). cacheSubsRows t i v) puts new_subs
    in length (su_cache s) \<le> 50
     \<and> (case cached_rows now i s of None \<Rightarrow> True | Some v \<Rightarrow> \<exists>t. last_put i puts = Some (t, v) \<and> now - t < 15 * second)"
proof -
  have run: "fold (\<lambda>(t, i, v). cacheSubsRows t i v) puts new_subs = subs.run puts" by (simp add: subs.run_def)
  have "length (su_cache (subs.run puts)) \<le> 50"
    using subs_bounded_run[OF assms] by (simp add: subs_bounded_def subsCacheMaxEntries_def)
  then show ?thesis unfolding run Let_def
    using subs.served_is_last_put[of now i puts] by (simp add: subsCacheTTL_def split: option.split)
qed

lemma cached_rows_are_fresh_witness:
  "let s = fold (\<lambda>(t, i, v). cacheSubsRows t i v) [(0, ''a'', ([], False)), (second, ''b'', ([], True))] new_subs
   in length (su_cache s) \<le> 50 \<and> cached_rows (15 * second) ''a'' s = None \<and> cached_rows (15 * second) ''b'' s = Some ([], True)"
proof -
  let ?s = "fold (\<lambda>(t, i, v). cacheSubsRows t i v) [(0, ''a'', ([], False)), (second, ''b'', ([], True))] new_subs"
  have "length (su_cache ?s) \<le> 50"
    using cached_rows_are_fresh[of "[(0, ''a'', ([], False)), (second, ''b'', ([], True))]"] unfolding Let_def by simp
  moreover have "cached_rows (15 * second) ''a'' ?s = None \<and> cached_rows (15 * second) ''b'' ?s = Some ([], True)" by code_simp
  ultimately show ?thesis unfolding Let_def by blast
qed

section \<open>Rows that are not truncated are complete\<close>

lemma append_rows_below: "length (append_rows all rs) < maxRows \<Longrightarrow> append_rows all rs = all @ rs"
  by (induction all rs rule: append_rows.induct) (auto split: if_splits)

lemma append_rows_grow: "length all \<le> length (append_rows all rs)"
  by (induction all rs rule: append_rows.induct) auto

lemma gather_conns_grow: "length all \<le> length (gather_conns srv name cs all)"
  by (induction cs arbitrary: all) (use append_rows_grow le_trans in \<open>fastforce+\<close>)

lemma gather_conns_below:
  "length (gather_conns srv name cs all) < maxRows \<Longrightarrow> gather_conns srv name cs all = all @ concat (map (conn_rows srv name) cs)"
proof (induction cs arbitrary: all)
  case (Cons c cs)
  have "length all < maxRows" using Cons.prems gather_conns_grow[of all srv name "c # cs"] by simp
  then have g: "gather_conns srv name (c # cs) all = gather_conns srv name cs (append_rows all (conn_rows srv name c))" by simp
  then have "length (append_rows all (conn_rows srv name c)) < maxRows"
    using Cons.prems gather_conns_grow[of "append_rows all (conn_rows srv name c)" srv name cs] by simp
  then have "append_rows all (conn_rows srv name c) = all @ conn_rows srv name c" by (rule append_rows_below)
  then show ?case using Cons.IH[of "all @ conn_rows srv name c"] Cons.prems g by simp
qed simp

definition server_rows :: "(string \<Rightarrow> string) \<Rightarrow> connz_server_result \<Rightarrow> sub_row list" where
  "server_rows label r = concat (map (conn_rows (rs_serverID r) (label (rs_serverID r))) (rs_conns r))"

lemma gather_servers_grow: "length all \<le> length (fst (gather_servers label rs all tr))"
proof (induction rs arbitrary: all tr)
  case (Cons r rs)
  let ?all = "gather_conns (rs_serverID r) (label (rs_serverID r)) (rs_conns r) all"
  have "length all \<le> length ?all" by (rule gather_conns_grow)
  then show ?case using Cons.IH[of all True] Cons.IH[of ?all "tr \<or> rs_truncated r"] by (auto simp: Let_def)
qed simp

lemma gather_servers_flag: "snd (gather_servers label rs all True)"
  by (induction rs arbitrary: all) (simp_all add: Let_def)

lemma gather_servers_complete:
  assumes "\<not> snd (gather_servers label rs all tr)" "length (fst (gather_servers label rs all tr)) < maxRows"
  shows "fst (gather_servers label rs all tr) = all @ concat (map (server_rows label) rs) \<and> (\<forall>r\<in>set rs. \<not> rs_failed r \<and> \<not> rs_truncated r)"
  using assms
proof (induction rs arbitrary: all tr)
  case (Cons r rs)
  let ?all = "gather_conns (rs_serverID r) (label (rs_serverID r)) (rs_conns r) all"
  have nf: "\<not> rs_failed r" using Cons.prems(1) gather_servers_flag by auto
  have "length all < maxRows" using Cons.prems(2) gather_servers_grow[of all label "r # rs" tr] by simp
  then have g: "gather_servers label (r # rs) all tr = gather_servers label rs ?all (tr \<or> rs_truncated r)" using nf by (simp add: Let_def)
  have nt: "\<not> rs_truncated r" using Cons.prems(1) gather_servers_flag[of label rs ?all] unfolding g by (cases "rs_truncated r") simp_all
  have "length ?all < maxRows" using Cons.prems(2) gather_servers_grow[of ?all label rs "tr \<or> rs_truncated r"] unfolding g by linarith
  then have "?all = all @ server_rows label r" using gather_conns_below by (simp add: server_rows_def)
  then show ?case using Cons.IH[of ?all "tr \<or> rs_truncated r"] Cons.prems nf nt unfolding g by simp
qed simp

definition snapshot_rows :: "snapshot \<Rightarrow> string \<times> connz \<Rightarrow> sub_row list" where
  "snapshot_rows snap p = concat (map (conn_rows (fst p) (server_label (Some snap) (fst p))) (cz_Conns (snd p)))"

lemma fold_rows_below:
  "length (fold (\<lambda>c all. append_rows all (f c)) cs all) < maxRows \<Longrightarrow> fold (\<lambda>c all. append_rows all (f c)) cs all = all @ concat (map f cs)"
proof (induction cs arbitrary: all)
  case (Cons c cs)
  have grow: "length xs \<le> length (fold (\<lambda>c all. append_rows all (f c)) cs xs)" for xs cs
    by (induction cs arbitrary: xs) (use append_rows_grow le_trans in \<open>fastforce+\<close>)
  have "length (append_rows all (f c)) < maxRows" using Cons.prems grow[of "append_rows all (f c)" cs] by simp
  then have "append_rows all (f c) = all @ f c" by (rule append_rows_below)
  then show ?case using Cons.IH[of "all @ f c"] Cons.prems by simp
qed simp

lemma snapshot_grow: "length all \<le> length (fst (snapshot_server snap p (all, tr)))"
proof -
  have "length xs \<le> length (fold (\<lambda>c all. append_rows all (f c)) cs xs)" for xs cs and f :: "conn_info \<Rightarrow> sub_row list"
    by (induction cs arbitrary: xs) (use append_rows_grow le_trans in \<open>fastforce+\<close>)
  then show ?thesis by (simp add: snapshot_server_def split: prod.split)
qed

lemma snapshot_fold:
  assumes "\<not> snd (fold (snapshot_server snap) ps acc)" "length (fst (fold (snapshot_server snap) ps acc)) < maxRows"
  shows "fst (fold (snapshot_server snap) ps acc) = fst acc @ concat (map (snapshot_rows snap) ps)
    \<and> (\<forall>p\<in>set ps. cz_Total (snd p) \<le> int (length (cz_Conns (snd p)))) \<and> \<not> snd acc"
  using assms
proof (induction ps arbitrary: acc)
  case (Cons p ps)
  obtain all tr where acc: "acc = (all, tr)" by (cases acc)
  let ?acc = "snapshot_server snap p acc"
  have IH: "fst (fold (snapshot_server snap) ps ?acc) = fst ?acc @ concat (map (snapshot_rows snap) ps)
      \<and> (\<forall>p\<in>set ps. cz_Total (snd p) \<le> int (length (cz_Conns (snd p)))) \<and> \<not> snd ?acc"
    using Cons by simp
  then have "length (fst ?acc) < maxRows" using Cons.prems(2) by simp
  then have "fst ?acc = all @ snapshot_rows snap p"
    using fold_rows_below by (simp add: snapshot_server_def acc snapshot_rows_def split: prod.splits)
  moreover have "cz_Total (snd p) \<le> int (length (cz_Conns (snd p))) \<and> \<not> tr"
    using IH by (auto simp: snapshot_server_def acc split: prod.splits)
  ultimately show ?case using IH by (simp add: acc)
qed simp

text \<open>
  Subscription rows that are not flagged as truncated are complete: from a snapshot they are the
  rows of every connection of every server, none of which reported more connections than it
  listed; from the servers they are the rows of every connection, and no server failed.
\<close>

theorem rows_complete_unless_truncated:
  "(case subsRowsFromConnz snap of None \<Rightarrow> True | Some (rows, truncated) \<Rightarrow> truncated \<or>
      (mset rows = mset (concat (map (snapshot_rows snap) (Connz snap)))
       \<and> {p \<in> set (Connz snap). int (length (cz_Conns (snd p))) < cz_Total (snd p)} = {}))
   \<and> (case rows_from_servers label results of (rows, truncated) \<Rightarrow> truncated \<or>
      (mset rows = mset (concat (map (server_rows label) results)) \<and> {r \<in> set results. rs_failed r \<or> rs_truncated r} = {}))"
proof (rule conjI)
  show "case subsRowsFromConnz snap of None \<Rightarrow> True | Some (rows, truncated) \<Rightarrow> truncated \<or>
      (mset rows = mset (concat (map (snapshot_rows snap) (Connz snap)))
       \<and> {p \<in> set (Connz snap). int (length (cz_Conns (snd p))) < cz_Total (snd p)} = {})"
    using snapshot_fold[of snap "Connz snap" "([], False)"]
    by (auto simp: subsRowsFromConnz_def Let_def not_le split: prod.splits) (metis linorder_not_less snd_conv)
  show "case rows_from_servers label results of (rows, truncated) \<Rightarrow> truncated \<or>
      (mset rows = mset (concat (map (server_rows label) results)) \<and> {r \<in> set results. rs_failed r \<or> rs_truncated r} = {})"
    using gather_servers_complete[of label results "[]" False]
    by (auto simp: rows_from_servers_def not_le split: prod.splits)
qed

end
