(* ===== verification/Fetcher.thy ===== *)
theory Fetcher
  imports Types GoUrl MqttTypes MetricsParser "HOL-Library.List_Lexorder" "HOL-Library.Char_ord"
begin

text \<open>
  The HTTP clients, \<^verbatim>\<open>internal/collector/fetcher.go\<close> for the monitoring endpoints and
  \<^verbatim>\<open>internal/collector/mqtt_fetcher.go\<close> for the admin API of a bridge. The network is a parameter: a
  function from a request to its response, \<open>None\<close> when the exchange fails or runs into its timeout.
  So are the JSON decoders; \<open>None\<close> is their error.
\<close>

section \<open>Requests and responses\<close>

datatype http_method = GET | POST

record http_request =
  rq_method :: http_method
  rq_url :: string
  rq_bearer :: string
  rq_body :: string

text \<open>The body is \<open>None\<close> when reading it fails.\<close>

record http_response =
  rp_status :: nat
  rp_body :: "string option"

type_synonym http = "http_request \<Rightarrow> http_response option"

datatype fetch_error = BadRequest | Unreachable | BadStatus nat | BodyUnreadable | BodyTooLarge | BodyUndecodable

definition send_request :: "http \<Rightarrow> http_method \<Rightarrow> string \<Rightarrow> string \<Rightarrow> string \<Rightarrow> fetch_error + http_response" where
  "send_request http m url bearer body =
    (if url_Parse url = None then Inl BadRequest
     else case http \<lparr>rq_method = m, rq_url = url, rq_bearer = bearer, rq_body = body\<rparr> of
       None \<Rightarrow> Inl Unreachable
     | Some r \<Rightarrow> Inr r)"

text \<open>A body is read up to one byte over the limit.\<close>

definition read_limited :: "nat \<Rightarrow> http_response \<Rightarrow> fetch_error + string" where
  "read_limited limit r = (case rp_body r of
      None \<Rightarrow> Inl BodyUnreadable
    | Some b \<Rightarrow> let body = take (limit + 1) b in if limit < length body then Inl BodyTooLarge else Inr body)"

definition decode_body :: "(string \<Rightarrow> 'a option) \<Rightarrow> string \<Rightarrow> fetch_error + 'a" where
  "decode_body dec body = (case dec body of None \<Rightarrow> Inl BodyUndecodable | Some x \<Rightarrow> Inr x)"

section \<open>Monitoring endpoints\<close>

definition maxMonitoringResponseBytes :: nat where
  "maxMonitoringResponseBytes = 16 * 1048576"

definition QueryEscape :: "string \<Rightarrow> string" where
  "QueryEscape s = GoUrl.escape EncodeQuery s"

text \<open>\<^verbatim>\<open>url.Values\<close> with one value for each key, encoded in the order of the keys.\<close>

type_synonym params = "(string, string) gomap"

definition Encode :: "params \<Rightarrow> string" where
  "Encode ps = Join ''&'' (map (\<lambda>(k, v). QueryEscape k @ ''='' @ QueryEscape v) (sort_key fst ps))"

definition fetchWithTimeout :: "http \<Rightarrow> (string \<Rightarrow> 'a option) \<Rightarrow> string \<Rightarrow> string \<Rightarrow> params \<Rightarrow> fetch_error + 'a" where
  "fetchWithTimeout http dec baseURL path params =
    try_bind (send_request http GET (baseURL @ path @ (if params = [] then [] else CHR ''?'' # Encode params)) [] []) (\<lambda>r.
    if rp_status r \<noteq> 200 then Inl (BadStatus (rp_status r))
    else try_bind (read_limited maxMonitoringResponseBytes r) (decode_body dec))"

definition paging_params :: "nat \<Rightarrow> nat \<Rightarrow> params" where
  "paging_params limit offset =
    (if 0 < limit then [(''limit'', itoa (int limit))] else []) @ (if 0 < offset then [(''offset'', itoa (int offset))] else [])"

definition set_param :: "string \<Rightarrow> string \<Rightarrow> params" where
  "set_param k v = (if v = [] then [] else [(k, v)])"

definition FetchVarz :: "http \<Rightarrow> (string \<Rightarrow> varz option) \<Rightarrow> string \<Rightarrow> fetch_error + varz" where
  "FetchVarz http dec baseURL = fetchWithTimeout http dec baseURL ''/varz'' []"

definition FetchConnz :: "http \<Rightarrow> (string \<Rightarrow> connz option) \<Rightarrow> string \<Rightarrow> nat \<Rightarrow> nat \<Rightarrow> string \<Rightarrow> string \<Rightarrow> string \<Rightarrow> string
    \<Rightarrow> fetch_error + connz" where
  "FetchConnz http dec baseURL limit offset sortBy acc state filterSubject =
    fetchWithTimeout http dec baseURL ''/connz''
      (paging_params limit offset @ set_param ''sort'' sortBy @ set_param ''acc'' acc @ set_param ''state'' state
       @ (if filterSubject = [] then [] else [(''subs'', ''true''), (''filter_subject'', filterSubject)]))"

definition fetchConnzSubs :: "http \<Rightarrow> (string \<Rightarrow> connz option) \<Rightarrow> string \<Rightarrow> string \<Rightarrow> nat \<Rightarrow> nat \<Rightarrow> string \<Rightarrow> fetch_error + connz" where
  "fetchConnzSubs http dec baseURL subsMode limit offset filterSubject =
    fetchWithTimeout http dec baseURL ''/connz'' ([(''subs'', subsMode)] @ paging_params limit offset @ set_param ''filter_subject'' filterSubject)"

definition FetchConnzWithSubsPage :: "http \<Rightarrow> (string \<Rightarrow> connz option) \<Rightarrow> string \<Rightarrow> nat \<Rightarrow> nat \<Rightarrow> string \<Rightarrow> fetch_error + connz" where
  "FetchConnzWithSubsPage http dec baseURL limit offset filterSubject =
    fetchWithTimeout http dec baseURL ''/connz'' ([(''subs'', ''true'')] @ paging_params limit offset @ set_param ''filter_subject'' filterSubject)"

definition FetchConnzWithSubs :: "http \<Rightarrow> (string \<Rightarrow> connz option) \<Rightarrow> string \<Rightarrow> nat \<Rightarrow> fetch_error + connz" where
  "FetchConnzWithSubs http dec baseURL limit = FetchConnzWithSubsPage http dec baseURL limit 0 []"

definition FetchConnzWithSubsFiltered :: "http \<Rightarrow> (string \<Rightarrow> connz option) \<Rightarrow> string \<Rightarrow> nat \<Rightarrow> string \<Rightarrow> fetch_error + connz" where
  "FetchConnzWithSubsFiltered http dec baseURL limit filterSubject = FetchConnzWithSubsPage http dec baseURL limit 0 filterSubject"

definition FetchConnzSubsDetailPage :: "http \<Rightarrow> (string \<Rightarrow> connz option) \<Rightarrow> string \<Rightarrow> nat \<Rightarrow> nat \<Rightarrow> string \<Rightarrow> fetch_error + connz" where
  "FetchConnzSubsDetailPage http dec baseURL limit offset filterSubject = fetchConnzSubs http dec baseURL ''detail'' limit offset filterSubject"

definition FetchConnzSubsDetail :: "http \<Rightarrow> (string \<Rightarrow> connz option) \<Rightarrow> string \<Rightarrow> nat \<Rightarrow> fetch_error + connz" where
  "FetchConnzSubsDetail http dec baseURL limit = FetchConnzSubsDetailPage http dec baseURL limit 0 []"

definition FetchConnzSubsDetailFiltered :: "http \<Rightarrow> (string \<Rightarrow> connz option) \<Rightarrow> string \<Rightarrow> nat \<Rightarrow> string \<Rightarrow> fetch_error + connz" where
  "FetchConnzSubsDetailFiltered http dec baseURL limit filterSubject = FetchConnzSubsDetailPage http dec baseURL limit 0 filterSubject"

definition FetchRoutez :: "http \<Rightarrow> (string \<Rightarrow> routez option) \<Rightarrow> string \<Rightarrow> fetch_error + routez" where
  "FetchRoutez http dec baseURL = fetchWithTimeout http dec baseURL ''/routez'' []"

definition FetchGatewayz :: "http \<Rightarrow> (string \<Rightarrow> gatewayz option) \<Rightarrow> string \<Rightarrow> fetch_error + gatewayz" where
  "FetchGatewayz http dec baseURL = fetchWithTimeout http dec baseURL ''/gatewayz'' []"

definition FetchLeafz :: "http \<Rightarrow> (string \<Rightarrow> leafz option) \<Rightarrow> string \<Rightarrow> fetch_error + leafz" where
  "FetchLeafz http dec baseURL = fetchWithTimeout http dec baseURL ''/leafz'' []"

definition FetchSubsz :: "http \<Rightarrow> (string \<Rightarrow> subsz option) \<Rightarrow> string \<Rightarrow> fetch_error + subsz" where
  "FetchSubsz http dec baseURL = fetchWithTimeout http dec baseURL ''/subsz'' []"

definition FetchJSInfo :: "http \<Rightarrow> (string \<Rightarrow> js_info option) \<Rightarrow> string \<Rightarrow> fetch_error + js_info" where
  "FetchJSInfo http dec baseURL =
    fetchWithTimeout http dec baseURL ''/jsz'' [(''streams'', ''true''), (''consumers'', ''true''), (''config'', ''true'')]"

definition FetchAccountz :: "http \<Rightarrow> (string \<Rightarrow> accountz option) \<Rightarrow> string \<Rightarrow> fetch_error + accountz" where
  "FetchAccountz http dec baseURL = fetchWithTimeout http dec baseURL ''/accountz'' []"

definition FetchAccountDetail :: "http \<Rightarrow> (string \<Rightarrow> accountz option) \<Rightarrow> string \<Rightarrow> string \<Rightarrow> fetch_error + accountz" where
  "FetchAccountDetail http dec baseURL account = fetchWithTimeout http dec baseURL ''/accountz'' [(''acc'', account)]"

definition FetchHealthz :: "http \<Rightarrow> (string \<Rightarrow> health_status option) \<Rightarrow> string \<Rightarrow> fetch_error + health_status" where
  "FetchHealthz http dec baseURL = fetchWithTimeout http dec baseURL ''/healthz'' []"

section \<open>The admin API of a bridge\<close>

definition mqttMaxResponseBytes :: nat where
  "mqttMaxResponseBytes = 8 * 1048576"

record bridge_fetcher =
  bf_baseURL :: string
  bf_name :: string
  bf_bearerToken :: string

definition NewMQTTBridgeFetcher :: "string \<Rightarrow> string \<Rightarrow> string \<Rightarrow> bridge_fetcher" where
  "NewMQTTBridgeFetcher baseURL name token = \<lparr>bf_baseURL = baseURL, bf_name = name, bf_bearerToken = token\<rparr>"

definition bridge_get :: "http \<Rightarrow> bridge_fetcher \<Rightarrow> string \<Rightarrow> fetch_error + http_response" where
  "bridge_get http f path = send_request http GET (bf_baseURL f @ path) (bf_bearerToken f) []"

definition fetchAccepting :: "http \<Rightarrow> (string \<Rightarrow> 'a option) \<Rightarrow> bridge_fetcher \<Rightarrow> string \<Rightarrow> nat list \<Rightarrow> fetch_error + 'a" where
  "fetchAccepting http dec f path alsoDecode =
    try_bind (bridge_get http f path) (\<lambda>r.
    if rp_status r \<noteq> 200 \<and> rp_status r \<notin> set alsoDecode then Inl (BadStatus (rp_status r))
    else try_bind (read_limited mqttMaxResponseBytes r) (decode_body dec))"

definition bridge_fetch :: "http \<Rightarrow> (string \<Rightarrow> 'a option) \<Rightarrow> bridge_fetcher \<Rightarrow> string \<Rightarrow> fetch_error + 'a" where
  "bridge_fetch http dec f path = fetchAccepting http dec f path []"

text \<open>The status and, with status 200, the document; \<open>dec\<close> decodes the first value of the stream.\<close>

definition getWithStatus :: "http \<Rightarrow> (string \<Rightarrow> 'a option) \<Rightarrow> bridge_fetcher \<Rightarrow> string \<Rightarrow> fetch_error + nat \<times> 'a option" where
  "getWithStatus http dec f path =
    try_bind (bridge_get http f path) (\<lambda>r.
    if rp_status r \<noteq> 200 then Inr (rp_status r, None)
    else case Option.bind (rp_body r) dec of None \<Rightarrow> Inl BodyUndecodable | Some x \<Rightarrow> Inr (200, Some x))"

text \<open>The relayed body is cut; a failure to read it leaves it empty.\<close>

definition PostAdmin :: "http \<Rightarrow> bridge_fetcher \<Rightarrow> string \<Rightarrow> string \<Rightarrow> fetch_error + nat \<times> string" where
  "PostAdmin http f path body =
    try_bind (send_request http POST (bf_baseURL f @ path) (bf_bearerToken f) body) (\<lambda>r.
    Inr (rp_status r, take 65536 (case rp_body r of None \<Rightarrow> [] | Some b \<Rightarrow> b)))"

definition FetchCluster :: "http \<Rightarrow> (string \<Rightarrow> 'a option) \<Rightarrow> bridge_fetcher \<Rightarrow> fetch_error + nat \<times> 'a option" where
  "FetchCluster http dec f = getWithStatus http dec f ''/admin/cluster''"

definition FetchClusterInspect :: "http \<Rightarrow> (string \<Rightarrow> 'a option) \<Rightarrow> bridge_fetcher \<Rightarrow> string \<Rightarrow> fetch_error + nat \<times> 'a option" where
  "FetchClusterInspect http dec f clientID =
    getWithStatus http dec f (''/admin/cluster/inspect?client_id='' @ QueryEscape clientID)"

text \<open>Ready, draining and JetStream-degraded.\<close>

definition ReadyzState :: "string \<Rightarrow> bool \<times> bool \<times> bool" where
  "ReadyzState status = (status = ''ready'', status = ''draining'', status = ''jetstream-degraded'')"

definition FetchReadyz :: "http \<Rightarrow> (string \<Rightarrow> mqtt_readyz option) \<Rightarrow> bridge_fetcher \<Rightarrow> fetch_error + mqtt_readyz" where
  "FetchReadyz http dec f = fetchAccepting http dec f ''/readyz'' [503]"

definition bridge_FetchConnz :: "http \<Rightarrow> (string \<Rightarrow> mqtt_connz option) \<Rightarrow> bridge_fetcher \<Rightarrow> int \<Rightarrow> int \<Rightarrow> fetch_error + mqtt_connz" where
  "bridge_FetchConnz http dec f limit offset =
    bridge_fetch http dec f (''/connz?limit='' @ itoa limit @ ''&offset='' @ itoa offset)"

definition FetchConnzClient :: "http \<Rightarrow> (string \<Rightarrow> mqtt_connz option) \<Rightarrow> bridge_fetcher \<Rightarrow> string \<Rightarrow> fetch_error + mqtt_connz" where
  "FetchConnzClient http dec f clientID = bridge_fetch http dec f (''/connz?mqtt_client='' @ QueryEscape clientID)"

definition FetchDiagNATS :: "http \<Rightarrow> (string \<Rightarrow> nats_diag option) \<Rightarrow> bridge_fetcher \<Rightarrow> fetch_error + nats_diag" where
  "FetchDiagNATS http dec f = bridge_fetch http dec f ''/diag/nats''"

definition FetchDiag :: "http \<Rightarrow> (string \<Rightarrow> 'a option) \<Rightarrow> bridge_fetcher \<Rightarrow> fetch_error + 'a" where
  "FetchDiag http dec f = bridge_fetch http dec f ''/diag''"

definition FetchLicense :: "http \<Rightarrow> (string \<Rightarrow> 'a option) \<Rightarrow> bridge_fetcher \<Rightarrow> fetch_error + 'a" where
  "FetchLicense http dec f = bridge_fetch http dec f ''/license''"

definition FetchPool :: "http \<Rightarrow> (string \<Rightarrow> mqtt_pool option) \<Rightarrow> bridge_fetcher \<Rightarrow> fetch_error + mqtt_pool" where
  "FetchPool http dec f = bridge_fetch http dec f ''/pool''"

definition FetchMetrics :: "http \<Rightarrow> bridge_fetcher \<Rightarrow> fetch_error + mqtt_metrics" where
  "FetchMetrics http f =
    try_bind (bridge_get http f ''/metrics'') (\<lambda>r.
    if rp_status r \<noteq> 200 then Inl (BadStatus (rp_status r))
    else try_bind (read_limited mqttMaxResponseBytes r) (\<lambda>body. Inr (parsePrometheusMetrics body)))"

section \<open>The status of a bridge\<close>

record bridge_decoders =
  bd_readyz :: "string \<Rightarrow> mqtt_readyz option"
  bd_nats :: "string \<Rightarrow> nats_diag option"
  bd_pool :: "string \<Rightarrow> mqtt_pool option"
  bd_connz :: "string \<Rightarrow> mqtt_connz option"

definition no_status :: "string \<Rightarrow> string \<Rightarrow> bridge_status" where
  "no_status name url = \<lparr>bs_Name = name, bs_URL = url, bs_Ready = False, bs_Draining = False, bs_JetStreamDegraded = False,
     bs_Connections = 0, bs_NATSConnected = False, bs_ConnzAvailable = False, bs_TotalConnections = 0, bs_NATS = None,
     bs_Connz = None, bs_Pool = None, bs_Metrics = None, bs_Error = []\<rparr>"

definition answered :: "'e + 'a \<Rightarrow> 'a option" where
  "answered r = (case r of Inl e \<Rightarrow> None | Inr x \<Rightarrow> Some x)"

text \<open>\<open>error_text\<close> is the message of an error; only a failed readiness probe is reported.\<close>

definition FetchStatus :: "http \<Rightarrow> bridge_decoders \<Rightarrow> (fetch_error \<Rightarrow> string) \<Rightarrow> bridge_fetcher \<Rightarrow> bridge_status" where
  "FetchStatus http d error_text f =
    (let st = no_status (bf_name f) (bf_baseURL f)
     in case FetchReadyz http (bd_readyz d) f of
       Inl e \<Rightarrow> st\<lparr>bs_Error := error_text e\<rparr>
     | Inr rd \<Rightarrow>
         let (ready, draining, degraded) = ReadyzState (rd_Status rd);
             st = st\<lparr>bs_Ready := ready, bs_Draining := draining, bs_JetStreamDegraded := degraded,
                  bs_NATSConnected := rd_NATSConnected rd, bs_NATS := answered (FetchDiagNATS http (bd_nats d) f),
                  bs_Pool := answered (FetchPool http (bd_pool d) f)\<rparr>;
             st = (case FetchMetrics http f of
                 Inl e \<Rightarrow> st
               | Inr m \<Rightarrow> st\<lparr>bs_Metrics := Some m, bs_Connections := m_int m ''ConnectionsActive''\<rparr>)
         in case bridge_FetchConnz http (bd_connz d) f 1 0 of
              Inl e \<Rightarrow> st
            | Inr z \<Rightarrow> st\<lparr>bs_ConnzAvailable := True, bs_TotalConnections := mz_Total z,
                bs_Connections := (if bs_Connections st = 0 then mz_Total z else bs_Connections st)\<rparr>)"

end
