(* ===== verification/EnvApi.thy ===== *)
theory EnvApi
  imports ClusterApi SubsRows Fetcher GoFloat
begin

text \<open>
  The handlers of one environment, \<^verbatim>\<open>internal/api/handlers_env.go\<close>: what a handler reads of the manager, the
  store, the servers and the cache of subscription rows, and how it answers. Query parameters are
  given as their texts, empty when absent.
\<close>

section \<open>Parameters and answers\<close>

definition clampInt :: "string \<Rightarrow> int \<Rightarrow> int \<Rightarrow> int" where
  "clampInt s defaultVal maxVal =
    (if s = [] then defaultVal
     else case ParseInt s of
       None \<Rightarrow> defaultVal
     | Some n \<Rightarrow> if n < 0 then defaultVal else if n = 0 then defaultVal else if maxVal < n then maxVal else n)"

definition not_found :: "'v reply" where
  "not_found = Refuse 404 ''environment not found''"

definition or_not_found :: "'v option \<Rightarrow> 'v reply" where
  "or_not_found v = (case v of None \<Rightarrow> not_found | Some x \<Rightarrow> Reply 200 x)"

section \<open>Views of the collected state\<close>

definition handleVersion :: "string \<Rightarrow> string reply" where
  "handleVersion version = Reply 200 version"

record cluster_badge =
  cx_ID :: string
  cx_Name :: string
  cx_Degraded :: bool
  cx_DegradedReason :: string
  cx_CollectionMode :: string
  cx_LastPollAgeSeconds :: f64

definition handleEnvironments :: "db_faults \<Rightarrow> host \<Rightarrow> (f64 \<Rightarrow> string) \<Rightarrow> gotime \<Rightarrow> cluster_api \<Rightarrow> cluster_badge list reply" where
  "handleEnvironments fault h format_age now s = (case ListClusters fault h (as_db s) of
      Inl e \<Rightarrow> Refuse 500 ''failed to list clusters''
    | Inr cs \<Rightarrow> Reply 200 (map (\<lambda>c. case ClusterHealth now (kl_ID c) (as_manager s) of
          None \<Rightarrow> \<lparr>cx_ID = kl_ID c, cx_Name = kl_Name c, cx_Degraded = False, cx_DegradedReason = [], cx_CollectionMode = [],
            cx_LastPollAgeSeconds = Fin 0\<rparr>
        | Some (i, hl) \<Rightarrow> \<lparr>cx_ID = kl_ID c, cx_Name = kl_Name c, cx_Degraded = Degraded hl,
            cx_DegradedReason = DegradedReason format_age hl, cx_CollectionMode = ch_CollectionMode hl,
            cx_LastPollAgeSeconds = ch_LastPollAgeSeconds hl\<rparr>) cs))"

definition handleOverview :: "string \<Rightarrow> manager \<Rightarrow> overview reply" where
  "handleOverview i g = or_not_found (manager_Overview i g)"

definition handleTopology :: "string \<Rightarrow> manager \<Rightarrow> graph reply" where
  "handleTopology i g = or_not_found (manager_Topology i g)"

definition envSnapshot :: "string \<Rightarrow> manager \<Rightarrow> (snapshot \<Rightarrow> 'v) \<Rightarrow> 'v reply" where
  "envSnapshot i g field = or_not_found (map_option field (manager_Snapshot i g))"

definition handleVarz :: "string \<Rightarrow> manager \<Rightarrow> (string, varz) gomap reply" where
  "handleVarz i g = envSnapshot i g Varz"

definition handleRoutez :: "string \<Rightarrow> manager \<Rightarrow> (string, routez) gomap reply" where
  "handleRoutez i g = envSnapshot i g Routez"

definition handleGatewayz :: "string \<Rightarrow> manager \<Rightarrow> (string, gatewayz) gomap reply" where
  "handleGatewayz i g = envSnapshot i g Gatewayz"

definition handleLeafz :: "string \<Rightarrow> manager \<Rightarrow> (string, leafz) gomap reply" where
  "handleLeafz i g = envSnapshot i g Leafz"

definition handleSubsz :: "string \<Rightarrow> manager \<Rightarrow> (string, subsz) gomap reply" where
  "handleSubsz i g = envSnapshot i g Subsz"

definition handleJSz :: "string \<Rightarrow> manager \<Rightarrow> (string, js_info) gomap reply" where
  "handleJSz i g = envSnapshot i g JSInfo"

definition handleAccountz :: "string \<Rightarrow> manager \<Rightarrow> (string, accountz) gomap reply" where
  "handleAccountz i g = envSnapshot i g Accountz"

section \<open>Saved topology\<close>

record positions_view =
  pv_positions :: "node_position list"
  pv_camera :: "camera_state option"

text \<open>A camera that cannot be read is left out.\<close>

definition handleGetPositions :: "db_faults \<Rightarrow> db_faults \<Rightarrow> string \<Rightarrow> env_tables \<Rightarrow> positions_view reply" where
  "handleGetPositions fault camera_fault i t = (case GetTopologyPositions fault i t of
      Inl e \<Rightarrow> Refuse 500 ''failed to load positions''
    | Inr ps \<Rightarrow> Reply 200 \<lparr>pv_positions = ps,
        pv_camera = (case GetTopologyCamera camera_fault i t of Inl e \<Rightarrow> None | Inr c \<Rightarrow> c)\<rparr>)"

definition handleSavePositions :: "db_faults \<Rightarrow> db_faults \<Rightarrow> string \<Rightarrow> positions_view option \<Rightarrow> env_tables \<Rightarrow> unit reply \<times> env_tables" where
  "handleSavePositions fault camera_fault i body t = (case body of
      None \<Rightarrow> (Refuse 400 ''invalid request body'', t)
    | Some b \<Rightarrow> (case SaveTopologyPositions fault i (pv_positions b) t of
        (Some e, t) \<Rightarrow> (Refuse 500 ''failed to save positions'', t)
      | (None, t) \<Rightarrow> (case pv_camera b of
          None \<Rightarrow> (Reply 200 (), t)
        | Some c \<Rightarrow> (case SaveTopologyCamera camera_fault i c t of
            (Some e, t) \<Rightarrow> (Refuse 500 ''failed to save camera'', t)
          | (None, t) \<Rightarrow> (Reply 200 (), t)))))"

section \<open>Connections\<close>

record 'a paged =
  pd_rows :: "'a list"
  pd_total :: int
  pd_limit :: int
  pd_offset :: int

text \<open>The window of a list; the offset is reported as it was used.\<close>

definition window :: "int \<Rightarrow> int \<Rightarrow> 'a list \<Rightarrow> 'a paged" where
  "window limit offset rows =
    (let total = int (length rows);
         offset = (if total < offset then total else offset);
         stop = (if total < offset + limit then total else offset + limit)
     in \<lparr>pd_rows = take (nat (stop - offset)) (drop (nat offset) rows), pd_total = total, pd_limit = limit, pd_offset = offset\<rparr>)"

record connz_answer =
  cw_page :: "conn_info paged"
  cw_server_total :: int
  cw_partial :: bool
  cw_failed_servers :: nat
  cw_subs_available :: "bool option"

definition matching_conns :: "string \<Rightarrow> sub_row list \<Rightarrow> conn_info list \<Rightarrow> conn_info list" where
  "matching_conns subject rows conns =
    (let keys = set (map (\<lambda>r. (sw_ServerID r, sw_ConnCid r)) (filter (\<lambda>r. Contains (sw_Subject r) subject) rows))
     in filter (\<lambda>c. (c_ServerID c, c_Cid c) \<in> keys) conns)"

text \<open>\<open>conns\<close> answers the requests for connections, with the account and state of the query.\<close>

definition handleConnz :: "(nat \<Rightarrow> gotime) \<Rightarrow> (string \<Rightarrow> string \<Rightarrow> page_fetch) \<Rightarrow> subs_source \<Rightarrow> manager \<Rightarrow> string
    \<Rightarrow> string \<Rightarrow> string \<Rightarrow> string \<Rightarrow> string \<Rightarrow> string \<Rightarrow> subs_state \<Rightarrow> connz_answer reply \<times> subs_state" where
  "handleConnz clock conns src g i qlimit qoffset acc state subject s =
    (let limit = clampInt qlimit 50 10000; offset = clampInt qoffset 0 100000
     in case EnvServers i g of
       None \<Rightarrow> (not_found, s)
     | Some servers \<Rightarrow>
         if servers = [] then (not_found, s)
         else
           let l = flattenConnz (fetchConnzPages servers (conns acc state));
               all = (if acc = [] then cs_conns l else filter (\<lambda>c. c_Account c = acc) (cs_conns l));
               ((rows, truncated), s) = (if subject = [] then (([], False), s) else getSubsRows clock src g i s);
               all = (if subject = [] then all else matching_conns subject rows all)
           in (Reply 200 \<lparr>cw_page = window limit offset all, cw_server_total = cs_total l, cw_partial = (cs_partial l \<or> truncated),
                 cw_failed_servers = cs_failed l, cw_subs_available = (if subject = [] then None else Some (rows \<noteq> []))\<rparr>, s))"

definition web_conns :: "http \<Rightarrow> (string \<Rightarrow> connz option) \<Rightarrow> string \<Rightarrow> string \<Rightarrow> page_fetch" where
  "web_conns http dec acc state url limit offset = answered (FetchConnz http dec url limit offset [] acc state [])"

definition web_subs :: "http \<Rightarrow> (string \<Rightarrow> connz option) \<Rightarrow> subs_source" where
  "web_subs http dec = \<lparr>sx_detail = (\<lambda>url limit offset. answered (FetchConnzSubsDetailPage http dec url limit offset [])),
     sx_plain = (\<lambda>url limit offset. answered (FetchConnzWithSubsPage http dec url limit offset []))\<rparr>"

text \<open>\<^verbatim>\<open>strconv.ParseUint\<close> to base ten and 64 bits.\<close>

definition ParseUint :: "string \<Rightarrow> 64 word option" where
  "ParseUint s = (if s = [] \<or> \<not> list_all is_digit s \<or> 2 ^ 64 \<le> dec_value s then None else Some (word_of_nat (dec_value s)))"

definition row_detail :: "64 word \<Rightarrow> sub_row \<Rightarrow> sub_detail" where
  "row_detail cid r = \<lparr>sd_Account = sw_Account r, sd_Subject = sw_Subject r, sd_Queue = sw_Queue r, sd_Sid = sw_Sid r,
     sd_Msgs = sw_Msgs r, sd_Max = 0, sd_Cid = cid\<rparr>"

definition handleConnzDetail :: "(nat \<Rightarrow> gotime) \<Rightarrow> subs_source \<Rightarrow> manager \<Rightarrow> string \<Rightarrow> string \<Rightarrow> subs_state
    \<Rightarrow> conn_info reply \<times> subs_state" where
  "handleConnzDetail clock src g i cidStr s = (case ParseUint cidStr of
      None \<Rightarrow> (Refuse 400 ''invalid cid'', s)
    | Some cid \<Rightarrow> (case manager_Snapshot i g of
        None \<Rightarrow> (not_found, s)
      | Some snap \<Rightarrow> (case find (\<lambda>c. c_Cid c = cid) (concat (map (\<lambda>p. cz_Conns (snd p)) (Connz snap))) of
          None \<Rightarrow> (Refuse 404 ''connection not found'', s)
        | Some c \<Rightarrow>
            if c_SubsDetail c = [] \<and> c_Subs c = [] then
              let ((rows, truncated), s) = getSubsRows clock src g i s
              in (Reply 200 (c\<lparr>c_SubsDetail := map (row_detail cid) (filter (\<lambda>r. sw_ConnCid r = cid) rows)\<rparr>), s)
            else (Reply 200 c, s))))"

section \<open>Subscriptions\<close>

definition nonSystemPrefixes :: "string list" where
  "nonSystemPrefixes = [''$MQTT5'']"

definition isSystemSubject :: "string \<Rightarrow> bool" where
  "isSystemSubject subject \<longleftrightarrow> subject \<noteq> [] \<and> (hd subject = CHR ''_'' \<or> hd subject = CHR ''$'')
     \<and> \<not> list_ex (HasPrefix subject) nonSystemPrefixes"

record subs_query =
  sq_subject :: string
  sq_account :: string
  sq_server :: string
  sq_hide_system :: bool

definition row_wanted :: "subs_query \<Rightarrow> sub_row \<Rightarrow> bool" where
  "row_wanted q r \<longleftrightarrow>
    \<not> (sq_hide_system q \<and> isSystemSubject (sw_Subject r))
    \<and> \<not> (sq_subject q \<noteq> [] \<and> \<not> Contains (sw_Subject r) (sq_subject q))
    \<and> \<not> (sq_account q \<noteq> [] \<and> sw_Account r \<noteq> sq_account q)
    \<and> \<not> (sq_server q \<noteq> [] \<and> sw_ServerName r \<noteq> sq_server q \<and> sw_ServerID r \<noteq> sq_server q)"

definition handleSubsDetail :: "(nat \<Rightarrow> gotime) \<Rightarrow> subs_source \<Rightarrow> manager \<Rightarrow> string \<Rightarrow> string \<Rightarrow> string \<Rightarrow> subs_query \<Rightarrow> subs_state
    \<Rightarrow> (sub_row paged \<times> bool) reply \<times> subs_state" where
  "handleSubsDetail clock src g i qlimit qoffset q s =
    (let ((all, truncated), s) = getSubsRows clock src g i s
     in if all = [] then (not_found, s)
        else (Reply 200 (window (clampInt qlimit 100 10000) (clampInt qoffset 0 100000) (filter (row_wanted q) all), truncated), s))"

section \<open>Accounts\<close>

definition count_of :: "('a \<Rightarrow> bool) \<Rightarrow> 'a list \<Rightarrow> nat" where
  "count_of P xs = length (filter P xs)"

definition handleAccountDetail :: "(nat \<Rightarrow> gotime) \<Rightarrow> subs_source \<Rightarrow> manager \<Rightarrow> string \<Rightarrow> string \<Rightarrow> subs_state
    \<Rightarrow> account_info reply \<times> subs_state" where
  "handleAccountDetail clock src g i acc s = (case manager_Snapshot i g of
      None \<Rightarrow> (not_found, s)
    | Some snap \<Rightarrow>
        let clients = int (count_of (\<lambda>c. c_Account c = acc) (concat (map (\<lambda>p. cz_Conns (snd p)) (Connz snap))));
            leafs = int (count_of (\<lambda>l. li_Account l = acc) (concat (map (\<lambda>p. lz_Leafs (snd p)) (Leafz snap))));
            ((rows, truncated), s) = getSubsRows clock src g i s;
            subs = (of_nat (count_of (\<lambda>r. sw_Account r = acc) rows) :: 32 word);
            isSystem = list_ex (\<lambda>p. az_SystemAccount (snd p) = acc) (Accountz snap);
            known = list_ex (\<lambda>p. acc \<in> set (az_Accounts (snd p))) (Accountz snap)
        in if \<not> known \<and> clients = 0 \<and> leafs = 0 \<and> subs = 0 \<and> \<not> isSystem then (Refuse 404 ''account not found'', s)
           else (Reply 200 \<lparr>ai_AccountName = acc, ai_IsSystem = isSystem, ai_Expired = False, ai_JetStream = False,
             ai_LeafCnt = leafs, ai_ClientCnt = clients, ai_SubCnt = subs\<rparr>, s))"

end
