(* ===== verification/BridgeCaches.thy ===== *)
theory BridgeCaches
  imports FreshCache Fetcher
begin

text \<open>
  The two caches in front of the admin APIs of bridges, \<^verbatim>\<open>bridgeStatusCache\<close> and \<^verbatim>\<open>bridgeRespCache\<close> of
  \<^verbatim>\<open>internal/api/handlers_mqtt.go\<close>. Each operation holds the lock of its cache throughout, so a run is
  a sequence of operations; the probe itself runs between the two halves of a refresh.
\<close>

section \<open>Status of configured bridges\<close>

record status_entry =
  sn_status :: "bridge_status option"
  sn_fetchedAt :: gotime
  sn_fetching :: bool

type_synonym status_cache = "(string, status_entry) gomap"

definition status_of :: "string \<Rightarrow> status_cache \<Rightarrow> status_entry" where
  "status_of key m = (case map_of m key of None \<Rightarrow> \<lparr>sn_status = None, sn_fetchedAt = 0, sn_fetching = False\<rparr> | Some e \<Rightarrow> e)"

definition statusTTL :: gotime where
  "statusTTL = 5 * second"

text \<open>What is known of a bridge, and whether the caller launched a probe.\<close>

definition getAsync :: "gotime \<Rightarrow> string \<Rightarrow> status_cache \<Rightarrow> (bridge_status option \<times> gotime) \<times> bool \<times> status_cache" where
  "getAsync now key m =
    (let e = status_of key m;
         launch = (\<not> sn_fetching e \<and> (sn_status e = None \<or> statusTTL \<le> now - sn_fetchedAt e))
     in ((sn_status e, sn_fetchedAt e), launch, if launch then gm_set key (e\<lparr>sn_fetching := True\<rparr>) m else m))"

text \<open>The end of a probe; \<open>None\<close> when it panicked.\<close>

definition refreshed :: "gotime \<Rightarrow> string \<Rightarrow> bridge_status option \<Rightarrow> status_cache \<Rightarrow> status_cache" where
  "refreshed now key result m =
    (let e = (status_of key m)\<lparr>sn_fetching := False\<rparr>
     in gm_set key (case result of None \<Rightarrow> e | Some st \<Rightarrow> e\<lparr>sn_status := Some st, sn_fetchedAt := now\<rparr>) m)"

text \<open>A cache with the keys of the probes that are running.\<close>

type_synonym probing = "status_cache \<times> string list"

inductive probe_step :: "probing \<Rightarrow> probing \<Rightarrow> bool" where
  Served: "getAsync now key m = (v, False, m') \<Longrightarrow> probe_step (m, running) (m', running)"
| Launched: "getAsync now key m = (v, True, m') \<Longrightarrow> probe_step (m, running) (m', key # running)"
| Ended: "key \<in> set running \<Longrightarrow> probe_step (m, running) (refreshed now key result m, remove1 key running)"

inductive_cases probe_stepE: "probe_step (m, running) s"

definition probes_ok :: "probing \<Rightarrow> bool" where
  "probes_ok s \<longleftrightarrow> distinct (snd s) \<and> (\<forall>key. sn_fetching (status_of key (fst s)) \<longleftrightarrow> key \<in> set (snd s))"

lemma status_of_set [simp]: "status_of k (gm_set key e m) = (if k = key then e else status_of k m)"
  by (simp add: status_of_def)

lemma getAsync_launch: "getAsync now key m = (v, True, m') \<Longrightarrow>
    \<not> sn_fetching (status_of key m) \<and> m' = gm_set key ((status_of key m)\<lparr>sn_fetching := True\<rparr>) m"
  by (auto simp: getAsync_def Let_def split: if_splits)

lemma getAsync_served: "getAsync now key m = (v, False, m') \<Longrightarrow> m' = m"
  by (auto simp: getAsync_def Let_def split: if_splits)

lemma refreshed_flag: "sn_fetching (status_of k (refreshed now key result m)) \<longleftrightarrow> k \<noteq> key \<and> sn_fetching (status_of k m)"
  by (auto simp: refreshed_def Let_def split: option.splits)

lemma probes_ok_step: "probe_step s s' \<Longrightarrow> probes_ok s \<Longrightarrow> probes_ok s'"
proof (induction rule: probe_step.induct)
  case (Served now key m v m' running)
  then show ?case using getAsync_served[OF Served(1)] by simp
next
  case (Launched now key m v m' running)
  then show ?case using getAsync_launch[OF Launched(1)] by (auto simp: probes_ok_def)
next
  case (Ended key running m now result)
  then show ?case by (auto simp: probes_ok_def refreshed_flag)
qed

lemma probes_ok_run: "probe_step\<^sup>*\<^sup>* s s' \<Longrightarrow> probes_ok s \<Longrightarrow> probes_ok s'"
  by (induction rule: rtranclp_induct) (auto dest: probes_ok_step)

text \<open>
  C20. However requests and probes interleave, also when probes panic, a configured bridge never has
  two probes running, and while one is running its cache entry says so: as soon as it has ended the
  next stale read launches another.
\<close>

theorem one_probe_per_bridge:
  assumes "probe_step\<^sup>*\<^sup>* ([], []) (m, running)"
  shows "distinct running \<and> (fst (snd (getAsync now key m)) \<longleftrightarrow>
    key \<notin> set running \<and> (sn_status (status_of key m) = None \<or> statusTTL \<le> now - sn_fetchedAt (status_of key m)))"
proof -
  have "probes_ok ([], [])" by (simp add: probes_ok_def status_of_def)
  then have "probes_ok (m, running)" by (rule probes_ok_run[OF assms])
  then show ?thesis by (auto simp: probes_ok_def getAsync_def Let_def)
qed

lemma one_probe_per_bridge_witness:
  "let m = snd (snd (getAsync 7 ''http://b'' [])) in \<not> fst (snd (getAsync 9 ''http://b'' m)) \<and> distinct [''http://b'']"
proof -
  define m where "m = snd (snd (getAsync 7 ''http://b'' []))"
  have "getAsync 7 ''http://b'' [] = ((None, 0), True, m)" by (simp add: m_def getAsync_def status_of_def)
  then have "probe_step ([], []) (m, [''http://b''])" by (rule probe_step.Launched)
  then have r: "probe_step\<^sup>*\<^sup>* ([], []) (m, [''http://b''])" by blast
  show ?thesis using one_probe_per_bridge[OF r, of 9 "''http://b''"] unfolding m_def[symmetric] Let_def by simp
qed

section \<open>Bodies of bridge reads\<close>

text \<open>An answer stands for its encoding.\<close>

type_synonym 'v body_cache = "(string, gotime \<times> 'v) gomap"

definition bodyTTL :: gotime where
  "bodyTTL = 3 * second"

definition body_get :: "gotime \<Rightarrow> string \<Rightarrow> 'v body_cache \<Rightarrow> 'v option" where
  "body_get now key m = (case map_of m key of
      None \<Rightarrow> None
    | Some (t, v) \<Rightarrow> if now - t < bodyTTL then Some v else None)"

definition evict_bodies :: "gotime \<Rightarrow> 'v body_cache \<Rightarrow> 'v body_cache" where
  "evict_bodies now m = fold (\<lambda>(k, e) acc. if bodyTTL \<le> now - fst e then gm_del k acc else acc) m m"

definition body_put :: "gotime \<Rightarrow> string \<Rightarrow> 'v \<Rightarrow> 'v body_cache \<Rightarrow> 'v body_cache" where
  "body_put now key v m = gm_set key (now, v) (evict_bodies now m)"

lemma evicted_entry: "map_of (evict_bodies now m) k \<in> {map_of m k, None}"
proof -
  have "map_of (fold (\<lambda>(k, e) acc. if bodyTTL \<le> now - fst e then gm_del k acc else acc) es acc) k \<in> {map_of acc k, None}" for es acc
  proof (induction es arbitrary: acc)
    case (Cons p es)
    obtain j e where p: "p = (j, e)" by (cases p)
    show ?case using Cons.IH[of acc] Cons.IH[of "gm_del j acc"] by (auto simp: p split: if_splits)
  qed simp
  then show ?thesis by (simp add: evict_bodies_def)
qed

interpretation body_cache: fresh_cache "[] :: 'v body_cache" "\<lambda>(m :: 'v body_cache) k. map_of m k" body_get body_put bodyTTL
proof
  fix key other :: string and now :: gotime and m :: "'v body_cache" and v :: 'v
  show "map_of [] key = None" by simp
  show "body_get now key m = Some v \<Longrightarrow> \<exists>u. map_of m key = Some (u, v) \<and> now - u < bodyTTL"
    by (auto simp: body_get_def split: option.splits if_splits)
  show "map_of (body_put now key v m) key \<in> {Some (now, v), None}" by (simp add: body_put_def)
  show "other \<noteq> key \<Longrightarrow> map_of (body_put now key v m) other \<in> {map_of m other, None}"
    using evicted_entry[of now m other] by (simp add: body_put_def)
qed

text \<open>The read of a body: cached, or produced; \<open>encodes\<close> says whether an answer can be encoded.\<close>

definition serveCachedBridgeJSON :: "('v \<Rightarrow> bool) \<Rightarrow> gotime \<Rightarrow> gotime \<Rightarrow> string \<Rightarrow> 'v \<times> bool \<Rightarrow> 'v body_cache
    \<Rightarrow> 'v option \<times> 'v body_cache" where
  "serveCachedBridgeJSON encodes now later key produced m = (case body_get now key m of
      Some v \<Rightarrow> (Some v, m)
    | None \<Rightarrow>
        let (v, cacheable) = produced
        in if \<not> encodes v then (None, m) else (Some v, if cacheable then body_put later key v m else m))"

text \<open>The keys: the kind of the read, then what the answer depends on.\<close>

definition fleet_key :: "string \<Rightarrow> string" where
  "fleet_key i = ''bridges|'' @ i"

definition readyz_key :: "string \<Rightarrow> string" where
  "readyz_key url = ''readyz|'' @ url"

definition connz_key :: "string \<Rightarrow> int \<Rightarrow> int \<Rightarrow> string" where
  "connz_key url limit offset = ''connz:'' @ url @ '':'' @ itoa limit @ '':'' @ itoa offset"

end
