(* ===== verification/MqttApi.thy ===== *)
theory MqttApi
  imports EnvApi BridgeCaches
begin

text \<open>
  The handlers for MQTT bridges, \<^verbatim>\<open>internal/api/handlers_mqtt.go\<close>: the fleet listing, the resolution of a
  bridge name to an admin endpoint with its token, the reads that are relayed from a bridge and the
  admin actions. The network is the parameter \<open>http\<close>; the decoders of JSON documents are too.
\<close>

section \<open>Resolving a bridge\<close>

record resolved_bridge =
  rb_URL :: string
  rb_Name :: string
  rb_BearerToken :: string

type_synonym bridge = "bridge_status bridge_instance"

definition bridgeDisplayName :: "bridge \<Rightarrow> string" where
  "bridgeDisplayName b =
    (if bi_ConfiguredName b \<noteq> [] then bi_ConfiguredName b
     else case bi_Status b of
       Some st \<Rightarrow> if bs_Name st \<noteq> [] then bs_Name st else ''mqtt@'' @ bi_IP b
     | None \<Rightarrow> ''mqtt@'' @ bi_IP b)"

definition bridgeMatchesName :: "bridge \<Rightarrow> string \<Rightarrow> bool" where
  "bridgeMatchesName b name \<longleftrightarrow> bridgeDisplayName b = name \<or> (bi_IP b \<noteq> [] \<and> bi_IP b = name)
     \<or> (bi_AdminURL b \<noteq> [] \<and> bi_AdminURL b = name)"

definition mqttBridges :: "string \<Rightarrow> manager \<Rightarrow> mqtt_bridge list" where
  "mqttBridges i g = (case ClusterConfig i g of None \<Rightarrow> [] | Some e \<Rightarrow> e_MQTTBridges e)"

definition resolve_token :: "string \<Rightarrow> manager \<Rightarrow> string \<Rightarrow> string" where
  "resolve_token i g perBridge = (case ClusterConfig i g of None \<Rightarrow> perBridge | Some e \<Rightarrow> ResolveBridgeToken e perBridge)"

definition findBridge :: "string \<Rightarrow> string \<Rightarrow> manager \<Rightarrow> resolved_bridge option" where
  "findBridge i name g = (case find (\<lambda>b. mb_Name b = name) (mqttBridges i g) of
      Some b \<Rightarrow> Some \<lparr>rb_URL = mb_URL b, rb_Name = mb_Name b, rb_BearerToken = resolve_token i g (mb_BearerToken b)\<rparr>
    | None \<Rightarrow> map_option (\<lambda>b. \<lparr>rb_URL = bi_AdminURL b, rb_Name = bridgeDisplayName b, rb_BearerToken = resolve_token i g []\<rparr>)
        (find (\<lambda>b. bridgeMatchesName b name \<and> bi_AdminURL b \<noteq> []) (manager_MQTTBridges i g)))"

definition findBridgePush :: "string \<Rightarrow> string \<Rightarrow> manager \<Rightarrow> bridge option" where
  "findBridgePush i name g = find (\<lambda>b. bridgeMatchesName b name) (manager_MQTTBridges i g)"

definition fetcher_of :: "resolved_bridge \<Rightarrow> bridge_fetcher" where
  "fetcher_of b = NewMQTTBridgeFetcher (rb_URL b) (rb_Name b) (rb_BearerToken b)"

section \<open>The fleet\<close>

definition indexOfConfiguredBridge :: "bridge list \<Rightarrow> mqtt_bridge \<Rightarrow> nat option" where
  "indexOfConfiguredBridge bs b = map_option fst
     (find (\<lambda>(n, d). (mb_URL b \<noteq> [] \<and> bi_AdminURL d = mb_URL b) \<or> (mb_Name b \<noteq> [] \<and> bridgeDisplayName d = mb_Name b)) (List.enumerate 0 bs))"

definition mergeConfiguredBridge :: "mqtt_bridge \<Rightarrow> bridge \<Rightarrow> bridge" where
  "mergeConfiguredBridge b inst =
    (let inst = (if bi_ConfiguredName inst = [] \<and> mb_Name b \<noteq> [] then inst\<lparr>bi_ConfiguredName := mb_Name b\<rparr> else inst)
     in if bi_AdminURL inst = [] then inst\<lparr>bi_AdminURL := mb_URL b\<rparr> else inst)"

definition probedInstanceIdentity :: "bridge_status \<Rightarrow> string" where
  "probedInstanceIdentity st = (case bs_Metrics st of None \<Rightarrow> [] | Some m \<Rightarrow> m_InstanceID m)"

definition reports_identity :: "string \<Rightarrow> bridge \<Rightarrow> bool" where
  "reports_identity identity d = (case bi_Status d of
      None \<Rightarrow> False
    | Some st \<Rightarrow> (case bs_Metrics st of None \<Rightarrow> False | Some m \<Rightarrow> m_InstanceID m = identity) \<or> bs_Name st = identity)"

definition findByInstanceIdentity :: "bridge list \<Rightarrow> string \<Rightarrow> nat option" where
  "findByInstanceIdentity bs identity =
    (if identity = [] then None else map_option fst (find (\<lambda>(n, d). reports_identity identity d) (List.enumerate 0 bs)))"

definition probePendingReason :: string where
  "probePendingReason = ''probing the bridge admin API''"

text \<open>A launched probe is the fetcher that it runs with.\<close>

type_synonym fleet_state = "bridge list \<times> status_cache \<times> bridge_fetcher list"

definition undiscovered :: "mqtt_bridge \<Rightarrow> bridge_status \<Rightarrow> gotime \<Rightarrow> bridge" where
  "undiscovered b st probedAt = \<lparr>bi_IP = mb_URL b, bi_ServerID = [], bi_ServerName = [], bi_PoolConns = 0, bi_TotalSubs = 0,
     bi_TotalInMsgs = 0, bi_TotalOutMsgs = 0, bi_TotalInBytes = 0, bi_TotalOutBytes = 0, bi_InMsgsRate = Fin 0,
     bi_OutMsgsRate = Fin 0, bi_InBytesRate = Fin 0, bi_OutBytesRate = Fin 0, bi_ConfiguredName = mb_Name b,
     bi_AdminURL = mb_URL b, bi_Status = Some st, bi_Reachable = (bs_Error st = []), bi_LastSeen = probedAt\<rparr>"

definition add_configured :: "gotime \<Rightarrow> environment \<Rightarrow> mqtt_bridge \<Rightarrow> fleet_state \<Rightarrow> fleet_state" where
  "add_configured now e b s = (let (bs, cache, probes) = s in
     case indexOfConfiguredBridge bs b of
       Some n \<Rightarrow> (bs[n := mergeConfiguredBridge b (bs ! n)], cache, probes)
     | None \<Rightarrow>
         let ((known, probedAt), launch, cache) = getAsync now (mb_URL b) cache;
             probes = (if launch then probes @ [NewMQTTBridgeFetcher (mb_URL b) (mb_Name b) (ResolveBridgeToken e (mb_BearerToken b))] else probes);
             st = (case known of Some st \<Rightarrow> st | None \<Rightarrow> (no_status (mb_Name b) (mb_URL b))\<lparr>bs_Error := probePendingReason\<rparr>)
         in case findByInstanceIdentity bs (probedInstanceIdentity st) of
              Some n \<Rightarrow> (bs[n := mergeConfiguredBridge b (bs ! n)], cache, probes)
            | None \<Rightarrow> (bs @ [undiscovered b st probedAt], cache, probes))"

definition fleet_order :: "bridge \<Rightarrow> string" where
  "fleet_order b = (if bi_ConfiguredName b = [] then bi_IP b else bi_ConfiguredName b)"

text \<open>The order of bridges with the same name is not fixed by the code's sort.\<close>

definition fleetBridges :: "gotime \<Rightarrow> string \<Rightarrow> environment \<Rightarrow> manager \<Rightarrow> status_cache \<Rightarrow> fleet_state" where
  "fleetBridges now i e g cache =
    (let (bs, cache, probes) = fold (add_configured now e) (e_MQTTBridges e) (manager_MQTTBridges i g, cache, [])
     in (sort_key fleet_order bs, cache, probes))"

section \<open>Cached reads\<close>

datatype bridge_body =
    FleetBody "bridge list"
  | ConnzBody mqtt_connz
  | ConnzUnavailable string
  | ReadyzBody string "bool \<times> bool \<times> bool" bool
  | UnavailableBody string

record bridge_api =
  bx_status :: status_cache
  bx_json :: "bridge_body body_cache"

definition pushUnavailableReason :: string where
  "pushUnavailableReason =
    ''This bridge was discovered over NATS push metrics and has no admin HTTP endpoint configured. '' @
    ''Live counters, pool and NATS diagnostics are available on the Metrics, Connection Pool and NATS Connection tabs, '' @
    ''but license, config, cluster and per-client connection details require the bridge's admin HTTP API '' @
    ''(set admin_url and a bearer token for this bridge in the environment config).''"

definition connzErrorDetail :: string where
  "connzErrorDetail = ''The bridge's /connz endpoint returned an error. Set clients_snapshot_interval in the bridge's admin config to enable it.''"

text \<open>The dash of the source's texts, in UTF-8.\<close>

definition long_dash :: string where
  "long_dash = [CHR 0xE2, CHR 0x80, CHR 0x94]"

definition authFailedReason :: string where
  "authFailedReason = ''admin authentication failed '' @ long_dash @ '' set the bridge admin token in the environment config''"

definition body_reply :: "bridge_body option \<Rightarrow> bridge_body reply" where
  "body_reply v = (case v of None \<Rightarrow> Refuse 500 ''internal error'' | Some b \<Rightarrow> Reply 200 b)"

definition bridge_not_found :: "'v reply" where
  "bridge_not_found = Refuse 404 ''bridge not found''"

text \<open>The listing of the fleet also starts the probes that it is returned with.\<close>

definition handleMQTTBridges :: "(bridge_body \<Rightarrow> bool) \<Rightarrow> gotime \<Rightarrow> gotime \<Rightarrow> string \<Rightarrow> manager \<Rightarrow> bridge_api
    \<Rightarrow> bridge_body reply \<times> bridge_api \<times> bridge_fetcher list" where
  "handleMQTTBridges encodes now later i g s = (case ClusterConfig i g of
      None \<Rightarrow> (Reply 200 (FleetBody []), s, [])
    | Some e \<Rightarrow> (case body_get now (fleet_key i) (bx_json s) of
        Some v \<Rightarrow> (Reply 200 v, s, [])
      | None \<Rightarrow>
          let (bs, cache, probes) = fleetBridges now i e g (bx_status s);
              (v, json) = serveCachedBridgeJSON encodes now later (fleet_key i) (FleetBody bs, True) (bx_json s)
          in (body_reply v, \<lparr>bx_status = cache, bx_json = json\<rparr>, probes)))"

definition handleMQTTConnz :: "(bridge_body \<Rightarrow> bool) \<Rightarrow> gotime \<Rightarrow> gotime \<Rightarrow> http \<Rightarrow> (string \<Rightarrow> mqtt_connz option) \<Rightarrow> string \<Rightarrow> string
    \<Rightarrow> string \<Rightarrow> string \<Rightarrow> manager \<Rightarrow> bridge_api \<Rightarrow> bridge_body reply \<times> bridge_api" where
  "handleMQTTConnz encodes now later http dec i name qlimit qoffset g s =
    (let limit = clampInt qlimit 50 10000; offset = clampInt qoffset 0 100000
     in case findBridge i name g of
       None \<Rightarrow> if findBridgePush i name g \<noteq> None then (Reply 200 (ConnzUnavailable pushUnavailableReason), s) else (bridge_not_found, s)
     | Some b \<Rightarrow>
         let produced = (case bridge_FetchConnz http dec (fetcher_of b) limit offset of
                 Inl e \<Rightarrow> (ConnzUnavailable connzErrorDetail, False)
               | Inr z \<Rightarrow> (ConnzBody z, True));
             (v, json) = serveCachedBridgeJSON encodes now later (connz_key (rb_URL b) limit offset) produced (bx_json s)
         in (body_reply v, s\<lparr>bx_json := json\<rparr>))"

definition handleMQTTReadyz :: "(bridge_body \<Rightarrow> bool) \<Rightarrow> gotime \<Rightarrow> gotime \<Rightarrow> http \<Rightarrow> (string \<Rightarrow> mqtt_readyz option) \<Rightarrow> string \<Rightarrow> string
    \<Rightarrow> manager \<Rightarrow> bridge_api \<Rightarrow> bridge_body reply \<times> bridge_api" where
  "handleMQTTReadyz encodes now later http dec i name g s = (case findBridge i name g of
      None \<Rightarrow> if findBridgePush i name g \<noteq> None then (Reply 200 (UnavailableBody pushUnavailableReason), s) else (bridge_not_found, s)
    | Some b \<Rightarrow>
        let produced = (case FetchReadyz http dec (fetcher_of b) of
                Inl e \<Rightarrow> (UnavailableBody ''bridge request failed'', False)
              | Inr rd \<Rightarrow> (ReadyzBody (rd_Status rd) (ReadyzState (rd_Status rd)) (rd_NATSConnected rd), True));
            (v, json) = serveCachedBridgeJSON encodes now later (readyz_key (rb_URL b)) produced (bx_json s)
        in (body_reply v, s\<lparr>bx_json := json\<rparr>))"

section \<open>Relayed reads\<close>

text \<open>A document, or the reason why there is none.\<close>

datatype 'a relayed = Document 'a | Unavailable string

definition bridge_failed :: "'v reply" where
  "bridge_failed = Refuse 502 ''bridge request failed''"

definition with_bridge :: "string \<Rightarrow> string \<Rightarrow> manager \<Rightarrow> (resolved_bridge \<Rightarrow> 'a relayed reply) \<Rightarrow> 'a relayed reply" where
  "with_bridge i name g use = (case findBridge i name g of
      Some b \<Rightarrow> use b
    | None \<Rightarrow> if findBridgePush i name g \<noteq> None then Reply 200 (Unavailable pushUnavailableReason) else bridge_not_found)"

definition relay :: "fetch_error + 'a \<Rightarrow> 'a relayed reply" where
  "relay r = (case r of Inl e \<Rightarrow> bridge_failed | Inr x \<Rightarrow> Reply 200 (Document x))"

definition handleMQTTClient :: "http \<Rightarrow> (string \<Rightarrow> mqtt_connz option) \<Rightarrow> string \<Rightarrow> string \<Rightarrow> string \<Rightarrow> manager
    \<Rightarrow> mqtt_client_info relayed reply" where
  "handleMQTTClient http dec i name clientID g = with_bridge i name g (\<lambda>b.
     case FetchConnzClient http dec (fetcher_of b) clientID of
       Inl e \<Rightarrow> bridge_failed
     | Inr z \<Rightarrow> (case mz_Connections z of [] \<Rightarrow> Refuse 404 ''client not found'' | c # _ \<Rightarrow> Reply 200 (Document c)))"

definition handleMQTTBridgeDiag :: "http \<Rightarrow> (string \<Rightarrow> 'a option) \<Rightarrow> string \<Rightarrow> string \<Rightarrow> manager \<Rightarrow> 'a relayed reply" where
  "handleMQTTBridgeDiag http dec i name g = with_bridge i name g (\<lambda>b. relay (FetchDiag http dec (fetcher_of b)))"

definition handleMQTTLicense :: "http \<Rightarrow> (string \<Rightarrow> 'a option) \<Rightarrow> string \<Rightarrow> string \<Rightarrow> manager \<Rightarrow> 'a relayed reply" where
  "handleMQTTLicense http dec i name g = with_bridge i name g (\<lambda>b. relay (FetchLicense http dec (fetcher_of b)))"

text \<open>The last pushed document of a bridge, or else a live one.\<close>

definition push_or_live :: "(bridge_status \<Rightarrow> 'a option) \<Rightarrow> (bridge_fetcher \<Rightarrow> fetch_error + 'a) \<Rightarrow> string \<Rightarrow> string \<Rightarrow> manager \<Rightarrow> 'a reply" where
  "push_or_live pushed live i name g =
    (let bridge = findBridge i name g; push = findBridgePush i name g
     in if bridge = None \<and> push = None then bridge_not_found
        else case Option.bind (Option.bind push bi_Status) pushed of
          Some x \<Rightarrow> Reply 200 x
        | None \<Rightarrow> (case bridge of
            None \<Rightarrow> bridge_failed
          | Some b \<Rightarrow> (case live (fetcher_of b) of Inl e \<Rightarrow> bridge_failed | Inr x \<Rightarrow> Reply 200 x)))"

definition handleMQTTDiag :: "http \<Rightarrow> (string \<Rightarrow> nats_diag option) \<Rightarrow> string \<Rightarrow> string \<Rightarrow> manager \<Rightarrow> nats_diag reply" where
  "handleMQTTDiag http dec = push_or_live bs_NATS (FetchDiagNATS http dec)"

definition handleMQTTPool :: "http \<Rightarrow> (string \<Rightarrow> mqtt_pool option) \<Rightarrow> string \<Rightarrow> string \<Rightarrow> manager \<Rightarrow> mqtt_pool reply" where
  "handleMQTTPool http dec = push_or_live bs_Pool (FetchPool http dec)"

definition handleMQTTMetrics :: "http \<Rightarrow> string \<Rightarrow> string \<Rightarrow> manager \<Rightarrow> mqtt_metrics reply" where
  "handleMQTTMetrics http = push_or_live bs_Metrics (FetchMetrics http)"

definition cluster_reason :: "nat \<Rightarrow> string" where
  "cluster_reason code =
    (if code = 409 then ''clustering is not enabled on this bridge (set cluster.enabled: true)''
     else if code = 404 then ''this bridge version does not expose the cluster API''
     else if code = 401 \<or> code = 403 then authFailedReason
     else ''bridge returned HTTP '' @ itoa (int code))"

definition handleMQTTCluster :: "http \<Rightarrow> (string \<Rightarrow> 'a option) \<Rightarrow> string \<Rightarrow> string \<Rightarrow> manager \<Rightarrow> 'a relayed reply" where
  "handleMQTTCluster http dec i name g = with_bridge i name g (\<lambda>b.
     case FetchCluster http dec (fetcher_of b) of
       Inl e \<Rightarrow> bridge_failed
     | Inr (code, Some c) \<Rightarrow> Reply 200 (Document c)
     | Inr (code, None) \<Rightarrow> Reply 200 (Unavailable (cluster_reason code)))"

definition inspect_reason :: "nat \<Rightarrow> string" where
  "inspect_reason code =
    (if code = 404 then ''client not found in the cluster''
     else if code = 409 then ''clustering is not enabled on this bridge''
     else if code = 429 then ''bridge busy with concurrent inspects '' @ long_dash @ '' retry shortly''
     else if code = 401 \<or> code = 403 then authFailedReason
     else ''bridge returned HTTP '' @ itoa (int code))"

definition handleMQTTClusterInspect :: "http \<Rightarrow> (string \<Rightarrow> 'a option) \<Rightarrow> string \<Rightarrow> string \<Rightarrow> string \<Rightarrow> manager \<Rightarrow> 'a relayed reply" where
  "handleMQTTClusterInspect http dec i name clientID g =
    (if clientID = [] then Refuse 400 ''client_id query parameter is required''
     else with_bridge i name g (\<lambda>b. case FetchClusterInspect http dec (fetcher_of b) clientID of
         Inl e \<Rightarrow> bridge_failed
       | Inr (code, Some c) \<Rightarrow> Reply 200 (Document c)
       | Inr (code, None) \<Rightarrow> Reply 200 (Unavailable (inspect_reason code))))"

section \<open>Admin actions\<close>

definition mqttAdminActions :: "(string \<times> string) list" where
  "mqttAdminActions =
    [(''kick-all-clients'', ''/admin/kick-all-clients''),
     (''cluster-kick-client'', ''/admin/cluster/kick-client''),
     (''cluster-kick-by-username'', ''/admin/cluster/kick-by-username''),
     (''cluster-kick-all'', ''/admin/cluster/kick-all''),
     (''drain'', ''/admin/drain''),
     (''undrain'', ''/admin/undrain''),
     (''reload'', ''/admin/reload'')]"

text \<open>The status and body of the bridge are relayed; of the request's body, at most 4096 bytes.\<close>

definition handleMQTTAdminAction :: "http \<Rightarrow> string \<Rightarrow> string \<Rightarrow> string \<Rightarrow> string \<Rightarrow> manager \<Rightarrow> string reply" where
  "handleMQTTAdminAction http i name action body g = (case map_of mqttAdminActions action of
      None \<Rightarrow> Refuse 400 ''unknown admin action''
    | Some path \<Rightarrow> (case findBridge i name g of
        None \<Rightarrow>
          if findBridgePush i name g \<noteq> None then Refuse 503 ''admin actions require the bridge's admin HTTP API, which is not configured for this push-discovered bridge''
          else bridge_not_found
      | Some b \<Rightarrow> (case PostAdmin http (fetcher_of b) path (take 4096 body) of
          Inl e \<Rightarrow> bridge_failed
        | Inr (code, answer) \<Rightarrow> Reply (if code = 0 then 502 else code) answer)))"

end
