(* ===== verification/Decimal.thy ===== *)
theory Decimal
  imports GoFloat
begin

text \<open>Decimal texts of integers: they parse back, differ for different numbers and hold no separator.\<close>

lemma digit_char: "is_digit c \<Longrightarrow> c \<noteq> CHR '':'' \<and> c \<noteq> CHR ''-'' \<and> c \<noteq> CHR ''+'' \<and> c \<noteq> CHR 0x00"
  by (auto simp: is_digit_def byte_of_def)

lemma ParseInt_itoa: "int n \<le> max_int64 \<Longrightarrow> ParseInt (itoa (int n)) = Some (int n)"
proof -
  assume r: "int n \<le> max_int64"
  have "is_digit (hd (nat_digits n))" using nat_digits_digit[of "hd (nat_digits n)" n] by (simp add: hd_in_set)
  then have h: "hd (nat_digits n) \<noteq> CHR ''-''" "hd (nat_digits n) \<noteq> CHR ''+''" using digit_char by blast+
  have "list_all is_digit (nat_digits n)" using nat_digits_digit by (auto simp: list_all_iff)
  then show ?thesis using h r by (simp add: ParseInt_def itoa_def dec_value_nat_digits Let_def min_int64_def)
qed

lemma itoa_no_separator: "CHR '':'' \<notin> set (itoa n) \<and> CHR 0x00 \<notin> set (itoa n)"
  using nat_digits_digit digit_char by (auto simp: itoa_def)

lemma nat_digits_inject: "nat_digits m = nat_digits n \<Longrightarrow> m = n"
  by (metis dec_value_nat_digits)

lemma nat_digits_no_minus: "nat_digits n \<noteq> CHR ''-'' # s"
  using nat_digits_digit[of "CHR ''-''" n] digit_char by fastforce

lemma itoa_inject: "itoa m = itoa n \<Longrightarrow> m = n"
  using nat_digits_no_minus[of "nat m"] nat_digits_no_minus[of "nat n"]
  by (auto simp: itoa_def split: if_splits dest!: nat_digits_inject) (metis nat_digits_no_minus)

text \<open>A text is split at its last separator in one way only.\<close>

lemma last_part_inject:
  assumes "a @ c # x = b @ c # y" "c \<notin> set x" "c \<notin> set y"
  shows "a = b \<and> x = y"
  using assms by (auto simp: append_eq_append_conv2 append_eq_Cons_conv Cons_eq_append_conv)

end
