(* ===== verification/EnvApiProps.thy ===== *)
theory EnvApiProps
  imports EnvApi Decimal
begin

text \<open>
  What a client of the environment handlers can rely on: the pages of the connection list make up the
  list, a saved topology layout is the one shown, and where the detail of a connection goes wrong.
\<close>

section \<open>Paging\<close>

lemma clampInt_itoa:
  assumes "0 < n \<or> d = 0" "int n \<le> max_int64" "0 \<le> m"
  shows "clampInt (itoa (int n)) d m = min (int n) m"
proof -
  have "itoa (int n) \<noteq> []" by (simp add: itoa_def)
  then show ?thesis using assms by (auto simp: clampInt_def ParseInt_itoa min_def)
qed

lemma window_rows:
  assumes "0 \<le> offset" "0 \<le> limit"
  shows "pd_rows (window limit offset rows) = take (nat limit) (drop (nat offset) rows)"
proof (cases "int (length rows) < offset")
  case True
  then have "drop (nat offset) rows = []" by simp
  then show ?thesis using True assms by (simp add: window_def Let_def)
next
  case False
  then show ?thesis using assms by (auto simp: window_def Let_def nat_diff_distrib nat_add_distrib intro!: arg_cong2[where f = take])
qed

lemma pages_concat: "concat (map (\<lambda>k. take l (drop (k * l) xs)) [0..<n]) = take (n * l) xs"
proof (induction n)
  case (Suc n)
  have "take (n * l) xs @ take l (drop (n * l) xs) = take (n * l + l) xs" by (simp add: take_add)
  then show ?case using Suc by (simp add: add.commute)
qed simp

text \<open>The rows that a connection request with a subject left open answers with.\<close>

definition shown_conns :: "connz_answer reply \<times> subs_state \<Rightarrow> conn_info list" where
  "shown_conns r = (case fst r of Reply code a \<Rightarrow> pd_rows (cw_page a) | Refuse code msg \<Rightarrow> [])"

definition wanted_conns :: "string \<Rightarrow> conn_info list \<Rightarrow> conn_info list" where
  "wanted_conns acc conns = (if acc = [] then conns else filter (\<lambda>c. c_Account c = acc) conns)"

lemma shown_page:
  assumes "EnvServers i g = Some servers" "servers \<noteq> []"
  shows "shown_conns (handleConnz clock conns src g i qlimit qoffset acc state [] s)
    = take (nat (clampInt qlimit 50 10000)) (drop (nat (clampInt qoffset 0 100000))
        (wanted_conns acc (cs_conns (flattenConnz (fetchConnzPages servers (conns acc state))))))"
proof -
  have "0 \<le> clampInt q d m" if "0 \<le> d" "0 \<le> m" for q d m using that by (auto simp: clampInt_def split: option.split)
  then show ?thesis using assms by (simp add: handleConnz_def shown_conns_def wanted_conns_def window_rows Let_def)
qed

lemma listing_size: "length (wanted_conns acc (cs_conns (flattenConnz rs))) \<le> 100000"
proof -
  have "length (cs_conns (flattenConnz rs)) \<le> 100000" by (simp add: flattenConnz_def connzMaxClusterRows_def Let_def)
  moreover have "length (wanted_conns acc xs) \<le> length xs" for xs by (simp add: wanted_conns_def)
  ultimately show ?thesis using le_trans by blast
qed

lemma drop_clamped: "length xs \<le> 100000 \<Longrightarrow> drop (nat (min (int m) 100000)) xs = drop m xs"
  by (cases "m \<le> 100000") (simp_all add: min_def)

text \<open>
  C34. A client that asks for page after page of the connections of a cluster that does not change,
  with any limit up to 10000, gets the listing of the account, in order, nothing twice and nothing
  left out, however long it is.
\<close>

theorem pages_are_the_listing:
  assumes "EnvServers i g = Some servers" "servers \<noteq> []" "0 < l" "l \<le> 10000" "n * l \<le> 1000000000"
  shows "concat (map (\<lambda>k. shown_conns (handleConnz clock conns src g i (itoa (int l)) (itoa (int (k * l))) acc state [] s)) [0..<n])
    = take (n * l) (wanted_conns acc (cs_conns (flattenConnz (fetchConnzPages servers (conns acc state)))))"
proof -
  let ?all = "wanted_conns acc (cs_conns (flattenConnz (fetchConnzPages servers (conns acc state))))"
  have page: "shown_conns (handleConnz clock conns src g i (itoa (int l)) (itoa (int (k * l))) acc state [] s) = take l (drop (k * l) ?all)"
    if "k < n" for k
  proof -
    have "k * l \<le> n * l" using that by simp
    then have "int (k * l) \<le> 1000000000" "int l \<le> 10000" using assms(4,5) by linarith+
    then have big: "int (k * l) \<le> max_int64" "int l \<le> max_int64" by (simp_all only: max_int64_def) simp_all
    have "drop (nat (min (int (k * l)) 100000)) ?all = drop (k * l) ?all" by (rule drop_clamped[OF listing_size])
    then show ?thesis
      using shown_page[OF assms(1,2)] clampInt_itoa[OF _ big(1), of 0 100000] clampInt_itoa[OF _ big(2), of 50 10000] assms(3,4)
      by (simp del: of_nat_mult)
  qed
  have "map (\<lambda>k. shown_conns (handleConnz clock conns src g i (itoa (int l)) (itoa (int (k * l))) acc state [] s)) [0..<n]
      = map (\<lambda>k. take l (drop (k * l) ?all)) [0..<n]"
    by (rule map_cong[OF refl]) (simp del: of_nat_mult add: page)
  then show ?thesis by (simp only: pages_concat)
qed

definition demo_manager :: manager where
  "demo_manager = \<lparr>g_collectors = [(''c1'', newCollector (ToEnvironment \<lparr>kl_ID = ''c1'', kl_Name = ''prod'', kl_Servers = [''http://n1''],
     kl_MQTTBridges = [], kl_MQTTDiscovery = None, kl_TLS = None, kl_AdminToken = [], kl_NATSConn = None, kl_CreatedAt = 0\<rparr>) 1)],
     g_cancels = [], g_started = False, g_interval = 1\<rparr>"

lemma pages_are_the_listing_witness:
  "EnvServers ''c1'' demo_manager = Some [''http://n1'']
   \<and> concat (map (\<lambda>k. shown_conns (handleConnz (\<lambda>_. 0) (\<lambda>_ _ url limit offset. Some (steady_page url [demo_conn 2, demo_conn 1] limit offset))
        \<lparr>sx_detail = \<lambda>_ _ _. None, sx_plain = \<lambda>_ _ _. None\<rparr> demo_manager ''c1'' (itoa (int 1)) (itoa (int (k * 1))) [] [] [] new_subs)) [0..<3])
      = take (3 * 1) (wanted_conns [] (cs_conns (flattenConnz (fetchConnzPages [''http://n1''] (\<lambda>url limit offset. Some (steady_page url [demo_conn 2, demo_conn 1] limit offset))))))"
proof -
  have e: "EnvServers ''c1'' demo_manager = Some [''http://n1'']" by (simp add: EnvServers_def demo_manager_def ToEnvironment_def)
  show ?thesis using e pages_are_the_listing[OF e, of 1 3 "\<lambda>_. 0" "\<lambda>_ _ url limit offset. Some (steady_page url [demo_conn 2, demo_conn 1] limit offset)"]
    by simp
qed

section \<open>Saved layouts\<close>

text \<open>
  A layout that was saved with success is the one that is shown, positions and camera, and no
  other environment's layout changes; a layout that was refused because its positions could not
  be saved changes nothing.
\<close>

theorem saved_layout_is_shown:
  "case handleSavePositions fault camera_fault i (Some b) t of
     (Reply code u, t') \<Rightarrow> code = 200
       \<and> (\<forall>e. handleGetPositions (\<lambda>_. None) (\<lambda>_. None) e t' =
            (if e = i then Reply 200 (case pv_camera b of Some c \<Rightarrow> b
                 | None \<Rightarrow> b\<lparr>pv_camera := map_of (et_camera t) i\<rparr>)
             else handleGetPositions (\<lambda>_. None) (\<lambda>_. None) e t))
   | (Refuse code msg, t') \<Rightarrow> msg = ''failed to save camera'' \<or> t' = t"
proof -
  obtain r t1 where save: "SaveTopologyPositions fault i (pv_positions b) t = (r, t1)" by fastforce
  show ?thesis
  proof (cases r)
    case (Some e)
    then have "t1 = t" using save_positions_cases[OF save] by auto
    then show ?thesis using save Some by (simp add: handleSavePositions_def)
  next
    case None
    note saved = saved_positions_are_loaded[OF save[unfolded None]]
    have cam: "et_camera t1 = et_camera t" using save_positions_cases[OF save] None by auto
    have pos: "GetTopologyPositions (\<lambda>_. None) e (t1\<lparr>et_camera := m\<rparr>) = GetTopologyPositions (\<lambda>_. None) e t1" for e m
      by (simp add: GetTopologyPositions_def)
    have get: "GetTopologyPositions (\<lambda>_. None) e t = Inr (map snd (filter (\<lambda>p. fst p = e) (et_positions t)))" for e
      by (simp add: GetTopologyPositions_def)
    have eta: "\<lparr>pv_positions = pv_positions b, pv_camera = c\<rparr> = b\<lparr>pv_camera := c\<rparr>" for c by (cases b) simp
    show ?thesis
    proof (cases "pv_camera b")
      case none: None
      then show ?thesis using save None by (simp add: handleSavePositions_def handleGetPositions_def saved get cam GetTopologyCamera_def eta)
    next
      case (Some c)
      have b: "b\<lparr>pv_camera := Some c\<rparr> = b" using Some by (cases b) simp
      show ?thesis using save None Some
        by (auto simp: handleSavePositions_def SaveTopologyCamera_def handleGetPositions_def pos saved get cam GetTopologyCamera_def eta b
            split: option.split)
    qed
  qed
qed

section \<open>The detail of a connection\<close>

text \<open>
  Connection IDs are only unique on a server, but the detail looks them up in the whole cluster: a
  connection without subscriptions of its own is shown with those of another server's connection.
\<close>

lemma detail_mixes_servers:
  assumes "manager_Snapshot i g = Some snap" "ParseUint cidStr = Some cid"
    "find (\<lambda>c. c_Cid c = cid) (concat (map (\<lambda>p. cz_Conns (snd p)) (Connz snap))) = Some c"
    "c_SubsDetail c = []" "c_Subs c = []" "cached_rows (clock 0) i s = Some (rows, truncated)"
    "r \<in> set rows" "sw_ConnCid r = cid"
  shows "\<exists>c' s'. handleConnzDetail clock src g i cidStr s = (Reply 200 c', s') \<and> c_ServerID c' = c_ServerID c
    \<and> row_detail cid r \<in> set (c_SubsDetail c')"
  using assms by (simp add: handleConnzDetail_def getSubsRows_def)

end
