(* ===== verification/BridgeDocs.thy ===== *)
theory BridgeDocs
  imports MqttTypes
begin

text \<open>
  The remaining documents of a bridge's admin interface, structs of \<^verbatim>\<open>internal/collector/mqtt_types.go\<close>
  that the dashboard decodes and hands on to the browser: configuration, license, cluster members
  and the inspection of a client. \<open>'j\<close> is raw JSON.
\<close>

record 'j mqtt_diag =
  dg_ConfigPath :: string
  dg_Version :: string
  dg_Config :: 'j

record mqtt_license =
  lx_Status :: string
  lx_LicenseID :: string
  lx_Company :: string
  lx_Contact :: string
  lx_Email :: string
  lx_Kind :: string
  lx_Tier :: string
  lx_MaxConnections :: int
  lx_MaxQoS :: int
  lx_ConnectionsLocal :: int
  lx_ConnectionsGlobal :: int
  lx_Instances :: int
  lx_ExpiresAt :: string
  lx_GraceDays :: int
  lx_Degraded :: bool
  lx_DegradedReason :: string
  lx_BlockConfirmed :: bool
  lx_BlockReason :: string
  lx_CapacityClamped :: bool
  lx_ClampFloor :: int
  lx_PeerDiscrepancy :: bool
  lx_AggregateMsgsPerSec :: int
  lx_AggregateBurstMsgsPerSec :: int
  lx_AggregateBurstWindowSec :: int
  lx_MaxClientMsgsPerSec :: int
  lx_EffectiveAggregateMsgsPerSec :: int

record cluster_instance =
  cj_InstanceID :: string
  cj_Addr :: string
  cj_Clients :: int
  cj_StartedAt :: string
  cj_UpdatedAt :: string
  cj_LastSeenMs :: int
  cj_Self :: bool

record mqtt_cluster =
  cj_LocalInstanceID :: string
  cj_LocalConnections :: int
  cj_Instances :: "cluster_instance list"
  cj_HMACFailures :: "(string, int) gomap"
  cj_TakeoverOrderSkew :: int

record 'j mqtt_cluster_inspect =
  cj_InspectedInstance :: string
  cj_Client :: 'j

end
