(* ===== verification/Routes.thy ===== *)
theory Routes
  imports Auth GoUrl
begin

text \<open>
  Which handler a request reaches and who may reach it: \<^verbatim>\<open>internal/api/routes.go\<close>, \<^verbatim>\<open>guardMetrics\<close> of
  \<^verbatim>\<open>internal/api/observability.go\<close> and \<^verbatim>\<open>checkSameOrigin\<close> of \<^verbatim>\<open>internal/api/server.go\<close>. A handler is its
  name. The multiplexer of the standard library picks the most specific pattern. Paths arrive clean:
  it redirects any other path to its clean form, and the name of a subtree to the one with the final
  slash. Without a route the answer is its 404, or its 405 where another method has one.
\<close>

section \<open>Patterns\<close>

text \<open>The method, \<open>None\<close> for every method, the path pattern and the handler.\<close>

type_synonym route = "string option \<times> string \<times> string"

abbreviation for_method :: "string \<Rightarrow> string \<Rightarrow> string \<Rightarrow> route" where
  "for_method m p h \<equiv> (Some m, p, h)"

abbreviation any_method :: "string \<Rightarrow> string \<Rightarrow> route" where
  "any_method p h \<equiv> (None, p, h)"

definition segments :: "string \<Rightarrow> string list" where
  "segments p = tl (Split (CHR ''/'') p)"

definition segment_matches :: "string \<Rightarrow> string \<Rightarrow> bool" where
  "segment_matches pat s \<longleftrightarrow> (if HasPrefix pat ''{'' then s \<noteq> [] else pat = s)"

text \<open>A pattern that ends in a slash stands for the whole subtree.\<close>

definition is_subtree :: "string \<Rightarrow> bool" where
  "is_subtree p \<longleftrightarrow> HasSuffix p ''/''"

definition path_matches :: "string \<Rightarrow> string \<Rightarrow> bool" where
  "path_matches pat path \<longleftrightarrow>
    (let ps = segments pat; ss = segments path
     in if is_subtree pat then length ps \<le> length ss \<and> list_all2 segment_matches (butlast ps) (take (length ps - 1) ss)
        else list_all2 segment_matches ps ss)"

text \<open>A pattern for GET also serves HEAD.\<close>

definition method_matches :: "string option \<Rightarrow> string \<Rightarrow> bool" where
  "method_matches pat m \<longleftrightarrow> (case pat of None \<Rightarrow> True | Some p \<Rightarrow> p = m \<or> (p = ''GET'' \<and> m = ''HEAD''))"

definition route_matches :: "string \<Rightarrow> string \<Rightarrow> route \<Rightarrow> bool" where
  "route_matches m path r \<longleftrightarrow> method_matches (fst r) m \<and> path_matches (fst (snd r)) path"

text \<open>A pattern for one path is more specific than one for a subtree, a longer subtree than a shorter one.\<close>

definition matched :: "route list \<Rightarrow> string \<Rightarrow> string \<Rightarrow> route option" where
  "matched routes m path =
    (let fits = filter (route_matches m path) routes;
         single = filter (\<lambda>r. \<not> is_subtree (fst (snd r))) fits;
         subtrees = rev (sort_key (\<lambda>r. length (fst (snd r))) (filter (\<lambda>r. is_subtree (fst (snd r))) fits))
     in case single @ subtrees of [] \<Rightarrow> None | r # _ \<Rightarrow> Some r)"

definition dispatch :: "route list \<Rightarrow> string \<Rightarrow> string \<Rightarrow> string option" where
  "dispatch routes m path = map_option (\<lambda>r. snd (snd r)) (matched routes m path)"

text \<open>The text of a pattern, as it was registered.\<close>

definition pattern_text :: "route \<Rightarrow> string" where
  "pattern_text r = (case fst r of None \<Rightarrow> fst (snd r) | Some m \<Rightarrow> m @ '' '' @ fst (snd r))"

section \<open>The tables\<close>

definition public_routes :: "route list" where
  "public_routes = [
     for_method ''POST'' ''/api/login'' ''HandleLogin'',
     for_method ''GET'' ''/api/auth/providers'' ''HandleProviders'',
     for_method ''POST'' ''/api/auth/local/login'' ''HandleLocalLogin'',
     for_method ''GET'' ''/api/auth/oidc/{provider}/login'' ''HandleOIDCLogin'',
     for_method ''GET'' ''/api/auth/oidc/{provider}/callback'' ''HandleOIDCCallback'',
     for_method ''GET'' ''/livez'' ''livez'',
     for_method ''GET'' ''/readyz'' ''handleReadiness'',
     for_method ''GET'' ''/metrics'' ''handleMetrics'',
     for_method ''GET'' ''/healthz'' ''handleHealthz'',
     any_method ''/api/'' ''protected'',
     any_method ''/'' ''serveSPA'']"

definition protected_routes :: "route list" where
  "protected_routes = [
     for_method ''POST'' ''/api/logout'' ''HandleLogout'',
     for_method ''GET'' ''/api/me'' ''HandleMe'',
     for_method ''PUT'' ''/api/users/{id}/password'' ''HandleChangePassword'',
     for_method ''GET'' ''/api/version'' ''handleVersion'',
     for_method ''GET'' ''/api/environments'' ''handleEnvironments'',
     for_method ''GET'' ''/api/environments/{env}/overview'' ''handleOverview'',
     for_method ''GET'' ''/api/environments/{env}/topology'' ''handleTopology'',
     for_method ''GET'' ''/api/environments/{env}/varz'' ''handleVarz'',
     for_method ''GET'' ''/api/environments/{env}/connz'' ''handleConnz'',
     for_method ''GET'' ''/api/environments/{env}/connz/{cid}'' ''handleConnzDetail'',
     for_method ''GET'' ''/api/environments/{env}/routez'' ''handleRoutez'',
     for_method ''GET'' ''/api/environments/{env}/gatewayz'' ''handleGatewayz'',
     for_method ''GET'' ''/api/environments/{env}/leafz'' ''handleLeafz'',
     for_method ''GET'' ''/api/environments/{env}/subsz'' ''handleSubsz'',
     for_method ''GET'' ''/api/environments/{env}/subsz/detail'' ''handleSubsDetail'',
     for_method ''GET'' ''/api/environments/{env}/jsz'' ''handleJSz'',
     for_method ''GET'' ''/api/environments/{env}/accountz'' ''handleAccountz'',
     for_method ''GET'' ''/api/environments/{env}/accountz/{acc}'' ''handleAccountDetail'',
     for_method ''GET'' ''/api/environments/{env}/mqtt/bridges'' ''handleMQTTBridges'',
     for_method ''GET'' ''/api/environments/{env}/mqtt/{bridge}/connz'' ''handleMQTTConnz'',
     for_method ''GET'' ''/api/environments/{env}/mqtt/{bridge}/connz/{client}'' ''handleMQTTClient'',
     for_method ''GET'' ''/api/environments/{env}/mqtt/{bridge}/diag'' ''handleMQTTDiag'',
     for_method ''GET'' ''/api/environments/{env}/mqtt/{bridge}/diag/config'' ''handleMQTTBridgeDiag'',
     for_method ''GET'' ''/api/environments/{env}/mqtt/{bridge}/license'' ''handleMQTTLicense'',
     for_method ''GET'' ''/api/environments/{env}/mqtt/{bridge}/metrics'' ''handleMQTTMetrics'',
     for_method ''GET'' ''/api/environments/{env}/mqtt/{bridge}/pool'' ''handleMQTTPool'',
     for_method ''GET'' ''/api/environments/{env}/mqtt/{bridge}/readyz'' ''handleMQTTReadyz'',
     for_method ''GET'' ''/api/environments/{env}/mqtt/{bridge}/cluster'' ''handleMQTTCluster'',
     for_method ''GET'' ''/api/environments/{env}/mqtt/{bridge}/cluster/inspect'' ''handleMQTTClusterInspect'',
     for_method ''GET'' ''/api/environments/{env}/topology/positions'' ''handleGetPositions'',
     for_method ''PUT'' ''/api/environments/{env}/topology/positions'' ''handleSavePositions'',
     for_method ''GET'' ''/api/environments/{env}/metrics/overview'' ''handleEnvMetrics'',
     for_method ''GET'' ''/api/environments/{env}/metrics/servers'' ''handleServerMetrics'',
     for_method ''GET'' ''/api/environments/{env}/metrics/mqtt'' ''handleMQTTBridgeMetrics'',
     for_method ''GET'' ''/api/ws'' ''handleWS'',
     for_method ''POST'' ''/api/environments/{env}/mqtt/{bridge}/admin/{action}'' ''handleMQTTAdminAction'',
     any_method ''/api/admin/'' ''admin'']"

definition admin_routes :: "route list" where
  "admin_routes = [
     for_method ''GET'' ''/api/admin/users'' ''HandleListUsers'',
     for_method ''POST'' ''/api/admin/users'' ''HandleCreateUser'',
     for_method ''DELETE'' ''/api/admin/users/{id}'' ''HandleDeleteUser'',
     for_method ''GET'' ''/api/admin/clusters'' ''handleListClusters'',
     for_method ''POST'' ''/api/admin/clusters'' ''handleCreateCluster'',
     for_method ''PUT'' ''/api/admin/clusters/{id}'' ''handleUpdateCluster'',
     for_method ''DELETE'' ''/api/admin/clusters/{id}'' ''handleDeleteCluster'',
     for_method ''GET'' ''/api/admin/logs'' ''handleAdminLogs'',
     for_method ''GET'' ''/api/admin/health'' ''handleAdminHealth'',
     for_method ''GET'' ''/api/admin/status'' ''handleDependencyStatus'']"

section \<open>Guards\<close>

definition checkSameOrigin :: "string \<Rightarrow> string \<Rightarrow> bool" where
  "checkSameOrigin origin host \<longleftrightarrow> origin = [] \<or> (case url_Parse origin of None \<Rightarrow> False | Some u \<Rightarrow> ToLower (u_Host u) = ToLower host)"

datatype served = Denied nat string | NoRoute | Called string "claims option"

definition after_session :: "(claims \<Rightarrow> served) \<Rightarrow> verdict \<Rightarrow> served" where
  "after_session next_handler v = (case v of Deny s m \<Rightarrow> Denied s m | Serve c \<Rightarrow> next_handler c)"

definition bearer :: "string" where
  "bearer = ''Bearer ''"

text \<open>\<open>authorization\<close> is the header; without a configured token only a session counts.\<close>

definition guardMetrics :: "jwt_lib \<Rightarrow> gotime \<Rightarrow> string \<Rightarrow> string \<Rightarrow> request \<Rightarrow> auth \<Rightarrow> served" where
  "guardMetrics jwt now token authorization r a =
    (if token \<noteq> [] \<and> HasPrefix authorization bearer \<and> drop (length bearer) authorization = token
     then Called ''handleMetrics'' None
     else after_session (\<lambda>c. Called ''handleMetrics'' (Some c)) (Middleware jwt now r a))"

definition serve_admin :: "request \<Rightarrow> claims \<Rightarrow> served" where
  "serve_admin r c = (case dispatch admin_routes (r_method r) (r_path r) of None \<Rightarrow> NoRoute | Some h \<Rightarrow> Called h (Some c))"

definition serve_protected :: "request \<Rightarrow> claims \<Rightarrow> served" where
  "serve_protected r c = (case dispatch protected_routes (r_method r) (r_path r) of
      None \<Rightarrow> NoRoute
    | Some h \<Rightarrow>
        if h = ''admin'' then after_session (serve_admin r) (AdminMiddleware (Some c))
        else if h = ''handleMQTTAdminAction'' then after_session (\<lambda>c. Called h (Some c)) (AdminMiddleware (Some c))
        else Called h (Some c))"

definition serve :: "jwt_lib \<Rightarrow> gotime \<Rightarrow> string \<Rightarrow> string \<Rightarrow> request \<Rightarrow> auth \<Rightarrow> served" where
  "serve jwt now token authorization r a = (case dispatch public_routes (r_method r) (r_path r) of
      None \<Rightarrow> NoRoute
    | Some h \<Rightarrow>
        if h = ''protected'' then after_session (serve_protected r) (Middleware jwt now r a)
        else if h = ''handleMetrics'' then guardMetrics jwt now token authorization r a
        else Called h None)"

text \<open>
  The pattern that \<^verbatim>\<open>observe\<close> finds in the request afterwards: the outer multiplexer's, since the session
  check hands a copy of the request on, in which the inner multiplexers leave theirs.
\<close>

definition observed_pattern :: "request \<Rightarrow> string" where
  "observed_pattern r = (case matched public_routes (r_method r) (r_path r) of None \<Rightarrow> [] | Some m \<Rightarrow> pattern_text m)"

section \<open>Lemmas\<close>

lemma matched_listed:
  assumes "matched routes m path = Some r"
  shows "r \<in> set routes" "route_matches m path r"
proof -
  let ?fits = "filter (route_matches m path) routes"
  let ?cands = "filter (\<lambda>r. \<not> is_subtree (fst (snd r))) ?fits
    @ rev (sort_key (\<lambda>r. length (fst (snd r))) (filter (\<lambda>r. is_subtree (fst (snd r))) ?fits))"
  obtain rs where "?cands = r # rs" using assms by (auto simp: matched_def Let_def split: list.splits)
  then have "r \<in> set ?cands" by simp
  then show "r \<in> set routes" "route_matches m path r" by auto
qed

lemma dispatch_listed:
  assumes "dispatch routes m path = Some h"
  shows "\<exists>r\<in>set routes. route_matches m path r \<and> snd (snd r) = h"
  using assms matched_listed[of routes m path] by (auto simp: dispatch_def)

definition handlers_of :: "route list \<Rightarrow> string list" where
  "handlers_of routes = map (\<lambda>r. snd (snd r)) routes"

lemma dispatch_handler: "dispatch routes m path = Some h \<Longrightarrow> h \<in> set (handlers_of routes)"
  using dispatch_listed[of routes m path h] by (auto simp: handlers_of_def)

text \<open>The handlers that anyone may call, and those that only an administrator may.\<close>

definition open_handlers :: "string list" where
  "open_handlers = [''HandleLogin'', ''HandleProviders'', ''HandleLocalLogin'', ''HandleOIDCLogin'', ''HandleOIDCCallback'',
     ''livez'', ''handleReadiness'', ''handleHealthz'', ''serveSPA'']"

definition admin_handlers :: "string list" where
  "admin_handlers = ''handleMQTTAdminAction'' # handlers_of admin_routes"

lemma tables_agree:
  "list_all (\<lambda>h. h = ''protected'' \<or> h = ''handleMetrics'' \<or> h \<in> set open_handlers) (handlers_of public_routes)"
  "list_all (\<lambda>h. h = ''admin'' \<or> h = ''handleMQTTAdminAction'' \<or> (h \<notin> set admin_handlers \<and> h \<notin> set open_handlers)) (handlers_of protected_routes)"
  "list_all (\<lambda>h. h \<notin> set open_handlers) (handlers_of admin_routes)"
  "''handleMetrics'' \<notin> set admin_handlers" "list_all (\<lambda>h. h \<notin> set admin_handlers) open_handlers"
  by code_simp+

definition admitted :: "jwt_lib \<Rightarrow> gotime \<Rightarrow> string \<Rightarrow> string \<Rightarrow> request \<Rightarrow> auth \<Rightarrow> string \<Rightarrow> claims option \<Rightarrow> bool" where
  "admitted jwt now token authorization r a h who = (case who of
      None \<Rightarrow> h \<in> set open_handlers \<or> (h = ''handleMetrics'' \<and> token \<noteq> [] \<and> authorization = bearer @ token)
    | Some c \<Rightarrow> Middleware jwt now r a = Serve c \<and> (h \<notin> set admin_handlers \<or> c_Role c = RoleAdmin))"

lemma after_session_Called:
  "after_session f v = Called h who \<longleftrightarrow> (\<exists>c. v = Serve c \<and> f c = Called h who)"
  by (simp add: after_session_def split: verdict.splits)

lemma AdminMiddleware_Serve: "AdminMiddleware (Some c) = Serve c' \<longleftrightarrow> c' = c \<and> c_Role c = RoleAdmin"
  by (auto simp: AdminMiddleware_def)

lemma protected_called:
  assumes "serve_protected r c = Called h who"
  shows "who = Some c \<and> (h \<notin> set admin_handlers \<or> c_Role c = RoleAdmin)"
proof -
  obtain h' where h': "dispatch protected_routes (r_method r) (r_path r) = Some h'"
    using assms by (auto simp: serve_protected_def split: option.splits)
  have t: "h' = ''admin'' \<or> h' = ''handleMQTTAdminAction'' \<or> h' \<notin> set admin_handlers"
    using tables_agree(2) dispatch_handler[OF h'] by (auto simp: list_all_iff)
  consider "h' = ''admin''" | "h' = ''handleMQTTAdminAction''" | "h' \<noteq> ''admin''" "h' \<noteq> ''handleMQTTAdminAction''" by blast
  then show ?thesis
  proof cases
    case 1
    then show ?thesis using assms h'
      by (auto simp: serve_protected_def serve_admin_def after_session_Called AdminMiddleware_Serve split: option.splits)
  next
    case 2
    then show ?thesis using assms h' by (auto simp: serve_protected_def after_session_Called AdminMiddleware_Serve)
  next
    case 3
    then show ?thesis using assms h' t by (auto simp: serve_protected_def)
  qed
qed

text \<open>
  C2. Whatever the method and path of a request, a handler is only called for someone who may call it:
  without a session only the login, probe and page handlers, and the metrics with the configured
  token; with one, the session is valid at this moment, and the administration of users, clusters
  and bridges takes the admin role.
\<close>

theorem handlers_are_guarded:
  assumes "serve jwt now token authorization r a = Called h who"
  shows "admitted jwt now token authorization r a h who"
proof -
  obtain h' where h': "dispatch public_routes (r_method r) (r_path r) = Some h'"
    using assms by (auto simp: serve_def split: option.splits)
  have t: "h' = ''protected'' \<or> h' = ''handleMetrics'' \<or> h' \<in> set open_handlers"
    using tables_agree(1) dispatch_handler[OF h'] by (auto simp: list_all_iff)
  consider "h' = ''protected''" | "h' = ''handleMetrics''" | "h' \<noteq> ''protected''" "h' \<noteq> ''handleMetrics''" by blast
  then show ?thesis
  proof cases
    case 1
    then obtain c where c: "Middleware jwt now r a = Serve c" "serve_protected r c = Called h who"
      using assms h' by (auto simp: serve_def after_session_Called)
    then show ?thesis using protected_called[OF c(2)] by (simp add: admitted_def)
  next
    case 2
    then have g: "guardMetrics jwt now token authorization r a = Called h who" using assms h' by (simp add: serve_def)
    show ?thesis
    proof (cases "token \<noteq> [] \<and> HasPrefix authorization bearer \<and> drop (length bearer) authorization = token")
      case True
      then have "authorization = bearer @ token" by (auto simp: HasPrefix_iff)
      then show ?thesis using g True by (auto simp: guardMetrics_def admitted_def)
    next
      case False
      then obtain c where "Middleware jwt now r a = Serve c" "h = ''handleMetrics''" "who = Some c"
        using g by (auto simp: guardMetrics_def after_session_Called)
      then show ?thesis using tables_agree(4) by (simp add: admitted_def)
    qed
  next
    case 3
    then show ?thesis using assms h' t by (auto simp: serve_def admitted_def)
  qed
qed

lemma handlers_are_guarded_witness:
  "\<exists>c. serve jwt_example 200 [] [] request_example auth_example = Called ''HandleMe'' (Some c)
    \<and> admitted jwt_example 200 [] [] request_example auth_example ''HandleMe'' (Some c)"
proof -
  obtain c where c: "Middleware jwt_example 200 request_example auth_example = Serve c" using auth_example_served by blast
  have "dispatch public_routes ''GET'' ''/api/me'' = Some ''protected''" "dispatch protected_routes ''GET'' ''/api/me'' = Some ''HandleMe''"
    by code_simp+
  then have s: "serve jwt_example 200 [] [] request_example auth_example = Called ''HandleMe'' (Some c)"
    using c by (simp add: serve_def serve_protected_def after_session_def request_example_def)
  then show ?thesis using handlers_are_guarded[OF s] by blast
qed

section \<open>Reading requests change nothing\<close>

text \<open>
  The handlers that change users, sessions, clusters, layouts or bridges, but for the OIDC callback,
  which its state parameter protects.
\<close>

definition changing_handlers :: "string list" where
  "changing_handlers = [''HandleLogin'', ''HandleLocalLogin'', ''HandleLogout'', ''HandleChangePassword'', ''HandleCreateUser'',
     ''HandleDeleteUser'', ''handleCreateCluster'', ''handleUpdateCluster'', ''handleDeleteCluster'', ''handleSavePositions'',
     ''handleMQTTAdminAction'']"

definition changing_method :: "string option \<Rightarrow> bool" where
  "changing_method m \<longleftrightarrow> m = Some ''POST'' \<or> m = Some ''PUT'' \<or> m = Some ''DELETE''"

lemma changing_routes:
  "list_all (\<lambda>r. snd (snd r) \<notin> set changing_handlers \<or> changing_method (fst r)) (public_routes @ protected_routes @ admin_routes)"
  by code_simp

lemma dispatch_changing:
  assumes "dispatch routes m path = Some h" "set routes \<subseteq> set (public_routes @ protected_routes @ admin_routes)" "h \<in> set changing_handlers"
  shows "m \<in> {''POST'', ''PUT'', ''DELETE''}"
proof -
  obtain r where r: "r \<in> set routes" "route_matches m path r" "snd (snd r) = h" using dispatch_listed[OF assms(1)] by blast
  then have "changing_method (fst r)" using changing_routes assms(2,3) by (auto simp: list_all_iff)
  then show ?thesis using r(2) by (auto simp: route_matches_def method_matches_def changing_method_def)
qed

lemma protected_dispatch:
  assumes "serve_protected r c = Called h who"
  shows "dispatch protected_routes (r_method r) (r_path r) = Some h \<or> dispatch admin_routes (r_method r) (r_path r) = Some h"
proof -
  obtain h' where h': "dispatch protected_routes (r_method r) (r_path r) = Some h'"
    using assms by (simp add: serve_protected_def split: option.splits)
  show ?thesis
  proof (cases "h' = ''admin''")
    case True
    then show ?thesis using assms h' unfolding serve_protected_def
      by (simp add: after_session_Called serve_admin_def split: option.splits) blast
  next
    case False
    then show ?thesis using assms h' unfolding serve_protected_def
      by (cases "h' = ''handleMQTTAdminAction''") (simp_all add: after_session_Called, blast)
  qed
qed

lemma guardMetrics_called: "guardMetrics jwt now token authorization r a = Called h who \<Longrightarrow> h = ''handleMetrics''"
  unfolding guardMetrics_def by (cases "token \<noteq> [] \<and> HasPrefix authorization bearer \<and> drop (length bearer) authorization = token")
    (simp_all add: after_session_Called, blast)

lemma called_dispatch:
  assumes "serve jwt now token authorization r a = Called h who" "h \<noteq> ''handleMetrics''"
  shows "\<exists>routes\<in>{public_routes, protected_routes, admin_routes}. dispatch routes (r_method r) (r_path r) = Some h"
proof -
  obtain h' where h': "dispatch public_routes (r_method r) (r_path r) = Some h'"
    using assms(1) by (simp add: serve_def split: option.splits)
  consider "h' = ''protected''" | "h' = ''handleMetrics''" | "h' \<noteq> ''protected''" "h' \<noteq> ''handleMetrics''" by blast
  then show ?thesis
  proof cases
    case 1
    then obtain c where "serve_protected r c = Called h who"
      using assms(1) h' unfolding serve_def by (simp add: after_session_Called) blast
    then show ?thesis using protected_dispatch by blast
  next
    case 2
    then show ?thesis using assms h' guardMetrics_called unfolding serve_def by simp
  next
    case 3
    then show ?thesis using assms(1) h' unfolding serve_def by simp
  qed
qed

text \<open>
  A request that is neither a POST nor a PUT nor a DELETE, such as a link or an image of another
  site makes the browser send, reaches no handler that changes users, clusters, layouts or bridges,
  or that starts or ends a session, other than the return from an OIDC provider.
\<close>

theorem reading_methods_change_nothing:
  assumes "serve jwt now token authorization r a = Called h who" "r_method r \<notin> {''POST'', ''PUT'', ''DELETE''}"
  shows "h \<notin> set changing_handlers"
proof
  assume h: "h \<in> set changing_handlers"
  have "''handleMetrics'' \<notin> set changing_handlers" by code_simp
  then have "h \<noteq> ''handleMetrics''" using h by metis
  then obtain routes where "routes \<in> {public_routes, protected_routes, admin_routes}" "dispatch routes (r_method r) (r_path r) = Some h"
    using called_dispatch[OF assms(1)] by blast
  then show False using dispatch_changing[of routes "r_method r" "r_path r" h] h assms(2) by auto
qed

section \<open>One label for all sessions\<close>

lemma protected_pattern:
  "list_all (\<lambda>r. snd (snd r) = ''protected'' \<longrightarrow> pattern_text r = ''/api/'') public_routes"
  by code_simp

text \<open>Whatever handler a session reaches, its request is logged and counted under the same route.\<close>

lemma sessions_share_a_route:
  assumes "serve jwt now token authorization r a = Called h (Some c)" "h \<noteq> ''handleMetrics''"
  shows "observed_pattern r = ''/api/''"
proof -
  have d: "dispatch public_routes (r_method r) (r_path r) = Some ''protected''"
    using assms by (auto simp: serve_def guardMetrics_def after_session_Called split: option.splits if_splits)
  then obtain m where m: "matched public_routes (r_method r) (r_path r) = Some m" "snd (snd m) = ''protected''"
    by (auto simp: dispatch_def)
  then show ?thesis using matched_listed(1)[OF m(1)] protected_pattern by (auto simp: observed_pattern_def list_all_iff)
qed

end
