(* ===== verification/Observability.thy ===== *)
theory Observability
  imports Routes LogBuf Decimal SubsRows ClusterApi MetricsStore WsHub
begin

text \<open>
  What the dashboard says about itself: \<^verbatim>\<open>internal/api/observability.go\<close> (the response capture, the request
  counters, the request ID and the metrics page), \<^verbatim>\<open>internal/api/handlers_health.go\<close> and
  \<^verbatim>\<open>internal/api/handlers_admin.go\<close>. Reachability of the database, the connection pool's and the
  runtime's numbers are parameters; the metrics page is the list of its samples.
\<close>

section \<open>The response capture\<close>

text \<open>A call on the response writer: a status line, or a body write with the bytes the connection took.\<close>

datatype writing = Header nat | Body nat

record capture =
  rw_status :: nat
  rw_size :: int
  rw_sent :: "writing list"

definition capture_WriteHeader :: "nat \<Rightarrow> capture \<Rightarrow> capture" where
  "capture_WriteHeader s c = (if rw_status c \<noteq> 0 then c else c\<lparr>rw_status := s, rw_sent := rw_sent c @ [Header s]\<rparr>)"

definition capture_Write :: "nat \<Rightarrow> capture \<Rightarrow> capture" where
  "capture_Write n c = (let c = (if rw_status c = 0 then capture_WriteHeader 200 c else c)
     in c\<lparr>rw_size := rw_size c + int n, rw_sent := rw_sent c @ [Body n]\<rparr>)"

definition capture_step :: "writing \<Rightarrow> capture \<Rightarrow> capture" where
  "capture_step w = (case w of Header s \<Rightarrow> capture_WriteHeader s | Body n \<Rightarrow> capture_Write n)"

definition new_capture :: capture where
  "new_capture = \<lparr>rw_status = 0, rw_size = 0, rw_sent = []\<rparr>"

section \<open>The request counters\<close>

record op_metrics =
  om_inFlight :: int
  om_panics :: "64 word"
  om_requests :: "(string, 64 word) gomap"
  om_duration :: "(string, int) gomap"

definition newOperationalMetrics :: op_metrics where
  "newOperationalMetrics = \<lparr>om_inFlight = 0, om_panics = 0, om_requests = [], om_duration = []\<rparr>"

definition request_key :: "string \<Rightarrow> nat \<Rightarrow> string" where
  "request_key route code = route @ CHR 0x00 # itoa (int code)"

definition record_request :: "string \<Rightarrow> nat \<Rightarrow> int \<Rightarrow> op_metrics \<Rightarrow> op_metrics" where
  "record_request route code d m = m\<lparr>om_requests := add_count (request_key route code) 1 (om_requests m),
     om_duration := gm_set route ((case map_of (om_duration m) route of None \<Rightarrow> 0 | Some v \<Rightarrow> v) + d) (om_duration m)\<rparr>"

text \<open>
  What the wrapped handler did: the pattern that the multiplexer left in the request, its writes,
  whether it panicked, and the time it took.
\<close>

record handled =
  hd_pattern :: string
  hd_writes :: "writing list"
  hd_panic :: bool
  hd_duration :: int

definition route_label :: "handled \<Rightarrow> string" where
  "route_label h = (if hd_pattern h = [] then ''unmatched'' else hd_pattern h)"

definition panic_body :: string where
  "panic_body = ''{'' @ [CHR 0x22] @ ''error'' @ [CHR 0x22, CHR '':'', CHR 0x22] @ ''internal server error'' @ [CHR 0x22, CHR ''}'', CHR 0x0A]"

definition recovered :: "bool \<Rightarrow> capture \<Rightarrow> capture" where
  "recovered panicked c = (if panicked \<and> rw_status c = 0
     then capture_Write (length panic_body) (capture_WriteHeader 500 c) else c)"

definition captured :: "handled \<Rightarrow> capture" where
  "captured h = recovered (hd_panic h) (fold capture_step (hd_writes h) new_capture)"

definition logged_status :: "handled \<Rightarrow> nat" where
  "logged_status h = (if rw_status (captured h) = 0 then 200 else rw_status (captured h))"

definition begin_request :: "op_metrics \<Rightarrow> op_metrics" where
  "begin_request m = m\<lparr>om_inFlight := om_inFlight m + 1\<rparr>"

definition finish_request :: "handled \<Rightarrow> op_metrics \<Rightarrow> op_metrics" where
  "finish_request h m =
    (let m = m\<lparr>om_inFlight := om_inFlight m - 1\<rparr>;
         m = (if hd_panic h then m\<lparr>om_panics := om_panics m + 1\<rparr> else m)
     in record_request (route_label h) (logged_status h) (hd_duration h) m)"

datatype ops_event = Started | Finished handled

definition ops_step :: "ops_event \<Rightarrow> op_metrics \<Rightarrow> op_metrics" where
  "ops_step e = (case e of Started \<Rightarrow> begin_request | Finished h \<Rightarrow> finish_request h)"

section \<open>The request ID and the client class\<close>

definition validRequestIDCharacter :: "char \<Rightarrow> bool" where
  "validRequestIDCharacter ch \<longleftrightarrow> ch = CHR ''-'' \<or> ch = CHR ''_'' \<or> ch = CHR ''.''
     \<or> 48 \<le> byte_of ch \<and> byte_of ch \<le> 57 \<or> 65 \<le> byte_of ch \<and> byte_of ch \<le> 90 \<or> 97 \<le> byte_of ch \<and> byte_of ch \<le> 122"

definition digit36 :: "nat \<Rightarrow> char" where
  "digit36 d = char_of (if d < 10 then 48 + d else 87 + d)"

definition hex_encode :: "nat list \<Rightarrow> string" where
  "hex_encode bs = concat (map (\<lambda>b. [digit36 (b div 16), digit36 (b mod 16)]) bs)"

fun base36 :: "nat \<Rightarrow> string" where
  "base36 n = (if n < 36 then [digit36 n] else base36 (n div 36) @ [digit36 (n mod 36)])"

text \<open>\<open>given\<close> is the request's header, \<open>rand\<close> sixteen random bytes unless their source fails.\<close>

definition requestID :: "string \<Rightarrow> nat list option \<Rightarrow> gotime \<Rightarrow> string" where
  "requestID given rand now =
    (if given \<noteq> [] \<and> length given \<le> 128 \<and> list_all validRequestIDCharacter given then given
     else case rand of Some bs \<Rightarrow> hex_encode bs | None \<Rightarrow> base36 (nat now))"

definition clientClass :: "string \<Rightarrow> string" where
  "clientClass userAgent = (let ua = ToLower userAgent
     in if Contains ua ''mozilla/'' then ''browser'' else if ua = [] then ''unknown'' else ''api'')"

section \<open>Probes\<close>

definition handleHealthz :: "bool \<Rightarrow> string reply" where
  "handleHealthz db_up_now = (if db_up_now then Reply 200 ''ok'' else Refuse 503 ''db_unavailable'')"

text \<open>\<open>ready\<close> is the flag that the shutdown clears; a missing manager is \<open>None\<close>.\<close>

definition handleReadiness :: "bool \<Rightarrow> bool \<Rightarrow> gotime \<Rightarrow> manager option \<Rightarrow> string reply" where
  "handleReadiness ready db_up_now now mgr = (case mgr of
      None \<Rightarrow> Refuse 503 ''not ready''
    | Some g \<Rightarrow>
        if \<not> ready \<or> \<not> db_up_now then Refuse 503 ''not ready''
        else if list_ex (\<lambda>(i, st). op_Polls st = 0) (OperationalStats now g) then Refuse 503 ''not ready''
        else Reply 200 ''ready'')"

section \<open>The status pages\<close>

definition LastSuccessUnix :: "operational_stats \<Rightarrow> int" where
  "LastSuccessUnix st = op_LastSuccess st div second"

record collector_status =
  dc_Status :: string
  dc_LastSuccessUnix :: int
  dc_SnapshotAge :: f64
  dc_PartialPolls :: "64 word"

definition collector_state :: "int \<Rightarrow> operational_stats \<Rightarrow> collector_status" where
  "collector_state staleAfter st =
    \<lparr>dc_Status = (if LastSuccessUnix st = 0 then ''unavailable''
                 else if 0 < staleAfter \<and> staleAfter < op_SnapshotAgeNanos st then ''stale'' else ''ok''),
     dc_LastSuccessUnix = LastSuccessUnix st, dc_SnapshotAge = Seconds (op_SnapshotAgeNanos st),
     dc_PartialPolls = op_PartialPolls st\<rparr>"

record 'p dependency_status =
  ds_Database :: string
  ds_Collectors :: "(string, collector_status) gomap"
  ds_IdentityProviders :: "'p list"
  ds_ReadinessIgnoresProviders :: bool

definition handleDependencyStatus :: "bool \<Rightarrow> gotime \<Rightarrow> int \<Rightarrow> manager option \<Rightarrow> 'p list \<Rightarrow> 'p dependency_status" where
  "handleDependencyStatus db_up_now now pollInterval mgr providers =
    \<lparr>ds_Database = (if db_up_now then ''ok'' else ''unavailable''),
     ds_Collectors = (case mgr of None \<Rightarrow> []
       | Some g \<Rightarrow> map (\<lambda>(i, st). (i, collector_state (3 * pollInterval) st)) (OperationalStats now g)),
     ds_IdentityProviders = providers, ds_ReadinessIgnoresProviders = True\<rparr>"

record admin_health =
  ah_Status :: string
  ah_WSClients :: nat
  ah_WSStaleClients :: nat
  ah_WSDroppedTotal :: "64 word"
  ah_DroppedSamples :: "64 word"
  ah_Clusters :: "(string \<times> cluster_health) list"

definition handleAdminHealth :: "gotime \<Rightarrow> manager \<Rightarrow> 'm hub \<Rightarrow> metrics_writer option \<Rightarrow> admin_health" where
  "handleAdminHealth now g h w = (let clusters = HealthReport now g
     in \<lparr>ah_Status = (if list_ex (\<lambda>(i, c). Degraded c) clusters then ''degraded'' else ''ok''),
         ah_WSClients = ClientCount h, ah_WSStaleClients = StaleClientCount h, ah_WSDroppedTotal = DroppedTotal h,
         ah_DroppedSamples = (case w of None \<Rightarrow> 0 | Some w \<Rightarrow> mw_droppedTotal w), ah_Clusters = clusters\<rparr>)"

text \<open>The loop that turns the entries around in place.\<close>

fun swap_ends :: "nat \<Rightarrow> nat \<Rightarrow> 'a list \<Rightarrow> 'a list" where
  "swap_ends i j xs = (if i < j then swap_ends (Suc i) (j - 1) (xs[i := xs ! j, j := xs ! i]) else xs)"

declare swap_ends.simps [simp del]

definition handleAdminLogs :: "'v ring option \<Rightarrow> 'v entry list" where
  "handleAdminLogs lb = (case lb of None \<Rightarrow> [] | Some r \<Rightarrow> swap_ends 0 (length (entries r) - 1) (entries r))"

end
