(* ===== verification/MetricsPage.thy ===== *)
theory MetricsPage
  imports Observability
begin

text \<open>
  The metrics page, \<^verbatim>\<open>handleMetrics\<close> of \<^verbatim>\<open>internal/api/observability.go\<close>, as the list of its samples: the
  name, the labels and the value. The text around them is the exposition format's. Splitting a
  counter's key panics where the key has no separator, which is \<open>None\<close>.
\<close>

section \<open>The sources\<close>

datatype sample_value = IntValue int | FloatValue f64

type_synonym sample = "string \<times> (string \<times> string) list \<times> sample_value"

definition metric :: "string \<Rightarrow> (string \<times> string) list \<Rightarrow> sample_value \<Rightarrow> sample" where
  "metric n ls v = (''nats_dashboard_'' @ n, ls, v)"

definition per_second :: "int \<Rightarrow> sample_value" where
  "per_second nanos = FloatValue (f_div (f_of_int nanos) (f_of_int second))"

definition snapshot_counters :: "op_metrics \<Rightarrow> (string, 64 word) gomap \<times> (string, int) gomap" where
  "snapshot_counters m = (om_requests m, om_duration m)"

fun key_parts :: "string \<Rightarrow> (string \<times> string) option" where
  "key_parts [] = None"
| "key_parts (c # s) = (if c = CHR 0x00 then Some ([], s) else map_option (\<lambda>(a, b). (c # a, b)) (key_parts s))"

definition keyed_samples :: "string \<Rightarrow> string \<Rightarrow> string \<Rightarrow> (string, 64 word) gomap \<Rightarrow> sample list option" where
  "keyed_samples n l1 l2 m = those (map (\<lambda>(key, v). map_option (\<lambda>(a, b). metric n [(l1, a), (l2, b)] (IntValue (uint v))) (key_parts key)) m)"

definition request_samples :: "op_metrics \<Rightarrow> sample list option" where
  "request_samples m = (let (requests, durations) = snapshot_counters m
     in map_option (\<lambda>counts.
          [metric ''http_in_flight'' [] (IntValue (om_inFlight m)), metric ''http_panics_total'' [] (IntValue (uint (om_panics m)))]
          @ counts @ map (\<lambda>(route, d). metric ''http_request_duration_seconds_total'' [(''route'', route)] (FloatValue (Seconds d))) durations)
        (keyed_samples ''http_requests_total'' ''route'' ''status'' requests))"

definition writer_samples :: "writer_stats \<Rightarrow> sample list" where
  "writer_samples st =
    [metric ''metrics_queue_depth'' [] (IntValue (ws_QueueDepth st)),
     metric ''metrics_samples_dropped_total'' [] (IntValue (uint (ws_Dropped st))),
     metric ''metrics_samples_written_total'' [] (IntValue (uint (ws_Written st))),
     metric ''metrics_samples_failed_total'' [] (IntValue (uint (ws_Failed st))),
     metric ''metrics_database_busy_total'' [] (IntValue (uint (ws_Busy st))),
     metric ''metrics_query_errors_total'' [] (IntValue (uint (ws_QueryErrors st))),
     metric ''metrics_last_write_duration_seconds'' [] (per_second (ws_LastWriteNanos st)),
     metric ''metrics_query_duration_seconds_total'' [] (per_second (ws_QueryNanos st)),
     metric ''metrics_cleanup_duration_seconds'' [] (per_second (ws_CleanupNanos st)),
     metric ''metrics_last_batch_rows'' [] (IntValue (ws_LastBatchRows st)),
     metric ''metrics_oldest_queued_sample_seconds'' [] (per_second (ws_OldestQueueAge st))]"

text \<open>The numbers of the connection pool; the size of the write-ahead log may be unreadable.\<close>

record pool_stats =
  po_OpenConnections :: int
  po_InUse :: int
  po_Idle :: int
  po_WaitCount :: int
  po_WaitDuration :: int

definition pool_samples :: "pool_stats \<Rightarrow> int option \<Rightarrow> sample list" where
  "pool_samples st wal =
    [metric ''database_open_connections'' [] (IntValue (po_OpenConnections st)),
     metric ''database_in_use_connections'' [] (IntValue (po_InUse st)),
     metric ''database_idle_connections'' [] (IntValue (po_Idle st)),
     metric ''database_wait_count_total'' [] (IntValue (po_WaitCount st)),
     metric ''database_wait_duration_seconds_total'' [] (FloatValue (Seconds (po_WaitDuration st)))]
    @ (case wal of None \<Rightarrow> [] | Some n \<Rightarrow> [metric ''database_wal_bytes'' [] (IntValue n)])"

definition hub_samples :: "ws_stats \<Rightarrow> sample list" where
  "hub_samples st =
    [metric ''websocket_clients'' [] (IntValue (int (st_Connected st))),
     metric ''websocket_messages_dropped_total'' [] (IntValue (uint (st_Dropped st))),
     metric ''websocket_subscriptions_total'' [] (IntValue (uint (st_Subscriptions st))),
     metric ''websocket_disconnects_total'' [] (IntValue (uint (st_Disconnects st))),
     metric ''websocket_write_failures_total'' [] (IntValue (uint (st_WriteFailures st))),
     metric ''websocket_send_queue_depth'' [] (IntValue (int (st_SendQueueDepth st)))]"

section \<open>Authentication\<close>

definition Metrics :: "auth \<Rightarrow> (string, 64 word) gomap" where
  "Metrics a = authEvents (a_counters a)"

definition ProviderDurations :: "auth \<Rightarrow> (string, 64 word) gomap" where
  "ProviderDurations a = providerNanos (a_counters a)"

definition RateLimiterMetrics :: "auth \<Rightarrow> rate_limiter_stats \<times> rate_limiter_stats" where
  "RateLimiterMetrics a = (rl_Stats (loginLimiter a), rl_Stats (localLoginLimiter a))"

definition OIDCFlowMetrics :: "auth \<Rightarrow> (string, flow_stats) gomap" where
  "OIDCFlowMetrics a = map (\<lambda>(n, p). (n, FlowStats p)) (oidcProviders a)"

definition limiter_samples :: "rate_limiter_stats \<Rightarrow> rate_limiter_stats \<Rightarrow> sample list" where
  "limiter_samples ordered_st local_st =
    [metric ''authentication_rate_limiter_keys'' [(''route'', ''ordered'')] (IntValue (Keys ordered_st)),
     metric ''authentication_rate_limiter_keys'' [(''route'', ''local'')] (IntValue (Keys local_st)),
     metric ''authentication_rate_limited_total'' [(''route'', ''ordered'')] (IntValue (uint (Rejected ordered_st))),
     metric ''authentication_rate_limited_total'' [(''route'', ''local'')] (IntValue (uint (Rejected local_st))),
     metric ''authentication_rate_limiter_evictions_total'' [(''route'', ''ordered'')] (IntValue (uint (Evicted ordered_st))),
     metric ''authentication_rate_limiter_evictions_total'' [(''route'', ''local'')] (IntValue (uint (Evicted local_st)))]"

definition auth_samples :: "auth \<Rightarrow> sample list option" where
  "auth_samples a = map_option (\<lambda>events. events
      @ map (\<lambda>(p, n). metric ''authentication_provider_duration_seconds_total'' [(''provider'', p)] (per_second (uint n))) (ProviderDurations a)
      @ (let (ordered_st, local_st) = RateLimiterMetrics a in limiter_samples ordered_st local_st)
      @ concat (map (\<lambda>(p, st). [metric ''oidc_flows_active'' [(''provider'', p)] (IntValue (int (fs_Active st))),
                               metric ''oidc_flow_evictions_total'' [(''provider'', p)] (IntValue (uint (fs_Evictions st)))]) (OIDCFlowMetrics a)))
    (keyed_samples ''authentication_events_total'' ''provider'' ''result'' (Metrics a))"

section \<open>Collectors and the page\<close>

definition collector_samples :: "string \<Rightarrow> operational_stats \<Rightarrow> sample list" where
  "collector_samples env_id st =
    [metric ''collector_polls_total'' [(''environment'', env_id)] (IntValue (uint (op_Polls st))),
     metric ''collector_partial_polls_total'' [(''environment'', env_id)] (IntValue (uint (op_PartialPolls st))),
     metric ''collector_last_poll_duration_seconds'' [(''environment'', env_id)] (per_second (op_LastPollNanos st)),
     metric ''collector_last_success_timestamp_seconds'' [(''environment'', env_id)] (IntValue (LastSuccessUnix st)),
     metric ''collector_snapshot_age_seconds'' [(''environment'', env_id)] (per_second (op_SnapshotAgeNanos st)),
     metric ''collector_discovery_skipped_total'' [(''environment'', env_id)] (IntValue (uint (op_DiscoverySkips st)))]
    @ map (\<lambda>(endpoint, n). metric ''collector_endpoint_failures_total'' [(''environment'', env_id), (''endpoint'', endpoint)] (IntValue (uint n)))
        (op_EndpointFailures st)"

definition subs_samples :: "subs_state \<Rightarrow> sample list" where
  "subs_samples s =
    [metric ''subscription_cache_hits_total'' [] (IntValue (uint (su_hits s))),
     metric ''subscription_cache_misses_total'' [] (IntValue (uint (su_misses s))),
     metric ''subscription_cache_evictions_total'' [] (IntValue (uint (su_evictions s))),
     metric ''subscription_cache_entries'' [] (IntValue (int (length (su_cache s))))]"

text \<open>Where a part of the server is missing its samples are left out.\<close>

record 'm page_world =
  pw_ops :: op_metrics
  pw_writer :: "metrics_writer option"
  pw_database :: "(pool_stats \<times> int option) option"
  pw_hub :: "'m hub option"
  pw_auth :: "auth option"
  pw_manager :: "manager option"
  pw_subs :: subs_state
  pw_goroutines :: int
  pw_heap :: "64 word"

definition if_present :: "('a \<Rightarrow> sample list) \<Rightarrow> 'a option \<Rightarrow> sample list" where
  "if_present f x = (case x of None \<Rightarrow> [] | Some v \<Rightarrow> f v)"

definition handleMetrics :: "gotime \<Rightarrow> 'm page_world \<Rightarrow> sample list option" where
  "handleMetrics now w =
    Option.bind (request_samples (pw_ops w)) (\<lambda>requests.
    Option.bind (case pw_auth w of None \<Rightarrow> Some [] | Some a \<Rightarrow> auth_samples a) (\<lambda>auths.
    Some (requests
      @ if_present (\<lambda>x. writer_samples (writer_Stats now x)) (pw_writer w)
      @ if_present (\<lambda>(st, wal). pool_samples st wal) (pw_database w)
      @ if_present (\<lambda>h. hub_samples (Stats h)) (pw_hub w)
      @ auths
      @ if_present (\<lambda>g. concat (map (\<lambda>(i, st). collector_samples i st) (OperationalStats now g))) (pw_manager w)
      @ subs_samples (pw_subs w)
      @ [metric ''go_goroutines'' [] (IntValue (pw_goroutines w)), metric ''go_heap_alloc_bytes'' [] (IntValue (uint (pw_heap w)))])))"

end
