(* ===== verification/ObservabilityProps.thy ===== *)
theory ObservabilityProps
  imports MetricsPage
begin

text \<open>
  The response capture sends one status line, the counters are those of the request log, the metrics
  page gives them back, and what readiness depends on.
\<close>

section \<open>One status line\<close>

definition is_body :: "writing \<Rightarrow> bool" where
  "is_body w \<longleftrightarrow> (case w of Header _ \<Rightarrow> False | Body _ \<Rightarrow> True)"

text \<open>Status codes have three digits; the library panics on others.\<close>

definition valid_write :: "writing \<Rightarrow> bool" where
  "valid_write w \<longleftrightarrow> (case w of Header s \<Rightarrow> 100 \<le> s | Body _ \<Rightarrow> True)"

definition capture_inv :: "capture \<Rightarrow> bool" where
  "capture_inv c \<longleftrightarrow> (if rw_status c = 0 then rw_sent c = []
     else \<exists>rest. rw_sent c = Header (rw_status c) # rest \<and> list_all is_body rest)"

lemma capture_step_inv: "capture_inv c \<Longrightarrow> valid_write w \<Longrightarrow> capture_inv (capture_step w c)"
  by (auto simp: capture_inv_def capture_step_def capture_Write_def capture_WriteHeader_def valid_write_def is_body_def
      split: writing.splits)

lemma capture_step_status: "valid_write w \<Longrightarrow> rw_status (capture_step w c) \<noteq> 0"
  by (auto simp: capture_step_def capture_Write_def capture_WriteHeader_def valid_write_def split: writing.splits)

lemma capture_step_keeps: "rw_status c \<noteq> 0 \<Longrightarrow> rw_status (capture_step w c) = rw_status c"
  by (auto simp: capture_step_def capture_Write_def capture_WriteHeader_def split: writing.splits)

lemma capture_run_keeps: "rw_status c \<noteq> 0 \<Longrightarrow> rw_status (fold capture_step ws c) = rw_status c"
  by (induction ws arbitrary: c) (simp_all add: capture_step_keeps)

lemma capture_run_inv: "list_all valid_write ws \<Longrightarrow> capture_inv c \<Longrightarrow> capture_inv (fold capture_step ws c)"
  by (induction ws arbitrary: c) (simp_all add: capture_step_inv)

lemma capture_run_status: "list_all valid_write ws \<Longrightarrow> ws \<noteq> [] \<Longrightarrow> rw_status (fold capture_step ws c) \<noteq> 0"
  by (cases ws) (simp_all add: capture_run_keeps capture_step_status)

lemma recovered_inv: "capture_inv c \<Longrightarrow> capture_inv (recovered p c)"
  by (auto simp: recovered_def capture_inv_def capture_Write_def capture_WriteHeader_def is_body_def)

text \<open>
  A handler that writes or panics makes exactly one status line go out, before any of the body, and
  it is the status that is logged and counted; after a panic it is 500 if nothing was written yet.
\<close>

lemma one_status_line:
  assumes "list_all valid_write (hd_writes h)" "hd_writes h \<noteq> [] \<or> hd_panic h"
  shows "\<exists>rest. rw_sent (captured h) = Header (logged_status h) # rest \<and> list_all is_body rest"
    and "hd_writes h = [] \<Longrightarrow> logged_status h = 500"
proof -
  have "capture_inv (captured h)"
    unfolding captured_def using assms(1) by (intro recovered_inv capture_run_inv) (auto simp: capture_inv_def new_capture_def)
  moreover have "rw_status (captured h) \<noteq> 0"
    using assms capture_run_status[OF assms(1)] by (auto simp: captured_def recovered_def capture_Write_def capture_WriteHeader_def)
  ultimately show "\<exists>rest. rw_sent (captured h) = Header (logged_status h) # rest \<and> list_all is_body rest"
    by (auto simp: capture_inv_def logged_status_def)
  show "hd_writes h = [] \<Longrightarrow> logged_status h = 500"
    using assms(2) by (auto simp: logged_status_def captured_def recovered_def capture_Write_def capture_WriteHeader_def new_capture_def)
qed

section \<open>The counters\<close>

definition finished :: "ops_event list \<Rightarrow> handled list" where
  "finished es = concat (map (\<lambda>e. case e of Started \<Rightarrow> [] | Finished h \<Rightarrow> [h]) es)"

definition starts :: "ops_event list \<Rightarrow> nat" where
  "starts es = length (filter (\<lambda>e. e = Started) es)"

definition of_route :: "string \<Rightarrow> handled list \<Rightarrow> handled list" where
  "of_route route hs = filter (\<lambda>h. route_label h = route) hs"

definition hits :: "string \<Rightarrow> nat \<Rightarrow> handled list \<Rightarrow> nat" where
  "hits route code hs = length (filter (\<lambda>h. logged_status h = code) (of_route route hs))"

definition ops_run :: "ops_event list \<Rightarrow> op_metrics" where
  "ops_run es = fold ops_step es newOperationalMetrics"

lemma add_count_get: "map_of (add_count k n m) = (map_of m)(k \<mapsto> (case map_of m k of None \<Rightarrow> 0 | Some v \<Rightarrow> v) + n)"
  by (simp add: add_count_def)

lemma request_key_inject: "request_key a s = request_key b t \<longleftrightarrow> a = b \<and> s = t"
  using last_part_inject[of a "CHR 0x00" "itoa (int s)" b "itoa (int t)"] itoa_no_separator[of "int s"] itoa_no_separator[of "int t"]
    itoa_inject[of "int s" "int t"]
  by (auto simp: request_key_def)

lemma finish_request_fields:
  "om_inFlight (finish_request h m) = om_inFlight m - 1"
  "om_panics (finish_request h m) = om_panics m + (if hd_panic h then 1 else 0)"
  "om_requests (finish_request h m) = add_count (request_key (route_label h) (logged_status h)) 1 (om_requests m)"
  "om_duration (finish_request h m) = gm_set (route_label h)
     ((case map_of (om_duration m) (route_label h) of None \<Rightarrow> 0 | Some v \<Rightarrow> v) + hd_duration h) (om_duration m)"
  by (simp_all add: finish_request_def record_request_def Let_def)

definition count_entry :: "nat \<Rightarrow> 64 word option" where
  "count_entry n = (if n = 0 then None else Some (of_nat n))"

definition duration_entry :: "handled list \<Rightarrow> int option" where
  "duration_entry hs = (if hs = [] then None else Some (sum_list (map hd_duration hs)))"

definition counters_of :: "ops_event list \<Rightarrow> op_metrics \<Rightarrow> bool" where
  "counters_of es m \<longleftrightarrow> om_inFlight m = int (starts es) - int (length (finished es))
     \<and> om_panics m = of_nat (length (filter hd_panic (finished es)))
     \<and> (\<forall>route code. map_of (om_requests m) (request_key route code) = count_entry (hits route code (finished es)))
     \<and> (\<forall>route. map_of (om_duration m) route = duration_entry (of_route route (finished es)))"

lemma counters_step:
  assumes "counters_of es m"
  shows "counters_of (es @ [e]) (ops_step e m)"
proof (cases e)
  case Started
  then show ?thesis using assms by (simp add: counters_of_def ops_step_def begin_request_def starts_def finished_def)
next
  case (Finished h)
  have hs: "finished (es @ [e]) = finished es @ [h]" "starts (es @ [e]) = starts es" "ops_step e m = finish_request h m"
    by (simp_all add: Finished finished_def starts_def ops_step_def)
  have r: "map_of (om_requests (finish_request h m)) (request_key route code) = count_entry (hits route code (finished es @ [h]))" for route code
    using assms by (auto simp: counters_of_def finish_request_fields add_count_get request_key_inject hits_def of_route_def count_entry_def)
  have d: "map_of (om_duration (finish_request h m)) route = duration_entry (of_route route (finished es @ [h]))" for route
    using assms by (auto simp: counters_of_def finish_request_fields of_route_def duration_entry_def)
  show ?thesis using assms unfolding counters_of_def hs by (simp add: r d finish_request_fields(1,2))
qed

lemma counters_of_run: "counters_of es (ops_run es)"
proof (induction es rule: rev_induct)
  case Nil
  show ?case
    by (simp add: counters_of_def ops_run_def newOperationalMetrics_def starts_def finished_def hits_def of_route_def
        count_entry_def duration_entry_def)
next
  case (snoc e es)
  then show ?case using counters_step[of es "ops_run es" e] by (simp add: ops_run_def)
qed

text \<open>
  C39. The operational counters are those of the request log, however requests overlap: the number in
  flight is that of the started requests less the finished ones; the counter of a route and a
  status, modulo 2 to the 64, the number of finished requests logged with both, and absent if
  there are none; the duration of a route the sum of theirs; and every panic counts once.
\<close>

theorem counters_are_the_request_log:
  "om_inFlight (ops_run es) = int (starts es) - int (length (finished es))
   \<and> om_panics (ops_run es) = of_nat (length (filter hd_panic (finished es)))
   \<and> map_of (om_requests (ops_run es)) (request_key route code) = count_entry (hits route code (finished es))
   \<and> map_of (om_duration (ops_run es)) route = duration_entry (of_route route (finished es))"
  using counters_of_run[of es] by (simp add: counters_of_def)

section \<open>The metrics page\<close>

lemma key_parts_request_key: "CHR 0x00 \<notin> set route \<Longrightarrow> key_parts (request_key route code) = Some (route, itoa (int code))"
  unfolding request_key_def by (induction route) auto

lemma those_map_Some: "(\<And>x. x \<in> set xs \<Longrightarrow> f x = Some (g x)) \<Longrightarrow> those (map f xs) = Some (map g xs)"
  by (induction xs) auto

definition plain_pattern :: "handled \<Rightarrow> bool" where
  "plain_pattern h \<longleftrightarrow> CHR 0x00 \<notin> set (hd_pattern h)"

definition keys_of :: "op_metrics \<Rightarrow> bool" where
  "keys_of m \<longleftrightarrow> gm_ok (om_requests m)
     \<and> (\<forall>k\<in>fst ` set (om_requests m). \<exists>route code. CHR 0x00 \<notin> set route \<and> k = request_key route code)"

lemma keys_of_step:
  assumes "keys_of m" "\<And>h. e = Finished h \<Longrightarrow> plain_pattern h"
  shows "keys_of (ops_step e m)"
proof (cases e)
  case Started
  then show ?thesis using assms(1) by (simp add: keys_of_def ops_step_def begin_request_def)
next
  case (Finished h)
  have "CHR 0x00 \<notin> set (route_label h)"
    using assms(2)[OF Finished] by (auto simp: plain_pattern_def route_label_def)
  moreover have "fst ` set (gm_set k v r) = insert k (fst ` set r)" for k v and r :: "(string, 64 word) gomap"
    by (simp flip: dom_map_of_conv_image_fst)
  ultimately show ?thesis using assms(1) Finished
    by (auto simp: keys_of_def ops_step_def finish_request_fields add_count_def)
qed

lemma keys_of_run: "list_all plain_pattern (finished es) \<Longrightarrow> keys_of (ops_run es)"
proof (induction es rule: rev_induct)
  case Nil
  then show ?case by (simp add: keys_of_def ops_run_def newOperationalMetrics_def)
next
  case (snoc e es)
  then have "keys_of (ops_run es)" "\<And>h. e = Finished h \<Longrightarrow> plain_pattern h" by (auto simp: finished_def)
  then show ?case using keys_of_step[of "ops_run es" e] by (simp add: ops_run_def)
qed

definition request_sample :: "string \<Rightarrow> nat \<Rightarrow> 64 word \<Rightarrow> sample" where
  "request_sample route code n = metric ''http_requests_total'' [(''route'', route), (''status'', itoa (int code))] (IntValue (uint n))"

lemma request_samples_keys:
  assumes "keys_of m"
  shows "\<exists>page. request_samples m = Some page
    \<and> (\<forall>route code n. CHR 0x00 \<notin> set route \<longrightarrow>
        request_sample route code n \<in> set page \<longleftrightarrow> (request_key route code, n) \<in> set (om_requests m))"
proof -
  define sample where "sample = (\<lambda>(key, v :: 64 word). metric ''http_requests_total''
    [(''route'', fst (the (key_parts key))), (''status'', snd (the (key_parts key)))] (IntValue (uint v)))"
  define rest where "rest = map (\<lambda>(route, d). metric ''http_request_duration_seconds_total'' [(''route'', route)] (FloatValue (Seconds d))) (om_duration m)"
  define start where "start = [metric ''http_in_flight'' [] (IntValue (om_inFlight m)), metric ''http_panics_total'' [] (IntValue (uint (om_panics m)))]"
  have parts: "\<exists>route code. CHR 0x00 \<notin> set route \<and> key = request_key route code" if "(key, v) \<in> set (om_requests m)" for key v
    using assms that by (force simp: keys_of_def)
  have "keyed_samples ''http_requests_total'' ''route'' ''status'' (om_requests m) = Some (map sample (om_requests m))"
    unfolding keyed_samples_def sample_def by (rule those_map_Some) (use parts in \<open>force simp: key_parts_request_key\<close>)
  then have page: "request_samples m = Some (start @ map sample (om_requests m) @ rest)"
    by (simp add: request_samples_def snapshot_counters_def start_def rest_def)
  have other: "request_sample route code n \<notin> set start" "request_sample route code n \<notin> set rest" for route code n
    by (auto simp: request_sample_def start_def rest_def metric_def)
  have same: "request_sample route code n \<in> sample ` set (om_requests m) \<longleftrightarrow> (request_key route code, n) \<in> set (om_requests m)"
    if r: "CHR 0x00 \<notin> set route" for route code n
  proof
    assume "request_sample route code n \<in> sample ` set (om_requests m)"
    then obtain key v where kv: "(key, v) \<in> set (om_requests m)" "request_sample route code n = sample (key, v)" by auto
    then obtain a s where a: "CHR 0x00 \<notin> set a" "key = request_key a s" using parts by blast
    then have "a = route" "itoa (int s) = itoa (int code)" "uint v = uint n"
      using kv(2) by (simp_all add: request_sample_def sample_def metric_def key_parts_request_key)
    then have "a = route" "s = code" "v = n" using itoa_inject[of "int s" "int code"] by (simp_all add: word_uint_eqI)
    then show "(request_key route code, n) \<in> set (om_requests m)" using kv a by simp
  next
    assume "(request_key route code, n) \<in> set (om_requests m)"
    moreover have "sample (request_key route code, n) = request_sample route code n"
      using r by (simp add: sample_def request_sample_def key_parts_request_key)
    ultimately show "request_sample route code n \<in> sample ` set (om_requests m)" by (metis image_eqI)
  qed
  show ?thesis using page same other by auto
qed

text \<open>
  A scrape reads the request counters back: the page has a sample for a route and a status exactly
  if a request was logged with both, one sample only, and its value is their number modulo 2 to the 64.
  The patterns of the routes hold no zero byte, which separates the parts of a counter's key.
\<close>

theorem scrape_reads_counters_back:
  assumes "list_all plain_pattern (finished es)" "CHR 0x00 \<notin> set route"
  shows "\<exists>page. request_samples (ops_run es) = Some page
    \<and> (\<forall>n. request_sample route code n \<in> set page \<longleftrightarrow> count_entry (hits route code (finished es)) = Some n)"
proof -
  let ?m = "ops_run es"
  have k: "keys_of ?m" using keys_of_run assms(1) by blast
  obtain page where page: "request_samples ?m = Some page"
    "\<And>r c n. CHR 0x00 \<notin> set r \<Longrightarrow> request_sample r c n \<in> set page \<longleftrightarrow> (request_key r c, n) \<in> set (om_requests ?m)"
    using request_samples_keys[OF k] by blast
  have "(request_key route code, n) \<in> set (om_requests ?m) \<longleftrightarrow> count_entry (hits route code (finished es)) = Some n" for n
    using k counters_of_run[of es] by (simp add: keys_of_def gm_mem_get counters_of_def)
  then show ?thesis using page assms(2) by blast
qed

lemma scrape_reads_counters_back_witness:
  "\<exists>page. request_samples (ops_run [Started, Started, Finished \<lparr>hd_pattern = ''GET /livez'', hd_writes = [Body 16], hd_panic = False, hd_duration = 5\<rparr>]) = Some page
    \<and> request_sample ''GET /livez'' 200 1 \<in> set page \<and> request_sample ''GET /livez'' 500 1 \<notin> set page"
proof -
  let ?es = "[Started, Started, Finished \<lparr>hd_pattern = ''GET /livez'', hd_writes = [Body 16], hd_panic = False, hd_duration = 5\<rparr>]"
  have "list_all plain_pattern (finished ?es)" "CHR 0x00 \<notin> set ''GET /livez''" by (simp_all add: finished_def plain_pattern_def)
  note page = scrape_reads_counters_back[OF this]
  have "count_entry (hits ''GET /livez'' 200 (finished ?es)) = Some 1" "count_entry (hits ''GET /livez'' 500 (finished ?es)) = None"
    by (simp_all add: count_entry_def hits_def of_route_def finished_def route_label_def logged_status_def captured_def recovered_def
        capture_step_def capture_Write_def capture_WriteHeader_def new_capture_def)
  then show ?thesis using page[of 200] page[of 500] by auto
qed

section \<open>Readiness\<close>

lemma ready_iff: "handleReadiness ready db_up_now now (Some g) = Reply 200 ''ready''
    \<longleftrightarrow> ready \<and> db_up_now \<and> (\<forall>(i, c)\<in>set (g_collectors g). k_polls c \<noteq> 0)"
  by (force simp: handleReadiness_def OperationalStats_def operationalStats_def list_ex_iff)

lemma not_ready: "(i, c) \<in> set (g_collectors g) \<Longrightarrow> k_polls c = 0 \<Longrightarrow> handleReadiness ready db_up_now now (Some g) = Refuse 503 ''not ready''"
  by (auto simp: handleReadiness_def OperationalStats_def operationalStats_def list_ex_iff)

definition same_connection :: "environment \<Rightarrow> environment \<Rightarrow> bool" where
  "same_connection old new \<longleftrightarrow> serversSame (e_Servers old) (e_Servers new) \<and> tlsSame (e_TLS old) (e_TLS new)
     \<and> natsConnSame (e_NATSConn old) (e_NATSConn new)"

lemma added_unpolled:
  assumes "addCluster build cl g = (g', True)" "map_of (g_collectors g) (cl_ID cl) = None"
  shows "\<exists>c. g_collectors g' = gm_set (cl_ID cl) c (g_collectors g) \<or> g_collectors g' = gm_set (cl_ID cl) c (gm_set (cl_ID cl) (newCollector (cl_env cl) (g_interval g)) (g_collectors g))"
    "\<exists>c. map_of (g_collectors g') (cl_ID cl) = Some c \<and> k_polls c = 0"
proof -
  have polls: "k_polls (newCollector env i) = 0" "k_polls (startCollector env c) = k_polls c" for env i c
    by (simp_all add: newCollector_def startCollector_def Let_def split: option.splits)
  show "\<exists>c. g_collectors g' = gm_set (cl_ID cl) c (g_collectors g) \<or> g_collectors g' = gm_set (cl_ID cl) c (gm_set (cl_ID cl) (newCollector (cl_env cl) (g_interval g)) (g_collectors g))"
    using assms by (auto simp: addCluster_def launch_def Let_def split: if_splits)
  show "\<exists>c. map_of (g_collectors g') (cl_ID cl) = Some c \<and> k_polls c = 0"
    using assms by (auto simp: addCluster_def launch_def Let_def polls split: if_splits)
qed

lemma update_adds:
  assumes "UpdateCluster build cl g = (g', True)"
    and "\<And>c. map_of (g_collectors g) (cl_ID cl) = Some c \<Longrightarrow> \<not> same_connection (k_env c) (cl_env cl)"
  shows "\<exists>g0. addCluster build cl g0 = (g', True) \<and> map_of (g_collectors g0) (cl_ID cl) = None
    \<and> (gm_ok (g_collectors g) \<longrightarrow> gm_ok (g_collectors g0)) \<and> set (g_collectors g0) \<subseteq> set (g_collectors g)"
proof (cases "map_of (g_collectors g) (cl_ID cl)")
  case None
  then show ?thesis using assms(1) by (intro exI[of _ g]) (simp add: UpdateCluster_def)
next
  case (Some c)
  have "set (gm_del (cl_ID cl) (g_collectors g)) \<subseteq> set (g_collectors g)" by (auto simp: gm_del_def)
  then show ?thesis using assms(1) assms(2)[OF Some] Some
    by (intro exI[of _ "RemoveCluster (cl_ID cl) g"])
      (auto simp: UpdateCluster_def same_connection_def RemoveCluster_def Let_def split: if_splits)
qed

lemma poll_counted: "k_polls (poll ck w fetch order slow c) = k_polls c + 1"
proof -
  have d: "k_polls (maybeDiscoverBridges k) = k_polls k" for k by (simp add: maybeDiscoverBridges_def)
  have h: "k_polls (poll_http ck fetch order slow k) = k_polls k" for k by (simp add: poll_http_def Let_def d)
  have y: "pollSYS ck w slow sc k = Some k' \<Longrightarrow> k_polls k' = k_polls k" for sc k k'
    by (auto simp: pollSYS_def split: option.splits if_splits)
  have t: "(if b then pollSYS ck w slow sc k else None) = Some k' \<Longrightarrow> k_polls k' = k_polls k" for b sc k k'
    by (cases b) (simp_all add: y)
  have "k_polls (poll_body ck w fetch order slow c) = k_polls c"
    unfolding poll_body_def by (auto simp: Let_def d h dest: y t split: option.split)
  then show ?thesis by (simp add: poll_def Let_def)
qed

text \<open>
  C40. A cluster that was added, or updated with other servers, TLS or NATS settings, makes the whole
  dashboard unready, whatever the other clusters do, until the first poll of its new collector
  has ended, whatever that poll found; then readiness is what it was before.
\<close>

theorem changed_cluster_awaits_first_poll:
  assumes "UpdateCluster build cl g = (g', True)" "gm_ok (g_collectors g)"
    and "\<And>c. map_of (g_collectors g) (cl_ID cl) = Some c \<Longrightarrow> \<not> same_connection (k_env c) (cl_env cl)"
  shows "handleReadiness ready up now (Some g') = Refuse 503 ''not ready''
    \<and> (\<exists>c. map_of (g_collectors g') (cl_ID cl) = Some c
        \<and> (handleReadiness True True now (Some g) = Reply 200 ''ready'' \<longrightarrow>
           handleReadiness True True now (Some (g'\<lparr>g_collectors := gm_set (cl_ID cl) (poll ck w fetch order slow c) (g_collectors g')\<rparr>))
             = Reply 200 ''ready''))"
proof -
  obtain g0 where g0: "addCluster build cl g0 = (g', True)" "map_of (g_collectors g0) (cl_ID cl) = None"
    "gm_ok (g_collectors g0)" "set (g_collectors g0) \<subseteq> set (g_collectors g)"
    using update_adds[OF assms(1,3)] assms(2) by blast
  obtain c where c: "map_of (g_collectors g') (cl_ID cl) = Some c" "k_polls c = 0" using added_unpolled(2)[OF g0(1,2)] by blast
  let ?ms = "gm_set (cl_ID cl) (poll ck w fetch order slow c) (g_collectors g')"
  obtain d where d: "g_collectors g' = gm_set (cl_ID cl) d (g_collectors g0) \<or> (\<exists>d0. g_collectors g' = gm_set (cl_ID cl) d (gm_set (cl_ID cl) d0 (g_collectors g0)))"
    using added_unpolled(1)[OF g0(1,2)] by blast
  then have ok: "gm_ok ?ms" using g0(3) by auto
  have "k_polls x \<noteq> 0" if r: "handleReadiness True True now (Some g) = Reply 200 ''ready''" and x: "(i, x) \<in> set ?ms" for i x
  proof (cases "i = cl_ID cl")
    case True
    then show ?thesis using x ok c(2) poll_counted[of ck w fetch order slow c] by (simp add: gm_mem_get)
  next
    case False
    then have "map_of (g_collectors g0) i = Some x" using x ok d by (auto simp: gm_mem_get)
    then have "(i, x) \<in> set (g_collectors g)" using g0(4) map_of_SomeD by fastforce
    then show ?thesis using r by (auto simp: ready_iff)
  qed
  then show ?thesis using not_ready[OF map_of_SomeD[OF c(1)] c(2)] c(1) by (auto simp: ready_iff)
qed

definition quiet_manager :: manager where
  "quiet_manager = \<lparr>g_collectors = [], g_cancels = [], g_started = True, g_interval = second\<rparr>"

definition first_cluster :: managed_cluster where
  "first_cluster = \<lparr>cl_ID = ''c1'', cl_env = ToEnvironment \<lparr>kl_ID = ''c1'', kl_Name = ''prod'', kl_Servers = [''http://n1''],
     kl_MQTTBridges = [], kl_MQTTDiscovery = None, kl_TLS = None, kl_AdminToken = [], kl_NATSConn = None, kl_CreatedAt = 0\<rparr>\<rparr>"

lemma changed_cluster_awaits_first_poll_witness:
  "handleReadiness True True 0 (Some quiet_manager) = Reply 200 ''ready''
   \<and> snd (UpdateCluster (\<lambda>_. True) first_cluster quiet_manager)
   \<and> handleReadiness True True 0 (Some (fst (UpdateCluster (\<lambda>_. True) first_cluster quiet_manager))) = Refuse 503 ''not ready''"
proof -
  have r: "handleReadiness True True 0 (Some quiet_manager) = Reply 200 ''ready''" by (simp add: ready_iff quiet_manager_def)
  obtain g' where g': "UpdateCluster (\<lambda>_. True) first_cluster quiet_manager = (g', True)"
    by (cases "UpdateCluster (\<lambda>_. True) first_cluster quiet_manager") (simp add: UpdateCluster_def addCluster_def quiet_manager_def Let_def)
  have "handleReadiness True True 0 (Some g') = Refuse 503 ''not ready''"
    using changed_cluster_awaits_first_poll[OF g', of True True 0] by (simp add: quiet_manager_def)
  then show ?thesis using r g' by simp
qed

end
