(* ===== verification/ProviderSetup.thy ===== *)
theory ProviderSetup
  imports Auth ConfigModel UrlText
begin

text \<open>
  From the configuration to the sign-in providers: \<^verbatim>\<open>NewLDAPProvider\<close>, \<^verbatim>\<open>dial\<close> and \<^verbatim>\<open>BuildProviderSet\<close> of
  \<^verbatim>\<open>internal/auth/ldap.go\<close>. The system's certificate pool and the LDAP library are parameters: a dialling
  plan stands for the connection that the library makes of it. The dereference of a missing section is a panic.
\<close>

section \<open>LDAP\<close>

text \<open>The certificates are checked against the system's roots and these.\<close>

record tls_settings =
  lt_ServerName :: string
  lt_SkipVerify :: bool
  lt_ExtraRoots :: "string option"

record ldap_provider =
  lq_name :: string
  lq_domains :: "string list"
  lq_config :: ldap_auth_config
  lq_tls :: tls_settings
  lq_dialURL :: string

datatype setup_error = LdapURLParse | LdapCARead | LdapCANoCertificates | NilSection

definition NewLDAPProvider :: "host \<Rightarrow> string \<Rightarrow> string list \<Rightarrow> ldap_auth_config \<Rightarrow> setup_error + ldap_provider" where
  "NewLDAPProvider h name domains c = (case url_Parse (ld_URL c) of
      None \<Rightarrow> Inl LdapURLParse
    | Some u \<Rightarrow>
        let made = (\<lambda>roots. \<lparr>lq_name = name, lq_domains = domains, lq_config = c,
              lq_tls = \<lparr>lt_ServerName = Hostname u, lt_SkipVerify = ld_InsecureSkipVerify c, lt_ExtraRoots = roots\<rparr>,
              lq_dialURL = ld_URL c\<rparr>)
        in if ld_CAFile c = [] then Inr (made None)
           else case read_file h (ld_CAFile c) of
             None \<Rightarrow> Inl LdapCARead
           | Some pem \<Rightarrow> if pem_certs h pem then Inr (made (Some pem)) else Inl LdapCANoCertificates)"

text \<open>TLS around the connection from its start, or an upgrade of the open connection.\<close>

datatype protection = FromStart tls_settings | StartTLS tls_settings

record dial_plan =
  dp_URL :: string
  dp_Timeout :: int
  dp_Protections :: "protection list"

definition ldap_dial :: "ldap_provider \<Rightarrow> dial_plan" where
  "ldap_dial p = \<lparr>dp_URL = lq_dialURL p, dp_Timeout = ld_Timeout (lq_config p),
     dp_Protections = (if HasPrefix (ToLower (lq_dialURL p)) ''ldaps://'' then [FromStart (lq_tls p)] else [])
       @ (if ld_StartTLS (lq_config p) then [StartTLS (lq_tls p)] else [])\<rparr>"

definition ldap_settings :: "ldap_provider \<Rightarrow> ldap_config" where
  "ldap_settings p = (let c = lq_config p in \<lparr>BindDN = ld_BindDN c, BindPassword = ld_BindPassword c, UserBaseDN = ld_UserBaseDN c,
     UserFilter = ld_UserFilter c, UsernameAttribute = ld_UsernameAttribute c, SubjectAttribute = ld_SubjectAttribute c,
     DisplayNameAttribute = ld_DisplayNameAttribute c, EmailAttribute = ld_EmailAttribute c, GroupAttribute = ld_GroupAttribute c,
     GroupBaseDN = ld_GroupBaseDN c, NestedActiveDirectory = ld_NestedActiveDirectory c, AdminGroups = ld_AdminGroups c,
     ViewerGroups = ld_ViewerGroups c, DefaultRole = ld_DefaultRole c, MatchDomains = lq_domains p\<rparr>)"

text \<open>As the chain of providers sees it; \<open>connect\<close> is the directory behind a plan.\<close>

definition chain_provider :: "(dial_plan \<Rightarrow> directory) \<Rightarrow> bool \<times> bool \<Rightarrow> ldap_provider \<Rightarrow> provider" where
  "chain_provider connect cancelled p = \<lparr>p_name = lq_name p, p_type = ''ldap'',
     p_auth = ldap_Authenticate (connect (ldap_dial p)) (ldap_settings p) (lq_name p) cancelled\<rparr>"

section \<open>The set\<close>

record provider_info =
  pi_Name :: string
  pi_Type :: string
  pi_LoginURL :: string

record provider_set =
  ps_Password :: "ldap_provider list"
  ps_OIDC :: "oidc_provider list"
  ps_Info :: "provider_info list"

text \<open>\<^verbatim>\<open>url.PathEscape\<close>.\<close>

definition PathEscape :: "string \<Rightarrow> string" where
  "PathEscape s = concat (map (\<lambda>c. if is_alnum c \<or> unreserved_mark c \<or> c \<in> set ''$&+=:@'' then [c]
     else [CHR ''%'', upper_hex (byte_of c div 16), upper_hex (byte_of c mod 16)]) s)"

definition oidc_settings :: "oidc_auth_config \<Rightarrow> oidc_config" where
  "oidc_settings c = \<lparr>GroupsClaim = oa_GroupsClaim c, UsernameClaim = oa_UsernameClaim c, EmailClaim = oa_EmailClaim c,
     DisplayNameClaim = oa_DisplayNameClaim c, oAdminGroups = oa_AdminGroups c, oViewerGroups = oa_ViewerGroups c,
     oDefaultRole = oa_DefaultRole c, oScopes = oa_Scopes c\<rparr>"

definition add_provider :: "host \<Rightarrow> string \<Rightarrow> auth_provider_config \<Rightarrow> provider_set \<Rightarrow> setup_error + provider_set" where
  "add_provider h base p s =
    (if ap_Type p = ''ldap'' then
       (case ap_LDAP p of
          None \<Rightarrow> Inl NilSection
        | Some c \<Rightarrow> try_bind (NewLDAPProvider h (ap_Name p) (ap_Domains p) c) (\<lambda>q.
            Inr (s\<lparr>ps_Password := ps_Password s @ [q],
                   ps_Info := ps_Info s @ [\<lparr>pi_Name = ap_Name p, pi_Type = ''ldap'', pi_LoginURL = []\<rparr>]\<rparr>)))
     else if ap_Type p = ''oidc'' then
       (case ap_OIDC p of
          None \<Rightarrow> Inl NilSection
        | Some c \<Rightarrow> Inr (s\<lparr>ps_OIDC := ps_OIDC s @ [NewOIDCProvider (ap_Name p) base (oidc_settings c)],
            ps_Info := ps_Info s @ [\<lparr>pi_Name = ap_Name p, pi_Type = ''oidc'',
              pi_LoginURL = ''/api/auth/oidc/'' @ PathEscape (ap_Name p) @ ''/login''\<rparr>]\<rparr>))
     else Inr s)"

fun add_providers :: "host \<Rightarrow> string \<Rightarrow> auth_provider_config list \<Rightarrow> provider_set \<Rightarrow> setup_error + provider_set" where
  "add_providers h base [] s = Inr s"
| "add_providers h base (p # ps) s = try_bind (add_provider h base p s) (add_providers h base ps)"

definition BuildProviderSet :: "host \<Rightarrow> authentication_config \<Rightarrow> setup_error + provider_set" where
  "BuildProviderSet h a = add_providers h (au_PublicURL a) (au_Providers a) \<lparr>ps_Password = [], ps_OIDC = [], ps_Info = []\<rparr>"

section \<open>Accepted configurations\<close>

lemma scheme_prefix:
  assumes "url_Parse raw = Some u" "u_Host u \<noteq> []" "u_Scheme u \<noteq> []"
  shows "HasPrefix (ToLower raw) (u_Scheme u @ ''://'')"
proof -
  obtain v f q where v: "parse_no_fragment (fst (Cut raw (CHR ''#''))) = Some v" "u = v\<lparr>u_Fragment := f, u_RawFragment := q\<rparr>"
    using parsed_fragment[OF assms(1)] by blast
  let ?s = "fst (Cut raw (CHR ''#''))"
  obtain sch r where r: "getScheme ?s = Some (sch, r)"
    "parse_hierarchical (ToLower sch) (fst (cut_query r)) (fst (snd (cut_query r))) (snd (snd (cut_query r))) = Some v"
    by (rule parsed_hierarchy[OF v(1)]) (use assms(2) v(2) in auto)
  then have sl: "HasPrefix (fst (cut_query r)) ''//''" and sch: "u_Scheme u = ToLower sch" "sch \<noteq> []"
    using assms(2,3) v(2) by (auto simp: parse_hierarchical_def Let_def empty_url_def ToLower_def split: if_splits option.splits prod.splits)
  have "?s = sch @ CHR '':'' # r" using getScheme_Some[OF r(1) sch(2)] by simp
  moreover obtain t where "r = ''//'' @ t"
    using sl unfolding cut_query_fst HasPrefix_iff by (metis append.assoc takeWhile_dropWhile_id)
  moreover have "raw = ?s @ dropWhile (\<lambda>x. x \<noteq> CHR ''#'') raw" by (simp add: Cut_def)
  ultimately have "raw = sch @ ''://'' @ t @ dropWhile (\<lambda>x. x \<noteq> CHR ''#'') raw" by (metis append.assoc append_Cons append_Nil)
  then have "ToLower raw = ToLower sch @ ToLower ''://'' @ ToLower (t @ dropWhile (\<lambda>x. x \<noteq> CHR ''#'') raw)"
    unfolding ToLower_def by (metis map_append)
  moreover have "ToLower ''://'' = ''://''" by code_simp
  ultimately show ?thesis using sch(1) by (metis HasPrefix_append append.assoc)
qed

definition encrypted_to :: "string \<Rightarrow> bool \<Rightarrow> protection \<Rightarrow> bool" where
  "encrypted_to name skip t \<longleftrightarrow> (let s = (case t of FromStart s \<Rightarrow> s | StartTLS s \<Rightarrow> s) in lt_ServerName s = name \<and> (lt_SkipVerify s \<longrightarrow> skip))"

text \<open>The host of the URL under TLS, unless the configuration opted into plain text.\<close>

definition guarded_dial :: "ldap_provider \<Rightarrow> bool" where
  "guarded_dial p \<longleftrightarrow> (case url_Parse (lq_dialURL p) of None \<Rightarrow> False
     | Some u \<Rightarrow> (dp_Protections (ldap_dial p) \<noteq> [] \<or> ld_AllowPlaintext (lq_config p))
         \<and> list_all (encrypted_to (Hostname u) (ld_InsecureSkipVerify (lq_config p))) (dp_Protections (ldap_dial p)))"

lemma safe_ldap_guarded:
  assumes "safe_ldap c" "NewLDAPProvider h name domains c = Inr p"
  shows "guarded_dial p"
proof -
  obtain u where u: "url_Parse (ld_URL c) = Some u" "u_Host u \<noteq> []"
    "u_Scheme u = ''ldaps'' \<or> ld_StartTLS c \<or> ld_AllowPlaintext c"
    using assms(1) by (auto simp: safe_ldap_def split: option.splits)
  obtain roots where p: "p = \<lparr>lq_name = name, lq_domains = domains, lq_config = c,
      lq_tls = \<lparr>lt_ServerName = Hostname u, lt_SkipVerify = ld_InsecureSkipVerify c, lt_ExtraRoots = roots\<rparr>, lq_dialURL = ld_URL c\<rparr>"
    using assms(2) u(1) by (auto simp: NewLDAPProvider_def Let_def split: if_splits option.splits)
  have "u_Scheme u = ''ldaps'' \<Longrightarrow> HasPrefix (ToLower (ld_URL c)) ''ldaps://''"
    using scheme_prefix[OF u(1,2)] by simp
  then show ?thesis using u by (auto simp: guarded_dial_def p ldap_dial_def encrypted_to_def)
qed

definition set_ok :: "auth_provider_config list \<Rightarrow> provider_set \<Rightarrow> bool" where
  "set_ok ps s \<longleftrightarrow> map pi_Name (ps_Info s) = map ap_Name ps
     \<and> map lq_name (ps_Password s) = map ap_Name (filter (\<lambda>p. ap_Type p = ''ldap'') ps)
     \<and> map o_name (ps_OIDC s) = map ap_Name (filter (\<lambda>p. ap_Type p = ''oidc'') ps)
     \<and> list_all guarded_dial (ps_Password s)"

lemma add_provider_ok:
  assumes "safe_provider p" "set_ok ps s"
  shows "add_provider h url p s \<noteq> Inl NilSection" "add_provider h url p s = Inr s' \<Longrightarrow> set_ok (ps @ [p]) s'"
proof -
  have new: "NewLDAPProvider h n d c \<noteq> Inl NilSection" for n d c
    by (auto simp: NewLDAPProvider_def Let_def split: option.split)
  have named: "NewLDAPProvider h n d c = Inr q \<Longrightarrow> lq_name q = n" for n d c q
    by (auto simp: NewLDAPProvider_def Let_def split: option.splits if_splits)
  show "add_provider h url p s \<noteq> Inl NilSection"
    using assms(1) new by (auto simp: add_provider_def safe_provider_def try_bind_def split: option.splits sum.splits)
  show "set_ok (ps @ [p]) s'" if "add_provider h url p s = Inr s'"
    using that assms safe_ldap_guarded named
    by (auto simp: add_provider_def safe_provider_def set_ok_def error_simps NewOIDCProvider_def split: option.splits if_splits)
qed

lemma add_providers_ok:
  assumes "list_all safe_provider ps" "set_ok qs s"
  shows "add_providers h url ps s \<noteq> Inl NilSection \<and> (\<forall>s'. add_providers h url ps s = Inr s' \<longrightarrow> set_ok (qs @ ps) s')"
  using assms
proof (induction ps arbitrary: qs s)
  case (Cons p ps)
  note one = add_provider_ok[of p qs s h url]
  show ?case
  proof (cases "add_provider h url p s")
    case (Inl e)
    then show ?thesis using one Cons.prems by (auto simp: try_bind_def)
  next
    case (Inr s1)
    then show ?thesis using one(2)[OF _ _ Inr] Cons.prems Cons.IH[of "qs @ [p]" s1] by (auto simp: try_bind_def)
  qed
qed simp

text \<open>
  C21. The providers of a configuration that \<^verbatim>\<open>Load\<close> accepted are built without a panic; the login page
  lists exactly the configured ones in their order, the password chain asks the LDAP ones in that
  order, no two single sign-on providers share a name, and every LDAP connection is under TLS to the
  host that its URL names, with verification unless the configuration turned it off, before a
  password is sent on it, unless the configuration allows plain text for it.
\<close>

theorem accepted_providers_are_guarded:
  assumes "Load h order path = Inr c"
  shows "BuildProviderSet h2 (cf_Authentication c) \<noteq> Inl NilSection
    \<and> (\<forall>s. BuildProviderSet h2 (cf_Authentication c) = Inr s \<longrightarrow>
        set_ok (au_Providers (cf_Authentication c)) s \<and> distinct (map o_name (ps_OIDC s)))"
proof -
  have a: "list_all safe_provider (au_Providers (cf_Authentication c))" "distinct (map ap_Name (au_Providers (cf_Authentication c)))"
    using accepted_config_safe[OF assms] by (simp_all add: safe_config_def safe_authentication_def)
  have "set_ok [] \<lparr>ps_Password = [], ps_OIDC = [], ps_Info = []\<rparr>" by (simp add: set_ok_def)
  note built = add_providers_ok[OF a(1) this, of h2 "au_PublicURL (cf_Authentication c)"]
  have "distinct (map o_name (ps_OIDC s))" if "set_ok (au_Providers (cf_Authentication c)) s" for s
    using that a(2) by (simp add: set_ok_def distinct_map_filter)
  then show ?thesis using built by (simp add: BuildProviderSet_def)
qed

lemma accepted_providers_are_guarded_witness:
  "\<exists>c s p. Load example_host (\<lambda>_. True) ''config.yaml'' = Inr c \<and> BuildProviderSet example_host (cf_Authentication c) = Inr s
     \<and> ps_Password s = [p] \<and> guarded_dial p"
proof -
  have l: "case Load example_host (\<lambda>_. True) ''config.yaml'' of
      Inr c \<Rightarrow> (case BuildProviderSet example_host (cf_Authentication c) of Inr s \<Rightarrow> length (ps_Password s) = 1 | Inl _ \<Rightarrow> False)
    | Inl _ \<Rightarrow> False"
    by code_simp
  then obtain c where c: "Load example_host (\<lambda>_. True) ''config.yaml'' = Inr c"
    "case BuildProviderSet example_host (cf_Authentication c) of Inr s \<Rightarrow> length (ps_Password s) = 1 | Inl _ \<Rightarrow> False"
    by (auto split: sum.splits)
  then obtain s where s: "BuildProviderSet example_host (cf_Authentication c) = Inr s" "length (ps_Password s) = 1"
    by (auto split: sum.splits)
  then obtain p where p: "ps_Password s = [p]" by (auto simp: length_Suc_conv)
  then have "guarded_dial p" using accepted_providers_are_guarded[OF c(1), of example_host] s(1) by (auto simp: set_ok_def)
  then show ?thesis using c(1) s(1) p by blast
qed

end
