(* ===== verification/Startup.thy ===== *)
theory Startup
  imports ClusterEdits ObservabilityProps ProviderSetup
begin

text \<open>
  The start of the process, the part of \<^verbatim>\<open>run\<close> in \<^verbatim>\<open>cmd/machmqtt-dashboard/main.go\<close> between the loaded
  configuration and the listener, and \<^verbatim>\<open>SetTrustedProxyCIDRs\<close> of \<^verbatim>\<open>internal/auth/auth.go\<close>: the users,
  the clusters, the authentication and the collectors put together. The directories behind the LDAP
  plans and listening on the address are parameters.
\<close>

section \<open>The steps\<close>

definition bootstrap_password :: "host \<Rightarrow> config \<Rightarrow> string" where
  "bootstrap_password h cfg =
    (let p = la_BootstrapPassword (au_Local (cf_Authentication cfg));
         p = (if p = [] then getenv h ''MACHMQTT_DASHBOARD_BOOTSTRAP_PASSWORD'' else p)
     in if p = [] then getenv h ''NATS_DASHBOARD_BOOTSTRAP_PASSWORD'' else p)"

text \<open>On an error the networks read so far stay; the result says whether all were read.\<close>

fun add_proxies :: "string list \<Rightarrow> ip_net list \<Rightarrow> ip_net list \<times> bool" where
  "add_proxies [] nets = (nets, True)"
| "add_proxies (c # cs) nets = (case ParseCIDR c of None \<Rightarrow> (nets, False) | Some n \<Rightarrow> add_proxies cs (nets @ [n]))"

definition SetTrustedProxyCIDRs :: "string list \<Rightarrow> auth \<Rightarrow> auth \<times> bool" where
  "SetTrustedProxyCIDRs cidrs a = (let (nets, all_read) = add_proxies cidrs [] in (a\<lparr>trustedProxies := nets\<rparr>, all_read))"

datatype startup_error =
    EnsureFailed store_error
  | SeedFailed cluster_error
  | ProvidersFailed setup_error
  | ProxiesFailed
  | ManagerFailed
  | ListenFailed

record startup_world =
  up_gen :: "string \<Rightarrow> string option"
  up_now :: gotime
  up_host :: host
  up_seed_fault :: db_faults
  up_seed :: "nat \<Rightarrow> db_faults \<times> string option \<times> gotime"
  up_connect :: "dial_plan \<Rightarrow> directory"
  up_cancelled :: "bool \<times> bool"
  up_list_fault :: db_faults
  up_listen :: bool

record running =
  ru_auth :: auth
  ru_manager :: manager

definition stored_clusters :: "startup_world \<Rightarrow> cluster_db \<Rightarrow> managed_cluster list option" where
  "stored_clusters w db = (case ListClusters (up_list_fault w) (up_host w) db of Inl e \<Rightarrow> None | Inr cs \<Rightarrow> Some (map managed cs))"

definition assemble :: "startup_world \<Rightarrow> config \<Rightarrow> store \<Rightarrow> cluster_db \<Rightarrow> startup_error + running" where
  "assemble w cfg st db = (case BuildProviderSet (up_host w) (cf_Authentication cfg) of
      Inl e \<Rightarrow> Inl (ProvidersFailed e)
    | Inr built \<Rightarrow>
        let (a, all_read) = SetTrustedProxyCIDRs (au_TrustedProxyCIDRs (cf_Authentication cfg))
              (NewWithProviderSet st (cf_SessionSecret cfg) (cf_SecureCookies cfg)
                (map (chain_provider (up_connect w) (up_cancelled w)) (ps_Password built)) (ps_OIDC built))
        in if \<not> all_read then Inl ProxiesFailed
           else case NewManager (NewFetcher (up_host w)) (cf_PollInterval cfg) (stored_clusters w db) of
             None \<Rightarrow> Inl ManagerFailed
           | Some g \<Rightarrow> if up_listen w then Inr \<lparr>ru_auth = a, ru_manager = Start g\<rparr> else Inl ListenFailed)"

definition startup :: "startup_world \<Rightarrow> config \<Rightarrow> store \<Rightarrow> cluster_db \<Rightarrow> (startup_error + running) \<times> store \<times> cluster_db" where
  "startup w cfg st db = (case EnsureBreakGlassAdmin (up_gen w) (up_now w) (bootstrap_password (up_host w) cfg) st of
      (Inl e, st) \<Rightarrow> (Inl (EnsureFailed e), st, db)
    | (Inr _, st) \<Rightarrow> (case SeedClusters (up_seed_fault w) (up_host w) (up_seed w) (cf_Environments cfg) db of
        ((Some e, _), db) \<Rightarrow> (Inl (SeedFailed e), st, db)
      | ((None, _), db) \<Rightarrow> (assemble w cfg st db, st, db)))"

text \<open>A configuration that was loaded names only networks that parse.\<close>

lemma all_proxies_read: "list_all (\<lambda>c. ParseCIDR c \<noteq> None) cs \<Longrightarrow> snd (add_proxies cs nets)"
  by (induction cs nets rule: add_proxies.induct) (auto split: option.split)

lemma accepted_proxies:
  assumes "Load h order path = Inr cfg"
  shows "assemble w cfg st db \<noteq> Inl ProxiesFailed"
proof -
  have "list_all (\<lambda>c. ParseCIDR c \<noteq> None) (au_TrustedProxyCIDRs (cf_Authentication cfg))"
    using accepted_config_safe[OF assms] by (simp add: safe_config_def safe_authentication_def)
  then have "snd (add_proxies (au_TrustedProxyCIDRs (cf_Authentication cfg)) [])" using all_proxies_read by blast
  then show ?thesis by (simp add: assemble_def SetTrustedProxyCIDRs_def case_prod_beta split: sum.split option.split)
qed

section \<open>The local administrator\<close>

lemma ensured_admin:
  assumes "EnsureBreakGlassAdmin gen now b st = (Inr x, st')"
  shows "has_local_admin st'"
proof -
  have e: "(\<exists>r\<in>set (users st). local_admin r) \<longleftrightarrow> filter local_admin (users st) \<noteq> []" by (auto simp: filter_empty_conv)
  consider "filter local_admin (users st) \<noteq> []" | r where "filter local_admin (users st) = []" "find_local ''admin'' st = Some r"
    | "filter local_admin (users st) = []" "find_local ''admin'' st = None" by (cases "find_local ''admin'' st") auto
  then show ?thesis
  proof cases
    case 1
    then show ?thesis using assms e by (auto simp: EnsureBreakGlassAdmin_def has_local_admin_def split: if_splits)
  next
    case 2
    then have r: "r \<in> set (users st)" "r_auth_provider r = ProviderLocal" by (auto simp: find_local_def dest: find_SomeD)
    have "st' = update_id (r_id r) (\<lambda>r. r\<lparr>r_role := RoleAdmin, r_must_change_password := True, r_token_version := r_token_version r + 1\<rparr>) st"
      using assms 2 by (auto simp: EnsureBreakGlassAdmin_def Let_def split: if_splits)
    then have "r\<lparr>r_role := RoleAdmin, r_must_change_password := True, r_token_version := r_token_version r + 1\<rparr> \<in> set (users st')"
      using r(1) by (force simp: update_id_def)
    then show ?thesis unfolding has_local_admin_def by (rule bexI[rotated]) (use r(2) in \<open>simp add: local_admin_def\<close>)
  next
    case 3
    then obtain u st1 where u: "CreateUser gen now ''admin'' b RoleAdmin st = (Inr u, st1)"
        "st' = update_id (ID u) (\<lambda>r. r\<lparr>r_must_change_password := True\<rparr>) st1"
      using assms by (auto simp: EnsureBreakGlassAdmin_def split: if_splits prod.splits sum.splits)
    then obtain hash where "st1 = insert_row (local_row now ''admin'' hash RoleAdmin) st"
      by (auto simp: CreateUser_def split: if_splits option.splits)
    then show ?thesis using u(2) by (auto simp: has_local_admin_def update_id_def local_admin_def insert_row_def local_row_def)
  qed
qed

lemma ensured_again:
  assumes "has_local_admin st" "EnsureBreakGlassAdmin gen now b st = (Inr x, st')"
  shows "st' = st"
  using assms by (auto simp: EnsureBreakGlassAdmin_def has_local_admin_def filter_empty_conv split: if_splits)

section \<open>The collectors\<close>

definition unpolled :: "manager \<Rightarrow> bool" where
  "unpolled g \<longleftrightarrow> (\<forall>(i, c)\<in>set (g_collectors g). k_polls c = 0)"

lemma keys_set: "fst ` set (gm_set k v m) = insert k (fst ` set m)"
  by (simp flip: dom_map_of_conv_image_fst)

lemma set_entries: "set (gm_set k v m) \<subseteq> insert (k, v) (set m)"
  by (induction m) (auto simp: gm_set_def split: if_splits)

lemma loaded_collectors:
  assumes "load_clusters build n cls m = Some m'" "\<forall>(i, c)\<in>set m. k_polls c = 0"
  shows "fst ` set m' = fst ` set m \<union> cl_ID ` set cls \<and> (\<forall>(i, c)\<in>set m'. k_polls c = 0)"
  using assms
proof (induction build n cls m rule: load_clusters.induct)
  case (2 build n cl cls m)
  have "\<forall>(i, c)\<in>set (gm_set (cl_ID cl) (newCollector (cl_env cl) n) m). k_polls c = 0"
    using "2.prems"(2) set_entries[of "cl_ID cl" "newCollector (cl_env cl) n" m] by (fastforce simp: newCollector_def)
  then show ?case using 2 by (auto simp: keys_set split: if_splits)
qed simp

lemma launched:
  assumes "unpolled g" "k_polls c = 0"
  shows "unpolled (launch i e c g)"
proof -
  have "k_polls (startCollector e c) = 0" using assms(2) by (simp add: startCollector_def Let_def split: option.split)
  then show ?thesis using assms(1) set_entries[of i "startCollector e c" "g_collectors g"]
    by (fastforce simp: unpolled_def launch_def)
qed

lemma launch_all:
  assumes "unpolled g" "\<forall>(i, c)\<in>set cs. k_polls c = 0"
  shows "unpolled (fold (\<lambda>(i, c). launch i (k_env c) c) cs g)
    \<and> fst ` set (g_collectors (fold (\<lambda>(i, c). launch i (k_env c) c) cs g)) = fst ` set (g_collectors g) \<union> fst ` set cs
    \<and> fst ` set (g_cancels (fold (\<lambda>(i, c). launch i (k_env c) c) cs g)) = fst ` set (g_cancels g) \<union> fst ` set cs"
  using assms
proof (induction cs arbitrary: g)
  case (Cons p cs)
  obtain i c where p: "p = (i, c)" by (cases p)
  have "unpolled (launch i (k_env c) c g)" using Cons.prems p by (auto intro: launched)
  moreover have "fst ` set (g_collectors (launch i (k_env c) c g)) = insert i (fst ` set (g_collectors g))"
    "fst ` set (g_cancels (launch i (k_env c) c g)) = insert i (fst ` set (g_cancels g))"
    by (simp_all add: launch_def keys_set)
  ultimately show ?case using Cons p by simp
qed simp

lemma started_manager:
  assumes "NewManager build n stored = Some g"
  shows "\<exists>cls. stored = Some cls \<and> unpolled (Start g) \<and> fst ` set (g_collectors (Start g)) = cl_ID ` set cls
    \<and> fst ` set (g_cancels (Start g)) = cl_ID ` set cls"
proof -
  obtain cls m where m: "stored = Some cls" "load_clusters build n cls [] = Some m"
      "g = \<lparr>g_collectors = m, g_cancels = [], g_started = False, g_interval = n\<rparr>"
    using assms by (auto simp: NewManager_def split: option.splits)
  have l: "fst ` set m = cl_ID ` set cls" "\<forall>(i, c)\<in>set m. k_polls c = 0" using loaded_collectors[OF m(2)] by simp_all
  show ?thesis using launch_all[of "g\<lparr>g_started := True\<rparr>" m] l m by (auto simp: Start_def unpolled_def)
qed

lemma stored_ids:
  assumes "stored_clusters w db = Some cls"
  shows "cl_ID ` set cls = kr_id ` set (kd_clusters db)"
proof -
  have scan: "scan_clusters h rs = Inr cs \<Longrightarrow> map kl_ID cs = map kr_id rs" for h rs cs
  proof (induction rs arbitrary: cs)
    case (Cons r rs)
    then obtain c cs' where c: "scanCluster h r = Inr c" "scan_clusters h rs = Inr cs'" "cs = c # cs'"
      by (auto simp: error_simps)
    have "kl_ID c = kr_id r" using c(1) by (auto simp: scanCluster_def error_simps)
    then show ?case using Cons c by simp
  qed simp
  obtain cs where cs: "ListClusters (up_list_fault w) (up_host w) db = Inr cs" "cls = map managed cs"
    using assms by (auto simp: stored_clusters_def split: sum.splits)
  then have "map kl_ID cs = map kr_id (sort_key kr_name (kd_clusters db))"
    using scan by (auto simp: ListClusters_def error_simps)
  then have "kl_ID ` set cs = kr_id ` set (kd_clusters db)" by (metis set_map set_sort)
  then show ?thesis by (simp add: cs(2) managed_def image_image)
qed

section \<open>The running dashboard\<close>

lemma assembled:
  assumes "assemble w cfg st db = Inr r"
  shows "\<exists>cls g. stored_clusters w db = Some cls \<and> NewManager (NewFetcher (up_host w)) (cf_PollInterval cfg) (Some cls) = Some g
    \<and> ru_manager r = Start g \<and> a_store (ru_auth r) = st"
proof -
  obtain s where p: "BuildProviderSet (up_host w) (cf_Authentication cfg) = Inr s"
    using assms by (auto simp: assemble_def split: sum.splits)
  let ?a = "NewWithProviderSet st (cf_SessionSecret cfg) (cf_SecureCookies cfg)
    (map (chain_provider (up_connect w) (up_cancelled w)) (ps_Password s)) (ps_OIDC s)"
  obtain nets all_read where n: "SetTrustedProxyCIDRs (au_TrustedProxyCIDRs (cf_Authentication cfg)) ?a = (?a\<lparr>trustedProxies := nets\<rparr>, all_read)"
    by (cases "add_proxies (au_TrustedProxyCIDRs (cf_Authentication cfg)) []") (simp add: SetTrustedProxyCIDRs_def)
  obtain g where g: "NewManager (NewFetcher (up_host w)) (cf_PollInterval cfg) (stored_clusters w db) = Some g"
      "r = \<lparr>ru_auth = ?a\<lparr>trustedProxies := nets\<rparr>, ru_manager = Start g\<rparr>"
    using assms by (auto simp: assemble_def p n split: if_splits option.splits)
  then obtain cls where "stored_clusters w db = Some cls" using started_manager by blast
  then show ?thesis using g by (auto simp: NewWithProviderSet_def)
qed

lemma started_steps:
  assumes "startup w cfg st db = (Inr r, st', db')"
  shows "(\<exists>x. EnsureBreakGlassAdmin (up_gen w) (up_now w) (bootstrap_password (up_host w) cfg) st = (Inr x, st'))
    \<and> (\<exists>n. SeedClusters (up_seed_fault w) (up_host w) (up_seed w) (cf_Environments cfg) db = ((None, n), db'))
    \<and> assemble w cfg st' db' = Inr r"
  using assms by (auto simp: startup_def split: prod.splits sum.splits option.splits)

lemma started_dashboard:
  assumes "startup w cfg st db = (Inr r, st', db')" "store_inv st"
  shows "a_store (ru_auth r) = st' \<and> store_inv st' \<and> has_local_admin st'"
    and "e_Name ` set (cf_Environments cfg) - {[]} \<subseteq> kr_name ` set (kd_clusters db')"
    and "fst ` set (g_collectors (ru_manager r)) = kr_id ` set (kd_clusters db')
      \<and> fst ` set (g_cancels (ru_manager r)) = kr_id ` set (kd_clusters db')"
    and "kd_clusters db' \<noteq> [] \<Longrightarrow> handleReadiness True True now (Some (ru_manager r)) = Refuse 503 ''not ready''"
    and "startup w2 cfg st' db' = (Inr r2, st2, db2) \<Longrightarrow> st2 = st' \<and> db2 = db'"
proof -
  note s = started_steps[OF assms(1)]
  obtain x n where x: "EnsureBreakGlassAdmin (up_gen w) (up_now w) (bootstrap_password (up_host w) cfg) st = (Inr x, st')"
    "SeedClusters (up_seed_fault w) (up_host w) (up_seed w) (cf_Environments cfg) db = ((None, n), db')" using s by blast
  obtain cls g where g: "stored_clusters w db' = Some cls" "NewManager (NewFetcher (up_host w)) (cf_PollInterval cfg) (Some cls) = Some g"
    "ru_manager r = Start g" "a_store (ru_auth r) = st'" using assembled s by blast
  have admin: "has_local_admin st'" using ensured_admin[OF x(1)] .
  have "store_inv st'" using table_update_keeps(1)[OF Ensure_update[of st "up_gen w" "up_now w" "bootstrap_password (up_host w) cfg"]] assms(2) x(1)
    by simp
  then show "a_store (ru_auth r) = st' \<and> store_inv st' \<and> has_local_admin st'" using g(4) admin by simp
  show "e_Name ` set (cf_Environments cfg) - {[]} \<subseteq> kr_name ` set (kd_clusters db')"
    using seeding_is_idempotent[OF x(2), of "up_seed_fault w" "up_host w" "up_seed w"] by (cases "cf_Environments cfg = []") auto
  have m: "unpolled (Start g)" "fst ` set (g_collectors (Start g)) = kr_id ` set (kd_clusters db')"
      "fst ` set (g_cancels (Start g)) = kr_id ` set (kd_clusters db')"
    using started_manager[OF g(2)] stored_ids[OF g(1)] by auto
  then show "fst ` set (g_collectors (ru_manager r)) = kr_id ` set (kd_clusters db')
      \<and> fst ` set (g_cancels (ru_manager r)) = kr_id ` set (kd_clusters db')" using g(3) by simp
  show "handleReadiness True True now (Some (ru_manager r)) = Refuse 503 ''not ready''" if "kd_clusters db' \<noteq> []"
  proof -
    have "g_collectors (Start g) \<noteq> []" using m(2) that by auto
    then obtain i c where "(i, c) \<in> set (g_collectors (Start g))" by (cases "g_collectors (Start g)") auto
    then show ?thesis using m(1) g(3) not_ready[of i c "Start g"] by (auto simp: unpolled_def)
  qed
  show "st2 = st' \<and> db2 = db'" if again: "startup w2 cfg st' db' = (Inr r2, st2, db2)"
  proof -
    obtain y k where y: "EnsureBreakGlassAdmin (up_gen w2) (up_now w2) (bootstrap_password (up_host w2) cfg) st' = (Inr y, st2)"
      "SeedClusters (up_seed_fault w2) (up_host w2) (up_seed w2) (cf_Environments cfg) db' = ((None, k), db2)"
      using started_steps[OF again] by blast
    have "db2 = db'"
    proof (cases "cf_Environments cfg = []")
      case True
      then show ?thesis using y(2) by (simp add: SeedClusters_def)
    next
      case False
      then obtain cs where "ListClusters (up_seed_fault w2) (up_host w2) db' = Inr cs"
        using y(2) by (auto simp: SeedClusters_def split: sum.splits)
      then show ?thesis using seeding_is_idempotent[OF x(2), of "up_seed_fault w2" "up_host w2" "up_seed w2"] y(2) by auto
    qed
    then show ?thesis using ensured_again[OF admin y(1)] by simp
  qed
qed

text \<open>
  C7. A start that succeeds leaves a dashboard one can sign in to and that watches everything it knows:
  the user table keeps its constraints and has a local administrator, every named environment of the
  configuration is a stored cluster, exactly the stored clusters have a collector and run its
  goroutines, and while there is one the dashboard is not ready yet. A restart with the same
  configuration, whatever the database or the random source do in it, changes neither users nor clusters.
\<close>

theorem startup_establishes:
  assumes "startup w cfg st db = (Inr r, st', db')" "store_inv st"
  shows "a_store (ru_auth r) = st' \<and> store_inv st' \<and> has_local_admin st'
    \<and> e_Name ` set (cf_Environments cfg) - {[]} \<subseteq> kr_name ` set (kd_clusters db')
    \<and> fst ` set (g_collectors (ru_manager r)) = kr_id ` set (kd_clusters db')
    \<and> fst ` set (g_cancels (ru_manager r)) = kr_id ` set (kd_clusters db')
    \<and> (kd_clusters db' \<noteq> [] \<longrightarrow> handleReadiness True True now (Some (ru_manager r)) = Refuse 503 ''not ready'')
    \<and> (\<forall>w2 r2 st2 db2. startup w2 cfg st' db' = (Inr r2, st2, db2) \<longrightarrow> st2 = st' \<and> db2 = db')"
  using started_dashboard[OF assms] by simp

definition no_directory :: directory where
  "no_directory = \<lparr>dial = False, ldap_bind = (\<lambda>_ _. BindError), search_users = (\<lambda>_ _. None), search_groups = (\<lambda>_ _. None),
     EscapeFilter = (\<lambda>s. s), first_rdn = (\<lambda>_. None)\<rparr>"

definition demo_world :: startup_world where
  "demo_world = \<lparr>up_gen = Some, up_now = 5, up_host = demo_host, up_seed_fault = (\<lambda>_. None),
     up_seed = (\<lambda>_. (\<lambda>_. None, Some ''i'', 5)), up_connect = (\<lambda>_. no_directory), up_cancelled = (False, False), up_list_fault = (\<lambda>_. None), up_listen = True\<rparr>"

definition demo_config :: config where
  "demo_config = default_config\<lparr>cf_Environments := [demo_environment], cf_Authentication := (cf_Authentication default_config)\<lparr>
     au_Local := (au_Local (cf_Authentication default_config))\<lparr>la_BootstrapPassword := ''correct horse battery''\<rparr>\<rparr>\<rparr>"

lemma demo_start:
  "\<exists>r st' db'. startup demo_world demo_config \<lparr>users = [], next_id = 1, db_up = True\<rparr> \<lparr>kd_clusters = [], kd_tables = no_rows\<rparr> = (Inr r, st', db')
    \<and> kd_clusters db' \<noteq> []"
proof -
  define c where "c = (ClusterFromEnvironment demo_environment)\<lparr>kl_ID := ''i'', kl_CreatedAt := 5\<rparr>"
  define db' :: cluster_db where "db' = \<lparr>kd_clusters = [cluster_row_of c], kd_tables = no_rows\<rparr>"
  have seed: "SeedClusters (\<lambda>_. None) demo_host (\<lambda>_. (\<lambda>_. None, Some ''i'', 5)) [demo_environment] \<lparr>kd_clusters = [], kd_tables = no_rows\<rparr> = ((None, 1), db')"
    by (simp add: SeedClusters_def ListClusters_def CreateCluster_def check_cluster_def Let_def db'_def c_def
        ClusterFromEnvironment_def demo_environment_def demo_cluster_def ToEnvironment_def)
  have "scanCluster demo_host (cluster_row_of c) = Inr c"
    by (rule scan_written_in_memory) (simp_all add: c_def demo_environment_def demo_cluster_def ToEnvironment_def ClusterFromEnvironment_def
        ports_in_range_def cas_in_memory_def ca_in_memory_def natsConnTLS_def)
  then have l: "ListClusters (\<lambda>_. None) demo_host db' = Inr [c]" by (simp add: ListClusters_def db'_def)
  have t: "kl_TLS c = None" by (simp add: c_def demo_environment_def demo_cluster_def ToEnvironment_def ClusterFromEnvironment_def)
  have a: "\<exists>r. assemble demo_world demo_config st db' = Inr r" for st
    using l t by (simp add: assemble_def demo_world_def demo_config_def default_config_def BuildProviderSet_def SetTrustedProxyCIDRs_def stored_clusters_def
        NewManager_def managed_def ToEnvironment_def NewFetcher_def)
  have b: "bootstrap_password demo_host demo_config = ''correct horse battery''"
    by (simp add: bootstrap_password_def demo_config_def default_config_def)
  obtain u st' where "EnsureBreakGlassAdmin Some 5 ''correct horse battery'' \<lparr>users = [], next_id = 1, db_up = True\<rparr> = (Inr u, st')"
    by (simp add: EnsureBreakGlassAdmin_def find_local_def CreateUser_def)
  then show ?thesis using seed a[of st'] b
    by (auto simp: startup_def demo_world_def demo_config_def db'_def)
qed

lemma startup_establishes_witness:
  "\<exists>r st' db'. startup demo_world demo_config \<lparr>users = [], next_id = 1, db_up = True\<rparr> \<lparr>kd_clusters = [], kd_tables = no_rows\<rparr> = (Inr r, st', db')
    \<and> has_local_admin st' \<and> handleReadiness True True 9 (Some (ru_manager r)) = Refuse 503 ''not ready''"
proof -
  obtain r st' db' where d: "startup demo_world demo_config \<lparr>users = [], next_id = 1, db_up = True\<rparr> \<lparr>kd_clusters = [], kd_tables = no_rows\<rparr> = (Inr r, st', db')"
    "kd_clusters db' \<noteq> []" using demo_start by blast
  show ?thesis using startup_establishes[OF d(1), of 9] d by (simp add: store_inv_def)
qed

end
