(* ===== verification/Spec2Isabelle.thy ===== *)
theory Spec2Isabelle
  imports LogBuf Auth Topology ScrapeProps TrustedHosts MetricSample MetricsQueryProps MigratedSchema ClusterEdits MqttApiProps BridgeDocs ObservabilityProps Startup
begin

text \<open>
  \<^bold>\<open>The MachMQTT dashboard, modelled and verified.\<close>

  The dashboard is one Go process. It polls the monitoring endpoints of NATS clusters, finds the MQTT
  bridges attached to them, keeps a snapshot per cluster, writes time series to SQLite and shows all of
  it to signed-in users over HTTP and WebSocket. This development translates its Go code into HOL,
  component by component, and proves what makes each of them correct and what holds where they meet.

  \<^bold>\<open>The program's parts and the theories that model them.\<close> Paths are below \<^verbatim>\<open>src/internal\<close>; a definition has
  the name of the Go function, or that name with the receiver's in front where two share it. A receiver
  is a record argument, a changed one is returned, an error is \<open>Inl\<close> or \<open>None\<close>.

  \<^item> Foundations: \<open>Prelude\<close> (Go maps as association lists, error chaining, the collections of simplification
    rules), \<open>GoLib\<close> (\<^verbatim>\<open>strings\<close>, \<^verbatim>\<open>strconv\<close>, \<^verbatim>\<open>net\<close>), \<open>Decimal\<close>, \<open>Float64\<close> and \<open>GoFloat\<close> (float64 with rounding after each
    operation, and its parser), \<open>GoUrl\<close> and \<open>UrlText\<close> (\<^verbatim>\<open>url.Parse\<close>, \<^verbatim>\<open>URL.String\<close> and their round trip).
  \<^item> Sign-in (\<^verbatim>\<open>store/store.go\<close>, \<^verbatim>\<open>auth\<close>): \<open>UserStore\<close> is the users table with lockout, break-glass administrator and
    token versions; \<open>Providers\<close>, \<open>Ldap\<close> and \<open>Oidc\<close> are the chain of identity providers,
    which \<open>ProviderSetup\<close> builds from the configuration; \<open>RateLimiter\<close> and \<open>ClientIP\<close> limit
    attempts per address; \<open>Auth\<close> issues and checks sessions and holds the handlers.
  \<^item> Observation (\<^verbatim>\<open>collector\<close>): \<open>Types\<close> and \<open>Snapshot\<close> are the NATS documents and the rates; \<open>Discovery\<close> finds bridges
    in connection lists; \<open>Topology\<close> is the graph; \<open>MqttTypes\<close>, \<open>BridgeDocs\<close>, \<open>MetricTables\<close>, \<open>PromLexer\<close> and
    \<open>MetricsParser\<close> read a bridge's documents and its Prometheus counters; \<open>Subscriber\<close> and \<open>SysCollector\<close> are the
    NATS push paths over the contract of \<open>TtlCache\<close>; \<open>Fetcher\<close> is the HTTP side; \<open>Collector\<close> polls one cluster and
    \<open>Manager\<close> runs a collector per cluster.
  \<^item> Storage: \<open>ConfigModel\<close> (\<^verbatim>\<open>config/config.go\<close>); \<open>Migrations\<close> (the versioned schema changes of \<^verbatim>\<open>store/store.go\<close>);
    \<open>ClusterCodec\<close>, \<open>ClusterStore\<close> and \<open>EnvTables\<close> (clusters with their JSON columns, layouts, bridge records and the
    cascade of a deletion); \<open>MetricsStore\<close> over the contract of \<open>Queues\<close>, \<open>MetricSample\<close> and \<open>MetricsQuery\<close> (the writer's
    queue and tables, the sample of a poll, the series that are read back).
  \<^item> API (\<^verbatim>\<open>api\<close>, \<^verbatim>\<open>ws\<close>, \<^verbatim>\<open>logbuf\<close>): \<open>Routes\<close> (the route tables and the guards around them), \<open>ClusterApi\<close> (cluster
    administration with secrets that are never shown), \<open>EnvApi\<close> with \<open>ConnPages\<close> and \<open>SubsRows\<close> (the views of one
    environment), \<open>MqttApi\<close> with \<open>BridgeCaches\<close> (bridge views and actions), \<open>Observability\<close> and \<open>MetricsPage\<close> (request log,
    counters, probes, the metrics page), \<open>WsHub\<close> (viewers and their queues) and \<open>LogBuf\<close> (the log ring).
  \<^item> \<open>Startup\<close>: the part of \<^verbatim>\<open>cmd/machmqtt-dashboard/main.go\<close> that puts users, clusters, authentication and
    collectors together.

  \<^bold>\<open>How they interact.\<close> A request passes the guards of \<open>Routes\<close>, which call \<open>Middleware\<close> of \<open>Auth\<close> and so the users
  table at every request. Cluster administration writes \<open>ClusterStore\<close> and then tells \<open>Manager\<close>, whose collectors
  the environment and bridge handlers read. A poll ends in a snapshot, from which \<open>MetricSample\<close> sends rows to
  the writer and frames to the hub. Concurrency appears as the order of steps: an operation that holds a
  lock is one step; a goroutine that reads and later writes is two, with any other steps between them
  (discovery in \<open>Collector\<close>, probes in \<open>BridgeCaches\<close>, requests in \<open>Observability\<close>, the pumps in \<open>WsHub\<close>).

  \<^bold>\<open>What is shown.\<close> Each component has its invariant, kept by every operation, and its behaviour against a
  specification where it has one: a sliding window for the limiter, the last records for the ring, the
  accepted samples for the metrics tables, the last message per bridge for the push cache, the rule of silence for the
  change between $SYS and HTTP, the sorted list of all connections for the paged one. The theories whose
  names end in \<open>Props\<close> hold those of the larger components (\<open>MigratedSchema\<close>, \<open>ClusterEdits\<close> and \<open>TrustedHosts\<close> as well). Theorems that
  span components: no request reaches a handler it may not call (\<open>Routes\<close>), an ended session is never
  served again (\<open>Auth\<close>), an unchanged edit of a cluster keeps every secret and no request brings a file path into the
  database (\<open>ClusterEdits\<close>, \<open>ClusterApiProps\<close>), a stored sample is queried back (\<open>MetricsQueryProps\<close>), migrations can be
  interrupted anywhere (\<open>MigrationProps\<close>), a successful start is complete and repeatable (\<open>Startup\<close>), and the admin token stays with
  trusted hosts during discovery (below). Some theorems state what the code does against its documents: a
  discovered bridge gets the token once somebody opens it (\<open>MqttApiProps\<close>), an unreadable cluster loses its token in an edit
  (\<open>ClusterEdits\<close>), a bridge's series fails over rows from before a migration (\<open>MetricsQueryProps\<close>), and a changed cluster
  makes the whole dashboard unready (\<open>ObservabilityProps\<close>).

  \<^bold>\<open>Interfaces.\<close> \<open>password_provider\<close> (interpreted by LDAP), \<open>counter_rate\<close> (by the clamped rate and the link rate),
  \<open>bounded_queue\<close> (by the metrics writer and a viewer's queue), \<open>ttl_cache\<close> (by both push caches) and \<open>fresh_cache\<close> (by the
  subscription rows and the bridge bodies) are locales; their lemmas reach the components through the interpretations.

  \<^bold>\<open>Numbers, bounds and loops.\<close> Counters that wrap are 64-bit words; a time is its nanoseconds; other \<^verbatim>\<open>int64\<close> values
  are integers, with \<open>wrap64\<close> where the code can overflow. The code's own bounds are kept: 10000 tracked addresses and
  ten attempts in five minutes, ten wrong passwords in fifteen minutes, 64 frames per viewer and a close at 128 drops, a queue of 256 samples,
  10000 rows per prune, 50000 connections of a server and 100000 rows of a listing, caches of 15, 5 and 3 seconds. Every
  recursion ends by structure or by a proved measure; the page loop of \<open>ConnPages\<close> is bounded by the row cap, since every page it continues
  after adds a row, and the retry loop of \<open>Subscriber\<close> by its list of delays.

  \<^bold>\<open>Parameters.\<close> What is not in the repository is an argument: the network (a function from a request to an answer
  or nothing), the database's failures (one possible error per call), clocks and random bytes, password hashing, the JWT, LDAP and OIDC libraries, the YAML
  and PEM decoders, the files that are read, and bodies of bridges that are only relayed. Hypotheses about them say what
  their documentation says, and each theorem with one has an instance in which it holds.

  \<^bold>\<open>Not modelled.\<close> Flags, signals, the listener and the order of the shutdown in \<^verbatim>\<open>main.go\<close>; opening, locking and
  backing up the database file, which are calls of SQLite and the file system; the embedded web pages, the security headers and
  the body limit, which keep no state; TLS transports beyond the choice of the root certificates; the text of JSON answers, of log lines and of the
  Prometheus exposition written by the dashboard; the internals of SQLite, of the HTTP server and of the WebSocket library; the browser
  interface, which is TypeScript; test helpers and demo programs.
\<close>

section \<open>Properties that span components\<close>

text \<open>
  C3. Whatever polls, messages, reconfigurations and discoveries a collector goes through, a probe of the
  bridge discovery carries an admin token only if that token is the one of an environment the
  collector has had, and the probed host is a loopback address, localhost or a host that this very
  environment names in its URLs or trusts explicitly: a NATS client that merely calls itself a
  bridge never gets it, and a token is never sent to the hosts of another configuration.
\<close>

theorem discovery_token_stays_home:
  assumes "k = fold collector_step evs (newCollector env0 interval\<lparr>k_subscriber := mq, k_sys := sys\<rparr>)"
    "(host, url, token) \<in> set (snd (finish_discovery probe cancelled k))" "token \<noteq> []"
  shows "\<exists>env\<in>insert env0 (environments_of evs). token = e_AdminToken env
    \<and> ((case ParseIP host of Some ip \<Rightarrow> IsLoopback ip | None \<Rightarrow> False) \<or> ToLower host = ''localhost''
       \<or> ToLower host \<in> set (DiscoveryTrustedHosts env))"
proof -
  let ?k0 = "newCollector env0 interval\<lparr>k_subscriber := mq, k_sys := sys\<rparr>"
  have "k_inflight ?k0 = None" "k_env ?k0 = env0" by (simp_all add: newCollector_def)
  then have "knows_only (insert env0 (environments_of evs)) k"
    using run_knows_only[of ?k0 evs] by (simp add: assms(1))
  from finished_requests_trusted[OF this assms(2,3)] show ?thesis
    by (simp add: discoveryHostTrusted_def)
qed

definition bridge_replies :: "string \<Rightarrow> server_replies" where
  "bridge_replies url = (example_replies ''A'')\<lparr>rf_connz := Some \<lparr>cz_ServerID = ''A'', cz_NumConns = 1, cz_Total = 1,
     cz_Offset = 0, cz_Limit = 9, cz_Conns = [conn_example ''10.0.0.2'']\<rparr>\<rparr>"

lemma discovery_token_stays_home_witness:
  "ToLower ''10.0.0.2'' \<in> set (DiscoveryTrustedHosts example_environment) \<or> ToLower ''10.0.0.2'' = ''localhost''
    \<or> (case ParseIP ''10.0.0.2'' of Some ip \<Rightarrow> IsLoopback ip | None \<Rightarrow> False)"
proof -
  define k where "k = fold collector_step [FirstPoll (example_clock 5) (\<lambda>_. silent_world) bridge_replies (take 1), DiscoveryBegins]
        (newCollector example_environment (30 * second)\<lparr>k_subscriber := None, k_sys := None\<rparr>)"
  have t: "discoveryHostTrusted ''10.0.0.2'' (DiscoveryTrustedHosts example_environment)" by code_simp
  have e: "MQTTDiscoveryPorts example_environment = [8080]" "ResolveBridgeToken example_environment [] = ''tok''"
    by (simp_all add: MQTTDiscoveryPorts_def ResolveBridgeToken_def example_environment_def)
  obtain s p where k: "k_inflight k = Some (s, p, example_environment)"
      "Connz s = [(''A'', \<lparr>cz_ServerID = ''A'', cz_NumConns = 1, cz_Total = 1,
        cz_Offset = 0, cz_Limit = 9, cz_Conns = [conn_example ''10.0.0.2'']\<rparr>)]"
    by (simp add: k_def collector_step_def poll_def poll_body_def poll_http_def newCollector_def example_environment_def
        fetchServer_def bridge_replies_def example_replies_def keep_reply_def gm_set_def empty_snapshot_def zero_varz_def
        maybeDiscoverBridges_def shouldConnzScan_def MQTTDiscoveryEnabled_def begin_discovery_def Let_def)
  have c: "bridge_conns s = [((''A'', ''10.0.0.2''), conn_example ''10.0.0.2'')]"
    using k(2) by (simp add: bridge_conns_def conn_example_def isMQTTBridgeConn_def resolveBridgeIP_def)
  have "(''10.0.0.2'', probe_url ''10.0.0.2'' 8080, ''tok'') \<in> set (snd (finish_discovery (\<lambda>u t. None) (\<lambda>_. False) k))"
    using t by (simp add: finish_discovery_def k(1) DiscoverMQTTBridges_def Let_def bridge_groups_def c add_to_group_def
        gm_set_def group_instance_IP e split: prod.split)
  from discovery_token_stays_home[OF k_def this] show ?thesis
    by (auto simp: environments_of_def)
qed

end
